(* ===== verification/Prelude.thy ===== *)
theory Prelude
  imports Complex_Main "HOL-Library.AList" "HOL-Library.List_Lexorder"
    "HOL-Library.Char_ord" "HOL-Library.Product_Lexorder"
begin

text \<open>
  What every component shares: Python exceptions as values, the error monad of the pure
  functions (\<open>exn + 'a\<close>), the state-and-error monad of the operations (\<open>('s, 'a) act\<close>),
  the preservation predicate \<open>keeps\<close> with its rules, and generic lemmas on association lists
  (a Python dict or a keyed SQL table) and on ordered selections.
\<close>

named_theorems keeps_rules \<open>preservation rules for the operations' building blocks\<close>
named_theorems effect \<open>the rules for what an operation may change\<close>
named_theorems upholds \<open>the rules for invariants that hold after every outcome\<close>

section \<open>Exceptions\<close>

text \<open>
  An exception is its class and the text \<open>str(exc)\<close> gives. \<open>KeyboardInterrupt\<close> and \<open>SystemExit\<close> are
  no \<open>Exception\<close>: only \<open>except BaseException\<close> sees them. \<open>ProcessKilled\<close> is not raised by the program:
  it stands for the process dying at that point, which no clause sees.
\<close>

datatype exn_class =
    ValueError | TypeError | KeyError | IndexError | AttributeError | OverflowError
  | RuntimeError | AmbiguousToolError | ToolPermissionError | IntegrityError | AssertionError
  | OSError | FileNotFoundError | RealLLMAPIError | SimulatedCrash | OtherException | KeyboardInterrupt | SystemExit | ProcessKilled

datatype exn = Exn (exn_class: exn_class) (exn_text: string)

definition is_exception :: "exn \<Rightarrow> bool" where
  "is_exception e \<longleftrightarrow> exn_class e \<notin> {KeyboardInterrupt, SystemExit, ProcessKilled}"

section \<open>The error monad\<close>

type_synonym 'a res = "exn + 'a"

abbreviation value_error :: "string \<Rightarrow> 'a res" where
  "value_error msg \<equiv> Inl (Exn ValueError msg)"

definition rbind :: "'a res \<Rightarrow> ('a \<Rightarrow> 'b res) \<Rightarrow> 'b res" where
  "rbind r f = (case r of Inl e \<Rightarrow> Inl e | Inr x \<Rightarrow> f x)"

lemma rbind_simps [simp]:
  "rbind (Inl e) f = Inl e"
  "rbind (Inr x) f = f x"
  by (simp_all add: rbind_def)

lemma rbind_eq_Inr: "rbind r f = Inr y \<longleftrightarrow> (\<exists>x. r = Inr x \<and> f x = Inr y)"
  by (cases r) simp_all

fun rmap :: "('a \<Rightarrow> 'b res) \<Rightarrow> 'a list \<Rightarrow> 'b list res" where
  "rmap f [] = Inr []"
| "rmap f (x # xs) = rbind (f x) (\<lambda>y. rbind (rmap f xs) (\<lambda>ys. Inr (y # ys)))"

lemma rmap_cong [fundef_cong]:
  "xs = ys \<Longrightarrow> (\<And>x. x \<in> set ys \<Longrightarrow> f x = g x) \<Longrightarrow> rmap f xs = rmap g ys"
  by (induction ys arbitrary: xs) auto

lemma rmap_map_Inr: "(\<And>x. x \<in> set xs \<Longrightarrow> f (g x) = Inr (h x)) \<Longrightarrow> rmap f (map g xs) = Inr (map h xs)"
  by (induction xs) auto

lemma rmap_eq_Inr_length: "rmap f xs = Inr ys \<Longrightarrow> length ys = length xs"
  by (induction xs arbitrary: ys) (auto simp: rbind_eq_Inr)

lemma rmap_eq_Inr_set: "rmap f xs = Inr ys \<Longrightarrow> y \<in> set ys \<Longrightarrow> \<exists>x\<in>set xs. f x = Inr y"
  by (induction xs arbitrary: ys) (auto simp: rbind_eq_Inr)

section \<open>The state-and-error monad\<close>

text \<open>
  An operation maps a state to a result or an exception and the state it leaves behind. The
  state survives an exception: only a transaction rolls back.
\<close>

type_synonym ('s, 'a) act = "'s \<Rightarrow> 'a res \<times> 's"

definition ret :: "'a \<Rightarrow> ('s, 'a) act" where
  "ret x s = (Inr x, s)"

definition raise :: "exn \<Rightarrow> ('s, 'a) act" where
  "raise e s = (Inl e, s)"

definition lift :: "'a res \<Rightarrow> ('s, 'a) act" where
  "lift r s = (r, s)"

definition gets :: "('s \<Rightarrow> 'a) \<Rightarrow> ('s, 'a) act" where
  "gets f s = (Inr (f s), s)"

definition modify :: "('s \<Rightarrow> 's) \<Rightarrow> ('s, unit) act" where
  "modify f s = (Inr (), f s)"

definition bind :: "('s, 'a) act \<Rightarrow> ('a \<Rightarrow> ('s, 'b) act) \<Rightarrow> ('s, 'b) act" where
  "bind m f s = (case m s of (Inl e, s') \<Rightarrow> (Inl e, s') | (Inr x, s') \<Rightarrow> f x s')"

text \<open>\<open>try_catch m h\<close> is \<open>try: m except Exception: h\<close>.\<close>

definition try_catch :: "('s, 'a) act \<Rightarrow> (exn \<Rightarrow> ('s, 'a) act) \<Rightarrow> ('s, 'a) act" where
  "try_catch m h s = (case m s of
     (Inl e, s') \<Rightarrow> if is_exception e then h e s' else (Inl e, s')
   | (Inr x, s') \<Rightarrow> (Inr x, s'))"

abbreviation require :: "bool \<Rightarrow> string \<Rightarrow> ('s, unit) act" where
  "require b msg \<equiv> (if b then ret () else raise (Exn ValueError msg))"

fun for_each :: "('a \<Rightarrow> ('s, 'b) act) \<Rightarrow> 'a list \<Rightarrow> ('s, 'b list) act" where
  "for_each f [] = ret []"
| "for_each f (x # xs) = bind (f x) (\<lambda>y. bind (for_each f xs) (\<lambda>ys. ret (y # ys)))"

lemma act_simps [simp]:
  "ret x s = (Inr x, s)"
  "raise e s = (Inl e, s)"
  "lift r s = (r, s)"
  "gets f s = (Inr (f s), s)"
  "modify g s = (Inr (), g s)"
  by (simp_all add: ret_def raise_def lift_def gets_def modify_def)

lemma bind_Inr: "m s = (Inr x, s') \<Longrightarrow> bind m f s = f x s'"
  by (simp add: bind_def)

lemma bind_Inl: "m s = (Inl e, s') \<Longrightarrow> bind m f s = (Inl e, s')"
  by (simp add: bind_def)

lemma bind_simps [simp]:
  "bind (ret x) f s = f x s"
  "bind (raise e) f s = (Inl e, s)"
  "bind (gets g) f s = f (g s) s"
  "bind (modify h) k s = k () (h s)"
  "bind (lift (Inl e)) f s = (Inl e, s)"
  "bind (lift (Inr x)) f s = f x s"
  by (simp_all add: bind_def)

lemma bind_eq_Inr:
  "bind m f s = (Inr y, s'') \<longleftrightarrow> (\<exists>x s'. m s = (Inr x, s') \<and> f x s' = (Inr y, s''))"
  by (auto simp: bind_def split: prod.splits sum.splits)

lemma bind_InrE:
  assumes "bind m f s = (Inr y, s'')"
  obtains x s' where "m s = (Inr x, s')" and "f x s' = (Inr y, s'')"
  using assms by (auto simp: bind_eq_Inr)

lemma bind_cases:
  assumes "bind m f s = (r, s'')"
  obtains (raised) e where "m s = (Inl e, s'')" and "r = Inl e"
    | (returned) x s' where "m s = (Inr x, s')" and "f x s' = (r, s'')"
  using assms by (auto simp: bind_def split: prod.splits sum.splits)

section \<open>Preservation\<close>

text \<open>
  \<open>keeps P m\<close>: an \<open>m\<close> that returns leaves a state in which \<open>P\<close> holds if it did before. Nothing
  is said of the state after an exception, which the enclosing transaction discards.
\<close>

definition keeps :: "('s \<Rightarrow> bool) \<Rightarrow> ('s, 'a) act \<Rightarrow> bool" where
  "keeps P m \<longleftrightarrow> (\<forall>s x s'. P s \<longrightarrow> m s = (Inr x, s') \<longrightarrow> P s')"

lemma keepsI: "(\<And>s x s'. P s \<Longrightarrow> m s = (Inr x, s') \<Longrightarrow> P s') \<Longrightarrow> keeps P m"
  by (auto simp: keeps_def)

lemma keepsD: "keeps P m \<Longrightarrow> m s = (Inr x, s') \<Longrightarrow> P s \<Longrightarrow> P s'"
  by (auto simp: keeps_def)

lemma keeps_ret [keeps_rules]: "keeps P (ret x)"
  by (simp add: keeps_def)

lemma keeps_raise [keeps_rules]: "keeps P (raise e)"
  by (simp add: keeps_def)

lemma keeps_lift [keeps_rules]: "keeps P (lift r)"
  by (simp add: keeps_def)

lemma keeps_gets [keeps_rules]: "keeps P (gets f)"
  by (simp add: keeps_def)

lemma keeps_modify [keeps_rules]: "(\<And>s. P s \<Longrightarrow> P (f s)) \<Longrightarrow> keeps P (modify f)"
  by (simp add: keeps_def)

lemma keeps_bind [keeps_rules]: "keeps P m \<Longrightarrow> (\<And>x. keeps P (f x)) \<Longrightarrow> keeps P (bind m f)"
  by (rule keepsI) (auto simp: bind_eq_Inr dest: keepsD)

lemma keeps_if [keeps_rules]: "(b \<Longrightarrow> keeps P m) \<Longrightarrow> (\<not> b \<Longrightarrow> keeps P n) \<Longrightarrow> keeps P (if b then m else n)"
  by simp

lemma keeps_case_option [keeps_rules]:
  "keeps P m \<Longrightarrow> (\<And>x. keeps P (f x)) \<Longrightarrow> keeps P (case z of None \<Rightarrow> m | Some x \<Rightarrow> f x)"
  by (cases z) simp_all

lemma keeps_case_prod [keeps_rules]: "(\<And>x y. keeps P (f x y)) \<Longrightarrow> keeps P (case z of (x, y) \<Rightarrow> f x y)"
  by (cases z) simp

lemma keeps_for_each [keeps_rules]: "(\<And>x. keeps P (f x)) \<Longrightarrow> keeps P (for_each f xs)"
  by (induction xs) (auto intro!: keeps_rules)

section \<open>Effects up to a preorder\<close>

text \<open>
  \<open>confined Q m\<close>: whatever \<open>m\<close> does, whether it returns or raises, leads from a state to one related
  by \<open>Q\<close>. For a preorder the constructs of the monad need no further proof.
\<close>

definition confined :: "('s \<Rightarrow> 's \<Rightarrow> bool) \<Rightarrow> ('s, 'a) act \<Rightarrow> bool" where
  "confined Q m \<longleftrightarrow> (\<forall>s. Q s (snd (m s)))"

lemma confinedI: "(\<And>s r s'. m s = (r, s') \<Longrightarrow> Q s s') \<Longrightarrow> confined Q m"
  by (metis confined_def prod.collapse)

lemma confinedD: "confined Q m \<Longrightarrow> m s = (r, s') \<Longrightarrow> Q s s'"
  by (metis confined_def snd_conv)

lemma confined_if [effect]: "(b \<Longrightarrow> confined Q m) \<Longrightarrow> (\<not> b \<Longrightarrow> confined Q n) \<Longrightarrow> confined Q (if b then m else n)"
  by simp

lemma confined_case_option [effect]:
  "confined Q m \<Longrightarrow> (\<And>x. z = Some x \<Longrightarrow> confined Q (f x)) \<Longrightarrow> confined Q (case z of None \<Rightarrow> m | Some x \<Rightarrow> f x)"
  by (cases z) simp_all

lemma confined_case_prod [effect]: "(\<And>x y. confined Q (f x y)) \<Longrightarrow> confined Q (case z of (x, y) \<Rightarrow> f x y)"
  by (cases z) simp

lemma confined_case_sum [effect]:
  "(\<And>x. confined Q (f x)) \<Longrightarrow> (\<And>y. confined Q (g y)) \<Longrightarrow> confined Q (case z of Inl x \<Rightarrow> f x | Inr y \<Rightarrow> g y)"
  by (cases z) simp_all

lemma confined_case_list [effect]:
  "confined Q m \<Longrightarrow> (\<And>x xs. confined Q (f x xs)) \<Longrightarrow> confined Q (case z of [] \<Rightarrow> m | x # xs \<Rightarrow> f x xs)"
  by (cases z) simp_all

lemma confined_Let [effect]: "(\<And>x. confined Q (f x)) \<Longrightarrow> confined Q (let x = v in f x)"
  by simp

locale effect_order =
  fixes Q :: "'s \<Rightarrow> 's \<Rightarrow> bool"
  assumes stays: "Q s s"
    and chains: "Q s s' \<Longrightarrow> Q s' s'' \<Longrightarrow> Q s s''"
begin

lemma ret [effect]: "confined Q (ret x)"
  by (simp add: confined_def stays)

lemma raise [effect]: "confined Q (raise e)"
  by (simp add: confined_def stays)

lemma lift [effect]: "confined Q (lift r)"
  by (simp add: confined_def stays)

lemma gets [effect]: "confined Q (gets f)"
  by (simp add: confined_def stays)

lemma bind [effect]: "confined Q m \<Longrightarrow> (\<And>x. confined Q (f x)) \<Longrightarrow> confined Q (bind m f)"
  by (rule confinedI) (auto simp: bind_def split: prod.splits sum.splits dest: confinedD intro: chains)

lemma try_catch [effect]: "confined Q m \<Longrightarrow> (\<And>e. confined Q (h e)) \<Longrightarrow> confined Q (try_catch m h)"
  by (rule confinedI) (auto simp: try_catch_def split: prod.splits sum.splits if_splits dest: confinedD intro: chains)

lemma for_each [effect]: "(\<And>x. confined Q (f x)) \<Longrightarrow> confined Q (for_each f xs)"
  by (induction xs) (auto intro!: ret bind)

end

section \<open>Invariants of every outcome\<close>

text \<open>
  \<open>maintains I J m\<close>: from a state with \<open>I\<close>, \<open>m\<close> leaves a state with \<open>I\<close> whether it returns or raises, and what it
  returns satisfies \<open>J\<close>.
\<close>

definition maintains :: "('s \<Rightarrow> bool) \<Rightarrow> ('a \<Rightarrow> bool) \<Rightarrow> ('s, 'a) act \<Rightarrow> bool" where
  "maintains I J m \<longleftrightarrow> (\<forall>s r s'. I s \<longrightarrow> m s = (r, s') \<longrightarrow> I s' \<and> (case r of Inl e \<Rightarrow> True | Inr x \<Rightarrow> J x))"

lemma maintainsI:
  "(\<And>s r s'. I s \<Longrightarrow> m s = (r, s') \<Longrightarrow> I s') \<Longrightarrow> (\<And>s x s'. I s \<Longrightarrow> m s = (Inr x, s') \<Longrightarrow> J x) \<Longrightarrow> maintains I J m"
  by (auto simp: maintains_def split: sum.splits)

lemma maintainsD: "maintains I J m \<Longrightarrow> I s \<Longrightarrow> m s = (r, s') \<Longrightarrow> I s'"
  by (simp add: maintains_def)

lemma maintains_InrD: "maintains I J m \<Longrightarrow> I s \<Longrightarrow> m s = (Inr x, s') \<Longrightarrow> J x"
  unfolding maintains_def by fastforce

lemma maintains_confined: "confined Q m \<Longrightarrow> (\<And>s s'. Q s s' \<Longrightarrow> I s \<Longrightarrow> I s') \<Longrightarrow> (\<And>x. J x) \<Longrightarrow> maintains I J m"
  by (rule maintainsI) (auto dest: confinedD)

lemma maintains_weaken: "maintains I K m \<Longrightarrow> (\<And>x. K x \<Longrightarrow> J x) \<Longrightarrow> maintains I J m"
  by (rule maintainsI) (auto dest: maintainsD maintains_InrD)

lemma maintains_ret [upholds]: "J x \<Longrightarrow> maintains I J (ret x)"
  by (simp add: maintains_def)

lemma maintains_raise [upholds]: "maintains I J (raise e)"
  by (simp add: maintains_def)

lemma maintains_lift: "(\<And>x. r = Inr x \<Longrightarrow> J x) \<Longrightarrow> maintains I J (lift r)"
  by (cases r) (simp_all add: maintains_def)

lemma maintains_bind:
  assumes "maintains I K m" and "\<And>x. K x \<Longrightarrow> maintains I J (f x)"
  shows "maintains I J (bind m f)"
proof (rule maintainsI)
  fix s r s' assume "I s" "bind m f s = (r, s')"
  then show "I s'"
    by (elim bind_cases) (blast dest: maintainsD [OF assms(1)] maintains_InrD [OF assms(1)] maintainsD [OF assms(2)])+
next
  fix s x s' assume "I s" "bind m f s = (Inr x, s')"
  then show "J x"
    by (elim bind_InrE) (blast dest: maintainsD [OF assms(1)] maintains_InrD [OF assms(1)] maintains_InrD [OF assms(2)])
qed

lemma maintains_then [upholds]: "maintains I (\<lambda>_. True) m \<Longrightarrow> (\<And>x. maintains I J (f x)) \<Longrightarrow> maintains I J (bind m f)"
  by (rule maintains_bind)

lemma maintains_if [upholds]: "(b \<Longrightarrow> maintains I J m) \<Longrightarrow> (\<not> b \<Longrightarrow> maintains I J n) \<Longrightarrow> maintains I J (if b then m else n)"
  by simp

lemma maintains_case_option [upholds]:
  "(z = None \<Longrightarrow> maintains I J m) \<Longrightarrow> (\<And>x. z = Some x \<Longrightarrow> maintains I J (f x)) \<Longrightarrow> maintains I J (case z of None \<Rightarrow> m | Some x \<Rightarrow> f x)"
  by (cases z) simp_all

section \<open>Returned values\<close>

lemma returned: "\<not> isl (fst (f w)) \<Longrightarrow> \<exists>x w'. f w = (Inr x, w')"
  by (cases "f w"; cases "fst (f w)") auto

section \<open>Association lists\<close>

text \<open>\<open>AList.update\<close> is what \<open>d[k] = v\<close> and \<open>ON CONFLICT DO UPDATE\<close> do: replace in place, or append.\<close>

lemma map_of_update [simp]: "map_of (AList.update k v al) = (map_of al)(k \<mapsto> v)"
  by (simp add: update_conv')

lemma keys_update: "fst ` set (AList.update k v al) = insert k (fst ` set al)"
  by (induction al) (auto split: prod.splits)

lemma distinct_update_keys: "distinct (map fst al) \<Longrightarrow> distinct (map fst (AList.update k v al))"
  by (rule distinct_update)

lemma in_update_iff:
  "distinct (map fst al) \<Longrightarrow>
    (k', v') \<in> set (AList.update k v al) \<longleftrightarrow> (if k' = k then v' = v else (k', v') \<in> set al)"
proof (induction al)
  case Nil
  then show ?case by auto
next
  case (Cons p al)
  then show ?case by (cases p) (auto simp: rev_image_eqI)
qed

lemma map_of_is_None_iff_keys: "map_of al k = None \<longleftrightarrow> k \<notin> fst ` set al"
  by (rule map_of_eq_None_iff)

section \<open>Ordered selections\<close>

lemma sort_key_id: "sorted (map f xs) \<Longrightarrow> sort_key f xs = xs"
  by (induction xs) (auto simp: insort_is_Cons)

lemma sort_key_filter_commute: "sort_key f (filter P xs) = filter P (sort_key f xs)"
  by (rule filter_sort [symmetric])

lemma find_SomeD: "find P xs = Some x \<Longrightarrow> x \<in> set xs \<and> P x"
  by (induction xs) (auto split: if_splits)

lemma distinct_mapD: "distinct (map f xs) \<Longrightarrow> x \<in> set xs \<Longrightarrow> y \<in> set xs \<Longrightarrow> f x = f y \<Longrightarrow> x = y"
  by (auto simp: distinct_map dest: inj_onD)

section \<open>Loops that only read\<close>

lemma for_each_pure:
  assumes "\<And>x y w w'. f x w = (Inr y, w') \<Longrightarrow> w' = w" and "for_each f xs w = (Inr ys, w')"
  shows "w' = w \<and> list_all2 (\<lambda>x y. f x w = (Inr y, w)) xs ys"
  using assms(2)
proof (induction xs arbitrary: ys)
  case (Cons x xs)
  then obtain y v zs where f: "f x w = (Inr y, v)" and rest: "for_each f xs v = (Inr zs, w')" and ys: "ys = y # zs"
    by (auto elim!: bind_InrE)
  have "v = w" using f by (rule assms(1))
  with Cons.IH [of zs] f rest ys show ?case by simp
qed simp

lemma list_all2_setD: "list_all2 P xs ys \<Longrightarrow> y \<in> set ys \<Longrightarrow> \<exists>x\<in>set xs. P x y"
  by (induction rule: list_all2_induct) auto

end
