(* ===== verification/Py_Value.thy ===== *)
theory Py_Value
  imports Prelude
begin

text \<open>
  The Python values the program stores and passes around: JSON values, dicts and strings.
  A dict is an association list in insertion order; \<open>AList.update\<close> is its item assignment. A
  string is a list of characters read as the code points 0 to 255. A float is an exact rational,
  an infinity or a NaN (rounding is not modelled). \<open>JTime t\<close> is the string \<open>t.isoformat()\<close>
  for the instant \<open>t\<close> in microseconds: the program writes and reads timestamps only in that form.
\<close>

section \<open>Values\<close>

datatype pyfloat = Fin rat | PInf | NInf | NaN

datatype json =
    JNull
  | JBool bool
  | JInt int
  | JFloat pyfloat
  | JStr string
  | JTime int
  | JList "json list"
  | JObj "(string \<times> json) list"

type_synonym dict = "(string \<times> json) list"

lemma confined_case_json [effect]:
  "confined Q a \<Longrightarrow> (\<And>x. confined Q (b x)) \<Longrightarrow> (\<And>x. confined Q (c x)) \<Longrightarrow> (\<And>x. confined Q (d x)) \<Longrightarrow>
   (\<And>x. confined Q (e x)) \<Longrightarrow> (\<And>x. confined Q (f x)) \<Longrightarrow> (\<And>x. confined Q (g x)) \<Longrightarrow> (\<And>x. confined Q (h x)) \<Longrightarrow>
   confined Q (case v of JNull \<Rightarrow> a | JBool x \<Rightarrow> b x | JInt x \<Rightarrow> c x | JFloat x \<Rightarrow> d x | JStr x \<Rightarrow> e x
     | JTime x \<Rightarrow> f x | JList x \<Rightarrow> g x | JObj x \<Rightarrow> h x)"
  by (cases v) simp_all

text \<open>\<open>d.get(k)\<close>, which is \<open>None\<close> for a missing key, and \<open>d.get(k, default)\<close>.\<close>

definition dict_get :: "dict \<Rightarrow> string \<Rightarrow> json" where
  "dict_get d k = (case map_of d k of None \<Rightarrow> JNull | Some v \<Rightarrow> v)"

definition dict_get_or :: "dict \<Rightarrow> string \<Rightarrow> json \<Rightarrow> json" where
  "dict_get_or d k v0 = (case map_of d k of None \<Rightarrow> v0 | Some v \<Rightarrow> v)"

definition dict_setdefault :: "string \<Rightarrow> json \<Rightarrow> dict \<Rightarrow> dict" where
  "dict_setdefault k v d = (if map_of d k = None then AList.update k v d else d)"

abbreviation jopt :: "('a \<Rightarrow> json) \<Rightarrow> 'a option \<Rightarrow> json" where
  "jopt f x \<equiv> (case x of None \<Rightarrow> JNull | Some y \<Rightarrow> f y)"

lemma dict_get_simps [simp]:
  "dict_get [] k = JNull"
  "dict_get ((k', v) # d) k = (if k = k' then v else dict_get d k)"
  by (simp_all add: dict_get_def)

lemma dict_get_or_simps [simp]:
  "dict_get_or [] k v0 = v0"
  "dict_get_or ((k', v) # d) k v0 = (if k = k' then v else dict_get_or d k v0)"
  by (simp_all add: dict_get_or_def)

lemma dict_get_update [simp]:
  "dict_get (AList.update k v d) k' = (if k' = k then v else dict_get d k')"
  by (simp add: dict_get_def)

fun is_str :: "json \<Rightarrow> bool" where
  "is_str (JStr s) = True"
| "is_str (JTime t) = True"
| "is_str _ = False"

fun is_obj :: "json \<Rightarrow> bool" where
  "is_obj (JObj d) = True"
| "is_obj _ = False"

section \<open>Numbers and equality\<close>

text \<open>\<open>bool\<close> is a subclass of \<open>int\<close>: \<open>isinstance(True, int)\<close> holds and \<open>True == 1\<close>.\<close>

fun as_int :: "json \<Rightarrow> int option" where
  "as_int (JInt i) = Some i"
| "as_int (JBool b) = Some (if b then 1 else 0)"
| "as_int _ = None"

fun as_number :: "json \<Rightarrow> pyfloat option" where
  "as_number (JFloat f) = Some f"
| "as_number (JInt i) = Some (Fin (of_int i))"
| "as_number (JBool b) = Some (Fin (if b then 1 else 0))"
| "as_number _ = None"

fun float_eq :: "pyfloat \<Rightarrow> pyfloat \<Rightarrow> bool" where
  "float_eq (Fin x) (Fin y) = (x = y)"
| "float_eq PInf PInf = True"
| "float_eq NInf NInf = True"
| "float_eq _ _ = False"

fun float_positive :: "pyfloat \<Rightarrow> bool" where
  "float_positive (Fin x) = (0 < x)"
| "float_positive PInf = True"
| "float_positive _ = False"

fun float_add :: "pyfloat \<Rightarrow> pyfloat \<Rightarrow> pyfloat" where
  "float_add (Fin x) (Fin y) = Fin (x + y)"
| "float_add NaN _ = NaN"
| "float_add _ NaN = NaN"
| "float_add PInf NInf = NaN"
| "float_add NInf PInf = NaN"
| "float_add PInf _ = PInf"
| "float_add _ PInf = PInf"
| "float_add NInf _ = NInf"
| "float_add _ NInf = NInf"

text \<open>\<open>a + b\<close> on numbers: \<open>int\<close> unless one side is a float.\<close>

definition num_add :: "json \<Rightarrow> json \<Rightarrow> json option" where
  "num_add a b = (case (as_int a, as_int b) of
     (Some i, Some j) \<Rightarrow> Some (JInt (i + j))
   | _ \<Rightarrow> (case (as_number a, as_number b) of
       (Some x, Some y) \<Rightarrow> Some (JFloat (float_add x y))
     | _ \<Rightarrow> None))"

lemma size_zip_left [termination_simp]:
  "(x, y) \<in> set (zip xs ys) \<Longrightarrow> size x < Suc (size_list size xs)"
  by (metis less_Suc_eq_le order_refl set_zip_leftD size_list_estimation')

text \<open>\<open>a == b\<close>: numbers by value, lists by position, dicts by key whatever the order.\<close>

fun py_eq :: "json \<Rightarrow> json \<Rightarrow> bool" where
  "py_eq (JList xs) (JList ys) = (length xs = length ys \<and> list_all (\<lambda>(x, y). py_eq x y) (zip xs ys))"
| "py_eq (JObj d) (JObj d') = (length d = length d' \<and>
     list_all (\<lambda>(k, v). case map_of d' k of None \<Rightarrow> False | Some v' \<Rightarrow> py_eq v v') d)"
| "py_eq JNull JNull = True"
| "py_eq (JStr s) (JStr s') = (s = s')"
| "py_eq (JTime t) (JTime t') = (t = t')"
| "py_eq a b = (case (as_number a, as_number b) of (Some x, Some y) \<Rightarrow> float_eq x y | _ \<Rightarrow> False)"

text \<open>\<open>bool(v)\<close>.\<close>

fun truthy :: "json \<Rightarrow> bool" where
  "truthy JNull = False"
| "truthy (JBool b) = b"
| "truthy (JInt i) = (i \<noteq> 0)"
| "truthy (JFloat f) = (f \<noteq> Fin 0)"
| "truthy (JStr s) = (s \<noteq> [])"
| "truthy (JTime t) = True"
| "truthy (JList xs) = (xs \<noteq> [])"
| "truthy (JObj d) = (d \<noteq> [])"

section \<open>Strings\<close>

text \<open>\<open>str.isspace\<close> on the code points up to 255, and \<open>str.strip\<close>.\<close>

definition is_space :: "char \<Rightarrow> bool" where
  "is_space c \<longleftrightarrow> of_char c \<in> {9, 10, 11, 12, 13, 28, 29, 30, 31, 32, 133, 160 :: nat}"

definition lstrip :: "string \<Rightarrow> string" where
  "lstrip s = dropWhile is_space s"

definition rstrip :: "string \<Rightarrow> string" where
  "rstrip s = rev (dropWhile is_space (rev s))"

definition strip :: "string \<Rightarrow> string" where
  "strip s = rstrip (lstrip s)"

text \<open>\<open>str.lower\<close> and, for characters whose upper case is in the range, \<open>str.upper\<close>.\<close>

definition lower_char :: "char \<Rightarrow> char" where
  "lower_char c = (let n = of_char c :: nat in
     if 65 \<le> n \<and> n \<le> 90 \<or> 192 \<le> n \<and> n \<le> 222 \<and> n \<noteq> 215 then char_of (n + 32) else c)"

definition upper_char :: "char \<Rightarrow> char" where
  "upper_char c = (let n = of_char c :: nat in
     if 97 \<le> n \<and> n \<le> 122 \<or> 224 \<le> n \<and> n \<le> 254 \<and> n \<noteq> 247 then char_of (n - 32) else c)"

abbreviation lower :: "string \<Rightarrow> string" where
  "lower s \<equiv> map lower_char s"

abbreviation upper :: "string \<Rightarrow> string" where
  "upper s \<equiv> map upper_char s"

definition canonical :: "string \<Rightarrow> bool" where
  "canonical s \<longleftrightarrow> s \<noteq> [] \<and> strip s = s"

lemma dropWhile_idem: "dropWhile P (dropWhile P xs) = dropWhile P xs"
  by (induction xs) auto

lemma lstrip_fixed: "lstrip s = s \<longleftrightarrow> s = [] \<or> \<not> is_space (hd s)"
proof (cases s)
  case (Cons c t)
  have "length (dropWhile is_space t) \<le> length t"
    by (rule length_dropWhile_le)
  then have "dropWhile is_space t \<noteq> c # t"
    by (metis Suc_n_not_le_n length_Cons)
  with Cons show ?thesis by (auto simp: lstrip_def)
qed (simp add: lstrip_def)

lemma rstrip_hd: "s \<noteq> [] \<Longrightarrow> \<not> is_space (hd s) \<Longrightarrow> rstrip s \<noteq> [] \<and> hd (rstrip s) = hd s"
proof (induction s)
  case (Cons c t)
  then show ?case by (simp add: rstrip_def dropWhile_append)
qed simp

lemma lstrip_hd: "lstrip s \<noteq> [] \<Longrightarrow> \<not> is_space (hd (lstrip s))"
  by (simp add: lstrip_def hd_dropWhile)

lemma rstrip_idem [simp]: "rstrip (rstrip s) = rstrip s"
  unfolding rstrip_def by (simp only: rev_rev_ident dropWhile_idem)

lemma strip_idem [simp]: "strip (strip s) = strip s"
proof (cases "lstrip s = []")
  case True
  have "strip s = []" unfolding strip_def True by (simp add: rstrip_def)
  moreover have "strip [] = []" by (simp add: strip_def lstrip_def rstrip_def)
  ultimately show ?thesis by (simp only:)
next
  case False
  then have "\<not> is_space (hd (rstrip (lstrip s)))"
    using rstrip_hd [OF False] lstrip_hd [OF False] by simp
  then have "lstrip (rstrip (lstrip s)) = rstrip (lstrip s)"
    by (simp add: lstrip_fixed)
  then show ?thesis by (simp add: strip_def)
qed

lemma canonical_strip: "canonical s \<Longrightarrow> strip s = s"
  by (simp add: canonical_def)

lemma canonical_of_strip: "strip s \<noteq> [] \<Longrightarrow> canonical (strip s)"
  by (simp add: canonical_def)

lemma dropWhile_none: "\<forall>c\<in>set s. \<not> P c \<Longrightarrow> dropWhile P s = s"
  by (cases s) auto

lemma strip_no_space: "\<forall>c\<in>set s. \<not> is_space c \<Longrightarrow> strip s = s"
  by (simp add: strip_def lstrip_def rstrip_def dropWhile_none)

section \<open>Decimal numerals\<close>

definition digit_char :: "nat \<Rightarrow> char" where
  "digit_char n = char_of (48 + n)"

fun nat_str :: "nat \<Rightarrow> string" where
  "nat_str n = (if n < 10 then [digit_char n] else nat_str (n div 10) @ [digit_char (n mod 10)])"

declare nat_str.simps [simp del]

text \<open>\<open>str(i)\<close> for an \<open>int\<close>.\<close>

definition int_str :: "int \<Rightarrow> string" where
  "int_str i = (if i < 0 then CHR ''-'' # nat_str (nat (- i)) else nat_str (nat i))"

definition digit_value :: "char \<Rightarrow> nat option" where
  "digit_value c = (let n = of_char c :: nat in if 48 \<le> n \<and> n \<le> 57 then Some (n - 48) else None)"

text \<open>
  A run of digits with single underscores between them, as the numeric literals of \<open>int()\<close> and
  \<open>float()\<close> allow: the value, the number of digits and the rest; \<open>None\<close> without a digit.
\<close>

fun digits_rest :: "nat \<Rightarrow> nat \<Rightarrow> string \<Rightarrow> nat \<times> nat \<times> string" where
  "digits_rest acc k [] = (acc, k, [])"
| "digits_rest acc k (c # t) =
     (case digit_value c of
        Some v \<Rightarrow> digits_rest (10 * acc + v) (Suc k) t
      | None \<Rightarrow>
          if c = CHR ''_'' \<and> 0 < k then
            (case t of
               [] \<Rightarrow> (acc, k, c # t)
             | c' # u \<Rightarrow>
                 (case digit_value c' of
                    Some v \<Rightarrow> digits_rest (10 * acc + v) (Suc k) u
                  | None \<Rightarrow> (acc, k, c # t)))
          else (acc, k, c # t))"

definition split_sign :: "string \<Rightarrow> int \<times> string" where
  "split_sign s = (case s of
     c # t \<Rightarrow> if c = CHR ''-'' then (- 1, t) else if c = CHR ''+'' then (1, t) else (1, s)
   | [] \<Rightarrow> (1, s))"

text \<open>\<open>int(s)\<close> for a string: \<open>None\<close> is the \<open>ValueError\<close>.\<close>

definition parse_int :: "string \<Rightarrow> int option" where
  "parse_int s = (case split_sign (strip s) of (sg, t) \<Rightarrow>
     (case digits_rest 0 0 t of (v, k, r) \<Rightarrow>
        if 0 < k \<and> r = [] then Some (sg * int v) else None))"

text \<open>\<open>float(s)\<close> for a string: an optional sign, then a decimal literal or inf, infinity, nan.\<close>

definition parse_exponent :: "string \<Rightarrow> int option" where
  "parse_exponent s = (case s of
     [] \<Rightarrow> Some 0
   | c # t \<Rightarrow> if c = CHR ''e'' \<or> c = CHR ''E'' then
       (case split_sign t of (sg, u) \<Rightarrow>
          (case digits_rest 0 0 u of (v, k, r) \<Rightarrow>
             if 0 < k \<and> r = [] then Some (sg * int v) else None))
     else None)"

definition pow10 :: "int \<Rightarrow> rat" where
  "pow10 e = (if 0 \<le> e then 10 ^ nat e else 1 / 10 ^ nat (- e))"

definition parse_decimal :: "string \<Rightarrow> rat option" where
  "parse_decimal s = (case digits_rest 0 0 s of (v, k, r) \<Rightarrow>
     if r \<noteq> [] \<and> hd r = CHR ''.'' then
       (case digits_rest 0 0 (tl r) of (w, m, r') \<Rightarrow>
          if k = 0 \<and> m = 0 then None
          else map_option (\<lambda>e. (of_nat v + of_nat w / 10 ^ m) * pow10 e) (parse_exponent r'))
     else if k = 0 then None else map_option (\<lambda>e. of_nat v * pow10 e) (parse_exponent r))"

definition parse_float :: "string \<Rightarrow> pyfloat option" where
  "parse_float s = (case split_sign (strip s) of (sg, t) \<Rightarrow>
     if lower t = ''inf'' \<or> lower t = ''infinity'' then Some (if sg = 1 then PInf else NInf)
     else if lower t = ''nan'' then Some NaN
     else map_option (\<lambda>x. Fin (of_int sg * x)) (parse_decimal t))"

section \<open>\<open>json.dumps\<close> with sorted keys and compact separators\<close>

definition hex_digit :: "nat \<Rightarrow> char" where
  "hex_digit n = (if n < 10 then char_of (48 + n) else char_of (87 + n))"

definition escape_char :: "char \<Rightarrow> string" where
  "escape_char c = (let n = of_char c :: nat in
     if n = 34 then [CHR 0x5C, CHR 0x22]
     else if n = 92 then [CHR 0x5C, CHR 0x5C]
     else if n = 10 then [CHR 0x5C, CHR ''n'']
     else if n = 13 then [CHR 0x5C, CHR ''r'']
     else if n = 9 then [CHR 0x5C, CHR ''t'']
     else if n = 12 then [CHR 0x5C, CHR ''f'']
     else if n = 8 then [CHR 0x5C, CHR ''b'']
     else if 32 \<le> n \<and> n \<le> 126 then [c]
     else [CHR 0x5C, CHR ''u'', CHR ''0'', CHR ''0'', hex_digit (n div 16), hex_digit (n mod 16)])"

definition quote_str :: "string \<Rightarrow> string" where
  "quote_str s = [CHR 0x22] @ concat (map escape_char s) @ [CHR 0x22]"

fun join :: "string \<Rightarrow> string list \<Rightarrow> string" where
  "join sep [] = []"
| "join sep [s] = s"
| "join sep (s # t # ss) = s @ sep @ join sep (t # ss)"

text \<open>
  The text of a finite float and of a timestamp comes from the runtime (\<open>float.__repr__\<close>,
  \<open>datetime.isoformat\<close>, and back \<open>datetime.fromisoformat\<close>, \<open>None\<close> for its \<open>ValueError\<close>):
  the three functions are arguments.
\<close>

record text_forms =
  float_repr :: "rat \<Rightarrow> string"
  iso_text :: "int \<Rightarrow> string"
  of_iso_text :: "string \<Rightarrow> int option"

fun json_float :: "text_forms \<Rightarrow> pyfloat \<Rightarrow> string" where
  "json_float T (Fin x) = float_repr T x"
| "json_float T PInf = ''Infinity''"
| "json_float T NInf = ''-Infinity''"
| "json_float T NaN = ''NaN''"

fun json_dumps :: "text_forms \<Rightarrow> json \<Rightarrow> string" where
  "json_dumps T JNull = ''null''"
| "json_dumps T (JBool b) = (if b then ''true'' else ''false'')"
| "json_dumps T (JInt i) = int_str i"
| "json_dumps T (JFloat f) = json_float T f"
| "json_dumps T (JStr s) = quote_str s"
| "json_dumps T (JTime t) = quote_str (iso_text T t)"
| "json_dumps T (JList xs) = ''['' @ join '','' (map (json_dumps T) xs) @ '']''"
| "json_dumps T (JObj d) = ''{'' @ join '',''
     (map (\<lambda>(k, s). quote_str k @ '':'' @ s)
       (sort_key fst (map (\<lambda>(k, v). (k, json_dumps T v)) d))) @ ''}''"

text \<open>
  Sorting the keys makes the text independent of a dict's order: two dicts with the same
  entries, each under its own key, have the same text.
\<close>

lemma sort_key_fst_perm:
  fixes xs ys :: "(string \<times> 'a) list"
  assumes "distinct (map fst xs)" and "distinct (map fst ys)" and "set xs = set ys"
  shows "sort_key fst xs = sort_key fst ys"
proof (rule map_sorted_distinct_set_unique)
  have keys: "distinct (map fst (sort_key fst zs)) = distinct (map fst zs)" for zs :: "(string \<times> 'a) list"
    by (simp add: distinct_map)
  show "distinct (map fst (sort_key fst xs))" "distinct (map fst (sort_key fst ys))"
    using assms(1,2) by (simp_all only: keys)
  show "inj_on fst (set (sort_key fst xs) \<union> set (sort_key fst ys))"
    using assms by (simp add: distinct_map)
  show "set (sort_key fst xs) = set (sort_key fst ys)"
    using assms(3) by simp
qed simp_all

lemma json_dumps_perm:
  assumes "distinct (map fst d)" and "distinct (map fst d')" and "set d = set d'"
  shows "json_dumps T (JObj d) = json_dumps T (JObj d')"
proof -
  let ?f = "\<lambda>(k, v). (k, json_dumps T v)"
  have keys: "map fst (map ?f e) = map fst e" for e
    by (induction e) auto
  have "sort_key fst (map ?f d) = sort_key fst (map ?f d')"
    by (rule sort_key_fst_perm) (use assms keys in \<open>simp_all only: set_map keys\<close>)
  then show ?thesis by simp
qed

section \<open>\<open>repr\<close>, \<open>str\<close> and \<open>int\<close> of a value\<close>

definition repr_char :: "char \<Rightarrow> char \<Rightarrow> string" where
  "repr_char q c = (let n = of_char c :: nat in
     if c = q \<or> n = 92 then [CHR 0x5C, c]
     else if n = 10 then [CHR 0x5C, CHR ''n'']
     else if n = 13 then [CHR 0x5C, CHR ''r'']
     else if n = 9 then [CHR 0x5C, CHR ''t'']
     else if n < 32 \<or> 127 \<le> n \<and> n \<le> 160 \<or> n = 173
       then [CHR 0x5C, CHR ''x'', hex_digit (n div 16), hex_digit (n mod 16)]
     else [c])"

definition repr_str :: "string \<Rightarrow> string" where
  "repr_str s = (let q = (if CHR 0x27 \<in> set s \<and> CHR 0x22 \<notin> set s then CHR 0x22 else CHR 0x27)
     in [q] @ concat (map (repr_char q) s) @ [q])"

fun repr_float :: "text_forms \<Rightarrow> pyfloat \<Rightarrow> string" where
  "repr_float T (Fin x) = float_repr T x"
| "repr_float T PInf = ''inf''"
| "repr_float T NInf = ''-inf''"
| "repr_float T NaN = ''nan''"

fun py_repr :: "text_forms \<Rightarrow> json \<Rightarrow> string" where
  "py_repr T JNull = ''None''"
| "py_repr T (JBool b) = (if b then ''True'' else ''False'')"
| "py_repr T (JInt i) = int_str i"
| "py_repr T (JFloat f) = repr_float T f"
| "py_repr T (JStr s) = repr_str s"
| "py_repr T (JTime t) = repr_str (iso_text T t)"
| "py_repr T (JList xs) = ''['' @ join '', '' (map (py_repr T) xs) @ '']''"
| "py_repr T (JObj d) =
     ''{'' @ join '', '' (map (\<lambda>(k, v). repr_str k @ '': '' @ py_repr T v) d) @ ''}''"

definition py_str :: "text_forms \<Rightarrow> json \<Rightarrow> string" where
  "py_str T v = (case v of JStr s \<Rightarrow> s | JTime t \<Rightarrow> iso_text T t | _ \<Rightarrow> py_repr T v)"

lemma py_str_JStr [simp]: "py_str T (JStr s) = s"
  by (simp add: py_str_def)

text \<open>\<open>int(v)\<close>: truncates a float, parses a string.\<close>

definition py_int :: "json \<Rightarrow> int res" where
  "py_int v = (case v of
     JInt i \<Rightarrow> Inr i
   | JBool b \<Rightarrow> Inr (if b then 1 else 0)
   | JFloat f \<Rightarrow> (case f of
       Fin x \<Rightarrow> Inr (if 0 \<le> x then \<lfloor>x\<rfloor> else - \<lfloor>- x\<rfloor>)
     | NaN \<Rightarrow> value_error ''cannot convert float NaN to integer''
     | _ \<Rightarrow> Inl (Exn OverflowError ''cannot convert float infinity to integer''))
   | JStr s \<Rightarrow> (case parse_int s of
       Some i \<Rightarrow> Inr i
     | None \<Rightarrow> value_error (''invalid literal for int() with base 10: '' @ repr_str s))
   | _ \<Rightarrow> Inl (Exn TypeError ''int() argument must be a string, a bytes-like object or a real number''))"

lemma py_int_JInt [simp]: "py_int (JInt i) = Inr i"
  by (simp add: py_int_def)

end
