(* ===== verification/Models.thy ===== *)
theory Models
  imports Py_Value
begin

text \<open>
  \<open>models.py\<close> (the operation types and the execution statuses with their strings) and the
  validation helpers of \<open>utils.py\<close>. A timestamp value never stands where a plain string field is
  required, so the string helpers treat it as a value of another type.
\<close>

section \<open>\<open>models.py\<close>\<close>

datatype operation_type = READ | WRITE

datatype execution_status =
    INTENT_LOGGED | DISPATCHED | ACKED | VERIFIED_COMMITTED | VERIFIED_NOT_FOUND | FAILED

fun operation_value :: "operation_type \<Rightarrow> string" where
  "operation_value READ = ''READ''"
| "operation_value WRITE = ''WRITE''"

fun execution_status_value :: "execution_status \<Rightarrow> string" where
  "execution_status_value INTENT_LOGGED = ''intent_logged''"
| "execution_status_value DISPATCHED = ''dispatched''"
| "execution_status_value ACKED = ''acked''"
| "execution_status_value VERIFIED_COMMITTED = ''verified_committed''"
| "execution_status_value VERIFIED_NOT_FOUND = ''verified_not_found''"
| "execution_status_value FAILED = ''failed''"

text \<open>Calling an enum class on a string: the member with that value, or \<open>ValueError\<close>.\<close>

definition enum_of :: "string \<Rightarrow> ('a \<Rightarrow> string) \<Rightarrow> 'a list \<Rightarrow> string \<Rightarrow> 'a res" where
  "enum_of cls val ms s = (case find (\<lambda>m. val m = s) ms of
     Some m \<Rightarrow> Inr m
   | None \<Rightarrow> value_error (repr_str s @ '' is not a valid '' @ cls))"

definition operation_type_of :: "string \<Rightarrow> operation_type res" where
  "operation_type_of = enum_of ''OperationType'' operation_value [READ, WRITE]"

definition execution_status_of :: "string \<Rightarrow> execution_status res" where
  "execution_status_of = enum_of ''ExecutionStatus'' execution_status_value
     [INTENT_LOGGED, DISPATCHED, ACKED, VERIFIED_COMMITTED, VERIFIED_NOT_FOUND, FAILED]"

definition normalize_execution_status :: "string \<Rightarrow> execution_status res" where
  "normalize_execution_status raw = execution_status_of (lower (strip raw))"

lemma operation_type_of_value [simp]: "operation_type_of (operation_value t) = Inr t"
  by (cases t) (simp_all add: operation_type_of_def enum_of_def)

lemma execution_status_of_value [simp]: "execution_status_of (execution_status_value s) = Inr s"
  by (cases s) (simp_all add: execution_status_of_def enum_of_def)

lemma normalize_execution_status_value [simp]:
  "normalize_execution_status (execution_status_value s) = Inr s"
proof -
  have "lower (strip (execution_status_value s)) = execution_status_value s"
    by (cases s) (simp_all, code_simp+)
  then show ?thesis by (simp add: normalize_execution_status_def)
qed

section \<open>\<open>utils.py\<close>\<close>

definition parse_datetime :: "text_forms \<Rightarrow> int \<Rightarrow> json \<Rightarrow> int res" where
  "parse_datetime T now raw = (case raw of
     JTime t \<Rightarrow> Inr t
   | JStr s \<Rightarrow> if strip s \<noteq> [] then
       (case of_iso_text T s of Some t \<Rightarrow> Inr t
        | None \<Rightarrow> value_error (''Invalid isoformat string: '' @ repr_str s))
     else Inr now
   | _ \<Rightarrow> Inr now)"

definition require_non_empty_str :: "json \<Rightarrow> string \<Rightarrow> string res" where
  "require_non_empty_str obj_or_value key_or_field =
     (let value = (case obj_or_value of JObj d \<Rightarrow> dict_get d key_or_field | v \<Rightarrow> v) in
      case value of
        JStr s \<Rightarrow> if strip s \<noteq> [] then Inr (strip s)
          else value_error (key_or_field @ '' must be a non-empty string'')
      | _ \<Rightarrow> value_error (key_or_field @ '' must be a non-empty string''))"

definition optional_str :: "json \<Rightarrow> string option res" where
  "optional_str v = (case v of
     JNull \<Rightarrow> Inr None
   | JStr s \<Rightarrow> Inr (Some s)
   | _ \<Rightarrow> value_error ''optional string field has invalid type'')"

definition require_dict :: "json \<Rightarrow> string \<Rightarrow> dict res" where
  "require_dict v field_name = (case v of
     JObj d \<Rightarrow> Inr d | _ \<Rightarrow> value_error (field_name @ '' must be an object''))"

definition require_dict_or_default :: "json \<Rightarrow> dict res" where
  "require_dict_or_default v = (case v of
     JNull \<Rightarrow> Inr [] | JObj d \<Rightarrow> Inr d | _ \<Rightarrow> value_error ''value must be an object'')"

definition optional_int :: "json \<Rightarrow> string \<Rightarrow> int option res" where
  "optional_int v field_name = (if v = JNull then Inr None else
     (case as_int v of
        Some i \<Rightarrow> Inr (Some i)
      | None \<Rightarrow> value_error (field_name @ '' must be an integer when provided'')))"

fun strip_nonblank :: "string \<Rightarrow> json list \<Rightarrow> string list res" where
  "strip_nonblank field [] = Inr []"
| "strip_nonblank field (x # xs) = (case x of
     JStr s \<Rightarrow> rbind (strip_nonblank field xs)
       (\<lambda>ys. Inr (if strip s = [] then ys else strip s # ys))
   | _ \<Rightarrow> value_error (field @ '' must contain only strings''))"

definition normalize_str_list :: "json \<Rightarrow> string \<Rightarrow> string list res" where
  "normalize_str_list v field_name = (case v of
     JList xs \<Rightarrow> strip_nonblank field_name xs
   | _ \<Rightarrow> value_error (field_name @ '' must be a list''))"

definition safe_filename :: "string \<Rightarrow> string" where
  "safe_filename s = map (\<lambda>c. if (let n = of_char c :: nat in
      48 \<le> n \<and> n \<le> 57 \<or> 65 \<le> n \<and> n \<le> 90 \<or> 97 \<le> n \<and> n \<le> 122 \<or> n = 95 \<or> n = 46 \<or> n = 45)
    then c else CHR ''_'') s"

definition json_size_bytes :: "text_forms \<Rightarrow> json \<Rightarrow> nat" where
  "json_size_bytes T payload = length (json_dumps T payload)"

definition json_sha256 :: "text_forms \<Rightarrow> (string \<Rightarrow> string) \<Rightarrow> json \<Rightarrow> string" where
  "json_sha256 T sha256_hex payload = sha256_hex (json_dumps T payload)"

text \<open>\<open>x.get\<close> on a value that is not a dict.\<close>

definition no_get :: "'a res" where
  "no_get = Inl (Exn AttributeError ''object has no attribute get'')"

abbreviation str_list :: "string list \<Rightarrow> json" where
  "str_list xs \<equiv> JList (map JStr xs)"

lemma parse_datetime_JTime [simp]: "parse_datetime T now (JTime t) = Inr t"
  by (simp add: parse_datetime_def)

lemma require_JStr:
  "require_non_empty_str (JStr s) k =
    (if strip s \<noteq> [] then Inr (strip s) else value_error (k @ '' must be a non-empty string''))"
  by (simp add: require_non_empty_str_def)

lemma require_canonical [simp]: "canonical s \<Longrightarrow> require_non_empty_str (JStr s) k = Inr s"
  by (simp add: require_JStr canonical_def)

lemma require_result_canonical: "require_non_empty_str v k = Inr s \<Longrightarrow> canonical s"
  by (auto simp: require_non_empty_str_def Let_def split: json.splits if_splits
      intro: canonical_of_strip)

lemma optional_str_jopt [simp]: "optional_str (jopt JStr x) = Inr x"
  by (cases x) (simp_all add: optional_str_def)

lemma optional_int_jopt [simp]: "optional_int (jopt JInt x) k = Inr x"
  by (cases x) (simp_all add: optional_int_def)

lemma strip_nonblank_strs:
  "strip_nonblank f (map JStr xs) = Inr (filter (\<lambda>s. s \<noteq> []) (map strip xs))"
  by (induction xs) auto

lemma normalize_str_list_canonical [simp]:
  "list_all canonical xs \<Longrightarrow> normalize_str_list (str_list xs) k = Inr xs"
proof -
  assume c: "list_all canonical xs"
  then have "map strip xs = xs" "filter (\<lambda>s. s \<noteq> []) xs = xs"
    by (auto simp: list_all_iff canonical_def intro: map_idI)
  then show ?thesis by (simp add: normalize_str_list_def strip_nonblank_strs)
qed

lemma strip_nonblank_result: "strip_nonblank k v = Inr xs \<Longrightarrow> list_all canonical xs"
  by (induction v arbitrary: xs)
    (auto simp: rbind_eq_Inr intro: canonical_of_strip split: json.splits if_splits)

lemma normalize_str_list_result: "normalize_str_list v k = Inr xs \<Longrightarrow> list_all canonical xs"
  by (auto simp: normalize_str_list_def dest: strip_nonblank_result split: json.splits)

end
