(* ===== verification/Planner_Data.thy ===== *)
theory Planner_Data
  imports Models
begin

text \<open>
  The data of \<open>planner_state.py\<close>: plan items and plan states with their dict forms, the plan
  schema and its normalisation, the integrity check, and the parser of plan texts. The planner
  service over these is in \<open>Planner_Service\<close>.
\<close>

section \<open>Items\<close>

datatype item_status = PENDING | IN_PROGRESS | BLOCKED | DONE | ITEM_FAILED

fun item_status_value :: "item_status \<Rightarrow> string" where
  "item_status_value PENDING = ''pending''"
| "item_status_value IN_PROGRESS = ''in_progress''"
| "item_status_value BLOCKED = ''blocked''"
| "item_status_value DONE = ''done''"
| "item_status_value ITEM_FAILED = ''failed''"

definition item_status_of :: "string \<Rightarrow> item_status res" where
  "item_status_of = enum_of ''PlannerItemStatus'' item_status_value
     [PENDING, IN_PROGRESS, BLOCKED, DONE, ITEM_FAILED]"

text \<open>\<open>_parse_status\<close>, for a value that is not already a \<open>PlannerItemStatus\<close>.\<close>

definition parse_status :: "json \<Rightarrow> item_status res" where
  "parse_status raw = (case raw of
     JStr s \<Rightarrow> item_status_of (lower (strip s))
   | _ \<Rightarrow> value_error ''invalid planner item status'')"

record planner_item =
  pi_id :: string
  pi_title :: string
  pi_description :: string
  pi_status :: item_status
  pi_sequence_index :: int
  pi_depends_on :: "string list"
  pi_acceptance_criteria :: "string list"
  pi_llm_output :: "string option"
  pi_llm_output_history :: "string list"
  pi_tool_call_refs :: "string list"
  pi_notes :: "string list"
  pi_updated_at :: int

definition item_to_dict :: "planner_item \<Rightarrow> dict" where
  "item_to_dict it = [
     (''plan_item_id'', JStr (pi_id it)),
     (''title'', JStr (pi_title it)),
     (''description'', JStr (pi_description it)),
     (''status'', JStr (item_status_value (pi_status it))),
     (''sequence_index'', JInt (pi_sequence_index it)),
     (''depends_on'', str_list (pi_depends_on it)),
     (''acceptance_criteria'', str_list (pi_acceptance_criteria it)),
     (''llm_output'', jopt JStr (pi_llm_output it)),
     (''llm_output_history'', str_list (pi_llm_output_history it)),
     (''tool_call_refs'', str_list (pi_tool_call_refs it)),
     (''notes'', str_list (pi_notes it)),
     (''updated_at'', JTime (pi_updated_at it))]"

definition item_from_dict :: "text_forms \<Rightarrow> int \<Rightarrow> json \<Rightarrow> planner_item res" where
  "item_from_dict T now payload = (case payload of JObj d \<Rightarrow>
     rbind (py_int (dict_get_or d ''sequence_index'' (JInt 0))) (\<lambda>sequence_index.
     if sequence_index < 0 then value_error ''sequence_index must be non-negative'' else
     rbind (require_non_empty_str payload ''plan_item_id'') (\<lambda>plan_item_id.
     rbind (require_non_empty_str payload ''title'') (\<lambda>title.
     rbind (item_status_of (py_str T (dict_get_or d ''status'' (JStr (item_status_value PENDING))))) (\<lambda>status.
     rbind (normalize_str_list (dict_get_or d ''depends_on'' (JList [])) ''depends_on'') (\<lambda>depends_on.
     rbind (normalize_str_list (dict_get_or d ''acceptance_criteria'' (JList [])) ''acceptance_criteria'') (\<lambda>criteria.
     rbind (optional_str (dict_get d ''llm_output'')) (\<lambda>llm_output.
     rbind (normalize_str_list (dict_get_or d ''llm_output_history'' (JList [])) ''llm_output_history'') (\<lambda>history.
     rbind (normalize_str_list (dict_get_or d ''tool_call_refs'' (JList [])) ''tool_call_refs'') (\<lambda>refs.
     rbind (normalize_str_list (dict_get_or d ''notes'' (JList [])) ''notes'') (\<lambda>notes.
     rbind (parse_datetime T now (dict_get d ''updated_at'')) (\<lambda>updated_at.
     Inr \<lparr>pi_id = plan_item_id, pi_title = title,
          pi_description = py_str T (dict_get_or d ''description'' (JStr [])),
          pi_status = status, pi_sequence_index = sequence_index, pi_depends_on = depends_on,
          pi_acceptance_criteria = criteria, pi_llm_output = llm_output,
          pi_llm_output_history = history, pi_tool_call_refs = refs, pi_notes = notes,
          pi_updated_at = updated_at\<rparr>)))))))))))
   | _ \<Rightarrow> no_get)"

section \<open>The plan schema\<close>

text \<open>\<open>_normalize_plan_schema\<close>: one step, then the whole schema (\<open>items\<close> is the keyword argument).\<close>

definition normalize_step :: "text_forms \<Rightarrow> nat \<times> json \<Rightarrow> json res" where
  "normalize_step T p = (case p of (index, raw) \<Rightarrow>
     (case (case raw of JStr s \<Rightarrow> JObj [(''title'', JStr s)] | _ \<Rightarrow> raw) of JObj d \<Rightarrow>
        (let title = strip (py_str T (dict_get_or d ''title'' (JStr []))) in
         if title = [] then
           value_error (''plan step at index '' @ nat_str index @ '' must have non-empty title'')
         else
           rbind (normalize_str_list (dict_get_or d ''depends_on'' (JList [])) ''depends_on'') (\<lambda>depends_on.
           rbind (normalize_str_list (dict_get_or d ''acceptance_criteria'' (JList [])) ''acceptance_criteria'') (\<lambda>criteria.
           rbind (py_int (dict_get_or d ''sequence_index'' (JInt (int index)))) (\<lambda>sequence_index.
           Inr (JObj [
             (''plan_item_id'', JStr (strip (py_str T (if truthy (dict_get d ''plan_item_id'')
                then dict_get d ''plan_item_id'' else JStr (''step_'' @ nat_str index))))),
             (''title'', JStr title),
             (''description'', JStr (py_str T (dict_get_or d ''description'' (JStr [])))),
             (''depends_on'', str_list depends_on),
             (''acceptance_criteria'', str_list criteria),
             (''sequence_index'', JInt sequence_index)])))))
      | _ \<Rightarrow> value_error ''each plan schema step must be a string or object''))"

definition normalize_plan_schema :: "text_forms \<Rightarrow> dict \<Rightarrow> planner_item list option \<Rightarrow> dict res" where
  "normalize_plan_schema T raw items =
     (case (case (dict_get raw ''steps'', items) of
              (JNull, Some its) \<Rightarrow> JList (map (\<lambda>it. JObj (item_to_dict it)) its)
            | (v, _) \<Rightarrow> v) of
        JList steps \<Rightarrow>
          rbind (rmap (normalize_step T) (List.enumerate 0 steps)) (\<lambda>normalized_steps.
          rbind (normalize_str_list (dict_get_or raw ''constraints'' (JList [])) ''constraints'') (\<lambda>constraints.
          rbind (normalize_str_list (dict_get_or raw ''verification'' (JList [])) ''verification'') (\<lambda>verification.
          Inr [
            (''goal'', JStr (strip (py_str T (dict_get_or raw ''goal'' (JStr []))))),
            (''constraints'', str_list constraints),
            (''verification'', str_list verification),
            (''source_format'', JStr
               (let f = strip (py_str T (dict_get_or raw ''source_format'' (JStr ''normalized'')))
                in if f = [] then ''normalized'' else f)),
            (''steps'', JList normalized_steps)])))
      | _ \<Rightarrow> value_error ''plan schema steps must be a list'')"

section \<open>Plan states\<close>

record planner_state =
  ps_run_id :: string
  ps_version :: int
  ps_plan_source_text :: string
  ps_items :: "planner_item list"
  ps_plan_schema :: dict
  ps_active_item_id :: "string option"
  ps_cursor_index :: "int option"
  ps_updated_at :: int

definition planner_to_dict :: "planner_state \<Rightarrow> dict" where
  "planner_to_dict st = [
     (''run_id'', JStr (ps_run_id st)),
     (''version'', JInt (ps_version st)),
     (''plan_source_text'', JStr (ps_plan_source_text st)),
     (''items'', JList (map (\<lambda>it. JObj (item_to_dict it)) (ps_items st))),
     (''plan_schema'', JObj (ps_plan_schema st)),
     (''active_item_id'', jopt JStr (ps_active_item_id st)),
     (''cursor_index'', jopt JInt (ps_cursor_index st)),
     (''updated_at'', JTime (ps_updated_at st))]"

definition validate_integrity :: "planner_state \<Rightarrow> unit res" where
  "validate_integrity st =
     (let ids = map pi_id (ps_items st) in
      if ps_version st < 1 then value_error ''version must be >= 1''
      else if \<not> distinct ids then value_error ''plan item ids must be unique''
      else if (case ps_active_item_id st of None \<Rightarrow> False | Some a \<Rightarrow> a \<notin> set ids)
        then value_error ''active_item_id does not exist in items''
      else if (case ps_cursor_index st of None \<Rightarrow> False
               | Some c \<Rightarrow> c < 0 \<or> int (length (ps_items st)) \<le> c)
        then value_error ''cursor_index out of range''
      else Inr ())"

definition planner_from_dict :: "text_forms \<Rightarrow> int \<Rightarrow> dict \<Rightarrow> planner_state res" where
  "planner_from_dict T now d = (case dict_get_or d ''items'' (JList []) of
     JList raw_items \<Rightarrow>
       rbind (rmap (item_from_dict T now) raw_items) (\<lambda>items.
       rbind (require_non_empty_str (JObj d) ''run_id'') (\<lambda>run_id.
       rbind (py_int (dict_get_or d ''version'' (JInt 1))) (\<lambda>version.
       rbind (require_dict_or_default (dict_get d ''plan_schema'')) (\<lambda>raw_schema.
       rbind (normalize_plan_schema T raw_schema (Some items)) (\<lambda>schema.
       rbind (optional_str (dict_get d ''active_item_id'')) (\<lambda>active.
       rbind (optional_int (dict_get d ''cursor_index'') ''cursor_index'') (\<lambda>cursor.
       rbind (parse_datetime T now (dict_get d ''updated_at'')) (\<lambda>updated_at.
       let st = \<lparr>ps_run_id = run_id, ps_version = version,
         ps_plan_source_text = py_str T (dict_get_or d ''plan_source_text'' (JStr [])),
         ps_items = items, ps_plan_schema = schema, ps_active_item_id = active,
         ps_cursor_index = cursor, ps_updated_at = updated_at\<rparr>
       in rbind (validate_integrity st) (\<lambda>_. Inr st)))))))))
   | _ \<Rightarrow> value_error ''items must be a list'')"

section \<open>Round trips\<close>

text \<open>
  What a reload preserves: a stored item whose strings are stripped and whose index is not
  negative, and a plan state of such items with a run id, a normal schema and integrity.
\<close>

definition wf_item :: "planner_item \<Rightarrow> bool" where
  "wf_item it \<longleftrightarrow> canonical (pi_id it) \<and> canonical (pi_title it) \<and> 0 \<le> pi_sequence_index it \<and>
     list_all canonical (pi_depends_on it) \<and> list_all canonical (pi_acceptance_criteria it) \<and>
     list_all canonical (pi_llm_output_history it) \<and> list_all canonical (pi_tool_call_refs it) \<and>
     list_all canonical (pi_notes it)"

definition schema_normal :: "text_forms \<Rightarrow> dict \<Rightarrow> bool" where
  "schema_normal T sc \<longleftrightarrow> dict_get sc ''steps'' \<noteq> JNull \<and> normalize_plan_schema T sc None = Inr sc"

definition wf_planner :: "text_forms \<Rightarrow> planner_state \<Rightarrow> bool" where
  "wf_planner T st \<longleftrightarrow> canonical (ps_run_id st) \<and> list_all wf_item (ps_items st) \<and>
     schema_normal T (ps_plan_schema st) \<and> validate_integrity st = Inr ()"

lemma item_status_of_value [simp]: "item_status_of (item_status_value s) = Inr s"
  by (cases s) (simp_all add: item_status_of_def enum_of_def)

lemma item_roundtrip:
  "wf_item it \<Longrightarrow> item_from_dict T now (JObj (item_to_dict it)) = Inr it"
  by (simp add: wf_item_def item_from_dict_def item_to_dict_def require_non_empty_str_def
      canonical_def [of "pi_id it"] canonical_def [of "pi_title it"])

lemma schema_normal_items: "schema_normal T sc \<Longrightarrow> normalize_plan_schema T sc (Some its) = Inr sc"
  by (auto simp: schema_normal_def normalize_plan_schema_def split: json.splits)

lemma planner_roundtrip:
  assumes "wf_planner T st"
  shows "planner_from_dict T now (planner_to_dict st) = Inr st"
proof -
  have "rmap (item_from_dict T now) (map (\<lambda>it. JObj (item_to_dict it)) (ps_items st)) =
      Inr (map (\<lambda>it. it) (ps_items st))"
    using assms by (intro rmap_map_Inr item_roundtrip) (simp add: wf_planner_def list_all_iff)
  with assms show ?thesis
    by (cases st) (simp add: planner_from_dict_def planner_to_dict_def wf_planner_def Let_def
        require_non_empty_str_def require_dict_or_default_def schema_normal_items canonical_def)
qed

lemma item_from_dict_wf: "item_from_dict T now v = Inr it \<Longrightarrow> wf_item it"
  by (auto simp: item_from_dict_def wf_item_def no_get_def rbind_eq_Inr
      intro: require_result_canonical normalize_str_list_result split: json.splits if_splits)

end
