(* ===== verification/Agent_Data.thy ===== *)
theory Agent_Data
  imports Models
begin

text \<open>
  The data of \<open>agent_state.py\<close>: messages, context snapshots and external result records, with
  their dict forms and the normalisation a reload applies.
\<close>

section \<open>Messages\<close>

record agent_message =
  msg_role :: string
  msg_content :: string
  msg_name :: "string option"
  msg_tool_call_id :: "string option"
  msg_metadata :: dict
  msg_created_at :: int

definition message_to_dict :: "agent_message \<Rightarrow> dict" where
  "message_to_dict m = [
     (''role'', JStr (msg_role m)),
     (''content'', JStr (msg_content m)),
     (''name'', jopt JStr (msg_name m)),
     (''tool_call_id'', jopt JStr (msg_tool_call_id m)),
     (''metadata'', JObj (msg_metadata m)),
     (''created_at'', JTime (msg_created_at m))]"

definition message_roles :: "string list" where
  "message_roles = [''system'', ''user'', ''assistant'', ''tool'']"

definition message_from_dict :: "text_forms \<Rightarrow> int \<Rightarrow> json \<Rightarrow> agent_message res" where
  "message_from_dict T now payload = (case payload of JObj d \<Rightarrow>
     rbind (require_non_empty_str payload ''role'') (\<lambda>role.
     if role \<notin> set message_roles then value_error ''role must be one of system,user,assistant,tool'' else
     rbind (require_non_empty_str payload ''content'') (\<lambda>content.
     rbind (optional_str (dict_get d ''name'')) (\<lambda>name.
     rbind (optional_str (dict_get d ''tool_call_id'')) (\<lambda>tool_call_id.
     rbind (require_dict_or_default (dict_get d ''metadata'')) (\<lambda>metadata.
     rbind (parse_datetime T now (dict_get d ''created_at'')) (\<lambda>created_at.
     Inr \<lparr>msg_role = role, msg_content = content, msg_name = name,
          msg_tool_call_id = tool_call_id, msg_metadata = metadata,
          msg_created_at = created_at\<rparr>))))))
   | _ \<Rightarrow>
     rbind (require_non_empty_str payload ''role'') (\<lambda>role.
     if role \<notin> set message_roles then value_error ''role must be one of system,user,assistant,tool''
     else no_get))"

text \<open>A message a reload accepts, and what the reload makes of it.\<close>

definition valid_message :: "agent_message \<Rightarrow> bool" where
  "valid_message m \<longleftrightarrow> strip (msg_role m) \<in> set message_roles \<and> strip (msg_content m) \<noteq> []"

definition norm_message :: "agent_message \<Rightarrow> agent_message" where
  "norm_message m = m\<lparr>msg_role := strip (msg_role m), msg_content := strip (msg_content m)\<rparr>"

lemma message_from_to_dict:
  "message_from_dict T now (JObj (message_to_dict m)) =
     (if strip (msg_role m) = [] then value_error ''role must be a non-empty string''
      else if strip (msg_role m) \<notin> set message_roles
        then value_error ''role must be one of system,user,assistant,tool''
      else if strip (msg_content m) = [] then value_error ''content must be a non-empty string''
      else Inr (norm_message m))"
  by (cases m) (simp add: message_from_dict_def message_to_dict_def norm_message_def
      require_non_empty_str_def require_dict_or_default_def)

lemma roles_nonempty: "[] \<notin> set message_roles"
  by (simp add: message_roles_def)

lemma message_reload:
  "valid_message m \<Longrightarrow> message_from_dict T now (JObj (message_to_dict m)) = Inr (norm_message m)"
  using roles_nonempty by (auto simp: message_from_to_dict valid_message_def)

lemma message_reload_iff:
  "message_from_dict T now (JObj (message_to_dict m)) = Inr m' \<longleftrightarrow> valid_message m \<and> m' = norm_message m"
  using roles_nonempty by (auto simp: message_from_to_dict valid_message_def)

lemma norm_message_simps [simp]:
  "norm_message (norm_message m) = norm_message m"
  "valid_message (norm_message m) = valid_message m"
  "msg_tool_call_id (norm_message m) = msg_tool_call_id m"
  "msg_role (norm_message m) = strip (msg_role m)"
  "msg_content (norm_message m) = strip (msg_content m)"
  by (simp_all add: norm_message_def valid_message_def)

lemma message_from_dict_valid:
  "message_from_dict T now v = Inr m \<Longrightarrow> valid_message m \<and> norm_message m = m"
  by (auto simp: message_from_dict_def no_get_def valid_message_def norm_message_def rbind_eq_Inr
      dest!: require_result_canonical split: json.splits if_splits simp: canonical_def)

section \<open>Context snapshots\<close>

record agent_context =
  ctx_run_id :: string
  ctx_turn_index :: int
  ctx_step_index :: int
  ctx_planner_version :: int
  ctx_messages :: "agent_message list"
  ctx_memory :: dict
  ctx_pending_execution_id :: "string option"
  ctx_pending_execution_ids :: "string list"
  ctx_last_checkpoint_seq :: "int option"
  ctx_updated_at :: int

definition context_to_dict :: "agent_context \<Rightarrow> dict" where
  "context_to_dict c = [
     (''run_id'', JStr (ctx_run_id c)),
     (''turn_index'', JInt (ctx_turn_index c)),
     (''step_index'', JInt (ctx_step_index c)),
     (''planner_version'', JInt (ctx_planner_version c)),
     (''messages'', JList (map (\<lambda>m. JObj (message_to_dict m)) (ctx_messages c))),
     (''memory'', JObj (ctx_memory c)),
     (''pending_execution_id'', jopt JStr (ctx_pending_execution_id c)),
     (''pending_execution_ids'', str_list (ctx_pending_execution_ids c)),
     (''last_checkpoint_seq'', jopt JInt (ctx_last_checkpoint_seq c)),
     (''updated_at'', JTime (ctx_updated_at c))]"

text \<open>\<open>_normalize_pending_ids\<close>: stripped, non-empty, first occurrences in order.\<close>

fun normalize_pending_ids :: "string list \<Rightarrow> json list \<Rightarrow> string list res" where
  "normalize_pending_ids acc [] = Inr acc"
| "normalize_pending_ids acc (raw # rest) =
     rbind (optional_str raw) (\<lambda>normalized. case normalized of
       None \<Rightarrow> normalize_pending_ids acc rest
     | Some s \<Rightarrow> normalize_pending_ids
         (if strip s = [] \<or> strip s \<in> set acc then acc else acc @ [strip s]) rest)"

definition non_negative :: "json \<Rightarrow> string \<Rightarrow> int res" where
  "non_negative v field = (case as_int v of
     Some i \<Rightarrow> if i < 0 then value_error (field @ '' must be a non-negative integer'') else Inr i
   | None \<Rightarrow> value_error (field @ '' must be a non-negative integer''))"

definition context_from_dict :: "text_forms \<Rightarrow> int \<Rightarrow> dict \<Rightarrow> agent_context res" where
  "context_from_dict T now d = (case dict_get_or d ''messages'' (JList []) of JList raw_messages \<Rightarrow>
     rbind (case dict_get d ''pending_execution_ids'' of
              JNull \<Rightarrow> Inr []
            | JList raw \<Rightarrow> normalize_pending_ids [] raw
            | _ \<Rightarrow> value_error ''pending_execution_ids must be a list when provided'') (\<lambda>ids0.
     rbind (optional_str (dict_get d ''pending_execution_id'')) (\<lambda>pid0.
     let ids = (case pid0 of Some p \<Rightarrow> if p \<in> set ids0 then ids0 else ids0 @ [p] | None \<Rightarrow> ids0);
         pid = (if ids = [] then pid0 else Some (last ids)) in
     rbind (non_negative (dict_get_or d ''turn_index'' (JInt 0)) ''turn_index'') (\<lambda>turn_index.
     rbind (non_negative (dict_get_or d ''step_index'' (JInt 0)) ''step_index'') (\<lambda>step_index.
     rbind (non_negative (dict_get_or d ''planner_version'' (JInt 0)) ''planner_version'') (\<lambda>planner_version.
     rbind (if dict_get d ''last_checkpoint_seq'' = JNull then Inr None
            else case as_int (dict_get d ''last_checkpoint_seq'') of
              Some i \<Rightarrow> if i < 0 then value_error ''last_checkpoint_seq must be a non-negative integer when provided''
                else Inr (Some i)
            | None \<Rightarrow> value_error ''last_checkpoint_seq must be a non-negative integer when provided'') (\<lambda>seq.
     rbind (require_non_empty_str (JObj d) ''run_id'') (\<lambda>run_id.
     rbind (rmap (message_from_dict T now) raw_messages) (\<lambda>messages.
     rbind (require_dict_or_default (dict_get d ''memory'')) (\<lambda>memory.
     rbind (parse_datetime T now (dict_get d ''updated_at'')) (\<lambda>updated_at.
     Inr \<lparr>ctx_run_id = run_id, ctx_turn_index = turn_index, ctx_step_index = step_index,
          ctx_planner_version = planner_version, ctx_messages = messages, ctx_memory = memory,
          ctx_pending_execution_id = pid, ctx_pending_execution_ids = ids,
          ctx_last_checkpoint_seq = seq, ctx_updated_at = updated_at\<rparr>))))))))))
   | _ \<Rightarrow> value_error ''messages must be a list'')"

text \<open>A snapshot a reload accepts and changes only in the spacing of its messages.\<close>

definition pending_consistent :: "agent_context \<Rightarrow> bool" where
  "pending_consistent c \<longleftrightarrow> distinct (ctx_pending_execution_ids c) \<and>
     list_all canonical (ctx_pending_execution_ids c) \<and>
     ctx_pending_execution_id c =
       (if ctx_pending_execution_ids c = [] then None else Some (last (ctx_pending_execution_ids c)))"

definition wf_context :: "agent_context \<Rightarrow> bool" where
  "wf_context c \<longleftrightarrow> canonical (ctx_run_id c) \<and> 0 \<le> ctx_turn_index c \<and> 0 \<le> ctx_step_index c \<and>
     0 \<le> ctx_planner_version c \<and> list_all valid_message (ctx_messages c) \<and> pending_consistent c \<and>
     (case ctx_last_checkpoint_seq c of None \<Rightarrow> True | Some i \<Rightarrow> 0 \<le> i)"

definition norm_context :: "agent_context \<Rightarrow> agent_context" where
  "norm_context c = c\<lparr>ctx_messages := map norm_message (ctx_messages c)\<rparr>"

lemma normalize_pending_ids_canonical:
  "list_all canonical xs \<Longrightarrow> distinct (acc @ xs) \<Longrightarrow>
    normalize_pending_ids acc (map JStr xs) = Inr (acc @ xs)"
  by (induction xs arbitrary: acc) (auto simp: optional_str_def canonical_def)

lemma normalize_pending_ids_result:
  "normalize_pending_ids acc raw = Inr ids \<Longrightarrow> distinct acc \<Longrightarrow> list_all canonical acc \<Longrightarrow>
    distinct ids \<and> list_all canonical ids"
proof (induction raw arbitrary: acc)
  case (Cons v raw)
  then obtain x where x: "optional_str v = Inr x"
    and rest: "(case x of None \<Rightarrow> normalize_pending_ids acc raw
      | Some s \<Rightarrow> normalize_pending_ids
          (if strip s = [] \<or> strip s \<in> set acc then acc else acc @ [strip s]) raw) = Inr ids"
    by (auto simp: rbind_eq_Inr)
  show ?case
  proof (cases x)
    case None
    with rest Cons.IH [of acc] Cons.prems show ?thesis by simp
  next
    case (Some s)
    let ?acc = "if strip s = [] \<or> strip s \<in> set acc then acc else acc @ [strip s]"
    have "distinct ?acc" "list_all canonical ?acc"
      using Cons.prems(2,3) by (auto intro: canonical_of_strip)
    with rest Some Cons.IH [of ?acc] show ?thesis by simp
  qed
qed simp

lemma non_negative_JInt [simp]: "0 \<le> i \<Longrightarrow> non_negative (JInt i) k = Inr i"
  by (simp add: non_negative_def)

lemma non_negative_result: "non_negative v k = Inr i \<Longrightarrow> 0 \<le> i"
  by (auto simp: non_negative_def split: option.splits if_splits)

lemma context_reload:
  assumes "wf_context c"
  shows "context_from_dict T now (context_to_dict c) = Inr (norm_context c)"
proof -
  have ids: "normalize_pending_ids [] (map JStr (ctx_pending_execution_ids c)) =
      Inr (ctx_pending_execution_ids c)"
    using assms normalize_pending_ids_canonical [of "ctx_pending_execution_ids c" "[]"]
    by (simp add: wf_context_def pending_consistent_def)
  have msgs: "rmap (message_from_dict T now) (map (\<lambda>m. JObj (message_to_dict m)) (ctx_messages c)) =
      Inr (map norm_message (ctx_messages c))"
    using assms by (intro rmap_map_Inr message_reload) (simp add: wf_context_def list_all_iff)
  have run: "strip (ctx_run_id c) = ctx_run_id c" "ctx_run_id c \<noteq> []"
    using assms by (simp_all add: wf_context_def canonical_def)
  show ?thesis
    using assms ids msgs run
    by (cases c; cases "ctx_last_checkpoint_seq c"; cases "ctx_pending_execution_ids c = []")
      (simp_all add: context_from_dict_def context_to_dict_def wf_context_def pending_consistent_def
        norm_context_def require_dict_or_default_def require_non_empty_str_def optional_str_def Let_def)
qed

lemma norm_context_simps [simp]:
  "ctx_run_id (norm_context c) = ctx_run_id c"
  "ctx_turn_index (norm_context c) = ctx_turn_index c"
  "ctx_step_index (norm_context c) = ctx_step_index c"
  "ctx_planner_version (norm_context c) = ctx_planner_version c"
  "ctx_messages (norm_context c) = map norm_message (ctx_messages c)"
  "ctx_memory (norm_context c) = ctx_memory c"
  "ctx_pending_execution_id (norm_context c) = ctx_pending_execution_id c"
  "ctx_pending_execution_ids (norm_context c) = ctx_pending_execution_ids c"
  "ctx_last_checkpoint_seq (norm_context c) = ctx_last_checkpoint_seq c"
  "norm_context (norm_context c) = norm_context c"
  by (simp_all add: norm_context_def)

lemma wf_norm_context [simp]: "wf_context (norm_context c) = wf_context c"
  by (simp add: wf_context_def pending_consistent_def list_all_iff)

section \<open>External results\<close>

datatype result_status = OK | ERROR | TIMEOUT | UNKNOWN

fun result_status_value :: "result_status \<Rightarrow> string" where
  "result_status_value OK = ''ok''"
| "result_status_value ERROR = ''error''"
| "result_status_value TIMEOUT = ''timeout''"
| "result_status_value UNKNOWN = ''unknown''"

definition result_status_of :: "string \<Rightarrow> result_status res" where
  "result_status_of = enum_of ''ExternalResultStatus'' result_status_value [OK, ERROR, TIMEOUT, UNKNOWN]"

lemma result_status_of_value [simp]: "result_status_of (result_status_value s) = Inr s"
  by (cases s) (simp_all add: result_status_of_def enum_of_def)

text \<open>A reference to a payload stored apart: \<open>_optional_ref_dict\<close>'s four keys.\<close>

record payload_ref =
  ref_storage :: string
  ref_payload_id :: string
  ref_size_bytes :: "int option"
  ref_sha256 :: "string option"

definition ref_to_dict :: "payload_ref \<Rightarrow> dict" where
  "ref_to_dict r = [
     (''storage'', JStr (ref_storage r)),
     (''payload_id'', JStr (ref_payload_id r)),
     (''size_bytes'', jopt JInt (ref_size_bytes r)),
     (''sha256'', jopt JStr (ref_sha256 r))]"

definition optional_ref_dict :: "json \<Rightarrow> string \<Rightarrow> payload_ref option res" where
  "optional_ref_dict v field = (case v of
     JNull \<Rightarrow> Inr None
   | JObj d \<Rightarrow>
       (case dict_get d ''payload_id'' of
          JStr pid \<Rightarrow>
            if strip pid = [] then value_error (field @ '' must include payload_id'')
            else
               rbind (case dict_get d ''storage'' of
                        JNull \<Rightarrow> Inr ''sqlite''
                      | JStr s \<Rightarrow> Inr (if s = [] then ''sqlite'' else s)
                      | _ \<Rightarrow> value_error (field @ ''.storage must be a string when provided'')) (\<lambda>storage.
               rbind (if dict_get d ''size_bytes'' = JNull then Inr None
                      else case as_int (dict_get d ''size_bytes'') of
                        Some i \<Rightarrow> if i < 0
                          then value_error (field @ ''.size_bytes must be a non-negative integer when provided'')
                          else Inr (Some i)
                      | None \<Rightarrow> value_error (field @ ''.size_bytes must be a non-negative integer when provided'')) (\<lambda>size.
               rbind (case dict_get d ''sha256'' of
                        JNull \<Rightarrow> Inr None
                      | JStr s \<Rightarrow> Inr (Some s)
                      | _ \<Rightarrow> value_error (field @ ''.sha256 must be a string when provided'')) (\<lambda>sha.
               Inr (Some \<lparr>ref_storage = storage, ref_payload_id = strip pid,
                         ref_size_bytes = size, ref_sha256 = sha\<rparr>))))
        | _ \<Rightarrow> value_error (field @ '' must include payload_id''))
   | _ \<Rightarrow> value_error (field @ '' must be an object when provided''))"

record external_result =
  res_execution_id :: string
  res_run_id :: string
  res_plan_item_id :: "string option"
  res_tool_name :: string
  res_operation_type :: string
  res_request_payload :: "dict option"
  res_response_payload :: "dict option"
  res_request_payload_ref :: "payload_ref option"
  res_response_payload_ref :: "payload_ref option"
  res_result_status :: result_status
  res_execution_status :: execution_status
  res_error_message :: "string option"
  res_created_at :: int
  res_updated_at :: int

definition result_to_dict :: "external_result \<Rightarrow> dict" where
  "result_to_dict r = [
     (''execution_id'', JStr (res_execution_id r)),
     (''run_id'', JStr (res_run_id r)),
     (''plan_item_id'', jopt JStr (res_plan_item_id r)),
     (''tool_name'', JStr (res_tool_name r)),
     (''operation_type'', JStr (res_operation_type r)),
     (''request_payload'', jopt JObj (res_request_payload r)),
     (''response_payload'', jopt JObj (res_response_payload r)),
     (''request_payload_ref'', jopt (\<lambda>f. JObj (ref_to_dict f)) (res_request_payload_ref r)),
     (''response_payload_ref'', jopt (\<lambda>f. JObj (ref_to_dict f)) (res_response_payload_ref r)),
     (''result_status'', JStr (result_status_value (res_result_status r))),
     (''execution_status'', JStr (execution_status_value (res_execution_status r))),
     (''error_message'', jopt JStr (res_error_message r)),
     (''created_at'', JTime (res_created_at r)),
     (''updated_at'', JTime (res_updated_at r))]"

definition optional_payload :: "json \<Rightarrow> string \<Rightarrow> dict option res" where
  "optional_payload v field = (case v of
     JNull \<Rightarrow> Inr None | JObj d \<Rightarrow> Inr (Some d)
   | _ \<Rightarrow> value_error (field @ '' must be an object or null''))"

definition result_from_dict :: "text_forms \<Rightarrow> int \<Rightarrow> dict \<Rightarrow> external_result res" where
  "result_from_dict T now d =
     rbind (optional_payload (dict_get d ''request_payload'') ''request_payload'') (\<lambda>request.
     rbind (optional_payload (dict_get d ''response_payload'') ''response_payload'') (\<lambda>response.
     rbind (optional_ref_dict (dict_get d ''request_payload_ref'') ''request_payload_ref'') (\<lambda>request_ref.
     rbind (optional_ref_dict (dict_get d ''response_payload_ref'') ''response_payload_ref'') (\<lambda>response_ref.
     if request = None \<and> request_ref = None
       then value_error ''request_payload must be present inline or via request_payload_ref'' else
     rbind (require_non_empty_str (JObj d) ''execution_id'') (\<lambda>execution_id.
     rbind (require_non_empty_str (JObj d) ''run_id'') (\<lambda>run_id.
     rbind (optional_str (dict_get d ''plan_item_id'')) (\<lambda>plan_item_id.
     rbind (require_non_empty_str (JObj d) ''tool_name'') (\<lambda>tool_name.
     rbind (require_non_empty_str (JObj d) ''operation_type'') (\<lambda>operation_type.
     rbind (result_status_of (py_str T (dict_get_or d ''result_status'' (JStr ''unknown'')))) (\<lambda>result_status.
     rbind (normalize_execution_status (py_str T (dict_get_or d ''execution_status'' (JStr ''intent_logged'')))) (\<lambda>execution_status.
     rbind (optional_str (dict_get d ''error_message'')) (\<lambda>error_message.
     rbind (parse_datetime T now (dict_get d ''created_at'')) (\<lambda>created_at.
     rbind (parse_datetime T now (dict_get d ''updated_at'')) (\<lambda>updated_at.
     Inr \<lparr>res_execution_id = execution_id, res_run_id = run_id, res_plan_item_id = plan_item_id,
          res_tool_name = tool_name, res_operation_type = operation_type,
          res_request_payload = request, res_response_payload = response,
          res_request_payload_ref = request_ref, res_response_payload_ref = response_ref,
          res_result_status = result_status, res_execution_status = execution_status,
          res_error_message = error_message, res_created_at = created_at,
          res_updated_at = updated_at\<rparr>))))))))))))))"

definition wf_ref :: "payload_ref \<Rightarrow> bool" where
  "wf_ref r \<longleftrightarrow> ref_storage r \<noteq> [] \<and> canonical (ref_payload_id r) \<and>
     (case ref_size_bytes r of None \<Rightarrow> True | Some n \<Rightarrow> 0 \<le> n)"

definition wf_result :: "external_result \<Rightarrow> bool" where
  "wf_result r \<longleftrightarrow> canonical (res_execution_id r) \<and> canonical (res_run_id r) \<and>
     canonical (res_tool_name r) \<and> canonical (res_operation_type r) \<and>
     (res_request_payload r \<noteq> None \<or> res_request_payload_ref r \<noteq> None) \<and>
     pred_option wf_ref (res_request_payload_ref r) \<and> pred_option wf_ref (res_response_payload_ref r)"

lemma optional_ref_roundtrip:
  "pred_option wf_ref x \<Longrightarrow> optional_ref_dict (jopt (\<lambda>f. JObj (ref_to_dict f)) x) k = Inr x"
  by (cases x) (auto simp: optional_ref_dict_def ref_to_dict_def wf_ref_def canonical_def
      split: option.splits)

lemma optional_payload_roundtrip [simp]: "optional_payload (jopt JObj x) k = Inr x"
  by (cases x) (simp_all add: optional_payload_def)

lemma result_roundtrip:
  assumes "wf_result r"
  shows "result_from_dict T now (result_to_dict r) = Inr r"
  using assms
  by (cases r) (auto simp: result_from_dict_def result_to_dict_def wf_result_def
      optional_ref_roundtrip require_non_empty_str_def canonical_def)

end
