(* ===== verification/Runtime_Store.thy ===== *)
theory Runtime_Store
  imports Planner_Data Agent_Data
begin

text \<open>
  \<open>runtime_store.py\<close>, first part: the database as its tables, the thread-local connection with its
  transactions, and the planner, context and external-result tables. A table is the list of its
  rows; a keyed table is an association list under its primary key. A JSON column is the value
  that was stored: the key order of a dict, which \<open>json.dumps\<close> sorts, is not represented there.
  The events, checkpoints and timing spans of the same file are in \<open>Runtime_Log\<close>.
\<close>

section \<open>Tables\<close>

record artifact =
  art_payload :: dict
  art_size_bytes :: int
  art_sha256 :: string
  art_created_at :: int

record result_row =
  row_run_id :: string
  row_plan_item_id :: "string option"
  row_tool_name :: string
  row_operation_type :: string
  row_request_payload :: "dict option"
  row_response_payload :: "dict option"
  row_request_ref_id :: "string option"
  row_response_ref_id :: "string option"
  row_result_status :: result_status
  row_execution_status :: execution_status
  row_error_message :: "string option"
  row_created_at :: int
  row_updated_at :: int

record wal_event =
  ev_seq_id :: int
  ev_run_id :: string
  ev_event_type :: string
  ev_entity_type :: string
  ev_entity_id :: string
  ev_payload :: dict
  ev_created_at :: int

record wal_checkpoint =
  ck_checkpoint_id :: string
  ck_run_id :: string
  ck_seq_id :: int
  ck_snapshot_type :: string
  ck_snapshot_payload :: dict
  ck_created_at :: int

record eval_span =
  span_id :: string
  span_run_id :: string
  span_step_index :: "int option"
  span_plan_item_id :: "string option"
  span_attempt_no :: int
  span_phase :: string
  span_parent_span_id :: "string option"
  span_status :: string
  span_started_at :: int
  span_finished_at :: "int option"
  span_duration_ms :: "rat option"
  span_metadata :: dict
  span_error_message :: "string option"
  span_created_at :: int
  span_updated_at :: int

text \<open>
  The rows of \<open>planner_states\<close> and \<open>agent_contexts\<close> are the records without their items and
  messages, which have tables of their own. \<open>wal_seq\<close> is the \<open>AUTOINCREMENT\<close> counter.
\<close>

record db =
  planner_states :: "(string \<times> planner_state) list"
  planner_items :: "(string \<times> planner_item) list"
  agent_contexts :: "(string \<times> agent_context) list"
  agent_messages :: "(string \<times> nat \<times> agent_message) list"
  payload_artifacts :: "(string \<times> artifact) list"
  external_results :: "(string \<times> result_row) list"
  wal_events :: "wal_event list"
  wal_seq :: int
  wal_checkpoints :: "wal_checkpoint list"
  evaluation_spans :: "eval_span list"

definition empty_db :: db where
  "empty_db = \<lparr>planner_states = [], planner_items = [], agent_contexts = [], agent_messages = [],
     payload_artifacts = [], external_results = [], wal_events = [], wal_seq = 0,
     wal_checkpoints = [], evaluation_spans = []\<rparr>"

section \<open>The process and its connection\<close>

text \<open>
  What a process is given: the readings of its clock (the n-th call of \<open>utc_now\<close>, in
  microseconds, with no assumption on their order), its random identifiers, the hash function,
  the text of floats and timestamps, and the configuration of \<open>LoggingServiceConfig\<close>. \<open>mirror\<close>
  is the JSON mirror, if there is one: the exception that writing a run's bundle to its file
  raises, if any.
\<close>

record runtime =
  clock :: "nat \<Rightarrow> int"
  uuid4 :: "nat \<Rightarrow> string"
  sha256_hex :: "string \<Rightarrow> string"
  forms :: text_forms
  payload_inline_limit_bytes :: int
  checkpoint_every_n_events :: int
  enforce_execution_dedup :: bool
  mirror :: "(string \<Rightarrow> dict \<Rightarrow> exn option) option"

text \<open>
  The state of a run of the program: the committed database (inside a transaction, the database
  as that transaction sees it), whether the thread has an open transaction, how many clock
  readings and identifiers were drawn, and whatever is outside the process.
\<close>

record 't world =
  db :: db
  conn_open :: bool
  ticks :: nat
  uuids :: nat
  outside :: 't

type_synonym ('t, 'a) op = "('t world, 'a) act"

definition utc_now :: "runtime \<Rightarrow> ('t, int) op" where
  "utc_now R w = (Inr (clock R (ticks w)), w\<lparr>ticks := Suc (ticks w)\<rparr>)"

definition new_uuid :: "runtime \<Rightarrow> ('t, string) op" where
  "new_uuid R w = (Inr (uuid4 R (uuids w)), w\<lparr>uuids := Suc (uuids w)\<rparr>)"

definition update_db :: "(db \<Rightarrow> db) \<Rightarrow> ('t, unit) op" where
  "update_db f = modify (\<lambda>w. w\<lparr>db := f (db w)\<rparr>)"

definition read_db :: "(db \<Rightarrow> 'a) \<Rightarrow> ('t, 'a) op" where
  "read_db f = gets (\<lambda>w. f (db w))"

text \<open>
  \<open>SQLiteRuntimeStore.transaction\<close>: joins the thread's open transaction, or opens one, commits
  when the body returns and rolls back when it raises.
\<close>

definition transaction :: "('t, 'a) op \<Rightarrow> ('t, 'a) op" where
  "transaction m w =
     (if conn_open w then m w
      else (case m (w\<lparr>conn_open := True\<rparr>) of
          (Inr x, w') \<Rightarrow> (Inr x, w'\<lparr>conn_open := False\<rparr>)
        | (Inl e, w') \<Rightarrow> (Inl e, w'\<lparr>conn_open := False, db := db w\<rparr>)))"

lemma update_db_simp [simp]: "update_db f w = (Inr (), w\<lparr>db := f (db w)\<rparr>)"
  by (simp add: update_db_def)

lemma read_db_simp [simp]: "read_db f w = (Inr (f (db w)), w)"
  by (simp add: read_db_def)

lemma clock_simps [simp]:
  "utc_now R w = (Inr (clock R (ticks w)), w\<lparr>ticks := Suc (ticks w)\<rparr>)"
  "new_uuid R w = (Inr (uuid4 R (uuids w)), w\<lparr>uuids := Suc (uuids w)\<rparr>)"
  by (simp_all add: utc_now_def new_uuid_def)

lemma bind_db_simps [simp]:
  "bind (update_db f) g w = g () (w\<lparr>db := f (db w)\<rparr>)"
  "bind (read_db h) g' w = g' (h (db w)) w"
  "bind (utc_now R) g'' w = g'' (clock R (ticks w)) (w\<lparr>ticks := Suc (ticks w)\<rparr>)"
  "bind (new_uuid R) k w = k (uuid4 R (uuids w)) (w\<lparr>uuids := Suc (uuids w)\<rparr>)"
  by (simp_all add: bind_def utc_now_def new_uuid_def)

lemma transaction_joined: "conn_open w \<Longrightarrow> transaction m w = m w"
  by (simp add: transaction_def)

text \<open>
  Preservation of a property of the database. Every operation keeps such a property if each
  statement that writes does; a transaction keeps it in every outcome.
\<close>

abbreviation keeps_db :: "(db \<Rightarrow> bool) \<Rightarrow> ('t, 'a) op \<Rightarrow> bool" where
  "keeps_db P \<equiv> keeps (\<lambda>w. P (db w))"

lemma keeps_update_db [keeps_rules]: "(\<And>d. P d \<Longrightarrow> P (f d)) \<Longrightarrow> keeps_db P (update_db f)"
  by (simp add: keeps_def)

lemma keeps_read_db [keeps_rules]: "keeps Q (read_db f)"
  by (simp add: keeps_def)

lemma keeps_utc_now [keeps_rules]: "keeps_db P (utc_now R)"
  by (simp add: keeps_def utc_now_def)

lemma keeps_new_uuid [keeps_rules]: "keeps_db P (new_uuid R)"
  by (simp add: keeps_def new_uuid_def)

lemma transaction_InrE:
  assumes "transaction m w = (Inr x, w')"
  obtains v where "m (w\<lparr>conn_open := True\<rparr>) = (Inr x, v)" and "db w' = db v"
    and "ticks w' = ticks v" and "uuids w' = uuids v" and "outside w' = outside v"
proof (cases "conn_open w")
  case True
  then have "w\<lparr>conn_open := True\<rparr> = w" by (cases w) simp
  with True assms that show ?thesis by (simp add: transaction_def)
next
  case False
  with assms that show ?thesis
    by (auto simp: transaction_def split: prod.splits sum.splits)
qed

lemma keeps_transaction [keeps_rules]: "keeps_db P m \<Longrightarrow> keeps_db P (transaction m)"
  by (rule keepsI) (auto elim!: transaction_InrE dest: keepsD)

text \<open>A transaction is all or nothing: it leaves what its body committed, or what was there.\<close>

lemma transaction_atomic:
  assumes "\<not> conn_open w" and "transaction m w = (r, w')"
  shows "\<not> conn_open w' \<and>
    (case r of Inl e \<Rightarrow> db w' = db w
     | Inr x \<Rightarrow> \<exists>v. m (w\<lparr>conn_open := True\<rparr>) = (Inr x, v) \<and> db w' = db v)"
  using assms by (auto simp: transaction_def split: prod.splits sum.splits)

lemma transaction_keeps_all:
  assumes "keeps_db P m" and "\<not> conn_open w" and "P (db w)"
  shows "P (db (snd (transaction m w)))"
  using assms transaction_atomic [OF assms(2), of m "fst (transaction m w)" "snd (transaction m w)"]
  by (auto split: sum.splits dest: keepsD)

text \<open>
  Three preorders on worlds: nothing durable changes; nothing outside the process changes; the
  log only grows, whatever the outcome of the operation.
\<close>

definition same_db :: "'t world \<Rightarrow> 't world \<Rightarrow> bool" where
  "same_db w w' \<longleftrightarrow> db w' = db w \<and> outside w' = outside w \<and> conn_open w' = conn_open w"

definition same_outside :: "'t world \<Rightarrow> 't world \<Rightarrow> bool" where
  "same_outside w w' \<longleftrightarrow> outside w' = outside w \<and> conn_open w' = conn_open w"

definition log_grows :: "'t world \<Rightarrow> 't world \<Rightarrow> bool" where
  "log_grows w w' \<longleftrightarrow> conn_open w' = conn_open w \<and> wal_seq (db w) \<le> wal_seq (db w') \<and>
     (\<exists>es cs. wal_events (db w') = wal_events (db w) @ es \<and> wal_checkpoints (db w') = wal_checkpoints (db w) @ cs)"

interpretation reads: effect_order same_db
  by unfold_locales (auto simp: same_db_def)

interpretation store: effect_order same_outside
  by unfold_locales (auto simp: same_outside_def)

interpretation grows: effect_order log_grows
  by unfold_locales (auto simp: log_grows_def)

lemma reads_basic [effect]:
  "confined same_db (utc_now R)" "confined same_db (new_uuid R)" "confined same_db (read_db f)"
  by (auto simp: confined_def same_db_def utc_now_def new_uuid_def)

lemma reads_transaction [effect]: "confined same_db m \<Longrightarrow> confined same_db (transaction m)"
  by (rule confinedI) (auto simp: transaction_def same_db_def split: if_splits prod.splits sum.splits
      dest!: confinedD)

lemma store_basic [effect]:
  "confined same_outside (utc_now R)" "confined same_outside (new_uuid R)" "confined same_outside (read_db f)"
  "confined same_outside (update_db g)"
  by (auto simp: confined_def same_outside_def utc_now_def new_uuid_def)

lemma store_transaction [effect]: "confined same_outside m \<Longrightarrow> confined same_outside (transaction m)"
  by (rule confinedI) (auto simp: transaction_def same_outside_def split: if_splits prod.splits sum.splits
      dest!: confinedD)

lemma grows_basic [effect]:
  "confined log_grows (utc_now R)" "confined log_grows (new_uuid R)" "confined log_grows (read_db f)"
  by (auto simp: confined_def log_grows_def utc_now_def new_uuid_def)

lemma grows_update_db:
  "(\<And>d. wal_seq d \<le> wal_seq (f d) \<and>
      (\<exists>es cs. wal_events (f d) = wal_events d @ es \<and> wal_checkpoints (f d) = wal_checkpoints d @ cs)) \<Longrightarrow>
    confined log_grows (update_db f)"
  by (simp add: confined_def log_grows_def)

lemma grows_transaction [effect]: "confined log_grows m \<Longrightarrow> confined log_grows (transaction m)"
  by (rule confinedI) (auto simp: transaction_def log_grows_def split: if_splits prod.splits sum.splits
      dest!: confinedD)

lemma reads_onlyD: "confined same_db m \<Longrightarrow> m w = (r, w') \<Longrightarrow> db w' = db w \<and> outside w' = outside w \<and> conn_open w' = conn_open w"
  by (auto dest!: confinedD simp: same_db_def)

lemma same_outsideD: "confined same_outside m \<Longrightarrow> m w = (r, w') \<Longrightarrow> outside w' = outside w \<and> conn_open w' = conn_open w"
  by (auto dest!: confinedD simp: same_outside_def)

lemma keeps_reads [keeps_rules]: "confined same_db m \<Longrightarrow> keeps_db P m"
  by (rule keepsI) (auto dest!: reads_onlyD)

section \<open>Keyed tables as an interface\<close>

text \<open>
  The contract the services rely on for a table: saving a value under its key makes the next
  load return that value up to a normal form, and leaves every other key alone.
\<close>

locale keyed_table =
  fixes put :: "'v \<Rightarrow> 's \<Rightarrow> 's"
    and get :: "'s \<Rightarrow> 'k \<Rightarrow> 'v option"
    and key :: "'v \<Rightarrow> 'k"
    and norm :: "'v \<Rightarrow> 'v"
  assumes get_put_same: "get (put v s) (key v) = Some (norm v)"
    and get_put_other: "k \<noteq> key v \<Longrightarrow> get (put v s) k = get s k"
    and key_norm: "key (norm v) = key v"
    and norm_norm: "norm (norm v) = norm v"
begin

lemma get_put: "get (put v s) = (get s)(key v \<mapsto> norm v)"
  by (rule ext) (simp add: get_put_same get_put_other)

lemma put_overwrites: "key u = key v \<Longrightarrow> get (put v (put u s)) = get (put v s)"
  by (simp add: get_put)

lemma put_commutes: "key u \<noteq> key v \<Longrightarrow> get (put v (put u s)) = get (put u (put v s))"
  by (simp add: get_put fun_upd_twist)

lemma reput: "get (put (norm v) (put v s)) = get (put v s)"
  by (simp add: get_put key_norm norm_norm)

lemma find_snoc: "find P (xs @ [v]) = (case find P xs of Some u \<Rightarrow> Some u | None \<Rightarrow> if P v then Some v else None)"
  by (induction xs) auto

lemma get_put_fold:
  "get (fold put vs s) k = (case find (\<lambda>v. key v = k) (rev vs) of Some v \<Rightarrow> Some (norm v) | None \<Rightarrow> get s k)"
  by (induction vs arbitrary: s) (auto simp: get_put find_snoc split: option.splits)

end

section \<open>Planner tables\<close>

definition item_order :: "planner_item \<Rightarrow> int \<times> string" where
  "item_order it = (pi_sequence_index it, pi_id it)"

definition planner_view :: "db \<Rightarrow> string \<Rightarrow> planner_state option" where
  "planner_view d run_id = map_option
     (\<lambda>row. row\<lparr>ps_items := sort_key item_order (map snd (filter (\<lambda>r. fst r = run_id) (planner_items d)))\<rparr>)
     (map_of (planner_states d) run_id)"

definition load_planner_state :: "string \<Rightarrow> ('t, planner_state option) op" where
  "load_planner_state run_id =
     bind (lift (require_non_empty_str (JStr run_id) ''run_id'')) (\<lambda>run_id.
     read_db (\<lambda>d. planner_view d run_id))"

text \<open>SQLite integers have 64 bits: binding a larger one raises \<open>OverflowError\<close>.\<close>

definition sql_int :: "int \<Rightarrow> bool" where
  "sql_int i \<longleftrightarrow> - (2 ^ 63) \<le> i \<and> i < 2 ^ 63"

definition bind_ints :: "int list \<Rightarrow> ('t, unit) op" where
  "bind_ints is = (if list_all sql_int is then ret ()
     else raise (Exn OverflowError ''Python int too large to convert to SQLite INTEGER''))"

definition insert_planner_item :: "string \<Rightarrow> planner_item \<Rightarrow> ('t, unit) op" where
  "insert_planner_item run_id it =
     bind (bind_ints [pi_sequence_index it]) (\<lambda>_.
     bind (read_db planner_items) (\<lambda>rows.
     if \<exists>r\<in>set rows. fst r = run_id \<and> pi_id (snd r) = pi_id it
       then raise (Exn IntegrityError ''UNIQUE constraint failed: planner_items.run_id, planner_items.plan_item_id'')
     else update_db (\<lambda>d. d\<lparr>planner_items := planner_items d @ [(run_id, it)]\<rparr>)))"

definition save_planner_state :: "planner_state \<Rightarrow> ('t, unit) op" where
  "save_planner_state st = transaction (
     bind (bind_ints (ps_version st # (case ps_cursor_index st of None \<Rightarrow> [] | Some c \<Rightarrow> [c]))) (\<lambda>_.
     bind (update_db (\<lambda>d. d\<lparr>planner_states :=
       AList.update (ps_run_id st) (st\<lparr>ps_items := []\<rparr>) (planner_states d)\<rparr>)) (\<lambda>_.
     bind (update_db (\<lambda>d. d\<lparr>planner_items :=
       filter (\<lambda>r. fst r \<noteq> ps_run_id st) (planner_items d)\<rparr>)) (\<lambda>_.
     bind (for_each (insert_planner_item (ps_run_id st)) (ps_items st)) (\<lambda>_. ret ())))))"

text \<open>When a plan can be stored, and the database a save leaves, as one function.\<close>

definition storable_planner :: "planner_state \<Rightarrow> bool" where
  "storable_planner st \<longleftrightarrow> distinct (map pi_id (ps_items st)) \<and>
     (\<forall>it\<in>set (ps_items st). sql_int (pi_sequence_index it)) \<and>
     sql_int (ps_version st) \<and> pred_option sql_int (ps_cursor_index st)"

definition put_planner :: "planner_state \<Rightarrow> db \<Rightarrow> db" where
  "put_planner st d = d\<lparr>
     planner_states := AList.update (ps_run_id st) (st\<lparr>ps_items := []\<rparr>) (planner_states d),
     planner_items := filter (\<lambda>r. fst r \<noteq> ps_run_id st) (planner_items d) @ map (Pair (ps_run_id st)) (ps_items st)\<rparr>"

definition ordered_planner :: "planner_state \<Rightarrow> planner_state" where
  "ordered_planner st = st\<lparr>ps_items := sort_key item_order (ps_items st)\<rparr>"

lemma bind_ints_simp:
  "bind_ints is w = (if list_all sql_int is then (Inr (), w)
     else (Inl (Exn OverflowError ''Python int too large to convert to SQLite INTEGER''), w))"
  by (simp add: bind_ints_def)

lemma insert_planner_item_simp:
  "sql_int (pi_sequence_index it) \<Longrightarrow> (run, pi_id it) \<notin> (\<lambda>r. (fst r, pi_id (snd r))) ` set (planner_items (db w)) \<Longrightarrow>
   insert_planner_item run it w = (Inr (), w\<lparr>db := (db w)\<lparr>planner_items := planner_items (db w) @ [(run, it)]\<rparr>\<rparr>)"
  by (force simp: insert_planner_item_def bind_def bind_ints_simp image_iff)

lemma insert_planner_item_InrD:
  "insert_planner_item run it w = (Inr u, w') \<Longrightarrow> sql_int (pi_sequence_index it) \<and>
    (run, pi_id it) \<notin> (\<lambda>r. (fst r, pi_id (snd r))) ` set (planner_items (db w)) \<and>
    w' = w\<lparr>db := (db w)\<lparr>planner_items := planner_items (db w) @ [(run, it)]\<rparr>\<rparr>"
  by (auto simp: insert_planner_item_def bind_def bind_ints_simp split: if_splits)

lemma insert_items_ok:
  "distinct (map pi_id its) \<Longrightarrow> (\<forall>it\<in>set its. sql_int (pi_sequence_index it)) \<Longrightarrow>
   (\<forall>it\<in>set its. (run, pi_id it) \<notin> (\<lambda>r. (fst r, pi_id (snd r))) ` set (planner_items (db w))) \<Longrightarrow>
    \<exists>us. for_each (insert_planner_item run) its w =
      (Inr us, w\<lparr>db := (db w)\<lparr>planner_items := planner_items (db w) @ map (Pair run) its\<rparr>\<rparr>)"
proof (induction its arbitrary: w)
  case (Cons it its)
  let ?w = "w\<lparr>db := (db w)\<lparr>planner_items := planner_items (db w) @ [(run, it)]\<rparr>\<rparr>"
  have ins: "insert_planner_item run it w = (Inr (), ?w)"
    using Cons.prems by (intro insert_planner_item_simp) simp_all
  have "\<exists>us. for_each (insert_planner_item run) its ?w =
      (Inr us, ?w\<lparr>db := (db ?w)\<lparr>planner_items := planner_items (db ?w) @ map (Pair run) its\<rparr>\<rparr>)"
    by (rule Cons.IH) (use Cons.prems in \<open>auto simp: image_iff\<close>)
  then obtain us where "for_each (insert_planner_item run) its ?w =
      (Inr us, ?w\<lparr>db := (db ?w)\<lparr>planner_items := planner_items (db ?w) @ map (Pair run) its\<rparr>\<rparr>)" ..
  then show ?case by (simp add: bind_Inr [where m = "insert_planner_item run it", OF ins] bind_Inr)
qed simp

lemma insert_items_InrD:
  "for_each (insert_planner_item run) its w = (Inr us, w') \<Longrightarrow>
    distinct (map pi_id its) \<and> (\<forall>it\<in>set its. sql_int (pi_sequence_index it)) \<and>
    (\<forall>it\<in>set its. (run, pi_id it) \<notin> (\<lambda>r. (fst r, pi_id (snd r))) ` set (planner_items (db w))) \<and>
    w' = w\<lparr>db := (db w)\<lparr>planner_items := planner_items (db w) @ map (Pair run) its\<rparr>\<rparr>"
proof (induction its arbitrary: w us)
  case (Cons it its)
  then obtain u v us' where "insert_planner_item run it w = (Inr u, v)"
    and "for_each (insert_planner_item run) its v = (Inr us', w')"
    by (auto simp: bind_eq_Inr)
  with Cons.IH [of v us'] show ?case by (force dest!: insert_planner_item_InrD)
qed simp

lemma save_planner_state_ok:
  assumes "storable_planner st"
  shows "save_planner_state st w = (Inr (), w\<lparr>db := put_planner st (db w)\<rparr>)"
proof -
  let ?rows = "\<lambda>d. d\<lparr>planner_states := AList.update (ps_run_id st) (st\<lparr>ps_items := []\<rparr>) (planner_states d),
     planner_items := filter (\<lambda>r. fst r \<noteq> ps_run_id st) (planner_items d)\<rparr>"
  have body: "\<exists>us. for_each (insert_planner_item (ps_run_id st)) (ps_items st) (v\<lparr>db := ?rows (db v)\<rparr>) =
      (Inr us, v\<lparr>db := put_planner st (db v)\<rparr>)" for v :: "'a world"
    using insert_items_ok [of "ps_items st" "ps_run_id st" "v\<lparr>db := ?rows (db v)\<rparr>"] assms
    by (simp add: storable_planner_def put_planner_def image_iff)
  have "list_all sql_int (ps_version st # (case ps_cursor_index st of None \<Rightarrow> [] | Some c \<Rightarrow> [c]))"
    using assms by (auto simp: storable_planner_def split: option.splits)
  then show ?thesis
    using body [of "w\<lparr>conn_open := True\<rparr>"]
    by (cases w) (auto simp: save_planner_state_def transaction_def bind_ints_simp bind_def)
qed

lemma save_planner_state_InrD:
  assumes "save_planner_state st w = (Inr u, w')"
  shows "storable_planner st \<and> w' = w\<lparr>db := put_planner st (db w)\<rparr>"
proof -
  have "storable_planner st"
    using assms unfolding save_planner_state_def
    by (elim transaction_InrE bind_InrE)
      (auto simp: storable_planner_def bind_ints_simp dest!: insert_items_InrD split: if_splits option.splits)
  with assms save_planner_state_ok [of st w] show ?thesis by simp
qed

lemma keeps_save_planner [keeps_rules]: "(\<And>d. P d \<Longrightarrow> P (put_planner st d)) \<Longrightarrow> keeps_db P (save_planner_state st)"
  by (rule keepsI) (auto dest!: save_planner_state_InrD)

lemma ordered_planner_simps [simp]:
  "ps_run_id (ordered_planner st) = ps_run_id st"
  "ps_version (ordered_planner st) = ps_version st"
  "ps_active_item_id (ordered_planner st) = ps_active_item_id st"
  "ps_cursor_index (ordered_planner st) = ps_cursor_index st"
  "ps_items (ordered_planner st) = sort_key item_order (ps_items st)"
  by (simp_all add: ordered_planner_def)

lemma filter_other_key: "k \<noteq> k' \<Longrightarrow> filter (\<lambda>x. fst x \<noteq> k' \<and> fst x = k) xs = filter (\<lambda>x. fst x = k) xs"
  by (rule filter_cong) auto

lemma planner_view_put:
  "planner_view (put_planner st d) k = (if k = ps_run_id st then Some (ordered_planner st) else planner_view d k)"
  by (cases "k = ps_run_id st")
    (simp_all add: planner_view_def put_planner_def ordered_planner_def filter_map o_def filter_other_key)

interpretation planners: keyed_table put_planner planner_view ps_run_id ordered_planner
  by unfold_locales (simp_all add: planner_view_put, simp add: ordered_planner_def sort_key_id)

lemma load_planner_reads [effect]: "confined same_db (load_planner_state run_id)"
  unfolding load_planner_state_def by (intro effect)

lemma bind_ints_effect [effect]:
  "confined same_db (bind_ints is)" "confined same_outside (bind_ints is)" "confined log_grows (bind_ints is)"
  unfolding bind_ints_def by (intro effect)+

lemma insert_item_effect [effect]:
  "confined same_outside (insert_planner_item run_id it)" "confined log_grows (insert_planner_item run_id it)"
  unfolding insert_planner_item_def by (intro effect grows_update_db; simp)+

lemma save_planner_effect [effect]:
  "confined same_outside (save_planner_state st)" "confined log_grows (save_planner_state st)"
  unfolding save_planner_state_def by (intro effect grows_update_db; simp)+

section \<open>Context tables\<close>

definition context_view :: "db \<Rightarrow> string \<Rightarrow> agent_context option" where
  "context_view d run_id = map_option
     (\<lambda>row. row\<lparr>ctx_messages := map (\<lambda>r. snd (snd r))
        (sort_key (\<lambda>r. fst (snd r)) (filter (\<lambda>r. fst r = run_id) (agent_messages d)))\<rparr>)
     (map_of (agent_contexts d) run_id)"

definition load_context_snapshot :: "string \<Rightarrow> ('t, agent_context option) op" where
  "load_context_snapshot run_id =
     bind (lift (require_non_empty_str (JStr run_id) ''run_id'')) (\<lambda>run_id.
     read_db (\<lambda>d. context_view d run_id))"

definition context_ints :: "agent_context \<Rightarrow> int list" where
  "context_ints c = [ctx_turn_index c, ctx_step_index c, ctx_planner_version c] @
     (case ctx_last_checkpoint_seq c of None \<Rightarrow> [] | Some i \<Rightarrow> [i])"

text \<open>The message rows are deleted before they are inserted under distinct indices: no key clashes.\<close>

definition save_context_snapshot :: "agent_context \<Rightarrow> ('t, unit) op" where
  "save_context_snapshot c = transaction (
     bind (bind_ints (context_ints c)) (\<lambda>_.
     bind (update_db (\<lambda>d. d\<lparr>agent_contexts :=
       AList.update (ctx_run_id c) (c\<lparr>ctx_messages := []\<rparr>) (agent_contexts d)\<rparr>)) (\<lambda>_.
     bind (update_db (\<lambda>d. d\<lparr>agent_messages :=
       filter (\<lambda>r. fst r \<noteq> ctx_run_id c) (agent_messages d)\<rparr>)) (\<lambda>_.
     update_db (\<lambda>d. d\<lparr>agent_messages :=
       agent_messages d @ map (Pair (ctx_run_id c)) (List.enumerate 0 (ctx_messages c))\<rparr>)))))"

definition put_context :: "agent_context \<Rightarrow> db \<Rightarrow> db" where
  "put_context c d = d\<lparr>
     agent_contexts := AList.update (ctx_run_id c) (c\<lparr>ctx_messages := []\<rparr>) (agent_contexts d),
     agent_messages := filter (\<lambda>r. fst r \<noteq> ctx_run_id c) (agent_messages d) @
       map (Pair (ctx_run_id c)) (List.enumerate 0 (ctx_messages c))\<rparr>"

definition storable_context :: "agent_context \<Rightarrow> bool" where
  "storable_context c \<longleftrightarrow> list_all sql_int (context_ints c)"

lemma save_context_ok:
  "storable_context c \<Longrightarrow> save_context_snapshot c w = (Inr (), w\<lparr>db := put_context c (db w)\<rparr>)"
  by (cases w) (simp add: save_context_snapshot_def storable_context_def transaction_def bind_ints_simp
      bind_Inr put_context_def)

lemma save_context_InrD:
  assumes "save_context_snapshot c w = (Inr u, w')"
  shows "storable_context c \<and> w' = w\<lparr>db := put_context c (db w)\<rparr>"
proof -
  have "storable_context c"
    using assms unfolding save_context_snapshot_def
    by (elim transaction_InrE bind_InrE) (auto simp: storable_context_def bind_ints_simp split: if_splits)
  with assms save_context_ok [of c w] show ?thesis by simp
qed

lemma keeps_save_context [keeps_rules]: "(\<And>d. P d \<Longrightarrow> P (put_context c d)) \<Longrightarrow> keeps_db P (save_context_snapshot c)"
  by (rule keepsI) (auto dest!: save_context_InrD)

lemma enumerate_rows: "map (\<lambda>r. snd (snd r)) (sort_key (\<lambda>r. fst (snd r)) (map (Pair k) (List.enumerate n xs))) = xs"
proof -
  have "map (\<lambda>r. fst (snd r)) (map (Pair k) (List.enumerate n xs)) = [n..<n + length xs]"
    by (simp add: o_def)
  then have "sorted (map (\<lambda>r. fst (snd r)) (map (Pair k) (List.enumerate n xs)))"
    by (metis sorted_upt)
  moreover have "map (\<lambda>r. snd (snd r)) (map (Pair k) (List.enumerate n xs)) = xs"
    by (simp add: o_def)
  ultimately show ?thesis by (simp only: sort_key_id)
qed

lemma context_view_put:
  "context_view (put_context c d) k = (if k = ctx_run_id c then Some c else context_view d k)"
  by (cases "k = ctx_run_id c")
    (simp_all add: context_view_def put_context_def filter_map o_def filter_other_key enumerate_rows)

interpretation contexts: keyed_table put_context context_view ctx_run_id "\<lambda>c. c"
  by unfold_locales (simp_all add: context_view_put)

text \<open>The two stores are independent of each other.\<close>

lemma view_of_other [simp]:
  "planner_view (put_context c d) k = planner_view d k"
  "context_view (put_planner st d) k = context_view d k"
  by (simp_all add: planner_view_def put_context_def context_view_def put_planner_def)

lemma load_context_reads [effect]: "confined same_db (load_context_snapshot run_id)"
  unfolding load_context_snapshot_def by (intro effect)

lemma save_context_effect [effect]:
  "confined same_outside (save_context_snapshot c)" "confined log_grows (save_context_snapshot c)"
  unfolding save_context_snapshot_def by (intro effect grows_update_db; simp)+

section \<open>External results\<close>

definition artifact_id :: "string \<Rightarrow> string \<Rightarrow> string \<Rightarrow> string" where
  "artifact_id execution_id kind sha = execution_id @ '':'' @ kind @ '':'' @ take 16 sha"

definition artifact_ref :: "string \<Rightarrow> int \<Rightarrow> string \<Rightarrow> payload_ref" where
  "artifact_ref payload_id size_bytes sha =
     \<lparr>ref_storage = ''sqlite'', ref_payload_id = payload_id, ref_size_bytes = Some size_bytes, ref_sha256 = Some sha\<rparr>"

definition store_payload ::
  "runtime \<Rightarrow> string \<Rightarrow> string \<Rightarrow> dict option \<Rightarrow> ('t, dict option \<times> payload_ref option) op" where
  "store_payload R execution_id kind payload = (case payload of
     None \<Rightarrow> ret (None, None)
   | Some p \<Rightarrow>
       let size_bytes = int (json_size_bytes (forms R) (JObj p)) in
       if size_bytes \<le> payload_inline_limit_bytes R then ret (Some p, None)
       else
         let sha = json_sha256 (forms R) (sha256_hex R) (JObj p);
             payload_id = artifact_id execution_id kind sha in
         bind (utc_now R) (\<lambda>now.
         bind (update_db (\<lambda>d. if map_of (payload_artifacts d) payload_id \<noteq> None then d
             else d\<lparr>payload_artifacts := payload_artifacts d @ [(payload_id,
               \<lparr>art_payload = p, art_size_bytes = size_bytes, art_sha256 = sha, art_created_at = now\<rparr>)]\<rparr>)) (\<lambda>_.
         ret (None, Some (artifact_ref payload_id size_bytes sha)))))"

definition load_payload :: "db \<Rightarrow> dict option \<Rightarrow> string option \<Rightarrow> (dict option \<times> payload_ref option) res" where
  "load_payload d inline ref_id = (case inline of
     Some p \<Rightarrow> Inr (Some p, None)
   | None \<Rightarrow> (case ref_id of
       None \<Rightarrow> Inr (None, None)
     | Some i \<Rightarrow> (case map_of (payload_artifacts d) i of
         None \<Rightarrow> value_error (''payload artifact not found: '' @ i)
       | Some a \<Rightarrow> Inr (Some (art_payload a),
           Some (artifact_ref i (art_size_bytes a) (art_sha256 a))))))"

text \<open>
  \<open>upsert_external_result\<close>. The foreign key on \<open>agent_contexts\<close> is checked on insert and on update;
  the two on \<open>payload_artifacts\<close> hold because the rows were just inserted.
\<close>

definition upsert_external_result :: "runtime \<Rightarrow> external_result \<Rightarrow> ('t, external_result) op" where
  "upsert_external_result R r = transaction (
     bind (read_db (\<lambda>d. map_of (external_results d) (res_execution_id r))) (\<lambda>row.
     bind (case row of Some old \<Rightarrow> ret (row_created_at old) | None \<Rightarrow> utc_now R) (\<lambda>created_at.
     bind (store_payload R (res_execution_id r) ''request'' (res_request_payload r)) (\<lambda>(request_json, request_ref).
     bind (store_payload R (res_execution_id r) ''response'' (res_response_payload r)) (\<lambda>(response_json, response_ref).
     bind (read_db (\<lambda>d. map_of (agent_contexts d) (res_run_id r))) (\<lambda>parent.
     if parent = None then raise (Exn IntegrityError ''FOREIGN KEY constraint failed'') else
     bind (update_db (\<lambda>d. d\<lparr>external_results := AList.update (res_execution_id r)
       \<lparr>row_run_id = res_run_id r, row_plan_item_id = res_plan_item_id r,
        row_tool_name = res_tool_name r, row_operation_type = res_operation_type r,
        row_request_payload = request_json, row_response_payload = response_json,
        row_request_ref_id = map_option ref_payload_id request_ref,
        row_response_ref_id = map_option ref_payload_id response_ref,
        row_result_status = res_result_status r, row_execution_status = res_execution_status r,
        row_error_message = res_error_message r, row_created_at = created_at,
        row_updated_at = res_updated_at r\<rparr> (external_results d)\<rparr>)) (\<lambda>_.
     ret (r\<lparr>res_request_payload_ref := request_ref, res_response_payload_ref := response_ref,
       res_created_at := created_at\<rparr>))))))))"

definition result_of_row :: "db \<Rightarrow> string \<Rightarrow> result_row \<Rightarrow> external_result res" where
  "result_of_row d execution_id row =
     rbind (load_payload d (row_request_payload row) (row_request_ref_id row)) (\<lambda>(request_payload, request_ref).
     rbind (load_payload d (row_response_payload row) (row_response_ref_id row)) (\<lambda>(response_payload, response_ref).
     Inr \<lparr>res_execution_id = execution_id, res_run_id = row_run_id row,
       res_plan_item_id = row_plan_item_id row, res_tool_name = row_tool_name row,
       res_operation_type = row_operation_type row, res_request_payload = request_payload,
       res_response_payload = response_payload, res_request_payload_ref = request_ref,
       res_response_payload_ref = response_ref, res_result_status = row_result_status row,
       res_execution_status = row_execution_status row, res_error_message = row_error_message row,
       res_created_at = row_created_at row, res_updated_at = row_updated_at row\<rparr>))"

definition get_external_result :: "string \<Rightarrow> ('t, external_result option) op" where
  "get_external_result execution_id =
     bind (lift (require_non_empty_str (JStr execution_id) ''execution_id'')) (\<lambda>execution_id.
     bind (read_db (\<lambda>d. d)) (\<lambda>d.
     case map_of (external_results d) execution_id of
       None \<Rightarrow> ret None
     | Some row \<Rightarrow> bind (lift (result_of_row d execution_id row)) (\<lambda>r. ret (Some r))))"

definition list_external_results :: "string \<Rightarrow> ('t, external_result list) op" where
  "list_external_results run_id =
     bind (lift (require_non_empty_str (JStr run_id) ''run_id'')) (\<lambda>run_id.
     bind (read_db (\<lambda>d. map fst (sort_key (\<lambda>(i, row). (row_created_at row, i))
       (filter (\<lambda>(i, row). row_run_id row = run_id) (external_results d))))) (\<lambda>execution_ids.
     bind (for_each get_external_result execution_ids) (\<lambda>rs. ret (List.map_filter (\<lambda>r. r) rs))))"

text \<open>
  What an upsert does: artifacts are only added, one row is set, and the row keeps the creation
  time of the row it replaces.
\<close>

definition adds_artifacts :: "db \<Rightarrow> db \<Rightarrow> bool" where
  "adds_artifacts d d' \<longleftrightarrow> (\<exists>arts. d' = d\<lparr>payload_artifacts := payload_artifacts d @ arts\<rparr>)"

lemma adds_artifacts_refl [simp]: "adds_artifacts d d"
  by (auto simp: adds_artifacts_def intro!: exI [of _ "[]"])

lemma adds_artifacts_append [simp]: "adds_artifacts d (d\<lparr>payload_artifacts := payload_artifacts d @ arts\<rparr>)"
  by (auto simp: adds_artifacts_def)

lemma adds_artifacts_trans: "adds_artifacts d d' \<Longrightarrow> adds_artifacts d' d'' \<Longrightarrow> adds_artifacts d d''"
  by (auto simp: adds_artifacts_def)

lemma load_payload_mono:
  "load_payload d j i = Inr x \<Longrightarrow> adds_artifacts d d' \<Longrightarrow> load_payload d' j i = Inr x"
  by (auto simp: load_payload_def adds_artifacts_def map_add_def split: option.splits)

lemma load_payload_same_artifacts:
  "payload_artifacts d = payload_artifacts d' \<Longrightarrow> load_payload d j i = load_payload d' j i"
  by (cases j; cases i) (simp_all add: load_payload_def)

text \<open>
  No artifact that is already stored under the name this payload would get has another content:
  the name holds only the first 16 characters of the hash.
\<close>

definition no_collision :: "runtime \<Rightarrow> string \<Rightarrow> string \<Rightarrow> dict option \<Rightarrow> db \<Rightarrow> bool" where
  "no_collision R execution_id kind payload d = (case payload of None \<Rightarrow> True
   | Some p \<Rightarrow> let sha = json_sha256 (forms R) (sha256_hex R) (JObj p) in
       (case map_of (payload_artifacts d) (artifact_id execution_id kind sha) of
          None \<Rightarrow> True
        | Some a \<Rightarrow> art_payload a = p \<and> art_sha256 a = sha \<and>
            art_size_bytes a = int (json_size_bytes (forms R) (JObj p))))"

lemma store_payload_effect:
  "store_payload R e k p w = (r, w') \<Longrightarrow> (\<exists>x. r = Inr x) \<and> adds_artifacts (db w) (db w') \<and> conn_open w' = conn_open w \<and> outside w' = outside w"
  by (auto simp: store_payload_def Let_def split: option.splits if_splits)

lemma store_payload_reload:
  assumes "store_payload R e k p w = (Inr (j, ref), w')" and "no_collision R e k p (db w)"
  shows "load_payload (db w') j (map_option ref_payload_id ref) = Inr (p, ref)"
  using assms by (auto simp: store_payload_def no_collision_def load_payload_def Let_def artifact_ref_def
      split: option.splits if_splits)

lemma kinds_apart: "artifact_id e ''request'' s \<noteq> artifact_id e ''response'' s'"
  by (simp add: artifact_id_def)

lemma no_collision_response:
  assumes "store_payload R e ''request'' p w = (r, w')" and "no_collision R e ''response'' q (db w)"
  shows "no_collision R e ''response'' q (db w')"
  using assms by (auto simp: store_payload_def no_collision_def Let_def kinds_apart kinds_apart [symmetric] map_add_def
      split: option.splits if_splits)

definition row_of_result :: "external_result \<Rightarrow> dict option \<Rightarrow> dict option \<Rightarrow> result_row" where
  "row_of_result r request response = \<lparr>row_run_id = res_run_id r, row_plan_item_id = res_plan_item_id r,
     row_tool_name = res_tool_name r, row_operation_type = res_operation_type r,
     row_request_payload = request, row_response_payload = response,
     row_request_ref_id = map_option ref_payload_id (res_request_payload_ref r),
     row_response_ref_id = map_option ref_payload_id (res_response_payload_ref r),
     row_result_status = res_result_status r, row_execution_status = res_execution_status r,
     row_error_message = res_error_message r, row_created_at = res_created_at r,
     row_updated_at = res_updated_at r\<rparr>"

lemma upsert_InrE:
  assumes "upsert_external_result R r w = (Inr r', w')"
  obtains request response request_ref response_ref created_at d where
    "r' = r\<lparr>res_request_payload_ref := request_ref, res_response_payload_ref := response_ref,
       res_created_at := created_at\<rparr>"
    and "adds_artifacts (db w) d"
    and "db w' = d\<lparr>external_results := AList.update (res_execution_id r) (row_of_result r' request response) (external_results d)\<rparr>"
    and "map_of (agent_contexts (db w)) (res_run_id r) \<noteq> None"
    and "\<forall>old. map_of (external_results (db w)) (res_execution_id r) = Some old \<longrightarrow> created_at = row_created_at old"
    and "no_collision R (res_execution_id r) ''request'' (res_request_payload r) (db w) \<Longrightarrow>
         no_collision R (res_execution_id r) ''response'' (res_response_payload r) (db w) \<Longrightarrow>
         load_payload d request (map_option ref_payload_id request_ref) = Inr (res_request_payload r, request_ref) \<and>
         load_payload d response (map_option ref_payload_id response_ref) = Inr (res_response_payload r, response_ref)"
    and "outside w' = outside w"
proof -
  let ?id = "res_execution_id r"
  from assms obtain w4 where "db w' = db w4" and "outside w' = outside w4" and
    "bind (read_db (\<lambda>d. map_of (external_results d) ?id)) (\<lambda>row.
     bind (case row of Some old \<Rightarrow> ret (row_created_at old) | None \<Rightarrow> utc_now R) (\<lambda>created_at.
     bind (store_payload R ?id ''request'' (res_request_payload r)) (\<lambda>(request_json, request_ref).
     bind (store_payload R ?id ''response'' (res_response_payload r)) (\<lambda>(response_json, response_ref).
     bind (read_db (\<lambda>d. map_of (agent_contexts d) (res_run_id r))) (\<lambda>parent.
     if parent = None then raise (Exn IntegrityError ''FOREIGN KEY constraint failed'') else
     bind (update_db (\<lambda>d. d\<lparr>external_results := AList.update ?id
       \<lparr>row_run_id = res_run_id r, row_plan_item_id = res_plan_item_id r,
        row_tool_name = res_tool_name r, row_operation_type = res_operation_type r,
        row_request_payload = request_json, row_response_payload = response_json,
        row_request_ref_id = map_option ref_payload_id request_ref,
        row_response_ref_id = map_option ref_payload_id response_ref,
        row_result_status = res_result_status r, row_execution_status = res_execution_status r,
        row_error_message = res_error_message r, row_created_at = created_at,
        row_updated_at = res_updated_at r\<rparr> (external_results d)\<rparr>)) (\<lambda>_.
     ret (r\<lparr>res_request_payload_ref := request_ref, res_response_payload_ref := response_ref,
       res_created_at := created_at\<rparr>))))))) (w\<lparr>conn_open := True\<rparr>) = (Inr r', w4)"
    unfolding upsert_external_result_def by (elim transaction_InrE) blast
  then obtain created_at w1 request request_ref w2 response response_ref w3 where
    time: "(case map_of (external_results (db w)) ?id of Some old \<Rightarrow> ret (row_created_at old)
      | None \<Rightarrow> utc_now R) (w\<lparr>conn_open := True\<rparr>) = (Inr created_at, w1)" and
    req: "store_payload R ?id ''request'' (res_request_payload r) w1 = (Inr (request, request_ref), w2)" and
    rsp: "store_payload R ?id ''response'' (res_response_payload r) w2 = (Inr (response, response_ref), w3)" and
    parent: "map_of (agent_contexts (db w3)) (res_run_id r) \<noteq> None" and
    r': "r' = r\<lparr>res_request_payload_ref := request_ref, res_response_payload_ref := response_ref,
       res_created_at := created_at\<rparr>" and
    w': "db w' = (db w3)\<lparr>external_results := AList.update ?id (row_of_result r' request response) (external_results (db w3))\<rparr>"
      "outside w' = outside w3"
    by (fastforce elim!: bind_InrE simp: row_of_result_def split: if_splits)
  have w1: "db w1 = db w" "outside w1 = outside w"
    using time by (auto simp: utc_now_def split: option.splits)
  note e2 = store_payload_effect [OF req] and e3 = store_payload_effect [OF rsp]
  have grows: "adds_artifacts (db w) (db w3)"
    using e2 e3 w1 by (auto intro: adds_artifacts_trans)
  show ?thesis
  proof (rule that [OF r' grows w'(1)])
    show "map_of (agent_contexts (db w)) (res_run_id r) \<noteq> None"
      using grows parent by (auto simp: adds_artifacts_def)
    show "\<forall>old. map_of (external_results (db w)) ?id = Some old \<longrightarrow> created_at = row_created_at old"
      using time by auto
    show "outside w' = outside w" using w' e2 e3 w1 by simp
    assume n1: "no_collision R ?id ''request'' (res_request_payload r) (db w)"
      and n2: "no_collision R ?id ''response'' (res_response_payload r) (db w)"
    have "load_payload (db w2) request (map_option ref_payload_id request_ref) = Inr (res_request_payload r, request_ref)"
      using store_payload_reload [OF req] n1 w1 by simp
    moreover have "load_payload (db w3) response (map_option ref_payload_id response_ref) = Inr (res_response_payload r, response_ref)"
      using store_payload_reload [OF rsp] no_collision_response [OF req, of "res_response_payload r"] n2 w1 by simp
    ultimately show "load_payload (db w3) request (map_option ref_payload_id request_ref) = Inr (res_request_payload r, request_ref) \<and>
         load_payload (db w3) response (map_option ref_payload_id response_ref) = Inr (res_response_payload r, response_ref)"
      using e3 by (auto intro: load_payload_mono)
  qed
qed

lemma get_after_upsert:
  assumes "upsert_external_result R r w = (Inr r', w')" and "canonical (res_execution_id r)"
    and "no_collision R (res_execution_id r) ''request'' (res_request_payload r) (db w)"
    and "no_collision R (res_execution_id r) ''response'' (res_response_payload r) (db w)"
  shows "get_external_result (res_execution_id r) w' = (Inr (Some r'), w')"
  using assms(1)
proof (rule upsert_InrE)
  fix request response request_ref response_ref created_at d
  assume r': "r' = r\<lparr>res_request_payload_ref := request_ref, res_response_payload_ref := response_ref,
       res_created_at := created_at\<rparr>"
    and w': "db w' = d\<lparr>external_results := AList.update (res_execution_id r) (row_of_result r' request response) (external_results d)\<rparr>"
    and loads: "no_collision R (res_execution_id r) ''request'' (res_request_payload r) (db w) \<Longrightarrow>
         no_collision R (res_execution_id r) ''response'' (res_response_payload r) (db w) \<Longrightarrow>
         load_payload d request (map_option ref_payload_id request_ref) = Inr (res_request_payload r, request_ref) \<and>
         load_payload d response (map_option ref_payload_id response_ref) = Inr (res_response_payload r, response_ref)"
  have same: "load_payload (db w') j i = load_payload d j i" for j i
    by (rule load_payload_same_artifacts) (simp add: w')
  have "result_of_row (db w') (res_execution_id r) (row_of_result r' request response) = Inr r'"
    using loads [OF assms(3,4)] by (simp add: result_of_row_def row_of_result_def same r')
  then show ?thesis using assms(2) by (simp add: get_external_result_def w')
qed

lemma keeps_upsert [keeps_rules]:
  assumes "\<And>d d'. adds_artifacts d d' \<Longrightarrow> P d \<Longrightarrow> P d'"
    and "\<And>d r' request response. map_of (agent_contexts d) (res_run_id r) \<noteq> None \<Longrightarrow> P d \<Longrightarrow>
      res_execution_id r' = res_execution_id r \<Longrightarrow> res_run_id r' = res_run_id r \<Longrightarrow>
      res_operation_type r' = res_operation_type r \<Longrightarrow>
      res_result_status r' = res_result_status r \<Longrightarrow> res_execution_status r' = res_execution_status r \<Longrightarrow>
      P (d\<lparr>external_results := AList.update (res_execution_id r) (row_of_result r' request response) (external_results d)\<rparr>)"
  shows "keeps_db P (upsert_external_result R r)"
proof (rule keepsI, erule upsert_InrE)
  fix w w' :: "'a world" and r' request response request_ref response_ref created_at d
  assume "P (db w)" and d: "adds_artifacts (db w) d" and "map_of (agent_contexts (db w)) (res_run_id r) \<noteq> None"
    and r': "r' = r\<lparr>res_request_payload_ref := request_ref, res_response_payload_ref := response_ref,
       res_created_at := created_at\<rparr>"
    and w': "db w' = d\<lparr>external_results := AList.update (res_execution_id r) (row_of_result r' request response) (external_results d)\<rparr>"
  then show "P (db w')"
    using assms(1) [OF d] assms(2) [of d r' request response] by (auto simp: adds_artifacts_def)
qed

lemma keeps_get_external_result [keeps_rules]: "keeps_db P (get_external_result e)"
  by (rule keepsI) (auto simp: get_external_result_def elim!: bind_InrE split: option.splits)

lemma get_result_reads [effect]: "confined same_db (get_external_result e)"
  unfolding get_external_result_def by (intro effect)

lemma list_results_reads [effect]: "confined same_db (list_external_results run_id)"
  unfolding list_external_results_def by (intro effect)

lemma store_payload_confined [effect]:
  "confined same_outside (store_payload R e k p)" "confined log_grows (store_payload R e k p)"
  unfolding store_payload_def by (intro effect grows_update_db; simp)+

lemma upsert_effect [effect]:
  "confined same_outside (upsert_external_result R r)" "confined log_grows (upsert_external_result R r)"
  unfolding upsert_external_result_def by (intro effect grows_update_db; simp)+

end
