(* ===== verification/Runtime_Log.thy ===== *)
theory Runtime_Log
  imports Runtime_Store
begin

text \<open>
  \<open>runtime_store.py\<close>, second part, and \<open>wal.py\<close>: the event log, its checkpoints and the timing
  spans. The interface of a log is the locale \<open>append_only_log\<close>; the tables implement it.
\<close>

section \<open>Appending events\<close>

definition insert_event :: "string \<Rightarrow> string \<Rightarrow> string \<Rightarrow> string \<Rightarrow> dict \<Rightarrow> int \<Rightarrow> db \<Rightarrow> db" where
  "insert_event run_id event_type entity_type entity_id payload now d = d\<lparr>
     wal_seq := wal_seq d + 1,
     wal_events := wal_events d @ [\<lparr>ev_seq_id = wal_seq d + 1, ev_run_id = run_id,
       ev_event_type = event_type, ev_entity_type = entity_type, ev_entity_id = entity_id,
       ev_payload = payload, ev_created_at = now\<rparr>]\<rparr>"

text \<open>
  One round of the loop of \<open>append_wal_events\<close>: the row has the stripped strings, the returned
  event the strings as they were given.
\<close>

definition append_wal_event :: "runtime \<Rightarrow> json \<Rightarrow> ('t, wal_event) op" where
  "append_wal_event R raw = (case raw of JObj d \<Rightarrow>
     bind (utc_now R) (\<lambda>now.
     bind (lift (require_non_empty_str (dict_get d ''run_id'') ''run_id'')) (\<lambda>run_id.
     bind (lift (require_non_empty_str (dict_get d ''event_type'') ''event_type'')) (\<lambda>event_type.
     bind (lift (require_non_empty_str (dict_get d ''entity_type'') ''entity_type'')) (\<lambda>entity_type.
     bind (lift (require_non_empty_str (dict_get d ''entity_id'') ''entity_id'')) (\<lambda>entity_id.
     bind (lift (require_dict (dict_get d ''payload'') ''payload'')) (\<lambda>payload.
     bind (update_db (insert_event run_id event_type entity_type entity_id payload now)) (\<lambda>_.
     bind (read_db wal_seq) (\<lambda>seq.
     ret \<lparr>ev_seq_id = seq,
          ev_run_id = py_str (forms R) (dict_get d ''run_id''),
          ev_event_type = py_str (forms R) (dict_get d ''event_type''),
          ev_entity_type = py_str (forms R) (dict_get d ''entity_type''),
          ev_entity_id = py_str (forms R) (dict_get d ''entity_id''),
          ev_payload = payload, ev_created_at = now\<rparr>))))))))
   | _ \<Rightarrow> raise (Exn ValueError ''each event input must be an object''))"

definition append_wal_events :: "runtime \<Rightarrow> json list \<Rightarrow> ('t, wal_event list) op" where
  "append_wal_events R events = (if events = [] then raise (Exn ValueError ''events must be a non-empty list'')
     else transaction (for_each (append_wal_event R) events))"

text \<open>\<open>SQLiteWriteAheadLog.append_event\<close>.\<close>

definition event_input :: "string \<Rightarrow> string \<Rightarrow> string \<Rightarrow> string \<Rightarrow> dict \<Rightarrow> json" where
  "event_input run_id event_type entity_type entity_id payload = JObj [
     (''run_id'', JStr run_id), (''event_type'', JStr event_type), (''entity_type'', JStr entity_type),
     (''entity_id'', JStr entity_id), (''payload'', JObj payload)]"

definition append_event :: "runtime \<Rightarrow> string \<Rightarrow> string \<Rightarrow> string \<Rightarrow> string \<Rightarrow> dict \<Rightarrow> ('t, wal_event) op" where
  "append_event R run_id event_type entity_type entity_id payload =
     bind (append_wal_events R [event_input run_id event_type entity_type entity_id payload]) (\<lambda>es. ret (hd es))"

section \<open>Reading events\<close>

definition run_events :: "db \<Rightarrow> string \<Rightarrow> wal_event list" where
  "run_events d run_id = sort_key ev_seq_id (filter (\<lambda>e. ev_run_id e = run_id) (wal_events d))"

text \<open>In SQL a negative \<open>LIMIT\<close> is none.\<close>

definition sql_limit :: "int \<Rightarrow> 'a list \<Rightarrow> 'a list" where
  "sql_limit limit xs = (if limit < 0 then xs else take (nat limit) xs)"

definition read_wal_events :: "string \<Rightarrow> int option \<Rightarrow> int \<Rightarrow> ('t, wal_event list) op" where
  "read_wal_events run_id after_seq limit =
     bind (lift (require_non_empty_str (JStr run_id) ''run_id'')) (\<lambda>run_id.
     bind (bind_ints (limit # (case after_seq of None \<Rightarrow> [] | Some k \<Rightarrow> [k]))) (\<lambda>_.
     read_db (\<lambda>d. sql_limit limit
       (filter (\<lambda>e. case after_seq of None \<Rightarrow> True | Some k \<Rightarrow> k < ev_seq_id e) (run_events d run_id)))))"

definition read_events :: "string \<Rightarrow> int option \<Rightarrow> int \<Rightarrow> ('t, wal_event list) op" where
  "read_events run_id after_seq limit =
     (if (case after_seq of None \<Rightarrow> False | Some k \<Rightarrow> k < 0)
        then raise (Exn ValueError ''after_seq must be a non-negative integer when provided'')
      else if limit \<le> 0 then raise (Exn ValueError ''limit must be a positive integer'')
      else read_wal_events run_id after_seq limit)"

text \<open>Grouping by run and ordering by the largest number: the last occurrence of each run, reversed.\<close>

definition list_run_ids :: "('t, string list) op" where
  "list_run_ids = read_db (\<lambda>d. rev (remdups (map ev_run_id (sort_key ev_seq_id (wal_events d)))))"

definition max_seq :: "db \<Rightarrow> string \<Rightarrow> int option" where
  "max_seq d run_id = (case run_events d run_id of [] \<Rightarrow> None | es \<Rightarrow> Some (ev_seq_id (last es)))"

definition latest_wal_seq :: "string \<Rightarrow> ('t, int option) op" where
  "latest_wal_seq run_id =
     bind (lift (require_non_empty_str (JStr run_id) ''run_id'')) (\<lambda>run_id. read_db (\<lambda>d. max_seq d run_id))"

definition event_exists :: "db \<Rightarrow> string \<Rightarrow> string \<Rightarrow> string \<Rightarrow> bool" where
  "event_exists d run_id event_type entity_id \<longleftrightarrow>
     (\<exists>e\<in>set (wal_events d). ev_run_id e = run_id \<and> ev_event_type e = event_type \<and> ev_entity_id e = entity_id)"

definition has_wal_event :: "string \<Rightarrow> string \<Rightarrow> string \<Rightarrow> ('t, bool) op" where
  "has_wal_event run_id event_type entity_id =
     bind (lift (require_non_empty_str (JStr run_id) ''run_id'')) (\<lambda>run_id.
     bind (lift (require_non_empty_str (JStr event_type) ''event_type'')) (\<lambda>event_type.
     bind (lift (require_non_empty_str (JStr entity_id) ''entity_id'')) (\<lambda>entity_id.
     read_db (\<lambda>d. event_exists d run_id event_type entity_id))))"

section \<open>Checkpoints\<close>

definition write_wal_checkpoint :: "runtime \<Rightarrow> string \<Rightarrow> int \<Rightarrow> string \<Rightarrow> dict \<Rightarrow> ('t, wal_checkpoint) op" where
  "write_wal_checkpoint R run_id seq_id snapshot_type snapshot_payload =
     bind (lift (require_non_empty_str (JStr run_id) ''run_id'')) (\<lambda>run_id.
     bind (lift (require_non_empty_str (JStr snapshot_type) ''snapshot_type'')) (\<lambda>snapshot_type.
     bind (new_uuid R) (\<lambda>checkpoint_id.
     bind (utc_now R) (\<lambda>created_at.
     let row = \<lparr>ck_checkpoint_id = checkpoint_id, ck_run_id = run_id, ck_seq_id = seq_id,
       ck_snapshot_type = snapshot_type, ck_snapshot_payload = snapshot_payload, ck_created_at = created_at\<rparr> in
     bind (transaction (
       bind (bind_ints [seq_id]) (\<lambda>_.
       bind (read_db (\<lambda>d. \<exists>e\<in>set (wal_events d). ev_run_id e = run_id \<and> ev_seq_id e = seq_id)) (\<lambda>exists.
       if \<not> exists then raise (Exn ValueError ''checkpoint seq_id must reference an existing event in the same run'') else
       bind (read_db wal_checkpoints) (\<lambda>rows.
       if checkpoint_id \<in> ck_checkpoint_id ` set rows
         then raise (Exn IntegrityError ''UNIQUE constraint failed: wal_checkpoints.checkpoint_id'') else
       update_db (\<lambda>d. d\<lparr>wal_checkpoints := wal_checkpoints d @ [row]\<rparr>)))))) (\<lambda>_.
     ret row)))))"

definition write_checkpoint :: "runtime \<Rightarrow> string \<Rightarrow> int \<Rightarrow> string \<Rightarrow> dict \<Rightarrow> ('t, wal_checkpoint) op" where
  "write_checkpoint R run_id seq_id snapshot_type snapshot_payload =
     (if seq_id \<le> 0 then raise (Exn ValueError ''seq_id must be a positive integer'')
      else write_wal_checkpoint R run_id seq_id snapshot_type snapshot_payload)"

text \<open>The largest number first, then the latest time.\<close>

definition latest_checkpoint :: "db \<Rightarrow> string \<Rightarrow> string option \<Rightarrow> wal_checkpoint option" where
  "latest_checkpoint d run_id snapshot_type =
     (case sort_key (\<lambda>c. (- ck_seq_id c, - ck_created_at c))
        (filter (\<lambda>c. ck_run_id c = run_id \<and> (case snapshot_type of None \<Rightarrow> True | Some s \<Rightarrow> ck_snapshot_type c = s))
          (wal_checkpoints d)) of
        [] \<Rightarrow> None
      | c # _ \<Rightarrow> Some c)"

definition read_latest_checkpoint :: "string \<Rightarrow> string option \<Rightarrow> ('t, wal_checkpoint option) op" where
  "read_latest_checkpoint run_id snapshot_type =
     bind (lift (require_non_empty_str (JStr run_id) ''run_id'')) (\<lambda>run_id.
     bind (case snapshot_type of None \<Rightarrow> ret None
           | Some s \<Rightarrow> bind (lift (require_non_empty_str (JStr s) ''snapshot_type'')) (\<lambda>s. ret (Some s))) (\<lambda>snapshot_type.
     read_db (\<lambda>d. latest_checkpoint d run_id snapshot_type)))"

section \<open>Dict forms\<close>

definition event_to_dict :: "wal_event \<Rightarrow> dict" where
  "event_to_dict e = [
     (''seq_id'', JInt (ev_seq_id e)), (''run_id'', JStr (ev_run_id e)),
     (''event_type'', JStr (ev_event_type e)), (''entity_type'', JStr (ev_entity_type e)),
     (''entity_id'', JStr (ev_entity_id e)), (''payload'', JObj (ev_payload e)),
     (''created_at'', JTime (ev_created_at e))]"

definition event_from_dict :: "text_forms \<Rightarrow> int \<Rightarrow> dict \<Rightarrow> wal_event res" where
  "event_from_dict T now d =
     rbind (py_int (dict_get_or d ''seq_id'' (JInt 0))) (\<lambda>seq_id.
     rbind (require_non_empty_str (dict_get d ''run_id'') ''run_id'') (\<lambda>run_id.
     rbind (require_non_empty_str (dict_get d ''event_type'') ''event_type'') (\<lambda>event_type.
     rbind (require_non_empty_str (dict_get d ''entity_type'') ''entity_type'') (\<lambda>entity_type.
     rbind (require_non_empty_str (dict_get d ''entity_id'') ''entity_id'') (\<lambda>entity_id.
     rbind (require_dict (dict_get d ''payload'') ''payload'') (\<lambda>payload.
     rbind (parse_datetime T now (dict_get d ''created_at'')) (\<lambda>created_at.
     Inr \<lparr>ev_seq_id = seq_id, ev_run_id = run_id, ev_event_type = event_type,
          ev_entity_type = entity_type, ev_entity_id = entity_id, ev_payload = payload,
          ev_created_at = created_at\<rparr>)))))))"

definition checkpoint_to_dict :: "wal_checkpoint \<Rightarrow> dict" where
  "checkpoint_to_dict c = [
     (''checkpoint_id'', JStr (ck_checkpoint_id c)), (''run_id'', JStr (ck_run_id c)),
     (''seq_id'', JInt (ck_seq_id c)), (''snapshot_type'', JStr (ck_snapshot_type c)),
     (''snapshot_payload'', JObj (ck_snapshot_payload c)), (''created_at'', JTime (ck_created_at c))]"

definition checkpoint_from_dict :: "text_forms \<Rightarrow> int \<Rightarrow> dict \<Rightarrow> wal_checkpoint res" where
  "checkpoint_from_dict T now d =
     rbind (require_non_empty_str (dict_get d ''checkpoint_id'') ''checkpoint_id'') (\<lambda>checkpoint_id.
     rbind (require_non_empty_str (dict_get d ''run_id'') ''run_id'') (\<lambda>run_id.
     rbind (py_int (dict_get_or d ''seq_id'' (JInt 0))) (\<lambda>seq_id.
     rbind (require_non_empty_str (dict_get d ''snapshot_type'') ''snapshot_type'') (\<lambda>snapshot_type.
     rbind (require_dict (dict_get d ''snapshot_payload'') ''snapshot_payload'') (\<lambda>snapshot_payload.
     rbind (parse_datetime T now (dict_get d ''created_at'')) (\<lambda>created_at.
     Inr \<lparr>ck_checkpoint_id = checkpoint_id, ck_run_id = run_id, ck_seq_id = seq_id,
          ck_snapshot_type = snapshot_type, ck_snapshot_payload = snapshot_payload,
          ck_created_at = created_at\<rparr>))))))"

section \<open>Timing spans\<close>

definition next_evaluation_attempt_no :: "string \<Rightarrow> int \<Rightarrow> string option \<Rightarrow> ('t, int) op" where
  "next_evaluation_attempt_no run_id step_index plan_item_id =
     bind (lift (require_non_empty_str (JStr run_id) ''run_id'')) (\<lambda>run_id.
     if step_index < 0 then raise (Exn ValueError ''step_index must be a non-negative integer'') else
     bind (bind_ints [step_index]) (\<lambda>_.
     read_db (\<lambda>d. fold max (map span_attempt_no (filter (\<lambda>s. span_run_id s = run_id \<and>
         span_step_index s = Some step_index \<and> span_plan_item_id s = plan_item_id \<and>
         span_phase s = ''step_total'') (evaluation_spans d))) 0 + 1)))"

definition start_evaluation_span ::
  "runtime \<Rightarrow> string \<Rightarrow> int option \<Rightarrow> string option \<Rightarrow> int \<Rightarrow> string \<Rightarrow> string option \<Rightarrow> dict option \<Rightarrow> ('t, eval_span) op" where
  "start_evaluation_span R run_id step_index plan_item_id attempt_no phase parent_span_id metadata =
     bind (lift (require_non_empty_str (JStr run_id) ''run_id'')) (\<lambda>run_id.
     bind (lift (require_non_empty_str (JStr phase) ''phase'')) (\<lambda>phase.
     if (case step_index of None \<Rightarrow> False | Some i \<Rightarrow> i < 0)
       then raise (Exn ValueError ''step_index must be a non-negative integer when provided'')
     else if attempt_no \<le> 0 then raise (Exn ValueError ''attempt_no must be a positive integer'') else
     bind (new_uuid R) (\<lambda>u.
     bind (utc_now R) (\<lambda>now.
     let row = \<lparr>span_id = ''eval_'' @ u, span_run_id = run_id, span_step_index = step_index,
       span_plan_item_id = plan_item_id, span_attempt_no = attempt_no, span_phase = phase,
       span_parent_span_id = parent_span_id, span_status = ''running'', span_started_at = now,
       span_finished_at = None, span_duration_ms = None,
       span_metadata = (case metadata of None \<Rightarrow> [] | Some m \<Rightarrow> m), span_error_message = None,
       span_created_at = now, span_updated_at = now\<rparr> in
     bind (transaction (
       bind (bind_ints (attempt_no # (case step_index of None \<Rightarrow> [] | Some i \<Rightarrow> [i]))) (\<lambda>_.
       bind (read_db evaluation_spans) (\<lambda>rows.
       if span_id row \<in> span_id ` set rows
         then raise (Exn IntegrityError ''UNIQUE constraint failed: evaluation_spans.span_id'') else
       update_db (\<lambda>d. d\<lparr>evaluation_spans := evaluation_spans d @ [row]\<rparr>))))) (\<lambda>_.
     ret row)))))"

definition span_final_status :: "string list" where
  "span_final_status = [''succeeded'', ''failed'', ''interrupted'']"

text \<open>\<open>{**a, **b}\<close>.\<close>

definition dict_merge :: "dict \<Rightarrow> dict \<Rightarrow> dict" where
  "dict_merge a b = foldl (\<lambda>d (k, v). AList.update k v d) a b"

text \<open>The elapsed time in milliseconds, never negative; the clock counts microseconds.\<close>

definition finished_span :: "string \<Rightarrow> string option \<Rightarrow> dict \<Rightarrow> int \<Rightarrow> eval_span \<Rightarrow> eval_span" where
  "finished_span status error_message metadata finished_at s = s\<lparr>span_status := status,
     span_finished_at := Some finished_at,
     span_duration_ms := Some (max 0 (of_int (finished_at - span_started_at s) / 1000)),
     span_metadata := dict_merge (span_metadata s) metadata,
     span_error_message := error_message, span_updated_at := finished_at\<rparr>"

definition finish_evaluation_span ::
  "runtime \<Rightarrow> string \<Rightarrow> string \<Rightarrow> string option \<Rightarrow> dict option \<Rightarrow> ('t, eval_span) op" where
  "finish_evaluation_span R i status error_message metadata =
     bind (lift (require_non_empty_str (JStr i) ''span_id'')) (\<lambda>i.
     bind (lift (require_non_empty_str (JStr status) ''status'')) (\<lambda>status.
     if status \<notin> set span_final_status
       then raise (Exn ValueError ''status must be succeeded, failed, or interrupted'') else
     transaction (
       bind (read_db (\<lambda>d. find (\<lambda>s. span_id s = i) (evaluation_spans d))) (\<lambda>row.
       case row of
         None \<Rightarrow> raise (Exn ValueError (''evaluation span not found: '' @ i))
       | Some existing \<Rightarrow>
           if span_finished_at existing \<noteq> None then ret existing else
           bind (utc_now R) (\<lambda>finished_at.
           let f = finished_span status error_message (case metadata of None \<Rightarrow> [] | Some m \<Rightarrow> m) finished_at in
           bind (update_db (\<lambda>d. d\<lparr>evaluation_spans :=
             map (\<lambda>s. if span_id s = i then f s else s) (evaluation_spans d)\<rparr>)) (\<lambda>_.
           ret (f existing)))))))"

definition list_evaluation_spans :: "string \<Rightarrow> ('t, eval_span list) op" where
  "list_evaluation_spans run_id =
     bind (lift (require_non_empty_str (JStr run_id) ''run_id'')) (\<lambda>run_id.
     read_db (\<lambda>d. sort_key (\<lambda>s. (span_started_at s, span_id s))
       (filter (\<lambda>s. span_run_id s = run_id) (evaluation_spans d))))"

section \<open>The log as an interface\<close>

text \<open>
  What its users rely on: an append adds exactly one entry, numbered above everything before it,
  and never touches the entries that are there.
\<close>

locale append_only_log =
  fixes push :: "'e \<Rightarrow> 's \<Rightarrow> 's"
    and entries :: "'s \<Rightarrow> 'r list"
    and number :: "'r \<Rightarrow> int"
    and sound :: "'s \<Rightarrow> bool"
    and stored :: "'e \<Rightarrow> 's \<Rightarrow> 'r"
  assumes push_entries: "entries (push e s) = entries s @ [stored e s]"
    and push_above: "sound s \<Longrightarrow> r \<in> set (entries s) \<Longrightarrow> number r < number (stored e s)"
    and push_sound: "sound s \<Longrightarrow> sound (push e s)"
begin

lemma fold_sound: "sound s \<Longrightarrow> sound (fold push es s)"
  by (induction es arbitrary: s) (simp_all add: push_sound)

lemma fold_entries: "\<exists>new. entries (fold push es s) = entries s @ new \<and> length new = length es"
proof (induction es arbitrary: s)
  case (Cons e es)
  obtain new where "entries (fold push es (push e s)) = entries (push e s) @ new \<and> length new = length es"
    using Cons.IH by blast
  then show ?case by (intro exI [of _ "stored e s # new"]) (simp add: push_entries)
qed simp

text \<open>Reading after the last number seen returns exactly what was appended since.\<close>

lemma fold_above:
  assumes "sound s" and "r \<in> set (entries s)" and "r' \<in> set (drop (length (entries s)) (entries (fold push es s)))"
  shows "number r < number r'"
  using assms
proof (induction es arbitrary: s)
  case (Cons e es)
  obtain new where new: "entries (fold push es (push e s)) = entries (push e s) @ new"
    using fold_entries by blast
  with Cons.prems have "r' = stored e s \<or> r' \<in> set new"
    by (auto simp: push_entries)
  with Cons.prems Cons.IH [of "push e s"] new show ?case
    by (auto simp: push_entries push_above push_sound)
qed simp

lemma entries_sorted_step:
  "sound s \<Longrightarrow> sorted_wrt (<) (map number (entries s)) \<Longrightarrow> sorted_wrt (<) (map number (entries (push e s)))"
  by (auto simp: push_entries sorted_wrt_append push_above)

end

text \<open>
  The log table is sound when its numbers increase and stay within the counter, which starts
  from zero.
\<close>

definition log_ok :: "db \<Rightarrow> bool" where
  "log_ok d \<longleftrightarrow> sorted_wrt (<) (map ev_seq_id (wal_events d)) \<and>
     (\<forall>e\<in>set (wal_events d). 0 < ev_seq_id e \<and> ev_seq_id e \<le> wal_seq d) \<and> 0 \<le> wal_seq d"

definition push_event :: "wal_event \<Rightarrow> db \<Rightarrow> db" where
  "push_event e = insert_event (ev_run_id e) (ev_event_type e) (ev_entity_type e) (ev_entity_id e)
     (ev_payload e) (ev_created_at e)"

lemma insert_event_simps [simp]:
  "wal_events (insert_event r t n i p c d) = wal_events d @ [\<lparr>ev_seq_id = wal_seq d + 1, ev_run_id = r,
     ev_event_type = t, ev_entity_type = n, ev_entity_id = i, ev_payload = p, ev_created_at = c\<rparr>]"
  "wal_seq (insert_event r t n i p c d) = wal_seq d + 1"
  "planner_states (insert_event r t n i p c d) = planner_states d"
  "planner_items (insert_event r t n i p c d) = planner_items d"
  "agent_contexts (insert_event r t n i p c d) = agent_contexts d"
  "agent_messages (insert_event r t n i p c d) = agent_messages d"
  "payload_artifacts (insert_event r t n i p c d) = payload_artifacts d"
  "external_results (insert_event r t n i p c d) = external_results d"
  "wal_checkpoints (insert_event r t n i p c d) = wal_checkpoints d"
  "evaluation_spans (insert_event r t n i p c d) = evaluation_spans d"
  by (simp_all add: insert_event_def)

lemma log_ok_insert: "log_ok d \<Longrightarrow> log_ok (insert_event r t n i p c d)"
  by (force simp: log_ok_def sorted_wrt_append)

interpretation wal: append_only_log push_event wal_events ev_seq_id log_ok "\<lambda>e d. e\<lparr>ev_seq_id := wal_seq d + 1\<rparr>"
proof unfold_locales
  fix e and d :: db
  show "wal_events (push_event e d) = wal_events d @ [e\<lparr>ev_seq_id := wal_seq d + 1\<rparr>]"
    by (cases e) (simp add: push_event_def)
  show "log_ok d \<Longrightarrow> log_ok (push_event e d)"
    by (simp add: push_event_def log_ok_insert)
  fix r
  assume "log_ok d" "r \<in> set (wal_events d)"
  then show "ev_seq_id r < ev_seq_id (e\<lparr>ev_seq_id := wal_seq d + 1\<rparr>)"
    by (force simp: log_ok_def)
qed

lemma log_ok_sorted: "log_ok d \<Longrightarrow> sorted (map ev_seq_id (filter P (wal_events d)))"
  unfolding log_ok_def by (metis sorted_wrt_map sorted_wrt_filter strict_sorted_imp_sorted)

lemma run_events_in_order: "log_ok d \<Longrightarrow> run_events d run_id = filter (\<lambda>e. ev_run_id e = run_id) (wal_events d)"
  by (simp add: run_events_def sort_key_id log_ok_sorted)

section \<open>Effects\<close>

lemma append_wal_event_effect [effect]:
  "confined same_outside (append_wal_event R raw)" "confined log_grows (append_wal_event R raw)"
  by (cases raw; simp add: append_wal_event_def; intro effect grows_update_db; simp)+

lemma append_event_effect [effect]:
  "confined same_outside (append_event R r t n i p)" "confined log_grows (append_event R r t n i p)"
  unfolding append_event_def append_wal_events_def by (intro effect)+

lemma log_reads [effect]:
  "confined same_db (read_wal_events r k l)" "confined same_db (read_events r k l)" "confined same_db list_run_ids"
  "confined same_db (latest_wal_seq r)" "confined same_db (has_wal_event r t i)"
  "confined same_db (read_latest_checkpoint r s)" "confined same_db (next_evaluation_attempt_no r i' p)"
  "confined same_db (list_evaluation_spans r)"
  unfolding read_events_def read_wal_events_def list_run_ids_def latest_wal_seq_def has_wal_event_def
    read_latest_checkpoint_def next_evaluation_attempt_no_def list_evaluation_spans_def
  by (intro effect)+

lemma write_checkpoint_effect [effect]:
  "confined same_outside (write_checkpoint R r s t p)" "confined log_grows (write_checkpoint R r s t p)"
  unfolding write_checkpoint_def write_wal_checkpoint_def Let_def by (intro effect grows_update_db; simp)+

lemma span_effect [effect]:
  "confined same_outside (start_evaluation_span R r i p a ph par md)"
  "confined same_outside (finish_evaluation_span R si st e md)"
  "confined log_grows (start_evaluation_span R r i p a ph par md)"
  "confined log_grows (finish_evaluation_span R si st e md)"
  unfolding start_evaluation_span_def finish_evaluation_span_def Let_def
  by (intro effect grows_update_db; simp)+

lemma for_each_single: "for_each f [x] = bind (f x) (\<lambda>y. ret [y])"
  by (simp add: bind_def fun_eq_iff split: sum.splits prod.splits)

lemma append_event_InrD:
  assumes "append_event R r t n i p w = (Inr e, w')"
  shows "strip r \<noteq> [] \<and> strip t \<noteq> [] \<and> strip n \<noteq> [] \<and> strip i \<noteq> [] \<and>
    db w' = insert_event (strip r) (strip t) (strip n) (strip i) p (clock R (ticks w)) (db w) \<and>
    e = \<lparr>ev_seq_id = wal_seq (db w) + 1, ev_run_id = r, ev_event_type = t, ev_entity_type = n,
      ev_entity_id = i, ev_payload = p, ev_created_at = clock R (ticks w)\<rparr> \<and>
    conn_open w' = conn_open w \<and> outside w' = outside w"
proof -
  obtain es where es: "append_wal_events R [event_input r t n i p] w = (Inr es, w')" "e = hd es"
    using assms by (auto simp: append_event_def elim!: bind_InrE)
  then obtain w1 where "for_each (append_wal_event R) [event_input r t n i p] (w\<lparr>conn_open := True\<rparr>) = (Inr es, w1)"
    and "db w' = db w1"
    unfolding append_wal_events_def by (auto elim!: transaction_InrE)
  moreover have "conn_open w' = conn_open w \<and> outside w' = outside w"
    using same_outsideD [OF append_event_effect(1) assms] by blast
  ultimately show ?thesis
    using es(2) by (auto simp: append_wal_event_def event_input_def require_JStr require_dict_def for_each_single
        simp del: for_each.simps elim!: bind_InrE split: if_splits)
qed

lemma keeps_append_event [keeps_rules]:
  "(\<And>d c. strip r \<noteq> [] \<Longrightarrow> strip i \<noteq> [] \<Longrightarrow> P d \<Longrightarrow> P (insert_event (strip r) (strip t) (strip n) (strip i) p c d)) \<Longrightarrow>
    keeps_db P (append_event R r t n i p)"
  by (rule keepsI) (auto dest!: append_event_InrD)

text \<open>A checkpoint is one new row, which names an event of the same run.\<close>

lemma write_checkpoint_InrD:
  assumes "write_checkpoint R r s t p w = (Inr c, w')"
  shows "0 < s \<and> ck_run_id c = strip r \<and> ck_seq_id c = s \<and> ck_snapshot_type c = strip t \<and> ck_snapshot_payload c = p \<and>
    (\<exists>e\<in>set (wal_events (db w)). ev_run_id e = ck_run_id c \<and> ev_seq_id e = s) \<and>
    ck_checkpoint_id c \<notin> ck_checkpoint_id ` set (wal_checkpoints (db w)) \<and>
    db w' = (db w)\<lparr>wal_checkpoints := wal_checkpoints (db w) @ [c]\<rparr>"
  using assms
  by (auto simp: write_checkpoint_def write_wal_checkpoint_def require_JStr Let_def bind_ints_simp bind_Inr
      elim!: bind_InrE transaction_InrE split: if_splits) blast

lemma append_event_Inl:
  assumes "append_event R r t n i p w = (Inl e, w')"
  shows "db w' = db w"
proof -
  have "db (snd (append_wal_event R (event_input r t n i p) v)) = db v"
    if "fst (append_wal_event R (event_input r t n i p) v) = Inl e'" for v :: "'a world" and e'
    using that by (auto simp: append_wal_event_def event_input_def require_JStr require_dict_def split: if_splits)
  note body = this
  obtain res v where m: "append_wal_event R (event_input r t n i p) (w\<lparr>conn_open := True\<rparr>) = (res, v)"
    by fastforce
  have v: "conn_open v" using same_outsideD [OF append_wal_event_effect(1) m] by simp
  have joined: "w\<lparr>conn_open := True\<rparr> = w" if "conn_open w" using that by (cases w) simp
  show ?thesis
  proof (cases res)
    case (Inl e')
    then have "db v = db w" using body [of "w\<lparr>conn_open := True\<rparr>" e'] m by simp
    then show ?thesis using assms m Inl joined
      by (cases "conn_open w") (auto simp: append_event_def append_wal_events_def transaction_def bind_def)
  next
    case (Inr y)
    then show ?thesis using assms m joined
      by (cases "conn_open w") (auto simp: append_event_def append_wal_events_def transaction_def bind_def)
  qed
qed

end
