(* ===== verification/Planner_Service.thy ===== *)
theory Planner_Service
  imports Runtime_Log
begin

text \<open>
  The repository and the service of \<open>planner_state.py\<close>: plan creation, item updates along the
  allowed transitions, and the choice of the next runnable item. A loaded state is a fresh
  object, so its mutations are updates of a value that only a save makes visible.
\<close>

section \<open>Repository\<close>

text \<open>
  \<open>from_dict\<close> reads the clock only for a timestamp that is missing, which no \<open>to_dict\<close> leaves out:
  \<open>peek_now\<close> supplies the reading without drawing it.
\<close>

definition peek_now :: "runtime \<Rightarrow> ('t, int) op" where
  "peek_now R = gets (\<lambda>w. clock R (ticks w))"

definition reload_planner :: "runtime \<Rightarrow> planner_state \<Rightarrow> ('t, planner_state) op" where
  "reload_planner R st = bind (peek_now R) (\<lambda>now. lift (planner_from_dict (forms R) now (planner_to_dict st)))"

definition repo_load_plan :: "runtime \<Rightarrow> string \<Rightarrow> ('t, planner_state option) op" where
  "repo_load_plan R run_id = bind (load_planner_state run_id) (\<lambda>found. case found of
     None \<Rightarrow> ret None
   | Some st \<Rightarrow> bind (reload_planner R st) (\<lambda>st. ret (Some st)))"

definition repo_save_plan :: "runtime \<Rightarrow> planner_state \<Rightarrow> ('t, planner_state) op" where
  "repo_save_plan R st =
     bind (utc_now R) (\<lambda>now.
     let st = st\<lparr>ps_updated_at := now\<rparr> in
     bind (lift (validate_integrity st)) (\<lambda>_.
     bind (save_planner_state st) (\<lambda>_.
     reload_planner R st)))"

section \<open>Scheduling\<close>

definition done_ids :: "planner_state \<Rightarrow> string set" where
  "done_ids st = pi_id ` set (filter (\<lambda>it. pi_status it = DONE) (ps_items st))"

definition runnable :: "planner_state \<Rightarrow> planner_item \<Rightarrow> bool" where
  "runnable st it \<longleftrightarrow> pi_status it = PENDING \<and> (\<forall>dep\<in>set (pi_depends_on it). dep \<in> done_ids st)"

definition next_runnable_item_from_state :: "planner_state \<Rightarrow> planner_item option" where
  "next_runnable_item_from_state st = find (runnable st) (sort_key pi_sequence_index (ps_items st))"

fun item_transitions :: "item_status \<Rightarrow> item_status set" where
  "item_transitions PENDING = {IN_PROGRESS, BLOCKED, DONE, ITEM_FAILED}"
| "item_transitions IN_PROGRESS = {BLOCKED, DONE, ITEM_FAILED, PENDING}"
| "item_transitions BLOCKED = {PENDING, IN_PROGRESS, ITEM_FAILED}"
| "item_transitions DONE = {}"
| "item_transitions ITEM_FAILED = {PENDING, IN_PROGRESS}"

section \<open>Creating a plan\<close>

text \<open>One round of the loop of \<open>create_plan\<close>: the new item and the identifiers seen so far.\<close>

definition create_item :: "runtime \<Rightarrow> string list \<Rightarrow> nat \<Rightarrow> json \<Rightarrow> ('t, planner_item) op" where
  "create_item R seen index raw = (case raw of JObj d \<Rightarrow>
     let item_id = strip (py_str (forms R) (if truthy (dict_get d ''plan_item_id'') then dict_get d ''plan_item_id''
           else JStr (''step_'' @ nat_str index)));
         title = strip (py_str (forms R) (dict_get_or d ''title'' (JStr []))) in
     if item_id = [] then raise (Exn ValueError (''item at index '' @ nat_str index @ '' has an empty plan_item_id''))
     else if item_id \<in> set seen then raise (Exn ValueError (''duplicate plan_item_id: '' @ item_id))
     else if title = [] then raise (Exn ValueError (''item '' @ item_id @ '' must have non-empty title'')) else
     bind (lift (py_int (dict_get_or d ''sequence_index'' (JInt (int index))))) (\<lambda>sequence_index.
     if sequence_index < 0
       then raise (Exn ValueError (''item '' @ item_id @ '' must have non-negative sequence_index'')) else
     bind (lift (parse_status (dict_get_or d ''status'' (JStr (item_status_value PENDING))))) (\<lambda>status.
     bind (lift (normalize_str_list (dict_get_or d ''depends_on'' (JList [])) ''depends_on'')) (\<lambda>depends_on.
     bind (lift (normalize_str_list (dict_get_or d ''acceptance_criteria'' (JList [])) ''acceptance_criteria'')) (\<lambda>criteria.
     bind (lift (optional_str (dict_get d ''llm_output''))) (\<lambda>llm_output.
     bind (utc_now R) (\<lambda>now.
     ret \<lparr>pi_id = item_id, pi_title = title,
       pi_description = py_str (forms R) (dict_get_or d ''description'' (JStr [])),
       pi_status = status, pi_sequence_index = sequence_index, pi_depends_on = depends_on,
       pi_acceptance_criteria = criteria, pi_llm_output = llm_output, pi_llm_output_history = [],
       pi_tool_call_refs = [], pi_notes = [], pi_updated_at = now\<rparr>))))))
   | _ \<Rightarrow> lift no_get)"

fun create_items :: "runtime \<Rightarrow> string list \<Rightarrow> nat \<Rightarrow> json list \<Rightarrow> ('t, planner_item list) op" where
  "create_items R seen index [] = ret []"
| "create_items R seen index (raw # rest) =
     bind (create_item R seen index raw) (\<lambda>it.
     bind (create_items R (seen @ [pi_id it]) (Suc index) rest) (\<lambda>its. ret (it # its)))"

definition create_plan :: "runtime \<Rightarrow> string \<Rightarrow> string \<Rightarrow> json list \<Rightarrow> dict option \<Rightarrow> ('t, planner_state) op" where
  "create_plan R run_id plan_source_text items plan_schema =
     (if items = [] then raise (Exn ValueError ''items cannot be empty'') else
      bind (lift (normalize_plan_schema (forms R)
        (case plan_schema of Some (p # ps) \<Rightarrow> p # ps | _ \<Rightarrow> [(''steps'', JList items)]) None)) (\<lambda>normalized_schema.
      bind (create_items R [] 0 items) (\<lambda>its.
      let planner_items = sort_key pi_sequence_index its in
      bind (lift (normalize_plan_schema (forms R) normalized_schema (Some planner_items))) (\<lambda>schema.
      bind (utc_now R) (\<lambda>now.
      let st = \<lparr>ps_run_id = run_id, ps_version = 1, ps_plan_source_text = plan_source_text,
            ps_items = planner_items, ps_plan_schema = schema, ps_active_item_id = None,
            ps_cursor_index = None, ps_updated_at = now\<rparr> in
      repo_save_plan R (case next_runnable_item_from_state st of
          Some first \<Rightarrow> st\<lparr>ps_active_item_id := Some (pi_id first), ps_cursor_index := Some (pi_sequence_index first)\<rparr>
        | None \<Rightarrow> st))))))"

section \<open>Updating a plan\<close>

definition load_required_plan :: "runtime \<Rightarrow> string \<Rightarrow> ('t, planner_state) op" where
  "load_required_plan R run_id = bind (repo_load_plan R run_id) (\<lambda>found. case found of
     None \<Rightarrow> raise (Exn ValueError (''planner state not found for run_id='' @ run_id))
   | Some st \<Rightarrow> ret st)"

definition find_item :: "planner_state \<Rightarrow> string \<Rightarrow> planner_item res" where
  "find_item st i = (case find (\<lambda>it. pi_id it = i) (ps_items st) of
     Some it \<Rightarrow> Inr it | None \<Rightarrow> value_error (''plan item not found: '' @ i))"

text \<open>The assignments to the fields of the found item. Loaded items have distinct identifiers.\<close>

definition update_item :: "string \<Rightarrow> (planner_item \<Rightarrow> planner_item) \<Rightarrow> planner_state \<Rightarrow> planner_state" where
  "update_item i f st = st\<lparr>ps_items := map (\<lambda>it. if pi_id it = i then f it else it) (ps_items st)\<rparr>"

definition bump_and_save :: "runtime \<Rightarrow> planner_state \<Rightarrow> ('t, planner_state) op" where
  "bump_and_save R st =
     bind (utc_now R) (\<lambda>now. repo_save_plan R (st\<lparr>ps_version := ps_version st + 1, ps_updated_at := now\<rparr>))"

definition set_active_item :: "runtime \<Rightarrow> string \<Rightarrow> string \<Rightarrow> ('t, planner_state) op" where
  "set_active_item R run_id plan_item_id =
     bind (load_required_plan R run_id) (\<lambda>st.
     bind (lift (find_item st plan_item_id)) (\<lambda>it.
     bind (utc_now R) (\<lambda>now.
     bump_and_save R (update_item plan_item_id (\<lambda>it. it\<lparr>pi_updated_at := now\<rparr>)
       (st\<lparr>ps_active_item_id := Some (pi_id it), ps_cursor_index := Some (pi_sequence_index it)\<rparr>)))))"

definition set_item_status :: "runtime \<Rightarrow> planner_item \<Rightarrow> item_status \<Rightarrow> ('t, planner_item) op" where
  "set_item_status R it next_status =
     (if next_status = pi_status it then ret it
      else if next_status \<notin> item_transitions (pi_status it)
        then raise (Exn ValueError (''illegal planner status transition: '' @ item_status_value (pi_status it) @
          '' -> '' @ item_status_value next_status))
      else bind (utc_now R) (\<lambda>now. ret (it\<lparr>pi_status := next_status, pi_updated_at := now\<rparr>)))"

definition add_item_note :: "runtime \<Rightarrow> planner_item \<Rightarrow> string option \<Rightarrow> ('t, planner_item) op" where
  "add_item_note R it note = (case note of
     None \<Rightarrow> ret it
   | Some n \<Rightarrow> if strip n = [] then ret it
       else bind (utc_now R) (\<lambda>now. ret (it\<lparr>pi_notes := pi_notes it @ [strip n], pi_updated_at := now\<rparr>)))"

definition move_on_when_done :: "planner_item \<Rightarrow> planner_state \<Rightarrow> planner_state" where
  "move_on_when_done it st =
     (if pi_status it = DONE \<and> ps_active_item_id st = Some (pi_id it) then
        (case next_runnable_item_from_state st of
           Some nxt \<Rightarrow> st\<lparr>ps_active_item_id := Some (pi_id nxt), ps_cursor_index := Some (pi_sequence_index nxt)\<rparr>
         | None \<Rightarrow> st)
      else st)"

definition update_item_status :: "runtime \<Rightarrow> string \<Rightarrow> string \<Rightarrow> string \<Rightarrow> string option \<Rightarrow> ('t, planner_state) op" where
  "update_item_status R run_id plan_item_id status note =
     bind (load_required_plan R run_id) (\<lambda>st.
     bind (lift (find_item st plan_item_id)) (\<lambda>it.
     bind (lift (parse_status (JStr status))) (\<lambda>next_status.
     bind (set_item_status R it next_status) (\<lambda>it.
     bind (add_item_note R it note) (\<lambda>it.
     bump_and_save R (move_on_when_done it (update_item plan_item_id (\<lambda>_. it) st)))))))"

definition attach_llm_output :: "runtime \<Rightarrow> string \<Rightarrow> string \<Rightarrow> string \<Rightarrow> ('t, planner_state) op" where
  "attach_llm_output R run_id plan_item_id llm_output =
     bind (load_required_plan R run_id) (\<lambda>st.
     bind (lift (find_item st plan_item_id)) (\<lambda>it.
     if strip llm_output = [] then raise (Exn ValueError ''llm_output cannot be empty'') else
     bind (utc_now R) (\<lambda>now.
     bump_and_save R (update_item plan_item_id (\<lambda>it. it\<lparr>pi_llm_output := Some (strip llm_output),
       pi_llm_output_history := pi_llm_output_history it @ [strip llm_output], pi_updated_at := now\<rparr>) st))))"

definition attach_tool_call_ref :: "runtime \<Rightarrow> string \<Rightarrow> string \<Rightarrow> string \<Rightarrow> ('t, planner_state) op" where
  "attach_tool_call_ref R run_id plan_item_id execution_id =
     bind (load_required_plan R run_id) (\<lambda>st.
     bind (lift (find_item st plan_item_id)) (\<lambda>it.
     if strip execution_id = [] then raise (Exn ValueError ''execution_id cannot be empty'') else
     if strip execution_id \<in> set (pi_tool_call_refs it) then bump_and_save R st else
     bind (utc_now R) (\<lambda>now.
     bump_and_save R (update_item plan_item_id (\<lambda>it. it\<lparr>pi_tool_call_refs := pi_tool_call_refs it @ [strip execution_id],
       pi_updated_at := now\<rparr>) st))))"

definition next_runnable_item :: "runtime \<Rightarrow> string \<Rightarrow> ('t, planner_item option) op" where
  "next_runnable_item R run_id =
     bind (load_required_plan R run_id) (\<lambda>st. ret (next_runnable_item_from_state st))"

section \<open>Effects\<close>

lemma reload_planner_reads [effect]: "confined same_db (reload_planner R st)"
  unfolding reload_planner_def peek_now_def by (intro effect)

lemma load_plan_reads [effect]: "confined same_db (repo_load_plan R run_id)"
  unfolding repo_load_plan_def by (intro effect)

lemma load_required_reads [effect]: "confined same_db (load_required_plan R run_id)"
  unfolding load_required_plan_def by (intro effect)

lemma confined_no_db:
  "confined same_db m \<Longrightarrow> confined same_outside m"
  "confined same_db m \<Longrightarrow> confined log_grows m"
  by (auto simp: confined_def same_db_def same_outside_def log_grows_def)

lemma create_item_reads [effect]: "confined same_db (create_item R seen n raw)"
  unfolding create_item_def Let_def by (intro effect)

lemma create_items_reads [effect]: "confined same_db (create_items R seen n raws)"
proof (induction R seen n raws rule: create_items.induct)
  case (2 R seen index raw rest)
  then show ?case unfolding create_items.simps by (intro effect)
qed (unfold create_items.simps, intro effect)

lemma set_item_reads [effect]:
  "confined same_db (set_item_status R it s)" "confined same_db (add_item_note R it n)"
  unfolding set_item_status_def add_item_note_def by (intro effect)+

lemmas read_effects = confined_no_db [OF load_plan_reads] confined_no_db [OF load_required_reads]
  confined_no_db [OF create_items_reads] confined_no_db [OF reload_planner_reads]
  confined_no_db [OF set_item_reads(1)] confined_no_db [OF set_item_reads(2)]

lemma repo_save_effect [effect]:
  "confined same_outside (repo_save_plan R st)" "confined log_grows (repo_save_plan R st)"
  unfolding repo_save_plan_def Let_def by (intro effect read_effects)+

lemma bump_effect [effect]:
  "confined same_outside (bump_and_save R st)" "confined log_grows (bump_and_save R st)"
  unfolding bump_and_save_def by (intro effect)+

lemma planner_service_effect [effect]:
  "confined same_outside (create_plan R r t i s)" "confined log_grows (create_plan R r t i s)"
  "confined same_outside (set_active_item R r i')" "confined log_grows (set_active_item R r i')"
  "confined same_outside (update_item_status R r i' st n)" "confined log_grows (update_item_status R r i' st n)"
  "confined same_outside (attach_llm_output R r i' x)" "confined log_grows (attach_llm_output R r i' x)"
  "confined same_outside (attach_tool_call_ref R r i' x)" "confined log_grows (attach_tool_call_ref R r i' x)"
  unfolding create_plan_def set_active_item_def update_item_status_def attach_llm_output_def
    attach_tool_call_ref_def Let_def
  by (intro effect read_effects)+

text \<open>A save that returns has checked the integrity of what it stored.\<close>

lemma repo_save_InrD:
  assumes "repo_save_plan R st w = (Inr st', w')"
  shows "let st = st\<lparr>ps_updated_at := clock R (ticks w)\<rparr> in
    validate_integrity st = Inr () \<and> storable_planner st \<and> db w' = put_planner st (db w)"
  using assms
  by (auto simp: repo_save_plan_def Let_def reload_planner_def peek_now_def
      elim!: bind_InrE dest!: save_planner_state_InrD)

lemma keeps_repo_save [keeps_rules]:
  "(\<And>d st. validate_integrity st = Inr () \<Longrightarrow> P d \<Longrightarrow> P (put_planner st d)) \<Longrightarrow> keeps_db P (repo_save_plan R st)"
  by (rule keepsI) (auto dest!: repo_save_InrD simp: Let_def)

lemma keeps_planner_service [keeps_rules]:
  assumes "\<And>d st. validate_integrity st = Inr () \<Longrightarrow> P d \<Longrightarrow> P (put_planner st d)"
  shows "keeps_db P (create_plan R r t i s)" "keeps_db P (set_active_item R r i')"
    "keeps_db P (update_item_status R r i' st n)" "keeps_db P (attach_llm_output R r i' x)"
    "keeps_db P (attach_tool_call_ref R r i' x)"
  unfolding create_plan_def set_active_item_def update_item_status_def attach_llm_output_def
    attach_tool_call_ref_def bump_and_save_def Let_def
  by (intro keeps_rules keeps_reads assms effect; assumption)+

section \<open>Correctness of the planner\<close>

lemma find_runnable_order:
  "find (runnable st) xs = Some it \<Longrightarrow> sorted (map pi_sequence_index xs) \<Longrightarrow> it' \<in> set xs \<Longrightarrow> runnable st it' \<Longrightarrow>
    pi_sequence_index it \<le> pi_sequence_index it'"
  by (induction xs) (auto split: if_splits)

text \<open>
  The scheduler returns a pending item whose dependencies are all done and that comes first in
  the sequence among such items; it returns none exactly when no item is runnable.
\<close>

theorem scheduler_picks_first_runnable:
  "case next_runnable_item_from_state st of
     Some it \<Rightarrow> it \<in> set (ps_items st) \<and> pi_status it = PENDING \<and> set (pi_depends_on it) \<subseteq> done_ids st \<and>
       list_all (\<lambda>it'. if runnable st it' then pi_sequence_index it \<le> pi_sequence_index it' else True) (ps_items st)
   | None \<Rightarrow> list_all (\<lambda>it. \<not> runnable st it) (ps_items st)"
proof (cases "next_runnable_item_from_state st")
  case None
  then have "\<forall>x\<in>set (ps_items st). \<not> runnable st x"
    by (simp add: next_runnable_item_from_state_def find_None_iff)
  then show ?thesis by (simp add: None list_all_iff)
next
  case (Some it)
  let ?xs = "sort_key pi_sequence_index (ps_items st)"
  have "find (runnable st) ?xs = Some it" "sorted (map pi_sequence_index ?xs)"
    using Some by (simp_all add: next_runnable_item_from_state_def)
  moreover from this(1) have "it \<in> set (ps_items st) \<and> runnable st it"
    by (auto dest: find_SomeD)
  moreover have "pi_sequence_index it \<le> pi_sequence_index it'" if "it' \<in> set (ps_items st)" "runnable st it'" for it'
    by (rule find_runnable_order [of st ?xs]) (use calculation that in simp_all)
  ultimately show ?thesis using Some by (auto simp: list_all_iff runnable_def)
qed

lemma validate_integrity_InrD:
  assumes "validate_integrity st = Inr ()"
  shows "1 \<le> ps_version st \<and> distinct (map pi_id (ps_items st)) \<and>
    (case ps_active_item_id st of None \<Rightarrow> True | Some a \<Rightarrow> a \<in> pi_id ` set (ps_items st)) \<and>
    (case ps_cursor_index st of None \<Rightarrow> True | Some c \<Rightarrow> 0 \<le> c \<and> c < int (length (ps_items st)))"
  using assms by (auto simp: validate_integrity_def Let_def split: if_splits option.splits)

lemma planner_from_dict_integrity: "planner_from_dict T now d = Inr st \<Longrightarrow> validate_integrity st = Inr ()"
  by (auto simp: planner_from_dict_def rbind_eq_Inr Let_def split: json.splits)

lemma load_plan_InrD:
  assumes "repo_load_plan R run_id w = (Inr (Some st), w')"
  shows "validate_integrity st = Inr () \<and> w' = w \<and>
    (\<exists>now st0. planner_view (db w) (strip run_id) = Some st0 \<and> planner_from_dict (forms R) now (planner_to_dict st0) = Inr st)"
  using assms
  by (auto simp: repo_load_plan_def load_planner_state_def reload_planner_def peek_now_def require_JStr
      elim!: bind_InrE split: option.splits if_splits) (blast dest: planner_from_dict_integrity)+

lemma load_required_InrD:
  "load_required_plan R run_id w = (Inr st, w') \<Longrightarrow> repo_load_plan R run_id w = (Inr (Some st), w) \<and> w' = w"
  unfolding load_required_plan_def
  by (elim bind_InrE) (auto split: option.splits dest: load_plan_InrD)

lemma find_item_InrD: "find_item st i = Inr it \<Longrightarrow> it \<in> set (ps_items st) \<and> pi_id it = i"
  by (auto simp: find_item_def split: option.splits dest: find_SomeD)

lemma set_item_status_InrD:
  "set_item_status R it s w = (Inr it', w') \<Longrightarrow> pi_id it' = pi_id it \<and> pi_status it' = s \<and> db w' = db w \<and>
    (s = pi_status it \<or> s \<in> item_transitions (pi_status it))"
  by (auto simp: set_item_status_def split: if_splits)

lemma add_item_note_InrD:
  "add_item_note R it n w = (Inr it', w') \<Longrightarrow> pi_id it' = pi_id it \<and> pi_status it' = pi_status it \<and> db w' = db w"
  by (auto simp: add_item_note_def split: if_splits option.splits)

lemma bump_and_save_InrD:
  assumes "bump_and_save R st w = (Inr st', w')"
  obtains now where "db w' = put_planner (st\<lparr>ps_version := ps_version st + 1, ps_updated_at := now\<rparr>) (db w)"
    and "validate_integrity (st\<lparr>ps_version := ps_version st + 1, ps_updated_at := now\<rparr>) = Inr ()"
  using assms by (auto simp: bump_and_save_def Let_def dest!: repo_save_InrD)

lemma move_on_simps [simp]:
  "ps_items (move_on_when_done it st) = ps_items st"
  "ps_version (move_on_when_done it st) = ps_version st"
  "ps_run_id (move_on_when_done it st) = ps_run_id st"
  by (simp_all add: move_on_when_done_def split: option.split)

lemma update_item_simps [simp]:
  "ps_items (update_item i f st) = map (\<lambda>it. if pi_id it = i then f it else it) (ps_items st)"
  "ps_version (update_item i f st) = ps_version st"
  "ps_run_id (update_item i f st) = ps_run_id st"
  by (simp_all add: update_item_def)

lemma update_item_status_InrE:
  assumes "update_item_status R run_id i s note w = (Inr st', w')"
  obtains st target it it' new where "repo_load_plan R run_id w = (Inr (Some st), w)"
    and "parse_status (JStr s) = Inr target"
    and "it \<in> set (ps_items st)" and "pi_id it = i" and "pi_id it' = i" and "pi_status it' = target"
    and "target = pi_status it \<or> target \<in> item_transitions (pi_status it)"
    and "db w' = put_planner new (db w)" and "validate_integrity new = Inr ()"
    and "ps_version new = ps_version st + 1" and "ps_run_id new = ps_run_id st"
    and "ps_items new = map (\<lambda>x. if pi_id x = i then it' else x) (ps_items st)"
  using assms unfolding update_item_status_def
  by (elim bind_InrE)
    (auto dest!: load_required_InrD find_item_InrD set_item_status_InrD add_item_note_InrD
      elim!: bump_and_save_InrD)

text \<open>
  A status update that returns raises the plan's version by one and moves the named item
  along an allowed transition (or leaves its status), and no other item changes in any field; a
  done item stays done.
\<close>

theorem item_status_moves_legally:
  assumes "update_item_status R run_id i s note w = (Inr st', w')"
  shows "\<exists>st new target. repo_load_plan R run_id w = (Inr (Some st), w) \<and> parse_status (JStr s) = Inr target \<and>
    planner_view (db w') (ps_run_id st) = Some (ordered_planner new) \<and> ps_version new = ps_version st + 1 \<and>
    list_all2 (\<lambda>x x'. if pi_id x = i
        then pi_id x' = i \<and> pi_status x' = target \<and> target \<in> insert (pi_status x) (item_transitions (pi_status x))
        else x' = x) (ps_items st) (ps_items new)"
  using assms
proof (rule update_item_status_InrE)
  fix st target it it' new
  assume load: "repo_load_plan R run_id w = (Inr (Some st), w)" and t: "parse_status (JStr s) = Inr target"
    and it: "it \<in> set (ps_items st)" "pi_id it = i" and it': "pi_id it' = i" "pi_status it' = target"
    and legal: "target = pi_status it \<or> target \<in> item_transitions (pi_status it)"
    and db: "db w' = put_planner new (db w)"
    and new: "ps_version new = ps_version st + 1" "ps_run_id new = ps_run_id st"
      "ps_items new = map (\<lambda>x. if pi_id x = i then it' else x) (ps_items st)"
  have "validate_integrity st = Inr ()" using load_plan_InrD [OF load] by blast
  then have "distinct (map pi_id (ps_items st))" using validate_integrity_InrD by blast
  then have only: "x = it" if "x \<in> set (ps_items st)" "pi_id x = i" for x
    by (rule distinct_mapD) (use it that in simp_all)
  have "planner_view (db w') (ps_run_id st) = Some (ordered_planner new)"
    by (simp add: db new(2) [symmetric] planner_view_put)
  moreover have "list_all2 (\<lambda>x x'. if pi_id x = i
        then pi_id x' = i \<and> pi_status x' = target \<and> target \<in> insert (pi_status x) (item_transitions (pi_status x))
        else x' = x) (ps_items st) (ps_items new)"
    unfolding new(3) list_all2_map2 list_all2_same using it' legal only by auto
  ultimately show ?thesis using load t new(1) by blast
qed

end
