(* ===== verification/Agent_Service.thy ===== *)
theory Agent_Service
  imports Planner_Service
begin

text \<open>
  The repository and the service of \<open>agent_state.py\<close>: context snapshots with their messages, the
  pending executions, and the cache of external results. Where the code reads the clock only for
  a missing timestamp, the model draws a reading in any case.
\<close>

section \<open>Repository\<close>

definition reload_context :: "runtime \<Rightarrow> agent_context \<Rightarrow> ('t, agent_context) op" where
  "reload_context R c = bind (peek_now R) (\<lambda>now. lift (context_from_dict (forms R) now (context_to_dict c)))"

definition reload_result :: "runtime \<Rightarrow> external_result \<Rightarrow> ('t, external_result) op" where
  "reload_result R r = bind (peek_now R) (\<lambda>now. lift (result_from_dict (forms R) now (result_to_dict r)))"

definition repo_load_context :: "runtime \<Rightarrow> string \<Rightarrow> ('t, agent_context option) op" where
  "repo_load_context R run_id = bind (load_context_snapshot run_id) (\<lambda>found. case found of
     None \<Rightarrow> ret None
   | Some c \<Rightarrow> bind (reload_context R c) (\<lambda>c. ret (Some c)))"

definition repo_save_context :: "runtime \<Rightarrow> agent_context \<Rightarrow> ('t, agent_context) op" where
  "repo_save_context R c =
     bind (utc_now R) (\<lambda>now.
     let c = c\<lparr>ctx_updated_at := now\<rparr> in
     bind (save_context_snapshot c) (\<lambda>_. reload_context R c))"

definition repo_upsert_result :: "runtime \<Rightarrow> external_result \<Rightarrow> ('t, external_result) op" where
  "repo_upsert_result R r =
     bind (utc_now R) (\<lambda>now.
     bind (upsert_external_result R (r\<lparr>res_updated_at := now\<rparr>)) (\<lambda>stored. reload_result R stored))"

definition repo_get_result :: "runtime \<Rightarrow> string \<Rightarrow> ('t, external_result option) op" where
  "repo_get_result R execution_id = bind (get_external_result execution_id) (\<lambda>found. case found of
     None \<Rightarrow> ret None
   | Some r \<Rightarrow> bind (reload_result R r) (\<lambda>r. ret (Some r)))"

definition repo_list_results :: "runtime \<Rightarrow> string \<Rightarrow> ('t, external_result list) op" where
  "repo_list_results R run_id = bind (list_external_results run_id) (\<lambda>rs. for_each (reload_result R) rs)"

section \<open>Contexts\<close>

definition load_required_context :: "runtime \<Rightarrow> string \<Rightarrow> ('t, agent_context) op" where
  "load_required_context R run_id = bind (repo_load_context R run_id) (\<lambda>found. case found of
     None \<Rightarrow> raise (Exn ValueError (''agent context not found for run_id='' @ run_id))
   | Some c \<Rightarrow> ret c)"

definition parse_message :: "runtime \<Rightarrow> json \<Rightarrow> ('t, agent_message) op" where
  "parse_message R payload = bind (utc_now R) (\<lambda>now. lift (message_from_dict (forms R) now payload))"

definition init_context :: "runtime \<Rightarrow> string \<Rightarrow> json list \<Rightarrow> dict option \<Rightarrow> bool \<Rightarrow> ('t, agent_context) op" where
  "init_context R run_id seed_messages initial_memory force_reset =
     bind (repo_load_context R run_id) (\<lambda>existing.
     if existing \<noteq> None \<and> \<not> force_reset then ret (the existing) else
     bind (for_each (parse_message R) seed_messages) (\<lambda>messages.
     bind (utc_now R) (\<lambda>now.
     repo_save_context R \<lparr>ctx_run_id = run_id, ctx_turn_index = int (length messages), ctx_step_index = 0,
       ctx_planner_version = 0, ctx_messages = messages,
       ctx_memory = (case initial_memory of None \<Rightarrow> [] | Some m \<Rightarrow> m),
       ctx_pending_execution_id = None, ctx_pending_execution_ids = [],
       ctx_last_checkpoint_seq = None, ctx_updated_at = now\<rparr>)))"

text \<open>Every mutator sets \<open>updated_at\<close> and saves.\<close>

definition touch_and_save :: "runtime \<Rightarrow> agent_context \<Rightarrow> ('t, agent_context) op" where
  "touch_and_save R c = bind (utc_now R) (\<lambda>now. repo_save_context R (c\<lparr>ctx_updated_at := now\<rparr>))"

definition append_message ::
  "runtime \<Rightarrow> string \<Rightarrow> string \<Rightarrow> string \<Rightarrow> dict option \<Rightarrow> string option \<Rightarrow> string option \<Rightarrow> ('t, agent_context) op" where
  "append_message R run_id role content meta name tool_call_id =
     bind (load_required_context R run_id) (\<lambda>c.
     bind (utc_now R) (\<lambda>now.
     let m = \<lparr>msg_role = role, msg_content = content, msg_name = name, msg_tool_call_id = tool_call_id,
       msg_metadata = (case meta of None \<Rightarrow> [] | Some x \<Rightarrow> x), msg_created_at = now\<rparr> in
     bind (lift (message_from_dict (forms R) now (JObj (message_to_dict m)))) (\<lambda>_.
     touch_and_save R (c\<lparr>ctx_messages := ctx_messages c @ [m], ctx_turn_index := ctx_turn_index c + 1\<rparr>))))"

definition append_messages :: "runtime \<Rightarrow> string \<Rightarrow> json list \<Rightarrow> ('t, agent_context) op" where
  "append_messages R run_id messages =
     bind (load_required_context R run_id) (\<lambda>c.
     bind (for_each (parse_message R) messages) (\<lambda>ms.
     touch_and_save R (c\<lparr>ctx_messages := ctx_messages c @ ms,
       ctx_turn_index := ctx_turn_index c + int (length ms)\<rparr>)))"

definition sync_planner_state :: "runtime \<Rightarrow> string \<Rightarrow> int \<Rightarrow> int option \<Rightarrow> ('t, agent_context) op" where
  "sync_planner_state R run_id planner_version step_index =
     bind (load_required_context R run_id) (\<lambda>c.
     if planner_version < 0 then raise (Exn ValueError ''planner_version must be a non-negative integer'')
     else if (case step_index of None \<Rightarrow> False | Some i \<Rightarrow> i < 0)
       then raise (Exn ValueError ''step_index must be a non-negative integer when provided'')
     else touch_and_save R (c\<lparr>ctx_planner_version := planner_version,
       ctx_step_index := (case step_index of None \<Rightarrow> ctx_step_index c | Some i \<Rightarrow> i)\<rparr>))"

definition set_step_index :: "runtime \<Rightarrow> string \<Rightarrow> int \<Rightarrow> ('t, agent_context) op" where
  "set_step_index R run_id step_index =
     bind (load_required_context R run_id) (\<lambda>c. sync_planner_state R run_id (ctx_planner_version c) (Some step_index))"

definition set_planner_version :: "runtime \<Rightarrow> string \<Rightarrow> int \<Rightarrow> ('t, agent_context) op" where
  "set_planner_version R run_id planner_version =
     bind (load_required_context R run_id) (\<lambda>c. sync_planner_state R run_id planner_version (Some (ctx_step_index c)))"

definition with_pending :: "string list \<Rightarrow> agent_context \<Rightarrow> agent_context" where
  "with_pending ids c = c\<lparr>ctx_pending_execution_ids := ids,
     ctx_pending_execution_id := (if ids = [] then None else Some (last ids))\<rparr>"

definition add_pending_execution :: "runtime \<Rightarrow> string \<Rightarrow> string \<Rightarrow> ('t, agent_context) op" where
  "add_pending_execution R run_id execution_id =
     bind (load_required_context R run_id) (\<lambda>c.
     bind (lift (require_non_empty_str (JStr execution_id) ''execution_id'')) (\<lambda>execution_id.
     touch_and_save R (with_pending
       (if execution_id \<in> set (ctx_pending_execution_ids c) then ctx_pending_execution_ids c
        else ctx_pending_execution_ids c @ [execution_id]) c)))"

definition clear_pending_execution :: "runtime \<Rightarrow> string \<Rightarrow> string option \<Rightarrow> ('t, agent_context) op" where
  "clear_pending_execution R run_id execution_id =
     bind (load_required_context R run_id) (\<lambda>c. case execution_id of
       None \<Rightarrow> touch_and_save R (with_pending [] c)
     | Some e \<Rightarrow>
         bind (lift (require_non_empty_str (JStr e) ''execution_id'')) (\<lambda>normalized.
         touch_and_save R (with_pending (filter (\<lambda>x. x \<noteq> normalized) (ctx_pending_execution_ids c)) c)))"

definition set_pending_execution :: "runtime \<Rightarrow> string \<Rightarrow> string option \<Rightarrow> ('t, agent_context) op" where
  "set_pending_execution R run_id execution_id = (case execution_id of
     None \<Rightarrow> clear_pending_execution R run_id None
   | Some e \<Rightarrow> add_pending_execution R run_id e)"

definition checkpoint_context :: "runtime \<Rightarrow> string \<Rightarrow> int option \<Rightarrow> ('t, agent_context) op" where
  "checkpoint_context R run_id last_checkpoint_seq =
     bind (load_required_context R run_id) (\<lambda>c.
     if (case last_checkpoint_seq of None \<Rightarrow> False | Some i \<Rightarrow> i < 0)
       then raise (Exn ValueError ''last_checkpoint_seq must be a non-negative integer when provided'')
     else touch_and_save R (c\<lparr>ctx_last_checkpoint_seq := last_checkpoint_seq\<rparr>))"

section \<open>External results and messages for inference\<close>

definition save_external_result :: "runtime \<Rightarrow> string \<Rightarrow> external_result \<Rightarrow> ('t, external_result) op" where
  "save_external_result R run_id record =
     bind (load_required_context R run_id) (\<lambda>_.
     if res_run_id record \<noteq> run_id
       then raise (Exn ValueError ''external result run_id must match the target context run_id'')
     else repo_upsert_result R record)"

definition service_list_results :: "runtime \<Rightarrow> string \<Rightarrow> ('t, external_result list) op" where
  "service_list_results R run_id =
     bind (load_required_context R run_id) (\<lambda>_. repo_list_results R run_id)"

text \<open>\<open>messages[-n:]\<close> for a positive \<open>n\<close>.\<close>

definition last_n :: "nat \<Rightarrow> 'a list \<Rightarrow> 'a list" where
  "last_n n xs = drop (length xs - n) xs"

definition get_messages_for_inference ::
  "runtime \<Rightarrow> string \<Rightarrow> int option \<Rightarrow> string list option \<Rightarrow> ('t, dict list) op" where
  "get_messages_for_inference R run_id max_messages roles =
     bind (load_required_context R run_id) (\<lambda>c.
     let messages = (case roles of None \<Rightarrow> ctx_messages c
           | Some rs \<Rightarrow> filter (\<lambda>m. msg_role m \<in> set rs) (ctx_messages c)) in
     case max_messages of
       None \<Rightarrow> ret (map message_to_dict messages)
     | Some n \<Rightarrow>
         if n \<le> 0 then raise (Exn ValueError ''max_messages must be a positive integer when provided'')
         else ret (map message_to_dict (last_n (nat n) messages)))"

section \<open>Effects\<close>

lemma agent_reads [effect]:
  "confined same_db (reload_context R c)" "confined same_db (reload_result R r)"
  "confined same_db (repo_load_context R i)" "confined same_db (repo_get_result R i)"
  "confined same_db (repo_list_results R i)" "confined same_db (load_required_context R i)"
  "confined same_db (parse_message R v)" "confined same_db (service_list_results R i)"
  "confined same_db (get_messages_for_inference R i n rs)"
  unfolding reload_context_def reload_result_def repo_load_context_def repo_get_result_def
    repo_list_results_def load_required_context_def parse_message_def service_list_results_def
    get_messages_for_inference_def peek_now_def Let_def
  by (intro effect)+

lemmas agent_read_effects = agent_reads [THEN confined_no_db(1)] agent_reads [THEN confined_no_db(2)]

lemma context_save_effect [effect]:
  "confined same_outside (repo_save_context R c)" "confined log_grows (repo_save_context R c)"
  "confined same_outside (touch_and_save R c)" "confined log_grows (touch_and_save R c)"
  "confined same_outside (repo_upsert_result R r)" "confined log_grows (repo_upsert_result R r)"
  unfolding repo_save_context_def touch_and_save_def repo_upsert_result_def Let_def
  by (intro effect agent_read_effects)+

lemma agent_service_effect [effect]:
  "confined same_outside (init_context R i ms mem b)" "confined log_grows (init_context R i ms mem b)"
  "confined same_outside (append_message R i role content meta nm tc)"
  "confined log_grows (append_message R i role content meta nm tc)"
  "confined same_outside (append_messages R i ms)" "confined log_grows (append_messages R i ms)"
  "confined same_outside (sync_planner_state R i v s)" "confined log_grows (sync_planner_state R i v s)"
  "confined same_outside (add_pending_execution R i e)" "confined log_grows (add_pending_execution R i e)"
  "confined same_outside (clear_pending_execution R i eo)" "confined log_grows (clear_pending_execution R i eo)"
  "confined same_outside (checkpoint_context R i so)" "confined log_grows (checkpoint_context R i so)"
  "confined same_outside (save_external_result R i r)" "confined log_grows (save_external_result R i r)"
  unfolding init_context_def append_message_def append_messages_def sync_planner_state_def
    add_pending_execution_def clear_pending_execution_def checkpoint_context_def save_external_result_def Let_def
  by (intro effect agent_read_effects)+

end
