(* ===== verification/Logging_Service.thy ===== *)
theory Logging_Service
  imports Agent_Service
begin

text \<open>
  \<open>logging_service.py\<close> (with \<open>logging_observability.py\<close>): the facade that appends the event before
  it changes a projection, in one transaction per operation, and writes the JSON mirror after the
  commit. The lock of a run is held for the whole operation, so an operation is one step.
\<close>

section \<open>Event types and payloads\<close>

datatype event_type =
    RUN_STARTED | PLAN_CREATED | PLAN_ITEM_LLM_OUTPUT_ATTACHED | PLAN_ITEM_STATUS_UPDATED
  | PLAN_ACTIVE_ITEM_SET | CONTEXT_INITIALIZED | CONTEXT_MESSAGE_APPENDED
  | CONTEXT_PENDING_EXECUTION_SET | CONTEXT_SYNCHRONIZED | TOOL_INTENT_RECORDED | TOOL_DISPATCHED
  | EXTERNAL_RESULT_RECORDED | CHECKPOINT_WRITTEN

fun event_value :: "event_type \<Rightarrow> string" where
  "event_value RUN_STARTED = ''RUN_STARTED''"
| "event_value PLAN_CREATED = ''PLAN_CREATED''"
| "event_value PLAN_ITEM_LLM_OUTPUT_ATTACHED = ''PLAN_ITEM_LLM_OUTPUT_ATTACHED''"
| "event_value PLAN_ITEM_STATUS_UPDATED = ''PLAN_ITEM_STATUS_UPDATED''"
| "event_value PLAN_ACTIVE_ITEM_SET = ''PLAN_ACTIVE_ITEM_SET''"
| "event_value CONTEXT_INITIALIZED = ''CONTEXT_INITIALIZED''"
| "event_value CONTEXT_MESSAGE_APPENDED = ''CONTEXT_MESSAGE_APPENDED''"
| "event_value CONTEXT_PENDING_EXECUTION_SET = ''CONTEXT_PENDING_EXECUTION_SET''"
| "event_value CONTEXT_SYNCHRONIZED = ''CONTEXT_SYNCHRONIZED''"
| "event_value TOOL_INTENT_RECORDED = ''TOOL_INTENT_RECORDED''"
| "event_value TOOL_DISPATCHED = ''TOOL_DISPATCHED''"
| "event_value EXTERNAL_RESULT_RECORDED = ''EXTERNAL_RESULT_RECORDED''"
| "event_value CHECKPOINT_WRITTEN = ''CHECKPOINT_WRITTEN''"

fun required_keys :: "event_type \<Rightarrow> string list" where
  "required_keys RUN_STARTED = [''initial_message_count'', ''plan_item_count'']"
| "required_keys PLAN_CREATED = [''plan_source_text'', ''plan_items'']"
| "required_keys PLAN_ITEM_LLM_OUTPUT_ATTACHED = [''llm_output'']"
| "required_keys PLAN_ITEM_STATUS_UPDATED = [''new_status'']"
| "required_keys PLAN_ACTIVE_ITEM_SET = [''plan_item_id'']"
| "required_keys CONTEXT_INITIALIZED = [''initial_messages'', ''initial_memory'']"
| "required_keys CONTEXT_MESSAGE_APPENDED = [''role'', ''content'', ''meta'']"
| "required_keys CONTEXT_PENDING_EXECUTION_SET = [''pending_execution_id'', ''pending_execution_ids'']"
| "required_keys CONTEXT_SYNCHRONIZED = [''planner_version'', ''cursor_index'']"
| "required_keys TOOL_INTENT_RECORDED =
     [''plan_item_id'', ''tool_name'', ''operation_type'', ''request_payload'', ''execution_status'']"
| "required_keys TOOL_DISPATCHED = [''execution_status'', ''tool_name'']"
| "required_keys EXTERNAL_RESULT_RECORDED =
     [''result_status'', ''execution_status'', ''tool_name'', ''operation_type'', ''has_response'']"
| "required_keys CHECKPOINT_WRITTEN = [''checkpoint_id'', ''checkpoint_seq'', ''snapshot_type'']"

definition validate_event_payload :: "event_type \<Rightarrow> dict \<Rightarrow> unit res" where
  "validate_event_payload event_type payload =
     (let missing = filter (\<lambda>k. map_of payload k = None) (required_keys event_type) in
      if missing \<noteq> [] then value_error (''invalid '' @ event_value event_type @ '' payload, missing keys: '' @
        join '', '' (sort missing))
      else Inr ())"

definition log_event :: "runtime \<Rightarrow> string \<Rightarrow> event_type \<Rightarrow> string \<Rightarrow> string \<Rightarrow> dict \<Rightarrow> ('t, wal_event) op" where
  "log_event R run_id event_type entity_type entity_id payload =
     bind (lift (validate_event_payload event_type payload)) (\<lambda>_.
     append_event R run_id (event_value event_type) entity_type entity_id payload)"

section \<open>Execution statuses\<close>

fun allowed_transitions :: "execution_status \<Rightarrow> execution_status set" where
  "allowed_transitions INTENT_LOGGED = {DISPATCHED, ACKED, VERIFIED_COMMITTED, VERIFIED_NOT_FOUND, FAILED}"
| "allowed_transitions DISPATCHED = {ACKED, VERIFIED_COMMITTED, VERIFIED_NOT_FOUND, FAILED}"
| "allowed_transitions ACKED = {VERIFIED_COMMITTED}"
| "allowed_transitions VERIFIED_COMMITTED = {}"
| "allowed_transitions VERIFIED_NOT_FOUND = {ACKED, FAILED}"
| "allowed_transitions FAILED = {DISPATCHED, VERIFIED_COMMITTED, VERIFIED_NOT_FOUND}"

definition assert_execution_transition :: "execution_status \<Rightarrow> execution_status \<Rightarrow> unit res" where
  "assert_execution_transition current nxt =
     (if current = nxt then Inr ()
      else if nxt \<notin> allowed_transitions current
        then value_error (''illegal execution status transition: '' @ execution_status_value current @
          '' -> '' @ execution_status_value nxt)
      else Inr ())"

definition parse_result_status :: "string \<Rightarrow> result_status res" where
  "parse_result_status raw = result_status_of (lower (strip raw))"

definition resolve_execution_status :: "string option \<Rightarrow> result_status \<Rightarrow> execution_status res" where
  "resolve_execution_status execution_status result_status = (case execution_status of
     Some s \<Rightarrow> normalize_execution_status s
   | None \<Rightarrow> Inr (case result_status of OK \<Rightarrow> ACKED | ERROR \<Rightarrow> FAILED | _ \<Rightarrow> DISPATCHED))"

definition project_pending_ids_with_add :: "agent_context option \<Rightarrow> string \<Rightarrow> string list" where
  "project_pending_ids_with_add context execution_id = (case context of
     None \<Rightarrow> [execution_id]
   | Some c \<Rightarrow> if execution_id \<in> set (ctx_pending_execution_ids c) then ctx_pending_execution_ids c
       else ctx_pending_execution_ids c @ [execution_id])"

section \<open>Reading a run\<close>

definition rebuild_state :: "runtime \<Rightarrow> string \<Rightarrow> string option \<Rightarrow> int \<Rightarrow> ('t, dict) op" where
  "rebuild_state R run_id snapshot_type event_limit =
     bind (read_latest_checkpoint run_id snapshot_type) (\<lambda>checkpoint.
     bind (read_events run_id (map_option ck_seq_id checkpoint) event_limit) (\<lambda>events.
     bind (repo_load_plan R run_id) (\<lambda>planner.
     bind (repo_load_context R run_id) (\<lambda>context.
     bind (if context \<noteq> None then service_list_results R run_id else ret []) (\<lambda>results.
     bind (latest_wal_seq run_id) (\<lambda>seq.
     ret [
       (''run_id'', JStr run_id),
       (''latest_seq'', jopt JInt seq),
       (''checkpoint'', jopt (\<lambda>c. JObj (checkpoint_to_dict c)) checkpoint),
       (''events_after_checkpoint'', JList (map (\<lambda>e. JObj (event_to_dict e)) events)),
       (''planner_state'', jopt (\<lambda>p. JObj (planner_to_dict p)) planner),
       (''context'', jopt (\<lambda>c. JObj (context_to_dict c)) context),
       (''external_results'', JList (map (\<lambda>r. JObj (result_to_dict r)) results))]))))))"

definition list_pending_executions :: "runtime \<Rightarrow> string \<Rightarrow> ('t, string list) op" where
  "list_pending_executions R run_id = bind (repo_load_context R run_id) (\<lambda>context.
     ret (case context of None \<Rightarrow> [] | Some c \<Rightarrow> ctx_pending_execution_ids c))"

text \<open>\<open>_emit_after_commit\<close>: the mirror reads the run back and writes its file.\<close>

definition emit_after_commit :: "runtime \<Rightarrow> string \<Rightarrow> ('t, unit) op" where
  "emit_after_commit R run_id = (case mirror R of
     None \<Rightarrow> ret ()
   | Some write \<Rightarrow> bind (rebuild_state R run_id None 1000) (\<lambda>bundle.
       case write run_id bundle of None \<Rightarrow> ret () | Some e \<Rightarrow> raise e))"

definition run_write :: "runtime \<Rightarrow> string \<Rightarrow> ('t, 'a) op \<Rightarrow> ('t, 'a) op" where
  "run_write R run_id m = bind (transaction m) (\<lambda>x. bind (emit_after_commit R run_id) (\<lambda>_. ret x))"

section \<open>Checkpoints and synchronisation\<close>

definition checkpoint_locked :: "runtime \<Rightarrow> string \<Rightarrow> string \<Rightarrow> bool \<Rightarrow> ('t, wal_checkpoint option) op" where
  "checkpoint_locked R run_id snapshot_type include_external_results =
     bind (latest_wal_seq run_id) (\<lambda>found. case found of
       None \<Rightarrow> ret None
     | Some latest_seq \<Rightarrow>
         bind (repo_load_plan R run_id) (\<lambda>planner.
         bind (repo_load_context R run_id) (\<lambda>context.
         bind (if include_external_results \<and> context \<noteq> None
               then bind (service_list_results R run_id) (\<lambda>rs. ret (JList (map (\<lambda>r. JObj (result_to_dict r)) rs)))
               else ret JNull) (\<lambda>results.
         bind (write_checkpoint R run_id latest_seq snapshot_type [
           (''planner'', jopt (\<lambda>p. JObj (planner_to_dict p)) planner),
           (''context'', jopt (\<lambda>c. JObj (context_to_dict c)) context),
           (''external_results'', results)]) (\<lambda>checkpoint.
         bind (if context \<noteq> None
               then bind (checkpoint_context R run_id (Some latest_seq)) (\<lambda>_. ret ()) else ret ()) (\<lambda>_.
         bind (log_event R run_id CHECKPOINT_WRITTEN ''checkpoint'' (ck_checkpoint_id checkpoint) [
           (''checkpoint_id'', JStr (ck_checkpoint_id checkpoint)),
           (''checkpoint_seq'', JInt (ck_seq_id checkpoint)),
           (''snapshot_type'', JStr (ck_snapshot_type checkpoint))]) (\<lambda>_.
         ret (Some checkpoint))))))))"

definition maybe_auto_checkpoint :: "runtime \<Rightarrow> string \<Rightarrow> ('t, wal_checkpoint option) op" where
  "maybe_auto_checkpoint R run_id =
     (if checkpoint_every_n_events R \<le> 0 then ret None else
      bind (latest_wal_seq run_id) (\<lambda>found. case found of
        None \<Rightarrow> ret None
      | Some seq \<Rightarrow>
          if seq = 0 then ret None
          else if seq mod checkpoint_every_n_events R \<noteq> 0 then ret None
          else checkpoint_locked R run_id ''agent_context'' False))"

definition checkpoint :: "runtime \<Rightarrow> string \<Rightarrow> string \<Rightarrow> bool \<Rightarrow> ('t, wal_checkpoint option) op" where
  "checkpoint R run_id snapshot_type include_external_results =
     run_write R run_id (checkpoint_locked R run_id snapshot_type include_external_results)"

definition sync_context_with_planner :: "runtime \<Rightarrow> string \<Rightarrow> planner_state \<Rightarrow> ('t, wal_event) op" where
  "sync_context_with_planner R run_id st =
     bind (repo_load_context R run_id) (\<lambda>context.
     if context = None then raise (Exn ValueError (''agent context not found for run_id='' @ run_id)) else
     bind (log_event R run_id CONTEXT_SYNCHRONIZED ''context'' run_id [
       (''planner_version'', JInt (ps_version st)), (''cursor_index'', jopt JInt (ps_cursor_index st))]) (\<lambda>event.
     bind (sync_planner_state R run_id (ps_version st) (ps_cursor_index st)) (\<lambda>_. ret event)))"

text \<open>The end of a writing operation: synchronise, checkpoint if due.\<close>

definition sync_and_checkpoint :: "runtime \<Rightarrow> string \<Rightarrow> planner_state \<Rightarrow> ('t, unit) op" where
  "sync_and_checkpoint R run_id st =
     bind (sync_context_with_planner R run_id st) (\<lambda>_.
     bind (maybe_auto_checkpoint R run_id) (\<lambda>_. ret ()))"

section \<open>Runs, messages and plan items\<close>

definition start_run ::
  "runtime \<Rightarrow> string \<Rightarrow> json list \<Rightarrow> string \<Rightarrow> json list \<Rightarrow> dict option \<Rightarrow> bool \<Rightarrow> dict option \<Rightarrow>
   ('t, planner_state \<times> agent_context) op" where
  "start_run R run_id initial_messages plan_source_text plan_items initial_memory force_reset plan_schema =
     run_write R run_id (
     bind (repo_load_plan R run_id) (\<lambda>existing_planner.
     bind (repo_load_context R run_id) (\<lambda>existing_context.
     if existing_planner \<noteq> None \<and> existing_context \<noteq> None \<and> \<not> force_reset
       then ret (the existing_planner, the existing_context) else
     bind (log_event R run_id RUN_STARTED ''run'' run_id [
       (''initial_message_count'', JInt (int (length initial_messages))),
       (''plan_item_count'', JInt (int (length plan_items)))]) (\<lambda>_.
     bind (log_event R run_id PLAN_CREATED ''planner'' run_id [
       (''plan_source_text'', JStr plan_source_text),
       (''plan_items'', JList plan_items),
       (''plan_schema'', JObj (case plan_schema of None \<Rightarrow> [] | Some s \<Rightarrow> s))]) (\<lambda>_.
     bind (create_plan R run_id plan_source_text plan_items plan_schema) (\<lambda>planner.
     bind (log_event R run_id CONTEXT_INITIALIZED ''context'' run_id [
       (''initial_messages'', JList initial_messages),
       (''initial_memory'', JObj (case initial_memory of None \<Rightarrow> [] | Some m \<Rightarrow> m))]) (\<lambda>_.
     bind (init_context R run_id initial_messages initial_memory force_reset) (\<lambda>context.
     bind (sync_and_checkpoint R run_id planner) (\<lambda>_.
     ret (planner, context))))))))))"

definition message_event :: "string \<Rightarrow> string \<Rightarrow> dict option \<Rightarrow> string option \<Rightarrow> string option \<Rightarrow> dict" where
  "message_event role content meta name tool_call_id = [
     (''role'', JStr role), (''content'', JStr content),
     (''meta'', JObj (case meta of None \<Rightarrow> [] | Some m \<Rightarrow> m)),
     (''name'', jopt JStr name), (''tool_call_id'', jopt JStr tool_call_id)]"

definition record_context_message ::
  "runtime \<Rightarrow> string \<Rightarrow> string \<Rightarrow> string \<Rightarrow> dict option \<Rightarrow> string option \<Rightarrow> string option \<Rightarrow> ('t, agent_context) op" where
  "record_context_message R run_id role content meta name tool_call_id = run_write R run_id (
     bind (log_event R run_id CONTEXT_MESSAGE_APPENDED ''context'' run_id
       (message_event role content meta name tool_call_id)) (\<lambda>_.
     bind (append_message R run_id role content meta name tool_call_id) (\<lambda>context.
     bind (maybe_auto_checkpoint R run_id) (\<lambda>_. ret context))))"

definition record_llm_turn ::
  "runtime \<Rightarrow> string \<Rightarrow> string \<Rightarrow> string \<Rightarrow> string \<Rightarrow> dict option \<Rightarrow> ('t, planner_state \<times> agent_context) op" where
  "record_llm_turn R run_id plan_item_id llm_output assistant_message assistant_meta = run_write R run_id (
     bind (log_event R run_id PLAN_ITEM_LLM_OUTPUT_ATTACHED ''planner_item'' plan_item_id
       [(''llm_output'', JStr llm_output)]) (\<lambda>_.
     bind (attach_llm_output R run_id plan_item_id llm_output) (\<lambda>planner.
     bind (log_event R run_id CONTEXT_MESSAGE_APPENDED ''context'' run_id
       (message_event ''assistant'' assistant_message assistant_meta None None)) (\<lambda>_.
     bind (append_message R run_id ''assistant'' assistant_message assistant_meta None None) (\<lambda>context.
     bind (sync_and_checkpoint R run_id planner) (\<lambda>_. ret (planner, context)))))))"

definition advance_plan_item :: "runtime \<Rightarrow> string \<Rightarrow> string \<Rightarrow> string \<Rightarrow> string option \<Rightarrow> ('t, planner_state) op" where
  "advance_plan_item R run_id plan_item_id new_status note = run_write R run_id (
     bind (log_event R run_id PLAN_ITEM_STATUS_UPDATED ''planner_item'' plan_item_id
       [(''new_status'', JStr new_status), (''note'', jopt JStr note)]) (\<lambda>_.
     bind (update_item_status R run_id plan_item_id new_status note) (\<lambda>planner.
     bind (sync_and_checkpoint R run_id planner) (\<lambda>_. ret planner))))"

definition set_active_plan_item :: "runtime \<Rightarrow> string \<Rightarrow> string \<Rightarrow> ('t, planner_state) op" where
  "set_active_plan_item R run_id plan_item_id = run_write R run_id (
     bind (log_event R run_id PLAN_ACTIVE_ITEM_SET ''planner'' run_id
       [(''plan_item_id'', JStr plan_item_id)]) (\<lambda>_.
     bind (set_active_item R run_id plan_item_id) (\<lambda>planner.
     bind (sync_and_checkpoint R run_id planner) (\<lambda>_. ret planner))))"

section \<open>Tool executions\<close>

definition tool_intent_exists :: "runtime \<Rightarrow> string \<Rightarrow> string \<Rightarrow> ('t, bool) op" where
  "tool_intent_exists R run_id execution_id =
     bind (repo_get_result R execution_id) (\<lambda>existing. case existing of
       Some r \<Rightarrow> if res_run_id r \<noteq> run_id
         then raise (Exn ValueError (''execution_id='' @ execution_id @ '' already belongs to run_id='' @ res_run_id r))
         else ret True
     | None \<Rightarrow> has_wal_event run_id (event_value TOOL_INTENT_RECORDED) execution_id)"

definition pending_event :: "string list \<Rightarrow> dict" where
  "pending_event ids = [
     (''pending_execution_id'', if ids = [] then JNull else JStr (last ids)),
     (''pending_execution_ids'', str_list ids)]"

definition intent_event :: "string \<Rightarrow> string \<Rightarrow> string \<Rightarrow> dict \<Rightarrow> dict" where
  "intent_event plan_item_id tool_name operation_type request_payload = [
     (''plan_item_id'', JStr plan_item_id), (''tool_name'', JStr tool_name),
     (''operation_type'', JStr operation_type), (''request_payload'', JObj request_payload),
     (''execution_status'', JStr (execution_status_value INTENT_LOGGED))]"

text \<open>The three operations on executions: the block under the run lock, then the whole operation.\<close>

definition tool_intent_tx ::
  "runtime \<Rightarrow> string \<Rightarrow> string \<Rightarrow> string \<Rightarrow> string \<Rightarrow> dict \<Rightarrow> string \<Rightarrow> ('t, planner_state \<times> agent_context) op" where
  "tool_intent_tx R run_id plan_item_id execution_id tool_name request_payload operation_type =
     bind (if enforce_execution_dedup R then tool_intent_exists R run_id execution_id else ret False) (\<lambda>exists.
     if exists then
       bind (repo_load_plan R run_id) (\<lambda>planner.
       bind (repo_load_context R run_id) (\<lambda>context.
       case (planner, context) of
         (Some p, Some c) \<Rightarrow> ret (p, c)
       | _ \<Rightarrow> raise (Exn ValueError (''run projections missing for run_id='' @ run_id))))
     else
       bind (repo_load_context R run_id) (\<lambda>snapshot.
       bind (log_event R run_id TOOL_INTENT_RECORDED ''tool_intent'' execution_id
         (intent_event plan_item_id tool_name operation_type request_payload)) (\<lambda>_.
       bind (attach_tool_call_ref R run_id plan_item_id execution_id) (\<lambda>planner.
       bind (log_event R run_id CONTEXT_PENDING_EXECUTION_SET ''context'' run_id
         (pending_event (project_pending_ids_with_add snapshot execution_id))) (\<lambda>_.
       bind (add_pending_execution R run_id execution_id) (\<lambda>context.
       bind (repo_get_result R execution_id) (\<lambda>cached.
       bind (if cached = None then
               bind (utc_now R) (\<lambda>now.
               bind (save_external_result R run_id
                 \<lparr>res_execution_id = execution_id, res_run_id = run_id, res_plan_item_id = Some plan_item_id,
                  res_tool_name = tool_name, res_operation_type = operation_type,
                  res_request_payload = Some request_payload, res_response_payload = None,
                  res_request_payload_ref = None, res_response_payload_ref = None,
                  res_result_status = UNKNOWN, res_execution_status = INTENT_LOGGED,
                  res_error_message = None, res_created_at = now, res_updated_at = now\<rparr>) (\<lambda>_. ret ()))
             else ret ()) (\<lambda>_.
       bind (sync_and_checkpoint R run_id planner) (\<lambda>_.
       ret (planner, context))))))))))"

definition record_tool_intent ::
  "runtime \<Rightarrow> string \<Rightarrow> string \<Rightarrow> string \<Rightarrow> string \<Rightarrow> dict \<Rightarrow> string \<Rightarrow> ('t, planner_state \<times> agent_context) op" where
  "record_tool_intent R run_id plan_item_id execution_id tool_name request_payload operation_type =
     run_write R run_id (tool_intent_tx R run_id plan_item_id execution_id tool_name request_payload operation_type)"

definition tool_dispatch_tx :: "runtime \<Rightarrow> string \<Rightarrow> string \<Rightarrow> ('t, external_result) op" where
  "tool_dispatch_tx R run_id execution_id =
     bind (repo_get_result R execution_id) (\<lambda>found. case found of
       None \<Rightarrow> raise (Exn ValueError (''tool intent not found for execution_id='' @ execution_id))
     | Some cached \<Rightarrow>
         if res_run_id cached \<noteq> run_id then raise (Exn ValueError ''execution_id belongs to another run'') else
         bind (lift (assert_execution_transition (res_execution_status cached) DISPATCHED)) (\<lambda>_.
         bind (log_event R run_id TOOL_DISPATCHED ''tool_intent'' execution_id [
           (''execution_status'', JStr (execution_status_value DISPATCHED)),
           (''tool_name'', JStr (res_tool_name cached))]) (\<lambda>_.
         bind (utc_now R) (\<lambda>now.
         bind (save_external_result R run_id (cached\<lparr>res_execution_status := DISPATCHED, res_updated_at := now\<rparr>)) (\<lambda>record.
         bind (maybe_auto_checkpoint R run_id) (\<lambda>_. ret record))))))"

definition record_tool_dispatch :: "runtime \<Rightarrow> string \<Rightarrow> string \<Rightarrow> ('t, external_result) op" where
  "record_tool_dispatch R run_id execution_id = run_write R run_id (tool_dispatch_tx R run_id execution_id)"

text \<open>\<open>a or b\<close> on optional strings and dicts: an empty one counts as missing.\<close>

definition non_empty :: "'a list option \<Rightarrow> 'a list option" where
  "non_empty x = (case x of Some (y # ys) \<Rightarrow> Some (y # ys) | _ \<Rightarrow> None)"

definition or_else :: "'a list option \<Rightarrow> 'a list option \<Rightarrow> 'a list option" where
  "or_else a b = (case non_empty a of Some x \<Rightarrow> Some x | None \<Rightarrow> b)"

record result_report =
  rep_result_status :: string
  rep_response_payload :: "dict option"
  rep_error_message :: "string option"
  rep_tool_name :: "string option"
  rep_operation_type :: "string option"
  rep_request_payload :: "dict option"
  rep_plan_item_id :: "string option"
  rep_execution_status :: "string option"
  rep_clear_pending :: bool

definition clear_if_pending :: "runtime \<Rightarrow> string \<Rightarrow> string \<Rightarrow> ('t, unit) op" where
  "clear_if_pending R run_id execution_id =
     bind (repo_load_context R run_id) (\<lambda>context. case context of
       None \<Rightarrow> ret ()
     | Some c \<Rightarrow>
         if execution_id \<in> set (ctx_pending_execution_ids c) then
           bind (log_event R run_id CONTEXT_PENDING_EXECUTION_SET ''context'' run_id
             (pending_event (filter (\<lambda>v. v \<noteq> execution_id) (ctx_pending_execution_ids c)))) (\<lambda>_.
           bind (clear_pending_execution R run_id (Some execution_id)) (\<lambda>_. ret ()))
         else ret ())"

definition tool_result_tx :: "runtime \<Rightarrow> string \<Rightarrow> string \<Rightarrow> result_report \<Rightarrow> ('t, external_result) op" where
  "tool_result_tx R run_id execution_id rep =
     bind (lift (parse_result_status (rep_result_status rep))) (\<lambda>result_status.
     bind (lift (resolve_execution_status (rep_execution_status rep) result_status)) (\<lambda>execution_status.
     bind (repo_get_result R execution_id) (\<lambda>found.
     bind (case found of None \<Rightarrow> ret () | Some cached \<Rightarrow>
             if res_run_id cached \<noteq> run_id then raise (Exn ValueError ''execution_id belongs to another run'')
             else lift (assert_execution_transition (res_execution_status cached) execution_status)) (\<lambda>_.
     let tool_name = or_else (rep_tool_name rep) (map_option res_tool_name found);
         operation_type = or_else (rep_operation_type rep) (map_option res_operation_type found);
         request_payload = or_else (rep_request_payload rep) (Option.bind found res_request_payload);
         plan_item_id = (case rep_plan_item_id rep of Some p \<Rightarrow> Some p | None \<Rightarrow> Option.bind found res_plan_item_id) in
     case (tool_name, operation_type, request_payload) of
       (Some tool, Some kind, Some request) \<Rightarrow>
         bind (log_event R run_id EXTERNAL_RESULT_RECORDED ''external_result'' execution_id [
           (''result_status'', JStr (result_status_value result_status)),
           (''execution_status'', JStr (execution_status_value execution_status)),
           (''tool_name'', JStr tool), (''operation_type'', JStr kind),
           (''plan_item_id'', jopt JStr plan_item_id),
           (''has_response'', JBool (rep_response_payload rep \<noteq> None)),
           (''error_message'', jopt JStr (rep_error_message rep))]) (\<lambda>_.
         bind (utc_now R) (\<lambda>now.
         bind (save_external_result R run_id
           \<lparr>res_execution_id = execution_id, res_run_id = run_id, res_plan_item_id = plan_item_id,
            res_tool_name = tool, res_operation_type = kind, res_request_payload = Some request,
            res_response_payload = rep_response_payload rep, res_request_payload_ref = None,
            res_response_payload_ref = None, res_result_status = result_status,
            res_execution_status = execution_status, res_error_message = rep_error_message rep,
            res_created_at = (case found of Some c \<Rightarrow> res_created_at c | None \<Rightarrow> now),
            res_updated_at = now\<rparr>) (\<lambda>record.
         bind (if rep_clear_pending rep \<and> execution_status \<notin> {INTENT_LOGGED, DISPATCHED}
               then clear_if_pending R run_id execution_id else ret ()) (\<lambda>_.
         bind (maybe_auto_checkpoint R run_id) (\<lambda>_. ret record)))))
     | _ \<Rightarrow> raise (Exn ValueError ''tool_name, operation_type, and request_payload are required for first result record'')))))"

definition record_tool_result :: "runtime \<Rightarrow> string \<Rightarrow> string \<Rightarrow> result_report \<Rightarrow> ('t, external_result) op" where
  "record_tool_result R run_id execution_id rep = run_write R run_id (tool_result_tx R run_id execution_id rep)"

end
