(* ===== verification/Tool_Log.thy ===== *)
theory Tool_Log
  imports Logging_Service
begin

text \<open>
  What the facade of \<open>Logging_Service\<close> guarantees. Effects first: which operations leave the
  database, the outside and the tool executions alone. Then the tool executions: the record of
  an execution is at any time what the log replays to, and its statuses follow the allowed
  transitions.
\<close>

section \<open>Effects of the facade\<close>

lemma log_event_effect [effect]:
  "confined same_outside (log_event R r t n i p)" "confined log_grows (log_event R r t n i p)"
  unfolding log_event_def by (intro effect)+

lemma facade_reads [effect]:
  "confined same_db (rebuild_state R r st l)" "confined same_db (list_pending_executions R r)"
  "confined same_db (emit_after_commit R r)" "confined same_db (tool_intent_exists R r e)"
  unfolding rebuild_state_def list_pending_executions_def emit_after_commit_def tool_intent_exists_def
  by (intro effect)+

lemmas reading_keeps = facade_reads [THEN keeps_reads] log_reads [THEN keeps_reads] agent_reads [THEN keeps_reads]
  keeps_reads [OF load_plan_reads] keeps_reads [OF load_required_reads] keeps_reads [OF create_items_reads]

lemmas facade_read_effects = facade_reads [THEN confined_no_db(1)] facade_reads [THEN confined_no_db(2)]
  log_reads [THEN confined_no_db(1)] log_reads [THEN confined_no_db(2)]
  read_effects agent_read_effects

lemma run_write_effect [effect]:
  "confined same_outside m \<Longrightarrow> confined same_outside (run_write R r m)"
  "confined log_grows m \<Longrightarrow> confined log_grows (run_write R r m)"
  unfolding run_write_def by (intro effect facade_read_effects; assumption)+

lemma checkpoint_effect [effect]:
  "confined same_outside (checkpoint_locked R r t b)" "confined log_grows (checkpoint_locked R r t b)"
  "confined same_outside (sync_context_with_planner R r st)" "confined log_grows (sync_context_with_planner R r st)"
  unfolding checkpoint_locked_def sync_context_with_planner_def by (intro effect facade_read_effects)+

lemma auto_checkpoint_effect [effect]:
  "confined same_outside (maybe_auto_checkpoint R r)" "confined log_grows (maybe_auto_checkpoint R r)"
  unfolding maybe_auto_checkpoint_def by (intro effect facade_read_effects)+

lemma sync_effect [effect]:
  "confined same_outside (sync_and_checkpoint R r st)" "confined log_grows (sync_and_checkpoint R r st)"
  unfolding sync_and_checkpoint_def by (intro effect)+

lemma clear_if_pending_effect [effect]:
  "confined same_outside (clear_if_pending R r e)" "confined log_grows (clear_if_pending R r e)"
  unfolding clear_if_pending_def by (intro effect facade_read_effects)+

lemmas facade_defs = start_run_def record_context_message_def record_llm_turn_def advance_plan_item_def
  set_active_plan_item_def record_tool_intent_def record_tool_dispatch_def record_tool_result_def checkpoint_def
  tool_intent_tx_def tool_dispatch_tx_def tool_result_tx_def

lemma facade_effect [effect]:
  "confined same_outside (start_run R r ms txt is mem b sc)" "confined log_grows (start_run R r ms txt is mem b sc)"
  "confined same_outside (record_context_message R r role c meta nm tc)"
  "confined log_grows (record_context_message R r role c meta nm tc)"
  "confined same_outside (record_llm_turn R r i x a meta)" "confined log_grows (record_llm_turn R r i x a meta)"
  "confined same_outside (advance_plan_item R r i s n)" "confined log_grows (advance_plan_item R r i s n)"
  "confined same_outside (set_active_plan_item R r i)" "confined log_grows (set_active_plan_item R r i)"
  "confined same_outside (checkpoint R r s b)" "confined log_grows (checkpoint R r s b)"
  "confined same_outside (record_tool_intent R r i e tn rq ot)" "confined log_grows (record_tool_intent R r i e tn rq ot)"
  "confined same_outside (record_tool_dispatch R r e)" "confined log_grows (record_tool_dispatch R r e)"
  "confined same_outside (record_tool_result R r e rep)" "confined log_grows (record_tool_result R r e rep)"
  unfolding facade_defs Let_def by (intro effect facade_read_effects)+

text \<open>
  What is committed is what the body did, whether or not the mirror then raises; a body that
  raises leaves nothing.
\<close>

lemma run_write_outcome:
  assumes "run_write R r m w = (res, w')" and "\<not> conn_open w"
  shows "db w' = db w \<and> (\<exists>e. res = Inl e \<and> fst (m (w\<lparr>conn_open := True\<rparr>)) = Inl e) \<or>
    (\<exists>x v. m (w\<lparr>conn_open := True\<rparr>) = (Inr x, v) \<and> db w' = db v \<and> (case res of Inr y \<Rightarrow> y = x | Inl e \<Rightarrow> mirror R \<noteq> None))"
proof -
  obtain tr wt where t: "transaction m w = (tr, wt)" by fastforce
  note a = transaction_atomic [OF assms(2) t]
  show ?thesis
  proof (cases tr)
    case (Inl e)
    then have "res = Inl e" "w' = wt"
      using assms(1) t by (simp_all add: run_write_def bind_def)
    moreover have "fst (m (w\<lparr>conn_open := True\<rparr>)) = Inl e"
      using t Inl assms(2) by (auto simp: transaction_def split: prod.splits sum.splits)
    ultimately show ?thesis using a Inl by simp
  next
    case (Inr x)
    then obtain v where v: "m (w\<lparr>conn_open := True\<rparr>) = (Inr x, v)" "db wt = db v"
      using a by auto
    obtain er we where e: "emit_after_commit R r wt = (er, we)" by fastforce
    have "db we = db wt" using reads_onlyD [OF facade_reads(3) e] by blast
    moreover have "w' = we \<and> (case res of Inr y \<Rightarrow> y = x | Inl e \<Rightarrow> mirror R \<noteq> None)"
      using assms(1) t Inr e
      by (auto simp: run_write_def bind_def emit_after_commit_def split: sum.splits option.splits)
    ultimately show ?thesis using v by auto
  qed
qed

lemma run_write_keeps_all:
  assumes "keeps_db P m" and "\<not> conn_open w" and "P (db w)"
  shows "P (db (snd (run_write R r m w)))"
proof -
  obtain res w' where w': "run_write R r m w = (res, w')" by fastforce
  from run_write_outcome [OF this assms(2)] show ?thesis
    using assms(1,3) w' by (auto dest: keepsD)
qed

section \<open>Operations that leave the tool executions alone\<close>

definition is_tool_event :: "wal_event \<Rightarrow> bool" where
  "is_tool_event e \<longleftrightarrow> ev_event_type e \<in> set (map event_value [TOOL_INTENT_RECORDED, TOOL_DISPATCHED, EXTERNAL_RESULT_RECORDED])"

definition tool_log :: "db \<Rightarrow> wal_event list" where
  "tool_log d = filter is_tool_event (wal_events d)"

definition same_tools :: "'t world \<Rightarrow> 't world \<Rightarrow> bool" where
  "same_tools w w' \<longleftrightarrow> external_results (db w') = external_results (db w) \<and> tool_log (db w') = tool_log (db w)"

interpretation idle: effect_order same_tools
  by unfold_locales (auto simp: same_tools_def)

lemma confined_same_tools: "confined same_db m \<Longrightarrow> confined same_tools m"
  by (auto simp: confined_def same_db_def same_tools_def)

lemma idle_basic [effect]: "confined same_tools (utc_now R)" "confined same_tools (read_db f)" "confined same_tools (new_uuid R)"
  by (auto simp: confined_def same_tools_def)

lemma idle_transaction [effect]: "confined same_tools m \<Longrightarrow> confined same_tools (transaction m)"
  by (rule confinedI) (auto simp: transaction_def same_tools_def split: if_splits prod.splits sum.splits
      dest!: confinedD)

lemma idle_update_db:
  "(\<And>d. external_results (f d) = external_results d \<and> wal_events (f d) = wal_events d) \<Longrightarrow>
    confined same_tools (update_db f)"
  by (simp add: confined_def same_tools_def tool_log_def)

lemma event_value_stripped [simp]: "strip (event_value t) = event_value t"
  by (cases t; simp; code_simp)

lemma event_value_inj [simp]: "event_value s = event_value t \<longleftrightarrow> s = t"
  by (cases s; cases t; simp)

lemma tool_log_insert:
  "tool_log (insert_event r (event_value t) n i p c d) = (if t \<in> {TOOL_INTENT_RECORDED, TOOL_DISPATCHED, EXTERNAL_RESULT_RECORDED}
     then tool_log d @ [\<lparr>ev_seq_id = wal_seq d + 1, ev_run_id = r, ev_event_type = event_value t,
       ev_entity_type = n, ev_entity_id = i, ev_payload = p, ev_created_at = c\<rparr>] else tool_log d)"
  by (auto simp: tool_log_def is_tool_event_def simp del: event_value.simps)

lemma idle_log_event [effect]:
  "t \<notin> {TOOL_INTENT_RECORDED, TOOL_DISPATCHED, EXTERNAL_RESULT_RECORDED} \<Longrightarrow> confined same_tools (log_event R r t n i p)"
  unfolding log_event_def
proof (intro idle.bind idle.lift confinedI)
  fix w w' :: "'a world" and res
  assume t: "t \<notin> {TOOL_INTENT_RECORDED, TOOL_DISPATCHED, EXTERNAL_RESULT_RECORDED}"
    and a: "append_event R r (event_value t) n i p w = (res, w')"
  show "same_tools w w'"
  proof (cases res)
    case (Inl e)
    with a show ?thesis by (simp add: same_tools_def append_event_Inl)
  next
    case (Inr e)
    with append_event_InrD [of R r "event_value t" n i p w e w'] a t show ?thesis
      by (simp add: same_tools_def tool_log_insert)
  qed
qed

lemma idle_saves [effect]:
  "confined same_tools (save_planner_state st)" "confined same_tools (save_context_snapshot c)"
  unfolding save_planner_state_def save_context_snapshot_def insert_planner_item_def
  by (intro effect idle_update_db confined_same_tools [OF bind_ints_effect(1)]; simp)+

lemmas idle_reads = confined_same_tools [OF bind_ints_effect(1)]
  facade_reads [THEN confined_same_tools] log_reads [THEN confined_same_tools]
  agent_reads [THEN confined_same_tools] confined_same_tools [OF load_plan_reads]
  confined_same_tools [OF load_required_reads] confined_same_tools [OF create_items_reads]
  confined_same_tools [OF reload_planner_reads] set_item_reads [THEN confined_same_tools]

lemma idle_repos [effect]:
  "confined same_tools (repo_save_plan R st)" "confined same_tools (repo_save_context R c)"
  unfolding repo_save_plan_def repo_save_context_def Let_def by (intro effect idle_reads)+

lemma idle_planner [effect]:
  "confined same_tools (create_plan R r t i s)" "confined same_tools (set_active_item R r i')"
  "confined same_tools (update_item_status R r i' st n)" "confined same_tools (attach_llm_output R r i' x)"
  "confined same_tools (attach_tool_call_ref R r i' x)"
  unfolding create_plan_def set_active_item_def update_item_status_def attach_llm_output_def
    attach_tool_call_ref_def bump_and_save_def Let_def
  by (intro effect idle_reads)+

lemma idle_agent [effect]:
  "confined same_tools (init_context R i ms mem b)" "confined same_tools (append_message R i role content meta nm tc)"
  "confined same_tools (append_messages R i ms)" "confined same_tools (sync_planner_state R i v s)"
  "confined same_tools (add_pending_execution R i e)" "confined same_tools (clear_pending_execution R i eo)"
  "confined same_tools (checkpoint_context R i so)"
  unfolding init_context_def append_message_def append_messages_def sync_planner_state_def
    add_pending_execution_def clear_pending_execution_def checkpoint_context_def touch_and_save_def Let_def
  by (intro effect idle_reads)+

lemma idle_write_checkpoint [effect]: "confined same_tools (write_checkpoint R r s t p)"
  unfolding write_checkpoint_def write_wal_checkpoint_def Let_def
  by (intro effect idle_reads idle_update_db; simp)

lemma idle_checkpoint [effect]: "confined same_tools (checkpoint_locked R r t b)"
  unfolding checkpoint_locked_def by (intro effect idle_reads; simp)

lemma idle_auto_checkpoint [effect]: "confined same_tools (maybe_auto_checkpoint R r)"
  unfolding maybe_auto_checkpoint_def by (intro effect idle_reads)

lemma idle_sync [effect]:
  "confined same_tools (sync_context_with_planner R r st)" "confined same_tools (clear_if_pending R r e)"
  unfolding sync_context_with_planner_def clear_if_pending_def by (intro effect idle_reads; simp)+

lemma idle_sync_and_checkpoint [effect]: "confined same_tools (sync_and_checkpoint R r st)"
  unfolding sync_and_checkpoint_def by (intro effect)

lemma idle_run_write [effect]: "confined same_tools m \<Longrightarrow> confined same_tools (run_write R r m)"
  unfolding run_write_def by (intro effect idle_reads)

lemma idle_facade [effect]:
  "confined same_tools (start_run R r ms txt is mem b sc)"
  "confined same_tools (record_context_message R r role c meta nm tc)"
  "confined same_tools (record_llm_turn R r i x a meta)"
  "confined same_tools (advance_plan_item R r i s n)"
  "confined same_tools (set_active_plan_item R r i)"
  "confined same_tools (checkpoint R r s b)"
  unfolding start_run_def record_context_message_def record_llm_turn_def advance_plan_item_def
    set_active_plan_item_def checkpoint_def
  by (intro effect idle_reads; simp)+

lemma same_toolsD: "confined same_tools m \<Longrightarrow> m w = (r, w') \<Longrightarrow>
    external_results (db w') = external_results (db w) \<and> tool_log (db w') = tool_log (db w)"
  by (auto dest!: confinedD simp: same_tools_def)

section \<open>What the tool operations do\<close>

definition logs_status :: "string \<Rightarrow> string \<Rightarrow> execution_status \<Rightarrow> db \<Rightarrow> db \<Rightarrow> bool" where
  "logs_status run_id execution_id s d d' \<longleftrightarrow> (\<exists>e row.
     tool_log d' = tool_log d @ [e] \<and> ev_run_id e = run_id \<and> ev_entity_id e = execution_id \<and>
     dict_get (ev_payload e) ''execution_status'' = JStr (execution_status_value s) \<and>
     external_results d' = AList.update execution_id row (external_results d) \<and>
     row_run_id row = run_id \<and> row_execution_status row = s)"

text \<open>One step of the execution \<open>execution_id\<close>: an event and a row with the new status, legal after the old one.\<close>

definition exec_step :: "string \<Rightarrow> string \<Rightarrow> execution_status \<Rightarrow> db \<Rightarrow> db \<Rightarrow> bool" where
  "exec_step run_id execution_id s d d' \<longleftrightarrow>
     (case map_of (external_results d) execution_id of
        None \<Rightarrow> True
      | Some row \<Rightarrow> strip (row_run_id row) = run_id \<and> s \<in> insert (row_execution_status row) (allowed_transitions (row_execution_status row))) \<and>
     logs_status run_id execution_id s d d'"

lemma result_reload_fields:
  assumes "result_from_dict T now (result_to_dict r) = Inr r'"
  shows "res_execution_id r' = strip (res_execution_id r) \<and> res_run_id r' = strip (res_run_id r) \<and>
    res_tool_name r' = strip (res_tool_name r) \<and> res_operation_type r' = strip (res_operation_type r) \<and>
    res_plan_item_id r' = res_plan_item_id r \<and> res_request_payload r' = res_request_payload r \<and>
    res_response_payload r' = res_response_payload r \<and> res_error_message r' = res_error_message r \<and>
    res_result_status r' = res_result_status r \<and> res_execution_status r' = res_execution_status r \<and>
    res_created_at r' = res_created_at r \<and> res_updated_at r' = res_updated_at r"
  using assms
  by (auto simp: result_from_dict_def result_to_dict_def rbind_eq_Inr require_non_empty_str_def Let_def
      split: if_splits)

lemma repo_get_result_InrD:
  assumes "repo_get_result R i w = (Inr found, w')"
  shows "w' = w \<and> (case found of
     None \<Rightarrow> map_of (external_results (db w)) (strip i) = None
   | Some r \<Rightarrow> \<exists>row. map_of (external_results (db w)) (strip i) = Some row \<and> res_execution_id r = strip i \<and>
       res_run_id r = strip (row_run_id row) \<and> res_execution_status r = row_execution_status row)"
proof -
  from assms obtain got v where g: "get_external_result i w = (Inr got, v)"
    and rest: "(case got of None \<Rightarrow> ret None | Some r \<Rightarrow> bind (reload_result R r) (\<lambda>r. ret (Some r))) v = (Inr found, w')"
    by (auto simp: repo_get_result_def elim!: bind_InrE)
  have v: "v = w" using g by (auto simp: get_external_result_def require_JStr elim!: bind_InrE split: if_splits option.splits)
  show ?thesis
  proof (cases got)
    case None
    then show ?thesis using g rest v
      by (auto simp: get_external_result_def require_JStr elim!: bind_InrE split: if_splits option.splits)
  next
    case (Some r0)
    then obtain row where row: "map_of (external_results (db w)) (strip i) = Some row"
      "result_of_row (db w) (strip i) row = Inr r0"
      using g by (auto simp: get_external_result_def require_JStr elim!: bind_InrE split: if_splits option.splits)
    obtain now r where r: "result_from_dict (forms R) now (result_to_dict r0) = Inr r" "found = Some r" "w' = w"
      using rest Some v by (auto simp: reload_result_def peek_now_def elim!: bind_InrE)
    have "res_execution_id r0 = strip i \<and> res_run_id r0 = row_run_id row \<and> res_execution_status r0 = row_execution_status row"
      using row(2) by (auto simp: result_of_row_def rbind_eq_Inr)
    with row(1) r(2,3) result_reload_fields [OF r(1)] show ?thesis by auto
  qed
qed

lemma save_external_result_InrD:
  assumes "save_external_result R run_id r w = (Inr r', w')"
  shows "res_run_id r = run_id \<and> tool_log (db w') = tool_log (db w) \<and> res_execution_status r' = res_execution_status r \<and>
    (\<exists>row. external_results (db w') = AList.update (res_execution_id r) row (external_results (db w)) \<and>
      row_run_id row = run_id \<and> row_execution_status row = res_execution_status r \<and> row_operation_type row = res_operation_type r)"
proof -
  from assms obtain c v where c: "load_required_context R run_id w = (Inr c, v)"
    and run: "res_run_id r = run_id" and u: "repo_upsert_result R r v = (Inr r', w')"
    by (auto simp: save_external_result_def elim!: bind_InrE split: if_splits)
  have v: "db v = db w" using reads_onlyD [OF agent_reads(6) c] by blast
  let ?r = "r\<lparr>res_updated_at := clock R (ticks v)\<rparr>"
  obtain stored w1 now where up: "upsert_external_result R ?r (v\<lparr>ticks := Suc (ticks v)\<rparr>) = (Inr stored, w1)"
    and re: "result_from_dict (forms R) now (result_to_dict stored) = Inr r'" and w': "w' = w1"
    using u by (auto simp: repo_upsert_result_def reload_result_def peek_now_def elim!: bind_InrE)
  from up show ?thesis
  proof (rule upsert_InrE)
    fix request response request_ref response_ref created_at d
    assume s: "stored = ?r\<lparr>res_request_payload_ref := request_ref, res_response_payload_ref := response_ref,
        res_created_at := created_at\<rparr>"
      and d: "adds_artifacts (db (v\<lparr>ticks := Suc (ticks v)\<rparr>)) d"
      and db: "db w1 = d\<lparr>external_results := AList.update (res_execution_id ?r) (row_of_result stored request response) (external_results d)\<rparr>"
    show ?thesis
      using d db s run v w' result_reload_fields [OF re]
      by (auto simp: adds_artifacts_def tool_log_def row_of_result_def)
  qed
qed

lemma log_event_InrD:
  assumes "log_event R r t n i p w = (Inr e, w')"
  shows "strip r \<noteq> [] \<and> strip i \<noteq> [] \<and>
    db w' = insert_event (strip r) (event_value t) (strip n) (strip i) p (clock R (ticks w)) (db w)"
proof -
  obtain v where "append_event R r (event_value t) n i p w = (Inr e, w')"
    using assms by (auto simp: log_event_def elim!: bind_InrE)
  then show ?thesis by (auto dest!: append_event_InrD)
qed

lemma logs_statusI:
  assumes "external_results (db v) = external_results d" and "tool_log (db v) = tool_log d"
    and "log_event R run_id t n execution_id p v = (Inr e, v1)"
    and "t \<in> {TOOL_INTENT_RECORDED, TOOL_DISPATCHED, EXTERNAL_RESULT_RECORDED}"
    and "dict_get p ''execution_status'' = JStr (execution_status_value s)"
    and "external_results (db v2) = external_results (db v1)" and "tool_log (db v2) = tool_log (db v1)"
    and "save_external_result R run_id r v2 = (Inr r', v3)"
    and "res_execution_id r = execution_id" and "res_execution_status r = s"
    and "external_results d' = external_results (db v3)" and "tool_log d' = tool_log (db v3)"
    and "canonical run_id" and "canonical execution_id"
  shows "logs_status run_id execution_id s d d'"
proof -
  note l = log_event_InrD [OF assms(3)] and s = save_external_result_InrD [OF assms(8)]
  obtain row where "external_results (db v3) = AList.update execution_id row (external_results (db v2))"
    "row_run_id row = run_id" "row_execution_status row = s"
    using s assms(9,10) by auto
  then show ?thesis
    unfolding logs_status_def
    using l s assms(1,2,4-7,11,12) canonical_strip [OF assms(13)] canonical_strip [OF assms(14)]
    by (intro exI conjI) (auto simp: tool_log_insert)
qed

lemma assert_transition_InrD: "assert_execution_transition a b = Inr () \<Longrightarrow> b \<in> insert a (allowed_transitions a)"
  by (auto simp: assert_execution_transition_def split: if_splits)

lemma dispatch_tx_step:
  assumes "tool_dispatch_tx R run_id execution_id w = (Inr x, v)"
    and "canonical run_id" and "canonical execution_id"
  shows "exec_step run_id execution_id DISPATCHED (db w) (db v) \<and> map_of (external_results (db w)) execution_id \<noteq> None"
proof -
  obtain cached v0 e v1 v2 c where get: "repo_get_result R execution_id w = (Inr (Some cached), v0)"
    and run: "res_run_id cached = run_id"
    and legal: "assert_execution_transition (res_execution_status cached) DISPATCHED = Inr ()"
    and log: "log_event R run_id TOOL_DISPATCHED ''tool_intent'' execution_id [
           (''execution_status'', JStr (execution_status_value DISPATCHED)),
           (''tool_name'', JStr (res_tool_name cached))] v0 = (Inr e, v1)"
    and save: "save_external_result R run_id (cached\<lparr>res_execution_status := DISPATCHED, res_updated_at := clock R (ticks v1)\<rparr>)
        (v1\<lparr>ticks := Suc (ticks v1)\<rparr>) = (Inr x, v2)"
    and auto: "maybe_auto_checkpoint R run_id v2 = (Inr c, v)"
    using assms(1) unfolding tool_dispatch_tx_def
    by (auto elim!: bind_InrE split: option.splits if_splits)
  have v0: "v0 = w" and cached: "res_execution_id cached = execution_id"
    and row: "\<exists>row. map_of (external_results (db w)) execution_id = Some row \<and> strip (row_run_id row) = run_id \<and>
      row_execution_status row = res_execution_status cached"
    using repo_get_result_InrD [OF get] run canonical_strip [OF assms(3)] by auto
  note rest = same_toolsD [OF idle_auto_checkpoint auto]
  have "logs_status run_id execution_id DISPATCHED (db w) (db v)"
    by (rule logs_statusI [OF _ _ log _ _ _ _ save]) (use rest v0 cached assms(2,3) in simp_all)
  with row assert_transition_InrD [OF legal] show ?thesis
    by (auto simp: exec_step_def)
qed

text \<open>
  Recording a dispatch commits either nothing or one legal step of the execution to
  \<open>dispatched\<close>: the event and the row together, for an execution of this run that is on record.
\<close>

theorem record_tool_dispatch_step:
  assumes "record_tool_dispatch R run_id execution_id w = (res, w')" and "\<not> conn_open w"
    and "canonical run_id" and "canonical execution_id"
  shows "db w' = db w \<or>
    exec_step run_id execution_id DISPATCHED (db w) (db w') \<and> map_of (external_results (db w)) execution_id \<noteq> None"
  using run_write_outcome [OF assms(1) [unfolded record_tool_dispatch_def] assms(2)]
    dispatch_tx_step [OF _ assms(3,4)]
  by fastforce

lemma has_wal_event_canonical:
  "canonical r \<Longrightarrow> canonical t \<Longrightarrow> canonical i \<Longrightarrow> has_wal_event r t i w = (Inr (event_exists (db w) r t i), w)"
  by (simp add: has_wal_event_def)

lemma canonical_event_value [simp]: "canonical (event_value t)"
  unfolding canonical_def by (cases t; simp; code_simp)

lemma tool_intent_exists_InrD:
  assumes "tool_intent_exists R run_id execution_id w = (Inr b, w')" and "canonical run_id" and "canonical execution_id"
  shows "w' = w \<and> (b \<longleftrightarrow> map_of (external_results (db w)) execution_id \<noteq> None \<or>
    event_exists (db w) run_id (event_value TOOL_INTENT_RECORDED) execution_id)"
proof -
  obtain found v where g: "repo_get_result R execution_id w = (Inr found, v)"
    and rest: "(case found of
       Some r \<Rightarrow> if res_run_id r \<noteq> run_id
         then raise (Exn ValueError (''execution_id='' @ execution_id @ '' already belongs to run_id='' @ res_run_id r))
         else ret True
     | None \<Rightarrow> has_wal_event run_id (event_value TOOL_INTENT_RECORDED) execution_id) v = (Inr b, w')"
    using assms(1) unfolding tool_intent_exists_def by (elim bind_InrE) blast
  note f = repo_get_result_InrD [OF g]
  show ?thesis
  proof (cases found)
    case None
    then show ?thesis
      using f rest assms(2,3)
      by (auto simp: canonical_strip has_wal_event_canonical simp del: event_value.simps)
  next
    case (Some r)
    then show ?thesis
      using f rest assms(3) by (auto simp: canonical_strip split: if_splits)
  qed
qed

lemma intent_tx_step:
  assumes "tool_intent_tx R run_id item execution_id tool request kind w = (Inr x, v)"
    and "canonical run_id" and "canonical execution_id" and "enforce_execution_dedup R"
  shows "if map_of (external_results (db w)) execution_id \<noteq> None \<or>
      event_exists (db w) run_id (event_value TOOL_INTENT_RECORDED) execution_id
    then db v = db w else exec_step run_id execution_id INTENT_LOGGED (db w) (db v)"
proof -
  obtain b v0 where ex: "tool_intent_exists R run_id execution_id w = (Inr b, v0)"
    and rest: "(if b then
       bind (repo_load_plan R run_id) (\<lambda>planner.
       bind (repo_load_context R run_id) (\<lambda>context.
       case (planner, context) of
         (Some p, Some c) \<Rightarrow> ret (p, c)
       | _ \<Rightarrow> raise (Exn ValueError (''run projections missing for run_id='' @ run_id))))
     else
       bind (repo_load_context R run_id) (\<lambda>snapshot.
       bind (log_event R run_id TOOL_INTENT_RECORDED ''tool_intent'' execution_id
         (intent_event item tool kind request)) (\<lambda>_.
       bind (attach_tool_call_ref R run_id item execution_id) (\<lambda>planner.
       bind (log_event R run_id CONTEXT_PENDING_EXECUTION_SET ''context'' run_id
         (pending_event (project_pending_ids_with_add snapshot execution_id))) (\<lambda>_.
       bind (add_pending_execution R run_id execution_id) (\<lambda>context.
       bind (repo_get_result R execution_id) (\<lambda>cached.
       bind (if cached = None then
               bind (utc_now R) (\<lambda>now.
               bind (save_external_result R run_id
                 \<lparr>res_execution_id = execution_id, res_run_id = run_id, res_plan_item_id = Some item,
                  res_tool_name = tool, res_operation_type = kind,
                  res_request_payload = Some request, res_response_payload = None,
                  res_request_payload_ref = None, res_response_payload_ref = None,
                  res_result_status = UNKNOWN, res_execution_status = INTENT_LOGGED,
                  res_error_message = None, res_created_at = now, res_updated_at = now\<rparr>) (\<lambda>_. ret ()))
             else ret ()) (\<lambda>_.
       bind (sync_and_checkpoint R run_id planner) (\<lambda>_.
       ret (planner, context)))))))))) v0 = (Inr x, v)"
    using assms(1,4) unfolding tool_intent_tx_def by (auto elim!: bind_InrE)
  note e = tool_intent_exists_InrD [OF ex assms(2,3)]
  show ?thesis
  proof (cases b)
    case True
    then have "db v = db v0"
      using rest by (auto elim!: bind_InrE split: option.splits
          dest!: reads_onlyD [OF load_plan_reads] reads_onlyD [OF agent_reads(3)])
    then show ?thesis using e True by auto
  next
    case False
    obtain snap v1 ev v2 planner v3 ev' v4 c v5 cached v6 v7 u v8 where
      load: "repo_load_context R run_id v0 = (Inr snap, v1)" and
      log: "log_event R run_id TOOL_INTENT_RECORDED ''tool_intent'' execution_id
         (intent_event item tool kind request) v1 = (Inr ev, v2)" and
      att: "attach_tool_call_ref R run_id item execution_id v2 = (Inr planner, v3)" and
      pend: "log_event R run_id CONTEXT_PENDING_EXECUTION_SET ''context'' run_id
         (pending_event (project_pending_ids_with_add snap execution_id)) v3 = (Inr ev', v4)" and
      add: "add_pending_execution R run_id execution_id v4 = (Inr c, v5)" and
      get: "repo_get_result R execution_id v5 = (Inr cached, v6)" and
      save: "(if cached = None then
               bind (utc_now R) (\<lambda>now.
               bind (save_external_result R run_id
                 \<lparr>res_execution_id = execution_id, res_run_id = run_id, res_plan_item_id = Some item,
                  res_tool_name = tool, res_operation_type = kind,
                  res_request_payload = Some request, res_response_payload = None,
                  res_request_payload_ref = None, res_response_payload_ref = None,
                  res_result_status = UNKNOWN, res_execution_status = INTENT_LOGGED,
                  res_error_message = None, res_created_at = now, res_updated_at = now\<rparr>) (\<lambda>_. ret ()))
             else ret ()) v6 = (Inr (), v7)" and
      sync: "sync_and_checkpoint R run_id planner v7 = (Inr u, v)"
      using rest False by (auto elim!: bind_InrE)
    have none: "map_of (external_results (db w)) execution_id = None"
      using e False by auto
    have v0: "v0 = w" using e by blast
    note l1 = reads_onlyD [OF agent_reads(3) load] and l2 = log_event_InrD [OF log]
      and l3 = same_toolsD [OF idle_planner(5) att] and l5 = same_toolsD [OF idle_agent(5) add]
      and l6 = repo_get_result_InrD [OF get] and l8 = same_toolsD [OF idle_sync_and_checkpoint sync]
    have l4: "external_results (db v4) = external_results (db v3) \<and> tool_log (db v4) = tool_log (db v3)"
      by (rule same_toolsD [OF idle_log_event pend]) simp
    have "external_results (db v5) = external_results (db w)"
      using l1 l2 l3 l4 l5 v0 by simp
    then have cached: "cached = None"
      using l6 none canonical_strip [OF assms(3)] by (auto split: option.splits)
    then obtain stored where "save_external_result R run_id
         \<lparr>res_execution_id = execution_id, res_run_id = run_id, res_plan_item_id = Some item,
          res_tool_name = tool, res_operation_type = kind,
          res_request_payload = Some request, res_response_payload = None,
          res_request_payload_ref = None, res_response_payload_ref = None,
          res_result_status = UNKNOWN, res_execution_status = INTENT_LOGGED,
          res_error_message = None, res_created_at = clock R (ticks v6), res_updated_at = clock R (ticks v6)\<rparr>
         (v6\<lparr>ticks := Suc (ticks v6)\<rparr>) = (Inr stored, v7)"
      using save by (auto elim!: bind_InrE)
    from logs_statusI [OF _ _ log _ _ _ _ this, of "db w" INTENT_LOGGED "db v"]
    have "logs_status run_id execution_id INTENT_LOGGED (db w) (db v)"
      using l1 l3 l4 l5 l6 l8 v0 assms(2,3) by (simp add: intent_event_def)
    then show ?thesis using none False e by (simp add: exec_step_def)
  qed
qed

lemma result_tx_step:
  assumes "tool_result_tx R run_id execution_id rep w = (Inr x, v)"
    and "canonical run_id" and "canonical execution_id"
  shows "\<exists>rs s. parse_result_status (rep_result_status rep) = Inr rs \<and>
    resolve_execution_status (rep_execution_status rep) rs = Inr s \<and> res_execution_status x = s \<and>
    exec_step run_id execution_id s (db w) (db v)"
proof -
  obtain rs s found v0 where parse: "parse_result_status (rep_result_status rep) = Inr rs"
    and res: "resolve_execution_status (rep_execution_status rep) rs = Inr s"
    and get: "repo_get_result R execution_id w = (Inr found, v0)"
    and ok: "\<forall>cached. found = Some cached \<longrightarrow> res_run_id cached = run_id \<and>
      assert_execution_transition (res_execution_status cached) s = Inr ()"
    and rest: "(let tool_name = or_else (rep_tool_name rep) (map_option res_tool_name found);
         operation_type = or_else (rep_operation_type rep) (map_option res_operation_type found);
         request_payload = or_else (rep_request_payload rep) (Option.bind found res_request_payload);
         plan_item_id = (case rep_plan_item_id rep of Some p \<Rightarrow> Some p | None \<Rightarrow> Option.bind found res_plan_item_id) in
     case (tool_name, operation_type, request_payload) of
       (Some tool, Some kind, Some request) \<Rightarrow>
         bind (log_event R run_id EXTERNAL_RESULT_RECORDED ''external_result'' execution_id [
           (''result_status'', JStr (result_status_value rs)),
           (''execution_status'', JStr (execution_status_value s)),
           (''tool_name'', JStr tool), (''operation_type'', JStr kind),
           (''plan_item_id'', jopt JStr plan_item_id),
           (''has_response'', JBool (rep_response_payload rep \<noteq> None)),
           (''error_message'', jopt JStr (rep_error_message rep))]) (\<lambda>_.
         bind (utc_now R) (\<lambda>now.
         bind (save_external_result R run_id
           \<lparr>res_execution_id = execution_id, res_run_id = run_id, res_plan_item_id = plan_item_id,
            res_tool_name = tool, res_operation_type = kind, res_request_payload = Some request,
            res_response_payload = rep_response_payload rep, res_request_payload_ref = None,
            res_response_payload_ref = None, res_result_status = rs,
            res_execution_status = s, res_error_message = rep_error_message rep,
            res_created_at = (case found of Some c \<Rightarrow> res_created_at c | None \<Rightarrow> now),
            res_updated_at = now\<rparr>) (\<lambda>record.
         bind (if rep_clear_pending rep \<and> s \<notin> {INTENT_LOGGED, DISPATCHED}
               then clear_if_pending R run_id execution_id else ret ()) (\<lambda>_.
         bind (maybe_auto_checkpoint R run_id) (\<lambda>_. ret record)))))
     | _ \<Rightarrow> raise (Exn ValueError ''tool_name, operation_type, and request_payload are required for first result record'')) v0 = (Inr x, v)"
  proof -
    from assms(1) show ?thesis
      unfolding tool_result_tx_def
      by (elim bind_InrE) (rule that; auto split: option.splits if_splits)
  qed
  obtain tool kind request item created ev v1 v2 u v3 c where
    log: "log_event R run_id EXTERNAL_RESULT_RECORDED ''external_result'' execution_id [
           (''result_status'', JStr (result_status_value rs)),
           (''execution_status'', JStr (execution_status_value s)),
           (''tool_name'', JStr tool), (''operation_type'', JStr kind),
           (''plan_item_id'', jopt JStr item),
           (''has_response'', JBool (rep_response_payload rep \<noteq> None)),
           (''error_message'', jopt JStr (rep_error_message rep))] v0 = (Inr ev, v1)" and
    save: "save_external_result R run_id
           \<lparr>res_execution_id = execution_id, res_run_id = run_id, res_plan_item_id = item,
            res_tool_name = tool, res_operation_type = kind, res_request_payload = Some request,
            res_response_payload = rep_response_payload rep, res_request_payload_ref = None,
            res_response_payload_ref = None, res_result_status = rs,
            res_execution_status = s, res_error_message = rep_error_message rep,
            res_created_at = created, res_updated_at = clock R (ticks v1)\<rparr> (v1\<lparr>ticks := Suc (ticks v1)\<rparr>) = (Inr x, v2)" and
    clear: "(if rep_clear_pending rep \<and> s \<notin> {INTENT_LOGGED, DISPATCHED}
               then clear_if_pending R run_id execution_id else ret ()) v2 = (Inr u, v3)" and
    auto: "maybe_auto_checkpoint R run_id v3 = (Inr c, v)"
  proof -
    define tn where "tn = or_else (rep_tool_name rep) (map_option res_tool_name found)"
    define kn where "kn = or_else (rep_operation_type rep) (map_option res_operation_type found)"
    define rq where "rq = or_else (rep_request_payload rep) (Option.bind found res_request_payload)"
    note r = rest [unfolded Let_def, folded tn_def kn_def rq_def]
    obtain tool kind request where some: "tn = Some tool" "kn = Some kind" "rq = Some request"
      using r by (cases tn; cases kn; cases rq) simp_all
    show ?thesis
      using r unfolding some option.case prod.case
      by (elim bind_InrE) (rule that, assumption, simp, assumption, simp)
  qed
  note l0 = repo_get_result_InrD [OF get]
  have l3: "external_results (db v3) = external_results (db v2) \<and> tool_log (db v3) = tool_log (db v2)"
    using clear by (auto split: if_splits dest!: same_toolsD [OF idle_sync(2)])
  note l4 = same_toolsD [OF idle_auto_checkpoint auto]
  have "logs_status run_id execution_id s (db w) (db v)"
    by (rule logs_statusI [OF _ _ log _ _ _ _ save]) (use l0 l3 l4 assms(2,3) in simp_all)
  moreover have "case map_of (external_results (db w)) execution_id of None \<Rightarrow> True
    | Some row \<Rightarrow> strip (row_run_id row) = run_id \<and> s \<in> insert (row_execution_status row) (allowed_transitions (row_execution_status row))"
    using l0 ok canonical_strip [OF assms(3)] by (auto split: option.splits dest!: assert_transition_InrD)
  moreover have "res_execution_status x = s"
    using save_external_result_InrD [OF save] by simp
  ultimately show ?thesis using parse res by (auto simp: exec_step_def)
qed

end
