(* ===== verification/Facade_Invariants.thy ===== *)
theory Facade_Invariants
  imports Tool_Log
begin

text \<open>
  The invariants of the runtime database under the facade. The locale \<open>store_invariant\<close> lists
  what a property must survive (the single writes the services make); then every operation
  keeps it. It is interpreted on the soundness of the whole database.
\<close>

section \<open>Good contexts\<close>

definition good_context :: "agent_context \<Rightarrow> bool" where
  "good_context c \<longleftrightarrow> ctx_turn_index c = int (length (ctx_messages c)) \<and> pending_consistent c"

lemma good_context_simps [simp]:
  "good_context (c\<lparr>ctx_updated_at := t\<rparr>) = good_context c"
  "good_context (c\<lparr>ctx_last_checkpoint_seq := s\<rparr>) = good_context c"
  "good_context (c\<lparr>ctx_planner_version := v, ctx_step_index := i\<rparr>) = good_context c"
  by (simp_all add: good_context_def pending_consistent_def)

lemma good_context_message:
  "good_context c \<Longrightarrow> good_context (c\<lparr>ctx_messages := ctx_messages c @ ms, ctx_turn_index := ctx_turn_index c + int (length ms)\<rparr>)"
  by (simp add: good_context_def pending_consistent_def)

lemma good_context_message1:
  "good_context c \<Longrightarrow> good_context (c\<lparr>ctx_messages := ctx_messages c @ [m], ctx_turn_index := ctx_turn_index c + 1\<rparr>)"
  using good_context_message [of c "[m]"] by simp

lemma good_with_pending:
  "good_context c \<Longrightarrow> distinct ids \<Longrightarrow> list_all canonical ids \<Longrightarrow> good_context (with_pending ids c)"
  by (simp add: good_context_def pending_consistent_def with_pending_def)

text \<open>A reload keeps the turn index and the number of messages, and makes the pending fields agree.\<close>

lemma context_reload_good:
  assumes "context_from_dict T now (context_to_dict c) = Inr c'"
    and "good_context c"
  shows "good_context c' \<and> ctx_run_id c' = strip (ctx_run_id c) \<and>
    ctx_pending_execution_ids c' = ctx_pending_execution_ids c"
proof -
  have "normalize_pending_ids [] (map JStr (ctx_pending_execution_ids c)) = Inr (ctx_pending_execution_ids c)"
    using assms(2) normalize_pending_ids_canonical [of "ctx_pending_execution_ids c" "[]"]
    by (simp add: good_context_def pending_consistent_def)
  then show ?thesis
    using assms
    by (auto simp: context_from_dict_def context_to_dict_def rbind_eq_Inr Let_def good_context_def
        pending_consistent_def non_negative_def
        require_non_empty_str_def dest!: rmap_eq_Inr_length split: if_splits option.splits)
qed

lemma repo_load_context_InrD:
  assumes "repo_load_context R run_id w = (Inr found, w')"
  shows "w' = w \<and> (case found of
     None \<Rightarrow> context_view (db w) (strip run_id) = None
   | Some c \<Rightarrow> \<exists>c0 now. context_view (db w) (strip run_id) = Some c0 \<and>
       context_from_dict (forms R) now (context_to_dict c0) = Inr c)"
  using assms
  by (auto simp: repo_load_context_def load_context_snapshot_def require_JStr reload_context_def peek_now_def
      elim!: bind_InrE split: option.splits if_splits) blast+

lemma load_required_context_InrD:
  assumes "load_required_context R run_id w = (Inr c, w')"
  shows "w' = w \<and> (\<exists>c0 now. context_view (db w) (strip run_id) = Some c0 \<and>
       context_from_dict (forms R) now (context_to_dict c0) = Inr c)"
  using assms repo_load_context_InrD [of R run_id w "Some c" w]
  unfolding load_required_context_def
  by (elim bind_InrE) (auto split: option.splits dest: repo_load_context_InrD)

section \<open>Properties every write keeps\<close>

text \<open>
  \<open>ok\<close> is what the property says of a context. It may not get lost when the pending identifiers stay or
  become fewer; \<open>allowed\<close> tells which identifiers may be added to which run.
\<close>

locale store_invariant =
  fixes P :: "db \<Rightarrow> bool"
    and ok :: "agent_context \<Rightarrow> bool"
    and allowed :: "string \<Rightarrow> string \<Rightarrow> bool"
  assumes event: "P d \<Longrightarrow> P (insert_event r t n i p c d)"
    and planner: "P d \<Longrightarrow> validate_integrity st = Inr () \<Longrightarrow> P (put_planner st d)"
    and ctx: "P d \<Longrightarrow> ok c' \<Longrightarrow> P (put_context c' d)"
    and views: "P d \<Longrightarrow> context_view d k = Some c' \<Longrightarrow> ok c'"
    and good: "ok c' \<Longrightarrow> good_context c'"
    and kept: "ok c0 \<Longrightarrow> good_context c' \<Longrightarrow> strip (ctx_run_id c') = strip (ctx_run_id c0) \<Longrightarrow>
      set (ctx_pending_execution_ids c') \<subseteq> set (ctx_pending_execution_ids c0) \<Longrightarrow> ok c'"
    and fresh: "good_context c' \<Longrightarrow> ctx_pending_execution_ids c' = [] \<Longrightarrow> ok c'"
    and added: "P d \<Longrightarrow> context_view d (strip r) = Some c0 \<Longrightarrow> allowed r x \<Longrightarrow> good_context c' \<Longrightarrow>
      strip (ctx_run_id c') = strip (ctx_run_id c0) \<Longrightarrow>
      set (ctx_pending_execution_ids c') \<subseteq> insert (strip x) (set (ctx_pending_execution_ids c0)) \<Longrightarrow> ok c'"
    and row: "P d \<Longrightarrow> P (d\<lparr>external_results := AList.update i row (external_results d)\<rparr>)"
    and artifacts: "P d \<Longrightarrow> P (d\<lparr>payload_artifacts := arts\<rparr>)"
    and ckpt: "P d \<Longrightarrow> e \<in> set (wal_events d) \<Longrightarrow> ev_run_id e = ck_run_id ck \<Longrightarrow> ev_seq_id e = ck_seq_id ck \<Longrightarrow>
      P (d\<lparr>wal_checkpoints := wal_checkpoints d @ [ck]\<rparr>)"
begin

lemma keeps_log: "keeps_db P (log_event R r t n i p)"
  by (rule keepsI) (auto dest!: log_event_InrD intro: event)

lemma keeps_planner:
  "keeps_db P (create_plan R r t i s)" "keeps_db P (set_active_item R r i')"
  "keeps_db P (update_item_status R r i' st n)" "keeps_db P (attach_llm_output R r i' x)"
  "keeps_db P (attach_tool_call_ref R r i' x)"
  by (rule keeps_planner_service; rule planner; assumption)+

lemma ok_touched: "ok c \<Longrightarrow> ok (c\<lparr>ctx_updated_at := t\<rparr>)"
  by (rule kept, assumption) (simp_all add: good)

lemma keeps_touch: "ok c \<Longrightarrow> keeps_db P (touch_and_save R c)"
  unfolding touch_and_save_def repo_save_context_def Let_def
  by (intro keeps_rules reading_keeps ctx) (simp_all add: ok_touched)

lemma loaded_ok:
  assumes "P (db w)" and "load_required_context R run_id w = (Inr c, w')"
  shows "w' = w \<and> ok c \<and> (\<exists>c0. context_view (db w) (strip run_id) = Some c0 \<and>
    strip (ctx_run_id c) = strip (ctx_run_id c0) \<and> ctx_pending_execution_ids c = ctx_pending_execution_ids c0)"
proof -
  obtain c0 now where c0: "w' = w" "context_view (db w) (strip run_id) = Some c0"
      "context_from_dict (forms R) now (context_to_dict c0) = Inr c"
    using load_required_context_InrD [OF assms(2)] by blast
  have "ok c0" using views [OF assms(1) c0(2)] .
  with context_reload_good [OF c0(3) good] c0 kept [of c0 c] show ?thesis by simp
qed

lemma keeps_loaded:
  assumes "\<And>c. ok c \<Longrightarrow> keeps_db P (f c)"
  shows "keeps_db P (bind (load_required_context R run_id) f)"
proof (rule keepsI, erule bind_InrE)
  fix w w' v :: "'a world" and c x
  assume "P (db w)" "load_required_context R run_id w = (Inr c, v)" "f c v = (Inr x, w')"
  then show "P (db w')"
    using loaded_ok [of w R run_id c v] assms [of c] by (auto dest: keepsD)
qed

lemma keeps_messages:
  "keeps_db P (append_message R i role content meta nm tc)" "keeps_db P (append_messages R i ms)"
proof -
  show "keeps_db P (append_message R i role content meta nm tc)"
    unfolding append_message_def Let_def
    by (intro keeps_loaded keeps_rules keeps_touch) (rule kept, assumption, auto intro: good_context_message1 good)
  show "keeps_db P (append_messages R i ms)"
    unfolding append_messages_def
    by (intro keeps_loaded keeps_bind keeps_for_each reading_keeps keeps_touch)
      (rule kept, assumption, auto intro: good_context_message good)
qed

lemma keeps_sync: "keeps_db P (sync_planner_state R i v s)"
  unfolding sync_planner_state_def
  by (intro keeps_loaded keeps_rules keeps_touch) (rule kept, assumption, auto dest: good)

lemma keeps_checkpoint_context: "keeps_db P (checkpoint_context R i s)"
  unfolding checkpoint_context_def
  by (intro keeps_loaded keeps_rules keeps_touch) (rule kept, assumption, auto dest: good)

lemma keeps_add_pending:
  assumes "allowed r e"
  shows "keeps_db P (add_pending_execution R r e)"
  unfolding add_pending_execution_def
proof (rule keepsI, elim bind_InrE)
  fix w w' v v' :: "'a world" and c :: agent_context and x s
  let ?ids = "if s \<in> set (ctx_pending_execution_ids c) then ctx_pending_execution_ids c else ctx_pending_execution_ids c @ [s]"
  assume p: "P (db w)" and l: "load_required_context R r w = (Inr c, v)"
    and e: "lift (require_non_empty_str (JStr e) ''execution_id'') v = (Inr s, v')"
    and t: "touch_and_save R (with_pending ?ids c) v' = (Inr x, w')"
  have s: "v' = v" "s = strip e" "canonical s"
    using e by (auto simp: require_JStr canonical_of_strip lift_def split: if_splits)
  obtain c0 where c0: "v = w" "ok c" "context_view (db w) (strip r) = Some c0"
      "strip (ctx_run_id c) = strip (ctx_run_id c0)" "ctx_pending_execution_ids c = ctx_pending_execution_ids c0"
    using loaded_ok [OF p l] by blast
  have "good_context (with_pending ?ids c)"
    using good [OF c0(2)] s(3) by (intro good_with_pending) (auto simp: good_context_def pending_consistent_def)
  then have "ok (with_pending ?ids c)"
    using c0 s(2) by (intro added [OF p c0(3) assms]) (auto simp: with_pending_def)
  from keepsD [OF keeps_touch [OF this] t] show "P (db w')" using p s(1) c0(1) by simp
qed

lemma keeps_clear_pending: "keeps_db P (clear_pending_execution R i e)"
proof -
  have "ok (with_pending ids c)" if "ok c" "distinct ids" "set ids \<subseteq> set (ctx_pending_execution_ids c)" for c ids
  proof (rule kept [OF that(1)])
    show "good_context (with_pending ids c)"
      using good [OF that(1)] that(2,3)
      by (intro good_with_pending) (auto simp: good_context_def pending_consistent_def list_all_iff)
  qed (use that(3) in \<open>simp_all add: with_pending_def\<close>)
  note ok = this
  show ?thesis
    unfolding clear_pending_execution_def
    by (intro keeps_loaded keeps_rules keeps_touch ok)
      (auto dest: good simp: good_context_def pending_consistent_def)
qed

lemma keeps_init: "keeps_db P (init_context R i ms mem b)"
proof (unfold init_context_def repo_save_context_def Let_def,
    intro keeps_bind keeps_if keeps_ret keeps_for_each keeps_utc_now keeps_save_context ctx reading_keeps, assumption)
qed (auto intro!: fresh simp: good_context_def pending_consistent_def)

lemma keeps_save_result: "keeps_db P (save_external_result R i r)"
  unfolding save_external_result_def repo_upsert_result_def
  by (intro keeps_bind keeps_if keeps_raise keeps_utc_now keeps_upsert reading_keeps row)
    (auto simp: adds_artifacts_def intro: artifacts)

lemma keeps_write_checkpoint: "keeps_db P (write_checkpoint R r s t p)"
  by (rule keepsI) (auto dest!: write_checkpoint_InrD, metis ckpt)

lemma keeps_checkpoint: "keeps_db P (checkpoint_locked R r t b)"
  unfolding checkpoint_locked_def
  by (intro keeps_bind keeps_if keeps_ret keeps_case_option reading_keeps keeps_write_checkpoint
      keeps_checkpoint_context keeps_log)

lemma keeps_auto_checkpoint: "keeps_db P (maybe_auto_checkpoint R r)"
  unfolding maybe_auto_checkpoint_def
  by (intro keeps_bind keeps_if keeps_ret keeps_case_option reading_keeps keeps_checkpoint)

lemma keeps_sync_and_checkpoint: "keeps_db P (sync_and_checkpoint R r st)"
  unfolding sync_and_checkpoint_def sync_context_with_planner_def
  by (intro keeps_bind keeps_if keeps_ret keeps_raise reading_keeps keeps_log keeps_sync keeps_auto_checkpoint)

lemma keeps_clear_if_pending: "keeps_db P (clear_if_pending R r e)"
  unfolding clear_if_pending_def
  by (intro keeps_bind keeps_if keeps_ret keeps_case_option reading_keeps keeps_log keeps_clear_pending)

lemmas keeps_all = keeps_bind keeps_if keeps_ret keeps_raise keeps_lift keeps_case_option keeps_utc_now
  reading_keeps keeps_log keeps_planner keeps_init keeps_messages keeps_sync_and_checkpoint
  keeps_auto_checkpoint keeps_checkpoint keeps_clear_if_pending keeps_save_result

lemma facade_keeps:
  assumes "\<not> conn_open w" and "P (db w)"
  shows "P (db (snd (start_run R r ms txt is mem b sc w)))"
    and "P (db (snd (record_context_message R r role c meta nm tc w)))"
    and "P (db (snd (record_llm_turn R r i x a meta w)))"
    and "P (db (snd (advance_plan_item R r i s n w)))"
    and "P (db (snd (set_active_plan_item R r i w)))"
    and "P (db (snd (checkpoint R r s b w)))"
    and "P (db (snd (record_tool_dispatch R r e w)))"
    and "P (db (snd (record_tool_result R r e rep w)))"
    and "allowed r e \<Longrightarrow> P (db (snd (record_tool_intent R r i e tn rq ot w)))"
  unfolding facade_defs Let_def
  by (intro run_write_keeps_all [where P = P] assms keeps_all keeps_case_prod keeps_add_pending; assumption?)+

end

section \<open>The sound database\<close>

definition checkpoints_ok :: "db \<Rightarrow> bool" where
  "checkpoints_ok d \<longleftrightarrow> (\<forall>c\<in>set (wal_checkpoints d). \<exists>e\<in>set (wal_events d). ev_run_id e = ck_run_id c \<and> ev_seq_id e = ck_seq_id c)"

definition plans_ok :: "db \<Rightarrow> bool" where
  "plans_ok d \<longleftrightarrow> (\<forall>run st. planner_view d run = Some st \<longrightarrow> validate_integrity st = Inr ())"

definition contexts_ok :: "db \<Rightarrow> bool" where
  "contexts_ok d \<longleftrightarrow> (\<forall>run c. context_view d run = Some c \<longrightarrow> good_context c)"

definition sound_db :: "db \<Rightarrow> bool" where
  "sound_db d \<longleftrightarrow> log_ok d \<and> checkpoints_ok d \<and> plans_ok d \<and> contexts_ok d"

lemma integrity_ordered: "validate_integrity (ordered_planner st) = validate_integrity st"
proof -
  have "distinct (map pi_id (sort_key item_order (ps_items st))) = distinct (map pi_id (ps_items st))"
    by (simp add: distinct_map)
  then show ?thesis
    by (cases "ps_active_item_id st"; cases "ps_cursor_index st") (simp_all add: validate_integrity_def Let_def)
qed

lemma views_insert_event [simp]:
  "planner_view (insert_event r t n i p c d) k = planner_view d k"
  "context_view (insert_event r t n i p c d) k = context_view d k"
  by (simp_all add: planner_view_def context_view_def)

lemma views_other_tables [simp]:
  "planner_view (d\<lparr>external_results := rs\<rparr>) k = planner_view d k"
  "planner_view (d\<lparr>payload_artifacts := as\<rparr>) k = planner_view d k"
  "planner_view (d\<lparr>wal_checkpoints := cs\<rparr>) k = planner_view d k"
  "context_view (d\<lparr>external_results := rs\<rparr>) k = context_view d k"
  "context_view (d\<lparr>payload_artifacts := as\<rparr>) k = context_view d k"
  "context_view (d\<lparr>wal_checkpoints := cs\<rparr>) k = context_view d k"
  by (simp_all add: planner_view_def context_view_def)

lemma log_put [simp]:
  "wal_events (put_planner st d) = wal_events d" "wal_events (put_context c d) = wal_events d"
  "wal_checkpoints (put_planner st d) = wal_checkpoints d" "wal_checkpoints (put_context c d) = wal_checkpoints d"
  "wal_seq (put_planner st d) = wal_seq d" "wal_seq (put_context c d) = wal_seq d"
  by (simp_all add: put_planner_def put_context_def)

interpretation sound: store_invariant sound_db good_context "\<lambda>_ _. True"
proof unfold_locales
  fix d :: db and r t n i p c and st :: planner_state and c' :: agent_context and k row arts e ck
  assume s: "sound_db d"
  show "sound_db (insert_event r t n i p c d)"
    using s by (auto simp: sound_db_def log_ok_insert checkpoints_ok_def plans_ok_def contexts_ok_def)
  show "validate_integrity st = Inr () \<Longrightarrow> sound_db (put_planner st d)"
    using s by (auto simp: sound_db_def log_ok_def checkpoints_ok_def plans_ok_def contexts_ok_def
        planner_view_put integrity_ordered)
  show "good_context c' \<Longrightarrow> sound_db (put_context c' d)"
    using s by (auto simp: sound_db_def log_ok_def checkpoints_ok_def plans_ok_def contexts_ok_def context_view_put)
  show "context_view d k = Some c' \<Longrightarrow> good_context c'"
    using s by (auto simp: sound_db_def contexts_ok_def)
  show "sound_db (d\<lparr>external_results := AList.update i row (external_results d)\<rparr>)"
    using s by (auto simp: sound_db_def log_ok_def checkpoints_ok_def plans_ok_def contexts_ok_def)
  show "sound_db (d\<lparr>payload_artifacts := arts\<rparr>)"
    using s by (auto simp: sound_db_def log_ok_def checkpoints_ok_def plans_ok_def contexts_ok_def)
  show "e \<in> set (wal_events d) \<Longrightarrow> ev_run_id e = ck_run_id ck \<Longrightarrow> ev_seq_id e = ck_seq_id ck \<Longrightarrow>
      sound_db (d\<lparr>wal_checkpoints := wal_checkpoints d @ [ck]\<rparr>)"
    using s by (auto simp: sound_db_def log_ok_def checkpoints_ok_def plans_ok_def contexts_ok_def)
qed simp_all

lemma sound_empty: "sound_db empty_db"
  by (simp add: sound_db_def empty_db_def log_ok_def checkpoints_ok_def plans_ok_def contexts_ok_def
      planner_view_def context_view_def)

lemma spans_do_not_matter [simp]:
  "planner_view (d\<lparr>evaluation_spans := ss\<rparr>) k = planner_view d k"
  "context_view (d\<lparr>evaluation_spans := ss\<rparr>) k = context_view d k"
  "sound_db (d\<lparr>evaluation_spans := ss\<rparr>) = sound_db d"
  by (simp_all add: planner_view_def context_view_def sound_db_def log_ok_def checkpoints_ok_def plans_ok_def contexts_ok_def)

section \<open>Runs of the facade\<close>

text \<open>
  One operation of the facade, with whatever arguments and outcome, a change outside the
  process (which may also restart it, with another clock and other identifiers), or any change of the
  timing spans by the recorder of the evaluation. Run and
  execution identifiers are canonical: non-empty and stripped, as the transaction manager passes
  them. A crash inside an operation rolls its transaction back and so is no step; a crash
  between two operations is the end of one process and the start of another.
\<close>

inductive facade_step :: "runtime \<Rightarrow> 't world \<Rightarrow> 't world \<Rightarrow> bool" for R where
  start: "canonical r \<Longrightarrow> facade_step R w (snd (start_run R r ms txt its mem b sc w))"
| message: "canonical r \<Longrightarrow> facade_step R w (snd (record_context_message R r role c meta nm tc w))"
| llm_turn: "canonical r \<Longrightarrow> facade_step R w (snd (record_llm_turn R r i x a meta w))"
| advance: "canonical r \<Longrightarrow> facade_step R w (snd (advance_plan_item R r i s n w))"
| active: "canonical r \<Longrightarrow> facade_step R w (snd (set_active_plan_item R r i w))"
| check: "canonical r \<Longrightarrow> facade_step R w (snd (checkpoint R r s b' w))"
| intent: "canonical r \<Longrightarrow> canonical e \<Longrightarrow> facade_step R w (snd (record_tool_intent R r i e tn rq ot w))"
| dispatch: "canonical r \<Longrightarrow> canonical e \<Longrightarrow> facade_step R w (snd (record_tool_dispatch R r e w))"
| outcome: "canonical r \<Longrightarrow> canonical e \<Longrightarrow> facade_step R w (snd (record_tool_result R r e rep w))"
| environment: "facade_step R w (w\<lparr>outside := t, ticks := k, uuids := u\<rparr>)"
| timing: "facade_step R w (w\<lparr>db := (db w)\<lparr>evaluation_spans := spans\<rparr>, ticks := k, uuids := u\<rparr>)"

definition reachable :: "runtime \<Rightarrow> 't world \<Rightarrow> bool" where
  "reachable R w \<longleftrightarrow> (\<exists>w0. db w0 = empty_db \<and> \<not> conn_open w0 \<and> (facade_step R)\<^sup>*\<^sup>* w0 w)"

lemma facade_snd_conn: "confined same_outside m \<Longrightarrow> conn_open (snd (m w)) = conn_open w"
  by (simp add: confined_def same_outside_def)

lemma facade_step_closed: "facade_step R w w' \<Longrightarrow> conn_open w' = conn_open w"
  by (induction rule: facade_step.induct) (simp_all add: facade_snd_conn [OF facade_effect(1)]
    facade_snd_conn [OF facade_effect(3)] facade_snd_conn [OF facade_effect(5)] facade_snd_conn [OF facade_effect(7)]
    facade_snd_conn [OF facade_effect(9)] facade_snd_conn [OF facade_effect(11)] facade_snd_conn [OF facade_effect(13)]
    facade_snd_conn [OF facade_effect(15)] facade_snd_conn [OF facade_effect(17)])

lemma facade_step_sound: "facade_step R w w' \<Longrightarrow> \<not> conn_open w \<Longrightarrow> sound_db (db w) \<Longrightarrow> sound_db (db w')"
  by (induction rule: facade_step.induct) (simp_all add: sound.facade_keeps)

lemma reachable_induct [consumes 1, case_names init step]:
  fixes w :: "'t world"
  assumes "reachable R w" and "P empty_db"
    and "\<And>(w :: 't world) w'. facade_step R w w' \<Longrightarrow> \<not> conn_open w \<Longrightarrow> sound_db (db w) \<Longrightarrow> P (db w) \<Longrightarrow> P (db w')"
  shows "P (db w) \<and> sound_db (db w) \<and> \<not> conn_open w"
proof -
  obtain w0 where "db w0 = empty_db" "\<not> conn_open w0" "(facade_step R)\<^sup>*\<^sup>* w0 w"
    using assms(1) by (auto simp: reachable_def)
  from this(3,1,2) show ?thesis
  proof (induction rule: rtranclp_induct)
    case base
    then show ?case by (simp add: assms(2) sound_empty)
  next
    case (step y z)
    then show ?case
      using assms(3) [of y z] facade_step_sound [of R y z] facade_step_closed [of R y z] by simp
  qed
qed

lemma reachable_sound: "reachable R w \<Longrightarrow> sound_db (db w)"
  by (rule conjunct1 [OF conjunct2 [OF reachable_induct [where P = "\<lambda>_. True"]]]) auto

section \<open>The record of an execution is the replay of the log\<close>

definition legal_path :: "execution_status list \<Rightarrow> bool" where
  "legal_path ss \<longleftrightarrow> successively (\<lambda>a b. b \<in> insert a (allowed_transitions a)) ss"

definition events_of :: "db \<Rightarrow> string \<Rightarrow> wal_event list" where
  "events_of d execution_id = filter (\<lambda>e. ev_entity_id e = execution_id) (tool_log d)"

definition logged_status :: "wal_event \<Rightarrow> json" where
  "logged_status e = dict_get (ev_payload e) ''execution_status''"

definition replays :: "wal_event list \<Rightarrow> result_row option \<Rightarrow> bool" where
  "replays es row \<longleftrightarrow> (case row of
     None \<Rightarrow> es = []
   | Some r \<Rightarrow> canonical (row_run_id r) \<and> list_all (\<lambda>e. ev_run_id e = row_run_id r) es \<and>
       (\<exists>ss. ss \<noteq> [] \<and> map logged_status es = map (\<lambda>s. JStr (execution_status_value s)) ss \<and>
         last ss = row_execution_status r \<and> legal_path ss))"

definition replay_ok :: "db \<Rightarrow> bool" where
  "replay_ok d \<longleftrightarrow> (\<forall>execution_id. replays (events_of d execution_id) (map_of (external_results d) execution_id))"

lemma legal_path_snoc: "legal_path ss \<Longrightarrow> ss \<noteq> [] \<Longrightarrow> s \<in> insert (last ss) (allowed_transitions (last ss)) \<Longrightarrow> legal_path (ss @ [s])"
  by (simp add: legal_path_def successively_append_iff)

lemma exec_step_replay:
  assumes "replay_ok d" and "exec_step run_id execution_id s d d'" and "canonical run_id"
  shows "replay_ok d'"
  unfolding replay_ok_def
proof
  fix i
  from assms(2) obtain e row where log: "tool_log d' = tool_log d @ [e]" "ev_run_id e = run_id" "ev_entity_id e = execution_id"
      "logged_status e = JStr (execution_status_value s)"
    and rows: "external_results d' = AList.update execution_id row (external_results d)"
      "row_run_id row = run_id" "row_execution_status row = s"
    and legal: "case map_of (external_results d) execution_id of None \<Rightarrow> True
      | Some row \<Rightarrow> strip (row_run_id row) = run_id \<and> s \<in> insert (row_execution_status row) (allowed_transitions (row_execution_status row))"
    unfolding exec_step_def logs_status_def logged_status_def by blast
  have old: "replays (events_of d i) (map_of (external_results d) i)"
    using assms(1) by (simp add: replay_ok_def)
  show "replays (events_of d' i) (map_of (external_results d') i)"
  proof (cases "i = execution_id")
    case False
    then show ?thesis using old log rows by (simp add: events_of_def)
  next
    case True
    then have es: "events_of d' i = events_of d i @ [e]" using log by (simp add: events_of_def)
    show ?thesis
    proof (cases "map_of (external_results d) i")
      case None
      then have "events_of d i = []" using old by (simp add: replays_def)
      then show ?thesis using True es log rows assms(3)
        by (auto simp: replays_def legal_path_def intro!: exI [of _ "[s]"])
    next
      case (Some r)
      then obtain ss where ss: "ss \<noteq> []" "map logged_status (events_of d i) = map (\<lambda>s. JStr (execution_status_value s)) ss"
        "last ss = row_execution_status r" "legal_path ss" "canonical (row_run_id r)"
        "list_all (\<lambda>e. ev_run_id e = row_run_id r) (events_of d i)"
        using old by (auto simp: replays_def)
      have "row_run_id r = run_id" "s \<in> insert (last ss) (allowed_transitions (last ss))"
        using legal Some True ss(3,5) by (auto simp: canonical_def)
      then show ?thesis using True es log rows assms(3) ss legal_path_snoc [OF ss(4,1), of s]
        by (auto simp: replays_def intro!: exI [of _ "ss @ [s]"])
    qed
  qed
qed

lemma idle_replay: "confined same_tools m \<Longrightarrow> replay_ok (db (snd (m w))) = replay_ok (db w)"
  by (simp add: confined_def same_tools_def replay_ok_def events_of_def)

lemma write_replay:
  assumes "\<not> conn_open w" and "replay_ok (db w)"
    and "\<And>x v. m (w\<lparr>conn_open := True\<rparr>) = (Inr x, v) \<Longrightarrow>
      db v = db w \<or> (\<exists>s. exec_step r e s (db w) (db v)) \<and> canonical r"
  shows "replay_ok (db (snd (run_write R r m w)))"
proof -
  obtain res w' where w': "run_write R r m w = (res, w')" by fastforce
  from run_write_outcome [OF this assms(1)] assms(2,3) show ?thesis
    unfolding w' by (auto dest: exec_step_replay)
qed

lemma facade_step_replay:
  assumes "facade_step R w w'" and "\<not> conn_open w" and "enforce_execution_dedup R" and "replay_ok (db w)"
  shows "replay_ok (db w')"
  using assms
proof (induction rule: facade_step.induct)
  case (intent r e w i tn rq ot)
  show ?case unfolding record_tool_intent_def
    by (rule write_replay [where e = e]) (use intent in \<open>auto dest!: intent_tx_step split: if_splits\<close>)
next
  case (dispatch r e w)
  show ?case unfolding record_tool_dispatch_def
    by (rule write_replay [where e = e]) (use dispatch in \<open>auto dest!: dispatch_tx_step\<close>)
next
  case (outcome r e w rep)
  show ?case unfolding record_tool_result_def
    by (rule write_replay [where e = e]) (use outcome in \<open>auto dest!: result_tx_step\<close>)
next
  case (environment w t k u)
  then show ?case by (simp add: replay_ok_def events_of_def)
next
  case (timing w ss k u)
  then show ?case by (simp add: replay_ok_def events_of_def tool_log_def)
qed (simp_all add: idle_replay idle_facade)

lemma replay_ok_empty: "replay_ok empty_db"
  by (simp add: replay_ok_def empty_db_def events_of_def tool_log_def replays_def)

lemma reachable_replay:
  assumes "reachable R w" and "enforce_execution_dedup R"
  shows "replay_ok (db w)"
  using reachable_induct [where P = replay_ok, OF assms(1) replay_ok_empty] facade_step_replay [OF _ _ assms(2)]
  by blast

end
