(* ===== verification/Txn_Manager.thy ===== *)
theory Txn_Manager
  imports Facade_Invariants
begin

text \<open>
  \<open>txn_manager.py\<close>: the identity of a tool call and the live path of one call. A tool is a
  function of the adapter's arguments and of the state outside the process, which it changes
  before it returns or raises; \<open>ProcessKilled\<close> is the process dying inside the call.
\<close>

section \<open>Identity of a call\<close>

text \<open>The text that is hashed, and the identifier.\<close>

definition raw_execution_id :: "text_forms \<Rightarrow> string \<Rightarrow> string \<Rightarrow> string \<Rightarrow> dict \<Rightarrow> string option \<Rightarrow> string" where
  "raw_execution_id T run_id plan_item_id tool_name arguments invocation_key =
     join ''|'' ([run_id, plan_item_id, tool_name] @ (case invocation_key of None \<Rightarrow> [] | Some k \<Rightarrow> [k]) @
       [json_dumps T (JObj arguments)])"

definition build_execution_id :: "runtime \<Rightarrow> string \<Rightarrow> string \<Rightarrow> string \<Rightarrow> dict \<Rightarrow> string option \<Rightarrow> string" where
  "build_execution_id R run_id plan_item_id tool_name arguments invocation_key =
     ''exec_'' @ take 24 (sha256_hex R (raw_execution_id (forms R) run_id plan_item_id tool_name arguments invocation_key))"

definition normalize_operation_type :: "string \<Rightarrow> operation_type res" where
  "normalize_operation_type raw = operation_type_of (upper (strip raw))"

section \<open>Executing a tool\<close>

datatype disposition = SUCCEEDED | REUSED | PENDING_RECOVERY | FAILED_TX

record transaction_result =
  tx_execution_id :: string
  tx_disposition :: disposition
  tx_record :: external_result
  tx_exception :: "exn option"

type_synonym 't tool_adapter = "string \<Rightarrow> dict \<Rightarrow> string option \<Rightarrow> pyfloat option \<Rightarrow> 't \<Rightarrow> json res \<times> 't"

definition call_tool :: "('t \<Rightarrow> 'a res \<times> 't) \<Rightarrow> ('t, 'a) op" where
  "call_tool f w = (case f (outside w) of (r, t) \<Rightarrow> (r, w\<lparr>outside := t\<rparr>))"

definition function_tool_adapter :: "(dict \<Rightarrow> 't \<Rightarrow> json res \<times> 't) \<Rightarrow> 't tool_adapter" where
  "function_tool_adapter tool_fn tool_name request_payload execution_id timeout_s = tool_fn request_payload"

definition handle_existing :: "external_result \<Rightarrow> transaction_result" where
  "handle_existing r = \<lparr>tx_execution_id = res_execution_id r,
     tx_disposition = (case res_execution_status r of
         ACKED \<Rightarrow> REUSED | VERIFIED_COMMITTED \<Rightarrow> REUSED | FAILED \<Rightarrow> FAILED_TX
       | INTENT_LOGGED \<Rightarrow> PENDING_RECOVERY | DISPATCHED \<Rightarrow> PENDING_RECOVERY | VERIFIED_NOT_FOUND \<Rightarrow> PENDING_RECOVERY),
     tx_record = r, tx_exception = None\<rparr>"

record tool_call =
  call_run_id :: string
  call_plan_item_id :: string
  call_tool_name :: string
  call_request :: dict
  call_operation_type :: string
  call_invocation_key :: "string option"
  call_timeout_s :: "pyfloat option"
  call_idempotency_supported :: bool

definition call_execution_id :: "runtime \<Rightarrow> tool_call \<Rightarrow> string" where
  "call_execution_id R c = build_execution_id R (call_run_id c) (call_plan_item_id c) (call_tool_name c)
     (call_request c) (call_invocation_key c)"

text \<open>The report of a finished call to \<open>record_tool_result\<close>; every branch names all of the call.\<close>

definition call_report ::
  "tool_call \<Rightarrow> operation_type \<Rightarrow> result_status \<Rightarrow> execution_status \<Rightarrow> dict option \<Rightarrow> string option \<Rightarrow> bool \<Rightarrow> result_report" where
  "call_report c kind result_status execution_status response_payload error_message clear_pending =
     \<lparr>rep_result_status = result_status_value result_status, rep_response_payload = response_payload,
      rep_error_message = error_message, rep_tool_name = Some (call_tool_name c),
      rep_operation_type = Some (operation_value kind), rep_request_payload = Some (call_request c),
      rep_plan_item_id = Some (call_plan_item_id c),
      rep_execution_status = Some (execution_status_value execution_status), rep_clear_pending = clear_pending\<rparr>"

text \<open>The call itself with the check of its output, and what is recorded of its outcome.\<close>

definition invoke_checked :: "(('t \<Rightarrow> json res \<times> 't)) \<Rightarrow> ('t, dict) op" where
  "invoke_checked f = bind (call_tool f) (\<lambda>response. case response of
     JObj d \<Rightarrow> ret d
   | _ \<Rightarrow> raise (Exn ValueError ''tool output must be a dictionary''))"

definition record_failure ::
  "runtime \<Rightarrow> tool_call \<Rightarrow> operation_type \<Rightarrow> bool \<Rightarrow> exn \<Rightarrow> ('t, transaction_result) op" where
  "record_failure R c kind is_verified_replay e =
     (let execution_id = call_execution_id R c in
      if exn_class e = AmbiguousToolError \<and> kind = WRITE then
        bind (record_tool_result R (call_run_id c) execution_id
          (call_report c kind TIMEOUT (if is_verified_replay then VERIFIED_NOT_FOUND else DISPATCHED) None (Some (exn_text e)) False))
        (\<lambda>record. ret \<lparr>tx_execution_id = execution_id, tx_disposition = PENDING_RECOVERY, tx_record = record, tx_exception = Some e\<rparr>)
      else
        bind (record_tool_result R (call_run_id c) execution_id
          (call_report c kind ERROR FAILED None (Some (exn_text e)) True))
        (\<lambda>record. ret \<lparr>tx_execution_id = execution_id, tx_disposition = FAILED_TX, tx_record = record, tx_exception = Some e\<rparr>))"

definition record_success ::
  "runtime \<Rightarrow> tool_call \<Rightarrow> operation_type \<Rightarrow> dict \<Rightarrow> ('t, transaction_result) op" where
  "record_success R c kind response =
     (let execution_id = call_execution_id R c in
      bind (record_tool_result R (call_run_id c) execution_id (call_report c kind OK ACKED (Some response) None True))
      (\<lambda>record. ret \<lparr>tx_execution_id = execution_id, tx_disposition = SUCCEEDED, tx_record = record, tx_exception = None\<rparr>))"

text \<open>
  From the \<open>try\<close> on: an exception of the call is recorded by its handler, a response after the
  \<open>try\<close>, and the death of the process is neither.
\<close>

definition dispatch_call ::
  "runtime \<Rightarrow> 't tool_adapter \<Rightarrow> tool_call \<Rightarrow> operation_type \<Rightarrow> bool \<Rightarrow> ('t, transaction_result) op" where
  "dispatch_call R adapter c kind is_verified_replay w =
     (case invoke_checked (adapter (call_tool_name c) (call_request c)
        (if kind = WRITE \<and> call_idempotency_supported c then Some (call_execution_id R c) else None)
        (call_timeout_s c)) w of
       (Inl e, w') \<Rightarrow> if is_exception e then record_failure R c kind is_verified_replay e w' else (Inl e, w')
     | (Inr response, w') \<Rightarrow> record_success R c kind response w')"

definition execute_tool :: "runtime \<Rightarrow> bool \<Rightarrow> 't tool_adapter \<Rightarrow> tool_call \<Rightarrow> ('t, transaction_result) op" where
  "execute_tool R dispatch_reads adapter c =
     bind (lift (normalize_operation_type (call_operation_type c))) (\<lambda>kind.
     let execution_id = call_execution_id R c in
     bind (repo_get_result R execution_id) (\<lambda>existing. case existing of
       Some record \<Rightarrow>
         if res_execution_status record \<noteq> VERIFIED_NOT_FOUND then ret (handle_existing record)
         else dispatch_call R adapter c kind True
     | None \<Rightarrow>
         bind (record_tool_intent R (call_run_id c) (call_plan_item_id c) execution_id (call_tool_name c)
           (call_request c) (operation_value kind)) (\<lambda>_.
         bind (repo_get_result R execution_id) (\<lambda>found. case found of
           None \<Rightarrow> raise (Exn RuntimeError (''tool intent missing after logging for execution_id='' @ execution_id))
         | Some current \<Rightarrow>
             if res_execution_status current \<noteq> INTENT_LOGGED then ret (handle_existing current) else
             bind (if kind = WRITE \<or> dispatch_reads
                   then bind (record_tool_dispatch R (call_run_id c) execution_id) (\<lambda>_. ret ()) else ret ()) (\<lambda>_.
             dispatch_call R adapter c kind False)))))"

definition execute_callable ::
  "runtime \<Rightarrow> bool \<Rightarrow> (dict \<Rightarrow> 't \<Rightarrow> json res \<times> 't) \<Rightarrow> tool_call \<Rightarrow> ('t, transaction_result) op" where
  "execute_callable R dispatch_reads tool_fn c = execute_tool R dispatch_reads (function_tool_adapter tool_fn) c"

section \<open>The identity determines the call\<close>

lemma build_execution_id_perm:
  assumes "distinct (map fst d)" and "distinct (map fst d')" and "set d = set d'"
  shows "build_execution_id R run item tool d key = build_execution_id R run item tool d' key"
  using json_dumps_perm [OF assms] by (simp add: build_execution_id_def raw_execution_id_def)

lemma cut_at_bar:
  "CHR ''|'' \<notin> set a \<Longrightarrow> CHR ''|'' \<notin> set b \<Longrightarrow> a @ CHR ''|'' # x = b @ CHR ''|'' # y \<longleftrightarrow> a = b \<and> x = y"
proof (induction a arbitrary: b)
  case Nil
  then show ?case by (cases b) auto
next
  case (Cons c a)
  then show ?case by (cases b) auto
qed

definition hex_digest :: "(string \<Rightarrow> string) \<Rightarrow> bool" where
  "hex_digest h \<longleftrightarrow> (\<forall>s. set (h s) \<subseteq> set ''0123456789abcdef'')"

lemma hex_no_space: "c \<in> set ''0123456789abcdef'' \<Longrightarrow> \<not> is_space c"
  by (auto simp: is_space_def)

lemma execution_id_canonical:
  assumes "hex_digest (sha256_hex R)"
  shows "canonical (build_execution_id R run item tool args key)"
proof -
  have "\<not> is_space c" if "c \<in> set (take 24 (sha256_hex R s))" for c s
    using assms that by (meson hex_digest_def hex_no_space in_set_takeD subsetD)
  moreover have "\<not> is_space c" if "c \<in> set ''exec_''" for c
    using that by (auto simp: is_space_def)
  ultimately have "\<forall>c\<in>set (build_execution_id R run item tool args key). \<not> is_space c"
    unfolding build_execution_id_def set_append by blast
  then show ?thesis
    by (simp add: canonical_def strip_no_space) (simp add: build_execution_id_def)
qed

section \<open>Effects of a call\<close>

lemma confined_mono: "confined Q m \<Longrightarrow> (\<And>w w'. Q w w' \<Longrightarrow> Q' w w') \<Longrightarrow> confined Q' m"
  by (auto simp: confined_def)

interpretation runs: effect_order "(facade_step R)\<^sup>*\<^sup>*" for R
  by unfold_locales auto

lemma same_db_run: "same_db w w' \<Longrightarrow> (facade_step R)\<^sup>*\<^sup>* w w'"
proof -
  assume "same_db w w'"
  then have "w' = w\<lparr>outside := outside w', ticks := ticks w', uuids := uuids w'\<rparr>"
    by (cases w; cases w') (simp add: same_db_def)
  then show ?thesis by (metis facade_step.environment r_into_rtranclp)
qed

lemma reads_run: "confined same_db m \<Longrightarrow> confined (facade_step R)\<^sup>*\<^sup>* m"
  by (rule confined_mono [OF _ same_db_run])

lemma call_tool_run [effect]: "confined (facade_step R)\<^sup>*\<^sup>* (call_tool f)"
proof (rule confinedI)
  fix w w' :: "'a world" and r
  assume "call_tool f w = (r, w')"
  then have "w' = w\<lparr>outside := outside w', ticks := ticks w, uuids := uuids w\<rparr>"
    by (auto simp: call_tool_def split: prod.splits)
  then show "(facade_step R)\<^sup>*\<^sup>* w w'" by (metis facade_step.environment r_into_rtranclp)
qed

lemma tool_operations_run:
  assumes "canonical r" and "canonical e"
  shows "confined (facade_step R)\<^sup>*\<^sup>* (record_tool_intent R r i e tn rq ot)"
    and "confined (facade_step R)\<^sup>*\<^sup>* (record_tool_dispatch R r e)"
    and "confined (facade_step R)\<^sup>*\<^sup>* (record_tool_result R r e rep)"
  using assms by (auto simp: confined_def intro: facade_step.intros)

lemma dispatch_call_cases:
  assumes "dispatch_call R adapter c kind b w = (res, w')"
  obtains e v where "invoke_checked (adapter (call_tool_name c) (call_request c)
      (if kind = WRITE \<and> call_idempotency_supported c then Some (call_execution_id R c) else None) (call_timeout_s c)) w = (Inl e, v)"
      "is_exception e" "record_failure R c kind b e v = (res, w')"
  | e where "invoke_checked (adapter (call_tool_name c) (call_request c)
      (if kind = WRITE \<and> call_idempotency_supported c then Some (call_execution_id R c) else None) (call_timeout_s c)) w = (Inl e, w')"
      "\<not> is_exception e" "res = Inl e"
  | d v where "invoke_checked (adapter (call_tool_name c) (call_request c)
      (if kind = WRITE \<and> call_idempotency_supported c then Some (call_execution_id R c) else None) (call_timeout_s c)) w = (Inr d, v)"
      "record_success R c kind d v = (res, w')"
  using assms unfolding dispatch_call_def by (auto split: prod.splits sum.splits if_splits)

lemma record_outcome_run:
  assumes "canonical (call_run_id c)" and "canonical (call_execution_id R c)"
  shows "confined (facade_step R)\<^sup>*\<^sup>* (record_failure R c kind b e)"
    and "confined (facade_step R)\<^sup>*\<^sup>* (record_success R c kind d)"
  unfolding record_failure_def record_success_def Let_def
  by (intro effect tool_operations_run assms)+

lemma invoke_checked_run [effect]: "confined (facade_step R)\<^sup>*\<^sup>* (invoke_checked f)"
  unfolding invoke_checked_def by (intro effect)

lemma dispatch_call_run:
  assumes "canonical (call_run_id c)" and "canonical (call_execution_id R c)"
  shows "confined (facade_step R)\<^sup>*\<^sup>* (dispatch_call R adapter c kind b)"
proof (rule confinedI, erule dispatch_call_cases)
qed (use assms in \<open>blast dest: confinedD [OF invoke_checked_run] confinedD [OF record_outcome_run(1)]
      confinedD [OF record_outcome_run(2)] intro: rtranclp_trans\<close>)+

lemma execute_tool_run:
  assumes "canonical (call_run_id c)" and "canonical (call_execution_id R c)"
  shows "confined (facade_step R)\<^sup>*\<^sup>* (execute_tool R dr adapter c)"
  unfolding execute_tool_def Let_def
  by (intro effect agent_reads [THEN reads_run] tool_operations_run dispatch_call_run assms)

lemma reachable_run: "reachable R w \<Longrightarrow> (facade_step R)\<^sup>*\<^sup>* w w' \<Longrightarrow> reachable R w'"
  unfolding reachable_def by (meson rtranclp_trans)

text \<open>The outside is touched by one call of the adapter at most.\<close>

lemma invoke_checked_outside:
  "invoke_checked f w = (r, w') \<Longrightarrow> outside w' = snd (f (outside w)) \<and> db w' = db w \<and> conn_open w' = conn_open w"
  by (auto simp: invoke_checked_def call_tool_def bind_def split: prod.splits sum.splits json.splits)

lemma record_outcome_outside:
  "confined same_outside (record_failure R c kind b e)" "confined same_outside (record_success R c kind d)"
  unfolding record_failure_def record_success_def Let_def by (intro effect)+

abbreviation adapter_call :: "runtime \<Rightarrow> 't tool_adapter \<Rightarrow> tool_call \<Rightarrow> operation_type \<Rightarrow> 't \<Rightarrow> json res \<times> 't" where
  "adapter_call R adapter c kind \<equiv> adapter (call_tool_name c) (call_request c)
     (if kind = WRITE \<and> call_idempotency_supported c then Some (call_execution_id R c) else None) (call_timeout_s c)"

lemma dispatch_call_outside:
  assumes "dispatch_call R adapter c kind b w = (res, w')"
  shows "outside w' = snd (adapter_call R adapter c kind (outside w))"
  using assms
  by (rule dispatch_call_cases)
    (auto dest!: invoke_checked_outside same_outsideD [OF record_outcome_outside(1)] same_outsideD [OF record_outcome_outside(2)])

section \<open>The cases of a call\<close>

text \<open>
  A call ends without touching the tool, or it reaches the adapter: on a record that is
  \<open>verified_not_found\<close>, or after the intent (and, for a write, the dispatch) was committed.
\<close>

lemma execute_tool_cases:
  assumes "execute_tool R dr adapter c w = (res, w')"
  obtains (refused) "outside w' = outside w"
    | (replayed) kind r where "normalize_operation_type (call_operation_type c) = Inr kind"
        and "repo_get_result R (call_execution_id R c) w = (Inr (Some r), w)" and "res_execution_status r = VERIFIED_NOT_FOUND"
        and "dispatch_call R adapter c kind True w = (res, w')"
    | (first) kind x v r v' y where "normalize_operation_type (call_operation_type c) = Inr kind"
        and "repo_get_result R (call_execution_id R c) w = (Inr None, w)"
        and "record_tool_intent R (call_run_id c) (call_plan_item_id c) (call_execution_id R c) (call_tool_name c)
          (call_request c) (operation_value kind) w = (Inr x, v)"
        and "repo_get_result R (call_execution_id R c) v = (Inr (Some r), v)" and "res_execution_status r = INTENT_LOGGED"
        and "(if kind = WRITE \<or> dr then bind (record_tool_dispatch R (call_run_id c) (call_execution_id R c)) (\<lambda>_. ret ())
          else ret ()) v = (Inr y, v')"
        and "dispatch_call R adapter c kind False v' = (res, w')"
proof -
  from assms show ?thesis
    unfolding execute_tool_def Let_def
  proof (cases rule: bind_cases)
    case (raised e)
    then show ?thesis by (intro refused) simp
  next
    case (returned kind w1)
    then have kind: "normalize_operation_type (call_operation_type c) = Inr kind" and w1: "w1 = w" by simp_all
    from returned(2) show ?thesis
      unfolding w1
    proof (cases rule: bind_cases)
      case (raised e)
      then show ?thesis by (intro refused) (auto dest: reads_onlyD [OF agent_reads(4)])
    next
      case (returned existing w2)
      note get = repo_get_result_InrD [OF returned(1)]
      show ?thesis
      proof (cases existing)
        case (Some r)
        show ?thesis
        proof (cases "res_execution_status r = VERIFIED_NOT_FOUND")
          case True
          with replayed [OF kind _ True] returned get Some show ?thesis by simp
        next
          case False
          then show ?thesis using returned get Some by (intro refused) simp
        qed
      next
        case None
        from returned(2) [unfolded None option.case] show ?thesis
        proof (cases rule: bind_cases)
          case (raised e)
          then show ?thesis using get by (intro refused) (auto dest: same_outsideD [OF facade_effect(13)])
        next
          case (returned x v)
          have o1: "outside v = outside w" using returned(1) get by (auto dest: same_outsideD [OF facade_effect(13)])
          note intent = returned(1)
          from returned(2) show ?thesis
          proof (cases rule: bind_cases)
            case (raised e)
            then show ?thesis using o1 by (intro refused) (auto dest: reads_onlyD [OF agent_reads(4)])
          next
            case (returned found v2)
            note get2 = repo_get_result_InrD [OF returned(1)]
            show ?thesis
            proof (cases "\<exists>r. found = Some r \<and> res_execution_status r = INTENT_LOGGED")
              case False
              then show ?thesis using returned get2 o1
                by (intro refused) (auto split: option.splits if_splits)
            next
              case True
              then obtain r where r: "found = Some r" "res_execution_status r = INTENT_LOGGED" by blast
              have rest: "bind (if kind = WRITE \<or> dr then bind (record_tool_dispatch R (call_run_id c) (call_execution_id R c)) (\<lambda>_. ret ())
                else ret ()) (\<lambda>_. dispatch_call R adapter c kind False) v = (res, w')"
                using returned(2) r get2 by simp
              then show ?thesis
              proof (cases rule: bind_cases)
                case (raised e)
                then have "outside w' = outside v"
                  by (auto split: if_splits dest!: same_outsideD [OF store.bind [OF facade_effect(15) store.ret]])
                then show ?thesis using o1 by (intro refused) simp
              next
                case (returned y v')
                show ?thesis
                  by (rule first [OF kind _ _ _ r(2) returned])
                    (use intent get get2 r(1) \<open>repo_get_result R (call_execution_id R c) v = (Inr found, v2)\<close>
                       \<open>repo_get_result R (call_execution_id R c) w = (Inr existing, w2)\<close> None in auto)
              qed
            qed
          qed
        qed
      qed
    qed
  qed
qed

section \<open>Guarantees of a call\<close>

lemma record_result_outcome:
  assumes "record_tool_result R run_id execution_id rep w = (res, w')" and "\<not> conn_open w"
    and "canonical run_id" and "canonical execution_id"
    and "rep_execution_status rep = Some (execution_status_value s)"
  shows "(db w' = db w \<and> (\<exists>e. res = Inl e) \<or> exec_step run_id execution_id s (db w) (db w')) \<and>
    (case res of Inl e \<Rightarrow> True | Inr x \<Rightarrow> res_execution_status x = s) \<and> conn_open w' = conn_open w"
proof -
  have "conn_open w' = conn_open w" by (rule conjunct2 [OF same_outsideD [OF facade_effect(17) assms(1)]])
  moreover from run_write_outcome [OF assms(1) [unfolded record_tool_result_def] assms(2)]
  have "(db w' = db w \<and> (\<exists>e. res = Inl e) \<or> exec_step run_id execution_id s (db w) (db w')) \<and>
    (case res of Inl e \<Rightarrow> True | Inr x \<Rightarrow> res_execution_status x = s)"
  proof (elim disjE exE conjE)
    fix x v
    assume m: "tool_result_tx R run_id execution_id rep (w\<lparr>conn_open := True\<rparr>) = (Inr x, v)"
      and v: "db w' = db v" and res: "case res of Inl e \<Rightarrow> mirror R \<noteq> None | Inr y \<Rightarrow> y = x"
    from result_tx_step [OF m assms(3,4)] obtain rs s'
      where step: "resolve_execution_status (rep_execution_status rep) rs = Inr s'" "res_execution_status x = s'"
        "exec_step run_id execution_id s' (db (w\<lparr>conn_open := True\<rparr>)) (db v)"
      by (elim exE conjE)
    from step(1) have "s' = s" unfolding assms(5) by (simp add: resolve_execution_status_def)
    then have "exec_step run_id execution_id s (db w) (db w')" using step(3) v by simp
    moreover have "case res of Inl e \<Rightarrow> True | Inr x \<Rightarrow> res_execution_status x = s"
      using res step(2) \<open>s' = s\<close> by (cases res) simp_all
    ultimately show ?thesis by simp
  qed simp
  ultimately show ?thesis by simp
qed

lemma exec_step_row: "exec_step run_id execution_id s d d' \<Longrightarrow>
    \<exists>row. map_of (external_results d') execution_id = Some row \<and> row_execution_status row = s"
  by (auto simp: exec_step_def logs_status_def)

text \<open>The status that stands on record for an execution.\<close>

definition status_on_record :: "db \<Rightarrow> string \<Rightarrow> execution_status option" where
  "status_on_record d execution_id = map_option row_execution_status (map_of (external_results d) execution_id)"

lemma status_after_step: "exec_step run_id execution_id s d d' \<Longrightarrow> status_on_record d' execution_id = Some s"
  by (auto simp: status_on_record_def dest: exec_step_row)

lemma status_of_get:
  "repo_get_result R i w = (Inr found, w') \<Longrightarrow> canonical i \<Longrightarrow>
    status_on_record (db w) i = map_option res_execution_status found \<and> w' = w"
  by (auto dest!: repo_get_result_InrD simp: canonical_strip status_on_record_def split: option.splits)

lemma record_dispatch_InrD:
  assumes "record_tool_dispatch R run_id execution_id w = (Inr x, w')" and "\<not> conn_open w"
    and "canonical run_id" and "canonical execution_id"
  shows "exec_step run_id execution_id DISPATCHED (db w) (db w') \<and> \<not> conn_open w'"
proof -
  have "\<not> conn_open w'" using same_outsideD [OF facade_effect(15) assms(1)] assms(2) by simp
  then show ?thesis
    using run_write_outcome [OF assms(1) [unfolded record_tool_dispatch_def] assms(2)]
      dispatch_tx_step [OF _ assms(3,4), of R "w\<lparr>conn_open := True\<rparr>"]
    by fastforce
qed

lemma record_result_status:
  assumes "record_tool_result R run_id execution_id rep w = (res, w')" and "\<not> conn_open w"
    and "canonical run_id" and "canonical execution_id"
    and "rep_execution_status rep = Some (execution_status_value s)"
    and "status_on_record (db w) execution_id = Some s0"
  shows "\<exists>s'. status_on_record (db w') execution_id = Some s' \<and> s' \<in> {s0, s} \<and>
    (\<forall>x. res = Inr x \<longrightarrow> s' = s \<and> res_execution_status x = s)"
  using record_result_outcome [OF assms(1-5)] assms(6) by (cases res) (auto dest: status_after_step)

lemma dispatch_call_record:
  assumes "dispatch_call R adapter c kind b w = (res, w')" and "\<not> conn_open w"
    and "canonical (call_run_id c)" and "canonical (call_execution_id R c)"
    and "status_on_record (db w) (call_execution_id R c) = Some s0"
  shows "\<exists>s. status_on_record (db w') (call_execution_id R c) = Some s \<and>
    s \<in> {s0, ACKED, FAILED} \<union> (if kind = WRITE then {if b then VERIFIED_NOT_FOUND else DISPATCHED} else {}) \<and>
    (case res of Inl e \<Rightarrow> True | Inr tx \<Rightarrow> res_execution_status (tx_record tx) = s \<and> tx_execution_id tx = call_execution_id R c \<and>
      tx_disposition tx = (if s = ACKED then SUCCEEDED else if s = FAILED then FAILED_TX else PENDING_RECOVERY))"
  using assms(1)
proof (cases rule: dispatch_call_cases)
  case (1 e v)
  note i = invoke_checked_outside [OF 1(1)]
  let ?amb = "exn_class e = AmbiguousToolError \<and> kind = WRITE"
  let ?s = "if ?amb then (if b then VERIFIED_NOT_FOUND else DISPATCHED) else FAILED"
  let ?rep = "if ?amb then call_report c kind TIMEOUT ?s None (Some (exn_text e)) False
    else call_report c kind ERROR FAILED None (Some (exn_text e)) True"
  obtain rr where rr: "record_tool_result R (call_run_id c) (call_execution_id R c) ?rep v = (rr, w')"
    "res = (case rr of Inl e' \<Rightarrow> Inl e' | Inr x \<Rightarrow> Inr \<lparr>tx_execution_id = call_execution_id R c,
        tx_disposition = (if ?amb then PENDING_RECOVERY else FAILED_TX), tx_record = x, tx_exception = Some e\<rparr>)"
    using 1(3) unfolding record_failure_def Let_def
    by (auto simp: bind_def split: if_splits prod.splits sum.splits)
  have "rep_execution_status ?rep = Some (execution_status_value ?s)" by (simp add: call_report_def)
  from record_result_status [OF rr(1) _ assms(3,4) this, of s0] i assms(2,5)
  obtain s' where s': "status_on_record (db w') (call_execution_id R c) = Some s'" "s' \<in> {s0, ?s}"
    "\<forall>x. rr = Inr x \<longrightarrow> s' = ?s \<and> res_execution_status x = ?s" by auto
  show ?thesis
    by (cases rr; cases ?amb; cases b) (use s' rr(2) in auto)
next
  case (2 e)
  note i = invoke_checked_outside [OF 2(1)]
  show ?thesis using i 2(3) assms(5) by auto
next
  case (3 d v)
  note i = invoke_checked_outside [OF 3(1)]
  obtain rr where rr: "record_tool_result R (call_run_id c) (call_execution_id R c) (call_report c kind OK ACKED (Some d) None True) v = (rr, w')"
    "res = (case rr of Inl e' \<Rightarrow> Inl e' | Inr x \<Rightarrow> Inr \<lparr>tx_execution_id = call_execution_id R c,
        tx_disposition = SUCCEEDED, tx_record = x, tx_exception = None\<rparr>)"
    using 3(2) unfolding record_success_def Let_def
    by (auto simp: bind_def split: prod.splits sum.splits)
  have "rep_execution_status (call_report c kind OK ACKED (Some d) None True) = Some (execution_status_value ACKED)"
    by (simp add: call_report_def)
  from record_result_status [OF rr(1) _ assms(3,4) this, of s0] i assms(2,5)
  obtain s' where s': "status_on_record (db w') (call_execution_id R c) = Some s'" "s' \<in> {s0, ACKED}"
    "\<forall>x. rr = Inr x \<longrightarrow> s' = ACKED \<and> res_execution_status x = ACKED" by auto
  show ?thesis by (cases rr) (use s' rr(2) in auto)
qed

text \<open>
  A call that is on record in any status but \<open>verified_not_found\<close> never reaches the tool and
  changes nothing: a success is reused with its recorded response, a failure stays a failure,
  and an open execution is left to recovery.
\<close>

theorem settled_call_is_not_repeated:
  assumes "normalize_operation_type (call_operation_type c) = Inr kind"
    and "repo_get_result R (call_execution_id R c) w = (Inr (Some r), w)"
    and "res_execution_status r \<noteq> VERIFIED_NOT_FOUND"
  shows "\<exists>tx. execute_tool R dr adapter c w = (Inr tx, w) \<and> tx_record tx = r \<and>
    tx_disposition tx = (if res_execution_status r \<in> {ACKED, VERIFIED_COMMITTED} then REUSED
      else if res_execution_status r = FAILED then FAILED_TX else PENDING_RECOVERY)"
  using assms
  by (cases "res_execution_status r") (simp_all add: execute_tool_def Let_def bind_Inr handle_existing_def)

lemma execute_tool_outside:
  assumes "execute_tool R dr adapter c w = (res, w')"
  shows "outside w' = outside w \<or> (\<exists>kind. normalize_operation_type (call_operation_type c) = Inr kind \<and>
    outside w' = snd (adapter_call R adapter c kind (outside w)))"
  using assms
proof (cases rule: execute_tool_cases)
  case refused
  then show ?thesis by simp
next
  case (replayed kind r)
  then show ?thesis using dispatch_call_outside [OF replayed(4)] by auto
next
  case (first kind x v r v' y)
  have "outside v = outside w" using same_outsideD [OF facade_effect(13) first(3)] by blast
  moreover have "outside v' = outside v"
    using first(6) by (auto split: if_splits dest!: same_outsideD [OF store.bind [OF facade_effect(15) store.ret]])
  ultimately show ?thesis using first(1) dispatch_call_outside [OF first(7)] by auto
qed

text \<open>
  One call invokes the tool at most once, whatever the outcome: what is outside the process
  is as before or as one invocation with the call's own arguments left it.
\<close>

theorem at_most_one_invocation:
  "outside (snd (execute_tool R dr adapter c w)) \<in>
    insert (outside w) ((\<lambda>kind. snd (adapter_call R adapter c kind (outside w))) ` {READ, WRITE})"
proof -
  have "kind \<in> {READ, WRITE}" for kind by (cases kind) simp_all
  with execute_tool_outside [OF surjective_pairing, of R dr adapter c w] show ?thesis by auto
qed

lemma execute_write_record:
  assumes "execute_tool R dr adapter c w = (res, w')" and "\<not> conn_open w"
    and "canonical (call_run_id c)" and "canonical (call_execution_id R c)"
    and "normalize_operation_type (call_operation_type c) = Inr WRITE" and "outside w' \<noteq> outside w"
  shows "\<exists>s. status_on_record (db w') (call_execution_id R c) = Some s \<and> s \<in> {DISPATCHED, ACKED, FAILED, VERIFIED_NOT_FOUND} \<and>
    (case res of Inl e \<Rightarrow> True | Inr tx \<Rightarrow> res_execution_status (tx_record tx) = s \<and>
      tx_disposition tx = (if s = ACKED then SUCCEEDED else if s = FAILED then FAILED_TX else PENDING_RECOVERY))"
  using assms(1)
proof (cases rule: execute_tool_cases)
  case refused
  then show ?thesis using assms(6) by simp
next
  case (replayed kind r)
  have "status_on_record (db w) (call_execution_id R c) = Some VERIFIED_NOT_FOUND"
    using status_of_get [OF replayed(2) assms(4)] replayed(3) by simp
  from dispatch_call_record [OF replayed(4) assms(2-4) this] show ?thesis
    by (auto split: if_splits sum.splits)
next
  case (first kind x v r v' y)
  have "kind = WRITE" using first(1) assms(5) by simp
  then obtain z where d: "record_tool_dispatch R (call_run_id c) (call_execution_id R c) v = (Inr z, v')"
    using first(6) by (auto simp: bind_def split: prod.splits sum.splits)
  have "\<not> conn_open v" using same_outsideD [OF facade_effect(13) first(3)] assms(2) by simp
  note d' = record_dispatch_InrD [OF d this assms(3,4)]
  from dispatch_call_record [OF first(7) _ assms(3,4) status_after_step [OF conjunct1 [OF d']]] d' \<open>kind = WRITE\<close>
  show ?thesis by (auto split: if_splits sum.splits)
qed

text \<open>
  C12: log before send. When a write changed anything outside, its execution is on record past the
  bare intent, whatever the outcome: also when the process died inside the tool, in which case
  the record says \<open>dispatched\<close> or, on a replay, \<open>verified_not_found\<close>.
\<close>

theorem write_is_logged_before_it_is_sent:
  assumes "execute_tool R dr adapter c w = (res, w')" and "\<not> conn_open w"
    and "canonical (call_run_id c)" and "canonical (call_execution_id R c)"
    and "normalize_operation_type (call_operation_type c) = Inr WRITE" and "outside w' \<noteq> outside w"
  shows "\<exists>s. status_on_record (db w') (call_execution_id R c) = Some s \<and> s \<noteq> INTENT_LOGGED"
  using execute_write_record [OF assms] by (elim exE conjE) (intro exI conjI, assumption, auto)

text \<open>
  A write that reached the tool and returned reports what is durable: the status of the
  returned record is the status on record, and the disposition is its reading.
\<close>

theorem write_outcome_is_durable:
  assumes "execute_tool R dr adapter c w = (Inr tx, w')" and "\<not> conn_open w"
    and "canonical (call_run_id c)" and "canonical (call_execution_id R c)"
    and "normalize_operation_type (call_operation_type c) = Inr WRITE" and "outside w' \<noteq> outside w"
  shows "status_on_record (db w') (call_execution_id R c) = Some (res_execution_status (tx_record tx)) \<and>
    tx_disposition tx = (case res_execution_status (tx_record tx) of
      ACKED \<Rightarrow> SUCCEEDED | FAILED \<Rightarrow> FAILED_TX | _ \<Rightarrow> PENDING_RECOVERY)"
  using execute_write_record [OF assms] by (auto split: execution_status.splits)

text \<open>
  The identifier of a call does not depend on the order of its argument keys.
\<close>

theorem execution_id_ignores_key_order:
  assumes "distinct (map fst d)" and "distinct (map fst d')" and "set d = set d'"
  shows "build_execution_id R run item tool d key = build_execution_id R run item tool d' key"
  by (rule build_execution_id_perm [OF assms])

text \<open>
  Before hashing, calls whose names contain no bar are told apart by run, item, tool,
  invocation key and the text of the arguments.
\<close>

theorem raw_execution_id_injective:
  assumes "raw_execution_id T run item tool d (Some key) = raw_execution_id T run' item' tool' d' (Some key')"
    and "list_all (\<lambda>s. CHR ''|'' \<notin> set s) [run, item, tool, key, run', item', tool', key']"
  shows "run = run' \<and> item = item' \<and> tool = tool' \<and> key = key' \<and> json_dumps T (JObj d) = json_dumps T (JObj d')"
  using assms by (simp add: raw_execution_id_def cut_at_bar del: json_dumps.simps)

text \<open>
  C28: the separator is not escaped, so two different calls can share an identifier whatever the
  hash: a bar moved between the item and the tool, or a key that is part of the tool's name.
\<close>

theorem execution_ids_collide:
  "build_execution_id R run ''a|b'' ''c'' d None = build_execution_id R run ''a'' ''b|c'' d None \<and>
   build_execution_id R run item ''t|k'' d None = build_execution_id R run item ''t'' d (Some ''k'')"
  by (simp add: build_execution_id_def raw_execution_id_def)

end
