(* ===== verification/Recovery.thy ===== *)
theory Recovery
  imports Txn_Manager
begin

text \<open>
  \<open>recovery/common.py\<close>, \<open>recovery/recovery/strategy.py\<close> and \<open>recovery/recovery/handler.py\<close>: the
  waiting window of an open execution, the decision for one record, and the recovery of a run,
  with the probe of the target for writes whose outcome is unknown.
\<close>

section \<open>Timeouts\<close>

text \<open>\<open>float(i)\<close> overflows from half a unit above the largest double on.\<close>

definition float_of_int :: "int \<Rightarrow> pyfloat res" where
  "float_of_int i = (if 2 ^ 1024 - 2 ^ 970 \<le> \<bar>i\<bar> then Inl (Exn OverflowError ''int too large to convert to float'')
     else Inr (Fin (of_int i)))"

definition positive :: "pyfloat \<Rightarrow> pyfloat option" where
  "positive v = (if float_positive v then Some v else None)"

definition parse_positive_float :: "json \<Rightarrow> pyfloat option res" where
  "parse_positive_float raw = (case raw of
     JInt i \<Rightarrow> rbind (float_of_int i) (\<lambda>v. Inr (positive v))
   | JFloat f \<Rightarrow> Inr (positive f)
   | JStr s \<Rightarrow> Inr (if strip s = [] then None
       else case parse_float (strip s) of None \<Rightarrow> None | Some v \<Rightarrow> positive v)
   | _ \<Rightarrow> Inr None)"

fun float_milli :: "pyfloat \<Rightarrow> pyfloat" where
  "float_milli (Fin x) = Fin (x / 1000)"
| "float_milli f = f"

text \<open>The first key, in order, for which there is a value.\<close>

fun first_some :: "('k \<Rightarrow> 'a option res) \<Rightarrow> 'k list \<Rightarrow> 'a option res" where
  "first_some f [] = Inr None"
| "first_some f (k # ks) = rbind (f k) (\<lambda>v. case v of Some x \<Rightarrow> Inr (Some x) | None \<Rightarrow> first_some f ks)"

definition or_next :: "'a option res \<Rightarrow> 'a option res \<Rightarrow> 'a option res" where
  "or_next a b = rbind a (\<lambda>v. case v of Some x \<Rightarrow> Inr (Some x) | None \<Rightarrow> b)"

text \<open>
  \<open>parse_call_timeout_seconds\<close>: seconds, then milliseconds, then the generic key, then the nested
  objects, searched the same way.
\<close>

fun parse_call_timeout_seconds :: "json \<Rightarrow> pyfloat option res" where
  "parse_call_timeout_seconds (JObj d) =
     or_next (first_some (\<lambda>k. parse_positive_float (dict_get d k)) [''call_timeout_seconds'', ''timeout_seconds'', ''timeout_s''])
    (or_next (rbind (first_some (\<lambda>k. parse_positive_float (dict_get d k)) [''call_timeout_ms'', ''timeout_ms''])
       (\<lambda>v. Inr (map_option float_milli v)))
    (or_next (parse_positive_float (dict_get d ''timeout''))
    (first_some (\<lambda>k. case map_of (map (\<lambda>(k, v). (k, parse_call_timeout_seconds v)) d) k of
         None \<Rightarrow> Inr None | Some r \<Rightarrow> r) [''meta'', ''metadata'', ''config'', ''options''])))"
| "parse_call_timeout_seconds _ = Inr None"

text \<open>The rounding of \<open>timedelta\<close> to microseconds, half to even, and the end of the calendar.\<close>

definition round_half_even :: "rat \<Rightarrow> int" where
  "round_half_even x = (let f = \<lfloor>x\<rfloor>; r = x - of_int f in
     if r < 1 / 2 then f else if 1 / 2 < r then f + 1 else if even f then f else f + 1)"

definition max_datetime :: int where
  "max_datetime = 253402300799999999"

definition add_seconds :: "int \<Rightarrow> pyfloat \<Rightarrow> int res" where
  "add_seconds started_at s = (case s of
     Fin x \<Rightarrow> let t = started_at + round_half_even (x * 1000000) in
       if max_datetime < t then Inl (Exn OverflowError ''date value out of range'') else Inr t
   | NaN \<Rightarrow> value_error ''cannot convert float NaN to integer''
   | _ \<Rightarrow> Inl (Exn OverflowError ''cannot convert float infinity to integer''))"

fun float_nonpositive :: "pyfloat \<Rightarrow> bool" where
  "float_nonpositive (Fin x) = (x \<le> 0)"
| "float_nonpositive NInf = True"
| "float_nonpositive _ = False"

definition resolve_wait_deadline :: "int \<Rightarrow> dict option \<Rightarrow> pyfloat \<Rightarrow> (pyfloat \<times> int) res" where
  "resolve_wait_deadline started_at request_payload fallback_seconds =
     rbind (case request_payload of None \<Rightarrow> Inr None | Some p \<Rightarrow> parse_call_timeout_seconds (JObj p)) (\<lambda>timeout.
     let r = (case timeout of Some t \<Rightarrow> t | None \<Rightarrow> fallback_seconds);
         resolved = (if float_nonpositive r then fallback_seconds else r) in
     rbind (add_seconds started_at resolved) (\<lambda>deadline. Inr (resolved, deadline)))"

section \<open>Decisions\<close>

datatype recovery_action = RESUME_WAITING | REPLAY | HANDOFF_RETRY_OR_ABANDON | MARK_COMMITTED

fun action_value :: "recovery_action \<Rightarrow> string" where
  "action_value RESUME_WAITING = ''resume_waiting''"
| "action_value REPLAY = ''replay''"
| "action_value HANDOFF_RETRY_OR_ABANDON = ''handoff_retry_or_abandon''"
| "action_value MARK_COMMITTED = ''mark_committed''"

record recovery_decision =
  dec_run_id :: string
  dec_execution_id :: string
  dec_action :: recovery_action
  dec_reason :: string
  dec_status :: "execution_status option"
  dec_wait_timeout_seconds :: "pyfloat option"
  dec_wait_until :: "int option"

definition decision :: "string \<Rightarrow> string \<Rightarrow> recovery_action \<Rightarrow> string \<Rightarrow> execution_status option \<Rightarrow> recovery_decision" where
  "decision run_id execution_id action reason status =
     \<lparr>dec_run_id = run_id, dec_execution_id = execution_id, dec_action = action, dec_reason = reason,
      dec_status = status, dec_wait_timeout_seconds = None, dec_wait_until = None\<rparr>"

definition is_committed_status :: "execution_status \<Rightarrow> bool" where
  "is_committed_status s \<longleftrightarrow> s \<in> {ACKED, VERIFIED_COMMITTED}"

definition decide :: "pyfloat \<Rightarrow> string \<Rightarrow> string \<Rightarrow> external_result \<Rightarrow> int \<Rightarrow> recovery_decision res" where
  "decide default_wait_seconds run_id execution_id record now =
     (let status = res_execution_status record in
      if status = INTENT_LOGGED then
        Inr (decision run_id execution_id REPLAY ''intent recorded but dispatch not observed'' (Some status))
      else if status = DISPATCHED then
        rbind (resolve_wait_deadline (res_updated_at record) (res_request_payload record) default_wait_seconds) (\<lambda>(wait_seconds, deadline).
        Inr ((if now < deadline
            then decision run_id execution_id RESUME_WAITING ''in-step execution still inside waiting window'' (Some status)
            else decision run_id execution_id HANDOFF_RETRY_OR_ABANDON ''in-step execution exceeded waiting window'' (Some status))
          \<lparr>dec_wait_timeout_seconds := Some wait_seconds, dec_wait_until := Some deadline\<rparr>))
      else if status = VERIFIED_NOT_FOUND then
        Inr (decision run_id execution_id REPLAY ''target verification indicates missing commit'' (Some status))
      else if is_committed_status status then
        Inr (decision run_id execution_id MARK_COMMITTED ''execution already committed'' (Some status))
      else
        Inr (decision run_id execution_id HANDOFF_RETRY_OR_ABANDON
          ''execution previously failed and requires policy handoff'' (Some status)))"

section \<open>Recovery of a run\<close>

record verification =
  ver_committed :: "bool option"
  ver_reason :: string
  ver_record :: json
  ver_receipt :: json

type_synonym 't write_verifier = "string \<Rightarrow> string \<Rightarrow> dict option \<Rightarrow> 't \<Rightarrow> verification res \<times> 't"

text \<open>
  The coordinator: its fallback window, its verifier and its handoff callback, if any, which may
  act outside. \<open>_handoff_emitted\<close>, the keys of the handoffs it has emitted, is its state: it lives
  as long as the process and stands beside what is outside, not in the database.
\<close>

type_synonym 't beside = "'t \<times> string list"

definition call_outside :: "('t \<Rightarrow> 'a res \<times> 't) \<Rightarrow> ('t beside, 'a) op" where
  "call_outside f = call_tool (\<lambda>(t, keys). case f t of (r, t') \<Rightarrow> (r, (t', keys)))"

definition emitted_keys :: "('t beside, string list) op" where
  "emitted_keys = gets (\<lambda>w. snd (outside w))"

definition add_emitted_key :: "string \<Rightarrow> ('t beside, unit) op" where
  "add_emitted_key key = call_tool (\<lambda>(t, keys). (Inr (), (t, keys @ [key])))"

record 't coordinator =
  default_wait_seconds :: pyfloat
  verifier :: "'t write_verifier option"
  on_handoff :: "(recovery_decision \<Rightarrow> 't \<Rightarrow> unit res \<times> 't) option"

definition response_payload_from_verification :: "verification \<Rightarrow> dict" where
  "response_payload_from_verification v =
     (let p0 = [(''verified'', JBool True)];
          p1 = (if is_obj (ver_receipt v) then AList.update ''receipt'' (ver_receipt v) p0 else p0) in
      case ver_record v of
        JObj rec \<Rightarrow>
          let p2 = (if is_obj (dict_get rec ''result'') then AList.update ''result'' (dict_get rec ''result'') p1 else p1)
          in dict_setdefault ''target_record'' (JObj rec) p2
      | _ \<Rightarrow> p1)"

definition status_report :: "result_status \<Rightarrow> execution_status \<Rightarrow> dict option \<Rightarrow> bool \<Rightarrow> result_report" where
  "status_report result_status execution_status response_payload clear_pending =
     \<lparr>rep_result_status = result_status_value result_status, rep_response_payload = response_payload,
      rep_error_message = None, rep_tool_name = None, rep_operation_type = None, rep_request_payload = None,
      rep_plan_item_id = None, rep_execution_status = Some (execution_status_value execution_status),
      rep_clear_pending = clear_pending\<rparr>"

definition verify_ambiguous_write ::
  "runtime \<Rightarrow> 't write_verifier \<Rightarrow> string \<Rightarrow> string \<Rightarrow> external_result \<Rightarrow> recovery_decision \<Rightarrow>
   ('t beside, recovery_decision \<times> external_result) op" where
  "verify_ambiguous_write R verify run_id execution_id record fallback =
     bind (try_catch (bind (call_outside (verify execution_id (res_tool_name record) (res_request_payload record))) (\<lambda>v. ret (Some v)))
       (\<lambda>e. ret None)) (\<lambda>verification. case verification of
       None \<Rightarrow> ret (fallback, record)
     | Some v \<Rightarrow> (case ver_committed v of
         Some True \<Rightarrow>
           bind (record_tool_result R run_id execution_id
             (status_report OK VERIFIED_COMMITTED (Some (response_payload_from_verification v)) True)) (\<lambda>updated.
           ret (decision run_id execution_id MARK_COMMITTED
             (''target verification confirmed commit: '' @ ver_reason v) (Some VERIFIED_COMMITTED), updated))
       | Some False \<Rightarrow>
           bind (record_tool_result R run_id execution_id (status_report UNKNOWN VERIFIED_NOT_FOUND None False)) (\<lambda>updated.
           ret (decision run_id execution_id REPLAY
             (''target verification found no commit: '' @ ver_reason v) (Some VERIFIED_NOT_FOUND), updated))
       | None \<Rightarrow> ret (fallback, record)))"

definition handoff_key :: "runtime \<Rightarrow> recovery_decision \<Rightarrow> string" where
  "handoff_key R d = dec_run_id d @ '':'' @ dec_execution_id d @ '':'' @ action_value (dec_action d) @ '':'' @
     (case dec_status d of Some s \<Rightarrow> execution_status_value s | None \<Rightarrow> ''none'') @ '':'' @
     (case dec_wait_until d of Some t \<Rightarrow> iso_text (forms R) t | None \<Rightarrow> ''none'')"

definition emit_handoff_if_needed :: "runtime \<Rightarrow> 't coordinator \<Rightarrow> recovery_decision \<Rightarrow> ('t beside, unit) op" where
  "emit_handoff_if_needed R C d = (case on_handoff C of
     None \<Rightarrow> ret ()
   | Some callback \<Rightarrow>
       let key = handoff_key R d in
       bind emitted_keys (\<lambda>keys.
       if key \<in> set keys then ret ()
       else bind (add_emitted_key key) (\<lambda>_. call_outside (callback d))))"

definition reconcile_tool_message :: "runtime \<Rightarrow> string \<Rightarrow> external_result \<Rightarrow> ('t, unit) op" where
  "reconcile_tool_message R run_id record = (case res_response_payload record of
     None \<Rightarrow> ret ()
   | Some payload \<Rightarrow>
       bind (repo_load_context R run_id) (\<lambda>context. case context of
         None \<Rightarrow> ret ()
       | Some c \<Rightarrow>
           if \<exists>m\<in>set (ctx_messages c). msg_role m = ''tool'' \<and> msg_tool_call_id m = Some (res_execution_id record)
             then ret ()
           else bind (record_context_message R run_id ''tool'' (json_dumps (forms R) (JObj payload))
             (Some [(''source'', JStr ''recovery''), (''reconciled'', JBool True),
                (''execution_status'', JStr (execution_status_value (res_execution_status record)))])
             (Some (res_tool_name record)) (Some (res_execution_id record))) (\<lambda>_. ret ())))"

definition recover_one ::
  "runtime \<Rightarrow> 't coordinator \<Rightarrow> string \<Rightarrow> int \<Rightarrow> (string \<times> external_result) list \<Rightarrow> string \<Rightarrow>
   ('t beside, recovery_decision) op" where
  "recover_one R C run_id now records execution_id = (case map_of records execution_id of
     None \<Rightarrow>
       let d = decision run_id execution_id HANDOFF_RETRY_OR_ABANDON ''pending execution is missing durable external result'' None in
       bind (emit_handoff_if_needed R C d) (\<lambda>_. ret d)
   | Some record \<Rightarrow>
       bind (lift (decide (default_wait_seconds C) run_id execution_id record now)) (\<lambda>first.
       bind (case verifier C of
               None \<Rightarrow> ret (first, record)
             | Some verify \<Rightarrow>
                 if dec_action first = HANDOFF_RETRY_OR_ABANDON \<and> res_operation_type record = operation_value WRITE \<and>
                    res_execution_status record = DISPATCHED
                   then verify_ambiguous_write R verify run_id execution_id record first
                 else ret (first, record)) (\<lambda>(d, record).
       if dec_action d = MARK_COMMITTED then
         bind (reconcile_tool_message R run_id record) (\<lambda>_. ret d)
       else if dec_action d = HANDOFF_RETRY_OR_ABANDON then
         bind (emit_handoff_if_needed R C d) (\<lambda>_. ret d)
       else ret d)))"

text \<open>
  \<open>recover_run\<close>: every execution that is on record or pending, in the order of the identifiers;
  of two records with one identifier the dict would keep the last.
\<close>

definition recover_run :: "runtime \<Rightarrow> 't coordinator \<Rightarrow> string \<Rightarrow> int option \<Rightarrow> ('t beside, recovery_decision list) op" where
  "recover_run R C run_id now =
     bind (case now of Some t \<Rightarrow> ret t | None \<Rightarrow> utc_now R) (\<lambda>now.
     bind (repo_load_context R run_id) (\<lambda>context.
     if context = None then ret [] else
     bind (service_list_results R run_id) (\<lambda>results.
     bind (list_pending_executions R run_id) (\<lambda>pending.
     let records = rev (map (\<lambda>r. (res_execution_id r, r)) results) in
     for_each (recover_one R C run_id now records) (sort (remdups (map fst records @ pending)))))))"

section \<open>What a recovery changes\<close>

lemma call_tool_same: "call_tool f w = (r, w') \<Longrightarrow> db w' = db w \<and> conn_open w' = conn_open w"
  by (auto simp: call_tool_def split: prod.splits)

lemma call_outside_same: "call_outside f w = (r, w') \<Longrightarrow> db w' = db w \<and> conn_open w' = conn_open w"
  unfolding call_outside_def by (rule call_tool_same)

lemma status_of_other:
  "exec_step run_id execution_id s d d' \<Longrightarrow> j \<noteq> execution_id \<Longrightarrow> status_on_record d' j = status_on_record d j"
  by (auto simp: exec_step_def logs_status_def status_on_record_def)

text \<open>Only the status of one execution may change.\<close>

definition only_status :: "string \<Rightarrow> 't world \<Rightarrow> 't world \<Rightarrow> bool" where
  "only_status i w w' \<longleftrightarrow> conn_open w' = conn_open w \<and> (\<forall>j. j \<noteq> i \<longrightarrow> status_on_record (db w') j = status_on_record (db w) j)"

definition no_status :: "'t world \<Rightarrow> 't world \<Rightarrow> bool" where
  "no_status w w' \<longleftrightarrow> conn_open w' = conn_open w \<and> status_on_record (db w') = status_on_record (db w)"

interpretation quiet: effect_order no_status
  by unfold_locales (auto simp: no_status_def)

lemma quiet_basic [effect]: "confined no_status (call_tool f)" "confined no_status (utc_now R)"
    "confined no_status (call_outside g)" "confined no_status (add_emitted_key k)" "confined no_status emitted_keys"
  by (auto intro!: confinedI dest: call_tool_same call_outside_same simp: no_status_def add_emitted_key_def emitted_keys_def)

lemma quiet_of_idle: "confined same_tools m \<Longrightarrow> confined same_outside m \<Longrightarrow> confined no_status m"
  by (auto simp: confined_def same_tools_def same_outside_def no_status_def status_on_record_def fun_eq_iff)

lemma quiet_reads: "confined same_db m \<Longrightarrow> confined no_status m"
  by (auto simp: confined_def same_db_def no_status_def)

lemma quiet_recovery [effect]:
  "confined no_status (emit_handoff_if_needed R C d)" "confined no_status (reconcile_tool_message R r rec)"
  unfolding emit_handoff_if_needed_def reconcile_tool_message_def Let_def
  by (intro effect quiet_reads [OF agent_reads(3)] quiet_of_idle [OF idle_facade(2) facade_effect(3)])+

text \<open>What each action is chosen for.\<close>

definition action_fits :: "recovery_decision \<Rightarrow> bool" where
  "action_fits d \<longleftrightarrow> (case dec_status d of
     None \<Rightarrow> dec_action d = HANDOFF_RETRY_OR_ABANDON
   | Some s \<Rightarrow> dec_action d \<in> (case s of
       INTENT_LOGGED \<Rightarrow> {REPLAY} | VERIFIED_NOT_FOUND \<Rightarrow> {REPLAY}
     | DISPATCHED \<Rightarrow> {RESUME_WAITING, HANDOFF_RETRY_OR_ABANDON}
     | ACKED \<Rightarrow> {MARK_COMMITTED} | VERIFIED_COMMITTED \<Rightarrow> {MARK_COMMITTED}
     | FAILED \<Rightarrow> {HANDOFF_RETRY_OR_ABANDON}))"

lemma decide_InrD:
  "decide dw run_id i record now = Inr d \<Longrightarrow> dec_execution_id d = i \<and> dec_run_id d = run_id \<and>
    dec_status d = Some (res_execution_status record) \<and> action_fits d"
  by (cases "res_execution_status record")
    (auto simp: decide_def Let_def decision_def action_fits_def is_committed_status_def rbind_eq_Inr split: if_splits)

lemma status_report_status [simp]: "rep_execution_status (status_report a s p b) = Some (execution_status_value s)"
  by (simp add: status_report_def)

lemma verify_ambiguous_write_InrD:
  assumes "verify_ambiguous_write R verify run_id i record fallback w = (Inr (d, rec'), w')" and "\<not> conn_open w"
    and "canonical run_id" and "canonical i" and "dec_execution_id fallback = i" and "action_fits fallback"
    and "dec_status fallback = status_on_record (db w) i" and "status_on_record (db w) i = Some s0"
  shows "dec_execution_id d = i \<and> action_fits d \<and> dec_status d = status_on_record (db w') i \<and> only_status i w w' \<and> dec_status d \<noteq> None \<and>
    (d = fallback \<and> db w' = db w \<or> dec_status d \<in> {Some VERIFIED_COMMITTED, Some VERIFIED_NOT_FOUND})"
proof -
  obtain v w1 where v: "try_catch (bind (call_outside (verify i (res_tool_name record) (res_request_payload record))) (\<lambda>v. ret (Some v)))
       (\<lambda>e. ret None) w = (Inr v, w1)"
    and rest: "(case v of
       None \<Rightarrow> ret (fallback, record)
     | Some v \<Rightarrow> (case ver_committed v of
         Some True \<Rightarrow>
           bind (record_tool_result R run_id i
             (status_report OK VERIFIED_COMMITTED (Some (response_payload_from_verification v)) True)) (\<lambda>updated.
           ret (decision run_id i MARK_COMMITTED
             (''target verification confirmed commit: '' @ ver_reason v) (Some VERIFIED_COMMITTED), updated))
       | Some False \<Rightarrow>
           bind (record_tool_result R run_id i (status_report UNKNOWN VERIFIED_NOT_FOUND None False)) (\<lambda>updated.
           ret (decision run_id i REPLAY
             (''target verification found no commit: '' @ ver_reason v) (Some VERIFIED_NOT_FOUND), updated))
       | None \<Rightarrow> ret (fallback, record))) w1 = (Inr (d, rec'), w')"
    using assms(1) unfolding verify_ambiguous_write_def by (elim bind_InrE)
  have w1: "db w1 = db w" "conn_open w1 = conn_open w"
    using v by (auto simp: try_catch_def bind_def split: prod.splits sum.splits if_splits dest!: call_outside_same)
  consider (same) "d = fallback" "w' = w1" | (moved) s rep x where
      "record_tool_result R run_id i rep w1 = (Inr x, w')" "rep_execution_status rep = Some (execution_status_value s)"
      "dec_status d = Some s" "dec_execution_id d = i" "action_fits d" "s \<in> {VERIFIED_COMMITTED, VERIFIED_NOT_FOUND}"
    using rest by (auto split: option.splits bool.splits elim!: bind_InrE simp: decision_def action_fits_def)
  then show ?thesis
  proof cases
    case same
    then show ?thesis using assms w1 by (simp add: only_status_def)
  next
    case (moved s rep x)
    from record_result_outcome [OF moved(1) _ assms(3,4) moved(2)] w1 assms(2)
    have "exec_step run_id i s (db w) (db w')" "conn_open w' = conn_open w" by auto
    then show ?thesis using moved by (auto simp: only_status_def status_after_step status_of_other)
  qed
qed

lemma recover_one_InrD:
  assumes "recover_one R C run_id now records i w = (Inr d, w')" and "\<not> conn_open w"
    and "canonical run_id" and "canonical i"
    and "\<And>r. map_of records i = Some r \<Longrightarrow> status_on_record (db w) i = Some (res_execution_status r)"
  shows "dec_execution_id d = i \<and> action_fits d \<and> (dec_status d = None \<longleftrightarrow> map_of records i = None) \<and>
    (if dec_status d = None then True else dec_status d = status_on_record (db w') i) \<and> only_status i w w'"
proof (cases "map_of records i")
  case None
  let ?d = "decision run_id i HANDOFF_RETRY_OR_ABANDON ''pending execution is missing durable external result'' None"
  obtain u where "emit_handoff_if_needed R C ?d w = (Inr u, w')" "d = ?d"
    using assms(1) None by (auto simp: recover_one_def Let_def elim!: bind_InrE)
  then show ?thesis using None confinedD [OF quiet_recovery(1)]
    by (fastforce simp: decision_def action_fits_def only_status_def no_status_def)
next
  case (Some rcd)
  obtain d0 d1 rec' w1 where dec: "decide (default_wait_seconds C) run_id i rcd now = Inr d0"
    and ver: "(case verifier C of
               None \<Rightarrow> ret (d0, rcd)
             | Some verify \<Rightarrow>
                 if dec_action d0 = HANDOFF_RETRY_OR_ABANDON \<and> res_operation_type rcd = operation_value WRITE \<and>
                    res_execution_status rcd = DISPATCHED
                   then verify_ambiguous_write R verify run_id i rcd d0
                 else ret (d0, rcd)) w = (Inr (d1, rec'), w1)"
    and fin: "(if dec_action d1 = MARK_COMMITTED then
         bind (reconcile_tool_message R run_id rec') (\<lambda>_. ret d1)
       else if dec_action d1 = HANDOFF_RETRY_OR_ABANDON then
         bind (emit_handoff_if_needed R C d1) (\<lambda>_. ret d1)
       else ret d1) w1 = (Inr d, w')"
    using assms(1) Some by (auto simp: recover_one_def simp del: operation_value.simps elim!: bind_InrE)
  note d0 = decide_InrD [OF dec] and st = assms(5) [OF Some]
  have d1: "dec_status d1 \<noteq> None \<and> dec_execution_id d1 = i \<and> action_fits d1 \<and> dec_status d1 = status_on_record (db w1) i \<and> only_status i w w1"
  proof (cases "d1 = d0 \<and> w1 = w")
    case True
    then show ?thesis using d0 st by (simp add: only_status_def)
  next
    case False
    then obtain verify where "verify_ambiguous_write R verify run_id i rcd d0 w = (Inr (d1, rec'), w1)"
      using ver by (auto split: option.splits if_splits)
    from verify_ambiguous_write_InrD [OF this assms(2-4) _ _ _ st] d0 st
    show ?thesis by metis
  qed
  have "d = d1 \<and> no_status w1 w'"
    using fin quiet.stays [of w1]
    by (auto split: if_splits elim!: bind_InrE dest: confinedD [OF quiet_recovery(1)] confinedD [OF quiet_recovery(2)])
  then show ?thesis using d1 d0 st Some
    by (auto simp: only_status_def no_status_def)
qed

lemma recover_all_InrD:
  assumes "for_each (recover_one R C run_id now records) is w = (Inr ds, w')" and "\<not> conn_open w"
    and "canonical run_id" and "distinct is" and "list_all canonical is"
    and "\<And>i r. i \<in> set is \<Longrightarrow> map_of records i = Some r \<Longrightarrow> status_on_record (db w) i = Some (res_execution_status r)"
  shows "map dec_execution_id ds = is \<and> conn_open w' = conn_open w \<and>
    (\<forall>j. j \<notin> set is \<longrightarrow> status_on_record (db w') j = status_on_record (db w) j) \<and>
    list_all (\<lambda>d. action_fits d \<and> (dec_status d = None \<longleftrightarrow> map_of records (dec_execution_id d) = None) \<and>
      (if dec_status d = None then True else dec_status d = status_on_record (db w') (dec_execution_id d))) ds"
  using assms
proof (induction "is" arbitrary: w ds)
  case Nil
  then show ?case by simp
next
  case (Cons i "is")
  obtain d w1 ds' where one: "recover_one R C run_id now records i w = (Inr d, w1)"
    and rest: "for_each (recover_one R C run_id now records) is w1 = (Inr ds', w')" and ds: "ds = d # ds'"
    using Cons.prems(1) by (auto elim!: bind_InrE)
  have o: "dec_execution_id d = i \<and> action_fits d \<and> (dec_status d = None \<longleftrightarrow> map_of records i = None) \<and>
    (if dec_status d = None then True else dec_status d = status_on_record (db w1) i) \<and> only_status i w w1"
    by (rule recover_one_InrD [OF one]) (use Cons.prems in auto)
  have r: "map dec_execution_id ds' = is \<and> conn_open w' = conn_open w1 \<and>
    (\<forall>j. j \<notin> set is \<longrightarrow> status_on_record (db w') j = status_on_record (db w1) j) \<and>
    list_all (\<lambda>d. action_fits d \<and> (dec_status d = None \<longleftrightarrow> map_of records (dec_execution_id d) = None) \<and>
      (if dec_status d = None then True else dec_status d = status_on_record (db w') (dec_execution_id d))) ds'"
  proof (rule Cons.IH [OF rest])
    fix j r
    assume "j \<in> set is" "map_of records j = Some r"
    then have "j \<noteq> i" "status_on_record (db w) j = Some (res_execution_status r)"
      using Cons.prems(4) Cons.prems(6) [of j r] by auto
    then show "status_on_record (db w1) j = Some (res_execution_status r)"
      using o by (simp add: only_status_def)
  qed (use Cons.prems o in \<open>auto simp: only_status_def\<close>)
  show ?case using o r ds Cons.prems(4) by (auto simp: only_status_def)
qed

text \<open>The listed records carry the status that is on record under their identifier.\<close>

lemma get_external_result_InrD:
  assumes "get_external_result i w = (Inr found, w')"
  shows "w' = w \<and> (\<forall>r. found = Some r \<longrightarrow> res_execution_id r = strip i \<and> canonical (strip i) \<and>
    status_on_record (db w) (strip i) = Some (res_execution_status r))"
  using assms
  by (auto simp: get_external_result_def require_JStr result_of_row_def rbind_eq_Inr status_on_record_def canonical_def
      elim!: bind_InrE split: if_splits option.splits)

lemma reload_result_InrD:
  assumes "reload_result R r w = (Inr r', w')"
  shows "w' = w \<and> res_execution_id r' = strip (res_execution_id r) \<and> res_execution_status r' = res_execution_status r"
proof -
  from assms have "result_from_dict (forms R) (clock R (ticks w)) (result_to_dict r) = Inr r' \<and> w' = w"
    by (auto simp: reload_result_def peek_now_def elim!: bind_InrE)
  then show ?thesis using result_reload_fields by blast
qed

lemma list_external_results_InrD:
  assumes "list_external_results run_id w = (Inr rs, w')"
  shows "w' = w \<and> (\<forall>r\<in>set rs. canonical (res_execution_id r) \<and>
    status_on_record (db w) (res_execution_id r) = Some (res_execution_status r))"
proof -
  from assms obtain u w1 ids w2 os w3 where u: "lift (require_non_empty_str (JStr run_id) ''run_id'') w = (Inr u, w1)"
    and ids: "read_db (\<lambda>d. map fst (sort_key (\<lambda>(i, row). (row_created_at row, i))
       (filter (\<lambda>(i, row). row_run_id row = u) (external_results d)))) w1 = (Inr ids, w2)"
    and os: "for_each get_external_result ids w2 = (Inr os, w3)"
    and rs: "ret (List.map_filter (\<lambda>r. r) os) w3 = (Inr rs, w')"
    unfolding list_external_results_def by (elim bind_InrE) blast
  have o3: "w3 = w2 \<and> list_all2 (\<lambda>i found. get_external_result i w2 = (Inr found, w2)) ids os"
    using os by (rule for_each_pure [rotated]) (blast dest: get_external_result_InrD)
  have w2: "w2 = w" using u ids by (simp add: lift_def split: sum.splits)
  have "canonical (res_execution_id r) \<and> status_on_record (db w) (res_execution_id r) = Some (res_execution_status r)"
    if "r \<in> set rs" for r
  proof -
    have "Some r \<in> set os" using that rs by (auto simp: List.map_filter_def)
    from list_all2_setD [OF conjunct2 [OF o3] this]
    obtain i where "get_external_result i w2 = (Inr (Some r), w2)" by blast
    from get_external_result_InrD [OF this] w2 show ?thesis by simp
  qed
  then show ?thesis using o3 w2 rs by simp
qed

lemma service_list_results_InrD:
  assumes "service_list_results R run_id w = (Inr rs, w')"
  shows "w' = w \<and> list_all (\<lambda>r. canonical (res_execution_id r) \<and>
    status_on_record (db w) (res_execution_id r) = Some (res_execution_status r)) rs"
proof -
  from assms obtain c w1 rs0 w2 where c: "load_required_context R run_id w = (Inr c, w1)"
    and l: "list_external_results run_id w1 = (Inr rs0, w2)"
    and rs: "for_each (reload_result R) rs0 w2 = (Inr rs, w')"
    unfolding service_list_results_def repo_list_results_def by (elim bind_InrE) blast
  have w1: "w1 = w" using load_required_context_InrD [OF c] by blast
  note l0 = list_external_results_InrD [OF l]
  have r2: "w' = w2 \<and> list_all2 (\<lambda>r r'. reload_result R r w2 = (Inr r', w2)) rs0 rs"
    using rs by (rule for_each_pure [rotated]) (blast dest: reload_result_InrD)
  have "canonical (res_execution_id r') \<and> status_on_record (db w) (res_execution_id r') = Some (res_execution_status r')"
    if r': "r' \<in> set rs" for r'
  proof -
    from list_all2_setD [OF conjunct2 [OF r2] r']
    obtain r where r: "r \<in> set rs0" "reload_result R r w2 = (Inr r', w2)" by blast
    from l0 r(1) w1 have "canonical (res_execution_id r)" "status_on_record (db w) (res_execution_id r) = Some (res_execution_status r)"
      by blast+
    with reload_result_InrD [OF r(2)] show ?thesis by (simp add: canonical_def)
  qed
  then show ?thesis using w1 l0 r2 by (simp add: list_all_iff)
qed

lemma list_pending_InrD:
  assumes "list_pending_executions R run_id w = (Inr ids, w')" and "contexts_ok (db w)"
  shows "w' = w \<and> list_all canonical ids"
proof -
  obtain found where f: "repo_load_context R run_id w = (Inr found, w')"
    and ids: "ids = (case found of None \<Rightarrow> [] | Some c \<Rightarrow> ctx_pending_execution_ids c)"
    using assms(1) by (auto simp: list_pending_executions_def elim!: bind_InrE)
  note l = repo_load_context_InrD [OF f]
  show ?thesis
  proof (cases found)
    case None
    then show ?thesis using l ids by simp
  next
    case (Some c)
    then obtain c0 now where "context_view (db w) (strip run_id) = Some c0"
      and re: "context_from_dict (forms R) now (context_to_dict c0) = Inr c" using l by auto
    then have "good_context c0" using assms(2) by (auto simp: contexts_ok_def)
    then have "good_context c" using context_reload_good [OF re] by blast
    then show ?thesis using l ids Some by (simp add: good_context_def pending_consistent_def)
  qed
qed

lemma recovery_reads:
  assumes "(case now of Some t \<Rightarrow> ret t | None \<Rightarrow> utc_now R) w = (Inr (t::int), w0)"
    and "repo_load_context R run_id w0 = (Inr ctx, w1)"
    and "service_list_results R run_id w1 = (Inr rs, w2)"
    and "list_pending_executions R run_id w2 = (Inr pend, w3)"
    and "contexts_ok (db w)"
    and records: "records = rev (map (\<lambda>r. (res_execution_id r, r)) rs)"
  shows "conn_open w3 = conn_open w \<and> list_all canonical (sort (remdups (map fst records @ pend))) \<and>
    (\<forall>i x. map_of records i = Some x \<longrightarrow> status_on_record (db w3) i = Some (res_execution_status x))"
proof -
  have w0: "db w0 = db w" "conn_open w0 = conn_open w" using assms(1) by (auto split: option.splits)
  have w1: "w1 = w0" using repo_load_context_InrD [OF assms(2)] by blast
  note r = service_list_results_InrD [OF assms(3)]
  have p: "w3 = w2 \<and> list_all canonical pend"
    by (rule list_pending_InrD [OF assms(4)]) (use r w1 w0 assms(5) in simp)
  have "status_on_record (db w3) i = Some (res_execution_status x)" if "map_of records i = Some x" for i x
    using map_of_SomeD [OF that] r p by (auto simp: records list_all_iff)
  then show ?thesis using r p w0 w1 by (auto simp: records list_all_iff)
qed

section \<open>A recovery is a run of the facade\<close>

lemma call_outside_run [effect]:
  "confined (facade_step R)\<^sup>*\<^sup>* (call_outside f)" "confined (facade_step R)\<^sup>*\<^sup>* (add_emitted_key k)"
  unfolding call_outside_def add_emitted_key_def by (rule call_tool_run)+

lemma emitted_keys_run [effect]: "confined (facade_step R)\<^sup>*\<^sup>* emitted_keys"
  unfolding emitted_keys_def by (intro effect)

lemma message_run: "canonical r \<Longrightarrow> confined (facade_step R)\<^sup>*\<^sup>* (record_context_message R r role c meta nm tc)"
  by (auto simp: confined_def intro: facade_step.intros)

lemma try_run [effect]:
  "confined (facade_step R)\<^sup>*\<^sup>* m \<Longrightarrow> (\<And>e. confined (facade_step R)\<^sup>*\<^sup>* (h e)) \<Longrightarrow>
    confined (facade_step R)\<^sup>*\<^sup>* (try_catch m h)"
  by (rule runs.try_catch)

lemma case_bool_run: "confined Q m \<Longrightarrow> confined Q m' \<Longrightarrow> confined Q (case b of True \<Rightarrow> m | False \<Rightarrow> m')"
  by (cases b) simp_all

lemma recover_one_run:
  assumes "canonical run_id" and "canonical i"
  shows "confined (facade_step R)\<^sup>*\<^sup>* (recover_one R C run_id now records i)"
  unfolding recover_one_def verify_ambiguous_write_def emit_handoff_if_needed_def reconcile_tool_message_def Let_def
  by (intro effect agent_reads [THEN reads_run] tool_operations_run message_run assms)
    (intro case_bool_run effect tool_operations_run assms)

lemma recover_each_run:
  "canonical run_id \<Longrightarrow> list_all canonical is \<Longrightarrow>
    confined (facade_step R)\<^sup>*\<^sup>* (for_each (recover_one R C run_id now records) is)"
  by (induction "is") (auto intro!: effect recover_one_run)

lemma run_bind:
  assumes "bind m f w = (res, w')" and "confined (facade_step R)\<^sup>*\<^sup>* m"
    and "\<And>x v. m w = (Inr x, v) \<Longrightarrow> f x v = (res, w') \<Longrightarrow> (facade_step R)\<^sup>*\<^sup>* v w'"
  shows "(facade_step R)\<^sup>*\<^sup>* w w'"
  using assms(1)
proof (cases rule: bind_cases)
  case (raised e)
  then show ?thesis using confinedD [OF assms(2)] by blast
next
  case (returned x v)
  then show ?thesis using confinedD [OF assms(2) returned(1)] assms(3) by (meson rtranclp_trans)
qed

lemma list_pending_reads: "confined same_db (list_pending_executions R run_id)"
  unfolding list_pending_executions_def by (intro effect)

lemma recover_run_run:
  assumes "recover_run R C run_id now w = (res, w')" and "canonical run_id" and "contexts_ok (db w)"
  shows "(facade_step R)\<^sup>*\<^sup>* w w'"
proof (rule run_bind [OF assms(1) [unfolded recover_run_def]])
  show "confined (facade_step R)\<^sup>*\<^sup>* (case now of Some t \<Rightarrow> ret t | None \<Rightarrow> utc_now R)"
    by (intro effect reads_run [OF reads_basic(1)])
  fix t w0
  assume t: "(case now of Some t \<Rightarrow> ret t | None \<Rightarrow> utc_now R) w = (Inr t, w0)"
    and m0: "bind (repo_load_context R run_id) (\<lambda>context.
     if context = None then ret [] else
     bind (service_list_results R run_id) (\<lambda>results.
     bind (list_pending_executions R run_id) (\<lambda>pending.
     let records = rev (map (\<lambda>r. (res_execution_id r, r)) results) in
     for_each (recover_one R C run_id t records) (sort (remdups (map fst records @ pending)))))) w0 = (res, w')"
  show "(facade_step R)\<^sup>*\<^sup>* w0 w'"
  proof (rule run_bind [OF m0 reads_run [OF agent_reads(3)]])
    fix ctx w1
    assume c: "repo_load_context R run_id w0 = (Inr ctx, w1)"
      and m1: "(if ctx = None then ret [] else
        bind (service_list_results R run_id) (\<lambda>results.
        bind (list_pending_executions R run_id) (\<lambda>pending.
        let records = rev (map (\<lambda>r. (res_execution_id r, r)) results) in
        for_each (recover_one R C run_id t records) (sort (remdups (map fst records @ pending)))))) w1 = (res, w')"
    show "(facade_step R)\<^sup>*\<^sup>* w1 w'"
    proof (cases "ctx = None")
      case False
      show ?thesis
      proof (rule run_bind [OF m1 [unfolded if_not_P [OF False]] reads_run [OF agent_reads(8)]],
          rule run_bind [OF _ reads_run [OF list_pending_reads]], assumption)
        fix rs w2 pend w3
        assume rs: "service_list_results R run_id w1 = (Inr rs, w2)"
          and pend: "list_pending_executions R run_id w2 = (Inr pend, w3)"
          and each: "(let records = rev (map (\<lambda>r. (res_execution_id r, r)) rs) in
            for_each (recover_one R C run_id t records) (sort (remdups (map fst records @ pend)))) w3 = (res, w')"
        note reads = recovery_reads [OF t c rs pend assms(3) refl]
        show "(facade_step R)\<^sup>*\<^sup>* w3 w'"
          by (rule confinedD [OF recover_each_run [OF assms(2)] each [unfolded Let_def]]) (use reads in blast)
      qed
    qed (use m1 in simp)
  qed
qed

section \<open>Where the recovery and the live path disagree\<close>

text \<open>
  The verifier is asked about \<open>dispatched\<close> records only: a record that is \<open>verified_not_found\<close> is
  decided from the record, whatever the target holds by now.
\<close>

lemma verified_not_found_is_not_probed_again:
  assumes "map_of records i = Some r" and "res_execution_status r = VERIFIED_NOT_FOUND"
  shows "recover_one R C run_id now records i w =
    (Inr (decision run_id i REPLAY ''target verification indicates missing commit'' (Some VERIFIED_NOT_FOUND)), w)"
  using assms by (cases "verifier C") (simp_all add: recover_one_def decide_def decision_def)

text \<open>
  C29: an intent that was never dispatched is stuck. The recovery decides to replay it, and the
  call it is to be replayed with returns it to the recovery, without a step.
\<close>

theorem undispatched_intent_is_stuck:
  assumes "normalize_operation_type (call_operation_type c) = Inr kind"
    and "repo_get_result R (call_execution_id R c) w = (Inr (Some r), w)"
    and "res_execution_status r = INTENT_LOGGED"
  shows "map_option dec_action (case decide dw run_id i r now of Inl e \<Rightarrow> None | Inr d \<Rightarrow> Some d) = Some REPLAY \<and>
    execute_tool R dr adapter c w = (Inr (handle_existing r), w) \<and> tx_disposition (handle_existing r) = PENDING_RECOVERY"
  using assms by (simp add: decide_def decision_def execute_tool_def Let_def bind_Inr handle_existing_def)

end
