(* ===== verification/Demo_Run.thy ===== *)
theory Demo_Run
  imports Recovery
begin

text \<open>
  A concrete run, evaluated: a process with a clock, identifiers and a stand-in for the hash, a plan
  of one item that pays once, and a target that counts the payments. The worlds below are what
  the program leaves after each step; the lemmas at the end derive them from the operations. The
  properties of the development are instantiated on these worlds.
\<close>

section \<open>The process, the plan and the target\<close>

definition demo_hex :: "string \<Rightarrow> string" where
  "demo_hex s = map (\<lambda>c. ''0123456789abcdef'' ! (of_char c mod 16)) (rev s)"

definition demo_forms :: text_forms where
  "demo_forms = \<lparr>float_repr = (\<lambda>x. int_str \<lfloor>x\<rfloor>), iso_text = int_str, of_iso_text = parse_int\<rparr>"

definition demo_runtime :: runtime where
  "demo_runtime = \<lparr>clock = (\<lambda>n. int n * 1000), uuid4 = (\<lambda>n. ''uuid'' @ int_str (int n)), sha256_hex = demo_hex,
     forms = demo_forms, payload_inline_limit_bytes = 8192, checkpoint_every_n_events = 20,
     enforce_execution_dedup = True, mirror = None\<rparr>"

definition demo_start :: "(nat beside, planner_state \<times> agent_context) op" where
  "demo_start = start_run demo_runtime ''r1'' [] ''plan'' [JObj [(''title'', JStr ''pay'')]] None False None"

definition demo_empty :: "nat beside world" where
  "demo_empty = \<lparr>db = empty_db, conn_open = False, ticks = 0, uuids = 0, outside = (0, [])\<rparr>"

definition demo_call :: tool_call where
  "demo_call = \<lparr>call_run_id = ''r1'', call_plan_item_id = ''step_0'', call_tool_name = ''pay'',
     call_request = [(''n'', JInt 1)], call_operation_type = ''write'', call_invocation_key = None,
     call_timeout_s = None, call_idempotency_supported = False\<rparr>"

definition pay :: "(nat \<times> string list) tool_adapter" where
  "pay tool request execution_id timeout t = (Inr (JObj [(''ok'', JBool True)]), (Suc (fst t), snd t))"
text \<open>The payment is made but the response is lost; or it is never sent.\<close>

definition pay_lost :: "(nat \<times> string list) tool_adapter" where
  "pay_lost tool request execution_id timeout t = (Inl (Exn AmbiguousToolError ''response lost''), (Suc (fst t), snd t))"

definition pay_unsent :: "(nat \<times> string list) tool_adapter" where
  "pay_unsent tool request execution_id timeout t = (Inl (Exn AmbiguousToolError ''timeout''), t)"

definition count_paid :: "nat write_verifier" where
  "count_paid execution_id tool request n = (Inr \<lparr>ver_committed = Some (0 < n), ver_reason = ''probe'',
     ver_record = JNull, ver_receipt = JNull\<rparr>, n)"

definition demo_coordinator :: "nat coordinator" where
  "demo_coordinator = \<lparr>default_wait_seconds = Fin 5, verifier = Some count_paid, on_handoff = None\<rparr>"

section \<open>The worlds of the run\<close>

text \<open>After the start of the run.\<close>

definition demo_started :: "nat beside world" where
  "demo_started = \<lparr>db = \<lparr>
     planner_states = [(''r1'', \<lparr>ps_run_id = ''r1'', ps_version = 1, ps_plan_source_text = ''plan'',
     ps_items = [], ps_plan_schema = [(''goal'', JStr []), (''constraints'', JList []), (''verification'', JList
     []), (''source_format'', JStr ''normalized''), (''steps'', JList [JObj [(''plan_item_id'', JStr
     ''step_0''), (''title'', JStr ''pay''), (''description'', JStr []), (''depends_on'', JList []),
     (''acceptance_criteria'', JList []), (''sequence_index'', JInt 0)]])], ps_active_item_id = Some ''step_0'',
     ps_cursor_index = Some 0, ps_updated_at = 4000\<rparr>)],
     planner_items = [(''r1'', \<lparr>pi_id = ''step_0'', pi_title = ''pay'', pi_description = [], pi_status =
     PENDING, pi_sequence_index = 0, pi_depends_on = [], pi_acceptance_criteria = [], pi_llm_output = None,
     pi_llm_output_history = [], pi_tool_call_refs = [], pi_notes = [], pi_updated_at = 2000\<rparr>)],
     agent_contexts = [(''r1'', \<lparr>ctx_run_id = ''r1'', ctx_turn_index = 0, ctx_step_index = 0,
     ctx_planner_version = 1, ctx_messages = [], ctx_memory = [], ctx_pending_execution_id = None,
     ctx_pending_execution_ids = [], ctx_last_checkpoint_seq = None, ctx_updated_at = 10000\<rparr>)],
     agent_messages = [],
     payload_artifacts = [],
     external_results = [],
     wal_events = [\<lparr>ev_seq_id = 1, ev_run_id = ''r1'', ev_event_type = ''RUN_STARTED'', ev_entity_type =
     ''run'', ev_entity_id = ''r1'', ev_payload = [(''initial_message_count'', JInt 0), (''plan_item_count'',
     JInt 1)], ev_created_at = 0\<rparr>, \<lparr>ev_seq_id = 2, ev_run_id = ''r1'', ev_event_type =
     ''PLAN_CREATED'', ev_entity_type = ''planner'', ev_entity_id = ''r1'', ev_payload = [(''plan_source_text'',
     JStr ''plan''), (''plan_items'', JList [JObj [(''title'', JStr ''pay'')]]), (''plan_schema'', JObj [])],
     ev_created_at = 1000\<rparr>, \<lparr>ev_seq_id = 3, ev_run_id = ''r1'', ev_event_type =
     ''CONTEXT_INITIALIZED'', ev_entity_type = ''context'', ev_entity_id = ''r1'', ev_payload =
     [(''initial_messages'', JList []), (''initial_memory'', JObj [])], ev_created_at = 5000\<rparr>,
     \<lparr>ev_seq_id = 4, ev_run_id = ''r1'', ev_event_type = ''CONTEXT_SYNCHRONIZED'', ev_entity_type =
     ''context'', ev_entity_id = ''r1'', ev_payload = [(''planner_version'', JInt 1), (''cursor_index'', JInt
     0)], ev_created_at = 8000\<rparr>],
     wal_seq = 4,
     wal_checkpoints = [],
     evaluation_spans = []\<rparr>,
     conn_open = False, ticks = 11, uuids = 0, outside = (0, [])\<rparr>"

text \<open>After a payment that is acknowledged.\<close>

definition demo_acked :: "nat beside world" where
  "demo_acked = demo_started\<lparr>db := (db demo_started)\<lparr>
     planner_states := [(''r1'', \<lparr>ps_run_id = ''r1'', ps_version = 2, ps_plan_source_text = ''plan'',
     ps_items = [], ps_plan_schema = [(''goal'', JStr []), (''constraints'', JList []), (''verification'', JList
     []), (''source_format'', JStr ''normalized''), (''steps'', JList [JObj [(''plan_item_id'', JStr
     ''step_0''), (''title'', JStr ''pay''), (''description'', JStr []), (''depends_on'', JList []),
     (''acceptance_criteria'', JList []), (''sequence_index'', JInt 0)]])], ps_active_item_id = Some ''step_0'',
     ps_cursor_index = Some 0, ps_updated_at = 14000\<rparr>)],
     planner_items := [(''r1'', \<lparr>pi_id = ''step_0'', pi_title = ''pay'', pi_description = [], pi_status =
     PENDING, pi_sequence_index = 0, pi_depends_on = [], pi_acceptance_criteria = [], pi_llm_output = None,
     pi_llm_output_history = [], pi_tool_call_refs = [''exec_d1a2e2bc910c0f0543c12''], pi_notes = [],
     pi_updated_at = 12000\<rparr>)],
     agent_contexts := [(''r1'', \<lparr>ctx_run_id = ''r1'', ctx_turn_index = 0, ctx_step_index = 0,
     ctx_planner_version = 2, ctx_messages = [], ctx_memory = [], ctx_pending_execution_id = None,
     ctx_pending_execution_ids = [], ctx_last_checkpoint_seq = None, ctx_updated_at = 32000\<rparr>)],
     external_results := [(''exec_d1a2e2bc910c0f0543c12'', \<lparr>row_run_id = ''r1'', row_plan_item_id = Some
     ''step_0'', row_tool_name = ''pay'', row_operation_type = ''WRITE'', row_request_payload = Some [(''n'',
     JInt 1)], row_response_payload = Some [(''ok'', JBool True)], row_request_ref_id = None,
     row_response_ref_id = None, row_result_status = OK, row_execution_status = ACKED, row_error_message = None,
     row_created_at = 20000, row_updated_at = 29000\<rparr>)],
     wal_events := wal_events (db demo_started) @ [\<lparr>ev_seq_id = 5, ev_run_id = ''r1'', ev_event_type =
     ''TOOL_INTENT_RECORDED'', ev_entity_type = ''tool_intent'', ev_entity_id = ''exec_d1a2e2bc910c0f0543c12'',
     ev_payload = [(''plan_item_id'', JStr ''step_0''), (''tool_name'', JStr ''pay''), (''operation_type'', JStr
     ''WRITE''), (''request_payload'', JObj [(''n'', JInt 1)]), (''execution_status'', JStr ''intent_logged'')],
     ev_created_at = 11000\<rparr>, \<lparr>ev_seq_id = 6, ev_run_id = ''r1'', ev_event_type =
     ''CONTEXT_PENDING_EXECUTION_SET'', ev_entity_type = ''context'', ev_entity_id = ''r1'', ev_payload =
     [(''pending_execution_id'', JStr ''exec_d1a2e2bc910c0f0543c12''), (''pending_execution_ids'', JList [JStr
     ''exec_d1a2e2bc910c0f0543c12''])], ev_created_at = 15000\<rparr>, \<lparr>ev_seq_id = 7, ev_run_id =
     ''r1'', ev_event_type = ''CONTEXT_SYNCHRONIZED'', ev_entity_type = ''context'', ev_entity_id = ''r1'',
     ev_payload = [(''planner_version'', JInt 2), (''cursor_index'', JInt 0)], ev_created_at = 21000\<rparr>,
     \<lparr>ev_seq_id = 8, ev_run_id = ''r1'', ev_event_type = ''TOOL_DISPATCHED'', ev_entity_type =
     ''tool_intent'', ev_entity_id = ''exec_d1a2e2bc910c0f0543c12'', ev_payload = [(''execution_status'', JStr
     ''dispatched''), (''tool_name'', JStr ''pay'')], ev_created_at = 24000\<rparr>, \<lparr>ev_seq_id = 9,
     ev_run_id = ''r1'', ev_event_type = ''EXTERNAL_RESULT_RECORDED'', ev_entity_type = ''external_result'',
     ev_entity_id = ''exec_d1a2e2bc910c0f0543c12'', ev_payload = [(''result_status'', JStr ''ok''),
     (''execution_status'', JStr ''acked''), (''tool_name'', JStr ''pay''), (''operation_type'', JStr
     ''WRITE''), (''plan_item_id'', JStr ''step_0''), (''has_response'', JBool True), (''error_message'',
     JNull)], ev_created_at = 27000\<rparr>, \<lparr>ev_seq_id = 10, ev_run_id = ''r1'', ev_event_type =
     ''CONTEXT_PENDING_EXECUTION_SET'', ev_entity_type = ''context'', ev_entity_id = ''r1'', ev_payload =
     [(''pending_execution_id'', JNull), (''pending_execution_ids'', JList [])], ev_created_at = 30000\<rparr>],
     wal_seq := 10\<rparr>,
     ticks := 33,
     outside := (1, [])\<rparr>"

text \<open>After a payment that timed out before it was sent.\<close>

definition demo_unsent :: "nat beside world" where
  "demo_unsent = demo_started\<lparr>db := (db demo_started)\<lparr>
     planner_states := [(''r1'', \<lparr>ps_run_id = ''r1'', ps_version = 2, ps_plan_source_text = ''plan'',
     ps_items = [], ps_plan_schema = [(''goal'', JStr []), (''constraints'', JList []), (''verification'', JList
     []), (''source_format'', JStr ''normalized''), (''steps'', JList [JObj [(''plan_item_id'', JStr
     ''step_0''), (''title'', JStr ''pay''), (''description'', JStr []), (''depends_on'', JList []),
     (''acceptance_criteria'', JList []), (''sequence_index'', JInt 0)]])], ps_active_item_id = Some ''step_0'',
     ps_cursor_index = Some 0, ps_updated_at = 14000\<rparr>)],
     planner_items := [(''r1'', \<lparr>pi_id = ''step_0'', pi_title = ''pay'', pi_description = [], pi_status =
     PENDING, pi_sequence_index = 0, pi_depends_on = [], pi_acceptance_criteria = [], pi_llm_output = None,
     pi_llm_output_history = [], pi_tool_call_refs = [''exec_d1a2e2bc910c0f0543c12''], pi_notes = [],
     pi_updated_at = 12000\<rparr>)],
     agent_contexts := [(''r1'', \<lparr>ctx_run_id = ''r1'', ctx_turn_index = 0, ctx_step_index = 0,
     ctx_planner_version = 2, ctx_messages = [], ctx_memory = [], ctx_pending_execution_id = Some
     ''exec_d1a2e2bc910c0f0543c12'', ctx_pending_execution_ids = [''exec_d1a2e2bc910c0f0543c12''],
     ctx_last_checkpoint_seq = None, ctx_updated_at = 23000\<rparr>)],
     external_results := [(''exec_d1a2e2bc910c0f0543c12'', \<lparr>row_run_id = ''r1'', row_plan_item_id = Some
     ''step_0'', row_tool_name = ''pay'', row_operation_type = ''WRITE'', row_request_payload = Some [(''n'',
     JInt 1)], row_response_payload = None, row_request_ref_id = None, row_response_ref_id = None,
     row_result_status = TIMEOUT, row_execution_status = DISPATCHED, row_error_message = Some ''timeout'',
     row_created_at = 20000, row_updated_at = 29000\<rparr>)],
     wal_events := wal_events (db demo_started) @ [\<lparr>ev_seq_id = 5, ev_run_id = ''r1'', ev_event_type =
     ''TOOL_INTENT_RECORDED'', ev_entity_type = ''tool_intent'', ev_entity_id = ''exec_d1a2e2bc910c0f0543c12'',
     ev_payload = [(''plan_item_id'', JStr ''step_0''), (''tool_name'', JStr ''pay''), (''operation_type'', JStr
     ''WRITE''), (''request_payload'', JObj [(''n'', JInt 1)]), (''execution_status'', JStr ''intent_logged'')],
     ev_created_at = 11000\<rparr>, \<lparr>ev_seq_id = 6, ev_run_id = ''r1'', ev_event_type =
     ''CONTEXT_PENDING_EXECUTION_SET'', ev_entity_type = ''context'', ev_entity_id = ''r1'', ev_payload =
     [(''pending_execution_id'', JStr ''exec_d1a2e2bc910c0f0543c12''), (''pending_execution_ids'', JList [JStr
     ''exec_d1a2e2bc910c0f0543c12''])], ev_created_at = 15000\<rparr>, \<lparr>ev_seq_id = 7, ev_run_id =
     ''r1'', ev_event_type = ''CONTEXT_SYNCHRONIZED'', ev_entity_type = ''context'', ev_entity_id = ''r1'',
     ev_payload = [(''planner_version'', JInt 2), (''cursor_index'', JInt 0)], ev_created_at = 21000\<rparr>,
     \<lparr>ev_seq_id = 8, ev_run_id = ''r1'', ev_event_type = ''TOOL_DISPATCHED'', ev_entity_type =
     ''tool_intent'', ev_entity_id = ''exec_d1a2e2bc910c0f0543c12'', ev_payload = [(''execution_status'', JStr
     ''dispatched''), (''tool_name'', JStr ''pay'')], ev_created_at = 24000\<rparr>, \<lparr>ev_seq_id = 9,
     ev_run_id = ''r1'', ev_event_type = ''EXTERNAL_RESULT_RECORDED'', ev_entity_type = ''external_result'',
     ev_entity_id = ''exec_d1a2e2bc910c0f0543c12'', ev_payload = [(''result_status'', JStr ''timeout''),
     (''execution_status'', JStr ''dispatched''), (''tool_name'', JStr ''pay''), (''operation_type'', JStr
     ''WRITE''), (''plan_item_id'', JStr ''step_0''), (''has_response'', JBool False), (''error_message'', JStr
     ''timeout'')], ev_created_at = 27000\<rparr>],
     wal_seq := 9\<rparr>,
     ticks := 30\<rparr>"

text \<open>After the recovery that follows: the target has no payment.\<close>

definition demo_not_found :: "nat beside world" where
  "demo_not_found = demo_unsent\<lparr>db := (db demo_unsent)\<lparr>
     external_results := [(''exec_d1a2e2bc910c0f0543c12'', \<lparr>row_run_id = ''r1'', row_plan_item_id = Some
     ''step_0'', row_tool_name = ''pay'', row_operation_type = ''WRITE'', row_request_payload = Some [(''n'',
     JInt 1)], row_response_payload = None, row_request_ref_id = None, row_response_ref_id = None,
     row_result_status = UNKNOWN, row_execution_status = VERIFIED_NOT_FOUND, row_error_message = None,
     row_created_at = 20000, row_updated_at = 32000\<rparr>)],
     wal_events := wal_events (db demo_unsent) @ [\<lparr>ev_seq_id = 10, ev_run_id = ''r1'', ev_event_type =
     ''EXTERNAL_RESULT_RECORDED'', ev_entity_type = ''external_result'', ev_entity_id =
     ''exec_d1a2e2bc910c0f0543c12'', ev_payload = [(''result_status'', JStr ''unknown''), (''execution_status'',
     JStr ''verified_not_found''), (''tool_name'', JStr ''pay''), (''operation_type'', JStr ''WRITE''),
     (''plan_item_id'', JStr ''step_0''), (''has_response'', JBool False), (''error_message'', JNull)],
     ev_created_at = 30000\<rparr>],
     wal_seq := 10\<rparr>,
     ticks := 33\<rparr>"

text \<open>After the replay, whose payment is made but whose response is lost.\<close>

definition demo_lost_again :: "nat beside world" where
  "demo_lost_again = demo_not_found\<lparr>db := (db demo_not_found)\<lparr>
     external_results := [(''exec_d1a2e2bc910c0f0543c12'', \<lparr>row_run_id = ''r1'', row_plan_item_id = Some
     ''step_0'', row_tool_name = ''pay'', row_operation_type = ''WRITE'', row_request_payload = Some [(''n'',
     JInt 1)], row_response_payload = None, row_request_ref_id = None, row_response_ref_id = None,
     row_result_status = TIMEOUT, row_execution_status = VERIFIED_NOT_FOUND, row_error_message = Some
     ''response lost'', row_created_at = 20000, row_updated_at = 35000\<rparr>)],
     wal_events := wal_events (db demo_not_found) @ [\<lparr>ev_seq_id = 11, ev_run_id = ''r1'', ev_event_type =
     ''EXTERNAL_RESULT_RECORDED'', ev_entity_type = ''external_result'', ev_entity_id =
     ''exec_d1a2e2bc910c0f0543c12'', ev_payload = [(''result_status'', JStr ''timeout''), (''execution_status'',
     JStr ''verified_not_found''), (''tool_name'', JStr ''pay''), (''operation_type'', JStr ''WRITE''),
     (''plan_item_id'', JStr ''step_0''), (''has_response'', JBool False), (''error_message'', JStr
     ''response lost'')], ev_created_at = 33000\<rparr>],
     wal_seq := 11\<rparr>,
     ticks := 36,
     outside := (1, [])\<rparr>"

section \<open>The run\<close>

lemma demo_started_run: "snd (demo_start demo_empty) = demo_started"
  by code_simp

lemma demo_acked_run: "execute_tool demo_runtime False pay demo_call demo_started =
  (
    Inr \<lparr>tx_execution_id = ''exec_d1a2e2bc910c0f0543c12'', tx_disposition = SUCCEEDED, tx_record =
    \<lparr>res_execution_id = ''exec_d1a2e2bc910c0f0543c12'', res_run_id = ''r1'', res_plan_item_id = Some
    ''step_0'', res_tool_name = ''pay'', res_operation_type = ''WRITE'', res_request_payload = Some [(''n'',
    JInt 1)], res_response_payload = Some [(''ok'', JBool True)], res_request_payload_ref = None,
    res_response_payload_ref = None, res_result_status = OK, res_execution_status = ACKED, res_error_message =
    None, res_created_at = 20000, res_updated_at = 29000\<rparr>, tx_exception = None\<rparr>, demo_acked)"
  by code_simp

lemma demo_unsent_run: "execute_tool demo_runtime False pay_unsent demo_call demo_started =
  (
    Inr \<lparr>tx_execution_id = ''exec_d1a2e2bc910c0f0543c12'', tx_disposition = PENDING_RECOVERY, tx_record =
    \<lparr>res_execution_id = ''exec_d1a2e2bc910c0f0543c12'', res_run_id = ''r1'', res_plan_item_id = Some
    ''step_0'', res_tool_name = ''pay'', res_operation_type = ''WRITE'', res_request_payload = Some [(''n'',
    JInt 1)], res_response_payload = None, res_request_payload_ref = None, res_response_payload_ref = None,
    res_result_status = TIMEOUT, res_execution_status = DISPATCHED, res_error_message = Some ''timeout'',
    res_created_at = 20000, res_updated_at = 29000\<rparr>, tx_exception = Some (Exn AmbiguousToolError
    ''timeout'')\<rparr>, demo_unsent)"
  by code_simp

lemma demo_not_found_run: "recover_run demo_runtime demo_coordinator ''r1'' (Some 100000000) demo_unsent =
  (
    Inr [\<lparr>dec_run_id = ''r1'', dec_execution_id = ''exec_d1a2e2bc910c0f0543c12'', dec_action = REPLAY,
    dec_reason = ''target verification found no commit: probe'', dec_status = Some VERIFIED_NOT_FOUND,
    dec_wait_timeout_seconds = None, dec_wait_until = None\<rparr>], demo_not_found)"
  by code_simp

lemma demo_lost_again_run: "execute_tool demo_runtime False pay_lost demo_call demo_not_found =
  (
    Inr \<lparr>tx_execution_id = ''exec_d1a2e2bc910c0f0543c12'', tx_disposition = PENDING_RECOVERY, tx_record =
    \<lparr>res_execution_id = ''exec_d1a2e2bc910c0f0543c12'', res_run_id = ''r1'', res_plan_item_id = Some
    ''step_0'', res_tool_name = ''pay'', res_operation_type = ''WRITE'', res_request_payload = Some [(''n'',
    JInt 1)], res_response_payload = None, res_request_payload_ref = None, res_response_payload_ref = None,
    res_result_status = TIMEOUT, res_execution_status = VERIFIED_NOT_FOUND, res_error_message = Some
    ''response lost'', res_created_at = 20000, res_updated_at = 35000\<rparr>, tx_exception = Some (Exn
    AmbiguousToolError ''response lost'')\<rparr>, demo_lost_again)"
  by code_simp

lemma demo_hex_digest: "hex_digest demo_hex"
proof -
  have "''0123456789abcdef'' ! (of_char c mod 16) \<in> set ''0123456789abcdef''" for c :: char
    by (rule nth_mem) simp
  then show ?thesis unfolding hex_digest_def demo_hex_def set_map by blast
qed

lemma demo_runtime_hex [simp]: "sha256_hex demo_runtime = demo_hex"
  by (simp add: demo_runtime_def)

lemma demo_call_canonical: "canonical (call_execution_id demo_runtime demo_call)"
  unfolding call_execution_id_def by (rule execution_id_canonical) (simp add: demo_hex_digest)

lemma demo_run_canonical: "canonical (call_run_id demo_call)" "canonical ''r1''"
  by code_simp+

lemma demo_call_kind: "normalize_operation_type (call_operation_type demo_call) = Inr WRITE"
  by code_simp

lemma demo_reachable:
  "reachable demo_runtime demo_started" "reachable demo_runtime demo_acked" "reachable demo_runtime demo_unsent"
proof -
  have "facade_step demo_runtime demo_empty demo_started"
    unfolding demo_started_run [symmetric] demo_start_def by (rule facade_step.start) (rule demo_run_canonical)
  moreover have "db demo_empty = empty_db" "\<not> conn_open demo_empty" by (simp_all add: demo_empty_def)
  ultimately show started: "reachable demo_runtime demo_started" unfolding reachable_def by blast
  note run = reachable_run [OF started confinedD [OF execute_tool_run [OF demo_run_canonical(1) demo_call_canonical]]]
  show "reachable demo_runtime demo_acked" by (rule run [OF demo_acked_run])
  show "reachable demo_runtime demo_unsent" by (rule run [OF demo_unsent_run])
qed

lemma demo_closed: "\<not> conn_open demo_started" "\<not> conn_open demo_acked" "\<not> conn_open demo_unsent"
    "\<not> conn_open demo_not_found" "\<not> conn_open demo_lost_again"
  by (simp_all add: demo_started_def demo_acked_def demo_unsent_def demo_not_found_def demo_lost_again_def)

lemma demo_outside: "outside demo_started = (0, [])" "outside demo_acked = (1, [])" "outside demo_unsent = (0, [])"
    "outside demo_not_found = (0, [])" "outside demo_lost_again = (1, [])"
  by (simp_all add: demo_started_def demo_acked_def demo_unsent_def demo_not_found_def demo_lost_again_def)

end
