(* ===== verification/Contracts.thy ===== *)
theory Contracts
  imports Demo_Run
begin

text \<open>
  What the components promise their callers, stated over the operations themselves: transactions,
  the stores' round trips, the log and its checkpoints, the waiting window and the probe of an
  open write. Each property with hypotheses is followed by an instance on concrete data.
\<close>

section \<open>Transactions\<close>

text \<open>
  A transaction is all or nothing. If its body raises, the database is as before; if it
  returns, the database is what the body left; either way the connection is closed again.
\<close>

theorem transaction_all_or_nothing:
  assumes "\<not> conn_open w" and "transaction m w = (r, w')"
  shows "\<not> conn_open w' \<and>
    (case r of Inl e \<Rightarrow> db w' = db w
     | Inr x \<Rightarrow> \<exists>v. m (w\<lparr>conn_open := True\<rparr>) = (Inr x, v) \<and> db w' = db v)"
  by (rule transaction_atomic [OF assms])

definition demo_late :: "(nat beside, unit) op" where
  "demo_late = bind (update_db (insert_event ''r'' ''t'' ''n'' ''i'' [] 0)) (\<lambda>_. raise (Exn ValueError ''late''))"

lemma transaction_all_or_nothing_witness: "db (snd (transaction demo_late demo_empty)) = empty_db"
proof -
  have "transaction demo_late demo_empty = (Inl (Exn ValueError ''late''), snd (transaction demo_late demo_empty))"
    by (simp add: transaction_def demo_late_def demo_empty_def)
  from transaction_all_or_nothing [OF _ this] show ?thesis by (simp add: demo_empty_def)
qed

text \<open>
  A writing operation of the facade whose body raises leaves the database as it was, whatever
  the body did before; without a mirror that is every way it can raise.
\<close>

theorem failed_write_changes_nothing:
  assumes "run_write R run_id m w = (Inl e, w')" and "\<not> conn_open w" and "mirror R = None"
  shows "db w' = db w"
  using run_write_outcome [OF assms(1,2)] assms(3) by auto

lemma demo_no_mirror: "mirror demo_runtime = None"
  by (simp add: demo_runtime_def)

lemma failed_write_changes_nothing_witness:
  "isl (fst (record_tool_dispatch demo_runtime ''r1'' ''missing'' demo_acked)) \<and>
   db (snd (record_tool_dispatch demo_runtime ''r1'' ''missing'' demo_acked)) = db demo_acked"
proof -
  have failed: "fst (record_tool_dispatch demo_runtime ''r1'' ''missing'' demo_acked) =
    Inl (Exn ValueError ''tool intent not found for execution_id=missing'')"
    by code_simp
  then have run: "record_tool_dispatch demo_runtime ''r1'' ''missing'' demo_acked =
    (Inl (Exn ValueError ''tool intent not found for execution_id=missing''),
     snd (record_tool_dispatch demo_runtime ''r1'' ''missing'' demo_acked))"
    by (simp add: prod_eq_iff)
  from failed_write_changes_nothing [OF run [unfolded record_tool_dispatch_def] demo_closed(2) demo_no_mirror] failed
  show ?thesis by (simp add: record_tool_dispatch_def)
qed

text \<open>
  C25: the JSON mirror is written after the commit, and its failure is raised to the caller: the
  operation then reports an error for a write that is durable.
\<close>

theorem mirror_failure_hides_a_commit:
  assumes "transaction m w = (Inr x, w')" and "mirror R = Some write"
    and "rebuild_state R run_id None 1000 w' = (Inr bundle, w'')" and "write run_id bundle = Some e"
  shows "run_write R run_id m w = (Inl e, w'') \<and> db w'' = db w'"
proof -
  have "db w'' = db w'" using reads_onlyD [OF facade_reads(1) assms(3)] by blast
  then show ?thesis using assms by (simp add: run_write_def emit_after_commit_def bind_def)
qed

definition demo_full_disk :: runtime where
  "demo_full_disk = demo_runtime\<lparr>mirror := Some (\<lambda>run_id bundle. Some (Exn OSError ''no space left''))\<rparr>"

lemma mirror_failure_hides_a_commit_witness:
  "fst (run_write demo_full_disk ''r1'' (update_db (insert_event ''r1'' ''t'' ''n'' ''i'' [] 0)) demo_started) =
     Inl (Exn OSError ''no space left'') \<and>
   wal_seq (db (snd (run_write demo_full_disk ''r1'' (update_db (insert_event ''r1'' ''t'' ''n'' ''i'' [] 0)) demo_started))) = 5"
proof -
  let ?w = "demo_started\<lparr>db := insert_event ''r1'' ''t'' ''n'' ''i'' [] 0 (db demo_started)\<rparr>"
  have t: "transaction (update_db (insert_event ''r1'' ''t'' ''n'' ''i'' [] 0)) demo_started = (Inr (), ?w)"
    by (cases demo_started) (use demo_closed(1) in \<open>simp add: transaction_def\<close>)
  have "\<not> isl (fst (rebuild_state demo_full_disk ''r1'' None 1000 ?w))" by code_simp
  then obtain state w'' where "rebuild_state demo_full_disk ''r1'' None 1000 ?w = (Inr state, w'')"
    by (cases "rebuild_state demo_full_disk ''r1'' None 1000 ?w"; cases "fst (rebuild_state demo_full_disk ''r1'' None 1000 ?w)") auto
  from mirror_failure_hides_a_commit [OF t _ this, of "\<lambda>run_id bundle. Some (Exn OSError ''no space left'')"]
  show ?thesis by (simp add: demo_full_disk_def demo_started_def)
qed

section \<open>Round trips through the store\<close>

lemma wf_ordered: "wf_planner T st \<Longrightarrow> wf_planner T (ordered_planner st)"
  by (simp add: wf_planner_def integrity_ordered list_all_iff) (simp add: ordered_planner_def)

text \<open>
  C26: a plan that is saved is the plan that is loaded: a second process reading the database gets
  the same plan, with its items in the order of their indices, and every other plan is untouched.
\<close>

theorem saved_plan_is_loaded:
  assumes "wf_planner (forms R) st" and "storable_planner st" and "canonical (ps_run_id st)"
  shows "fst (repo_load_plan R (ps_run_id st) (snd (save_planner_state st w))) = Inr (Some (ordered_planner st)) \<and>
    (\<forall>k. k \<noteq> ps_run_id st \<longrightarrow> planner_view (db (snd (save_planner_state st w))) k = planner_view (db w) k)"
  using planner_roundtrip [OF wf_ordered [OF assms(1)]] assms(3) planners.get_put_other
  by (simp add: save_planner_state_ok [OF assms(2)] repo_load_plan_def load_planner_state_def planners.get_put_same
      reload_planner_def peek_now_def bind_def)

definition demo_plan :: planner_state where
  "demo_plan = (case planner_view (db demo_acked) ''r1'' of Some st \<Rightarrow> st)"

lemma saved_plan_is_loaded_witness:
  "fst (repo_load_plan demo_runtime (ps_run_id demo_plan) (snd (save_planner_state demo_plan demo_empty))) =
     Inr (Some (ordered_planner demo_plan))"
proof -
  have "wf_planner (forms demo_runtime) demo_plan" by code_simp
  moreover have "storable_planner demo_plan" by code_simp (simp add: sql_int_def)
  moreover have "canonical (ps_run_id demo_plan)" by code_simp
  ultimately show ?thesis using saved_plan_is_loaded by blast
qed

text \<open>
  A context that is saved is the context that is loaded, with its messages in order and their
  role and content stripped.
\<close>

theorem saved_context_is_loaded:
  assumes "wf_context c" and "storable_context c"
  shows "fst (repo_load_context R (ctx_run_id c) (snd (save_context_snapshot c w))) = Inr (Some (norm_context c)) \<and>
    (\<forall>k. k \<noteq> ctx_run_id c \<longrightarrow> context_view (db (snd (save_context_snapshot c w))) k = context_view (db w) k)"
  using context_reload [OF assms(1)] assms(1) contexts.get_put_other
  by (simp add: save_context_ok [OF assms(2)] repo_load_context_def load_context_snapshot_def contexts.get_put_same
      reload_context_def peek_now_def bind_def wf_context_def)

definition demo_context :: agent_context where
  "demo_context = \<lparr>ctx_run_id = ''r2'', ctx_turn_index = 1, ctx_step_index = 0, ctx_planner_version = 1,
     ctx_messages = [\<lparr>msg_role = ''user'', msg_content = '' hello '', msg_name = None, msg_tool_call_id = None,
       msg_metadata = [], msg_created_at = 7\<rparr>],
     ctx_memory = [], ctx_pending_execution_id = Some ''e2'', ctx_pending_execution_ids = [''e1'', ''e2''],
     ctx_last_checkpoint_seq = None, ctx_updated_at = 9\<rparr>"

lemma saved_context_is_loaded_witness:
  "fst (repo_load_context demo_runtime (ctx_run_id demo_context) (snd (save_context_snapshot demo_context demo_acked))) =
     Inr (Some (norm_context demo_context))"
proof -
  have "wf_context demo_context" by code_simp
  moreover have "storable_context demo_context" by code_simp
  ultimately show ?thesis using saved_context_is_loaded by blast
qed

text \<open>
  C27: an external result that is stored is read back, whether its payloads are small enough to be
  kept in the row or are put aside as artifacts, as long as no artifact has the same name (16
  characters of its hash) and another content.
\<close>

theorem stored_result_is_read:
  assumes "upsert_external_result R r w = (Inr r', w')" and "canonical (res_execution_id r)"
    and "no_collision R (res_execution_id r) ''request'' (res_request_payload r) (db w)"
    and "no_collision R (res_execution_id r) ''response'' (res_response_payload r) (db w)"
  shows "get_external_result (res_execution_id r) w' = (Inr (Some r'), w') \<and>
    (\<exists>request response created_at. r' = r\<lparr>res_request_payload_ref := request,
       res_response_payload_ref := response, res_created_at := created_at\<rparr>)"
  using get_after_upsert [OF assms] upsert_InrE [OF assms(1)] by metis

definition demo_result :: external_result where
  "demo_result = \<lparr>res_execution_id = ''e1'', res_run_id = ''r1'', res_plan_item_id = None, res_tool_name = ''pay'',
     res_operation_type = ''WRITE'', res_request_payload = Some [(''n'', JInt 1)],
     res_response_payload = Some [(''text'', JStr ''0123456789'')], res_request_payload_ref = None,
     res_response_payload_ref = None, res_result_status = OK, res_execution_status = ACKED,
     res_error_message = None, res_created_at = 3, res_updated_at = 4\<rparr>"

definition demo_small_rows :: runtime where
  "demo_small_rows = demo_runtime\<lparr>payload_inline_limit_bytes := 10\<rparr>"

lemma stored_result_is_read_witness:
  "\<exists>r' w'. upsert_external_result demo_small_rows demo_result demo_started = (Inr r', w') \<and>
     get_external_result ''e1'' w' = (Inr (Some r'), w')"
proof -
  have "\<not> isl (fst (upsert_external_result demo_small_rows demo_result demo_started))" by code_simp
  then obtain r' w' where up: "upsert_external_result demo_small_rows demo_result demo_started = (Inr r', w')"
    by (cases "upsert_external_result demo_small_rows demo_result demo_started";
        cases "fst (upsert_external_result demo_small_rows demo_result demo_started)") auto
  have "no_collision demo_small_rows (res_execution_id demo_result) ''request'' (res_request_payload demo_result) (db demo_started)"
    by code_simp
  moreover have "no_collision demo_small_rows (res_execution_id demo_result) ''response'' (res_response_payload demo_result) (db demo_started)"
    by code_simp
  moreover have "canonical (res_execution_id demo_result)" by code_simp
  ultimately have "get_external_result (res_execution_id demo_result) w' = (Inr (Some r'), w')"
    using stored_result_is_read [OF up] by blast
  then show ?thesis using up by (auto simp: demo_result_def)
qed

end
