(* ===== verification/Instances.thy ===== *)
theory Instances
  imports Contracts
begin

text \<open>
  The properties of the single components, applied to the concrete run of \<open>Demo_Run\<close>: each lemma
  discharges the hypotheses of one property there.
\<close>

lemma item_status_moves_legally_witness:
  "\<exists>st' w'. update_item_status demo_runtime ''r1'' ''step_0'' ''in_progress'' None demo_started = (Inr st', w') \<and>
     (\<exists>st. repo_load_plan demo_runtime ''r1'' demo_started = (Inr (Some st), demo_started) \<and>
       map_option ps_version (planner_view (db w') (ps_run_id st)) = Some (ps_version st + 1))"
proof -
  have "\<not> isl (fst (update_item_status demo_runtime ''r1'' ''step_0'' ''in_progress'' None demo_started))" by code_simp
  then obtain st' w' where u: "update_item_status demo_runtime ''r1'' ''step_0'' ''in_progress'' None demo_started = (Inr st', w')"
    using returned by metis
  from item_status_moves_legally [OF u] show ?thesis
    using u by (elim exE conjE) (intro exI conjI, assumption, assumption, simp add: ordered_planner_def)
qed

lemma record_tool_dispatch_step_witness:
  "\<exists>res w'. record_tool_dispatch demo_runtime ''r1'' (call_execution_id demo_runtime demo_call) demo_unsent = (res, w') \<and>
     (db w' = db demo_unsent \<or>
      exec_step ''r1'' (call_execution_id demo_runtime demo_call) DISPATCHED (db demo_unsent) (db w'))"
proof -
  have e: "record_tool_dispatch demo_runtime ''r1'' (call_execution_id demo_runtime demo_call) demo_unsent =
    (fst (record_tool_dispatch demo_runtime ''r1'' (call_execution_id demo_runtime demo_call) demo_unsent),
     snd (record_tool_dispatch demo_runtime ''r1'' (call_execution_id demo_runtime demo_call) demo_unsent))" by simp
  from record_tool_dispatch_step [OF e demo_closed(3) demo_run_canonical(2) demo_call_canonical] e show ?thesis by blast
qed

lemma settled_call_is_not_repeated_witness:
  "\<exists>r tx. res_execution_status r = ACKED \<and> execute_tool demo_runtime False pay demo_call demo_acked = (Inr tx, demo_acked) \<and>
     tx_record tx = r \<and> tx_disposition tx = REUSED"
proof -
  have "(case repo_get_result demo_runtime (call_execution_id demo_runtime demo_call) demo_acked of
      (Inr (Some r), w) \<Rightarrow> res_execution_status r = ACKED | _ \<Rightarrow> False)" by code_simp
  moreover obtain found w where g: "repo_get_result demo_runtime (call_execution_id demo_runtime demo_call) demo_acked = (found, w)"
    by fastforce
  ultimately obtain r where r: "found = Inr (Some r)" "res_execution_status r = ACKED"
    by (auto split: sum.splits option.splits)
  have "w = demo_acked" using repo_get_result_InrD [OF g [unfolded r(1)]] by blast
  with g r(1) have "repo_get_result demo_runtime (call_execution_id demo_runtime demo_call) demo_acked = (Inr (Some r), demo_acked)"
    by simp
  from settled_call_is_not_repeated [OF demo_call_kind this, of False pay] r(2) show ?thesis by auto
qed

lemma write_is_logged_before_it_is_sent_witness:
  "\<exists>s. status_on_record (db demo_acked) (call_execution_id demo_runtime demo_call) = Some s \<and> s \<noteq> INTENT_LOGGED"
  using write_is_logged_before_it_is_sent [OF demo_acked_run demo_closed(1) demo_run_canonical(1) demo_call_canonical demo_call_kind]
  by (simp add: demo_outside)

lemma write_outcome_is_durable_witness:
  "status_on_record (db demo_acked) (call_execution_id demo_runtime demo_call) = Some ACKED"
  using write_outcome_is_durable [OF demo_acked_run demo_closed(1) demo_run_canonical(1) demo_call_canonical demo_call_kind]
  by (simp add: demo_outside)

lemma execution_id_ignores_key_order_witness:
  "build_execution_id demo_runtime ''r1'' ''i'' ''t'' [(''a'', JInt 1), (''b'', JInt 2)] None =
   build_execution_id demo_runtime ''r1'' ''i'' ''t'' [(''b'', JInt 2), (''a'', JInt 1)] None"
  by (rule execution_id_ignores_key_order) auto

lemma raw_execution_id_injective_witness:
  "json_dumps demo_forms (JObj [(''a'', JInt 1), (''b'', JNull)]) = json_dumps demo_forms (JObj [(''b'', JNull), (''a'', JInt 1)])"
proof -
  have "raw_execution_id demo_forms ''run'' ''item'' ''tool'' [(''a'', JInt 1), (''b'', JNull)] (Some ''key'') =
    raw_execution_id demo_forms ''run'' ''item'' ''tool'' [(''b'', JNull), (''a'', JInt 1)] (Some ''key'')" by code_simp
  from raw_execution_id_injective [OF this] show ?thesis by simp
qed

definition demo_stuck :: "nat beside world" where
  "demo_stuck = snd (record_tool_intent demo_runtime ''r1'' ''step_0'' (call_execution_id demo_runtime demo_call) ''pay''
     [(''n'', JInt 1)] ''WRITE'' demo_started)"

lemma undispatched_intent_is_stuck_witness:
  "\<exists>tx. execute_tool demo_runtime False pay demo_call demo_stuck = (Inr tx, demo_stuck) \<and> tx_disposition tx = PENDING_RECOVERY"
proof -
  have "(case repo_get_result demo_runtime (call_execution_id demo_runtime demo_call) demo_stuck of
      (Inr (Some r), w) \<Rightarrow> res_execution_status r = INTENT_LOGGED | _ \<Rightarrow> False)" by code_simp
  moreover obtain found w where g: "repo_get_result demo_runtime (call_execution_id demo_runtime demo_call) demo_stuck = (found, w)"
    by fastforce
  ultimately obtain r where r: "found = Inr (Some r)" "res_execution_status r = INTENT_LOGGED"
    by (auto split: sum.splits option.splits)
  have "w = demo_stuck" using repo_get_result_InrD [OF g [unfolded r(1)]] by blast
  with g r(1) have "repo_get_result demo_runtime (call_execution_id demo_runtime demo_call) demo_stuck = (Inr (Some r), demo_stuck)"
    by simp
  from undispatched_intent_is_stuck [OF demo_call_kind this r(2), of "Fin 5" "''r1''" "''x''" 0 False pay] show ?thesis by blast
qed

end
