(* ===== verification/Mock_Target.thy ===== *)
theory Mock_Target
  imports Models
begin

text \<open>
  \<open>tools/mock_target.py\<close>: the mock remote service with its JSON file. The file is the state; an
  operation loads it, works on the loaded dict and saves it, so that an exception in between
  leaves the file alone. Serialisation keeps the value of a dict and not its order, which no
  operation observes. \<open>E\<close> is the process: its clock, its random identifiers and its mode.
\<close>

section \<open>The store\<close>

datatype idempotency_mode = NON_IDEMPOTENT | IDEMPOTENT

fun idempotency_value :: "idempotency_mode \<Rightarrow> string" where
  "idempotency_value NON_IDEMPOTENT = ''non_idempotent''"
| "idempotency_value IDEMPOTENT = ''idempotent''"

datatype api_level = LEGACY | IDEMPOTENT_API | RIFL | QUERYABLE_DISTINGUISHABLE | QUERYABLE_COUNTER

fun api_value :: "api_level \<Rightarrow> string" where
  "api_value LEGACY = ''legacy''"
| "api_value IDEMPOTENT_API = ''idempotent''"
| "api_value RIFL = ''rifl''"
| "api_value QUERYABLE_DISTINGUISHABLE = ''queryable_distinguishable''"
| "api_value QUERYABLE_COUNTER = ''queryable_counter''"

record target_env =
  target_clock :: "nat \<Rightarrow> int"
  target_uuid :: "nat \<Rightarrow> string"
  target_forms :: text_forms
  target_mode :: idempotency_mode
  target_path :: string

record target =
  target_file :: "json option"
  target_ticks :: nat
  target_ids :: nat

type_synonym 'a target_op = "(target, 'a) act"

definition target_now :: "target_env \<Rightarrow> json target_op" where
  "target_now E s = (Inr (JTime (target_clock E (target_ticks s))), s\<lparr>target_ticks := Suc (target_ticks s)\<rparr>)"

definition target_uuid4 :: "target_env \<Rightarrow> string target_op" where
  "target_uuid4 E s = (Inr (target_uuid E (target_ids s)), s\<lparr>target_ids := Suc (target_ids s)\<rparr>)"

text \<open>The logical maps of the store, and the fields that \<open>_ensure_shape\<close> fills in and checks.\<close>

definition obj_at :: "dict \<Rightarrow> string \<Rightarrow> dict" where
  "obj_at data k = (case dict_get data k of JObj d \<Rightarrow> d | _ \<Rightarrow> [])"

definition store_maps :: "string list" where
  "store_maps = [''stats'', ''action_log'', ''domain_state'', ''idempotent_requests'', ''rifl_requests'',
     ''distinguishable_state'', ''distinguishable_history'', ''counters'']"

definition store_stats :: "string list" where
  "store_stats = [''total_commits'', ''idempotent_commits'', ''rifl_commits'', ''distinguishable_commits'',
     ''counter_commits'']"

definition initial_store :: "json \<Rightarrow> json \<Rightarrow> dict" where
  "initial_store created_at updated_at = [
     (''meta'', JObj [(''version'', JInt 3), (''created_at'', created_at), (''updated_at'', updated_at)]),
     (''stats'', JObj (map (\<lambda>k. (k, JInt 0)) store_stats)),
     (''action_log'', JObj []), (''domain_state'', JObj []), (''idempotent_requests'', JObj []),
     (''rifl_requests'', JObj []), (''distinguishable_state'', JObj []), (''distinguishable_history'', JObj []),
     (''counters'', JObj [])]"

definition ensure_stats :: "dict \<Rightarrow> dict res" where
  "ensure_stats stats = (let filled = fold (\<lambda>k. dict_setdefault k (JInt 0)) store_stats stats in
     case find (\<lambda>k. as_int (dict_get filled k) = None) store_stats of
       None \<Rightarrow> Inr filled
     | Some k \<Rightarrow> value_error (''stats.'' @ k @ '' must be an integer''))"

definition ensure_shape :: "json \<Rightarrow> dict res" where
  "ensure_shape raw = (case raw of
     JObj d \<Rightarrow> let data = fold (\<lambda>k. dict_setdefault k (JObj [])) (''meta'' # store_maps) d in
       (case find (\<lambda>k. \<not> is_obj (dict_get data k)) store_maps of
          Some k \<Rightarrow> value_error (k @ '' must be an object'')
        | None \<Rightarrow> rbind (ensure_stats (obj_at data ''stats'')) (\<lambda>stats. Inr (AList.update ''stats'' (JObj stats) data)))
   | _ \<Rightarrow> value_error ''store payload must be an object'')"

definition target_init :: "target_env \<Rightarrow> unit target_op" where
  "target_init E = bind (gets target_file) (\<lambda>file. case file of
     Some f \<Rightarrow> ret ()
   | None \<Rightarrow>
       bind (target_now E) (\<lambda>created_at.
       bind (target_now E) (\<lambda>updated_at.
       modify (\<lambda>s. s\<lparr>target_file := Some (JObj (initial_store created_at updated_at))\<rparr>))))"

definition target_load :: "target_env \<Rightarrow> dict target_op" where
  "target_load E = bind (target_init E) (\<lambda>_. bind (gets target_file) (\<lambda>file. case file of
     Some f \<Rightarrow> lift (ensure_shape f)
   | None \<Rightarrow> raise (Exn OSError ''no such file'')))"

definition target_save :: "target_env \<Rightarrow> dict \<Rightarrow> unit target_op" where
  "target_save E data =
     bind (lift (ensure_shape (JObj data))) (\<lambda>data.
     bind (target_now E) (\<lambda>now.
     case dict_get data ''meta'' of
       JObj meta \<Rightarrow> modify (\<lambda>s. s\<lparr>target_file := Some (JObj (AList.update ''meta''
         (JObj (AList.update ''updated_at'' now meta)) data))\<rparr>)
     | _ \<Rightarrow> raise (Exn TypeError ''meta does not support item assignment'')))"

section \<open>Shared steps\<close>

text \<open>\<open>require_str\<close> and \<open>require_dict\<close> of this module do not strip.\<close>

definition require_str_field :: "target_env \<Rightarrow> dict \<Rightarrow> string \<Rightarrow> string res" where
  "require_str_field E obj key = (case dict_get obj key of
     JStr s \<Rightarrow> if s = [] then value_error (key @ '' must be a non-empty string'') else Inr s
   | JTime t \<Rightarrow> Inr (iso_text (target_forms E) t)
   | _ \<Rightarrow> value_error (key @ '' must be a non-empty string''))"

definition require_dict_field :: "dict \<Rightarrow> string \<Rightarrow> dict res" where
  "require_dict_field obj key = (case dict_get obj key of
     JObj d \<Rightarrow> Inr d | _ \<Rightarrow> value_error (key @ '' must be an object''))"

definition build_receipt :: "target_env \<Rightarrow> string option \<Rightarrow> string option \<Rightarrow> dict target_op" where
  "build_receipt E execution_id action_id =
     bind (case action_id of
         Some a \<Rightarrow> if a = [] then target_uuid4 E else ret a
       | None \<Rightarrow> target_uuid4 E) (\<lambda>action_id.
     bind (target_now E) (\<lambda>now.
     ret [(''execution_id'', jopt JStr execution_id), (''action_id'', JStr action_id),
          (''status'', JStr ''committed''), (''committed_at'', now)]))"

definition increment_stat :: "string \<Rightarrow> dict \<Rightarrow> dict res" where
  "increment_stat key data =
     rbind (py_int (dict_get_or (obj_at data ''stats'') key (JInt 0))) (\<lambda>n.
     Inr (AList.update ''stats'' (JObj (AList.update key (JInt (n + 1)) (obj_at data ''stats''))) data))"

text \<open>\<open>_apply_to_domain_state\<close>: the new domain state.\<close>

definition apply_to_domain_state :: "target_env \<Rightarrow> string \<Rightarrow> dict \<Rightarrow> dict \<Rightarrow> dict \<Rightarrow> dict res" where
  "apply_to_domain_state E action_name payload receipt state =
     (if action_name = ''set_value'' then
        rbind (require_str_field E payload ''key'') (\<lambda>key. Inr (AList.update key (dict_get payload ''value'') state))
      else if action_name = ''delete_value'' then
        rbind (require_str_field E payload ''key'') (\<lambda>key. Inr (AList.delete key state))
      else if action_name = ''increment_value'' then
        rbind (require_str_field E payload ''key'') (\<lambda>key.
        let delta = dict_get_or payload ''delta'' (JInt 1); current = dict_get_or state key (JInt 0) in
        if as_number delta = None then value_error ''delta must be numeric''
        else (case num_add current delta of
            None \<Rightarrow> value_error ''existing value is not numeric''
          | Some v \<Rightarrow> Inr (AList.update key v state)))
      else (case dict_get_or state ''_applied_actions'' (JList []) of
          JList history \<Rightarrow> Inr (AList.update ''_applied_actions'' (JList (history @ [JObj [
            (''action_name'', JStr action_name), (''payload'', JObj payload),
            (''receipt'', JObj [(''execution_id'', dict_get receipt ''execution_id''),
                                (''action_id'', dict_get receipt ''action_id'')])]])) state)
        | _ \<Rightarrow> value_error ''_applied_actions must be a list''))"

definition apply_to_distinguishable_state :: "target_env \<Rightarrow> string \<Rightarrow> dict \<Rightarrow> dict \<Rightarrow> dict \<Rightarrow> (dict \<times> dict) target_op" where
  "apply_to_distinguishable_state E action_name payload receipt state =
     bind (lift (require_str_field E payload ''key'')) (\<lambda>key.
     bind (target_now E) (\<lambda>now.
     let entity = (if action_name = ''delete_value'' then
           [(''key'', JStr key), (''exists'', JBool False), (''deleted'', JBool True),
            (''last_action_name'', JStr action_name), (''last_receipt'', JObj receipt), (''updated_at'', now)]
         else
           [(''key'', JStr key), (''exists'', JBool True), (''deleted'', JBool False),
            (''value'', dict_get payload ''value''), (''payload'', JObj payload),
            (''last_action_name'', JStr action_name), (''last_receipt'', JObj receipt), (''updated_at'', now)]) in
     ret (AList.update key (JObj entity) state, entity)))"

section \<open>Keyed requests\<close>

text \<open>
  The idempotent and the RIFL interface share their body: a request whose identifier is on record
  returns the recorded receipt, any other is applied, recorded in its map and in the action log.
  \<open>extra\<close> are the fields in which their records differ, \<open>answer\<close> their result.
\<close>

definition put_obj :: "string \<Rightarrow> string \<Rightarrow> json \<Rightarrow> dict \<Rightarrow> dict" where
  "put_obj table k v data = AList.update table (JObj (AList.update k v (obj_at data table))) data"

definition log_request :: "string \<Rightarrow> string \<Rightarrow> dict \<Rightarrow> dict \<Rightarrow> dict \<Rightarrow> dict" where
  "log_request table execution_id record0 state data =
     put_obj ''action_log'' execution_id (JObj record0)
       (put_obj table execution_id (JObj record0) (AList.update ''domain_state'' (JObj state) data))"

definition keyed_request ::
  "target_env \<Rightarrow> string \<Rightarrow> string \<Rightarrow> api_level \<Rightarrow> (dict \<Rightarrow> dict) \<Rightarrow> (dict \<Rightarrow> json \<Rightarrow> bool \<Rightarrow> dict) \<Rightarrow>
   string \<Rightarrow> dict \<Rightarrow> string \<Rightarrow> dict target_op" where
  "keyed_request E table stat level extra answer action_name payload execution_id =
     (if action_name = [] then raise (Exn ValueError ''action_name is required'')
      else if execution_id = [] then raise (Exn ValueError ''execution_id is required'')
      else
        bind (target_load E) (\<lambda>data.
        case dict_get (obj_at data table) execution_id of
          JObj existing \<Rightarrow>
            if \<not> py_eq (dict_get existing ''action_name'') (JStr action_name) \<or>
               \<not> py_eq (dict_get existing ''payload'') (JObj payload)
              then raise (Exn ValueError ''execution_id already used with a different action or payload'')
            else ret (answer existing (dict_get existing ''receipt'') True)
        | _ \<Rightarrow>
            bind (build_receipt E (Some execution_id) None) (\<lambda>receipt.
            bind (lift (apply_to_domain_state E action_name payload receipt (obj_at data ''domain_state''))) (\<lambda>state.
            bind (target_now E) (\<lambda>now.
            let record0 = [(''api_level'', JStr (api_value level)), (''execution_id'', JStr execution_id),
                  (''action_name'', JStr action_name), (''payload'', JObj payload), (''receipt'', JObj receipt)] @
                  extra receipt @ [(''updated_at'', now)] in
            bind (lift (increment_stat ''total_commits'' (log_request table execution_id record0 state data))) (\<lambda>data.
            bind (lift (increment_stat stat data)) (\<lambda>data.
            bind (target_save E data) (\<lambda>_.
            ret (answer record0 (JObj receipt) False)))))))))"

definition apply_idempotent_action :: "target_env \<Rightarrow> string \<Rightarrow> dict \<Rightarrow> string \<Rightarrow> dict target_op" where
  "apply_idempotent_action E = keyed_request E ''idempotent_requests'' ''idempotent_commits'' IDEMPOTENT_API
     (\<lambda>receipt. [(''status'', JStr ''committed'')])
     (\<lambda>existing receipt hit. [(''receipt'', receipt), (''idempotent_hit'', JBool hit),
        (''api_level'', JStr (api_value IDEMPOTENT_API))])"

definition apply_rifl_action :: "target_env \<Rightarrow> string \<Rightarrow> dict \<Rightarrow> string \<Rightarrow> dict target_op" where
  "apply_rifl_action E = keyed_request E ''rifl_requests'' ''rifl_commits'' RIFL
     (\<lambda>receipt. [(''state'', JStr ''committed''), (''result'', JObj [(''receipt'', JObj receipt)])])
     (\<lambda>existing receipt hit. [(''receipt'', receipt), (''rifl_hit'', JBool hit),
        (''state'', dict_get_or existing ''state'' (JStr ''committed'')), (''api_level'', JStr (api_value RIFL))])"

definition probe_rifl_execution :: "target_env \<Rightarrow> string \<Rightarrow> dict target_op" where
  "probe_rifl_execution E execution_id =
     (if execution_id = [] then raise (Exn ValueError ''execution_id is required'') else
      bind (target_load E) (\<lambda>data. case dict_get (obj_at data ''rifl_requests'') execution_id of
        JObj rec \<Rightarrow> ret [(''found'', JBool True),
          (''state'', JStr (py_str (target_forms E) (dict_get_or rec ''state'' (JStr ''committed'')))), (''record'', JObj rec)]
      | JNull \<Rightarrow> ret [(''found'', JBool False), (''state'', JStr ''not_found''), (''record'', JNull)]
      | _ \<Rightarrow> lift no_get))"

section \<open>Legacy, domain-keyed and counter writes\<close>

text \<open>The legacy log keeps the receipts of every attempt under one identifier.\<close>

definition legacy_attempts :: "json \<Rightarrow> dict \<Rightarrow> (int \<times> json list) res" where
  "legacy_attempts existing receipt = (case existing of
     JObj old \<Rightarrow> rbind (py_int (dict_get_or old ''attempt_count'' (JInt 1))) (\<lambda>n.
       Inr (n + 1, case dict_get old ''receipts'' of
           JList rs \<Rightarrow> rs @ [JObj receipt]
         | _ \<Rightarrow> (case dict_get old ''receipt'' of JObj r \<Rightarrow> [JObj r, JObj receipt] | _ \<Rightarrow> [JObj receipt])))
   | _ \<Rightarrow> Inr (1, [JObj receipt]))"

definition apply_action :: "target_env \<Rightarrow> string \<Rightarrow> dict \<Rightarrow> string option \<Rightarrow> dict target_op" where
  "apply_action E action_name payload execution_id =
     (if action_name = [] then raise (Exn ValueError ''action_name is required'') else
      let given = (case execution_id of Some i \<Rightarrow> if i = [] then target_uuid4 E else ret i | None \<Rightarrow> target_uuid4 E) in
      if target_mode E = IDEMPOTENT
        then bind given (\<lambda>execution_id. apply_idempotent_action E action_name payload execution_id)
      else
        bind (target_load E) (\<lambda>data.
        bind given (\<lambda>exec_id.
        bind (build_receipt E (Some exec_id) None) (\<lambda>receipt.
        bind (lift (apply_to_domain_state E action_name payload receipt (obj_at data ''domain_state''))) (\<lambda>state.
        bind (lift (legacy_attempts (dict_get (obj_at data ''action_log'') exec_id) receipt)) (\<lambda>(attempt_count, receipts).
        bind (target_now E) (\<lambda>now.
        let record0 = [(''api_level'', JStr (api_value LEGACY)), (''execution_id'', JStr exec_id),
              (''action_name'', JStr action_name), (''payload'', JObj payload), (''receipt'', JObj receipt),
              (''receipts'', JList receipts), (''attempt_count'', JInt attempt_count),
              (''status'', JStr ''committed''), (''updated_at'', now)];
            data = put_obj ''action_log'' exec_id (JObj record0) (AList.update ''domain_state'' (JObj state) data) in
        bind (lift (increment_stat ''total_commits'' data)) (\<lambda>data.
        bind (target_save E data) (\<lambda>_.
        ret [(''receipt'', JObj receipt), (''idempotent_hit'', JBool False), (''api_level'', JStr (api_value LEGACY))])))))))))"

definition apply_queryable_distinguishable :: "target_env \<Rightarrow> string \<Rightarrow> dict \<Rightarrow> dict target_op" where
  "apply_queryable_distinguishable E action_name payload =
     (if action_name = [] then raise (Exn ValueError ''action_name is required'') else
      bind (lift (require_str_field E payload ''key'')) (\<lambda>key.
      bind (target_load E) (\<lambda>data.
      bind (target_uuid4 E) (\<lambda>action_id.
      bind (build_receipt E None (Some action_id)) (\<lambda>receipt.
      bind (apply_to_distinguishable_state E action_name payload receipt (obj_at data ''distinguishable_state'')) (\<lambda>(state, entity).
      case dict_get_or (obj_at data ''distinguishable_history'') key (JList []) of
        JList history \<Rightarrow>
          let entry = [(''action_id'', JStr action_id), (''action_name'', JStr action_name), (''payload'', JObj payload),
                (''receipt'', JObj receipt)];
              data = AList.update ''distinguishable_state'' (JObj state) data;
              data = put_obj ''distinguishable_history'' key (JList (history @ [JObj entry])) data in
          bind (target_now E) (\<lambda>now.
          let record0 = [(''api_level'', JStr (api_value QUERYABLE_DISTINGUISHABLE)), (''action_id'', JStr action_id),
                (''action_name'', JStr action_name), (''payload'', JObj payload), (''query_key'', JStr key),
                (''receipt'', JObj receipt), (''status'', JStr ''committed''), (''updated_at'', now)];
              data = put_obj ''action_log'' action_id (JObj record0) data in
          bind (lift (increment_stat ''total_commits'' data)) (\<lambda>data.
          bind (lift (increment_stat ''distinguishable_commits'' data)) (\<lambda>data.
          bind (target_save E data) (\<lambda>_.
          ret [(''receipt'', JObj receipt), (''query_key'', JStr key), (''entity'', JObj entity),
               (''api_level'', JStr (api_value QUERYABLE_DISTINGUISHABLE))]))))
      | _ \<Rightarrow> raise (Exn ValueError ''distinguishable_history entries must be lists'')))))))"

definition increment_counter :: "target_env \<Rightarrow> string \<Rightarrow> json \<Rightarrow> dict target_op" where
  "increment_counter E counter_name delta =
     (if counter_name = [] then raise (Exn ValueError ''counter_name is required'')
      else if as_number delta = None then raise (Exn ValueError ''delta must be numeric'') else
      bind (target_load E) (\<lambda>data.
      case num_add (dict_get_or (obj_at data ''counters'') counter_name (JInt 0)) delta of
        None \<Rightarrow> raise (Exn ValueError ''existing counter is not numeric'')
      | Some new_value \<Rightarrow>
          let data = put_obj ''counters'' counter_name new_value data in
          bind (target_uuid4 E) (\<lambda>action_id.
          bind (build_receipt E None (Some action_id)) (\<lambda>receipt.
          bind (target_now E) (\<lambda>now.
          let record0 = [(''api_level'', JStr (api_value QUERYABLE_COUNTER)), (''action_id'', JStr action_id),
                (''counter_name'', JStr counter_name), (''delta'', delta), (''receipt'', JObj receipt),
                (''status'', JStr ''committed''), (''updated_at'', now)];
              data = put_obj ''action_log'' action_id (JObj record0) data in
          bind (lift (increment_stat ''total_commits'' data)) (\<lambda>data.
          bind (lift (increment_stat ''counter_commits'' data)) (\<lambda>data.
          bind (target_save E data) (\<lambda>_.
          ret [(''receipt'', JObj receipt), (''counter_name'', JStr counter_name), (''value'', new_value),
               (''api_level'', JStr (api_value QUERYABLE_COUNTER))]))))))))"

section \<open>Queries\<close>

definition get_action_by_execution_id :: "target_env \<Rightarrow> string \<Rightarrow> json target_op" where
  "get_action_by_execution_id E execution_id =
     (if execution_id = [] then raise (Exn ValueError ''execution_id is required'') else
      bind (target_load E) (\<lambda>data. case dict_get (obj_at data ''action_log'') execution_id of
        JObj rec \<Rightarrow> ret (JObj rec)
      | _ \<Rightarrow> let found = dict_get (obj_at data ''idempotent_requests'') execution_id in
          ret (if truthy found then found else dict_get (obj_at data ''rifl_requests'') execution_id)))"

definition prefix_of :: "string \<Rightarrow> string \<Rightarrow> bool" where
  "prefix_of p s \<longleftrightarrow> take (length p) s = p"

definition query_state :: "target_env \<Rightarrow> string \<Rightarrow> dict \<Rightarrow> dict target_op" where
  "query_state E query_name payload =
     (if query_name = [] then raise (Exn ValueError ''query_name is required'') else
      bind (target_load E) (\<lambda>data.
      let domain_state = obj_at data ''domain_state''; distinguishable_state = obj_at data ''distinguishable_state'';
          counters = obj_at data ''counters''; result = (\<lambda>v. ret [(''result'', v)]) in
      if query_name = ''get_value'' then
        bind (lift (require_str_field E payload ''key'')) (\<lambda>key. result (dict_get domain_state key))
      else if query_name = ''list_keys'' then
        let keys = sort (map fst domain_state) in
        result (str_list (case dict_get payload ''prefix'' of
            JStr p \<Rightarrow> filter (prefix_of p) keys
          | JTime t \<Rightarrow> filter (prefix_of (iso_text (target_forms E) t)) keys
          | _ \<Rightarrow> keys))
      else if query_name = ''dump_state'' then result (JObj domain_state)
      else if query_name = ''get_action_count'' then
        bind (lift (py_int (dict_get_or (obj_at data ''stats'') ''total_commits'' (JInt 0)))) (\<lambda>n. result (JInt n))
      else if query_name = ''get_distinguishable_value'' then
        bind (lift (require_str_field E payload ''key'')) (\<lambda>key. result (dict_get distinguishable_state key))
      else if query_name = ''list_distinguishable_keys'' then result (str_list (sort (map fst distinguishable_state)))
      else if query_name = ''get_distinguishable_history'' then
        bind (lift (require_str_field E payload ''key'')) (\<lambda>key.
        result (case dict_get (obj_at data ''distinguishable_history'') key of JList h \<Rightarrow> JList h | _ \<Rightarrow> JList []))
      else if query_name = ''get_counter'' then
        bind (lift (require_str_field E payload ''counter_name'')) (\<lambda>name. result (dict_get_or counters name (JInt 0)))
      else if query_name = ''dump_counters'' then result (JObj counters)
      else if query_name = ''get_idempotent_record'' then
        bind (lift (require_str_field E payload ''execution_id'')) (\<lambda>i. result (dict_get (obj_at data ''idempotent_requests'') i))
      else if query_name = ''get_rifl_record'' then
        bind (lift (require_str_field E payload ''execution_id'')) (\<lambda>i. result (dict_get (obj_at data ''rifl_requests'') i))
      else raise (Exn ValueError (''unsupported query_name: '' @ query_name))))"

definition target_health :: "target_env \<Rightarrow> dict target_op" where
  "target_health E = bind (target_load E) (\<lambda>data.
     bind (lift (py_int (dict_get_or (obj_at data ''stats'') ''total_commits'' (JInt 0)))) (\<lambda>n.
     let size_of = (\<lambda>k. JInt (int (length (obj_at data k)))) in
     ret [(''status'', JStr ''ok''), (''store_path'', JStr (target_path E)), (''actions'', JInt n),
       (''keys'', size_of ''domain_state''),
       (''default_legacy_idempotency_mode'', JStr (idempotency_value (target_mode E))),
       (''idempotent_requests'', size_of ''idempotent_requests''), (''rifl_requests'', size_of ''rifl_requests''),
       (''distinguishable_keys'', size_of ''distinguishable_state''), (''counters'', size_of ''counters''),
       (''capabilities'', str_list (map api_value [IDEMPOTENT_API, RIFL, QUERYABLE_DISTINGUISHABLE, QUERYABLE_COUNTER]))]))"

text \<open>
  The routing of tool names. An \<open>execution_id\<close> of \<open>mock_target_apply_action\<close> is a string or null, as
  the signature has it.
\<close>

definition handle_mcp_tool_call :: "target_env \<Rightarrow> string \<Rightarrow> dict \<Rightarrow> dict target_op" where
  "handle_mcp_tool_call E tool_name arguments =
     (let str_arg = (\<lambda>k. lift (require_str_field E arguments k)); dict_arg = (\<lambda>k. lift (require_dict_field arguments k)) in
      if tool_name = ''mock_target_apply_action'' then
        bind (str_arg ''action_name'') (\<lambda>a. bind (dict_arg ''payload'') (\<lambda>p.
        apply_action E a p (case dict_get arguments ''execution_id'' of
            JStr i \<Rightarrow> Some i | JTime t \<Rightarrow> Some (iso_text (target_forms E) t) | _ \<Rightarrow> None)))
      else if tool_name = ''mock_target_apply_idempotent_action'' then
        bind (str_arg ''action_name'') (\<lambda>a. bind (dict_arg ''payload'') (\<lambda>p. bind (str_arg ''execution_id'') (\<lambda>i.
        apply_idempotent_action E a p i)))
      else if tool_name = ''mock_target_apply_rifl_action'' then
        bind (str_arg ''action_name'') (\<lambda>a. bind (dict_arg ''payload'') (\<lambda>p. bind (str_arg ''execution_id'') (\<lambda>i.
        apply_rifl_action E a p i)))
      else if tool_name = ''mock_target_probe_rifl_execution'' then
        bind (str_arg ''execution_id'') (\<lambda>i. probe_rifl_execution E i)
      else if tool_name = ''mock_target_apply_queryable_distinguishable'' then
        bind (str_arg ''action_name'') (\<lambda>a. bind (dict_arg ''payload'') (\<lambda>p. apply_queryable_distinguishable E a p))
      else if tool_name = ''mock_target_increment_counter'' then
        bind (str_arg ''counter_name'') (\<lambda>c. increment_counter E c (dict_get_or arguments ''delta'' (JInt 1)))
      else if tool_name = ''mock_target_query_state'' then
        bind (str_arg ''query_name'') (\<lambda>q. bind (dict_arg ''payload'') (\<lambda>p. query_state E q p))
      else if tool_name = ''mock_target_get_action'' then
        bind (str_arg ''execution_id'') (\<lambda>i. bind (get_action_by_execution_id E i) (\<lambda>rec.
        ret [(''found'', JBool (rec \<noteq> JNull)), (''record'', rec)]))
      else if tool_name = ''mock_target_health'' then target_health E
      else raise (Exn ValueError (''unsupported MCP tool: '' @ tool_name)))"

end
