(* ===== verification/Target_Facts.thy ===== *)
theory Target_Facts
  imports Mock_Target
begin

text \<open>
  What the mock target guarantees: its file keeps its shape, a failed operation leaves it alone,
  a keyed request is applied once however often it is sent, and the commit counters count.
\<close>

section \<open>The shape of the file\<close>

definition shaped :: "dict \<Rightarrow> bool" where
  "shaped data \<longleftrightarrow> map_of data ''meta'' \<noteq> None \<and> list_all (\<lambda>k. is_obj (dict_get data k)) store_maps \<and>
     list_all (\<lambda>k. as_int (dict_get (obj_at data ''stats'') k) \<noteq> None) store_stats"

lemma is_obj_iff: "is_obj v \<longleftrightarrow> (\<exists>d. v = JObj d)"
  by (cases v) simp_all

lemma obj_at_update [simp]: "obj_at (AList.update k (JObj m) d) k' = (if k' = k then m else obj_at d k')"
  by (simp add: obj_at_def)

lemma update_present: "map_of d k = Some v \<Longrightarrow> AList.update k v d = d"
  by (induction d) (auto split: if_splits)

lemma dict_get_SomeD: "dict_get d k = v \<Longrightarrow> v \<noteq> JNull \<Longrightarrow> map_of d k = Some v"
  by (simp add: dict_get_def split: option.splits)

lemma setdefault_get: "dict_get (dict_setdefault k v d) k' = (if k' = k \<and> map_of d k = None then v else dict_get d k')"
  by (simp add: dict_setdefault_def)

lemma setdefault_present: "map_of (dict_setdefault k v d) k' \<noteq> None \<longleftrightarrow> k' = k \<or> map_of d k' \<noteq> None"
  by (auto simp: dict_setdefault_def)

lemma fold_setdefault_id: "list_all (\<lambda>k. map_of d k \<noteq> None) ks \<Longrightarrow> fold (\<lambda>k. dict_setdefault k v) ks d = d"
  by (induction ks) (auto simp: dict_setdefault_def)

lemma fold_setdefault_present:
  "map_of (fold (\<lambda>k. dict_setdefault k v) ks d) k' \<noteq> None \<longleftrightarrow> k' \<in> set ks \<or> map_of d k' \<noteq> None"
  by (induction ks arbitrary: d) (auto simp: setdefault_present simp del: not_None_eq)

lemma find_None_list_all: "find (\<lambda>x. \<not> P x) xs = None \<longleftrightarrow> list_all P xs"
  by (auto simp: find_None_iff list_all_iff)

lemma ensure_stats_Inr:
  "ensure_stats m = Inr m' \<Longrightarrow> list_all (\<lambda>k. as_int (dict_get m' k) \<noteq> None) store_stats"
  using find_None_list_all [of "\<lambda>k. as_int (dict_get (fold (\<lambda>k. dict_setdefault k (JInt 0)) store_stats m) k) \<noteq> None" store_stats]
  by (auto simp: ensure_stats_def Let_def split: option.splits)

lemma ensure_stats_id: "list_all (\<lambda>k. as_int (dict_get m k) \<noteq> None) store_stats \<Longrightarrow> ensure_stats m = Inr m"
proof -
  assume a: "list_all (\<lambda>k. as_int (dict_get m k) \<noteq> None) store_stats"
  then have "list_all (\<lambda>k. map_of m k \<noteq> None) store_stats"
    by (auto simp: list_all_iff dict_get_def split: option.splits)
  then have "fold (\<lambda>k. dict_setdefault k (JInt 0)) store_stats m = m" by (rule fold_setdefault_id)
  moreover have "find (\<lambda>k. as_int (dict_get m k) = None) store_stats = None"
    using a find_None_list_all [of "\<lambda>k. as_int (dict_get m k) \<noteq> None" store_stats] by simp
  ultimately show ?thesis by (simp add: ensure_stats_def)
qed

lemma ensure_shape_id: "shaped data \<Longrightarrow> ensure_shape (JObj data) = Inr data"
proof -
  assume s: "shaped data"
  have obj: "\<forall>k\<in>set store_maps. \<exists>m. dict_get data k = JObj m"
    using s by (auto simp: shaped_def list_all_iff is_obj_iff)
  then have "list_all (\<lambda>k. map_of data k \<noteq> None) (''meta'' # store_maps)"
    using s by (fastforce simp: shaped_def list_all_iff dict_get_def split: option.splits)
  then have fold: "fold (\<lambda>k. dict_setdefault k (JObj [])) (''meta'' # store_maps) data = data" by (rule fold_setdefault_id)
  have find: "find (\<lambda>k. \<not> is_obj (dict_get data k)) store_maps = None"
    using s by (simp add: find_None_list_all shaped_def)
  have stats: "ensure_stats (obj_at data ''stats'') = Inr (obj_at data ''stats'')"
    using s by (intro ensure_stats_id) (simp add: shaped_def)
  obtain m where m: "dict_get data ''stats'' = JObj m" using obj by (auto simp: store_maps_def)
  then have same: "AList.update ''stats'' (JObj (obj_at data ''stats'')) data = data"
    using dict_get_SomeD [OF m] by (simp add: obj_at_def update_present)
  show ?thesis unfolding ensure_shape_def json.case Let_def fold find option.case stats rbind_simps same ..
qed

lemma ensure_shape_shaped: "ensure_shape raw = Inr data \<Longrightarrow> shaped data"
proof -
  assume e: "ensure_shape raw = Inr data"
  then obtain d where raw: "raw = JObj d" by (cases raw) (simp_all add: ensure_shape_def)
  define filled where "filled = fold (\<lambda>k. dict_setdefault k (JObj [])) (''meta'' # store_maps) d"
  from e obtain stats where find: "find (\<lambda>k. \<not> is_obj (dict_get filled k)) store_maps = None"
    and stats: "ensure_stats (obj_at filled ''stats'') = Inr stats" and data: "data = AList.update ''stats'' (JObj stats) filled"
    unfolding ensure_shape_def raw json.case Let_def filled_def [symmetric]
    by (auto simp: rbind_eq_Inr split: option.splits)
  have "map_of filled ''meta'' \<noteq> None" unfolding filled_def fold_setdefault_present by simp
  then show ?thesis
    using find stats ensure_stats_Inr [OF stats] by (simp add: shaped_def data find_None_list_all list_all_iff)
qed

lemma shaped_update:
  "shaped data \<Longrightarrow> k \<noteq> ''stats'' \<Longrightarrow> shaped (AList.update k (JObj m) data)"
  by (simp add: shaped_def list_all_iff)

lemma increment_stat_Inr:
  assumes "increment_stat key data = Inr data'" and "shaped data" and "key \<in> set store_stats"
  shows "\<exists>n. as_int (dict_get (obj_at data ''stats'') key) = Some n \<and>
    data' = AList.update ''stats'' (JObj (AList.update key (JInt (n + 1)) (obj_at data ''stats''))) data \<and> shaped data'"
proof -
  let ?stats = "obj_at data ''stats''"
  obtain n where n: "as_int (dict_get ?stats key) = Some n"
    using assms(2,3) by (auto simp: shaped_def list_all_iff)
  then have "dict_get_or ?stats key (JInt 0) = dict_get ?stats key"
    by (auto simp: dict_get_or_def dict_get_def split: option.splits)
  moreover have "py_int (dict_get ?stats key) = Inr n"
    using n by (cases "dict_get ?stats key") (auto simp: py_int_def)
  ultimately have "data' = AList.update ''stats'' (JObj (AList.update key (JInt (n + 1)) ?stats)) data"
    using assms(1) by (simp add: increment_stat_def)
  then show ?thesis using n assms(2) by (simp add: shaped_def list_all_iff)
qed

section \<open>Loading and saving\<close>

lemma target_clock_simps [simp]:
  "target_now E s = (Inr (JTime (target_clock E (target_ticks s))), s\<lparr>target_ticks := Suc (target_ticks s)\<rparr>)"
  "target_uuid4 E s = (Inr (target_uuid E (target_ids s)), s\<lparr>target_ids := Suc (target_ids s)\<rparr>)"
  by (simp_all add: target_now_def target_uuid4_def)

text \<open>The contents that an operation sees: those of the file, or of a fresh store.\<close>

definition contents :: "target \<Rightarrow> dict res" where
  "contents s = (case target_file s of Some f \<Rightarrow> ensure_shape f
     | None \<Rightarrow> Inr (initial_store JNull JNull))"

lemma initial_shaped: "shaped (initial_store c u)"
  by (simp add: shaped_def initial_store_def store_maps_def store_stats_def obj_at_def)

lemma target_load_cases:
  assumes "target_load E s = (r, s')"
  shows "(target_file s \<noteq> None \<longrightarrow> s' = s) \<and> (\<exists>f. target_file s' = Some f \<and> r = ensure_shape f \<and>
    (target_file s = None \<longrightarrow> (\<exists>c u. f = JObj (initial_store c u))))"
  using assms
  by (cases "target_file s") (auto simp: target_load_def target_init_def bind_def, blast)

lemma target_load_again:
  assumes "target_file s = Some f"
  shows "target_load E s = (ensure_shape f, s)"
  using assms by (simp add: target_load_def target_init_def bind_def)

lemma target_save_InrD:
  assumes "target_save E data s = (r, s')" and "shaped data"
  shows "case r of Inl e \<Rightarrow> target_file s' = target_file s
    | Inr u \<Rightarrow> \<exists>meta. target_file s' = Some (JObj (AList.update ''meta'' (JObj meta) data))"
  using assms(1)
  by (auto simp: target_save_def ensure_shape_id [OF assms(2)] bind_def split: json.splits)

lemma saved_loads:
  assumes "target_file s' = Some (JObj (AList.update ''meta'' (JObj meta) data))" and "shaped data"
  shows "target_load E s' = (Inr (AList.update ''meta'' (JObj meta) data), s')"
  using ensure_shape_id [OF shaped_update [OF assms(2), of "''meta''" meta]] by (simp add: target_load_again [OF assms(1)])

section \<open>A failed operation leaves the file alone\<close>

text \<open>Up to the save, an operation at most creates the file with its initial contents.\<close>

definition only_init :: "target \<Rightarrow> target \<Rightarrow> bool" where
  "only_init s s' \<longleftrightarrow> target_file s' = target_file s \<or>
     target_file s = None \<and> (\<exists>c u. target_file s' = Some (JObj (initial_store c u)))"

interpretation init: effect_order only_init
  by unfold_locales (auto simp: only_init_def, blast)

lemma init_basic [effect]:
  "confined only_init (target_now E)" "confined only_init (target_uuid4 E)" "confined only_init (target_load E)"
proof -
  show "confined only_init (target_load E)"
    by (rule confinedI, drule target_load_cases) (auto simp: only_init_def)
qed (auto simp: confined_def only_init_def)

lemma init_receipt [effect]: "confined only_init (build_receipt E i a)"
  unfolding build_receipt_def by (intro effect)

lemma init_distinguishable [effect]: "confined only_init (apply_to_distinguishable_state E a p r st)"
  unfolding apply_to_distinguishable_state_def Let_def by (intro effect)

definition spares :: "'a target_op \<Rightarrow> bool" where
  "spares m \<longleftrightarrow> (\<forall>s e s'. m s = (Inl e, s') \<longrightarrow> only_init s s')"

lemma spares_confined: "confined only_init m \<Longrightarrow> spares m"
  by (auto simp: spares_def dest: confinedD)

lemma spares_bind: "confined only_init m \<Longrightarrow> (\<And>x. spares (f x)) \<Longrightarrow> spares (bind m f)"
  unfolding spares_def by (blast elim: bind_cases dest: confinedD init.chains)

lemma spares_save: "spares (bind (target_save E data) (\<lambda>_. ret x))"
  by (auto simp: spares_def target_save_def bind_def only_init_def split: sum.splits prod.splits json.splits)

lemma spares_cases:
  "(b \<Longrightarrow> spares m) \<Longrightarrow> (\<not> b \<Longrightarrow> spares n) \<Longrightarrow> spares (if b then m else n)"
  "(\<And>x. spares (f x)) \<Longrightarrow> spares (let x = v in f x)"
  "(\<And>x y. spares (g x y)) \<Longrightarrow> spares (case z of (x, y) \<Rightarrow> g x y)"
  "spares m \<Longrightarrow> (\<And>y. spares (h y)) \<Longrightarrow> spares (case q of None \<Rightarrow> m | Some y \<Rightarrow> h y)"
  "spares ja \<Longrightarrow> (\<And>y. spares (jb y)) \<Longrightarrow> (\<And>y. spares (jc y)) \<Longrightarrow> (\<And>y. spares (jd y)) \<Longrightarrow> (\<And>y. spares (je y)) \<Longrightarrow>
   (\<And>y. spares (jf y)) \<Longrightarrow> (\<And>y. spares (jg y)) \<Longrightarrow> (\<And>y. spares (jh y)) \<Longrightarrow>
   spares (case v' of JNull \<Rightarrow> ja | JBool y \<Rightarrow> jb y | JInt y \<Rightarrow> jc y | JFloat y \<Rightarrow> jd y | JStr y \<Rightarrow> je y
     | JTime y \<Rightarrow> jf y | JList y \<Rightarrow> jg y | JObj y \<Rightarrow> jh y)"
  by (simp_all split: prod.splits option.splits json.splits)

lemmas spares_rules = spares_save spares_bind spares_cases

lemma spares_request: "spares (keyed_request E table stat level extra answer a p i)"
  unfolding keyed_request_def
  by (intro spares_rules effect) (intro spares_confined effect)+

lemma spares_apply: "spares (apply_idempotent_action E a p i)" "spares (apply_rifl_action E a p i)"
  "spares (apply_action E a p x)" "spares (apply_queryable_distinguishable E a p)" "spares (increment_counter E c d)"
proof -
  show k: "spares (apply_idempotent_action E a p i)" "spares (apply_rifl_action E a p i)" for i
    unfolding apply_idempotent_action_def apply_rifl_action_def by (rule spares_request)+
  show "spares (apply_action E a p x)"
    unfolding apply_action_def Let_def
    by (intro spares_rules effect k) (intro spares_confined effect)+
  show "spares (apply_queryable_distinguishable E a p)"
    unfolding apply_queryable_distinguishable_def
    by (intro spares_rules effect) (intro spares_confined effect)+
  show "spares (increment_counter E c d)"
    unfolding increment_counter_def
    by (intro spares_rules effect) (intro spares_confined effect)+
qed

section \<open>A keyed request is applied once\<close>

lemma build_receipt_file: "build_receipt E i a s = (r, s') \<Longrightarrow> (\<exists>receipt. r = Inr receipt) \<and> target_file s' = target_file s"
  by (auto simp: build_receipt_def bind_def split: option.splits if_splits)

lemma py_eq_str [simp]: "py_eq (JStr a) (JStr b) = (a = b)"
  by simp

lemma obj_at_put [simp]: "obj_at (put_obj table k v d) k' = (if k' = table then AList.update k v (obj_at d table) else obj_at d k')"
  by (simp add: put_obj_def)

lemma shaped_put: "shaped d \<Longrightarrow> table \<noteq> ''stats'' \<Longrightarrow> shaped (put_obj table k v d)"
  unfolding put_obj_def by (rule shaped_update)

text \<open>Every write ends with two counters.\<close>

lemma two_increments:
  assumes "increment_stat ''total_commits'' d = Inr d1" and "increment_stat stat d1 = Inr d2" and "shaped d"
    and "stat \<in> set store_stats" and "stat \<noteq> ''total_commits''"
  shows "shaped d2 \<and> (\<forall>k. k \<noteq> ''stats'' \<longrightarrow> obj_at d2 k = obj_at d k) \<and>
    (\<exists>n m. as_int (dict_get (obj_at d ''stats'') ''total_commits'') = Some n \<and> as_int (dict_get (obj_at d ''stats'') stat) = Some m \<and>
      obj_at d2 ''stats'' = AList.update stat (JInt (m + 1)) (AList.update ''total_commits'' (JInt (n + 1)) (obj_at d ''stats'')))"
proof -
  have "''total_commits'' \<in> set store_stats" by (simp add: store_stats_def)
  from increment_stat_Inr [OF assms(1,3) this] obtain n where
    n: "as_int (dict_get (obj_at d ''stats'') ''total_commits'') = Some n"
      "d1 = AList.update ''stats'' (JObj (AList.update ''total_commits'' (JInt (n + 1)) (obj_at d ''stats''))) d" "shaped d1" by blast
  from increment_stat_Inr [OF assms(2) n(3) assms(4)] obtain m where
    m: "as_int (dict_get (obj_at d1 ''stats'') stat) = Some m"
      "d2 = AList.update ''stats'' (JObj (AList.update stat (JInt (m + 1)) (obj_at d1 ''stats''))) d1" "shaped d2" by blast
  show ?thesis using n(1) m(1,3) assms(5) by (simp add: n(2) m(2))
qed

text \<open>A new request: the record under its identifier, and one more commit in the counters.\<close>

definition commits_request :: "string \<Rightarrow> string \<Rightarrow> string \<Rightarrow> dict \<Rightarrow> dict \<Rightarrow> dict \<Rightarrow> bool" where
  "commits_request table stat i record0 data data' \<longleftrightarrow> shaped data' \<and>
     obj_at data' table = AList.update i (JObj record0) (obj_at data table) \<and>
     (\<forall>k. k \<notin> {table, ''domain_state'', ''action_log'', ''stats''} \<longrightarrow> obj_at data' k = obj_at data k) \<and>
     dict_get (obj_at data' ''action_log'') i = JObj record0 \<and>
     (\<exists>n m. as_int (dict_get (obj_at data ''stats'') ''total_commits'') = Some n \<and>
        as_int (dict_get (obj_at data ''stats'') stat) = Some m \<and>
        obj_at data' ''stats'' = AList.update stat (JInt (m + 1)) (AList.update ''total_commits'' (JInt (n + 1)) (obj_at data ''stats'')))"

lemma commits_requestI:
  assumes "increment_stat ''total_commits'' (log_request table i record0 state data) = Inr d1" and "increment_stat stat d1 = Inr d2"
    and "shaped data" and "table \<in> {''idempotent_requests'', ''rifl_requests''}" and "stat \<in> {''idempotent_commits'', ''rifl_commits''}"
  shows "commits_request table stat i record0 data d2"
proof -
  have t: "table \<noteq> ''stats''" "table \<noteq> ''action_log''" "table \<noteq> ''domain_state''" using assms(4) by auto
  have s: "stat \<in> set store_stats" "stat \<noteq> ''total_commits''" using assms(5) by (auto simp: store_stats_def)
  have "shaped (log_request table i record0 state data)"
    unfolding log_request_def using t by (intro shaped_put shaped_update assms(3)) simp_all
  note c = two_increments [OF assms(1,2) this s]
  then have obj: "obj_at d2 k = obj_at (log_request table i record0 state data) k" if "k \<noteq> ''stats''" for k using that by blast
  have stats: "obj_at (log_request table i record0 state data) ''stats'' = obj_at data ''stats''"
    using t by (simp add: log_request_def)
  have "obj_at d2 table = AList.update i (JObj record0) (obj_at data table)"
    using t obj [of table] by (simp add: log_request_def)
  moreover have "obj_at d2 k = obj_at data k" if "k \<notin> {table, ''domain_state'', ''action_log'', ''stats''}" for k
    using t that obj [of k] by (simp add: log_request_def)
  moreover have "dict_get (obj_at d2 ''action_log'') i = JObj record0"
    using obj [of "''action_log''"] by (simp add: log_request_def)
  ultimately show ?thesis using c stats by (simp add: commits_request_def)
qed

text \<open>The part of a new request after the lookup.\<close>

definition new_request ::
  "target_env \<Rightarrow> string \<Rightarrow> string \<Rightarrow> api_level \<Rightarrow> (dict \<Rightarrow> dict) \<Rightarrow> (dict \<Rightarrow> json \<Rightarrow> bool \<Rightarrow> dict) \<Rightarrow>
   string \<Rightarrow> dict \<Rightarrow> string \<Rightarrow> dict \<Rightarrow> dict target_op" where
  "new_request E table stat level extra answer a p i data =
     bind (build_receipt E (Some i) None) (\<lambda>receipt.
     bind (lift (apply_to_domain_state E a p receipt (obj_at data ''domain_state''))) (\<lambda>state.
     bind (target_now E) (\<lambda>now.
     let record0 = [(''api_level'', JStr (api_value level)), (''execution_id'', JStr i),
           (''action_name'', JStr a), (''payload'', JObj p), (''receipt'', JObj receipt)] @
           extra receipt @ [(''updated_at'', now)] in
     bind (lift (increment_stat ''total_commits'' (log_request table i record0 state data))) (\<lambda>data.
     bind (lift (increment_stat stat data)) (\<lambda>data.
     bind (target_save E data) (\<lambda>_.
     ret (answer record0 (JObj receipt) False)))))))"

lemma new_request_InrE:
  assumes "new_request E table stat level extra answer a p i data s = (Inr r, s')" and "shaped data"
    and "table \<in> {''idempotent_requests'', ''rifl_requests''}" and "stat \<in> {''idempotent_commits'', ''rifl_commits''}"
  obtains record0 receipt data' meta where
    "dict_get record0 ''action_name'' = JStr a" and "dict_get record0 ''payload'' = JObj p"
    and "dict_get record0 ''receipt'' = JObj receipt" and "r = answer record0 (JObj receipt) False"
    and "commits_request table stat i record0 data data'" and "target_file s' = Some (JObj (AList.update ''meta'' (JObj meta) data'))"
proof -
  from assms(1) obtain receipt s1 state s2 now s3 d1 s4 d2 s5 u s6 where
    steps: "increment_stat ''total_commits'' (log_request table i ([(''api_level'', JStr (api_value level)), (''execution_id'', JStr i),
           (''action_name'', JStr a), (''payload'', JObj p), (''receipt'', JObj receipt)] @
           extra receipt @ [(''updated_at'', now)]) state data) = Inr d1" "increment_stat stat d1 = Inr d2"
      and save: "target_save E d2 s5 = (Inr u, s6)"
      and r: "ret (answer ([(''api_level'', JStr (api_value level)), (''execution_id'', JStr i),
           (''action_name'', JStr a), (''payload'', JObj p), (''receipt'', JObj receipt)] @
           extra receipt @ [(''updated_at'', now)]) (JObj receipt) False) s6 = (Inr r, s')"
    unfolding new_request_def Let_def by (elim bind_InrE) (simp only: lift_def prod.inject sum.inject, blast)
  from commits_requestI [OF steps assms(2-4)] have c: "commits_request table stat i ([(''api_level'', JStr (api_value level)), (''execution_id'', JStr i),
           (''action_name'', JStr a), (''payload'', JObj p), (''receipt'', JObj receipt)] @
           extra receipt @ [(''updated_at'', now)]) data d2" .
  then have "shaped d2" by (simp add: commits_request_def)
  from target_save_InrD [OF save this] obtain meta where "target_file s6 = Some (JObj (AList.update ''meta'' (JObj meta) d2))" by auto
  with c r show thesis by (intro that) auto
qed

lemma keyed_request_InrE:
  assumes "keyed_request E table stat level extra answer a p i s = (Inr r, s')"
    and "table \<in> {''idempotent_requests'', ''rifl_requests''}" and "stat \<in> {''idempotent_commits'', ''rifl_commits''}"
  obtains (hit) data existing where "target_load E s = (Inr data, s')" and "dict_get (obj_at data table) i = JObj existing"
      and "py_eq (dict_get existing ''action_name'') (JStr a)" and "py_eq (dict_get existing ''payload'') (JObj p)"
      and "r = answer existing (dict_get existing ''receipt'') True"
    | (applied) data s1 record0 receipt data' meta where "target_load E s = (Inr data, s1)"
      and "\<not> is_obj (dict_get (obj_at data table) i)"
      and "dict_get record0 ''action_name'' = JStr a" and "dict_get record0 ''payload'' = JObj p"
      and "dict_get record0 ''receipt'' = JObj receipt" and "r = answer record0 (JObj receipt) False"
      and "commits_request table stat i record0 data data'" and "target_file s' = Some (JObj (AList.update ''meta'' (JObj meta) data'))"
proof -
  have ne: "a \<noteq> []" "i \<noteq> []" using assms(1) by (auto simp: keyed_request_def split: if_splits)
  obtain data s1 where load: "target_load E s = (Inr data, s1)"
    and rest: "(case dict_get (obj_at data table) i of
          JObj existing \<Rightarrow>
            if \<not> py_eq (dict_get existing ''action_name'') (JStr a) \<or> \<not> py_eq (dict_get existing ''payload'') (JObj p)
              then raise (Exn ValueError ''execution_id already used with a different action or payload'')
            else ret (answer existing (dict_get existing ''receipt'') True)
        | _ \<Rightarrow> new_request E table stat level extra answer a p i data) s1 = (Inr r, s')"
    using assms(1) unfolding keyed_request_def if_not_P [OF ne(1)] if_not_P [OF ne(2)] new_request_def [symmetric]
    by (rule bind_InrE)
  have shaped: "shaped data"
    using target_load_cases [OF load] ensure_shape_shaped by force
  show thesis
  proof (cases "is_obj (dict_get (obj_at data table) i)")
    case True
    then obtain existing where "dict_get (obj_at data table) i = JObj existing" by (auto simp: is_obj_iff)
    with rest load show thesis by (intro hit [of data existing]) (auto split: if_splits)
  next
    case False
    then have "new_request E table stat level extra answer a p i data s1 = (Inr r, s')"
      using rest by (cases "dict_get (obj_at data table) i") simp_all
    then show thesis
      by (rule new_request_InrE [OF _ shaped assms(2,3)]) (rule applied [OF load False])
  qed
qed

section \<open>The commit counters\<close>

text \<open>
  What the counters count: the two keyed maps by their size, and the total is at least the commits
  of the four interfaces that have a counter of their own.
\<close>

definition stat_of :: "dict \<Rightarrow> string \<Rightarrow> int" where
  "stat_of data k = (case as_int (dict_get (obj_at data ''stats'') k) of Some n \<Rightarrow> n | None \<Rightarrow> 0)"

definition counted :: "dict \<Rightarrow> bool" where
  "counted data \<longleftrightarrow> shaped data \<and>
     (\<forall>(table, stat) \<in> {(''idempotent_requests'', ''idempotent_commits''), (''rifl_requests'', ''rifl_commits'')}.
        list_all (\<lambda>(k, v). is_obj v) (obj_at data table) \<and> stat_of data stat = int (length (obj_at data table))) \<and>
     stat_of data ''idempotent_commits'' + stat_of data ''rifl_commits'' + stat_of data ''distinguishable_commits'' +
       stat_of data ''counter_commits'' \<le> stat_of data ''total_commits''"

lemma list_all_update: "list_all (\<lambda>(k, v). P v) al \<Longrightarrow> P v \<Longrightarrow> list_all (\<lambda>(k, v). P v) (AList.update k v al)"
  by (induction al) auto

lemma length_update: "length (AList.update k v al) = (if k \<in> fst ` set al then length al else Suc (length al))"
  by (induction al) auto

lemma absent_unless_obj:
  assumes "list_all (\<lambda>(k, v). is_obj v) al" and "\<not> is_obj (dict_get al k)"
  shows "k \<notin> fst ` set al"
proof
  assume "k \<in> fst ` set al"
  then obtain v where v: "map_of al k = Some v" by (metis map_of_is_None_iff_keys not_None_eq)
  with assms(1) have "is_obj v" by (auto simp: list_all_iff dest!: map_of_SomeD)
  with v assms(2) show False by (simp add: dict_get_def)
qed

lemma counted_cong:
  assumes "obj_at d' ''stats'' = obj_at d ''stats''" and "obj_at d' ''idempotent_requests'' = obj_at d ''idempotent_requests''"
    and "obj_at d' ''rifl_requests'' = obj_at d ''rifl_requests''" and "shaped d'" and "counted d"
  shows "counted d'"
  using assms by (simp add: counted_def stat_of_def)

lemma stat_of_update:
  "obj_at d' ''stats'' = AList.update stat (JInt (m + 1)) (AList.update ''total_commits'' (JInt (n + 1)) (obj_at d ''stats'')) \<Longrightarrow>
   as_int (dict_get (obj_at d ''stats'') ''total_commits'') = Some n \<Longrightarrow> as_int (dict_get (obj_at d ''stats'') stat) = Some m \<Longrightarrow>
   stat \<noteq> ''total_commits'' \<Longrightarrow>
   stat_of d' k = stat_of d k + (if k = stat \<or> k = ''total_commits'' then 1 else 0)"
  by (simp add: stat_of_def)

lemma counted_request:
  assumes "counted d" and "commits_request table stat i r d d'" and "\<not> is_obj (dict_get (obj_at d table) i)"
    and "(table, stat) \<in> {(''idempotent_requests'', ''idempotent_commits''), (''rifl_requests'', ''rifl_commits'')}"
  shows "counted d'"
proof -
  from assms(2) obtain n m where n: "as_int (dict_get (obj_at d ''stats'') ''total_commits'') = Some n"
      "as_int (dict_get (obj_at d ''stats'') stat) = Some m"
      "obj_at d' ''stats'' = AList.update stat (JInt (m + 1)) (AList.update ''total_commits'' (JInt (n + 1)) (obj_at d ''stats''))"
    and tab: "obj_at d' table = AList.update i (JObj r) (obj_at d table)" and sh: "shaped d'"
    and other: "\<And>k. k \<notin> {table, ''domain_state'', ''action_log'', ''stats''} \<Longrightarrow> obj_at d' k = obj_at d k"
    unfolding commits_request_def by blast
  have ne: "stat \<noteq> ''total_commits''" using assms(4) by auto
  note st = stat_of_update [OF n(3,1,2) ne]
  have len: "length (obj_at d' table) = Suc (length (obj_at d table))"
    using absent_unless_obj [OF _ assms(3)] assms(1,4) by (auto simp: counted_def tab length_update)
  have objs: "list_all (\<lambda>(k, v). is_obj v) (obj_at d' table)"
    using assms(1,4) by (auto simp: counted_def tab intro!: list_all_update)
  consider (idempotent) "table = ''idempotent_requests''" "stat = ''idempotent_commits''"
    | (rifl) "table = ''rifl_requests''" "stat = ''rifl_commits''" using assms(4) by auto
  then show ?thesis
  proof cases
    case idempotent
    show ?thesis using assms(1) len objs unfolding counted_def idempotent
      by (simp add: st [unfolded idempotent] sh other [unfolded idempotent])
  next
    case rifl
    show ?thesis using assms(1) len objs unfolding counted_def rifl
      by (simp add: st [unfolded rifl] sh other [unfolded rifl])
  qed
qed

text \<open>A write that touches no keyed map: it counts itself in the total and perhaps in its own counter.\<close>

lemma counted_plain:
  assumes "counted d" and "increment_stat ''total_commits'' d = Inr d1"
  shows "counted d1"
proof -
  have sh: "shaped d" using assms(1) by (simp add: counted_def)
  have "''total_commits'' \<in> set store_stats" by (simp add: store_stats_def)
  from increment_stat_Inr [OF assms(2) sh this] obtain n where n: "as_int (dict_get (obj_at d ''stats'') ''total_commits'') = Some n"
      and d1: "d1 = AList.update ''stats'' (JObj (AList.update ''total_commits'' (JInt (n + 1)) (obj_at d ''stats''))) d" and "shaped d1"
    by blast
  with assms(1) show ?thesis by (simp add: counted_def stat_of_def)
qed

lemma counted_two:
  assumes "counted d" and "increment_stat ''total_commits'' d = Inr d1" and "increment_stat stat d1 = Inr d2"
    and "stat \<in> {''distinguishable_commits'', ''counter_commits''}"
  shows "counted d2"
proof -
  have sh: "shaped d" using assms(1) by (simp add: counted_def)
  have s: "stat \<in> set store_stats" "stat \<noteq> ''total_commits''" using assms(4) by (auto simp: store_stats_def)
  from two_increments [OF assms(2,3) sh s] obtain n m where sh2: "shaped d2"
    and other: "\<And>k. k \<noteq> ''stats'' \<Longrightarrow> obj_at d2 k = obj_at d k"
    and n: "as_int (dict_get (obj_at d ''stats'') ''total_commits'') = Some n" "as_int (dict_get (obj_at d ''stats'') stat) = Some m"
      "obj_at d2 ''stats'' = AList.update stat (JInt (m + 1)) (AList.update ''total_commits'' (JInt (n + 1)) (obj_at d ''stats''))"
    by blast
  note st = stat_of_update [OF n(3,1,2) s(2)]
  from assms(4) consider "stat = ''distinguishable_commits''" | "stat = ''counter_commits''" by auto
  then show ?thesis using assms(1) unfolding counted_def by cases (simp_all add: st sh2 other)
qed

lemma counted_put: "counted d \<Longrightarrow> table \<notin> {''stats'', ''idempotent_requests'', ''rifl_requests''} \<Longrightarrow> counted (put_obj table k v d)"
  by (rule counted_cong [of _ d]) (auto simp: counted_def intro: shaped_put)

lemma counted_update: "counted d \<Longrightarrow> table \<notin> {''stats'', ''idempotent_requests'', ''rifl_requests''} \<Longrightarrow>
   counted (AList.update table (JObj m) d)"
  by (rule counted_cong [of _ d]) (auto simp: counted_def intro: shaped_update)

lemma counted_initial: "counted (initial_store c u)"
  by (simp add: counted_def initial_shaped) (simp add: stat_of_def obj_at_def initial_store_def store_stats_def)

end
