(* ===== verification/Target_Contract.thy ===== *)
theory Target_Contract
  imports Target_Facts
begin

text \<open>
  The promises of the mock target: a keyed request is applied once however often it is sent, an
  identifier cannot be reused for another request, a failed operation leaves the file alone, and
  the commit counters agree with the maps they count.
\<close>

section \<open>Keyed requests are applied once\<close>

lemma keyed_request_again:
  assumes "keyed_request E table stat level extra answer a p i s = (Inr r, s')" and "py_eq (JObj p) (JObj p)"
    and "table \<in> {''idempotent_requests'', ''rifl_requests''}" and "stat \<in> {''idempotent_commits'', ''rifl_commits''}"
  shows "\<exists>existing hit. r = answer existing (dict_get existing ''receipt'') hit \<and>
    keyed_request E' table stat level extra answer a p i s' = (Inr (answer existing (dict_get existing ''receipt'') True), s')"
proof -
  have ne: "a \<noteq> []" "i \<noteq> []" using assms(1) by (auto simp: keyed_request_def split: if_splits)
  from assms(1,3,4) show ?thesis
  proof (cases rule: keyed_request_InrE)
    case (hit data existing)
    from target_load_cases [OF hit(1)] have "target_load E' s' = (Inr data, s')"
      by (auto simp: target_load_again)
    with hit(2-4) ne have "keyed_request E' table stat level extra answer a p i s' =
        (Inr (answer existing (dict_get existing ''receipt'') True), s')"
      by (simp add: keyed_request_def bind_Inr)
    with hit(5) show ?thesis by blast
  next
    case (applied data s1 record0 receipt data' meta)
    let ?d = "AList.update ''meta'' (JObj meta) data'"
    have sh: "shaped data'" and tab: "obj_at data' table = AList.update i (JObj record0) (obj_at data table)"
      using applied(7) by (simp_all add: commits_request_def)
    have "table \<noteq> ''meta''" using assms(3) by auto
    then have "dict_get (obj_at ?d table) i = JObj record0" by (simp add: tab)
    with saved_loads [OF applied(8) sh, of E'] applied(3,4) assms(2) ne
    have "keyed_request E' table stat level extra answer a p i s' =
        (Inr (answer record0 (dict_get record0 ''receipt'') True), s')"
      by (simp add: keyed_request_def bind_Inr)
    with applied(5,6) show ?thesis by metis
  qed
qed

text \<open>C32: Sending an applied request again, even from another process with another clock and other random
  identifiers, returns the receipt of the first time, is marked as a hit, and writes nothing. This
  holds for payloads equal to themselves, which leaves out only those with a NaN.\<close>

theorem repeated_request_is_applied_once:
  assumes "apply_idempotent_action E a p i s = (Inr r, s')" and "py_eq (JObj p) (JObj p)"
  shows "apply_idempotent_action E' a p i s' = (Inr [(''receipt'', dict_get r ''receipt''),
    (''idempotent_hit'', JBool True), (''api_level'', JStr ''idempotent'')], s')"
  using keyed_request_again [OF assms(1)[unfolded apply_idempotent_action_def] assms(2), of E']
  by (auto simp: apply_idempotent_action_def)

text \<open>An identifier that stands for an applied request is refused for any other action or payload, and
  nothing is written.\<close>

theorem reused_identifier_is_refused:
  assumes "apply_idempotent_action E a p i s = (Inr r, s')" and "dict_get r ''idempotent_hit'' = JBool False"
    and "a' \<noteq> []" and "\<not> (a' = a \<and> py_eq (JObj p) (JObj p'))"
  shows "apply_idempotent_action E' a' p' i s' =
    (Inl (Exn ValueError ''execution_id already used with a different action or payload''), s')"
proof -
  have ne: "i \<noteq> []" using assms(1) by (auto simp: apply_idempotent_action_def keyed_request_def split: if_splits)
  from assms(1)[unfolded apply_idempotent_action_def] insertI1 insertI1 show ?thesis
  proof (cases rule: keyed_request_InrE)
    case (applied data s1 record0 receipt data' meta)
    have sh: "shaped data'"
      and tab: "obj_at data' ''idempotent_requests'' = AList.update i (JObj record0) (obj_at data ''idempotent_requests'')"
      using applied(7) by (simp_all add: commits_request_def)
    from saved_loads [OF applied(8) sh, of E'] applied(3,4) assms(3,4) ne show ?thesis
      by (auto simp add: apply_idempotent_action_def keyed_request_def bind_Inr tab)
  next
    case (hit data existing)
    then show ?thesis using assms(2) by simp
  qed
qed

section \<open>Valid requests are applied\<close>

lemma increment_stat_ok:
  assumes "shaped data" and "key \<in> set store_stats"
  shows "\<exists>data'. increment_stat key data = Inr data' \<and> shaped data' \<and> (\<forall>k. k \<noteq> ''stats'' \<longrightarrow> dict_get data' k = dict_get data k)"
proof -
  let ?stats = "obj_at data ''stats''"
  obtain n where n: "as_int (dict_get ?stats key) = Some n"
    using assms by (auto simp: shaped_def list_all_iff)
  then have "dict_get_or ?stats key (JInt 0) = dict_get ?stats key"
    by (auto simp: dict_get_or_def dict_get_def split: option.splits)
  moreover have "py_int (dict_get ?stats key) = Inr n"
    using n by (cases "dict_get ?stats key") (auto simp: py_int_def)
  ultimately have e: "increment_stat key data = Inr (AList.update ''stats'' (JObj (AList.update key (JInt (n + 1)) ?stats)) data)"
    by (simp add: increment_stat_def)
  have "shaped (AList.update ''stats'' (JObj (AList.update key (JInt (n + 1)) ?stats)) data)"
    using increment_stat_Inr [OF e assms] by blast
  with e show ?thesis by simp
qed

lemma target_save_ok:
  assumes "shaped data" and "is_obj (dict_get data ''meta'')"
  shows "\<exists>s'. target_save E data s = (Inr (), s')"
  using assms(2) by (auto simp: target_save_def ensure_shape_id [OF assms(1)] is_obj_iff bind_def)

lemma build_receipt_ok: "\<exists>receipt s'. build_receipt E i a s = (Inr receipt, s')"
  by (auto simp: build_receipt_def bind_def split: option.splits)

lemma keyed_request_ok:
  assumes "target_load E s = (Inr data, s1)" and "is_obj (dict_get data ''meta'')"
    and "\<not> is_obj (dict_get (obj_at data table) i)" and "a \<noteq> []" and "i \<noteq> []"
    and "\<And>receipt. \<exists>state. apply_to_domain_state E a p receipt (obj_at data ''domain_state'') = Inr state"
    and "table \<in> {''idempotent_requests'', ''rifl_requests''}" and "stat \<in> set store_stats"
  shows "\<exists>record0 receipt s'. keyed_request E table stat level extra answer a p i s = (Inr (answer record0 (JObj receipt) False), s')"
proof -
  have sh: "shaped data" using target_load_cases [OF assms(1)] ensure_shape_shaped by force
  obtain receipt s2 where receipt: "build_receipt E (Some i) None s1 = (Inr receipt, s2)" using build_receipt_ok by blast
  obtain state where state: "apply_to_domain_state E a p receipt (obj_at data ''domain_state'') = Inr state" using assms(6) by blast
  let ?now = "JTime (target_clock E (target_ticks s2))" and ?s3 = "s2\<lparr>target_ticks := Suc (target_ticks s2)\<rparr>"
  define record0 where "record0 = [(''api_level'', JStr (api_value level)), (''execution_id'', JStr i),
    (''action_name'', JStr a), (''payload'', JObj p), (''receipt'', JObj receipt)] @ extra receipt @ [(''updated_at'', ?now)]"
  have t: "table \<noteq> ''stats''" "table \<noteq> ''meta''" using assms(7) by auto
  have "shaped (log_request table i record0 state data)"
    unfolding log_request_def using t by (intro shaped_put shaped_update sh) simp_all
  moreover have "''total_commits'' \<in> set store_stats" by (simp add: store_stats_def)
  ultimately obtain d1 where d1: "increment_stat ''total_commits'' (log_request table i record0 state data) = Inr d1" "shaped d1"
      "\<forall>k. k \<noteq> ''stats'' \<longrightarrow> dict_get d1 k = dict_get (log_request table i record0 state data) k"
    using increment_stat_ok by blast
  obtain d2 where d2: "increment_stat stat d1 = Inr d2" "shaped d2" "\<forall>k. k \<noteq> ''stats'' \<longrightarrow> dict_get d2 k = dict_get d1 k"
    using increment_stat_ok [OF d1(2) assms(8)] by blast
  have "dict_get d2 ''meta'' = dict_get data ''meta''"
    using d1(3) d2(3) t by (simp add: log_request_def put_obj_def)
  then obtain s4 where save: "target_save E d2 ?s3 = (Inr (), s4)" using target_save_ok [OF d2(2)] assms(2) by metis
  have "new_request E table stat level extra answer a p i data s1 = (Inr (answer record0 (JObj receipt) False), s4)"
    unfolding new_request_def
    by (simp add: bind_Inr [where m = "build_receipt E (Some i) None", OF receipt] state d1(1) [unfolded record0_def append.simps]
      d2(1) record0_def bind_Inr [where m = "target_save E d2", OF save] bind_Inr [where m = "target_now E"] Let_def)
  moreover have "keyed_request E table stat level extra answer a p i s = new_request E table stat level extra answer a p i data s1"
    using assms(3-5) by (cases "dict_get (obj_at data table) i")
      (simp_all add: keyed_request_def new_request_def bind_Inr [where m = "target_load E", OF assms(1)])
  ultimately show ?thesis by metis
qed

lemma idempotent_request_ok:
  assumes "target_load E s = (Inr data, s1)" and "is_obj (dict_get data ''meta'')"
    and "\<not> is_obj (dict_get (obj_at data ''idempotent_requests'') i)" and "a \<noteq> []" and "i \<noteq> []"
    and "\<And>receipt. \<exists>state. apply_to_domain_state E a p receipt (obj_at data ''domain_state'') = Inr state"
  shows "\<exists>r s'. apply_idempotent_action E a p i s = (Inr r, s') \<and> dict_get r ''idempotent_hit'' = JBool False"
  using keyed_request_ok [OF assms(1-6) insertI1, of "''idempotent_commits''" IDEMPOTENT_API]
  by (fastforce simp: apply_idempotent_action_def store_stats_def)

text \<open>A request with a new identifier, whose action the domain state accepts, is applied: it returns,
  with a receipt of its own, and is not taken for a repetition.\<close>

theorem valid_request_is_applied:
  assumes "target_load E s = (Inr data, s1)" and "is_obj (dict_get data ''meta'')"
    and "\<not> is_obj (dict_get (obj_at data ''idempotent_requests'') i)" and "a \<noteq> []" and "i \<noteq> []"
    and "\<And>receipt. \<exists>state. apply_to_domain_state E a p receipt (obj_at data ''domain_state'') = Inr state"
  shows "\<exists>r s'. apply_idempotent_action E a p i s = (Inr r, s') \<and> dict_get r ''idempotent_hit'' = JBool False"
  by (rule idempotent_request_ok [OF assms])

lemma applied_file: "apply_idempotent_action E a p i s = (Inr r, s') \<Longrightarrow> target_file s' \<noteq> None"
proof -
  assume "apply_idempotent_action E a p i s = (Inr r, s')"
  from this [unfolded apply_idempotent_action_def] insertI1 insertI1 show "target_file s' \<noteq> None"
  proof (cases rule: keyed_request_InrE)
    case (hit data existing)
    then show ?thesis using target_load_cases by fastforce
  qed simp
qed

section \<open>The counters agree with the maps\<close>

definition file_counted :: "target \<Rightarrow> bool" where
  "file_counted s \<longleftrightarrow> (case target_file s of None \<Rightarrow> True | Some f \<Rightarrow> \<exists>data. ensure_shape f = Inr data \<and> counted data)"

abbreviation counts :: "target \<Rightarrow> target \<Rightarrow> bool" where
  "counts s s' \<equiv> file_counted s \<longrightarrow> file_counted s'"

interpretation counting: effect_order counts
  by unfold_locales auto

lemma counts_init: "only_init s s' \<Longrightarrow> counts s s'"
  unfolding only_init_def
proof (elim disjE conjE exE)
  fix c u assume stored: "target_file s' = Some (JObj (initial_store c u))"
  have "\<exists>data. ensure_shape (JObj (initial_store c u)) = Inr data \<and> counted data"
    using ensure_shape_id [OF initial_shaped] counted_initial by blast
  then show "counts s s'" by (simp only: file_counted_def stored option.case simp_thms)
qed (simp add: file_counted_def)

lemma counts_only_init: "confined only_init m \<Longrightarrow> confined counts m"
  by (rule confinedI, rule counts_init, erule (1) confinedD)

lemma counts_save: "counted data \<Longrightarrow> confined counts (target_save E data)"
proof (rule confinedI, rule impI)
  fix s r s' assume "counted data" "target_save E data s = (r, s')" "file_counted s"
  moreover from \<open>counted data\<close> have sh: "shaped data" by (simp add: counted_def)
  moreover have "counted (AList.update ''meta'' (JObj meta) data)" "shaped (AList.update ''meta'' (JObj meta) data)" for meta
    using \<open>counted data\<close> sh by (auto intro: counted_update shaped_update)
  ultimately show "file_counted s'"
    using target_save_InrD [of E data s r s'] by (auto simp: file_counted_def ensure_shape_id split: sum.splits)
qed

lemma counts_load:
  assumes "\<And>data. counted data \<Longrightarrow> confined counts (f data)"
  shows "confined counts (bind (target_load E) f)"
proof (rule confinedI, rule impI)
  fix s r s' assume run: "bind (target_load E) f s = (r, s')" and "file_counted s"
  from run show "file_counted s'"
  proof (cases rule: bind_cases)
    case (raised e)
    with \<open>file_counted s\<close> show ?thesis using counts_init confinedD [OF init_basic(3)] by blast
  next
    case (returned data s1)
    then have "file_counted s1" using \<open>file_counted s\<close> counts_init confinedD [OF init_basic(3)] by blast
    with target_load_cases [OF returned(1)] have "counted data" by (auto simp: file_counted_def)
    from confinedD [OF assms [OF this] returned(2)] \<open>file_counted s1\<close> show ?thesis by blast
  qed
qed

lemma counts_lift: "(\<And>x. r = Inr x \<Longrightarrow> confined counts (f x)) \<Longrightarrow> confined counts (bind (lift r) f)"
  by (cases r) (simp_all add: confined_def)

lemma counts_request:
  assumes "(table, stat) \<in> {(''idempotent_requests'', ''idempotent_commits''), (''rifl_requests'', ''rifl_commits'')}"
  shows "confined counts (keyed_request E table stat level extra answer a p i)"
proof (rule confinedI, rule impI)
  fix s r s' assume run: "keyed_request E table stat level extra answer a p i s = (r, s')" and fc: "file_counted s"
  have tables: "table \<in> {''idempotent_requests'', ''rifl_requests''}" "stat \<in> {''idempotent_commits'', ''rifl_commits''}"
    using assms by auto
  show "file_counted s'"
  proof (cases r)
    case (Inl e)
    then have "only_init s s'" using spares_request run unfolding spares_def by blast
    then show ?thesis using fc counts_init by blast
  next
    case (Inr x)
    with run have "keyed_request E table stat level extra answer a p i s = (Inr x, s')" by simp
    from this tables show ?thesis
    proof (cases rule: keyed_request_InrE)
      case (hit data existing)
      then show ?thesis using fc counts_init confinedD [OF init_basic(3)] by blast
    next
      case (applied data s1 record0 receipt data' meta)
      have "file_counted s1" using applied(1) fc counts_init confinedD [OF init_basic(3)] by blast
      with target_load_cases [OF applied(1)] have "counted data" by (auto simp: file_counted_def)
      from counted_request [OF this applied(7,2) assms] have "counted data'" .
      then have "counted (AList.update ''meta'' (JObj meta) data')" by (rule counted_update) simp
      then show ?thesis by (auto simp: file_counted_def applied(8) ensure_shape_id counted_def)
    qed
  qed
qed

lemma counts_keyed [effect]:
  "confined counts (apply_idempotent_action E a p i)" "confined counts (apply_rifl_action E a p i)"
  unfolding apply_idempotent_action_def apply_rifl_action_def by (simp_all add: counts_request)

lemmas counts_basic [effect] = init_basic [THEN counts_only_init] init_receipt [THEN counts_only_init]
  init_distinguishable [THEN counts_only_init]

text \<open>The end of every other write: the counters, then the file.\<close>

lemma counts_commit:
  "counted d \<Longrightarrow> confined counts (bind (lift (increment_stat ''total_commits'' d)) (\<lambda>d. bind (target_save E d) (\<lambda>_. ret x)))"
  by (intro counts_lift counting.bind counting.ret counts_save) (rule counted_plain)

lemma counts_commit_two:
  "counted d \<Longrightarrow> stat \<in> {''distinguishable_commits'', ''counter_commits''} \<Longrightarrow>
   confined counts (bind (lift (increment_stat ''total_commits'' d)) (\<lambda>d. bind (lift (increment_stat stat d)) (\<lambda>d.
     bind (target_save E d) (\<lambda>_. ret x))))"
  by (intro counts_lift counting.bind counting.ret counts_save) (rule counted_two)

lemma counts_writes [effect]:
  "confined counts (apply_action E a p x)" "confined counts (apply_queryable_distinguishable E a p)"
  "confined counts (increment_counter E c v)"
  unfolding apply_action_def apply_queryable_distinguishable_def increment_counter_def Let_def
  by (intro counts_load counts_commit counts_commit_two effect; (intro counted_put counted_update)?; simp)+

lemma init_reads:
  "confined only_init (probe_rifl_execution E i)" "confined only_init (get_action_by_execution_id E i)"
  "confined only_init (query_state E q p)" "confined only_init (target_health E)"
  unfolding probe_rifl_execution_def get_action_by_execution_id_def query_state_def target_health_def Let_def
  by (intro effect)+

lemmas counts_reads [effect] = init_reads [THEN counts_only_init]

lemma counts_tool_call: "confined counts (handle_mcp_tool_call E t args)"
  unfolding handle_mcp_tool_call_def Let_def by (intro effect)

text \<open>The states of a store that served any sequence of tool calls, each from a process of its own
  (another clock, other random identifiers, another mode).\<close>

inductive target_reachable :: "target \<Rightarrow> bool" where
  fresh: "target_file s = None \<Longrightarrow> target_reachable s"
| served: "target_reachable s \<Longrightarrow> handle_mcp_tool_call E t args s = (r, s') \<Longrightarrow> target_reachable s'"

text \<open>C33: Whatever tool calls a store has served, failed ones included, its file passes the shape check,
  the counters of idempotent and of RIFL commits are the numbers of the recorded requests, and
  the total is at least the sum of the four counters.\<close>

theorem commit_counters_count:
  assumes "target_reachable s" and "target_file s = Some f"
  shows "\<exists>data. ensure_shape f = Inr data \<and> counted data"
proof -
  from assms(1) have "file_counted s"
  proof induction
    case (fresh s)
    then show ?case by (simp add: file_counted_def)
  next
    case (served s E t args r s')
    then show ?case using confinedD [OF counts_tool_call] by blast
  qed
  with assms(2) show ?thesis by (simp add: file_counted_def)
qed

section \<open>Failed operations\<close>

lemma spares_tool_call: "spares (handle_mcp_tool_call E t args)"
  unfolding handle_mcp_tool_call_def Let_def
  by (intro spares_cases spares_bind spares_apply effect) (intro spares_confined effect init_reads)+

text \<open>A tool call of the mock target that raises leaves the file with the contents it had; at most it
  has created the file with an empty store.\<close>

theorem failed_target_call_changes_nothing:
  assumes "handle_mcp_tool_call E t args s = (Inl e, s')"
  shows "target_file s' = target_file s \<or>
    target_file s = None \<and> (\<exists>c u. target_file s' = Some (JObj (initial_store c u)))"
  using spares_tool_call assms unfolding spares_def only_init_def by blast

end
