(* ===== verification/Verifier.thy ===== *)
theory Verifier
  imports Target_Contract Recovery
begin

text \<open>
  \<open>verifier.py\<close>: whether a write is on record at the mock target, and the recovery that asks it.
  The state of the verifier is that of the target.
\<close>

section \<open>The verifier\<close>

record verification_decision =
  vd_execution_id :: string
  vd_status :: execution_status
  vd_decision :: string
  vd_reason :: string
  vd_committed :: "bool option"
  vd_record :: "dict option"
  vd_receipt :: "dict option"

definition verification_to_dict :: "verification_decision \<Rightarrow> dict" where
  "verification_to_dict v = [
     (''execution_id'', JStr (vd_execution_id v)), (''execution_status'', JStr (execution_status_value (vd_status v))),
     (''decision'', JStr (vd_decision v)), (''reason'', JStr (vd_reason v)), (''committed'', jopt JBool (vd_committed v)),
     (''record'', jopt JObj (vd_record v)), (''receipt'', jopt JObj (vd_receipt v))]"

definition extract_receipt :: "dict \<Rightarrow> dict option" where
  "extract_receipt rec = (case dict_get rec ''receipt'' of
     JObj r \<Rightarrow> Some r
   | _ \<Rightarrow> (case dict_get rec ''result'' of
       JObj result \<Rightarrow> (case dict_get result ''receipt'' of JObj r \<Rightarrow> Some r | _ \<Rightarrow> None)
     | _ \<Rightarrow> None))"

text \<open>The three answers.\<close>

definition lookup_failed :: "string \<Rightarrow> exn \<Rightarrow> verification_decision" where
  "lookup_failed execution_id e = \<lparr>vd_execution_id = execution_id, vd_status = DISPATCHED, vd_decision = ''retry_later'',
     vd_reason = ''target lookup failed: '' @ exn_text e, vd_committed = None, vd_record = None, vd_receipt = None\<rparr>"

definition found_commit :: "string \<Rightarrow> string \<Rightarrow> dict \<Rightarrow> dict option \<Rightarrow> verification_decision" where
  "found_commit execution_id reason rec receipt = \<lparr>vd_execution_id = execution_id, vd_status = VERIFIED_COMMITTED,
     vd_decision = ''skip_replay'', vd_reason = reason, vd_committed = Some True, vd_record = Some rec, vd_receipt = receipt\<rparr>"

definition found_nothing :: "string \<Rightarrow> verification_decision" where
  "found_nothing execution_id = \<lparr>vd_execution_id = execution_id, vd_status = VERIFIED_NOT_FOUND, vd_decision = ''safe_to_replay'',
     vd_reason = ''mock target has no record for the execution id'', vd_committed = Some False, vd_record = None, vd_receipt = None\<rparr>"

text \<open>A key to look up in the domain state: a payload object with a non-empty string under \<open>key\<close>.\<close>

definition payload_key :: "dict option \<Rightarrow> (dict \<times> json) option" where
  "payload_key args = (case (case args of Some a \<Rightarrow> dict_get_or a ''payload'' (JObj []) | None \<Rightarrow> JObj []) of
     JObj payload \<Rightarrow> (case dict_get payload ''key'' of
         JStr k \<Rightarrow> if k = [] then None else Some (payload, JStr k)
       | JTime t \<Rightarrow> Some (payload, JTime t)
       | _ \<Rightarrow> None)
   | _ \<Rightarrow> None)"

text \<open>The second question, when there is no record: does the domain state hold the payload?\<close>

definition verify_by_state :: "target_env \<Rightarrow> string \<Rightarrow> string \<Rightarrow> dict option \<Rightarrow> verification_decision target_op" where
  "verify_by_state E execution_id tool_name args = (case payload_key args of
     None \<Rightarrow> ret (found_nothing execution_id)
   | Some (payload, key) \<Rightarrow>
       bind (query_state E ''get_value'' [(''key'', key)]) (\<lambda>answer.
       let observed = dict_get answer ''result''; expected_value = dict_get payload ''value'' in
       if py_eq observed expected_value \<and> expected_value \<noteq> JNull
         then ret (found_commit execution_id ''domain state already matches the expected payload''
           [(''payload'', JObj payload), (''observed_value'', observed), (''tool_name'', JStr tool_name)] None)
       else ret (found_nothing execution_id)))"

definition verify_write :: "target_env \<Rightarrow> string \<Rightarrow> string \<Rightarrow> dict option \<Rightarrow> verification_decision target_op" where
  "verify_write E execution_id tool_name args =
     (if execution_id = [] then raise (Exn ValueError ''execution_id is required'') else
      bind (try_catch (bind (get_action_by_execution_id E execution_id) (\<lambda>rec. ret (Inr rec))) (\<lambda>e. ret (Inl e))) (\<lambda>looked_up.
      case looked_up of
        Inl e \<Rightarrow> ret (lookup_failed execution_id e)
      | Inr (JObj rec) \<Rightarrow>
          ret (found_commit execution_id ''execution id already exists in mock target action log'' rec (extract_receipt rec))
      | Inr _ \<Rightarrow> verify_by_state E execution_id tool_name args))"

text \<open>The verifier in the role that the recovery coordinator gives it.\<close>

definition mock_target_verifier :: "target_env \<Rightarrow> target write_verifier" where
  "mock_target_verifier E execution_id tool_name args t = (case verify_write E execution_id tool_name args t of
     (Inl e, t') \<Rightarrow> (Inl e, t')
   | (Inr v, t') \<Rightarrow> (Inr \<lparr>ver_committed = vd_committed v, ver_reason = vd_reason v,
       ver_record = jopt JObj (vd_record v), ver_receipt = jopt JObj (vd_receipt v)\<rparr>, t'))"

section \<open>Asking changes nothing\<close>

lemma init_lookup [effect]:
  "confined only_init (try_catch (bind (get_action_by_execution_id E i) (\<lambda>rec. ret (Inr rec))) (\<lambda>e. ret (Inl e)))"
  by (intro effect init_reads)

lemma init_by_state [effect]: "confined only_init (verify_by_state E i t a)"
  unfolding verify_by_state_def Let_def by (intro effect init_reads)

lemma init_verify: "confined only_init (verify_write E i t a)"
  unfolding verify_write_def by (intro effect)

section \<open>What the answers say\<close>

definition action_on_record :: "dict \<Rightarrow> string \<Rightarrow> json" where
  "action_on_record data i = (case dict_get (obj_at data ''action_log'') i of
     JObj rec \<Rightarrow> JObj rec
   | _ \<Rightarrow> let found = dict_get (obj_at data ''idempotent_requests'') i in
       if truthy found then found else dict_get (obj_at data ''rifl_requests'') i)"

lemma get_action_loaded:
  assumes "target_load E s = (Inr data, s')" and "i \<noteq> []"
  shows "get_action_by_execution_id E i s = (Inr (action_on_record data i), s')"
  using assms by (simp add: get_action_by_execution_id_def action_on_record_def bind_Inr Let_def split: json.split)

lemma verify_write_found:
  assumes "target_load E s = (Inr data, s')" and "i \<noteq> []" and "action_on_record data i = JObj rec"
  shows "verify_write E i tool args s =
    (Inr (found_commit i ''execution id already exists in mock target action log'' rec (extract_receipt rec)), s')"
  using get_action_loaded [OF assms(1,2)] assms(2,3) by (simp add: verify_write_def try_catch_def bind_def)

lemma verify_write_not_found:
  assumes "target_load E s = (Inr data, s')" and "i \<noteq> []" and "\<not> is_obj (action_on_record data i)"
  shows "verify_write E i tool args s = verify_by_state E i tool args s'"
proof -
  have "try_catch (bind (get_action_by_execution_id E i) (\<lambda>rec. ret (Inr rec))) (\<lambda>e. ret (Inl e)) s =
      (Inr (Inr (action_on_record data i)), s')"
    using get_action_loaded [OF assms(1,2)] by (simp add: try_catch_def bind_def)
  then show ?thesis
    using assms(2,3) by (cases "action_on_record data i") (simp_all add: verify_write_def bind_def)
qed

lemma get_value_loaded:
  assumes "target_load E s = (Inr data, s')" and "require_str_field E [(''key'', key)] ''key'' = Inr k"
  shows "query_state E ''get_value'' [(''key'', key)] s = (Inr [(''result'', dict_get (obj_at data ''domain_state'') k)], s')"
  using assms by (simp add: query_state_def bind_Inr Let_def)

lemma loads_again: "target_load E s = (r, s') \<Longrightarrow> target_load E' s' = (r, s')"
  using target_load_cases [of E s r s'] by (auto simp: target_load_again)

lemma applied_request_facts:
  assumes "apply_idempotent_action E a p i s = (Inr r, s')"
  shows "\<exists>v. verify_write E' i tool args s' = (Inr v, s') \<and> vd_committed v = Some True \<and>
    vd_status v = VERIFIED_COMMITTED \<and> vd_decision v = ''skip_replay'' \<and>
    (dict_get r ''idempotent_hit'' = JBool True \<or> jopt JObj (vd_receipt v) = dict_get r ''receipt'')"
proof -
  have ne: "i \<noteq> []" "a \<noteq> []" using assms by (auto simp: apply_idempotent_action_def keyed_request_def split: if_splits)
  from assms[unfolded apply_idempotent_action_def] insertI1 insertI1 show ?thesis
  proof (cases rule: keyed_request_InrE)
    case (hit data existing)
    have load: "target_load E' s' = (Inr data, s')" using loads_again [OF hit(1)] .
    have "existing \<noteq> []" using hit(3) by (auto simp: dict_get_def)
    then obtain rec where "action_on_record data i = JObj rec"
      using hit(2) by (cases "dict_get (obj_at data ''action_log'') i") (simp_all add: action_on_record_def)
    from verify_write_found [OF load ne(1) this] hit(5) show ?thesis by (simp add: found_commit_def)
  next
    case (applied data s1 record0 receipt data' meta)
    let ?d = "AList.update ''meta'' (JObj meta) data'"
    have sh: "shaped data'" and log: "dict_get (obj_at data' ''action_log'') i = JObj record0"
      using applied(7) by (simp_all add: commits_request_def)
    have "action_on_record ?d i = JObj record0" using log by (simp add: action_on_record_def)
    from verify_write_found [OF saved_loads [OF applied(8) sh, of E'] ne(1) this] applied(5,6)
    show ?thesis by (simp add: found_commit_def extract_receipt_def)
  qed
qed


text \<open>A request that the target has applied is verified as committed, by whatever verifier process and
  whatever arguments it is asked with; the verification changes nothing, and gives the receipt of
  the request when it was just applied.\<close>

theorem applied_request_is_verified:
  assumes "apply_idempotent_action E a p i s = (Inr r, s')"
  shows "\<exists>v. verify_write E' i tool args s' = (Inr v, s') \<and> vd_committed v = Some True \<and>
    vd_status v = VERIFIED_COMMITTED \<and> vd_decision v = ''skip_replay'' \<and>
    (dict_get r ''idempotent_hit'' = JBool True \<or> jopt JObj (vd_receipt v) = dict_get r ''receipt'')"
  by (rule applied_request_facts [OF assms])

text \<open>When the verifier answers that it is safe to replay, neither the action log nor the map of
  idempotent requests of the target holds the execution.\<close>

theorem safe_to_replay_means_absent:
  assumes "verify_write E i tool args s = (Inr v, s')" and "vd_committed v = Some False"
  shows "\<exists>data. target_load E s' = (Inr data, s') \<and> \<not> is_obj (dict_get (obj_at data ''action_log'') i) \<and>
    (\<forall>existing. dict_get (obj_at data ''idempotent_requests'') i = JObj existing \<longrightarrow> existing = [])"
proof -
  have ne: "i \<noteq> []" using assms(1) by (auto simp: verify_write_def split: if_splits)
  obtain loaded s1 where load: "target_load E s = (loaded, s1)" by (cases "target_load E s")
  show ?thesis
  proof (cases loaded)
    case (Inl e)
    then have "get_action_by_execution_id E i s = (Inl e, s1)"
      using load ne by (simp add: get_action_by_execution_id_def bind_def)
    then show ?thesis using assms ne
      by (auto simp: verify_write_def try_catch_def bind_def lookup_failed_def split: if_splits)
  next
    case (Inr data)
    note load = load [unfolded Inr]
    have absent: "\<not> is_obj (action_on_record data i)"
      using verify_write_found [OF load ne] assms by (auto simp: found_commit_def is_obj_iff)
    have "verify_by_state E i tool args s1 = (Inr v, s')"
      using assms(1) verify_write_not_found [OF load ne absent] by simp
    from confinedD [OF init_by_state this] have "target_load E s' = (Inr data, s')"
      using target_load_cases [OF load] by (auto simp: only_init_def target_load_again)
    moreover have "\<not> is_obj (dict_get (obj_at data ''action_log'') i)"
      "\<forall>existing. dict_get (obj_at data ''idempotent_requests'') i = JObj existing \<longrightarrow> existing = []"
      using absent by (auto simp: action_on_record_def Let_def split: json.splits if_splits)
    ultimately show ?thesis by blast
  qed
qed

text \<open>C34: The verifier also takes a matching value in the domain state for the commit: an execution that the
  target has no record of is verified as committed when some other write has stored the same
  value under its key.\<close>

theorem matching_state_counts_as_commit:
  assumes "target_load E s = (Inr data, s')" and "i \<noteq> []" and "\<not> is_obj (action_on_record data i)"
    and "dict_get payload ''key'' = JStr k" and "k \<noteq> []" and "dict_get payload ''value'' = value" and "value \<noteq> JNull"
    and "py_eq (dict_get (obj_at data ''domain_state'') k) value"
  shows "\<exists>v. verify_write E i tool (Some [(''payload'', JObj payload)]) s = (Inr v, s') \<and> vd_committed v = Some True \<and>
    vd_receipt v = None"
proof -
  have "payload_key (Some [(''payload'', JObj payload)]) = Some (payload, JStr k)"
    using assms(4,5) by (simp add: payload_key_def)
  moreover have "query_state E ''get_value'' [(''key'', JStr k)] s' = (Inr [(''result'', dict_get (obj_at data ''domain_state'') k)], s')"
    by (rule get_value_loaded [OF loads_again [OF assms(1)]]) (simp add: require_str_field_def assms(5))
  ultimately show ?thesis
    using verify_write_not_found [OF assms(1-3)] assms(6-8)
    by (simp add: verify_by_state_def bind_Inr Let_def found_commit_def)
qed

section \<open>The recovery that asks the target\<close>

lemma mock_verifier_confirms:
  assumes "apply_idempotent_action E a p i t0 = (Inr answer, t)"
  shows "\<exists>v. mock_target_verifier E' i tool args t = (Inr v, t) \<and> ver_committed v = Some True"
  using applied_request_facts [OF assms, of E' tool args] by (auto simp: mock_target_verifier_def)

lemma outside_reconcile: "confined same_outside (reconcile_tool_message R r rec)"
  unfolding reconcile_tool_message_def Let_def by (intro effect facade_effect(3) confined_no_db(1) [OF agent_reads(3)])

lemma call_outside_pure: "outside w = (t, keys) \<Longrightarrow> f t = (r, t) \<Longrightarrow> call_outside f w = (r, w)"
  by (simp add: call_outside_def call_tool_def)

text \<open>C31: A dispatched write that the mock target has applied is recovered as committed once its waiting window is
  over: its record becomes \<open>verified_committed\<close>, and the target is not touched. Inside the window the recovery
  waits: it does not ask the target and changes nothing.\<close>

theorem applied_write_is_recovered_as_committed:
  assumes "apply_idempotent_action E a p i t0 = (Inr answer, t)"
    and "verifier C = Some (mock_target_verifier E')" and "outside w = (t, keys)" and "\<not> conn_open w"
    and "canonical run_id" and "canonical i"
    and "map_of records i = Some rec" and "res_operation_type rec = ''WRITE''" and "res_execution_status rec = DISPATCHED"
    and "resolve_wait_deadline (res_updated_at rec) (res_request_payload rec) (default_wait_seconds C) = Inr (secs, deadline)"
    and "recover_one R C run_id now records i w = (Inr d, w')"
  shows "if now < deadline then dec_action d = RESUME_WAITING \<and> dec_wait_until d = Some deadline \<and> w' = w
    else dec_action d = MARK_COMMITTED \<and> status_on_record (db w') i = Some VERIFIED_COMMITTED \<and> outside w' = outside w"
proof (cases "now < deadline")
  case True
  then show ?thesis using assms(2,7-11) by (auto simp: recover_one_def decide_def decision_def bind_eq_Inr)
next
  case False
  obtain late where late: "decide (default_wait_seconds C) run_id i rec now = Inr late" "dec_action late = HANDOFF_RETRY_OR_ABANDON"
    using False assms(9,10) by (simp add: decide_def decision_def)
  obtain v where v: "mock_target_verifier E' i (res_tool_name rec) (res_request_payload rec) t = (Inr v, t)"
      "ver_committed v = Some True"
    using mock_verifier_confirms [OF assms(1)] by blast
  let ?report = "status_report OK VERIFIED_COMMITTED (Some (response_payload_from_verification v)) True"
  have asked: "try_catch (bind (call_outside (mock_target_verifier E' i (res_tool_name rec) (res_request_payload rec))) (\<lambda>v. ret (Some v)))
      (\<lambda>e. ret None) w = (Inr (Some v), w)"
    using call_outside_pure [where f = "mock_target_verifier E' i (res_tool_name rec) (res_request_payload rec)", OF assms(3) v(1)]
    by (simp add: try_catch_def bind_def)
  have ver: "verify_ambiguous_write R (mock_target_verifier E') run_id i rec late w =
      bind (record_tool_result R run_id i ?report) (\<lambda>updated. ret (decision run_id i MARK_COMMITTED
        (''target verification confirmed commit: '' @ ver_reason v) (Some VERIFIED_COMMITTED), updated)) w"
    unfolding verify_ambiguous_write_def by (subst bind_Inr, rule asked) (simp add: v(2))
  obtain updated u w1 where upd: "record_tool_result R run_id i ?report w = (Inr updated, w1)"
    and d: "dec_action d = MARK_COMMITTED" and rest: "reconcile_tool_message R run_id updated w1 = (Inr u, w')"
    using assms(11) by (auto simp: recover_one_def assms(2,7-9) late decision_def bind_eq_Inr ver)
  from record_result_outcome [OF upd assms(4-6) status_report_status]
  have "status_on_record (db w1) i = Some VERIFIED_COMMITTED" by (auto simp: status_after_step)
  moreover have "status_on_record (db w') = status_on_record (db w1)"
    using confinedD [OF quiet_recovery(2) rest] by (simp add: no_status_def)
  moreover have "outside w1 = outside w" using same_outsideD [OF facade_effect(17) upd] by simp
  moreover have "outside w' = outside w1"
    using confinedD [OF outside_reconcile rest] by (simp add: same_outside_def)
  ultimately show ?thesis using d False by simp
qed

end
