(* ===== verification/Target_Demo.thy ===== *)
theory Target_Demo
  imports Verifier Instances
begin

text \<open>
  The properties of the mock target and its verifier, applied to a concrete store: one value set
  through the idempotent interface, and another process that asks or repeats.
\<close>

definition demo_target :: target_env where
  "demo_target = \<lparr>target_clock = (\<lambda>n. int n), target_uuid = (\<lambda>n. ''a'' @ int_str (int n)), target_forms = demo_forms,
     target_mode = NON_IDEMPOTENT, target_path = ''store.json''\<rparr>"

definition demo_target_restarted :: target_env where
  "demo_target_restarted = demo_target\<lparr>target_clock := (\<lambda>n. 1000 + int n), target_uuid := (\<lambda>n. ''b'' @ int_str (int n)),
     target_mode := IDEMPOTENT\<rparr>"

definition demo_store :: target where
  "demo_store = \<lparr>target_file = None, target_ticks = 0, target_ids = 0\<rparr>"

definition demo_set :: dict where
  "demo_set = [(''key'', JStr ''k''), (''value'', JInt 5)]"

abbreviation demo_apply :: "string \<Rightarrow> dict target_op" where
  "demo_apply \<equiv> apply_idempotent_action demo_target ''set_value'' demo_set"

lemma demo_load: "target_load demo_target demo_store =
    (Inr (initial_store (JTime 0) (JTime 1)), \<lparr>target_file = Some (JObj (initial_store (JTime 0) (JTime 1))), target_ticks = 2, target_ids = 0\<rparr>)"
  by (simp add: target_load_def target_init_def demo_store_def demo_target_def bind_def ensure_shape_id [OF initial_shaped])

lemma demo_fresh: "obj_at (initial_store c u) ''idempotent_requests'' = []" "obj_at (initial_store c u) ''domain_state'' = []"
    "obj_at (initial_store c u) ''action_log'' = []" "obj_at (initial_store c u) ''rifl_requests'' = []"
    "is_obj (dict_get (initial_store c u) ''meta'')"
  by (simp_all add: initial_store_def obj_at_def)

lemma demo_applied: "\<exists>r s'. demo_apply ''e1'' demo_store = (Inr r, s') \<and> dict_get r ''idempotent_hit'' = JBool False"
  by (rule idempotent_request_ok [OF demo_load demo_fresh(5)])
    (simp_all add: demo_fresh apply_to_domain_state_def demo_set_def require_str_field_def)

lemma demo_set_eq: "py_eq (JObj demo_set) (JObj demo_set)"
  by (simp add: demo_set_def)

lemma repeated_request_is_applied_once_witness:
  "\<exists>r s'. demo_apply ''e1'' demo_store = (Inr r, s') \<and>
     fst (apply_idempotent_action demo_target_restarted ''set_value'' demo_set ''e1'' s') =
       Inr [(''receipt'', dict_get r ''receipt''), (''idempotent_hit'', JBool True), (''api_level'', JStr ''idempotent'')]"
proof -
  obtain r s' where a: "demo_apply ''e1'' demo_store = (Inr r, s')" using demo_applied by blast
  from repeated_request_is_applied_once [OF a demo_set_eq, of demo_target_restarted] a show ?thesis by auto
qed

lemma reused_identifier_is_refused_witness:
  "\<exists>s'. snd (demo_apply ''e1'' demo_store) = s' \<and>
     apply_idempotent_action demo_target_restarted ''delete_value'' demo_set ''e1'' s' =
       (Inl (Exn ValueError ''execution_id already used with a different action or payload''), s')"
proof -
  obtain r s' where a: "demo_apply ''e1'' demo_store = (Inr r, s')" "dict_get r ''idempotent_hit'' = JBool False"
    using demo_applied by blast
  from reused_identifier_is_refused [OF a, of "''delete_value''" demo_set demo_target_restarted] a show ?thesis by simp
qed

lemma valid_request_is_applied_witness:
  "\<exists>r s'. demo_apply ''e2'' demo_store = (Inr r, s') \<and> dict_get r ''idempotent_hit'' = JBool False"
  by (rule valid_request_is_applied [OF demo_load demo_fresh(5)])
    (simp_all add: demo_fresh apply_to_domain_state_def demo_set_def require_str_field_def)

lemma demo_tool_call: "handle_mcp_tool_call demo_target ''mock_target_apply_idempotent_action''
     [(''action_name'', JStr ''set_value''), (''payload'', JObj demo_set), (''execution_id'', JStr ''e1'')] demo_store =
   demo_apply ''e1'' demo_store"
  by (simp add: handle_mcp_tool_call_def require_str_field_def require_dict_field_def)

lemma commit_counters_count_witness:
  "\<exists>f data. target_file (snd (demo_apply ''e1'' demo_store)) = Some f \<and> ensure_shape f = Inr data \<and> counted data"
proof -
  obtain r s' where a: "demo_apply ''e1'' demo_store = (Inr r, s')" using demo_applied by blast
  then obtain f where f: "target_file s' = Some f" using applied_file by blast
  have "target_reachable demo_store" by (rule target_reachable.fresh) (simp add: demo_store_def)
  then have "target_reachable s'" by (rule target_reachable.served) (rule trans [OF demo_tool_call a])
  from commit_counters_count [OF this f] a f show ?thesis by auto
qed

lemma failed_target_call_changes_nothing_witness:
  "isl (fst (handle_mcp_tool_call demo_target ''mock_target_apply_action'' [] demo_store)) \<and>
   target_file (snd (handle_mcp_tool_call demo_target ''mock_target_apply_action'' [] demo_store)) = None"
proof -
  obtain e where c: "handle_mcp_tool_call demo_target ''mock_target_apply_action'' [] demo_store = (Inl e, demo_store)"
    by (simp add: handle_mcp_tool_call_def require_str_field_def)
  with failed_target_call_changes_nothing [OF c] show ?thesis by (simp add: demo_store_def)
qed

lemma applied_request_is_verified_witness:
  "\<exists>v. fst (verify_write demo_target_restarted ''e1'' ''pay'' None (snd (demo_apply ''e1'' demo_store))) = Inr v \<and>
     vd_committed v = Some True"
proof -
  obtain r s' where a: "demo_apply ''e1'' demo_store = (Inr r, s')" using demo_applied by blast
  from applied_request_is_verified [OF a, of demo_target_restarted "''pay''" None] a show ?thesis by auto
qed

lemma safe_to_replay_means_absent_witness:
  "\<exists>v s' data. verify_write demo_target ''e2'' ''pay'' None demo_store = (Inr v, s') \<and>
     target_load demo_target s' = (Inr data, s') \<and> \<not> is_obj (dict_get (obj_at data ''action_log'') ''e2'')"
proof -
  obtain s' where v: "verify_write demo_target ''e2'' ''pay'' None demo_store = (Inr (found_nothing ''e2''), s')"
    by (simp add: verify_write_not_found [OF demo_load] action_on_record_def demo_fresh verify_by_state_def payload_key_def)
  from safe_to_replay_means_absent [OF v] v show ?thesis by (auto simp: found_nothing_def)
qed

text \<open>A store in which some other write has set \<open>k\<close> to 5.\<close>

definition demo_data :: dict where
  "demo_data = AList.update ''domain_state'' (JObj [(''k'', JInt 5)]) (initial_store (JTime 0) (JTime 1))"

definition demo_store_set :: target where
  "demo_store_set = \<lparr>target_file = Some (JObj demo_data), target_ticks = 2, target_ids = 0\<rparr>"

lemma demo_data_load: "target_load E demo_store_set = (Inr demo_data, demo_store_set)"
  by (simp add: demo_store_set_def target_load_again demo_data_def ensure_shape_id shaped_update initial_shaped)

lemma matching_state_counts_as_commit_witness:
  "\<exists>v. verify_write demo_target ''e2'' ''pay'' (Some [(''payload'', JObj demo_set)]) demo_store_set = (Inr v, demo_store_set) \<and>
     vd_committed v = Some True"
proof -
  have "\<not> is_obj (action_on_record demo_data ''e2'')" "py_eq (dict_get (obj_at demo_data ''domain_state'') ''k'') (JInt 5)"
    by (simp_all add: demo_data_def action_on_record_def demo_fresh)
  with matching_state_counts_as_commit [OF demo_data_load [of demo_target] _ this(1), of demo_set "''k''" "JInt 5" "''pay''"]
  show ?thesis by (auto simp: demo_set_def)
qed

text \<open>The payment of \<open>Demo_Run\<close> was never answered, but the store has it.\<close>

definition demo_paid :: target where
  "demo_paid = \<lparr>target_file = Some (JObj (AList.update ''idempotent_requests'' (JObj [(''exec_d1a2e2bc910c0f0543c12'',
     JObj [(''action_name'', JStr ''pay''), (''payload'', JObj []), (''receipt'', JObj [(''n'', JInt 1)])])])
     (initial_store (JTime 0) (JTime 1)))), target_ticks = 2, target_ids = 0\<rparr>"

definition demo_waiting :: "target beside world" where
  "demo_waiting = \<lparr>db = db demo_unsent, conn_open = False, ticks = ticks demo_unsent, uuids = uuids demo_unsent,
     outside = (demo_paid, [])\<rparr>"

definition demo_asking :: "target coordinator" where
  "demo_asking = \<lparr>default_wait_seconds = Fin 5, verifier = Some (mock_target_verifier demo_target), on_handoff = None\<rparr>"

definition demo_dispatched :: external_result where
  "demo_dispatched = \<lparr>res_execution_id = ''exec_d1a2e2bc910c0f0543c12'', res_run_id = ''r1'', res_plan_item_id = Some ''step_0'',
     res_tool_name = ''pay'', res_operation_type = ''WRITE'', res_request_payload = Some [(''n'', JInt 1)],
     res_response_payload = None, res_request_payload_ref = None, res_response_payload_ref = None, res_result_status = UNKNOWN,
     res_execution_status = DISPATCHED, res_error_message = None, res_created_at = 0, res_updated_at = 0\<rparr>"

lemma demo_paid_hit: "\<exists>answer. apply_idempotent_action demo_target ''pay'' [] ''exec_d1a2e2bc910c0f0543c12'' demo_paid = (Inr answer, demo_paid)"
proof -
  have "target_load demo_target demo_paid = (Inr (AList.update ''idempotent_requests'' (JObj [(''exec_d1a2e2bc910c0f0543c12'',
     JObj [(''action_name'', JStr ''pay''), (''payload'', JObj []), (''receipt'', JObj [(''n'', JInt 1)])])])
     (initial_store (JTime 0) (JTime 1))), demo_paid)"
    by (simp add: demo_paid_def target_load_again ensure_shape_id shaped_update initial_shaped)
  then show ?thesis by (simp add: apply_idempotent_action_def keyed_request_def bind_Inr)
qed

lemma demo_recovered: "\<not> isl (fst (recover_one demo_runtime demo_asking ''r1'' 100000000
    [(''exec_d1a2e2bc910c0f0543c12'', demo_dispatched)] ''exec_d1a2e2bc910c0f0543c12'' demo_waiting))"
  by code_simp

lemma applied_write_is_recovered_as_committed_witness:
  "\<exists>d w'. recover_one demo_runtime demo_asking ''r1'' 100000000 [(''exec_d1a2e2bc910c0f0543c12'', demo_dispatched)]
     ''exec_d1a2e2bc910c0f0543c12'' demo_waiting = (Inr d, w') \<and>
     dec_action d = MARK_COMMITTED \<and> status_on_record (db w') ''exec_d1a2e2bc910c0f0543c12'' = Some VERIFIED_COMMITTED"
proof -
  obtain d w' where r: "recover_one demo_runtime demo_asking ''r1'' 100000000 [(''exec_d1a2e2bc910c0f0543c12'', demo_dispatched)]
     ''exec_d1a2e2bc910c0f0543c12'' demo_waiting = (Inr d, w')" using demo_recovered returned by metis
  obtain answer where hit: "apply_idempotent_action demo_target ''pay'' [] ''exec_d1a2e2bc910c0f0543c12'' demo_paid = (Inr answer, demo_paid)"
    using demo_paid_hit by blast
  have w: "resolve_wait_deadline (res_updated_at demo_dispatched) (res_request_payload demo_dispatched) (default_wait_seconds demo_asking) =
      Inr (Fin 5, 5000000)" by code_simp
  have "canonical ''exec_d1a2e2bc910c0f0543c12''" "canonical ''r1''" by code_simp+
  with applied_write_is_recovered_as_committed [OF hit, of demo_asking demo_target demo_waiting "[]" "''r1''"
      "[(''exec_d1a2e2bc910c0f0543c12'', demo_dispatched)]" demo_dispatched "Fin 5" 5000000 demo_runtime 100000000 d w'] w r
  show ?thesis by (auto simp: demo_asking_def demo_waiting_def demo_dispatched_def)
qed

end
