(* ===== verification/Evaluation.thy ===== *)
theory Evaluation
  imports Runtime_Log "HOL-Library.Multiset"
begin

text \<open>
  \<open>evaluation.py\<close>: the recorder of timing spans and the report over them. A span is recorded before
  the work it times begins, so that what a crash leaves is an open span, which the report shows as
  interrupted.
\<close>

section \<open>The recorder\<close>

record span_handle =
  hd_span_id :: string
  hd_run_id :: string
  hd_step_index :: "int option"
  hd_plan_item_id :: "string option"
  hd_attempt_no :: int
  hd_phase :: string
  hd_parent_span_id :: "string option"

definition handle_from_record :: "eval_span \<Rightarrow> span_handle" where
  "handle_from_record s = \<lparr>hd_span_id = span_id s, hd_run_id = span_run_id s, hd_step_index = span_step_index s,
     hd_plan_item_id = span_plan_item_id s, hd_attempt_no = span_attempt_no s, hd_phase = span_phase s,
     hd_parent_span_id = span_parent_span_id s\<rparr>"

definition start_step :: "runtime \<Rightarrow> string \<Rightarrow> int \<Rightarrow> string option \<Rightarrow> dict option \<Rightarrow> ('t, span_handle) op" where
  "start_step R run_id step_index plan_item_id metadata =
     bind (next_evaluation_attempt_no run_id step_index plan_item_id) (\<lambda>attempt_no.
     bind (start_evaluation_span R run_id (Some step_index) plan_item_id attempt_no ''step_total'' None metadata) (\<lambda>rec.
     ret (handle_from_record rec)))"

definition start_phase :: "runtime \<Rightarrow> string \<Rightarrow> span_handle \<Rightarrow> dict option \<Rightarrow> ('t, span_handle) op" where
  "start_phase R phase parent metadata =
     bind (start_evaluation_span R (hd_run_id parent) (hd_step_index parent) (hd_plan_item_id parent)
       (hd_attempt_no parent) phase (Some (hd_span_id parent)) metadata) (\<lambda>rec.
     ret (handle_from_record rec))"

definition finish_span :: "runtime \<Rightarrow> string \<Rightarrow> string \<Rightarrow> string option \<Rightarrow> dict option \<Rightarrow> ('t, eval_span) op" where
  "finish_span R i status error_message metadata = finish_evaluation_span R i status error_message metadata"

fun class_name :: "exn_class \<Rightarrow> string" where
  "class_name ValueError = ''ValueError''"
| "class_name TypeError = ''TypeError''"
| "class_name KeyError = ''KeyError''"
| "class_name IndexError = ''IndexError''"
| "class_name AttributeError = ''AttributeError''"
| "class_name OverflowError = ''OverflowError''"
| "class_name RuntimeError = ''RuntimeError''"
| "class_name AmbiguousToolError = ''AmbiguousToolError''"
| "class_name ToolPermissionError = ''ToolPermissionError''"
| "class_name IntegrityError = ''IntegrityError''"
| "class_name AssertionError = ''AssertionError''"
| "class_name OSError = ''OSError''"
| "class_name FileNotFoundError = ''FileNotFoundError''"
| "class_name RealLLMAPIError = ''RealLLMAPIError''"
| "class_name SimulatedCrash = ''SimulatedCrash''"
| "class_name OtherException = ''Exception''"
| "class_name KeyboardInterrupt = ''KeyboardInterrupt''"
| "class_name SystemExit = ''SystemExit''"
| "class_name ProcessKilled = []"

definition status_for_exception :: "exn \<Rightarrow> string" where
  "status_for_exception e = (if exn_class e \<in> {KeyboardInterrupt, SystemExit, SimulatedCrash}
     then ''interrupted'' else ''failed'')"

text \<open>
  The \<open>with\<close> block of \<open>time_step\<close> and \<open>time_phase\<close>: the body runs with the span open, and the span is
  finished whether the body returns or raises. Only the death of the process leaves it open.
\<close>

definition timed :: "runtime \<Rightarrow> ('t, span_handle) op \<Rightarrow> (span_handle \<Rightarrow> ('t, 'a) op) \<Rightarrow> ('t, 'a) op" where
  "timed R start body = bind start (\<lambda>handle w. case body handle w of
     (Inr x, w') \<Rightarrow> bind (finish_span R (hd_span_id handle) ''succeeded'' None None) (\<lambda>_. ret x) w'
   | (Inl e, w') \<Rightarrow> if exn_class e = ProcessKilled then (Inl e, w')
       else bind (finish_span R (hd_span_id handle) (status_for_exception e) (Some (exn_text e))
         (Some [(''exception_type'', JStr (class_name (exn_class e)))])) (\<lambda>_. raise e) w')"

definition time_step ::
  "runtime \<Rightarrow> string \<Rightarrow> int \<Rightarrow> string option \<Rightarrow> dict option \<Rightarrow> (span_handle \<Rightarrow> ('t, 'a) op) \<Rightarrow> ('t, 'a) op" where
  "time_step R run_id step_index plan_item_id metadata =
     timed R (start_step R run_id step_index plan_item_id metadata)"

definition time_phase ::
  "runtime \<Rightarrow> string \<Rightarrow> span_handle \<Rightarrow> dict option \<Rightarrow> (span_handle \<Rightarrow> ('t, 'a) op) \<Rightarrow> ('t, 'a) op" where
  "time_phase R phase parent metadata = timed R (start_phase R phase parent metadata)"

section \<open>The report\<close>

record span_report =
  rp_span_id :: string
  rp_attempt_no :: int
  rp_phase :: string
  rp_status :: string
  rp_recorded_status :: string
  rp_started_at :: int
  rp_finished_at :: "int option"
  rp_duration_ms :: "rat option"
  rp_metadata :: dict
  rp_error_message :: "string option"

record step_report =
  sr_step_index :: "int option"
  sr_plan_item_id :: "string option"
  sr_attempts :: "(span_report \<times> span_report list) list"

record evaluation_report =
  er_run_id :: string
  er_span_count :: int
  er_completed_step_duration_ms :: rat
  er_completed_phase_duration_ms :: "(string \<times> rat) list"
  er_steps :: "step_report list"
  er_orphan_phases :: "span_report list"

definition span_report_record :: "bool \<Rightarrow> eval_span \<Rightarrow> span_report" where
  "span_report_record mark_open_as_interrupted s =
     \<lparr>rp_span_id = span_id s, rp_attempt_no = span_attempt_no s, rp_phase = span_phase s,
      rp_status = (if span_finished_at s = None \<and> span_status s = ''running'' \<and> mark_open_as_interrupted
        then ''interrupted'' else span_status s),
      rp_recorded_status = span_status s, rp_started_at = span_started_at s, rp_finished_at = span_finished_at s,
      rp_duration_ms = span_duration_ms s, rp_metadata = span_metadata s, rp_error_message = span_error_message s\<rparr>"

definition span_sort_key :: "eval_span \<Rightarrow> int \<times> int \<times> int \<times> string" where
  "span_sort_key s = ((case span_step_index s of Some i \<Rightarrow> i | None \<Rightarrow> - 1), span_attempt_no s, span_started_at s, span_id s)"

abbreviation is_step :: "eval_span \<Rightarrow> bool" where
  "is_step s \<equiv> span_phase s = ''step_total''"

definition parent_of :: "eval_span \<Rightarrow> string option" where
  "parent_of s = (case span_parent_span_id s of Some p \<Rightarrow> if p = [] then None else Some p | None \<Rightarrow> None)"

definition child_spans :: "eval_span list \<Rightarrow> string \<Rightarrow> eval_span list" where
  "child_spans spans p = filter (\<lambda>s. \<not> is_step s \<and> parent_of s = Some p) spans"

text \<open>\<open>steps_by_key\<close>: the attempts of a step are collected under its index and plan item.\<close>

definition attempt_report :: "bool \<Rightarrow> eval_span list \<Rightarrow> eval_span \<Rightarrow> span_report \<times> span_report list" where
  "attempt_report mark spans s = (span_report_record mark s,
     map (span_report_record mark) (sort_key span_sort_key (child_spans spans (span_id s))))"

definition add_attempt ::
  "(eval_span \<Rightarrow> 'a) \<Rightarrow> eval_span \<Rightarrow> ((int option \<times> string option) \<times> 'a list) list \<Rightarrow>
   ((int option \<times> string option) \<times> 'a list) list" where
  "add_attempt report s steps = (let key = (span_step_index s, span_plan_item_id s) in
     AList.update key ((case map_of steps key of Some attempts \<Rightarrow> attempts | None \<Rightarrow> []) @ [report s]) steps)"

definition step_sort_key :: "step_report \<Rightarrow> int \<times> string" where
  "step_sort_key r = ((case sr_step_index r of Some i \<Rightarrow> i | None \<Rightarrow> - 1),
     (case sr_plan_item_id r of Some p \<Rightarrow> p | None \<Rightarrow> []))"

definition completed_step_duration_ms :: "eval_span list \<Rightarrow> rat" where
  "completed_step_duration_ms spans = sum_list (map (\<lambda>s. case span_duration_ms s of Some d \<Rightarrow> d | None \<Rightarrow> 0)
     (filter (\<lambda>s. span_finished_at s \<noteq> None) (filter is_step spans)))"

definition completed_phase_duration_ms :: "eval_span list \<Rightarrow> (string \<times> rat) list" where
  "completed_phase_duration_ms spans = sort_key fst (foldl (\<lambda>totals s. case span_duration_ms s of
      None \<Rightarrow> totals
    | Some d \<Rightarrow> if is_step s then totals
        else AList.update (span_phase s) ((case map_of totals (span_phase s) of Some t \<Rightarrow> t | None \<Rightarrow> 0) + d) totals) [] spans)"

definition report_of_spans :: "bool \<Rightarrow> string \<Rightarrow> eval_span list \<Rightarrow> evaluation_report" where
  "report_of_spans mark run_id spans = (let
     steps = foldl (\<lambda>steps s. add_attempt (attempt_report mark spans) s steps) []
       (sort_key span_sort_key (filter is_step spans));
     orphans = filter (\<lambda>s. \<not> is_step s \<and> parent_of s = None) spans in
     \<lparr>er_run_id = run_id, er_span_count = int (length spans),
      er_completed_step_duration_ms = completed_step_duration_ms spans,
      er_completed_phase_duration_ms = completed_phase_duration_ms spans,
      er_steps = sort_key step_sort_key (map (\<lambda>((i, p), attempts).
        \<lparr>sr_step_index = i, sr_plan_item_id = p, sr_attempts = attempts\<rparr>) steps),
      er_orphan_phases = map (span_report_record mark) (sort_key span_sort_key orphans)\<rparr>)"

definition build_evaluation_report :: "string \<Rightarrow> bool \<Rightarrow> ('t, evaluation_report) op" where
  "build_evaluation_report run_id mark_open_as_interrupted =
     bind (list_evaluation_spans run_id) (\<lambda>spans. ret (report_of_spans mark_open_as_interrupted run_id spans))"

section \<open>What the report shows\<close>

definition reported_ids :: "evaluation_report \<Rightarrow> string list" where
  "reported_ids r = concat (map (\<lambda>st. concat (map (\<lambda>(a, phases). rp_span_id a # map rp_span_id phases) (sr_attempts st))) (er_steps r)) @
     map rp_span_id (er_orphan_phases r)"

text \<open>A phase whose parent is not a step of the run: it is in no attempt, and no orphan either.\<close>

definition unattached :: "eval_span list \<Rightarrow> eval_span \<Rightarrow> bool" where
  "unattached spans s \<longleftrightarrow> \<not> is_step s \<and>
     (case parent_of s of None \<Rightarrow> False | Some p \<Rightarrow> p \<notin> span_id ` set (filter is_step spans))"

lemma concat_update:
  assumes "distinct (map fst al)"
  shows "mset (concat (map snd (AList.update k ((case map_of al k of Some xs \<Rightarrow> xs | None \<Rightarrow> []) @ [x]) al))) =
    add_mset x (mset (concat (map snd al)))"
  using assms
proof (induction al)
  case (Cons p al)
  then show ?case by (cases p) (auto simp: map_of_eq_None_iff [THEN iffD2] split: option.splits)
qed simp

lemma attempts_of_steps:
  assumes "distinct (map fst steps)"
  shows "mset (concat (map snd (foldl (\<lambda>steps s. add_attempt f s steps) steps ss))) =
    mset (concat (map snd steps)) + mset (map f ss)"
  using assms
proof (induction ss arbitrary: steps)
  case (Cons s ss)
  have "distinct (map fst (add_attempt f s steps))"
    using Cons.prems by (simp add: add_attempt_def Let_def distinct_update_keys)
  moreover have "mset (concat (map snd (add_attempt f s steps))) = add_mset (f s) (mset (concat (map snd steps)))"
    using concat_update [OF Cons.prems] by (simp add: add_attempt_def Let_def)
  ultimately show ?case using Cons.IH by simp
qed simp

lemma mset_concat_map_sort: "mset (concat (map f (sort_key k xs))) = mset (concat (map f xs))"
  by (simp add: mset_concat sum_mset_sum_list [symmetric] del: sum_mset_sum_list)

lemma concat_attempts: "concat (map (\<lambda>st. concat (map g (sr_attempts st))) (map (\<lambda>((i, p), a). \<lparr>sr_step_index = i, sr_plan_item_id = p, sr_attempts = a\<rparr>) steps)) =
  concat (map g (concat (map snd steps)))"
  by (induction steps) auto

lemma mset_concat_map_cong: "mset xs = mset ys \<Longrightarrow> mset (concat (map g xs)) = mset (concat (map g ys))"
  by (simp add: mset_concat sum_mset_sum_list [symmetric] del: sum_mset_sum_list)

text \<open>The phases of the attempts are those whose parent is a step.\<close>

lemma phases_of_steps:
  assumes "distinct (map span_id ss)"
  shows "mset (concat (map (\<lambda>s. child_spans spans (span_id s)) ss)) =
    mset (filter (\<lambda>c. \<not> is_step c \<and> parent_of c \<in> Some ` span_id ` set ss) spans)"
  using assms
proof (induction ss)
  case (Cons s ss)
  have "mset (filter (\<lambda>c. \<not> is_step c \<and> parent_of c \<in> Some ` span_id ` set (s # ss)) xs) =
    mset (child_spans xs (span_id s)) + mset (filter (\<lambda>c. \<not> is_step c \<and> parent_of c \<in> Some ` span_id ` set ss) xs)" for xs
    using Cons.prems by (induction xs) (auto simp: child_spans_def)
  with Cons show ?case by simp
qed (simp add: child_spans_def)

lemma attempt_ids: "(case attempt_report mark spans s of (a, phases) \<Rightarrow> rp_span_id a # map rp_span_id phases) =
    span_id s # map span_id (sort_key span_sort_key (child_spans spans (span_id s)))"
  by (simp add: attempt_report_def span_report_record_def comp_def)

lemma mset_attempt_ids:
  "mset (concat (map (\<lambda>s. span_id s # map span_id (sort_key k (child_spans spans (span_id s)))) ss)) =
   mset (map span_id ss) + image_mset span_id (mset (concat (map (\<lambda>s. child_spans spans (span_id s)) ss)))"
  by (induction ss) simp_all

lemma filter_attached:
  "mset (map span_id (filter is_step spans)) +
     image_mset span_id (mset (filter (\<lambda>c. \<not> is_step c \<and> parent_of c \<in> Some ` span_id ` set (filter is_step all)) spans)) +
     mset (map span_id (filter (\<lambda>s. \<not> is_step s \<and> parent_of s = None) spans)) =
   mset (map span_id (filter (\<lambda>s. \<not> unattached all s) spans))"
  by (induction spans) (auto simp: unattached_def split: option.splits)

text \<open>C36: The report of a run shows each of its spans exactly once, as an attempt, as a phase of an attempt,
  or as an orphan, except for the phases whose parent is not a step of the run, which it drops
  although it counts them.\<close>

theorem report_shows_each_span_once:
  assumes "distinct (map span_id spans)"
  shows "mset (reported_ids (report_of_spans mark run_id spans)) =
      mset (map span_id (filter (\<lambda>s. \<not> unattached spans s) spans)) \<and>
    er_span_count (report_of_spans mark run_id spans) = int (length spans)"
proof -
  let ?steps = "foldl (\<lambda>steps s. add_attempt (attempt_report mark spans) s steps) [] (sort_key span_sort_key (filter is_step spans))"
  let ?ids = "\<lambda>(a, phases). rp_span_id a # map rp_span_id phases"
  let ?ss = "filter is_step spans"
  have d: "distinct (map span_id ?ss)" using assms by (rule distinct_map_filter)
  have "mset (concat (map (\<lambda>st. concat (map ?ids (sr_attempts st))) (er_steps (report_of_spans mark run_id spans)))) =
      mset (concat (map ?ids (concat (map snd ?steps))))"
    by (simp add: report_of_spans_def Let_def mset_concat_map_sort concat_attempts del: map_map)
  also have "\<dots> = mset (concat (map ?ids (map (attempt_report mark spans) ?ss)))"
    by (rule mset_concat_map_cong) (simp add: attempts_of_steps)
  also have "\<dots> = mset (map span_id ?ss) + image_mset span_id (mset (concat (map (\<lambda>s. child_spans spans (span_id s)) ?ss)))"
    by (simp add: comp_def attempt_ids mset_attempt_ids)
  finally show ?thesis
    using filter_attached [of spans spans]
    by (simp add: reported_ids_def phases_of_steps [OF d]) (simp add: report_of_spans_def Let_def span_report_record_def comp_def multiset.map_comp)
qed

section \<open>Spans of a run\<close>

lemma finished_span_id [simp]: "span_id (finished_span st e m t s) = span_id s" "span_finished_at (finished_span st e m t s) = Some t"
  by (simp_all add: finished_span_def)

lemma find_finished: "find (\<lambda>s. span_id s = i) (map (\<lambda>s. if span_id s = i then finished_span st e m t s else s) xs) =
    map_option (finished_span st e m t) (find (\<lambda>s. span_id s = i) xs)"
  by (induction xs) auto

text \<open>Finishing a span again, with whatever status, error or metadata, returns it as it was finished and
  changes nothing.\<close>

theorem finishing_again_changes_nothing:
  assumes "finish_evaluation_span R i status e m w = (Inr s, w')" and "\<not> conn_open w"
    and "status' \<in> set span_final_status"
  shows "finish_evaluation_span R i status' e' m' w' = (Inr s, w')"
proof -
  from assms(1) obtain i' st where i: "require_non_empty_str (JStr i) ''span_id'' = Inr i'"
    and t: "transaction (bind (read_db (\<lambda>d. find (\<lambda>s. span_id s = i') (evaluation_spans d))) (\<lambda>row.
       case row of
         None \<Rightarrow> raise (Exn ValueError (''evaluation span not found: '' @ i'))
       | Some existing \<Rightarrow>
           if span_finished_at existing \<noteq> None then ret existing else
           bind (utc_now R) (\<lambda>finished_at.
           let f = finished_span st e (case m of None \<Rightarrow> [] | Some m \<Rightarrow> m) finished_at in
           bind (update_db (\<lambda>d. d\<lparr>evaluation_spans :=
             map (\<lambda>s. if span_id s = i' then f s else s) (evaluation_spans d)\<rparr>)) (\<lambda>_.
           ret (f existing))))) w = (Inr s, w')"
    unfolding finish_evaluation_span_def by (elim bind_InrE) (auto split: if_splits)
  from transaction_InrE [OF t] obtain v where v: "bind (read_db (\<lambda>d. find (\<lambda>s. span_id s = i') (evaluation_spans d))) (\<lambda>row.
       case row of
         None \<Rightarrow> raise (Exn ValueError (''evaluation span not found: '' @ i'))
       | Some existing \<Rightarrow>
           if span_finished_at existing \<noteq> None then ret existing else
           bind (utc_now R) (\<lambda>finished_at.
           let f = finished_span st e (case m of None \<Rightarrow> [] | Some m \<Rightarrow> m) finished_at in
           bind (update_db (\<lambda>d. d\<lparr>evaluation_spans :=
             map (\<lambda>s. if span_id s = i' then f s else s) (evaluation_spans d)\<rparr>)) (\<lambda>_.
           ret (f existing)))) (w\<lparr>conn_open := True\<rparr>) = (Inr s, v)" and db: "db w' = db v" by blast
  have "find (\<lambda>s. span_id s = i') (evaluation_spans (db w')) = Some s \<and> span_finished_at s \<noteq> None"
    using v by (auto simp: db Let_def find_finished bind_def split: option.splits if_splits)
  moreover have "w'\<lparr>conn_open := False\<rparr> = w'" and "\<not> conn_open w'"
    using transaction_atomic [OF assms(2) t] by (cases w'; simp)+
  moreover have "strip status' = status' \<and> status' \<noteq> []"
    using assms(3) by (auto simp: span_final_status_def) (code_simp+)
  ultimately show ?thesis using i assms(3)
    by (auto simp: finish_evaluation_span_def transaction_def require_JStr bind_def)
qed

lemma start_evaluation_span_InrD:
  assumes "start_evaluation_span R run_id i p n phase parent md w = (Inr row, w')"
  shows "evaluation_spans (db w') = evaluation_spans (db w) @ [row] \<and> span_run_id row = strip run_id \<and>
    span_phase row = strip phase \<and> span_status row = ''running'' \<and> span_finished_at row = None"
  using assms
  by (auto simp: start_evaluation_span_def require_JStr Let_def bind_ints_def elim!: bind_InrE transaction_InrE
      split: if_splits)

lemma start_step_InrD:
  assumes "start_step R run_id i p md w = (Inr h, w')"
  shows "\<exists>row. evaluation_spans (db w') = evaluation_spans (db w) @ [row] \<and> span_run_id row = strip run_id \<and> is_step row \<and>
    span_id row = hd_span_id h \<and> span_status row = ''running'' \<and> span_finished_at row = None"
proof -
  obtain n row w1 where n: "next_evaluation_attempt_no run_id i p w = (Inr n, w1)"
    and row: "start_evaluation_span R run_id (Some i) p n ''step_total'' None md w1 = (Inr row, w')"
    and h: "h = handle_from_record row"
    using assms by (auto simp: start_step_def elim!: bind_InrE)
  have "db w1 = db w" using reads_onlyD [OF log_reads(7) n] by simp
  moreover have "strip ''step_total'' = ''step_total''" by code_simp
  ultimately show ?thesis using start_evaluation_span_InrD [OF row] by (simp add: h handle_from_record_def)
qed

lemma attempts_foldl:
  "a \<in> set (concat (map snd (foldl (\<lambda>steps s. add_attempt f s steps) [] ss))) \<longleftrightarrow> a \<in> f ` set ss"
  using arg_cong [OF attempts_of_steps [of "[]" f ss], of set_mset] by simp

lemma step_is_reported:
  assumes "s \<in> set spans" and "is_step s"
  shows "\<exists>st\<in>set (er_steps (report_of_spans mark run_id spans)). \<exists>(a, phases)\<in>set (sr_attempts st). a = span_report_record mark s"
proof -
  let ?steps = "foldl (\<lambda>steps s. add_attempt (attempt_report mark spans) s steps) [] (sort_key span_sort_key (filter is_step spans))"
  have "attempt_report mark spans s \<in> set (concat (map snd ?steps))"
    unfolding attempts_foldl using assms by simp
  then obtain k attempts where "(k, attempts) \<in> set ?steps" "attempt_report mark spans s \<in> set attempts" by auto
  then show ?thesis
    by (cases k) (force simp: report_of_spans_def Let_def attempt_report_def intro!: rev_bexI)
qed

text \<open>C35: A step whose process dies while it is timed stays durable as an open span, and the next report shows
  that attempt as interrupted, whatever other spans the step had started.\<close>

theorem killed_step_is_reported_interrupted:
  assumes "start_step R run_id i p md w = (Inr h, w1)" and "body h w1 = (Inl e, w2)" and "exn_class e = ProcessKilled"
    and "evaluation_spans (db w2) = evaluation_spans (db w1) @ started"
  shows "time_step R run_id i p md body w = (Inl e, w2) \<and>
    (\<exists>report. build_evaluation_report run_id True w2 = (Inr report, w2) \<and>
      (\<exists>st\<in>set (er_steps report). \<exists>(a, phases)\<in>set (sr_attempts st).
        rp_span_id a = hd_span_id h \<and> rp_status a = ''interrupted'' \<and> rp_recorded_status a = ''running''))"
proof
  show "time_step R run_id i p md body w = (Inl e, w2)"
    using assms(1-3) by (simp add: time_step_def timed_def bind_Inr [where m = "start_step R run_id i p md", OF assms(1)])
  from start_step_InrD [OF assms(1)] obtain row where added: "evaluation_spans (db w1) = evaluation_spans (db w) @ [row]"
      and row: "span_run_id row = strip run_id" "is_step row" "span_id row = hd_span_id h" "span_status row = ''running''"
        "span_finished_at row = None" by blast
  have stored: "row \<in> set (evaluation_spans (db w2))" using added assms(4) by simp
  have "strip run_id \<noteq> []"
    using assms(1) by (auto simp: start_step_def next_evaluation_attempt_no_def require_JStr elim!: bind_InrE split: if_splits)
  then have l: "list_evaluation_spans run_id w2 = (Inr (sort_key (\<lambda>s. (span_started_at s, span_id s))
       (filter (\<lambda>s. span_run_id s = strip run_id) (evaluation_spans (db w2)))), w2)"
    by (simp add: list_evaluation_spans_def require_JStr)
  define spans where "spans = sort_key (\<lambda>s. (span_started_at s, span_id s))
    (filter (\<lambda>s. span_run_id s = strip run_id) (evaluation_spans (db w2)))"
  have "build_evaluation_report run_id True w2 = (Inr (report_of_spans True run_id spans), w2)"
    by (simp add: build_evaluation_report_def bind_Inr [where m = "list_evaluation_spans run_id", OF l] spans_def)
  moreover obtain st a phases where "st \<in> set (er_steps (report_of_spans True run_id spans))" "(a, phases) \<in> set (sr_attempts st)"
      "a = span_report_record True row"
    using step_is_reported [of row spans True run_id] row stored by (auto simp: spans_def)
  moreover from this(3) have "rp_span_id a = hd_span_id h \<and> rp_status a = ''interrupted'' \<and> rp_recorded_status a = ''running''"
    using row by (simp add: span_report_record_def)
  ultimately show "\<exists>report. build_evaluation_report run_id True w2 = (Inr report, w2) \<and>
      (\<exists>st\<in>set (er_steps report). \<exists>(a, phases)\<in>set (sr_attempts st).
        rp_span_id a = hd_span_id h \<and> rp_status a = ''interrupted'' \<and> rp_recorded_status a = ''running'')" by blast
qed

end
