(* ===== verification/Recovery_Aids.thy ===== *)
theory Recovery_Aids
  imports Models
begin

text \<open>
  The helpers around the recovery: \<open>recovery/recovery/check_helper.py\<close> asks a remote status interface
  before a retry, \<open>recovery/health/\<close> decides whether a process is alive, and
  \<open>recovery/monitor/pulse_monitor.py\<close> polls it and calls a recovery handler. The interfaces they call
  act on a state outside.
\<close>

section \<open>Check before retry\<close>

record check_result =
  chk_should_retry :: bool
  chk_found_previous_result :: bool
  chk_reason :: string
  chk_request_id :: "string option"
  chk_request_payload :: "dict option"
  chk_response_payload :: "dict option"
  chk_recovered_payload :: "dict option"

text \<open>A request is the map of its keys, or of its attributes when it is an object.\<close>

fun extract_request_id_from :: "string list \<Rightarrow> dict \<Rightarrow> string option" where
  "extract_request_id_from [] request = None"
| "extract_request_id_from (k # ks) request = (case dict_get request k of
     JStr s \<Rightarrow> if s = [] then extract_request_id_from ks request else Some s
   | _ \<Rightarrow> extract_request_id_from ks request)"

definition extract_request_id :: "dict \<Rightarrow> string option" where
  "extract_request_id = extract_request_id_from [''execution_id'', ''request_id'', ''id'']"

text \<open>\<open>a or b\<close> on dicts: an empty dict is false.\<close>

definition or_dict :: "dict option \<Rightarrow> dict option \<Rightarrow> dict option" where
  "or_dict a b = (case a of Some d \<Rightarrow> if d = [] then b else Some d | None \<Rightarrow> b)"

definition extract_dict_payload :: "json \<Rightarrow> dict option" where
  "extract_dict_payload raw = (case raw of JObj d \<Rightarrow> Some d | _ \<Rightarrow> None)"

definition extract_payload_from_record :: "json \<Rightarrow> dict option" where
  "extract_payload_from_record raw = (case raw of
     JObj d \<Rightarrow> or_dict (extract_dict_payload (dict_get d ''result''))
       (or_dict (extract_dict_payload (dict_get d ''receipt'')) (Some d))
   | _ \<Rightarrow> None)"

definition default_response_extractor :: "dict \<Rightarrow> bool \<times> dict option" where
  "default_response_extractor response = (case dict_get response ''found'' of
     JBool found \<Rightarrow> if \<not> found then (False, None)
       else (True, or_dict (extract_payload_from_record (dict_get response ''record''))
         (extract_dict_payload (dict_get response ''result'')))
   | _ \<Rightarrow> (case dict_get response ''state'' of
       JStr state \<Rightarrow> if lower state = ''committed''
         then (True, or_dict (extract_payload_from_record (dict_get response ''record''))
           (or_dict (extract_dict_payload (dict_get response ''result'')) (extract_dict_payload (JObj response))))
         else (False, None)
     | _ \<Rightarrow> (False, None)))"

definition retry_result :: "string \<Rightarrow> string option \<Rightarrow> dict \<Rightarrow> dict option \<Rightarrow> dict option \<Rightarrow> check_result" where
  "retry_result reason request_id payload response recovered =
     \<lparr>chk_should_retry = True, chk_found_previous_result = False, chk_reason = reason, chk_request_id = request_id,
      chk_request_payload = Some payload, chk_response_payload = response, chk_recovered_payload = recovered\<rparr>"

definition recover_with_check_api ::
  "dict \<Rightarrow> dict option \<Rightarrow> (dict \<Rightarrow> ('t, json) act) \<Rightarrow> (dict \<Rightarrow> (bool \<times> dict option) res) option \<Rightarrow> string \<Rightarrow>
   ('t, check_result) act" where
  "recover_with_check_api request check_request_payload call_check_api response_extractor request_id_field =
     (if request_id_field = [] then raise (Exn ValueError ''request_id_field must be a non-empty string'') else
      let request_id = extract_request_id request;
          payload0 = (case check_request_payload of Some p \<Rightarrow> p | None \<Rightarrow> []);
          payload = (case request_id of Some i \<Rightarrow> dict_setdefault request_id_field (JStr i) payload0 | None \<Rightarrow> payload0);
          extractor = (case response_extractor of Some f \<Rightarrow> f | None \<Rightarrow> \<lambda>r. Inr (default_response_extractor r)) in
      bind (try_catch (bind (call_check_api payload) (\<lambda>r. ret (Inr r))) (\<lambda>e. ret (Inl e))) (\<lambda>answer.
      case answer of
        Inl e \<Rightarrow> ret (retry_result (''check api call failed: '' @ exn_text e) request_id payload None None)
      | Inr (JObj response) \<Rightarrow>
          bind (lift (extractor response)) (\<lambda>(found, recovered).
          ret (case (found, recovered) of
              (True, Some r) \<Rightarrow> \<lparr>chk_should_retry = False, chk_found_previous_result = True,
                chk_reason = ''reused previous committed result from check api'', chk_request_id = request_id,
                chk_request_payload = Some payload, chk_response_payload = Some response, chk_recovered_payload = Some r\<rparr>
            | _ \<Rightarrow> retry_result ''check api did not confirm a reusable committed result'' request_id payload
                (Some response) recovered))
      | Inr _ \<Rightarrow> ret (retry_result ''check api returned non-dict response'' request_id payload None None)))"

section \<open>Health checkers\<close>

text \<open>
  \<open>FileHealthChecker\<close>: a probe function, or a heartbeat file whose modification time, when there is
  one, is compared with the clock. Times are in seconds.
\<close>

record 't file_health_checker =
  probe_fn :: "('t, json) act option"
  heartbeat_file :: "string option"
  stale_after_seconds :: rat

record 't file_system =
  file_exists :: "string \<Rightarrow> ('t, bool) act"
  file_mtime :: "string \<Rightarrow> ('t, rat) act"
  clock_fn :: "('t, rat) act"

definition file_health_checker_init :: "('t, json) act option \<Rightarrow> string option \<Rightarrow> rat \<Rightarrow> 't file_health_checker res" where
  "file_health_checker_init probe heartbeat stale =
     (if probe = None \<and> heartbeat = None then value_error ''Either probe_fn or heartbeat_file must be provided''
      else if stale \<le> 0 then value_error ''stale_after_seconds must be > 0''
      else Inr \<lparr>probe_fn = probe, heartbeat_file = heartbeat, stale_after_seconds = stale\<rparr>)"

definition file_is_alive :: "'t file_system \<Rightarrow> 't file_health_checker \<Rightarrow> ('t, bool) act" where
  "file_is_alive F C = (case probe_fn C of
     Some probe \<Rightarrow> try_catch (bind probe (\<lambda>v. ret (truthy v))) (\<lambda>e. ret False)
   | None \<Rightarrow> (case heartbeat_file C of
       None \<Rightarrow> raise (Exn AssertionError [])
     | Some path \<Rightarrow>
         bind (file_exists F path) (\<lambda>there.
         if \<not> there then ret False else
         bind (\<lambda>s. case file_mtime F path s of
             (Inr t, s') \<Rightarrow> (Inr (Some t), s')
           | (Inl e, s') \<Rightarrow> if exn_class e = OSError then (Inr None, s') else (Inl e, s')) (\<lambda>mtime.
         case mtime of
           None \<Rightarrow> ret False
         | Some mtime_epoch \<Rightarrow>
             bind (clock_fn F) (\<lambda>now_epoch. ret (now_epoch - mtime_epoch \<le> stale_after_seconds C))))))"

text \<open>\<open>HttpHealthChecker\<close>: the request is a parameter, which gives the status code.\<close>

definition http_is_alive :: "(string \<Rightarrow> int \<Rightarrow> ('t, int) act) \<Rightarrow> string \<Rightarrow> int \<Rightarrow> ('t, bool) act" where
  "http_is_alive get url timeout = try_catch (bind (get url timeout) (\<lambda>code. ret (code = 200))) (\<lambda>e. ret False)"

section \<open>The pulse monitor\<close>

record 't pulse_env =
  is_alive :: "('t, bool) act"
  handle_recovery :: "('t, unit) act"
  time_fn :: "('t, rat) act"
  sleep_fn :: "rat \<Rightarrow> ('t, unit) act"

record pulse_monitor =
  poll_interval_seconds :: rat
  recovery_cooldown_seconds :: rat
  last_recovery_at :: "rat option"

definition pulse_monitor_init :: "rat \<Rightarrow> rat \<Rightarrow> pulse_monitor" where
  "pulse_monitor_init poll cooldown = \<lparr>poll_interval_seconds = max (1 / 100) poll,
     recovery_cooldown_seconds = max 0 cooldown, last_recovery_at = None\<rparr>"

definition on_env :: "('t, 'a) act \<Rightarrow> ('t \<times> pulse_monitor, 'a) act" where
  "on_env m s = (case m (fst s) of (r, t) \<Rightarrow> (r, (t, snd s)))"

definition recovery_due :: "pulse_monitor \<Rightarrow> rat \<Rightarrow> bool" where
  "recovery_due M now \<longleftrightarrow> (case last_recovery_at M of
     None \<Rightarrow> True | Some t \<Rightarrow> recovery_cooldown_seconds M \<le> now - t)"

text \<open>One round of the loop.\<close>

definition pulse_round :: "'t pulse_env \<Rightarrow> ('t \<times> pulse_monitor, unit) act" where
  "pulse_round N =
     bind (on_env (is_alive N)) (\<lambda>alive.
     bind (if alive then ret () else
       bind (on_env (time_fn N)) (\<lambda>now.
       bind (gets snd) (\<lambda>M.
       if recovery_due M now then
         bind (on_env (handle_recovery N)) (\<lambda>_.
         modify (\<lambda>(t, M). (t, M\<lparr>last_recovery_at := Some now\<rparr>)))
       else ret ()))) (\<lambda>_.
     bind (gets snd) (\<lambda>M.
     on_env (sleep_fn N (poll_interval_seconds M)))))"

text \<open>\<open>run\<close> itself, with the count of its rounds and a bound on it, if there is one; \<open>None\<close> is that it does not end.\<close>

partial_function (option) pulse_loop ::
  "'t pulse_env \<Rightarrow> int option \<Rightarrow> int \<Rightarrow> 't \<times> pulse_monitor \<Rightarrow> (unit res \<times> ('t \<times> pulse_monitor)) option" where
  "pulse_loop N max_loops loops s =
     (if (case max_loops of None \<Rightarrow> False | Some n \<Rightarrow> n \<le> loops) then Some (Inr (), s) else
      case pulse_round N s of
        (Inl e, s') \<Rightarrow> Some (Inl e, s')
      | (Inr _, s') \<Rightarrow> pulse_loop N max_loops (loops + 1) s')"

declare pulse_loop.simps [code]

definition pulse_run :: "'t pulse_env \<Rightarrow> int option \<Rightarrow> 't \<times> pulse_monitor \<Rightarrow> (unit res \<times> ('t \<times> pulse_monitor)) option" where
  "pulse_run N max_loops s = pulse_loop N max_loops 0 s"

lemma bounded_loop_ends: "nat (n - loops) \<le> m \<Longrightarrow> pulse_loop N (Some n) loops s \<noteq> None"
proof (induction m arbitrary: loops s)
  case 0
  then show ?case by (subst pulse_loop.simps) simp
next
  case (Suc m)
  then have "pulse_loop N (Some n) (loops + 1) s' \<noteq> None" for s' by simp
  then show ?case by (subst pulse_loop.simps) (simp split: prod.split sum.split)
qed

lemma bounded_run_ends: "pulse_run N (Some n) s \<noteq> None"
  using bounded_loop_ends [OF order_refl] by (simp add: pulse_run_def)

section \<open>The monitor does not recover too often\<close>

text \<open>The environment with a trace: the clock readings at which the recovery handler was called, also when it raised.\<close>

definition traced :: "'t pulse_env \<Rightarrow> ('t \<times> rat list \<times> rat) pulse_env" where
  "traced N = \<lparr>is_alive = (\<lambda>(t, calls, now). case is_alive N t of (r, t') \<Rightarrow> (r, (t', calls, now))),
     handle_recovery = (\<lambda>(t, calls, now). case handle_recovery N t of (r, t') \<Rightarrow> (r, (t', calls @ [now], now))),
     time_fn = (\<lambda>(t, calls, now). case time_fn N t of (Inr x, t') \<Rightarrow> (Inr x, (t', calls, x)) | (Inl e, t') \<Rightarrow> (Inl e, (t', calls, now))),
     sleep_fn = (\<lambda>d (t, calls, now). case sleep_fn N d t of (r, t') \<Rightarrow> (r, (t', calls, now)))\<rparr>"

abbreviation apart :: "rat \<Rightarrow> rat list \<Rightarrow> bool" where
  "apart cooldown \<equiv> successively (\<lambda>a b. cooldown \<le> b - a)"

text \<open>Between the rounds, the monitor remembers the last call.\<close>

definition paced :: "rat \<Rightarrow> int \<Rightarrow> ('t \<times> rat list \<times> rat) \<times> pulse_monitor \<Rightarrow> bool" where
  "paced cooldown loops s \<longleftrightarrow> (case s of ((t, calls, now), M) \<Rightarrow> apart cooldown calls \<and> int (length calls) \<le> loops \<and>
     recovery_cooldown_seconds M = cooldown \<and> last_recovery_at M = (if calls = [] then None else Some (last calls)))"

definition apart_within :: "rat \<Rightarrow> int \<Rightarrow> ('t \<times> rat list \<times> rat) \<times> pulse_monitor \<Rightarrow> bool" where
  "apart_within cooldown n s \<longleftrightarrow> (case s of ((t, calls, now), M) \<Rightarrow> apart cooldown calls \<and> int (length calls) \<le> n)"

lemma pulse_round_paced:
  assumes "paced cooldown loops s" and "pulse_round (traced N) s = (r, s')"
  shows "apart_within cooldown (loops + 1) s' \<and> (r = Inr () \<longrightarrow> paced cooldown (loops + 1) s')"
  using assms
  by (auto simp: pulse_round_def traced_def on_env_def bind_def gets_def modify_def ret_def paced_def apart_within_def recovery_due_def
      successively_append_iff split: prod.splits sum.splits if_splits option.splits)

lemma pulse_loop_paced:
  fixes N :: "'t pulse_env"
  assumes "pulse_loop (traced N) max_loops loops s = Some (r, s')" and "paced cooldown loops s"
  shows "apart_within cooldown (case max_loops of None \<Rightarrow> int (length (fst (snd (fst s')))) | Some n \<Rightarrow> max loops n) s'"
proof -
  define P where "P N' max_loops loops s out \<longleftrightarrow> (N' = traced N \<longrightarrow> paced cooldown loops s \<longrightarrow>
      apart_within cooldown (case max_loops of None \<Rightarrow> int (length (fst (snd (fst (snd out))))) | Some n \<Rightarrow> max loops n) (snd out))"
    for N' :: "('t \<times> rat list \<times> rat) pulse_env" and max_loops loops and s :: "('t \<times> rat list \<times> rat) \<times> pulse_monitor"
      and out :: "unit res \<times> ('t \<times> rat list \<times> rat) \<times> pulse_monitor"
  have "P (traced N) max_loops loops s (r, s')"
  proof (rule pulse_loop.raw_induct [where P = P, OF _ assms(1)])
    fix again and N' :: "('t \<times> rat list \<times> rat) pulse_env" and max_loops loops s out
    assume IH: "\<And>N' max_loops loops s out. again N' max_loops loops s = Some out \<Longrightarrow> P N' max_loops loops s out"
      and body: "(if (case max_loops of None \<Rightarrow> False | Some n \<Rightarrow> n \<le> loops) then Some (Inr (), s) else
        case pulse_round N' s of (Inl e, s') \<Rightarrow> Some (Inl e, s') | (Inr _, s') \<Rightarrow> again N' max_loops (loops + 1) s') = Some out"
    show "P N' max_loops loops s out"
      unfolding P_def
    proof (intro impI)
      assume N': "N' = traced N" and s: "paced cooldown loops s"
      obtain made s1 where round1: "pulse_round N' s = (made, s1)" by (cases "pulse_round N' s")
      note paced = pulse_round_paced [OF s round1 [unfolded N']]
      show "apart_within cooldown (case max_loops of None \<Rightarrow> int (length (fst (snd (fst (snd out))))) | Some n \<Rightarrow> max loops n) (snd out)"
        using body s paced round1 IH [of N' max_loops "loops + 1" s1 out] N'
        by (cases made) (auto simp: P_def paced_def apart_within_def split: option.splits if_splits prod.splits)
    qed
  qed
  with assms(2) show ?thesis unfolding P_def snd_conv by blast
qed

text \<open>C38: However often the health check fails, the monitor keeps its cooldown: from one call of its recovery handler to the
  next, by the clock readings they are made at, lies at least the cooldown, in every run that ends, bounded or
  not, also when an exception of the check, the clock, the handler or the sleep ends it. A run with a bound makes at
  most one call in each of its rounds.\<close>

theorem recoveries_are_rate_limited:
  assumes "pulse_run (traced N) max_loops ((t, [], 0), pulse_monitor_init poll cooldown) = Some (r, ((t', calls, now), M))"
  shows "successively (\<lambda>earlier later. max 0 cooldown \<le> later - earlier) calls \<and>
    (case max_loops of None \<Rightarrow> True | Some n \<Rightarrow> int (length calls) \<le> max 0 n)"
proof -
  have "paced (max 0 cooldown) 0 ((t, [], 0), pulse_monitor_init poll cooldown)"
    by (simp add: paced_def pulse_monitor_init_def)
  from pulse_loop_paced [OF assms [unfolded pulse_run_def] this] show ?thesis
    by (auto simp: apart_within_def split: option.splits)
qed

end
