(* ===== verification/Handoff.thy ===== *)
theory Handoff
  imports Verifier Recovery_Aids
begin

text \<open>
  The check helper in front of the mock target: what a controller that was handed a write sees when
  it asks before it retries.
\<close>

lemma or_dict_nonempty: "d \<noteq> [] \<Longrightarrow> \<exists>r. r \<noteq> [] \<and> or_dict a (Some d) = Some r"
  by (cases a) (auto simp: or_dict_def)

lemma record_payload: "d \<noteq> [] \<Longrightarrow> \<exists>r. r \<noteq> [] \<and> extract_payload_from_record (JObj d) = Some r"
  using or_dict_nonempty by (simp add: extract_payload_from_record_def) metis

lemma applied_request_on_record:
  assumes "apply_idempotent_action E a p i s = (Inr r, s')" and "dict_get r ''idempotent_hit'' = JBool False"
  shows "\<exists>rec. rec \<noteq> [] \<and> get_action_by_execution_id E' i s' = (Inr (JObj rec), s')"
proof -
  have ne: "i \<noteq> []" using assms(1) by (auto simp: apply_idempotent_action_def keyed_request_def split: if_splits)
  from assms(1)[unfolded apply_idempotent_action_def] insertI1 insertI1 show ?thesis
  proof (cases rule: keyed_request_InrE)
    case (hit data existing)
    then show ?thesis using assms(2) by simp
  next
    case (applied data s1 record0 receipt data' meta)
    have sh: "shaped data'" and log: "dict_get (obj_at data' ''action_log'') i = JObj record0"
      using applied(7) by (simp_all add: commits_request_def)
    have "action_on_record (AList.update ''meta'' (JObj meta) data') i = JObj record0" using log by (simp add: action_on_record_def)
    moreover have "record0 \<noteq> []" using applied(3) by (auto simp: dict_get_def)
    ultimately show ?thesis using get_action_loaded [OF saved_loads [OF applied(8) sh, of E'] ne] by simp
  qed
qed

text \<open>C37: A controller that holds a request with the execution identifier, and asks the target for the action of
  that identifier before it retries, finds the request that was applied: it is told not to retry,
  gets a recovered response, and the target is not changed by the question.\<close>

theorem check_before_retry_finds_applied_request:
  assumes "apply_idempotent_action E a p i s = (Inr r, s')" and "dict_get r ''idempotent_hit'' = JBool False"
    and "dict_get request ''execution_id'' = JStr i"
  shows "\<exists>answer. recover_with_check_api request None
      (\<lambda>payload. bind (handle_mcp_tool_call E' ''mock_target_get_action'' payload) (\<lambda>d. ret (JObj d))) None ''execution_id'' s' =
        (Inr answer, s') \<and>
    \<not> chk_should_retry answer \<and> chk_found_previous_result answer \<and> chk_recovered_payload answer \<noteq> None"
proof -
  have ne: "i \<noteq> []" using assms(1) by (auto simp: apply_idempotent_action_def keyed_request_def split: if_splits)
  obtain rec where rec: "rec \<noteq> []" "get_action_by_execution_id E' i s' = (Inr (JObj rec), s')"
    using applied_request_on_record [OF assms(1,2)] by blast
  let ?response = "[(''found'', JBool True), (''record'', JObj rec)]"
  have "handle_mcp_tool_call E' ''mock_target_get_action'' [(''execution_id'', JStr i)] s' = (Inr ?response, s')"
    by (simp add: handle_mcp_tool_call_def require_str_field_def ne bind_Inr [where m = "get_action_by_execution_id E' i", OF rec(2)])
  moreover have "extract_request_id request = Some i" using ne assms(3) by (simp add: extract_request_id_def)
  moreover obtain payload where "default_response_extractor ?response = (True, Some payload)"
    using record_payload [OF rec(1)] by (auto simp: default_response_extractor_def or_dict_def)
  ultimately show ?thesis
    by (simp add: recover_with_check_api_def Let_def dict_setdefault_def try_catch_def bind_def)
qed

end
