(* ===== verification/Mock_Agent.thy ===== *)
theory Mock_Agent
  imports Runtime_Store
begin

text \<open>
  The scripted side of the tests: \<open>tools/mock_agent.py\<close> turns a history into the turns of an agent and
  replays them by step index, \<open>tools/mock_store_mod.py\<close> keeps its requests, and
  \<open>tools/crash_simulator.py\<close> stops it at chosen steps. A history is the JSON object of its file.
\<close>

section \<open>Turns\<close>

datatype decision_kind = TOOL_CALL | FINAL

fun decision_value :: "decision_kind \<Rightarrow> string" where
  "decision_value TOOL_CALL = ''tool_call''"
| "decision_value FINAL = ''final''"

datatype request_status = NOT_SENT | IN_STEP | REPLIED

fun request_status_value :: "request_status \<Rightarrow> string" where
  "request_status_value NOT_SENT = ''not_sent''"
| "request_status_value IN_STEP = ''in_step''"
| "request_status_value REPLIED = ''replied''"

record request_record =
  rq_request_id :: string
  rq_status :: request_status
  rq_payload :: json

record chat_message =
  chat_role :: string
  chat_content :: string
  chat_name :: "string option"
  chat_tool_call_id :: "string option"

record tool_definition =
  td_name :: string
  td_description :: string
  td_input_schema :: dict
  td_side_effecting :: bool

record turn_request =
  turn_messages :: "chat_message list"
  turn_available_tools :: "tool_definition list"
  turn_run_id :: string
  turn_step_index :: int
  turn_metadata :: dict
  turn_max_output_tokens :: int
  turn_temperature :: pyfloat

text \<open>The rationale of a call is whatever the history holds there.\<close>

record scripted_call =
  sc_name :: string
  sc_arguments :: dict
  sc_operation_type :: operation_type
  sc_rationale :: json

record final_answer =
  fa_answer :: string
  fa_stop_reason :: string

record turn_response =
  tr_kind :: decision_kind
  tr_tool_call :: "scripted_call option"
  tr_final :: "final_answer option"
  tr_model_name :: string
  tr_raw_output :: "string option"

text \<open>The constructor with its \<open>__post_init__\<close>.\<close>

definition turn_response_init ::
  "decision_kind \<Rightarrow> scripted_call option \<Rightarrow> final_answer option \<Rightarrow> string \<Rightarrow> string option \<Rightarrow> turn_response res" where
  "turn_response_init kind call fin model_name raw_output =
     (if kind = TOOL_CALL \<and> call = None then value_error ''tool_call response requires a tool_call payload''
      else if kind = TOOL_CALL \<and> fin \<noteq> None then value_error ''tool_call response cannot include final payload''
      else if kind = FINAL \<and> fin = None then value_error ''final response requires a final payload''
      else if kind = FINAL \<and> call \<noteq> None then value_error ''final response cannot include tool_call payload''
      else Inr \<lparr>tr_kind = kind, tr_tool_call = call, tr_final = fin, tr_model_name = model_name, tr_raw_output = raw_output\<rparr>)"

definition from_tool_call :: "string \<Rightarrow> dict \<Rightarrow> operation_type \<Rightarrow> json \<Rightarrow> string \<Rightarrow> string option \<Rightarrow> turn_response res" where
  "from_tool_call name arguments operation_type rationale model_name raw_output =
     turn_response_init TOOL_CALL (Some \<lparr>sc_name = name, sc_arguments = arguments,
       sc_operation_type = operation_type, sc_rationale = rationale\<rparr>) None model_name raw_output"

definition from_final_answer :: "string \<Rightarrow> string \<Rightarrow> string \<Rightarrow> string option \<Rightarrow> turn_response res" where
  "from_final_answer answer stop_reason model_name raw_output =
     turn_response_init FINAL None (Some \<lparr>fa_answer = answer, fa_stop_reason = stop_reason\<rparr>) model_name raw_output"

abbreviation scripted_model :: string where
  "scripted_model \<equiv> ''mock-scripted-v1''"

section \<open>The scripted agent\<close>

record scripted_agent =
  ag_script :: "turn_response list"
  ag_strict :: bool
  ag_default_final_answer :: string
  ag_calls :: int
  ag_last_run_id :: "string option"
  ag_step_trace :: "int list"

definition scripted_agent_init :: "turn_response list \<Rightarrow> bool \<Rightarrow> string \<Rightarrow> scripted_agent" where
  "scripted_agent_init script strict default_final_answer =
     \<lparr>ag_script = script, ag_strict = strict, ag_default_final_answer = default_final_answer,
      ag_calls = 0, ag_last_run_id = None, ag_step_trace = []\<rparr>"

definition generate_turn :: "turn_request \<Rightarrow> (scripted_agent, turn_response) act" where
  "generate_turn request =
     bind (modify (\<lambda>A. A\<lparr>ag_calls := ag_calls A + 1, ag_last_run_id := Some (turn_run_id request),
       ag_step_trace := ag_step_trace A @ [turn_step_index request]\<rparr>)) (\<lambda>_.
     bind (gets (\<lambda>A. A)) (\<lambda>A.
     let step_index = turn_step_index request in
     if step_index < 0 then raise (Exn ValueError ''step_index must be non-negative'')
     else if int (length (ag_script A)) \<le> step_index then
       (if ag_strict A
        then raise (Exn IndexError (''script has '' @ int_str (int (length (ag_script A))) @
          '' steps, cannot serve step_index='' @ int_str step_index))
        else lift (from_final_answer (ag_default_final_answer A) ''completed'' scripted_model None))
     else ret (ag_script A ! nat step_index)))"

definition agent_reset :: "string option \<Rightarrow> scripted_agent \<Rightarrow> scripted_agent" where
  "agent_reset run_id A = (if run_id = None \<or> run_id = ag_last_run_id A
     then A\<lparr>ag_calls := 0, ag_step_trace := [], ag_last_run_id := None\<rparr> else A)"

definition agent_get_state :: "scripted_agent \<Rightarrow> dict" where
  "agent_get_state A = [(''calls'', JInt (ag_calls A)), (''last_run_id'', jopt JStr (ag_last_run_id A)),
     (''step_trace'', JList (map JInt (ag_step_trace A))), (''script_length'', JInt (int (length (ag_script A)))),
     (''strict'', JBool (ag_strict A))]"

definition default_transfer_script :: "turn_response list res" where
  "default_transfer_script = rmap (\<lambda>r. r) [
     from_tool_call ''get_balance'' [(''account_id'', JStr ''acct_A'')] READ
       (JStr ''Check source account before transfer'') scripted_model None,
     from_tool_call ''create_transfer'' [(''from'', JStr ''acct_A''), (''to'', JStr ''acct_B''), (''amount'', JInt 25)] WRITE
       (JStr ''Execute transfer'') scripted_model None,
     from_tool_call ''get_transfer_status'' [(''transfer_ref'', JStr ''latest'')] READ
       (JStr ''Confirm transfer status'') scripted_model None,
     from_final_answer ''Transfer workflow complete.'' ''completed'' scripted_model None]"

section \<open>Histories\<close>

definition parse_operation_type :: "json \<Rightarrow> operation_type res" where
  "parse_operation_type raw = (case raw of
     JStr s \<Rightarrow> if upper (strip s) = operation_value READ then Inr READ
       else if upper (strip s) = operation_value WRITE then Inr WRITE
       else value_error ''operation_type must be READ or WRITE''
   | _ \<Rightarrow> value_error ''operation_type must be READ or WRITE'')"

text \<open>\<open>_require_str\<close> asks for a string that is not blank, and gives it as it is.\<close>

definition require_str_in :: "dict \<Rightarrow> string \<Rightarrow> string \<Rightarrow> string res" where
  "require_str_in obj key ctx = (case dict_get obj key of
     JStr s \<Rightarrow> if strip s = [] then value_error (ctx @ ''.'' @ key @ '' must be a non-empty string'') else Inr s
   | _ \<Rightarrow> value_error (ctx @ ''.'' @ key @ '' must be a non-empty string''))"

definition bracketed :: "string \<Rightarrow> nat \<Rightarrow> string" where
  "bracketed name index = name @ ''['' @ nat_str index @ '']''"

definition load_step :: "text_forms \<Rightarrow> nat \<times> json \<Rightarrow> turn_response res" where
  "load_step T p = (case p of (index, raw) \<Rightarrow> let at_step = bracketed ''step'' index in
     (case raw of JObj step \<Rightarrow>
        if dict_get step ''kind'' = JStr (decision_value TOOL_CALL) then
          rbind (parse_operation_type (dict_get_or step ''operation_type'' (JStr ''READ''))) (\<lambda>operation_type.
          case dict_get_or step ''arguments'' (JObj []) of
            JObj arguments \<Rightarrow>
              rbind (require_str_in step ''name'' at_step) (\<lambda>name.
              from_tool_call name arguments operation_type (dict_get step ''rationale'') scripted_model None)
          | _ \<Rightarrow> value_error (at_step @ ''.arguments must be an object''))
        else if dict_get step ''kind'' = JStr (decision_value FINAL) then
          rbind (require_str_in step ''answer'' at_step) (\<lambda>answer.
          from_final_answer answer (py_str T (dict_get_or step ''stop_reason'' (JStr ''completed''))) scripted_model None)
        else value_error (at_step @ ''.kind must be '' @ repr_str (decision_value TOOL_CALL) @ '' or '' @ repr_str (decision_value FINAL))
      | _ \<Rightarrow> value_error (at_step @ '' must be an object'')))"

definition load_script_from_history_payload :: "text_forms \<Rightarrow> dict \<Rightarrow> turn_response list res" where
  "load_script_from_history_payload T payload = (case dict_get payload ''steps'' of
     JList steps \<Rightarrow> rmap (load_step T) (List.enumerate 0 steps)
   | _ \<Rightarrow> value_error (''history payload must include a list field '' @ repr_str ''steps''))"

text \<open>Requests of the recovery for the tool-call steps, numbered by their position in the script.\<close>

definition request_of_step :: "request_status \<Rightarrow> nat \<times> turn_response \<Rightarrow> request_record option" where
  "request_of_step initial_status p = (case p of (step_index, step) \<Rightarrow> map_option (\<lambda>call.
     \<lparr>rq_request_id = ''request-step-'' @ nat_str step_index, rq_status = initial_status,
      rq_payload = JObj [(''step_index'', JInt (int step_index)), (''tool_name'', JStr (sc_name call)),
        (''arguments'', JObj (sc_arguments call)), (''operation_type'', JStr (operation_value (sc_operation_type call))),
        (''rationale'', sc_rationale call)]\<rparr>) (tr_tool_call step))"

definition build_request_records_from_script :: "request_status \<Rightarrow> turn_response list \<Rightarrow> request_record list" where
  "build_request_records_from_script initial_status script =
     List.map_filter (request_of_step initial_status) (List.enumerate 0 script)"

definition build_request_records_from_history_payload ::
  "text_forms \<Rightarrow> request_status \<Rightarrow> dict \<Rightarrow> request_record list res" where
  "build_request_records_from_history_payload T initial_status payload =
     rbind (load_script_from_history_payload T payload) (\<lambda>script. Inr (build_request_records_from_script initial_status script))"

definition plan_item_of_step :: "nat \<times> turn_response \<Rightarrow> dict" where
  "plan_item_of_step p = (case p of (index, step) \<Rightarrow>
     (''title'', case tr_tool_call step of Some call \<Rightarrow> sc_rationale call
        | None \<Rightarrow> (case tr_final step of Some fin \<Rightarrow> JStr (fa_answer fin) | None \<Rightarrow> JStr (''step '' @ nat_str index))) #
     (if 0 < index then [(''depends_on'', str_list [''step_'' @ nat_str (index - 1)])] else []))"

definition build_plan_items_from_history_payload :: "text_forms \<Rightarrow> dict \<Rightarrow> dict list res" where
  "build_plan_items_from_history_payload T payload =
     rbind (load_script_from_history_payload T payload) (\<lambda>script. Inr (map plan_item_of_step (List.enumerate 0 script)))"

definition numbered_line :: "text_forms \<Rightarrow> nat \<times> dict \<Rightarrow> string" where
  "numbered_line T p = (case p of (index, item) \<Rightarrow> nat_str index @ ''. '' @ py_str T (dict_get item ''title''))"

abbreviation newline :: string where
  "newline \<equiv> [CHR 0x0A]"

definition build_plan_source_text_from_history_payload :: "text_forms \<Rightarrow> dict \<Rightarrow> string res" where
  "build_plan_source_text_from_history_payload T payload =
     rbind (build_plan_items_from_history_payload T payload) (\<lambda>plan_items.
     Inr (join newline (map (numbered_line T) (List.enumerate 1 plan_items))))"

text \<open>A name or tool call id, when it is there, is a string.\<close>

definition optional_text :: "dict \<Rightarrow> string \<Rightarrow> string \<Rightarrow> string option res" where
  "optional_text item key at_item = (case dict_get item key of
     JNull \<Rightarrow> Inr None | JStr s \<Rightarrow> Inr (Some s)
   | _ \<Rightarrow> value_error (at_item @ ''.'' @ key @ '' must be a string when provided''))"

definition load_message :: "nat \<times> json \<Rightarrow> chat_message res" where
  "load_message p = (case p of (index, raw) \<Rightarrow> let at_item = bracketed ''conversation'' index in
     (case raw of JObj item \<Rightarrow>
        rbind (require_str_in item ''role'' at_item) (\<lambda>role.
        rbind (require_str_in item ''content'' at_item) (\<lambda>content.
        if role \<notin> {''system'', ''user'', ''assistant'', ''tool''}
          then value_error (at_item @ ''.role must be one of system,user,assistant,tool'') else
        rbind (optional_text item ''name'' at_item) (\<lambda>name.
        rbind (optional_text item ''tool_call_id'' at_item) (\<lambda>tool_call_id.
        Inr \<lparr>chat_role = role, chat_content = content, chat_name = name, chat_tool_call_id = tool_call_id\<rparr>))))
      | _ \<Rightarrow> value_error (at_item @ '' must be an object'')))"

definition load_messages_from_history_payload :: "dict \<Rightarrow> chat_message list res" where
  "load_messages_from_history_payload payload = (case dict_get_or payload ''conversation'' (JList []) of
     JList items \<Rightarrow> rmap load_message (List.enumerate 0 items)
   | _ \<Rightarrow> value_error (''history payload field '' @ repr_str ''conversation'' @ '' must be a list''))"

definition response_to_dict :: "turn_response \<Rightarrow> dict" where
  "response_to_dict r =
     [(''kind'', JStr (decision_value (tr_kind r))), (''model_name'', JStr (tr_model_name r))] @
     (case tr_raw_output r of Some s \<Rightarrow> [(''raw_output'', JStr s)] | None \<Rightarrow> []) @
     (case tr_tool_call r of Some c \<Rightarrow> [(''tool_call'', JObj [(''name'', JStr (sc_name c)), (''arguments'', JObj (sc_arguments c)),
         (''operation_type'', JStr (operation_value (sc_operation_type c))), (''rationale'', sc_rationale c)])] | None \<Rightarrow> []) @
     (case tr_final r of Some f \<Rightarrow> [(''final'', JObj [(''answer'', JStr (fa_answer f)),
         (''stop_reason'', JStr (fa_stop_reason f))])] | None \<Rightarrow> [])"

section \<open>The request store\<close>

record mock_store =
  ms_requests :: "request_record list"
  ms_metadata :: dict

definition mock_store_init :: "request_record list \<Rightarrow> dict \<Rightarrow> mock_store" where
  "mock_store_init requests metadata = \<lparr>ms_requests = requests, ms_metadata = metadata\<rparr>"

text \<open>\<open>write_request\<close> replaces the first request with that identifier, or appends.\<close>

fun replace_first :: "request_record \<Rightarrow> request_record list \<Rightarrow> request_record list" where
  "replace_first req [] = [req]"
| "replace_first req (existing # rest) = (if rq_request_id existing = rq_request_id req
     then req # rest else existing # replace_first req rest)"

definition write_request :: "request_record \<Rightarrow> mock_store \<Rightarrow> mock_store" where
  "write_request req st = st\<lparr>ms_requests := replace_first req (ms_requests st)\<rparr>"

definition replace_requests :: "request_record list \<Rightarrow> mock_store \<Rightarrow> mock_store" where
  "replace_requests requests st = st\<lparr>ms_requests := requests\<rparr>"

definition get_request :: "mock_store \<Rightarrow> string \<Rightarrow> request_record option" where
  "get_request st request_id = find (\<lambda>req. rq_request_id req = request_id) (ms_requests st)"

definition get_request_by_step_index :: "mock_store \<Rightarrow> int \<Rightarrow> request_record option" where
  "get_request_by_step_index st step_index = find (\<lambda>req.
     py_eq (dict_get (case rq_payload req of JObj d \<Rightarrow> d | _ \<Rightarrow> []) ''step_index'') (JInt step_index)) (ms_requests st)"

definition mark_request_status :: "string \<Rightarrow> request_status \<Rightarrow> (mock_store, request_record) act" where
  "mark_request_status request_id status = bind (gets (\<lambda>st. get_request st request_id)) (\<lambda>found. case found of
     None \<Rightarrow> raise (Exn KeyError (repr_str (''unknown request_id: '' @ request_id)))
   | Some req \<Rightarrow> let updated = req\<lparr>rq_status := status\<rparr> in
       bind (modify (write_request updated)) (\<lambda>_. ret updated))"

definition mark_step_status :: "int \<Rightarrow> request_status \<Rightarrow> (mock_store, request_record) act" where
  "mark_step_status step_index status = bind (gets (\<lambda>st. get_request_by_step_index st step_index)) (\<lambda>found. case found of
     None \<Rightarrow> raise (Exn KeyError (repr_str (''unknown step_index: '' @ int_str step_index)))
   | Some req \<Rightarrow> mark_request_status (rq_request_id req) status)"

definition set_metadata :: "dict \<Rightarrow> mock_store \<Rightarrow> mock_store" where
  "set_metadata items st = st\<lparr>ms_metadata := foldl (\<lambda>d (k, v). AList.update k v d) (ms_metadata st) items\<rparr>"

definition mock_store_to_dict :: "mock_store \<Rightarrow> dict" where
  "mock_store_to_dict st = [(''metadata'', JObj (ms_metadata st)), (''requests'', JList (map (\<lambda>req. JObj [
     (''request_id'', JStr (rq_request_id req)), (''status'', JStr (request_status_value (rq_status req))),
     (''payload'', rq_payload req)]) (ms_requests st)))]"

section \<open>The crash simulator\<close>

record crash_simulator =
  crash_steps :: "int set"
  crash_once :: bool
  triggered_steps :: "int set"

definition crash :: "string \<Rightarrow> ('s, 'a) act" where
  "crash reason = raise (Exn SimulatedCrash reason)"

definition maybe_crash :: "int \<Rightarrow> string \<Rightarrow> (crash_simulator, unit) act" where
  "maybe_crash step_index phase = bind (gets (\<lambda>C. C)) (\<lambda>C.
     if step_index \<notin> crash_steps C then ret ()
     else if crash_once C \<and> step_index \<in> triggered_steps C then ret ()
     else bind (modify (\<lambda>C. C\<lparr>triggered_steps := insert step_index (triggered_steps C)\<rparr>)) (\<lambda>_.
       crash (''Simulated crash at step='' @ int_str step_index @ '' phase='' @ phase)))"

definition crash_reset :: "crash_simulator \<Rightarrow> crash_simulator" where
  "crash_reset C = C\<lparr>triggered_steps := {}\<rparr>"

definition int_list :: "int set \<Rightarrow> json" where
  "int_list A = JList (map JInt (sorted_list_of_set A))"

definition crash_get_state :: "crash_simulator \<Rightarrow> dict" where
  "crash_get_state C = [(''crash_steps'', int_list (crash_steps C)), (''crash_once'', JBool (crash_once C)),
     (''triggered_steps'', int_list (triggered_steps C))]"

record crash_trace =
  trace_step_index :: int
  trace_phase :: string
  trace_event :: string
  trace_kind :: decision_kind

text \<open>The loop of \<open>simulate_history_execution\<close>: its trace, and the message of the crash that ended it.\<close>

fun simulate_steps :: "nat \<Rightarrow> turn_response list \<Rightarrow> (crash_simulator, crash_trace list \<times> string option) act" where
  "simulate_steps index [] = ret ([], None)"
| "simulate_steps index (step # steps) =
     bind (try_catch (bind (maybe_crash (int index) ''before_agent_turn'') (\<lambda>_. ret None)) (\<lambda>e. ret (Some (exn_text e)))) (\<lambda>crashed.
     case crashed of
       Some message \<Rightarrow> ret ([\<lparr>trace_step_index = int index, trace_phase = ''before_agent_turn'', trace_event = ''crash'',
         trace_kind = tr_kind step\<rparr>], Some message)
     | None \<Rightarrow>
         let ok = \<lparr>trace_step_index = int index, trace_phase = ''after_agent_turn'', trace_event = ''ok'', trace_kind = tr_kind step\<rparr> in
         if tr_kind step = FINAL then ret ([ok], None)
         else bind (simulate_steps (Suc index) steps) (\<lambda>(trace, message). ret (ok # trace, message)))"

definition trace_to_dict :: "crash_trace \<Rightarrow> dict" where
  "trace_to_dict t = [(''step_index'', JInt (trace_step_index t)), (''phase'', JStr (trace_phase t)),
     (''event'', JStr (trace_event t)), (''kind'', JStr (decision_value (trace_kind t)))]"

definition simulate_history_execution :: "text_forms \<Rightarrow> string \<Rightarrow> dict \<Rightarrow> int list \<Rightarrow> bool \<Rightarrow> dict res" where
  "simulate_history_execution T history_file payload steps once =
     rbind (load_script_from_history_payload T payload) (\<lambda>script.
     case simulate_steps 0 script \<lparr>crash_steps = set steps, crash_once = once, triggered_steps = {}\<rparr> of
       (Inl e, C) \<Rightarrow> Inl e
     | (Inr (trace, message), C) \<Rightarrow> Inr [
         (''history_file'', JStr history_file), (''script_length'', JInt (int (length script))),
         (''crash_steps'', int_list (set steps)), (''crashed'', JBool (message \<noteq> None)),
         (''crash_message'', jopt JStr message), (''trace'', JList (map (\<lambda>t. JObj (trace_to_dict t)) trace)),
         (''simulator_state'', JObj (crash_get_state C))])"

end
