(* ===== verification/Py_Json.thy ===== *)
theory Py_Json
  imports Py_Value
begin

text \<open>
  \<open>json.loads\<close> on texts of code points up to 255: the decoder of Python's standard library, with its
  extensions (\<open>NaN\<close>, \<open>Infinity\<close>), for the modules that parse a text they are given. \<open>None\<close> is the
  \<open>JSONDecodeError\<close>. An escape of a larger code point is outside the model and counted as an error.
\<close>

definition json_space :: "char \<Rightarrow> bool" where
  "json_space c \<longleftrightarrow> of_char c \<in> {9, 10, 13, 32 :: nat}"

abbreviation skip_space :: "string \<Rightarrow> string" where
  "skip_space \<equiv> dropWhile json_space"

section \<open>Strings and numbers\<close>

definition hex_value :: "char \<Rightarrow> nat option" where
  "hex_value c = (let n = of_char c :: nat in
     if 48 \<le> n \<and> n \<le> 57 then Some (n - 48)
     else if 97 \<le> n \<and> n \<le> 102 then Some (n - 87)
     else if 65 \<le> n \<and> n \<le> 70 then Some (n - 55) else None)"

fun four_hex :: "string \<Rightarrow> (char \<times> string) option" where
  "four_hex (a # b # c # d # s) = (case (hex_value a, hex_value b, hex_value c, hex_value d) of
     (Some w, Some x, Some y, Some z) \<Rightarrow>
       if w = 0 \<and> x = 0 then Some (char_of (16 * y + z), s) else None
   | _ \<Rightarrow> None)"
| "four_hex _ = None"

definition simple_escape :: "char \<Rightarrow> char option" where
  "simple_escape c = map_of [(CHR 0x22, CHR 0x22), (CHR 0x5C, CHR 0x5C), (CHR ''/'', CHR ''/''), (CHR ''b'', CHR 0x08),
     (CHR ''f'', CHR 0x0C), (CHR ''n'', CHR 0x0A), (CHR ''r'', CHR 0x0D), (CHR ''t'', CHR 0x09)] c"

lemma four_hex_shorter: "four_hex s = Some (c, r) \<Longrightarrow> length r < length s"
  by (cases s rule: four_hex.cases) (auto split: option.splits if_splits)

text \<open>The rest of a string after its opening quote.\<close>

function scan_string :: "string \<Rightarrow> (string \<times> string) option" where
  "scan_string s = (case s of
     [] \<Rightarrow> None
   | c # r \<Rightarrow>
       if c = CHR 0x22 then Some ([], r)
       else if c = CHR 0x5C then (case r of
           [] \<Rightarrow> None
         | e # r' \<Rightarrow>
             if e = CHR ''u'' then (case four_hex r' of
                 None \<Rightarrow> None
               | Some (u, r'') \<Rightarrow> map_option (\<lambda>(t, z). (u # t, z)) (scan_string r''))
             else (case simple_escape e of
                 None \<Rightarrow> None
               | Some x \<Rightarrow> map_option (\<lambda>(t, z). (x # t, z)) (scan_string r')))
       else if of_char c < (32 :: nat) then None
       else map_option (\<lambda>(t, z). (c # t, z)) (scan_string r))"
  by pat_completeness auto
termination
  by (relation "measure length") (auto dest: four_hex_shorter)

declare scan_string.simps [simp del]

definition is_digit :: "char \<Rightarrow> bool" where
  "is_digit c \<longleftrightarrow> digit_value c \<noteq> None"

abbreviation digits_of :: "string \<Rightarrow> string" where
  "digits_of \<equiv> takeWhile is_digit"

abbreviation after_digits :: "string \<Rightarrow> string" where
  "after_digits \<equiv> dropWhile is_digit"

text \<open>
  \<open>-?(0|[1-9][0-9]*)([.][0-9]+)?([eE][-+]?[0-9]+)?\<close>: the text of the integer part, of the fraction
  and of the exponent, and the rest. A part that does not match is empty.
\<close>

definition scan_int :: "string \<Rightarrow> (string \<times> string) option" where
  "scan_int s = (let (sign, r) = (case s of c # r \<Rightarrow> if c = CHR ''-'' then ([c], r) else ([], s) | [] \<Rightarrow> ([], s)) in
     case r of
       [] \<Rightarrow> None
     | c # r' \<Rightarrow>
         if c = CHR ''0'' then Some (sign @ [c], r')
         else if is_digit c then Some (sign @ digits_of r, after_digits r) else None)"

definition scan_fraction :: "string \<Rightarrow> string \<times> string" where
  "scan_fraction s = (case s of
     c # r \<Rightarrow> if c = CHR ''.'' \<and> digits_of r \<noteq> [] then (c # digits_of r, after_digits r) else ([], s)
   | [] \<Rightarrow> ([], s))"

definition scan_exponent :: "string \<Rightarrow> string \<times> string" where
  "scan_exponent s = (case s of
     c # r \<Rightarrow>
       if c = CHR ''e'' \<or> c = CHR ''E'' then
         (let (sign, r') = (case r of d # t \<Rightarrow> if d = CHR ''-'' \<or> d = CHR ''+'' then ([d], t) else ([], r) | [] \<Rightarrow> ([], r)) in
          if digits_of r' \<noteq> [] then (c # sign @ digits_of r', after_digits r') else ([], s))
       else ([], s)
   | [] \<Rightarrow> ([], s))"

definition scan_number :: "string \<Rightarrow> (json \<times> string) option" where
  "scan_number s = (case scan_int s of
     None \<Rightarrow> None
   | Some (i, r) \<Rightarrow> (case scan_fraction r of (f, r') \<Rightarrow> (case scan_exponent r' of (e, r'') \<Rightarrow>
       if f = [] \<and> e = [] then map_option (\<lambda>n. (JInt n, r'')) (parse_int i)
       else map_option (\<lambda>x. (JFloat x, r'')) (parse_float (i @ f @ e)))))"

section \<open>Values\<close>

definition strip_prefix :: "string \<Rightarrow> string \<Rightarrow> string option" where
  "strip_prefix p s = (if take (length p) s = p then Some (drop (length p) s) else None)"

fun first_literal :: "(string \<times> json) list \<Rightarrow> string \<Rightarrow> (json \<times> string) option" where
  "first_literal [] s = None"
| "first_literal ((p, v) # ps) s = (case strip_prefix p s of Some r \<Rightarrow> Some (v, r) | None \<Rightarrow> first_literal ps s)"

definition json_literals :: "(string \<times> json) list" where
  "json_literals = [(''null'', JNull), (''true'', JBool True), (''false'', JBool False), (''NaN'', JFloat NaN),
     (''Infinity'', JFloat PInf), (''-Infinity'', JFloat NInf)]"

text \<open>
  A value, the elements of an array and the members of an object, from their first character on. The
  first argument bounds the nesting of the calls; each call consumes a character, so that the
  length of the text is enough (\<open>fuel_is_enough\<close>).
\<close>

fun parse_value :: "nat \<Rightarrow> string \<Rightarrow> (json \<times> string) option"
  and parse_elements :: "nat \<Rightarrow> string \<Rightarrow> (json list \<times> string) option"
  and parse_members :: "nat \<Rightarrow> string \<Rightarrow> (dict \<times> string) option" where
  "parse_value 0 s = None"
| "parse_value (Suc n) s = (case s of
     [] \<Rightarrow> None
   | c # r \<Rightarrow>
       if c = CHR 0x22 then map_option (\<lambda>(t, z). (JStr t, z)) (scan_string r)
       else if c = CHR ''{'' then (case skip_space r of
           [] \<Rightarrow> None
         | d # r' \<Rightarrow> if d = CHR ''}'' then Some (JObj [], r')
             else map_option (\<lambda>(ms, z). (JObj (foldl (\<lambda>d (k, v). AList.update k v d) [] ms), z)) (parse_members n (d # r')))
       else if c = CHR ''['' then (case skip_space r of
           [] \<Rightarrow> None
         | d # r' \<Rightarrow> if d = CHR '']'' then Some (JList [], r')
             else map_option (\<lambda>(vs, z). (JList vs, z)) (parse_elements n (d # r')))
       else (case first_literal json_literals s of Some p \<Rightarrow> Some p | None \<Rightarrow> scan_number s))"
| "parse_elements 0 s = None"
| "parse_elements (Suc n) s = (case parse_value n s of
     None \<Rightarrow> None
   | Some (v, r) \<Rightarrow> (case skip_space r of
       [] \<Rightarrow> None
     | d # r' \<Rightarrow> if d = CHR '']'' then Some ([v], r')
         else if d = CHR '','' then map_option (\<lambda>(vs, z). (v # vs, z)) (parse_elements n (skip_space r'))
         else None))"
| "parse_members 0 s = None"
| "parse_members (Suc n) s = (case s of
     [] \<Rightarrow> None
   | q # r \<Rightarrow> if q \<noteq> CHR 0x22 then None else (case scan_string r of
       None \<Rightarrow> None
     | Some (k, r1) \<Rightarrow> (case skip_space r1 of
         [] \<Rightarrow> None
       | c # r2 \<Rightarrow> if c \<noteq> CHR '':'' then None else (case parse_value n (skip_space r2) of
           None \<Rightarrow> None
         | Some (v, r3) \<Rightarrow> (case skip_space r3 of
             [] \<Rightarrow> None
           | d # r4 \<Rightarrow> if d = CHR ''}'' then Some ([(k, v)], r4)
               else if d = CHR '','' then map_option (\<lambda>(ms, z). ((k, v) # ms, z)) (parse_members n (skip_space r4))
               else None)))))"

declare parse_value.simps(2) [simp del] parse_elements.simps(2) [simp del] parse_members.simps(2) [simp del]

definition json_loads :: "string \<Rightarrow> json option" where
  "json_loads s = (case parse_value (Suc (length s)) (skip_space s) of
     Some (v, r) \<Rightarrow> if skip_space r = [] then Some v else None
   | None \<Rightarrow> None)"

section \<open>The fuel is enough\<close>

lemma skip_space_length: "length (skip_space s) \<le> length s"
  by (rule length_dropWhile_le)

lemma scan_string_cases: "scan_string [] = None"
  "scan_string (c # r) =
       (if c = CHR 0x22 then Some ([], r)
       else if c = CHR 0x5C then (case r of
           [] \<Rightarrow> None
         | e # r' \<Rightarrow>
             if e = CHR ''u'' then (case four_hex r' of
                 None \<Rightarrow> None
               | Some (u, r'') \<Rightarrow> map_option (\<lambda>(t, z). (u # t, z)) (scan_string r''))
             else (case simple_escape e of
                 None \<Rightarrow> None
               | Some x \<Rightarrow> map_option (\<lambda>(t, z). (x # t, z)) (scan_string r')))
       else if of_char c < (32 :: nat) then None
       else map_option (\<lambda>(t, z). (c # t, z)) (scan_string r))"
  by (subst scan_string.simps, simp)+

lemma scan_string_shorter: "scan_string s = Some (t, r) \<Longrightarrow> length r < length s"
proof (induction s arbitrary: t rule: measure_induct_rule [where f = length])
  case (less s)
  have shorter: "length r < length s" if "length u < length s" "scan_string u = Some (t', r)" for u t'
    using less.IH [OF that] that(1) by simp
  show ?case
  proof (cases s)
    case Nil
    then show ?thesis using less.prems by (simp add: scan_string_cases)
  next
    case (Cons c z)
    consider (close) "z = r" | (unicode) r' u r'' t' where "z = CHR ''u'' # r'" "four_hex r' = Some (u, r'')" "scan_string r'' = Some (t', r)"
      | (escape) e r' t' where "z = e # r'" "scan_string r' = Some (t', r)" | (plain) t' where "scan_string z = Some (t', r)"
      using less.prems unfolding Cons scan_string_cases by (auto split: if_splits list.splits option.splits)
    then show ?thesis
    proof cases
      case unicode
      then show ?thesis using shorter [of r''] four_hex_shorter [of r'] Cons by simp
    next
      case escape
      then show ?thesis using shorter [of r'] Cons by simp
    next
      case plain
      then show ?thesis using shorter [of z] Cons by simp
    qed (use Cons in simp)
  qed
qed

lemma strip_prefix_shorter: "strip_prefix p s = Some r \<Longrightarrow> p \<noteq> [] \<Longrightarrow> length r < length s"
  by (auto simp: strip_prefix_def split: if_splits) (cases s; cases p; simp)

lemma literal_shorter: "first_literal json_literals s = Some (v, r) \<Longrightarrow> length r < length s"
  by (auto simp: json_literals_def split: option.splits dest!: strip_prefix_shorter)

lemma after_digits_length: "length (after_digits s) \<le> length s"
  by (rule length_dropWhile_le)

lemma scan_int_shorter: "scan_int s = Some (i, r) \<Longrightarrow> length r < length s"
  using after_digits_length
  by (auto simp: scan_int_def Let_def less_Suc_eq_le le_SucI split: list.splits if_splits)

lemma scan_parts_length: "length (snd (scan_fraction s)) \<le> length s" "length (snd (scan_exponent s)) \<le> length s"
  by (auto simp: scan_fraction_def scan_exponent_def Let_def split: list.split intro: le_SucI length_dropWhile_le)

lemma scan_number_shorter:
  assumes "scan_number s = Some (v, r)"
  shows "length r < length s"
proof -
  obtain i r1 f r2 e where "scan_int s = Some (i, r1)" "scan_fraction r1 = (f, r2)" "scan_exponent r2 = (e, r)"
    using assms by (auto simp: scan_number_def split: option.splits prod.splits if_splits)
  with scan_int_shorter [of s i r1] scan_parts_length(1) [of r1] scan_parts_length(2) [of r2] show ?thesis by simp
qed

text \<open>A parse that succeeds with any fuel succeeds with as much as the characters it consumes.\<close>

definition settled :: "(nat \<Rightarrow> string \<Rightarrow> ('a \<times> string) option) \<Rightarrow> nat \<Rightarrow> string \<Rightarrow> bool" where
  "settled f m s \<longleftrightarrow> (\<forall>v r. f m s = Some (v, r) \<longrightarrow> length r < length s \<and> (\<forall>n. length s \<le> length r + n \<longrightarrow> f n s = Some (v, r)))"

lemma settledD: "settled f m s \<Longrightarrow> f m s = Some (v, r) \<Longrightarrow>
    length r < length s \<and> (\<forall>n. length s \<le> length r + n \<longrightarrow> f n s = Some (v, r))"
  unfolding settled_def by blast

lemma settledI:
  assumes "\<And>v r. f (Suc m) s = Some (v, r) \<Longrightarrow> length r < length s \<and>
    (\<forall>n. length s \<le> length r + Suc n \<longrightarrow> f (Suc n) s = Some (v, r))"
  shows "settled f (Suc m) s"
  unfolding settled_def
proof (intro allI impI conjI)
  fix v r assume f: "f (Suc m) s = Some (v, r)"
  then show "length r < length s" using assms by blast
  fix n assume n: "length s \<le> length r + n"
  with \<open>length r < length s\<close> obtain k where "n = Suc k" by (cases n) simp_all
  with assms [OF f] n show "f n s = Some (v, r)" by blast
qed

lemma settled_value:
  assumes "\<And>s. settled parse_elements m s" and "\<And>s. settled parse_members m s"
  shows "settled parse_value (Suc m) s"
proof (rule settledI)
  fix v r assume p: "parse_value (Suc m) s = Some (v, r)"
  then obtain c z where s: "s = c # z" by (cases s) (simp_all add: parse_value.simps(2))
  have z: "length (skip_space z) \<le> length z" by (rule skip_space_length)
  consider (quoted) "c = CHR 0x22" | (object) "c = CHR ''{''" | (array) "c = CHR ''[''"
    | (other) "c \<noteq> CHR 0x22" "c \<noteq> CHR ''{''" "c \<noteq> CHR ''[''" by blast
  then show "length r < length s \<and> (\<forall>n. length s \<le> length r + Suc n \<longrightarrow> parse_value (Suc n) s = Some (v, r))"
  proof cases
    case quoted
    then show ?thesis using p scan_string_shorter [of z] by (fastforce simp: s parse_value.simps(2))
  next
    case object
    show ?thesis
    proof (cases "\<exists>r'. skip_space z = CHR ''}'' # r'")
      case True
      then show ?thesis using p z object by (auto simp: s parse_value.simps(2))
    next
      case False
      then obtain d r' ms where d: "skip_space z = d # r'" "d \<noteq> CHR ''}''" and ms: "parse_members m (d # r') = Some (ms, r)"
        and v: "v = JObj (foldl (\<lambda>d (k, v). AList.update k v d) [] ms)"
        using p object by (auto simp: s parse_value.simps(2) split: list.splits if_splits)
      from settledD [OF assms(2) ms] z d(1) v show ?thesis using object d by (auto simp: s parse_value.simps(2))
    qed
  next
    case array
    show ?thesis
    proof (cases "\<exists>r'. skip_space z = CHR '']'' # r'")
      case True
      then show ?thesis using p z array by (auto simp: s parse_value.simps(2))
    next
      case False
      then obtain d r' vs where d: "skip_space z = d # r'" "d \<noteq> CHR '']''" and vs: "parse_elements m (d # r') = Some (vs, r)"
        and v: "v = JList vs"
        using p array by (auto simp: s parse_value.simps(2) split: list.splits if_splits)
      from settledD [OF assms(1) vs] z d(1) v show ?thesis using array d by (auto simp: s parse_value.simps(2))
    qed
  next
    case other
    then show ?thesis using p literal_shorter [of s v r] scan_number_shorter [of s v r]
      by (auto simp: s parse_value.simps(2) split: option.splits)
  qed
qed

lemma settled_elements:
  assumes "\<And>s. settled parse_value m s" and "\<And>s. settled parse_elements m s"
  shows "settled parse_elements (Suc m) s"
proof (rule settledI)
  fix vs r assume p: "parse_elements (Suc m) s = Some (vs, r)"
  then obtain v r1 d r2 where v: "parse_value m s = Some (v, r1)" and d: "skip_space r1 = d # r2"
    and rest: "(if d = CHR '']'' then Some ([v], r2)
      else if d = CHR '','' then map_option (\<lambda>(vs, z). (v # vs, z)) (parse_elements m (skip_space r2)) else None) = Some (vs, r)"
    by (auto simp: parse_elements.simps(2) split: option.splits list.splits)
  note v1 = settledD [OF assms(1) v]
  have l: "Suc (length r2) \<le> length r1" "length (skip_space r2) \<le> length r2"
    using skip_space_length [of r1] skip_space_length [of r2] d by simp_all
  show "length r < length s \<and> (\<forall>n. length s \<le> length r + Suc n \<longrightarrow> parse_elements (Suc n) s = Some (vs, r))"
  proof (cases "d = CHR '']''")
    case True
    then show ?thesis using rest v1 l d by (auto simp: parse_elements.simps(2))
  next
    case False
    then obtain vs' where e: "d = CHR '',''" "vs = v # vs'" "parse_elements m (skip_space r2) = Some (vs', r)"
      using rest by (auto split: if_splits)
    from settledD [OF assms(2) e(3)] show ?thesis using v1 l d e(1,2) by (auto simp: parse_elements.simps(2))
  qed
qed

lemma settled_members:
  assumes "\<And>s. settled parse_value m s" and "\<And>s. settled parse_members m s"
  shows "settled parse_members (Suc m) s"
proof (rule settledI)
  fix ms r assume p: "parse_members (Suc m) s = Some (ms, r)"
  then obtain z k r1 r2 where s: "s = CHR 0x22 # z" and k: "scan_string z = Some (k, r1)" and c: "skip_space r1 = CHR '':'' # r2"
    by (auto simp: parse_members.simps(2) split: option.splits list.splits if_splits)
  with p obtain v r3 d r4 where v: "parse_value m (skip_space r2) = Some (v, r3)" and d: "skip_space r3 = d # r4"
    and rest: "(if d = CHR ''}'' then Some ([(k, v)], r4)
      else if d = CHR '','' then map_option (\<lambda>(ms, z). ((k, v) # ms, z)) (parse_members m (skip_space r4)) else None) = Some (ms, r)"
    by (auto simp: parse_members.simps(2) split: option.splits list.splits)
  note v1 = settledD [OF assms(1) v]
  have l: "length r1 < length z" "Suc (length r2) \<le> length r1" "length (skip_space r2) \<le> length r2"
      "Suc (length r4) \<le> length r3" "length (skip_space r4) \<le> length r4"
    using scan_string_shorter [OF k] skip_space_length [of r1] skip_space_length [of r2] skip_space_length [of r3]
      skip_space_length [of r4] c d by simp_all
  show "length r < length s \<and> (\<forall>n. length s \<le> length r + Suc n \<longrightarrow> parse_members (Suc n) s = Some (ms, r))"
  proof (cases "d = CHR ''}''")
    case True
    then show ?thesis using rest v1 l k c d by (auto simp: s parse_members.simps(2))
  next
    case False
    then obtain ms' where e: "d = CHR '',''" "ms = (k, v) # ms'" "parse_members m (skip_space r4) = Some (ms', r)"
      using rest by (auto split: if_splits)
    from settledD [OF assms(2) e(3)] show ?thesis using v1 l k c d e(1,2) by (auto simp: s parse_members.simps(2))
  qed
qed

lemma settled_all: "settled parse_value m s \<and> settled parse_elements m s \<and> settled parse_members m s"
proof (induction m arbitrary: s)
  case 0
  show ?case by (simp add: settled_def)
next
  case (Suc m)
  then show ?case by (intro conjI settled_value settled_elements settled_members) blast+
qed

text \<open>The fuel that \<open>json_loads\<close> gives, the length of the text and one, is enough for every text.\<close>

lemma fuel_is_enough:
  assumes "parse_value m (skip_space s) = Some (v, r)"
  shows "parse_value (Suc (length s)) (skip_space s) = Some (v, r)"
proof -
  have "length (skip_space s) \<le> length r + n \<longrightarrow> parse_value n (skip_space s) = Some (v, r)" for n
    using settledD [OF conjunct1 [OF settled_all] assms] by blast
  then show ?thesis using skip_space_length [of s] le_SucI trans_le_add2 by blast
qed

end
