(* ===== verification/Plan_Text.thy ===== *)
theory Plan_Text
  imports Planner_Service Mock_Agent Py_Json
begin

text \<open>
  The parser of plan texts of \<open>planner_state.py\<close>: a JSON object is a schema, any other text is read
  line by line, with optional sections and with numbered or bulleted items. The plan texts that
  \<open>tools/mock_agent.py\<close> builds are read back.
\<close>

section \<open>Lines\<close>

text \<open>\<open>str.splitlines\<close> on code points up to 255.\<close>

definition line_break :: "char \<Rightarrow> bool" where
  "line_break c \<longleftrightarrow> of_char c \<in> {10, 11, 12, 13, 28, 29, 30, 133 :: nat}"

definition drop_break :: "string \<Rightarrow> string" where
  "drop_break s = (case s of
     [] \<Rightarrow> []
   | c # r \<Rightarrow> if c = CHR 0x0D then (case r of d # t \<Rightarrow> if d = CHR 0x0A then t else r | [] \<Rightarrow> []) else r)"

lemma drop_break_length: "length (drop_break s) \<le> length s - 1"
  by (auto simp: drop_break_def split: list.splits)

abbreviation in_line :: "char \<Rightarrow> bool" where
  "in_line c \<equiv> \<not> line_break c"

function splitlines :: "string \<Rightarrow> string list" where
  "splitlines s = (if s = [] then []
     else takeWhile in_line s # splitlines (drop_break (dropWhile in_line s)))"
  by pat_completeness auto
termination
proof (relation "measure length", simp)
  fix s :: string
  assume "s \<noteq> []"
  then show "(drop_break (dropWhile in_line s), s) \<in> measure length"
    using drop_break_length [of "dropWhile in_line s"] length_dropWhile_le [of in_line s] by (cases s) auto
qed

declare splitlines.simps [simp del]

section \<open>Sections and items\<close>

datatype plan_section = Goal | Steps | Constraints | Verification

record plan_sections =
  sec_goal :: string
  sec_steps :: "string list"
  sec_constraints :: "string list"
  sec_verification :: "string list"
  sec_current :: plan_section

definition starts_with :: "string \<Rightarrow> string \<Rightarrow> bool" where
  "starts_with p s \<longleftrightarrow> take (length p) s = p"

text \<open>\<open>[0-9]+[.)]\<close> and at least one space: what follows them.\<close>

definition after_number :: "string \<Rightarrow> string option" where
  "after_number s = (case after_digits s of
     c # d # r \<Rightarrow> if digits_of s \<noteq> [] \<and> (c = CHR ''.'' \<or> c = CHR '')'') \<and> is_space d then Some (lstrip r) else None
   | _ \<Rightarrow> None)"

definition bulleted :: "string \<Rightarrow> bool" where
  "bulleted s \<longleftrightarrow> starts_with ''- '' s \<or> starts_with ''* '' s"

text \<open>The text of a numbered or bulleted line.\<close>

definition item_text :: "string \<Rightarrow> string option" where
  "item_text s = (if after_number s \<noteq> None \<or> bulleted s
     then (let t = (case after_number s of Some r \<Rightarrow> r | None \<Rightarrow> s) in
       Some (strip (if bulleted t then drop 2 t else t)))
     else None)"

definition add_to_section :: "string \<Rightarrow> plan_sections \<Rightarrow> plan_sections" where
  "add_to_section t P = (case sec_current P of
     Constraints \<Rightarrow> P\<lparr>sec_constraints := sec_constraints P @ [t]\<rparr>
   | Verification \<Rightarrow> P\<lparr>sec_verification := sec_verification P @ [t]\<rparr>
   | _ \<Rightarrow> P\<lparr>sec_steps := sec_steps P @ [t]\<rparr>)"

text \<open>One round of the loop, for a line that is not blank.\<close>

definition read_line :: "plan_sections \<Rightarrow> string \<Rightarrow> plan_sections" where
  "read_line P line = (let text0 = strip line; low = lower text0 in
     if starts_with ''goal:'' low then P\<lparr>sec_goal := strip (tl (dropWhile (\<lambda>c. c \<noteq> CHR '':'') text0)), sec_current := Goal\<rparr>
     else if starts_with ''steps:'' low then P\<lparr>sec_current := Steps\<rparr>
     else if starts_with ''constraints:'' low then P\<lparr>sec_current := Constraints\<rparr>
     else if starts_with ''verification:'' low then P\<lparr>sec_current := Verification\<rparr>
     else (case item_text text0 of
         Some t \<Rightarrow> if t = [] then P else add_to_section t P
       | None \<Rightarrow> if sec_current P = Goal \<and> sec_goal P = [] then P\<lparr>sec_goal := text0\<rparr> else add_to_section text0 P))"

definition title_step :: "string \<Rightarrow> json" where
  "title_step t = JObj [(''title'', JStr t)]"

definition plan_lines :: "string \<Rightarrow> string list" where
  "plan_lines plan_source_text = map rstrip (filter (\<lambda>l. strip l \<noteq> []) (splitlines plan_source_text))"

definition parse_plan_source_to_schema :: "text_forms \<Rightarrow> string \<Rightarrow> dict res" where
  "parse_plan_source_to_schema T plan_source_text = (case json_loads plan_source_text of
     Some (JObj parsed) \<Rightarrow> normalize_plan_schema T parsed None
   | _ \<Rightarrow>
       let lines0 = plan_lines plan_source_text in
       if lines0 = [] then normalize_plan_schema T [(''steps'', JList [title_step ''Execute task''])] None
       else (let P = foldl read_line \<lparr>sec_goal = [], sec_steps = [], sec_constraints = [], sec_verification = [],
             sec_current = Steps\<rparr> lines0 in
         normalize_plan_schema T [(''goal'', JStr (sec_goal P)), (''steps'', JList (map title_step (sec_steps P))),
           (''constraints'', str_list (sec_constraints P)), (''verification'', str_list (sec_verification P)),
           (''source_format'', JStr ''text'')] None))"

definition create_plan_from_text :: "runtime \<Rightarrow> string \<Rightarrow> string \<Rightarrow> ('t, planner_state) op" where
  "create_plan_from_text R run_id plan_source_text =
     bind (lift (parse_plan_source_to_schema (forms R) plan_source_text)) (\<lambda>plan_schema.
     create_plan R run_id plan_source_text
       (case dict_get plan_schema ''steps'' of JList steps \<Rightarrow> steps | _ \<Rightarrow> []) (Some plan_schema))"

section \<open>Numbered lines\<close>

lemma digit_char_digit: "n < 10 \<Longrightarrow> is_digit (digit_char n)"
  by (simp add: is_digit_def digit_value_def digit_char_def)

lemma nat_str_digits: "nat_str n \<noteq> [] \<and> list_all is_digit (nat_str n)"
proof (induction n rule: nat_str.induct)
  case (1 n)
  then show ?case by (subst (1 2) nat_str.simps) (auto simp: digit_char_digit)
qed

lemma digit_range: "is_digit c \<longleftrightarrow> of_char c \<in> {48..57 :: nat}"
  by (auto simp: is_digit_def digit_value_def Let_def)

lemma digit_plain: "is_digit c \<Longrightarrow> \<not> is_space c \<and> \<not> line_break c \<and> \<not> json_space c \<and> lower_char c = c"
  by (auto simp: digit_range is_space_def line_break_def json_space_def lower_char_def Let_def)

lemma nat_str_plain: "c \<in> set (nat_str n) \<Longrightarrow> is_digit c"
  using nat_str_digits [of n] by (simp add: list_all_iff)

lemma hd_nat_str: "is_digit (hd (nat_str n @ s))"
  using nat_str_digits [of n] by (cases "nat_str n") simp_all

lemma takeWhile_nat_str: "digits_of (nat_str n @ CHR ''.'' # s) = nat_str n" "after_digits (nat_str n @ CHR ''.'' # s) = CHR ''.'' # s"
proof -
  have "\<not> is_digit CHR ''.''" by (simp add: digit_range)
  then show "digits_of (nat_str n @ CHR ''.'' # s) = nat_str n" "after_digits (nat_str n @ CHR ''.'' # s) = CHR ''.'' # s"
    using nat_str_plain [of _ n] by simp_all
qed

text \<open>A title that survives: not blank, stripped, on one line, and without a bullet of its own.\<close>

definition plain_title :: "string \<Rightarrow> bool" where
  "plain_title t \<longleftrightarrow> canonical t \<and> list_all in_line t \<and> \<not> bulleted t"

lemma rstrip_fixed: "s \<noteq> [] \<Longrightarrow> \<not> is_space (last s) \<Longrightarrow> rstrip s = s"
  by (cases s rule: rev_cases) (simp_all add: rstrip_def)

lemma rstrip_last: "rstrip s \<noteq> [] \<Longrightarrow> \<not> is_space (last (rstrip s))"
  by (simp add: rstrip_def last_rev hd_dropWhile)

lemma canonical_ends: "canonical t \<longleftrightarrow> t \<noteq> [] \<and> \<not> is_space (hd t) \<and> \<not> is_space (last t)"
proof
  assume c: "canonical t"
  then have t: "t \<noteq> []" "rstrip (lstrip t) = t" by (simp_all add: canonical_def strip_def)
  then have "lstrip t \<noteq> []" by (auto simp: rstrip_def)
  with t show "t \<noteq> [] \<and> \<not> is_space (hd t) \<and> \<not> is_space (last t)"
    using rstrip_hd [of "lstrip t"] lstrip_hd [of t] rstrip_last [of "lstrip t"] by simp
next
  assume t: "t \<noteq> [] \<and> \<not> is_space (hd t) \<and> \<not> is_space (last t)"
  then show "canonical t" by (simp add: canonical_def strip_def lstrip_fixed [THEN iffD2] rstrip_fixed)
qed

definition numbered :: "nat \<Rightarrow> string \<Rightarrow> string" where
  "numbered n t = nat_str n @ ''. '' @ t"

lemma numbered_canonical: "canonical t \<Longrightarrow> canonical (numbered n t)"
  using nat_str_digits [of n] digit_plain [OF hd_nat_str [of n "''. '' @ t"]]
  by (simp add: canonical_ends numbered_def)

lemma item_text_numbered:
  assumes "plain_title t"
  shows "item_text (numbered n t) = Some t"
proof -
  have c: "canonical t" "\<not> bulleted t" using assms by (simp_all add: plain_title_def)
  have "lstrip t = t" using c(1) by (simp add: lstrip_fixed canonical_ends)
  then have "after_number (numbered n t) = Some t"
    using nat_str_digits [of n] by (simp add: after_number_def numbered_def takeWhile_nat_str is_space_def)
  then show ?thesis using c canonical_strip by (simp add: item_text_def)
qed

lemma numbered_no_section: "is_digit d \<Longrightarrow> \<not> starts_with (c # cs) (lower (d # s)) \<or> is_digit c"
  using digit_plain [of d] by (auto simp: starts_with_def)

lemma read_numbered:
  assumes "plain_title t" and "sec_current P = Steps"
  shows "read_line P (numbered n t) = P\<lparr>sec_steps := sec_steps P @ [t]\<rparr>"
proof -
  have can: "canonical t" using assms(1) by (simp add: plain_title_def)
  obtain d r where d: "numbered n t = d # r" "is_digit d"
    using hd_nat_str [of n "''. '' @ t"] nat_str_digits [of n] by (cases "nat_str n") (auto simp: numbered_def)
  have "\<not> starts_with (c # cs) (lower (numbered n t))" if "\<not> is_digit c" for c cs
    unfolding d(1) using numbered_no_section [OF d(2)] that by blast
  moreover have "\<not> is_digit CHR ''g''" "\<not> is_digit CHR ''s''" "\<not> is_digit CHR ''c''" "\<not> is_digit CHR ''v''"
    by (simp_all add: digit_range)
  moreover have "t \<noteq> []" using can by (simp add: canonical_def)
  ultimately show ?thesis
    using canonical_strip [OF numbered_canonical [OF can, of n]] item_text_numbered [OF assms(1), of n] assms(2)
    by (simp add: read_line_def Let_def add_to_section_def)
qed

lemma read_all_numbered:
  "list_all plain_title ts \<Longrightarrow> sec_current P = Steps \<Longrightarrow>
    foldl read_line P (map (\<lambda>(n, t). numbered n t) (List.enumerate k ts)) = P\<lparr>sec_steps := sec_steps P @ ts\<rparr>"
  by (induction ts arbitrary: P k) (simp_all add: read_numbered)

section \<open>The text of a numbered plan\<close>

lemma splitlines_join:
  assumes "list_all (\<lambda>l. l \<noteq> [] \<and> list_all in_line l) ls"
  shows "splitlines (join newline ls) = ls"
  using assms
proof (induction newline ls rule: join.induct)
  case 1
  then show ?case by (simp add: splitlines.simps)
next
  case (2 s)
  then have line: "takeWhile in_line s = s" and rest: "dropWhile in_line s = []" by (simp_all add: list_all_iff)
  show ?case using 2 unfolding join.simps
    by (subst splitlines.simps) (simp only: line rest, simp add: drop_break_def splitlines.simps)
next
  case (3 s t ss)
  have "\<not> in_line CHR 0x0A" by (simp add: line_break_def)
  then have "takeWhile in_line (join newline (s # t # ss)) = s"
      "dropWhile in_line (join newline (s # t # ss)) = CHR 0x0A # join newline (t # ss)"
    using 3(2) by (simp_all add: list_all_iff)
  moreover have "join newline (s # t # ss) \<noteq> []" by simp
  ultimately show ?case using 3 by (subst splitlines.simps) (simp add: drop_break_def)
qed

lemma json_of_digit:
  assumes "is_digit c"
  shows "json_loads (c # s) \<noteq> Some (JObj d)"
proof
  assume "json_loads (c # s) = Some (JObj d)"
  then obtain r where p: "parse_value (Suc (length (c # s))) (c # s) = Some (JObj d, r)"
    using digit_plain [OF assms] by (auto simp: json_loads_def split: option.splits if_splits)
  have "c \<noteq> CHR 0x22 \<and> c \<noteq> CHR ''{'' \<and> c \<noteq> CHR ''['' \<and> c \<noteq> CHR ''n'' \<and> c \<noteq> CHR ''t'' \<and> c \<noteq> CHR ''f'' \<and> c \<noteq> CHR ''N'' \<and>
      c \<noteq> CHR ''I'' \<and> c \<noteq> CHR ''-''"
    using assms by (auto simp: digit_range)
  with p show False
    by (auto simp: parse_value.simps(2) json_literals_def strip_prefix_def scan_number_def split: option.splits prod.splits if_splits)
qed

definition numbered_plan :: "string list \<Rightarrow> string" where
  "numbered_plan ts = join newline (map (\<lambda>(n, t). numbered n t) (List.enumerate 1 ts))"

lemma numbered_lines:
  assumes "list_all plain_title ts"
  shows "list_all (\<lambda>l. l \<noteq> [] \<and> canonical l \<and> list_all in_line l) (map (\<lambda>(n, t). numbered n t) (List.enumerate k ts))"
  using assms
proof (induction ts arbitrary: k)
  case (Cons t ts)
  have "list_all in_line (numbered k t)"
    using Cons.prems nat_str_plain [of _ k] digit_plain by (auto simp: numbered_def list_all_iff plain_title_def line_break_def)
  moreover have "canonical (numbered k t)" using Cons.prems numbered_canonical by (simp add: plain_title_def)
  ultimately show ?case using Cons by (simp add: canonical_def)
qed simp

lemma plan_lines_numbered:
  assumes "list_all plain_title ts"
  shows "plan_lines (numbered_plan ts) = map (\<lambda>(n, t). numbered n t) (List.enumerate 1 ts)"
proof -
  let ?ls = "map (\<lambda>(n, t). numbered n t) (List.enumerate 1 ts)"
  note ls = numbered_lines [OF assms, of 1]
  have "splitlines (numbered_plan ts) = ?ls"
    unfolding numbered_plan_def using ls by (intro splitlines_join) (auto simp: list_all_iff)
  moreover have "filter (\<lambda>l. strip l \<noteq> []) ?ls = ?ls"
    using ls by (intro filter_True) (auto simp: list_all_iff canonical_def)
  moreover have "map rstrip ?ls = ?ls"
    using ls by (intro map_idI) (auto simp: list_all_iff canonical_ends rstrip_fixed)
  ultimately show ?thesis by (simp only: plan_lines_def)
qed

text \<open>The normal form of a step that has only a title.\<close>

definition plain_step :: "nat \<times> string \<Rightarrow> json" where
  "plain_step p = (case p of (k, t) \<Rightarrow> JObj [(''plan_item_id'', JStr (''step_'' @ nat_str k)), (''title'', JStr t),
     (''description'', JStr []), (''depends_on'', JList []), (''acceptance_criteria'', JList []), (''sequence_index'', JInt (int k))])"

lemma step_id_strip: "strip (''step_'' @ nat_str k) = ''step_'' @ nat_str k"
  by (rule strip_no_space) (use nat_str_plain [of _ k] digit_plain in \<open>auto simp: is_space_def\<close>)

lemma normalize_title_step:
  "canonical t \<Longrightarrow> normalize_step T (k, title_step t) = Inr (plain_step (k, t))"
  using step_id_strip [of k]
  by (simp add: normalize_step_def title_step_def Let_def canonical_def normalize_str_list_def plain_step_def)

lemma normalize_title_steps:
  "list_all canonical ts \<Longrightarrow> rmap (normalize_step T) (List.enumerate k (map title_step ts)) = Inr (map plain_step (List.enumerate k ts))"
  by (induction ts arbitrary: k) (simp_all add: normalize_title_step)

lemma numbered_plan_parses:
  assumes "list_all plain_title ts" and "ts \<noteq> []"
  shows "\<exists>schema. parse_plan_source_to_schema T (numbered_plan ts) = Inr schema \<and>
    dict_get schema ''steps'' = JList (map plain_step (List.enumerate 0 ts)) \<and> dict_get schema ''goal'' = JStr [] \<and>
    dict_get schema ''source_format'' = JStr ''text''"
proof -
  obtain t ts' where ts: "ts = t # ts'" using assms(2) by (cases ts) simp_all
  obtain c r where c: "numbered_plan ts = c # r" "is_digit c"
  proof -
    have "\<exists>u. numbered_plan ts = nat_str 1 @ u"
      by (cases ts') (simp_all add: ts numbered_plan_def numbered_def)
    then obtain u where u: "numbered_plan ts = nat_str 1 @ u" by blast
    then show thesis using that hd_nat_str [of 1 u] nat_str_digits [of 1] by (cases "nat_str 1") auto
  qed
  define P where "P = \<lparr>sec_goal = [], sec_steps = [], sec_constraints = [], sec_verification = [], sec_current = Steps\<rparr>"
  have "foldl read_line P (plan_lines (numbered_plan ts)) = P\<lparr>sec_steps := ts\<rparr>"
    using read_all_numbered [OF assms(1), of P 1] by (simp add: plan_lines_numbered [OF assms(1)] P_def)
  moreover have "plan_lines (numbered_plan ts) \<noteq> []" unfolding plan_lines_numbered [OF assms(1)] by (simp add: ts)
  moreover have "list_all canonical ts" using assms(1) by (auto simp: list_all_iff plain_title_def)
  moreover have "strip ''text'' = ''text''" "strip [] = []" by code_simp+
  ultimately show ?thesis
    using json_of_digit [OF c(2), of r] normalize_title_steps [of ts T 0]
    by (auto simp: parse_plan_source_to_schema_def c(1) Let_def P_def normalize_plan_schema_def normalize_str_list_def
        split: option.splits json.splits)
qed

text \<open>The plan text that the mock agent writes for a history, one numbered line per step, is read back by
  the planner as a plan with the same titles in the same order, for titles that are stripped, on
  one line and without a bullet of their own.\<close>

theorem history_plan_text_is_read_back:
  assumes "build_plan_items_from_history_payload T payload = Inr items" and "items \<noteq> []"
    and "list_all plain_title (map (\<lambda>it. py_str T (dict_get it ''title'')) items)"
  shows "\<exists>text0 schema. build_plan_source_text_from_history_payload T payload = Inr text0 \<and>
    parse_plan_source_to_schema T text0 = Inr schema \<and>
    dict_get schema ''steps'' = JList (map plain_step (List.enumerate 0 (map (\<lambda>it. py_str T (dict_get it ''title'')) items)))"
proof -
  have "map (numbered_line T) (List.enumerate k items) =
      map (\<lambda>(n, t). numbered n t) (List.enumerate k (map (\<lambda>it. py_str T (dict_get it ''title'')) items))" for k
    by (induction items arbitrary: k) (simp_all add: numbered_line_def numbered_def)
  then have "build_plan_source_text_from_history_payload T payload =
      Inr (numbered_plan (map (\<lambda>it. py_str T (dict_get it ''title'')) items))"
    by (simp add: build_plan_source_text_from_history_payload_def assms(1) numbered_plan_def)
  with numbered_plan_parses [OF assms(3)] assms(2) show ?thesis by (metis map_is_Nil_conv)
qed

end
