(* ===== verification/Aids_Demo.thy ===== *)
theory Aids_Demo
  imports Target_Demo Evaluation Handoff Plan_Text
begin

text \<open>
  The properties of the spans, the monitor, the check before a retry and the plan texts, applied to
  concrete inputs.
\<close>

section \<open>Spans\<close>

definition demo_step :: "(nat beside, span_handle) op" where
  "demo_step = start_step demo_runtime ''r1'' 0 None None"

lemma demo_step_starts: "\<not> isl (fst (demo_step demo_empty))"
  by code_simp

definition demo_killed :: "span_handle \<Rightarrow> (nat beside, unit) op" where
  "demo_killed h = raise (Exn ProcessKilled [])"

lemma killed_step_is_reported_interrupted_witness:
  "\<exists>report w. time_step demo_runtime ''r1'' 0 None None demo_killed demo_empty = (Inl (Exn ProcessKilled []), w) \<and>
     build_evaluation_report ''r1'' True w = (Inr report, w) \<and>
     (\<exists>st\<in>set (er_steps report). \<exists>(a, phases)\<in>set (sr_attempts st). rp_status a = ''interrupted'')"
proof -
  obtain h w where s: "start_step demo_runtime ''r1'' 0 None None demo_empty = (Inr h, w)"
    using demo_step_starts returned unfolding demo_step_def by metis
  from killed_step_is_reported_interrupted [OF s, of demo_killed "Exn ProcessKilled []" w "[]"]
  show ?thesis by (fastforce simp: demo_killed_def)
qed

definition demo_finish :: "(nat beside, eval_span) op" where
  "demo_finish = bind demo_step (\<lambda>h. finish_span demo_runtime (hd_span_id h) ''succeeded'' None None)"

lemma demo_finishes: "\<not> isl (fst (demo_finish demo_empty))"
  by code_simp

lemma finishing_again_changes_nothing_witness:
  "\<exists>h s w w'. demo_step demo_empty = (Inr h, w) \<and>
     finish_evaluation_span demo_runtime (hd_span_id h) ''succeeded'' None None w = (Inr s, w') \<and>
     finish_evaluation_span demo_runtime (hd_span_id h) ''failed'' (Some ''late'') None w' = (Inr s, w')"
proof -
  obtain s w' where "demo_finish demo_empty = (Inr s, w')" using demo_finishes returned by metis
  then obtain h w where h: "demo_step demo_empty = (Inr h, w)"
    and f: "finish_evaluation_span demo_runtime (hd_span_id h) ''succeeded'' None None w = (Inr s, w')"
    by (auto simp: demo_finish_def finish_span_def elim: bind_InrE)
  have "\<not> conn_open (snd (demo_step demo_empty))" by code_simp
  then have "\<not> conn_open w" by (simp add: h)
  from finishing_again_changes_nothing [OF f this, of "''failed''" "Some ''late''" None] h f show ?thesis
    by (auto simp: span_final_status_def)
qed

definition demo_span :: "string \<Rightarrow> string \<Rightarrow> string option \<Rightarrow> eval_span" where
  "demo_span i phase parent = \<lparr>span_id = i, span_run_id = ''r1'', span_step_index = Some 0, span_plan_item_id = None,
     span_attempt_no = 1, span_phase = phase, span_parent_span_id = parent, span_status = ''running'', span_started_at = 0,
     span_finished_at = None, span_duration_ms = None, span_metadata = [], span_error_message = None, span_created_at = 0, span_updated_at = 0\<rparr>"

definition demo_spans :: "eval_span list" where
  "demo_spans = [demo_span ''a'' ''step_total'' None, demo_span ''b'' ''llm'' (Some ''a''), demo_span ''c'' ''llm'' None,
     demo_span ''d'' ''llm'' (Some ''b'')]"

text \<open>The phase \<open>d\<close> inside the phase \<open>b\<close> is counted and not shown.\<close>

lemma report_shows_each_span_once_witness:
  "mset (reported_ids (report_of_spans True ''r1'' demo_spans)) = mset [''a'', ''b'', ''c''] \<and>
   er_span_count (report_of_spans True ''r1'' demo_spans) = 4"
proof -
  have "distinct (map span_id demo_spans)" by (simp add: demo_spans_def demo_span_def)
  from report_shows_each_span_once [OF this, of True "''r1''"] show ?thesis
    by (simp add: demo_spans_def demo_span_def unattached_def parent_of_def)
qed

section \<open>The monitor\<close>

text \<open>A process that stays dead, and a clock that the sleeping moves on.\<close>

definition demo_env :: "rat pulse_env" where
  "demo_env = \<lparr>is_alive = ret False, handle_recovery = ret (), time_fn = gets (\<lambda>t. t), sleep_fn = (\<lambda>d. modify ((+) d))\<rparr>"

definition demo_watch :: "(unit res \<times> ((rat \<times> rat list \<times> rat) \<times> pulse_monitor)) option" where
  "demo_watch = pulse_run (traced demo_env) (Some 6) ((0, [], 0), pulse_monitor_init 1 2)"

lemma demo_watch_calls: "case demo_watch of None \<Rightarrow> False | Some (r, ((t, calls, now), M)) \<Rightarrow> r = Inr () \<and> calls = [0, 2, 4]"
  by code_simp

theorem recoveries_are_rate_limited_witness:
  "case demo_watch of None \<Rightarrow> False
   | Some (r, ((t, calls, now), M)) \<Rightarrow> calls = [0, 2, 4] \<and> successively (\<lambda>earlier later. 2 \<le> later - earlier) calls"
proof -
  obtain r t calls now M where run: "demo_watch = Some (r, ((t, calls, now), M))" "calls = [0, 2, 4]"
    using demo_watch_calls by (auto split: option.splits prod.splits)
  have "successively (\<lambda>earlier later. max 0 2 \<le> later - earlier) calls"
    using recoveries_are_rate_limited [OF run(1) [unfolded demo_watch_def]] by blast
  then show ?thesis unfolding run(1) by (simp add: run(2))
qed

section \<open>The check before a retry\<close>

lemma check_before_retry_finds_applied_request_witness:
  "\<exists>r s' answer. demo_apply ''e1'' demo_store = (Inr r, s') \<and>
     recover_with_check_api [(''execution_id'', JStr ''e1'')] None
       (\<lambda>payload. bind (handle_mcp_tool_call demo_target_restarted ''mock_target_get_action'' payload) (\<lambda>d. ret (JObj d)))
       None ''execution_id'' s' = (Inr answer, s') \<and> \<not> chk_should_retry answer"
proof -
  obtain r s' where a: "demo_apply ''e1'' demo_store = (Inr r, s')" "dict_get r ''idempotent_hit'' = JBool False"
    using demo_applied by blast
  from check_before_retry_finds_applied_request [OF a, of "[(''execution_id'', JStr ''e1'')]" demo_target_restarted] a
  show ?thesis by auto
qed

section \<open>The plan text of a history\<close>

definition demo_history :: dict where
  "demo_history = [(''steps'', JList [
     JObj [(''kind'', JStr ''tool_call''), (''name'', JStr ''pay''), (''rationale'', JStr ''pay once'')],
     JObj [(''kind'', JStr ''final''), (''answer'', JStr ''done'')]])]"

definition demo_items :: "dict list" where
  "demo_items = [[(''title'', JStr ''pay once'')], [(''title'', JStr ''done''), (''depends_on'', str_list [''step_0''])]]"

lemma demo_history_items: "build_plan_items_from_history_payload demo_forms demo_history = Inr demo_items"
  by code_simp

lemma history_plan_text_is_read_back_witness:
  "\<exists>schema. parse_plan_source_to_schema demo_forms (''1. pay once'' @ newline @ ''2. done'') = Inr schema \<and>
     dict_get schema ''steps'' = JList (map plain_step [(0, ''pay once''), (1, ''done'')])"
proof -
  have "list_all plain_title (map (\<lambda>it. py_str demo_forms (dict_get it ''title'')) demo_items)"
    by code_simp
  moreover have "build_plan_source_text_from_history_payload demo_forms demo_history = Inr (''1. pay once'' @ newline @ ''2. done'')"
    by code_simp
  ultimately show ?thesis
    using history_plan_text_is_read_back [OF demo_history_items] by (simp add: demo_items_def)
qed

end
