(* ===== verification/Cli.thy ===== *)
theory Cli
  imports Evaluation Recovery
begin

text \<open>
  \<open>cli.py\<close>: the commands that inspect and recover a store. A command gives its exit code and what it
  prints: the value for \<open>--json\<close>, or lines of text. An exception of a command ends the process with a
  traceback. The parser of the command line is the library's: a parsed command is given as such.
\<close>

section \<open>Output\<close>

text \<open>A message on the error stream is \<open>Complaint\<close>.\<close>

datatype cli_output = Json json | Lines "string list" | Complaint string

type_synonym 't command = "('t beside, int \<times> cli_output) op"

text \<open>The format specifications \<open><n\<close>, \<open>>n\<close> and \<open>.3f\<close>.\<close>

definition pad_right :: "nat \<Rightarrow> string \<Rightarrow> string" where
  "pad_right n s = s @ replicate (n - length s) CHR '' ''"

definition pad_left :: "nat \<Rightarrow> string \<Rightarrow> string" where
  "pad_left n s = replicate (n - length s) CHR '' '' @ s"

definition round_half_even :: "rat \<Rightarrow> int" where
  "round_half_even x = (let n = \<lfloor>x\<rfloor>; f = x - of_int n in
     if f < 1 / 2 then n else if 1 / 2 < f then n + 1 else if even n then n else n + 1)"

definition fixed3 :: "rat \<Rightarrow> string" where
  "fixed3 x = (let n = nat (round_half_even (\<bar>x\<bar> * 1000)); frac = nat_str (n mod 1000) in
     (if x < 0 then ''-'' else []) @ nat_str (n div 1000) @ ''.'' @ replicate (3 - length frac) CHR ''0'' @ frac)"

text \<open>\<open>if not rows\<close>: a line of its own for an empty listing.\<close>

definition listing :: "string \<Rightarrow> string list \<Rightarrow> string list" where
  "listing nothing lines0 = (if lines0 = [] then [nothing] else lines0)"

definition print_as :: "bool \<Rightarrow> json \<Rightarrow> string list \<Rightarrow> cli_output" where
  "print_as as_json v lines0 = (if as_json then Json v else Lines lines0)"

section \<open>Inspection\<close>

text \<open>The counts of \<open>plan_item_statuses\<close>, in the order of first occurrence.\<close>

definition count_statuses :: "planner_item list \<Rightarrow> (string \<times> int) list" where
  "count_statuses its = foldl (\<lambda>counts it. let s = item_status_value (pi_status it) in
     AList.update s ((case map_of counts s of Some n \<Rightarrow> n | None \<Rightarrow> 0) + 1) counts) [] its"

record run_row =
  rr_run_id :: string
  rr_latest_seq :: "int option"
  rr_pending_executions :: int
  rr_plan_item_statuses :: "(string \<times> int) list"

definition load_run_row :: "runtime \<Rightarrow> string \<Rightarrow> ('t, run_row) op" where
  "load_run_row R run_id =
     bind (repo_load_plan R run_id) (\<lambda>planner.
     bind (latest_wal_seq run_id) (\<lambda>seq.
     bind (list_pending_executions R run_id) (\<lambda>pending.
     ret \<lparr>rr_run_id = run_id, rr_latest_seq = seq, rr_pending_executions = int (length pending),
       rr_plan_item_statuses = count_statuses (case planner of Some p \<Rightarrow> ps_items p | None \<Rightarrow> [])\<rparr>)))"

definition run_row_to_dict :: "run_row \<Rightarrow> dict" where
  "run_row_to_dict r = [
     (''run_id'', JStr (rr_run_id r)), (''latest_seq'', jopt JInt (rr_latest_seq r)),
     (''pending_executions'', JInt (rr_pending_executions r)),
     (''plan_item_statuses'', JObj (map (\<lambda>(s, n). (s, JInt n)) (rr_plan_item_statuses r)))]"

definition run_row_text :: "text_forms \<Rightarrow> run_row \<Rightarrow> string" where
  "run_row_text T r = (let
     status_text = join '', '' (map (\<lambda>(k, v). k @ ''='' @ int_str v) (sort_key fst (rr_plan_item_statuses r))) in
     rr_run_id r @ ''  seq='' @ py_str T (jopt JInt (rr_latest_seq r)) @ ''  pending='' @ int_str (rr_pending_executions r) @
     ''  plan['' @ (if status_text = [] then ''-'' else status_text) @ '']'')"

definition cmd_runs :: "runtime \<Rightarrow> bool \<Rightarrow> 't command" where
  "cmd_runs R as_json =
     bind list_run_ids (\<lambda>run_ids. bind (for_each (load_run_row R) run_ids) (\<lambda>rows.
     ret (0, print_as as_json (JList (map (\<lambda>r. JObj (run_row_to_dict r)) rows))
       (listing ''no runs found'' (map (run_row_text (forms R)) rows)))))"

text \<open>The fields of a bundle: \<open>bundle["planner_state"] or {}\<close>, and its lists.\<close>

definition obj_field :: "dict \<Rightarrow> string \<Rightarrow> dict" where
  "obj_field d k = (case dict_get d k of JObj o' \<Rightarrow> o' | _ \<Rightarrow> [])"

definition list_field :: "dict \<Rightarrow> string \<Rightarrow> json list" where
  "list_field d k = (case dict_get d k of JList xs \<Rightarrow> xs | _ \<Rightarrow> [])"

definition show_lines :: "text_forms \<Rightarrow> string \<Rightarrow> dict \<Rightarrow> string list" where
  "show_lines T run_id info = (let
     planner = obj_field info ''planner_state''; ctx = obj_field info ''context'';
     pending = list_field ctx ''pending_execution_ids'' in
     [''run: '' @ run_id, ''latest_seq: '' @ py_str T (dict_get info ''latest_seq''),
      (case dict_get info ''checkpoint'' of
         JObj ck \<Rightarrow> ''checkpoint: seq='' @ py_str T (dict_get ck ''seq_id'') @ '' type='' @ py_str T (dict_get ck ''snapshot_type'')
       | _ \<Rightarrow> ''checkpoint: none''),
      ''plan (version '' @ py_str T (dict_get planner ''version'') @ ''):''] @
     map (\<lambda>raw. let item = (case raw of JObj d \<Rightarrow> d | _ \<Rightarrow> []) in
       ''  ['' @ pad_right 12 (py_str T (dict_get item ''status'')) @ ''] '' @
       pad_right 10 (py_str T (dict_get item ''plan_item_id'')) @ '' '' @ py_str T (dict_get item ''title''))
       (list_field planner ''items'') @
     [''messages: '' @ nat_str (length (list_field ctx ''messages'')),
      ''pending executions: '' @ (if pending = [] then ''none'' else py_str T (JList pending)),
      ''events after checkpoint: '' @ nat_str (length (list_field info ''events_after_checkpoint''))])"

definition cmd_show :: "runtime \<Rightarrow> bool \<Rightarrow> string \<Rightarrow> 't command" where
  "cmd_show R as_json run_id = bind (rebuild_state R run_id None 1000) (\<lambda>info.
     if dict_get info ''planner_state'' = JNull \<and> dict_get info ''context'' = JNull
       then ret (2, Complaint (''error: run not found: '' @ run_id))
     else ret (0, print_as as_json (JObj info) (show_lines (forms R) run_id info)))"

definition event_text :: "text_forms \<Rightarrow> wal_event \<Rightarrow> string" where
  "event_text T e = pad_left 6 (int_str (ev_seq_id e)) @ ''  '' @ iso_text T (ev_created_at e) @ ''  '' @
     pad_right 32 (ev_event_type e) @ '' '' @ ev_entity_id e"

definition cmd_events :: "runtime \<Rightarrow> bool \<Rightarrow> string \<Rightarrow> int option \<Rightarrow> int \<Rightarrow> 't command" where
  "cmd_events R as_json run_id after_seq limit =
     bind (read_events run_id after_seq limit) (\<lambda>events.
     ret (0, print_as as_json (JList (map (\<lambda>e. JObj (event_to_dict e)) events))
       (listing ''no events found'' (map (event_text (forms R)) events))))"

definition execution_text :: "external_result \<Rightarrow> string" where
  "execution_text r = res_execution_id r @ ''  '' @ pad_right 14 (res_tool_name r) @ '' '' @ pad_right 6 (res_operation_type r) @ '' '' @
     pad_right 8 (result_status_value (res_result_status r)) @ '' '' @
     pad_right 20 (execution_status_value (res_execution_status r)) @
     (case res_error_message r of Some m \<Rightarrow> if m = [] then [] else ''  error='' @ m | None \<Rightarrow> [])"

definition cmd_executions :: "runtime \<Rightarrow> bool \<Rightarrow> string \<Rightarrow> 't command" where
  "cmd_executions R as_json run_id =
     bind (service_list_results R run_id) (\<lambda>records.
     ret (0, print_as as_json (JList (map (\<lambda>r. JObj (result_to_dict r)) records))
       (listing ''no executions found'' (map execution_text records))))"

definition pending_text :: "runtime \<Rightarrow> string \<Rightarrow> ('t, string) op" where
  "pending_text R execution_id = bind (repo_get_result R execution_id) (\<lambda>found.
     ret (execution_id @ ''  '' @ (case found of Some r \<Rightarrow> execution_status_value (res_execution_status r) | None \<Rightarrow> ''missing_record'')))"

definition cmd_pending :: "runtime \<Rightarrow> bool \<Rightarrow> string \<Rightarrow> 't command" where
  "cmd_pending R as_json run_id =
     bind (list_pending_executions R run_id) (\<lambda>pending.
     if as_json then ret (0, Json (str_list pending)) else
     bind (for_each (pending_text R) pending) (\<lambda>lines0. ret (0, Lines (listing ''no pending executions'' lines0))))"

definition span_report_to_dict :: "span_report \<Rightarrow> dict" where
  "span_report_to_dict r = [
     (''span_id'', JStr (rp_span_id r)), (''attempt_no'', JInt (rp_attempt_no r)), (''phase'', JStr (rp_phase r)),
     (''status'', JStr (rp_status r)), (''recorded_status'', JStr (rp_recorded_status r)),
     (''started_at'', JTime (rp_started_at r)), (''finished_at'', jopt JTime (rp_finished_at r)),
     (''duration_ms'', jopt (\<lambda>d. JFloat (Fin d)) (rp_duration_ms r)), (''metadata'', JObj (rp_metadata r)),
     (''error_message'', jopt JStr (rp_error_message r))]"

definition step_report_to_dict :: "step_report \<Rightarrow> dict" where
  "step_report_to_dict st = [
     (''step_index'', jopt JInt (sr_step_index st)), (''plan_item_id'', jopt JStr (sr_plan_item_id st)),
     (''attempts'', JList (map (\<lambda>(a, phases). JObj (span_report_to_dict a @
       [(''phases'', JList (map (\<lambda>p. JObj (span_report_to_dict p)) phases))])) (sr_attempts st)))]"

definition report_to_dict :: "evaluation_report \<Rightarrow> dict" where
  "report_to_dict r = [
     (''run_id'', JStr (er_run_id r)), (''span_count'', JInt (er_span_count r)),
     (''completed_step_duration_ms'', JFloat (Fin (er_completed_step_duration_ms r))),
     (''completed_phase_duration_ms'', JObj (map (\<lambda>(p, d). (p, JFloat (Fin d))) (er_completed_phase_duration_ms r))),
     (''steps'', JList (map (\<lambda>st. JObj (step_report_to_dict st)) (er_steps r))),
     (''orphan_phases'', JList (map (\<lambda>p. JObj (span_report_to_dict p)) (er_orphan_phases r)))]"

definition attempt_text :: "int option \<Rightarrow> span_report \<Rightarrow> string" where
  "attempt_text step_index a = ''step '' @ (case step_index of Some i \<Rightarrow> int_str i | None \<Rightarrow> ''None'') @ '' attempt '' @
     int_str (rp_attempt_no a) @ '': '' @ pad_right 12 (rp_status a) @ '' '' @
     pad_left 12 (case rp_duration_ms a of Some d \<Rightarrow> fixed3 d | None \<Rightarrow> ''n/a'') @ '' ms''"

definition report_lines :: "string \<Rightarrow> evaluation_report \<Rightarrow> string list" where
  "report_lines run_id r =
     [''run: '' @ run_id, ''spans: '' @ int_str (er_span_count r),
      ''completed step duration: '' @ fixed3 (er_completed_step_duration_ms r) @ '' ms''] @
     map (\<lambda>(phase, d). ''  '' @ pad_right 24 phase @ '' '' @ pad_left 12 (fixed3 d) @ '' ms'') (er_completed_phase_duration_ms r) @
     concat (map (\<lambda>st. map (\<lambda>(a, phases). attempt_text (sr_step_index st) a) (sr_attempts st)) (er_steps r))"

definition cmd_report :: "bool \<Rightarrow> string \<Rightarrow> 't command" where
  "cmd_report as_json run_id = bind (build_evaluation_report run_id True) (\<lambda>report.
     ret (0, print_as as_json (JObj (report_to_dict report)) (report_lines run_id report)))"

section \<open>Recovery\<close>

text \<open>The coordinator of the command has no verifier and no callback.\<close>

definition cli_coordinator :: "pyfloat \<Rightarrow> 't coordinator" where
  "cli_coordinator wait_seconds = \<lparr>default_wait_seconds = wait_seconds, verifier = None, on_handoff = None\<rparr>"

definition decision_row :: "recovery_decision \<Rightarrow> json" where
  "decision_row d = JObj [
     (''execution_id'', JStr (dec_execution_id d)), (''action'', JStr (action_value (dec_action d))),
     (''reason'', JStr (dec_reason d)),
     (''execution_status'', jopt (\<lambda>s. JStr (execution_status_value s)) (dec_status d))]"

definition dry_run_decisions :: "runtime \<Rightarrow> string \<Rightarrow> pyfloat \<Rightarrow> ('t, recovery_decision list) op" where
  "dry_run_decisions R run_id wait_seconds =
     bind (utc_now R) (\<lambda>now.
     bind (service_list_results R run_id) (\<lambda>records.
     for_each (\<lambda>r. lift (decide wait_seconds run_id (res_execution_id r) r now)) records))"

text \<open>A coordinator that is made for the command has emitted no handoff yet.\<close>

definition fresh_recovery :: "runtime \<Rightarrow> string \<Rightarrow> pyfloat \<Rightarrow> ('t beside, recovery_decision list) op" where
  "fresh_recovery R run_id wait_seconds =
     bind (modify (\<lambda>w. w\<lparr>outside := (fst (outside w), [])\<rparr>)) (\<lambda>_.
     recover_run R (cli_coordinator wait_seconds) run_id None)"

definition decision_text :: "recovery_decision \<Rightarrow> string" where
  "decision_text d = dec_execution_id d @ ''  '' @ pad_right 26 (action_value (dec_action d)) @ '' '' @ dec_reason d"

definition cmd_recover :: "runtime \<Rightarrow> bool \<Rightarrow> string \<Rightarrow> bool \<Rightarrow> pyfloat \<Rightarrow> 't command" where
  "cmd_recover R as_json run_id dry_run wait_seconds =
     bind (if dry_run then dry_run_decisions R run_id wait_seconds else fresh_recovery R run_id wait_seconds) (\<lambda>decisions.
     ret (0, print_as as_json (JList (map decision_row decisions))
       (listing ''no executions to recover'' (map decision_text decisions))))"

section \<open>The audit\<close>

definition terminal_statuses :: "execution_status set" where
  "terminal_statuses = {ACKED, VERIFIED_COMMITTED, FAILED}"

datatype violation =
    NoRecord string
  | AlreadyTerminal execution_status string
  | IntentWithoutRecord string
  | CheckpointAhead int int

fun violation_text :: "violation \<Rightarrow> string" where
  "violation_text (NoRecord i) = ''pending execution has no durable record: '' @ i"
| "violation_text (AlreadyTerminal s i) = ''pending execution already terminal ('' @ execution_status_value s @ ''): '' @ i"
| "violation_text (IntentWithoutRecord i) = ''tool intent without external result record: '' @ i"
| "violation_text (CheckpointAhead c l) = ''checkpoint seq '' @ int_str c @ '' is ahead of latest event seq '' @ int_str l"

definition pending_violation :: "(string \<times> external_result) list \<Rightarrow> string \<Rightarrow> violation option" where
  "pending_violation records i = (case map_of records i of
     None \<Rightarrow> Some (NoRecord i)
   | Some r \<Rightarrow> if res_execution_status r \<in> terminal_statuses then Some (AlreadyTerminal (res_execution_status r) i) else None)"

definition checkpoint_violation :: "wal_checkpoint option \<Rightarrow> int option \<Rightarrow> violation list" where
  "checkpoint_violation ck latest = (case (ck, latest) of
     (Some c, Some l) \<Rightarrow> if l < ck_seq_id c then [CheckpointAhead (ck_seq_id c) l] else []
   | _ \<Rightarrow> [])"

record audit_result =
  aud_run_id :: string
  aud_executions :: int
  aud_intent_events :: int
  aud_violations :: "violation list"
  aud_notes :: "string list"

text \<open>\<open>records\<close> is a dict: each execution once, with its last record.\<close>

definition records_by_id :: "external_result list \<Rightarrow> (string \<times> external_result) list" where
  "records_by_id rs = foldl (\<lambda>d r. AList.update (res_execution_id r) r d) [] rs"

definition audit_notes :: "eval_span list \<Rightarrow> (string \<times> external_result) list \<Rightarrow> string list" where
  "audit_notes spans records = (let
     open_spans = filter (\<lambda>s. span_finished_at s = None) spans;
     non_terminal = map (res_execution_id \<circ> snd) (filter (\<lambda>(i, r). res_execution_status r \<notin> terminal_statuses) records) in
     (if open_spans = [] then [] else [nat_str (length open_spans) @ '' open evaluation span(s) (interrupted attempts)'']) @
     (if non_terminal = [] then [] else [nat_str (length non_terminal) @ '' non-terminal execution(s): '' @ join '', '' non_terminal]))"

definition run_audit :: "runtime \<Rightarrow> string \<Rightarrow> ('t, audit_result) op" where
  "run_audit R run_id =
     bind (service_list_results R run_id) (\<lambda>rs.
     let records = records_by_id rs in
     bind (list_pending_executions R run_id) (\<lambda>pending.
     bind (read_events run_id None 100000) (\<lambda>events.
     let intents = filter (\<lambda>e. ev_event_type e = ''TOOL_INTENT_RECORDED'') events in
     bind (read_latest_checkpoint run_id None) (\<lambda>ck.
     bind (latest_wal_seq run_id) (\<lambda>latest.
     bind (list_evaluation_spans run_id) (\<lambda>spans.
     ret \<lparr>aud_run_id = run_id, aud_executions = int (length records), aud_intent_events = int (length intents),
       aud_violations = List.map_filter (pending_violation records) pending @
         List.map_filter (\<lambda>e. if map_of records (ev_entity_id e) = None then Some (IntentWithoutRecord (ev_entity_id e)) else None) intents @
         checkpoint_violation ck latest,
       aud_notes = audit_notes spans records\<rparr>))))))"

definition audit_to_dict :: "audit_result \<Rightarrow> dict" where
  "audit_to_dict a = [
     (''run_id'', JStr (aud_run_id a)), (''ok'', JBool (aud_violations a = [])), (''executions'', JInt (aud_executions a)),
     (''intent_events'', JInt (aud_intent_events a)), (''violations'', str_list (map violation_text (aud_violations a))),
     (''notes'', str_list (aud_notes a))]"

definition audit_lines :: "audit_result \<Rightarrow> string list" where
  "audit_lines a =
     [''run: '' @ aud_run_id a, ''executions: '' @ int_str (aud_executions a) @ ''  intent events: '' @ int_str (aud_intent_events a)] @
     map (\<lambda>n. ''note: '' @ n) (aud_notes a) @
     (if aud_violations a = [] then [''audit ok: log-first invariants hold'']
      else map (\<lambda>v. ''VIOLATION: '' @ violation_text v) (aud_violations a))"

definition cmd_audit :: "runtime \<Rightarrow> bool \<Rightarrow> string \<Rightarrow> 't command" where
  "cmd_audit R as_json run_id = bind (run_audit R run_id) (\<lambda>a.
     ret (if aud_violations a = [] then 0 else 1, print_as as_json (JObj (audit_to_dict a)) (audit_lines a)))"

section \<open>The entry point\<close>

datatype cli_command =
    Runs
  | Show string
  | Events string "int option" int
  | Executions string
  | Pending string
  | Report string
  | Recover string bool pyfloat
  | Audit string

fun run_command :: "runtime \<Rightarrow> bool \<Rightarrow> cli_command \<Rightarrow> 't command" where
  "run_command R as_json Runs = cmd_runs R as_json"
| "run_command R as_json (Show run_id) = cmd_show R as_json run_id"
| "run_command R as_json (Events run_id after_seq limit) = cmd_events R as_json run_id after_seq limit"
| "run_command R as_json (Executions run_id) = cmd_executions R as_json run_id"
| "run_command R as_json (Pending run_id) = cmd_pending R as_json run_id"
| "run_command R as_json (Report run_id) = cmd_report as_json run_id"
| "run_command R as_json (Recover run_id dry_run wait_seconds) = cmd_recover R as_json run_id dry_run wait_seconds"
| "run_command R as_json (Audit run_id) = cmd_audit R as_json run_id"

text \<open>\<open>main\<close> after the parsing: without a database file nothing is opened.\<close>

definition cli_main :: "runtime \<Rightarrow> string \<Rightarrow> bool \<Rightarrow> bool \<Rightarrow> cli_command \<Rightarrow> 't command" where
  "cli_main R db_path there as_json command = (if \<not> there
     then ret (2, Complaint (''error: no runtime store at '' @ db_path)) else run_command R as_json command)"

section \<open>Inspection changes nothing\<close>

text \<open>The module promises that inspection commands never mutate state; so does a dry run of the recovery.\<close>

definition inspects :: "cli_command \<Rightarrow> bool" where
  "inspects command = (case command of Recover run_id dry_run wait_seconds \<Rightarrow> dry_run | _ \<Rightarrow> True)"

lemma inspections_read:
  "confined same_db (cmd_runs R j)" "confined same_db (cmd_show R j run_id)" "confined same_db (cmd_events R j run_id after_seq limit)"
  "confined same_db (cmd_executions R j run_id)" "confined same_db (cmd_pending R j run_id)" "confined same_db (cmd_report j run_id)"
  "confined same_db (cmd_recover R j run_id True wait_seconds)" "confined same_db (cmd_audit R j run_id)"
  unfolding cmd_runs_def load_run_row_def cmd_show_def cmd_events_def cmd_executions_def cmd_pending_def pending_text_def cmd_report_def
    build_evaluation_report_def cmd_audit_def run_audit_def cmd_recover_def dry_run_decisions_def Let_def if_True
  by (intro effect facade_reads log_reads agent_reads load_plan_reads)+

lemma inspection_effect: "inspects command \<Longrightarrow> confined same_db (run_command R as_json command)"
  by (cases command) (simp_all add: inspects_def inspections_read)

end
