(* ===== verification/Open_Executions.thy ===== *)
theory Open_Executions
  imports Cli
begin

text \<open>
  Why the audit of the command line finds no more than it should: every open execution of a context
  is on record in its run, in every reachable database.
\<close>

section \<open>Open executions stay within a set\<close>

definition pending_within :: "(string \<Rightarrow> string set) \<Rightarrow> db \<Rightarrow> bool" where
  "pending_within A d \<longleftrightarrow> (\<forall>k c. context_view d k = Some c \<longrightarrow>
     strip (ctx_run_id c) = strip k \<and> set (ctx_pending_execution_ids c) \<subseteq> A (strip k))"

lemma pending_withinD:
  "pending_within A d \<Longrightarrow> context_view d k = Some c \<Longrightarrow>
    strip (ctx_run_id c) = strip k \<and> set (ctx_pending_execution_ids c) \<subseteq> A (strip k)"
  by (simp add: pending_within_def)

lemma pending_within_put:
  "pending_within A d \<Longrightarrow> set (ctx_pending_execution_ids c) \<subseteq> A (strip (ctx_run_id c)) \<Longrightarrow> pending_within A (put_context c d)"
  by (simp add: pending_within_def context_view_put)

lemma pending_within_views: "context_view d' = context_view d \<Longrightarrow> pending_within A d' = pending_within A d"
  by (simp add: pending_within_def)

interpretation within: store_invariant "\<lambda>d. sound_db d \<and> pending_within A d"
  "\<lambda>c. good_context c \<and> set (ctx_pending_execution_ids c) \<subseteq> A (strip (ctx_run_id c))"
  "\<lambda>r e. strip e \<in> A (strip r)" for A
proof unfold_locales
  fix d :: db and r t n i p c and st :: planner_state and c' c0 :: agent_context and k row arts e ck x
  let ?P = "\<lambda>d. sound_db d \<and> pending_within A d"
  let ?ok = "\<lambda>c. good_context c \<and> set (ctx_pending_execution_ids c) \<subseteq> A (strip (ctx_run_id c))"
  show "?P d \<Longrightarrow> ?P (insert_event r t n i p c d)"
    using sound.event by (auto simp: pending_within_def)
  show "?P d \<Longrightarrow> validate_integrity st = Inr () \<Longrightarrow> ?P (put_planner st d)"
    using sound.planner by (auto simp: pending_within_def)
  show "?P d \<Longrightarrow> ?ok c' \<Longrightarrow> ?P (put_context c' d)"
    using sound.ctx pending_within_put by blast
  show "?P d \<Longrightarrow> context_view d k = Some c' \<Longrightarrow> ?ok c'"
    using sound.views pending_withinD by fastforce
  show "?P d \<Longrightarrow> ?P (d\<lparr>external_results := AList.update i row (external_results d)\<rparr>)"
    using sound.row by (auto simp: pending_within_def)
  show "?P d \<Longrightarrow> ?P (d\<lparr>payload_artifacts := arts\<rparr>)"
    using sound.artifacts by (auto simp: pending_within_def)
  show "?P d \<Longrightarrow> e \<in> set (wal_events d) \<Longrightarrow> ev_run_id e = ck_run_id ck \<Longrightarrow> ev_seq_id e = ck_seq_id ck \<Longrightarrow>
      ?P (d\<lparr>wal_checkpoints := wal_checkpoints d @ [ck]\<rparr>)"
    using sound.ckpt by (auto simp: pending_within_def)
  show "?ok c' \<Longrightarrow> good_context c'" by simp
  show "?ok c0 \<Longrightarrow> good_context c' \<Longrightarrow> strip (ctx_run_id c') = strip (ctx_run_id c0) \<Longrightarrow>
      set (ctx_pending_execution_ids c') \<subseteq> set (ctx_pending_execution_ids c0) \<Longrightarrow> ?ok c'"
    by auto
  show "good_context c' \<Longrightarrow> ctx_pending_execution_ids c' = [] \<Longrightarrow> ?ok c'" by simp
  show "?P d \<Longrightarrow> context_view d (strip r) = Some c0 \<Longrightarrow> strip x \<in> A (strip r) \<Longrightarrow> good_context c' \<Longrightarrow>
      strip (ctx_run_id c') = strip (ctx_run_id c0) \<Longrightarrow>
      set (ctx_pending_execution_ids c') \<subseteq> insert (strip x) (set (ctx_pending_execution_ids c0)) \<Longrightarrow> ?ok c'"
    using pending_withinD [of A d "strip r" c0] by auto
qed

section \<open>Open executions are on record\<close>

definition recorded :: "db \<Rightarrow> string \<Rightarrow> string set" where
  "recorded d run_id = {i. \<exists>row. map_of (external_results d) i = Some row \<and> row_run_id row = run_id}"

lemma write_step:
  assumes "\<not> conn_open w"
    and "\<And>x v. m (w\<lparr>conn_open := True\<rparr>) = (Inr x, v) \<Longrightarrow> db v = db w \<or> (\<exists>s. exec_step r e s (db w) (db v))"
  shows "db (snd (run_write R r m w)) = db w \<or> (\<exists>s. exec_step r e s (db w) (db (snd (run_write R r m w))))"
proof -
  obtain res w' where w': "run_write R r m w = (res, w')" by fastforce
  from run_write_outcome [OF this assms(1)] assms(2) show ?thesis unfolding w' by auto
qed

lemma tool_steps:
  assumes "\<not> conn_open w" and "canonical r" and "canonical e"
  shows "enforce_execution_dedup R \<Longrightarrow> db (snd (record_tool_intent R r i e tn rq ot w)) = db w \<or>
      (\<exists>s. exec_step r e s (db w) (db (snd (record_tool_intent R r i e tn rq ot w))))"
    and "db (snd (record_tool_dispatch R r e w)) = db w \<or> (\<exists>s. exec_step r e s (db w) (db (snd (record_tool_dispatch R r e w))))"
    and "db (snd (record_tool_result R r e rep w)) = db w \<or> (\<exists>s. exec_step r e s (db w) (db (snd (record_tool_result R r e rep w))))"
  unfolding record_tool_intent_def record_tool_dispatch_def record_tool_result_def
  by (rule write_step [OF assms(1)];
      use assms(2,3) in \<open>auto dest!: intent_tx_step dispatch_tx_step result_tx_step split: if_splits\<close>)+

text \<open>A legal step of an execution keeps what is on record, and puts the execution on record in its run.\<close>

definition rows_canonical :: "db \<Rightarrow> bool" where
  "rows_canonical d \<longleftrightarrow> distinct (map fst (external_results d)) \<and> (\<forall>i\<in>fst ` set (external_results d). canonical i)"

lemma exec_step_recorded:
  assumes "exec_step r e s d d'" and "canonical r" and "replay_ok d"
  shows "recorded d k \<subseteq> recorded d' k" and "e \<in> recorded d' r"
proof -
  from assms(1) obtain row where rows: "external_results d' = AList.update e row (external_results d)" "row_run_id row = r"
    unfolding exec_step_def logs_status_def by blast
  have old: "row_run_id row0 = r" if "map_of (external_results d) e = Some row0" for row0
  proof -
    have "replays (events_of d e) (Some row0)" using assms(3) that by (metis replay_ok_def)
    moreover have "strip (row_run_id row0) = r" using assms(1) that by (simp add: exec_step_def)
    ultimately show ?thesis by (simp add: replays_def canonical_def)
  qed
  show "recorded d k \<subseteq> recorded d' k" using old rows by (auto simp: recorded_def)
  show "e \<in> recorded d' r" using rows by (simp add: recorded_def)
qed

definition pending_on_record :: "db \<Rightarrow> bool" where
  "pending_on_record d \<longleftrightarrow> pending_within (recorded d) d"

lemma within_mono: "pending_within A d \<Longrightarrow> (\<And>k. A k \<subseteq> B k) \<Longrightarrow> pending_within B d"
  unfolding pending_within_def by blast

lemma idle_recorded: "confined same_tools m \<Longrightarrow> recorded (db (snd (m w))) = recorded (db w)"
  by (simp add: confined_def same_tools_def recorded_def fun_eq_iff)

lemma facade_step_pending:
  assumes "facade_step R w w'" and "\<not> conn_open w" and "enforce_execution_dedup R" and "replay_ok (db w)"
    and "sound_db (db w)" and "pending_on_record (db w)"
  shows "pending_on_record (db w')"
proof -
  note P = within.facade_keeps [where w = w and A = "recorded (db w)", OF assms(2) conjI [OF assms(5) assms(6) [unfolded pending_on_record_def]],
      THEN conjunct2]
  have tool: "pending_on_record d'" if "d' = db w \<or> (\<exists>s. exec_step r e s (db w) d')" "pending_within (recorded (db w)) d'" "canonical r" for d' r e
    using that assms(6) exec_step_recorded(1) [OF _ that(3) assms(4)] within_mono unfolding pending_on_record_def by metis
  show ?thesis
    using assms(1)
  proof (cases rule: facade_step.cases)
    case (intent r e i tn rq ot)
    let ?d = "db (snd (record_tool_intent R r i e tn rq ot w))"
    let ?A = "\<lambda>k. recorded (db w) k \<union> (if k = r then {e} else {})"
    have "pending_within ?A (db w)" using assms(6) within_mono [of "recorded (db w)" "db w" ?A] by (simp add: pending_on_record_def)
    then have within: "pending_within ?A ?d"
      using within.facade_keeps(9) [of w ?A e r] assms(2,5) intent(2,3) by (simp add: canonical_strip)
    from tool_steps(1) [OF assms(2) intent(2,3) assms(3), of i tn rq ot] show ?thesis
    proof
      assume "?d = db w" then show ?thesis using assms(6) intent by simp
    next
      assume "\<exists>s. exec_step r e s (db w) ?d"
      then obtain s where "exec_step r e s (db w) ?d" ..
      from exec_step_recorded [OF this intent(2) assms(4)] have "?A k \<subseteq> recorded ?d k" for k by auto
      with within_mono [OF within] show ?thesis unfolding pending_on_record_def intent(1) by blast
    qed
  next
    case (dispatch r e)
    with tool [OF tool_steps(2) [OF assms(2)] P(7)] show ?thesis by blast
  next
    case (outcome r e rep)
    with tool [OF tool_steps(3) [OF assms(2)] P(8)] show ?thesis by blast
  next
    case (environment t k u)
    then show ?thesis using assms(6) by (simp add: pending_on_record_def)
  next
    case (timing ss k u)
    then show ?thesis using assms(6) by (simp add: pending_on_record_def pending_within_def recorded_def)
  qed (use P(1-6) in \<open>simp_all add: pending_on_record_def idle_recorded idle_facade\<close>)
qed

lemma idle_rows: "confined same_tools m \<Longrightarrow> rows_canonical (db (snd (m w))) = rows_canonical (db w)"
  by (simp add: confined_def same_tools_def rows_canonical_def)

lemma facade_step_rows:
  assumes "facade_step R w w'" and "\<not> conn_open w" and "enforce_execution_dedup R" and "rows_canonical (db w)"
  shows "rows_canonical (db w')"
proof -
  have tool: "rows_canonical d'" if step: "d' = db w \<or> (\<exists>s. exec_step r e s (db w) d')" and e: "canonical e" for d' r e
  proof (cases "d' = db w")
    case False
    then obtain row where "external_results d' = AList.update e row (external_results (db w))"
      using step unfolding exec_step_def logs_status_def by blast
    then show ?thesis using assms(4) e by (simp add: rows_canonical_def keys_update distinct_update_keys)
  qed (simp add: assms(4))
  show ?thesis
    using assms(1)
  proof (cases rule: facade_step.cases)
    case (intent r e i tn rq ot)
    with tool [OF tool_steps(1) [OF assms(2) _ _ assms(3)]] show ?thesis by blast
  next
    case (dispatch r e)
    with tool [OF tool_steps(2) [OF assms(2)]] show ?thesis by blast
  next
    case (outcome r e rep)
    with tool [OF tool_steps(3) [OF assms(2)]] show ?thesis by blast
  next
    case (environment t k u)
    then show ?thesis using assms(4) by simp
  next
    case (timing ss k u)
    then show ?thesis using assms(4) by (simp add: rows_canonical_def)
  qed (use assms(4) in \<open>simp_all add: idle_rows idle_facade\<close>)
qed

lemma reachable_pending:
  assumes "reachable R w" and "enforce_execution_dedup R"
  shows "pending_on_record (db w) \<and> rows_canonical (db w)"
proof -
  have "pending_on_record empty_db \<and> rows_canonical empty_db \<and> replay_ok empty_db"
    using replay_ok_empty by (simp add: pending_on_record_def pending_within_def rows_canonical_def empty_db_def context_view_def)
  from reachable_induct [where P = "\<lambda>d. pending_on_record d \<and> rows_canonical d \<and> replay_ok d", OF assms(1) this]
  show ?thesis
    using facade_step_pending [OF _ _ assms(2)] facade_step_rows [OF _ _ assms(2)] facade_step_replay [OF _ _ assms(2)] by blast
qed

section \<open>What the audit reads\<close>

lemma records_by_id:
  "map_of (records_by_id rs) i = map_of (rev (map (\<lambda>r. (res_execution_id r, r)) rs)) i"
proof -
  have "map_of (foldl (\<lambda>d r. AList.update (res_execution_id r) r d) d rs) i =
    (case map_of (rev (map (\<lambda>r. (res_execution_id r, r)) rs)) i of None \<Rightarrow> map_of d i | Some r \<Rightarrow> Some r)" for d
    by (induction rs arbitrary: d) (auto simp: map_add_def update_conv' split: option.splits)
  from this [of "[]"] show ?thesis by (simp add: records_by_id_def split: option.splits)
qed

lemma listed_on_record:
  assumes "map_of (records_by_id rs) i = Some r"
  shows "r \<in> set rs \<and> res_execution_id r = i"
  using map_of_SomeD [OF assms [unfolded records_by_id]] by auto

lemma unlisted:
  assumes "map_of (records_by_id rs) i = None"
  shows "i \<notin> res_execution_id ` set rs"
  using assms by (force simp: records_by_id map_of_eq_None_iff image_image)

text \<open>The list of the results of a run is complete.\<close>

lemma list_external_results_complete:
  assumes "list_external_results run_id w = (Inr rs, w')" and "i \<in> recorded (db w) (strip run_id)" and "canonical i"
  shows "i \<in> res_execution_id ` set rs"
proof -
  obtain u w1 ids w2 os w3 where u: "lift (require_non_empty_str (JStr run_id) ''run_id'') w = (Inr u, w1)"
    and ids: "read_db (\<lambda>d. map fst (sort_key (\<lambda>(i, row). (row_created_at row, i))
       (filter (\<lambda>(i, row). row_run_id row = u) (external_results d)))) w1 = (Inr ids, w2)"
    and os: "for_each get_external_result ids w2 = (Inr os, w3)"
    and rs: "ret (List.map_filter (\<lambda>r. r) os) w3 = (Inr rs, w')"
    using assms(1) unfolding list_external_results_def by (elim bind_InrE) blast
  have w: "w1 = w" "w2 = w" "u = strip run_id" using u ids by (auto simp: require_JStr lift_def split: if_splits)
  have all: "list_all2 (\<lambda>i found. get_external_result i w = (Inr found, w)) ids os"
    using for_each_pure [OF _ os] get_external_result_InrD w(2) by blast
  obtain row where row: "map_of (external_results (db w)) i = Some row" "row_run_id row = strip run_id"
    using assms(2) by (auto simp: recorded_def)
  then have "i \<in> set ids" using map_of_SomeD [OF row(1)] ids w by force
  then obtain found where f: "found \<in> set os" "get_external_result i w = (Inr found, w)"
    using all by (auto simp: list_all2_conv_all_nth in_set_conv_nth) metis
  have "found \<noteq> None"
    using f(2) row(1) assms(3) by (auto simp: get_external_result_def elim!: bind_InrE)
  then obtain r where r: "found = Some r" "res_execution_id r = i"
    using get_external_result_InrD [OF f(2)] assms(3) by (auto simp: canonical_strip)
  then have "r \<in> set rs" using rs f(1) by (force simp: map_filter_def)
  with r(2) show ?thesis by blast
qed

lemma results_complete:
  assumes "service_list_results R run_id w = (Inr rs, w')" and "i \<in> recorded (db w) (strip run_id)" and "canonical i"
  shows "i \<in> res_execution_id ` set rs"
proof -
  from assms(1) obtain c w1 rs0 w2 where c: "load_required_context R run_id w = (Inr c, w1)"
    and l: "list_external_results run_id w1 = (Inr rs0, w2)"
    and rs: "for_each (reload_result R) rs0 w2 = (Inr rs, w')"
    unfolding service_list_results_def repo_list_results_def by (elim bind_InrE) blast
  have "w1 = w" using load_required_context_InrD [OF c] by blast
  with list_external_results_complete [OF l] assms(2,3) obtain r where r: "r \<in> set rs0" "res_execution_id r = i" by auto
  have "list_all2 (\<lambda>r r'. reload_result R r w2 = (Inr r', w2)) rs0 rs"
    using for_each_pure [OF _ rs] reload_result_InrD by blast
  with r(1) obtain r' where "r' \<in> set rs" "reload_result R r w2 = (Inr r', w2)"
    by (auto simp: list_all2_conv_all_nth in_set_conv_nth) metis
  moreover from this(2) have "res_execution_id r' = i"
    using reload_result_InrD r(2) canonical_strip [OF assms(3)] by metis
  ultimately show ?thesis by blast
qed

lemma pending_recorded:
  assumes "list_pending_executions R run_id w = (Inr ids, w')" and "sound_db (db w)" and "pending_on_record (db w)"
  shows "w' = w \<and> list_all canonical ids \<and> set ids \<subseteq> recorded (db w) (strip run_id)"
proof -
  obtain found where f: "repo_load_context R run_id w = (Inr found, w')"
    and ids: "ids = (case found of None \<Rightarrow> [] | Some c \<Rightarrow> ctx_pending_execution_ids c)"
    using assms(1) by (auto simp: list_pending_executions_def elim!: bind_InrE)
  have "w' = w \<and> list_all canonical ids"
    using list_pending_InrD [OF assms(1)] assms(2) by (simp add: sound_db_def)
  moreover have "set ids \<subseteq> recorded (db w) (strip run_id)"
  proof (cases found)
    case (Some c)
    then obtain c0 now where c0: "context_view (db w) (strip run_id) = Some c0"
      and re: "context_from_dict (forms R) now (context_to_dict c0) = Inr c" using repo_load_context_InrD [OF f] by auto
    have "ctx_pending_execution_ids c = ctx_pending_execution_ids c0"
      using context_reload_good [OF re sound.views [OF assms(2) c0]] by blast
    with pending_withinD [OF assms(3) [unfolded pending_on_record_def] c0] ids Some show ?thesis by simp
  qed (simp add: ids)
  ultimately show ?thesis by blast
qed

lemma intent_recorded:
  assumes "replay_ok d" and "e \<in> set (wal_events d)" and "ev_event_type e = event_value TOOL_INTENT_RECORDED"
  shows "ev_entity_id e \<in> recorded d (ev_run_id e)"
proof -
  have e: "e \<in> set (events_of d (ev_entity_id e))"
    using assms(2,3) by (simp add: events_of_def tool_log_def is_tool_event_def)
  have "replays (events_of d (ev_entity_id e)) (map_of (external_results d) (ev_entity_id e))"
    using assms(1) by (simp add: replay_ok_def)
  with e show ?thesis by (auto simp: replays_def recorded_def list_all_iff split: option.splits)
qed

lemma checkpoint_not_ahead:
  assumes "checkpoints_ok d" and "latest_checkpoint d run_id None = Some c" and "max_seq d run_id = Some l"
  shows "ck_seq_id c \<le> l"
proof -
  let ?cs = "filter (\<lambda>c. ck_run_id c = run_id) (wal_checkpoints d)"
  obtain cs where "sort_key (\<lambda>c. (- ck_seq_id c, - ck_created_at c)) ?cs = c # cs"
    using assms(2) by (auto simp: latest_checkpoint_def split: list.splits)
  then have "c \<in> set ?cs" by (metis list.set_intros(1) set_sort)
  then have "c \<in> set (wal_checkpoints d)" "ck_run_id c = run_id" by auto
  then obtain e where e: "e \<in> set (run_events d run_id)" "ev_seq_id e = ck_seq_id c"
    using assms(1) by (auto simp: checkpoints_ok_def run_events_def)
  have "sorted (map ev_seq_id (run_events d run_id))" by (simp add: run_events_def)
  moreover have "l = ev_seq_id (last (run_events d run_id))" "run_events d run_id \<noteq> []"
    using assms(3) by (auto simp: max_seq_def split: list.splits)
  then obtain es x where "run_events d run_id = es @ [x]" "l = ev_seq_id x" by (metis append_butlast_last_id)
  ultimately show ?thesis using e by (auto simp: sorted_append)
qed

text \<open>A pending execution that is settled on record.\<close>

definition settled_pending :: "db \<Rightarrow> string \<Rightarrow> violation option" where
  "settled_pending d i = (case status_on_record d i of
     Some s \<Rightarrow> if s \<in> terminal_statuses then Some (AlreadyTerminal s i) else None
   | None \<Rightarrow> None)"

lemma audit_finds:
  assumes "reachable R w" and "enforce_execution_dedup R" and "canonical run_id"
    and "run_audit R run_id w = (Inr a, w')"
  shows "\<exists>pending. list_pending_executions R run_id w = (Inr pending, w) \<and>
    aud_violations a = List.map_filter (settled_pending (db w)) pending \<and> w' = w"
proof -
  note sound = reachable_sound [OF assms(1)] and replay = reachable_replay [OF assms(1,2)]
    and rows = conjunct2 [OF reachable_pending [OF assms(1,2)]] and pend = conjunct1 [OF reachable_pending [OF assms(1,2)]]
  obtain rs w1 pending w2 events w3 ck w4 latest w5 ss where
    rs: "service_list_results R run_id w = (Inr rs, w1)" and
    pending: "list_pending_executions R run_id w1 = (Inr pending, w2)" and
    events: "read_events run_id None 100000 w2 = (Inr events, w3)" and
    ck: "read_latest_checkpoint run_id None w3 = (Inr ck, w4)" and
    latest: "latest_wal_seq run_id w4 = (Inr latest, w5)" and
    ss: "list_evaluation_spans run_id w5 = (Inr ss, w')" and
    a: "aud_violations a = List.map_filter (pending_violation (records_by_id rs)) pending @
         List.map_filter (\<lambda>e. if map_of (records_by_id rs) (ev_entity_id e) = None then Some (IntentWithoutRecord (ev_entity_id e)) else None)
           (filter (\<lambda>e. ev_event_type e = ''TOOL_INTENT_RECORDED'') events) @
         checkpoint_violation ck latest"
    using assms(4) unfolding run_audit_def Let_def by (elim bind_InrE) auto
  note r = service_list_results_InrD [OF rs]
  have p: "w2 = w \<and> list_all canonical pending \<and> set pending \<subseteq> recorded (db w) run_id"
    using pending_recorded [OF pending] r sound pend assms(3) by (simp add: canonical_strip)
  have e: "w3 = w \<and> set events \<subseteq> {e \<in> set (wal_events (db w)). ev_run_id e = run_id}"
    using events p assms(3)
    by (auto simp: read_events_def read_wal_events_def sql_limit_def run_events_def bind_ints_def
        elim!: bind_InrE split: if_splits dest!: in_set_takeD)
  have c: "w4 = w \<and> ck = latest_checkpoint (db w) run_id None" "w5 = w \<and> latest = max_seq (db w) run_id" "w' = w"
    using ck latest ss e assms(3)
    by (auto simp: read_latest_checkpoint_def latest_wal_seq_def list_evaluation_spans_def elim!: bind_InrE)
  have listed: "map_of (records_by_id rs) i \<noteq> None" if "i \<in> recorded (db w) run_id" "canonical i" for i
    using results_complete [OF rs] that unlisted [of rs i] assms(3) by (auto simp: canonical_strip)
  have "pending_violation (records_by_id rs) i = settled_pending (db w) i" if i: "i \<in> set pending" for i
  proof -
    obtain x where x: "map_of (records_by_id rs) i = Some x" using listed [of i] p i by (auto simp: list_all_iff)
    then have "status_on_record (db w) i = Some (res_execution_status x)"
      using listed_on_record [OF x] r by (auto simp: list_all_iff)
    with x show ?thesis by (simp add: pending_violation_def settled_pending_def)
  qed
  then have "List.map_filter (pending_violation (records_by_id rs)) pending = List.map_filter (settled_pending (db w)) pending"
    by (simp add: map_filter_def cong: map_cong filter_cong)
  moreover have "map_of (records_by_id rs) (ev_entity_id ev) \<noteq> None"
    if "ev \<in> set events" "ev_event_type ev = ''TOOL_INTENT_RECORDED''" for ev
  proof (rule listed)
    show i: "ev_entity_id ev \<in> recorded (db w) run_id"
      using intent_recorded [OF replay, of ev] that e by auto
    show "canonical (ev_entity_id ev)"
      using i rows by (auto simp: recorded_def rows_canonical_def dest!: map_of_SomeD)
  qed
  then have "List.map_filter (\<lambda>e. if map_of (records_by_id rs) (ev_entity_id e) = None then Some (IntentWithoutRecord (ev_entity_id e)) else None)
      (filter (\<lambda>e. ev_event_type e = ''TOOL_INTENT_RECORDED'') events) = []"
    by (force simp: map_filter_def filter_empty_conv)
  moreover have "checkpoint_violation ck latest = []"
    using checkpoint_not_ahead [of "db w" run_id] c sound
    by (fastforce simp: checkpoint_violation_def sound_db_def not_less split: option.splits)
  ultimately show ?thesis using a c pending r p by auto
qed

text \<open>The audit of a run whose results and context can be read returns.\<close>

lemma audit_returns:
  assumes "service_list_results R run_id w = (Inr rs, w)" and "list_pending_executions R run_id w = (Inr pending, w)"
    and "canonical run_id"
  shows "\<exists>code out. cmd_audit R as_json run_id w = (Inr (code, out), w)"
proof -
  have "\<exists>events. read_events run_id None 100000 w = (Inr events, w)"
    using assms(3) by (simp add: read_events_def read_wal_events_def bind_ints_def sql_int_def)
  then obtain events where events: "read_events run_id None 100000 w = (Inr events, w)" ..
  show ?thesis
    using assms(3)
    by (simp add: cmd_audit_def run_audit_def Let_def bind_def assms(1,2) events
        read_latest_checkpoint_def latest_wal_seq_def list_evaluation_spans_def)
qed

end
