(* ===== verification/Dry_Run.thy ===== *)
theory Dry_Run
  imports Open_Executions
begin

text \<open>
  The dry run of the recovery and the recovery of the command line, which asks no target, decide
  alike: the records of a run are exactly the executions the recovery goes through.
\<close>

lemma silent_recover_one:
  assumes "recover_one R (cli_coordinator wait) run_id now records i w = (Inr d, w')" and "map_of records i = Some r"
  shows "decide wait run_id i r now = Inr d"
  using assms by (auto simp: recover_one_def cli_coordinator_def emit_handoff_if_needed_def elim!: bind_InrE split: if_splits)

lemma list_all2_setD1: "list_all2 P xs ys \<Longrightarrow> x \<in> set xs \<Longrightarrow> \<exists>y\<in>set ys. P x y"
  by (induction rule: list_all2_induct) auto

definition decided :: "pyfloat \<Rightarrow> string \<Rightarrow> int \<Rightarrow> (string \<times> external_result) list \<Rightarrow> string \<Rightarrow> recovery_decision \<Rightarrow> bool" where
  "decided wait run_id now records i d \<longleftrightarrow> (\<exists>r. map_of records i = Some r \<and> decide wait run_id i r now = Inr d)"

lemma silent_recover_each:
  assumes "for_each (recover_one R (cli_coordinator wait) run_id now records) is w = (Inr ds, w')"
    and "set is \<subseteq> dom (map_of records)"
  shows "list_all2 (decided wait run_id now records) is ds"
  using assms
proof (induction "is" arbitrary: w ds)
  case (Cons i "is")
  obtain d w1 ds' where one: "recover_one R (cli_coordinator wait) run_id now records i w = (Inr d, w1)"
    and rest: "for_each (recover_one R (cli_coordinator wait) run_id now records) is w1 = (Inr ds', w')" and ds: "ds = d # ds'"
    using Cons.prems(1) by (auto elim!: bind_InrE)
  obtain r where "map_of records i = Some r" using Cons.prems(2) by auto
  with silent_recover_one [OF one] have "decided wait run_id now records i d" by (auto simp: decided_def)
  with Cons.IH [OF rest] Cons.prems(2) ds show ?case by simp
qed simp

lemma decide_each:
  assumes "\<And>r. r \<in> set rs \<Longrightarrow> \<exists>d. decided wait run_id now records (res_execution_id r) d"
    and "\<And>r. r \<in> set rs \<Longrightarrow> map_of records (res_execution_id r) = Some r"
  shows "\<exists>ds. for_each (\<lambda>r. lift (decide wait run_id (res_execution_id r) r now)) rs (w :: 't world) = (Inr ds, w) \<and>
    list_all2 (decided wait run_id now records) (map res_execution_id rs) ds"
  using assms
proof (induction rs)
  case (Cons r rs)
  have "\<exists>ds. for_each (\<lambda>r. lift (decide wait run_id (res_execution_id r) r now)) rs w = (Inr ds, w) \<and>
      list_all2 (decided wait run_id now records) (map res_execution_id rs) ds"
    by (rule Cons.IH) (use Cons.prems in auto)
  then obtain ds where ds: "for_each (\<lambda>r. lift (decide wait run_id (res_execution_id r) r now)) rs w = (Inr ds, w)"
      "list_all2 (decided wait run_id now records) (map res_execution_id rs) ds" by blast
  from Cons.prems obtain d where d: "decide wait run_id (res_execution_id r) r now = Inr d" "decided wait run_id now records (res_execution_id r) d"
    by (fastforce simp: decided_def)
  define F :: "external_result \<Rightarrow> ('t world, recovery_decision) act" where
    "F r = lift (decide wait run_id (res_execution_id r) r now)" for r
  have "for_each F rs w = (Inr ds, w)" "F r w = (Inr d, w)" using ds(1) d(1) by (simp_all add: F_def [abs_def])
  then have all: "for_each F (r # rs) w = (Inr (d # ds), w)" by (simp add: bind_def)
  show ?case
  proof (intro exI conjI)
    show "for_each (\<lambda>r. lift (decide wait run_id (res_execution_id r) r now)) (r # rs) w = (Inr (d # ds), w)"
      using all unfolding F_def [abs_def] .
  qed (use ds(2) d(2) in simp)
qed simp

text \<open>Decisions on the same executions, in whatever order, are the same.\<close>

lemma decided_unique: "decided wait run_id now records i d \<Longrightarrow> decided wait run_id now records i d' \<Longrightarrow> d = d'"
  by (auto simp: decided_def)

lemma decided_mset:
  assumes "list_all2 (decided wait run_id now records) is ds" and "list_all2 (decided wait run_id now records) js es"
    and "mset is = mset js"
  shows "mset ds = mset es"
proof -
  define f where "f i = (THE d. decided wait run_id now records i d)" for i
  have "ds = map f is" if "list_all2 (decided wait run_id now records) is ds" for "is" ds
    using that
  proof (induction rule: list_all2_induct)
    case (Cons i "is" d ds)
    have "f i = d" unfolding f_def using Cons(1) by (rule the_equality) (rule decided_unique [OF _ Cons(1)])
    with Cons show ?case by simp
  qed simp
  from this [OF assms(1)] this [OF assms(2)] assms(3) show ?thesis by simp
qed

text \<open>The identifiers of the listed results are distinct.\<close>

lemma results_distinct:
  assumes "service_list_results R run_id w = (Inr rs, w')" and "rows_canonical (db w)"
  shows "distinct (map res_execution_id rs)"
proof -
  from assms(1) obtain c w1 rs0 w2 where c: "load_required_context R run_id w = (Inr c, w1)"
    and l: "list_external_results run_id w1 = (Inr rs0, w2)"
    and rs: "for_each (reload_result R) rs0 w2 = (Inr rs, w')"
    unfolding service_list_results_def repo_list_results_def by (elim bind_InrE) blast
  have w1: "w1 = w" using load_required_context_InrD [OF c] by blast
  obtain u w3 ids w4 os w5 where u: "lift (require_non_empty_str (JStr run_id) ''run_id'') w = (Inr u, w3)"
    and ids: "read_db (\<lambda>d. map fst (sort_key (\<lambda>(i, row). (row_created_at row, i))
       (filter (\<lambda>(i, row). row_run_id row = u) (external_results d)))) w3 = (Inr ids, w4)"
    and os: "for_each get_external_result ids w4 = (Inr os, w5)"
    and rs0: "ret (List.map_filter (\<lambda>r. r) os) w5 = (Inr rs0, w2)"
    using l unfolding list_external_results_def w1 by (elim bind_InrE) blast
  have w4: "w4 = w" "w3 = w" using u ids by (auto simp: lift_def split: sum.splits)
  let ?rows = "sort_key (\<lambda>(i, row). (row_created_at row, i)) (filter (\<lambda>(i, row). row_run_id row = u) (external_results (db w)))"
  have ids': "ids = map fst ?rows" using ids w4 by simp
  have rows: "distinct (map fst (external_results (db w)))" "\<And>i. i \<in> fst ` set (external_results (db w)) \<Longrightarrow> canonical i"
    using assms(2) by (auto simp: rows_canonical_def)
  have "inj_on fst (set (external_results (db w)))" "distinct (external_results (db w))"
    using rows(1) by (simp_all add: distinct_map)
  then have d: "distinct ids" unfolding ids' by (auto simp: distinct_map intro: inj_on_subset)
  have can: "\<forall>i\<in>set ids. canonical i" using rows(2) by (force simp: ids')
  have o: "list_all2 (\<lambda>i found. get_external_result i w = (Inr found, w)) ids os"
    using for_each_pure [OF _ os] get_external_result_InrD w4 by blast
  have "distinct (map res_execution_id (List.map_filter (\<lambda>r. r) os)) \<and> res_execution_id ` set (List.map_filter (\<lambda>r. r) os) \<subseteq> set ids"
    using o d can
  proof (induction rule: list_all2_induct)
    case (Cons i "is" found os)
    then show ?case
      using get_external_result_InrD [OF Cons(1)] by (cases found) (auto simp: canonical_strip)
  qed simp
  then have d0: "distinct (map res_execution_id rs0)" and can0: "\<forall>r\<in>set rs0. canonical (res_execution_id r)"
    using rs0 can by auto
  have "list_all2 (\<lambda>r r'. reload_result R r w2 = (Inr r', w2)) rs0 rs"
    using for_each_pure [OF _ rs] reload_result_InrD by blast
  then have "map res_execution_id rs = map res_execution_id rs0"
    using can0 by (induction rule: list_all2_induct) (auto simp: canonical_strip dest!: reload_result_InrD)
  with d0 show ?thesis by simp
qed

lemma dry_run_decides_alike:
  assumes "reachable R w" and "enforce_execution_dedup R" and "canonical run_id"
    and "fresh_recovery R run_id wait w = (Inr ds, w')" and "snd (outside w) = []" and "context_view (db w) run_id \<noteq> None"
  shows "\<exists>es v. dry_run_decisions R run_id wait w = (Inr es, v) \<and> mset es = mset ds \<and> db v = db w"
proof -
  note sound = reachable_sound [OF assms(1)] and pend_ok = conjunct1 [OF reachable_pending [OF assms(1,2)]]
    and rows = conjunct2 [OF reachable_pending [OF assms(1,2)]]
  let ?now = "clock R (ticks w)" and ?v = "w\<lparr>ticks := Suc (ticks w)\<rparr>" and ?C = "cli_coordinator wait"
  have w: "w\<lparr>outside := (fst (outside w), [])\<rparr> = w" using assms(5) by (cases w; cases "outside w") simp
  have "recover_run R ?C run_id None w = (Inr ds, w')"
    using assms(4) by (simp add: fresh_recovery_def bind_def w)
  then obtain ctx w1 where ctx: "repo_load_context R run_id ?v = (Inr ctx, w1)"
    and more: "(if ctx = None then ret [] else
     bind (service_list_results R run_id) (\<lambda>results.
     bind (list_pending_executions R run_id) (\<lambda>pending.
     let records = rev (map (\<lambda>r. (res_execution_id r, r)) results) in
     for_each (recover_one R ?C run_id ?now records) (sort (remdups (map fst records @ pending)))))) w1 = (Inr ds, w')"
    unfolding recover_run_def option.case by (elim bind_InrE) (auto simp: utc_now_def)
  have c: "w1 = ?v" "ctx \<noteq> None"
    using repo_load_context_InrD [OF ctx] assms(3,6) by (auto simp: canonical_strip split: option.splits)
  obtain rs w2 pend w3 where rs: "service_list_results R run_id ?v = (Inr rs, w2)"
    and pend: "list_pending_executions R run_id w2 = (Inr pend, w3)"
    and all: "for_each (recover_one R ?C run_id ?now (rev (map (\<lambda>r. (res_execution_id r, r)) rs)))
        (sort (remdups (map fst (rev (map (\<lambda>r. (res_execution_id r, r)) rs)) @ pend))) w3 = (Inr ds, w')"
    using more c by (auto simp: Let_def simp del: map_append rev_map elim!: bind_InrE)
  define records where "records = rev (map (\<lambda>r. (res_execution_id r, r)) rs)"
  define ids where "ids = map res_execution_id rs"
  have w2: "w2 = ?v" using service_list_results_InrD [OF rs] by blast
  have d: "distinct ids" unfolding ids_def by (rule results_distinct [OF rs]) (simp add: rows)
  have "list_all canonical pend \<and> set pend \<subseteq> recorded (db w) run_id"
    using pending_recorded [OF pend] sound pend_ok assms(3) w2 by (simp add: canonical_strip)
  then have "set pend \<subseteq> set ids"
    using results_complete [OF rs] assms(3) by (auto simp: ids_def list_all_iff canonical_strip)
  moreover have keys: "map fst records = rev ids" by (simp add: records_def ids_def rev_map comp_def)
  ultimately have order: "mset (sort (remdups (map fst records @ pend))) = mset ids"
    using d set_eq_iff_mset_eq_distinct [of "remdups (rev ids @ pend)" ids] by (simp add: sup.absorb1)
  have found: "map_of records (res_execution_id r) = Some r" if "r \<in> set rs" for r
    using that d keys by (intro map_of_is_SomeI) (simp_all add: records_def ids_def)
  have "set (sort (remdups (map fst records @ pend))) = set ids" using order by (metis set_mset_mset)
  then have dom: "set (sort (remdups (map fst records @ pend))) \<subseteq> dom (map_of records)"
    using found by (auto simp: ids_def)
  have rec: "list_all2 (decided wait run_id ?now records) (sort (remdups (map fst records @ pend))) ds"
    using silent_recover_each [OF all [folded records_def] dom] .
  have "\<exists>d. decided wait run_id ?now records (res_execution_id r) d" if "r \<in> set rs" for r
  proof -
    have "res_execution_id r \<in> set (sort (remdups (map fst records @ pend)))"
      using that keys by (simp add: ids_def)
    then show ?thesis using list_all2_setD1 [OF rec] by blast
  qed
  from decide_each [OF this found] obtain es where
    es: "for_each (\<lambda>r. lift (decide wait run_id (res_execution_id r) r ?now)) rs ?v = (Inr es, ?v)"
      "list_all2 (decided wait run_id ?now records) ids es"
    unfolding ids_def by blast
  have "dry_run_decisions R run_id wait w = (Inr es, ?v)"
    by (simp add: dry_run_decisions_def bind_def utc_now_def rs w2 es(1))
  moreover have "mset es = mset ds" by (rule decided_mset [OF es(2) rec order [symmetric]])
  ultimately show ?thesis by auto
qed

end
