(* ===== verification/Adapters.thy ===== *)
theory Adapters
  imports Cli
begin

text \<open>
  \<open>adapters/decorators.py\<close> and \<open>adapters/langchain_adaptor.py\<close>: the wrappers that put a function of an
  agent library on top of the runtime. A wrapped function is an action, its keyword arguments are
  JSON values; the service it is given is the runtime of the model.
\<close>

section \<open>Starting the run\<close>

definition start_message :: json where
  "start_message = JObj [(''role'', JStr ''user''), (''content'', JStr ''start'')]"

definition check_default_items :: "json list \<Rightarrow> unit res" where
  "check_default_items default_plan_items =
     (if default_plan_items = [] then value_error ''default_plan_items cannot be empty'' else Inr ())"

text \<open>The wrapper: \<open>JNull\<close> stands for an argument that is not given.\<close>

definition ensure_run_started :: "runtime \<Rightarrow> string \<Rightarrow> json list \<Rightarrow> json \<Rightarrow> json \<Rightarrow> ('t, 'a) op \<Rightarrow> ('t, 'a) op" where
  "ensure_run_started R default_plan_source_text default_plan_items run_id_arg initial_messages func =
     (case run_id_arg of
        JStr run_id \<Rightarrow>
          if strip run_id = [] then raise (Exn ValueError ''run_id must be provided as a non-empty string'') else
          bind (repo_load_plan R run_id) (\<lambda>planner_state.
          bind (if planner_state \<noteq> None then ret () else
            (case (if initial_messages = JNull then JList [start_message] else initial_messages) of
               JList messages \<Rightarrow>
                 bind (start_run R run_id messages default_plan_source_text default_plan_items None False None) (\<lambda>_. ret ())
             | _ \<Rightarrow> raise (Exn ValueError ''initial_messages must be a list of message objects''))) (\<lambda>_. func))
      | _ \<Rightarrow> raise (Exn ValueError ''run_id must be provided as a non-empty string''))"

section \<open>Wrapped tools\<close>

record tool_policy =
  pol_is_read_only :: bool
  pol_is_concurrency_safe :: bool
  pol_requires_permission :: bool
  pol_permission_label :: "string option"

definition adapter_execution_id :: "runtime \<Rightarrow> string \<Rightarrow> string \<Rightarrow> string \<Rightarrow> dict \<Rightarrow> string option \<Rightarrow> string" where
  "adapter_execution_id R run_id plan_item_id tool_name arguments invocation_key =
     build_execution_id R run_id plan_item_id tool_name arguments invocation_key"

definition build_message_id :: "runtime \<Rightarrow> string \<Rightarrow> string \<Rightarrow> string \<Rightarrow> int \<Rightarrow> string" where
  "build_message_id R run_id role content index_hint =
     ''msg_'' @ take 20 (sha256_hex R (run_id @ ''|'' @ role @ ''|'' @ int_str index_hint @ ''|'' @ content))"

definition granted :: "tool_policy \<Rightarrow> (dict \<Rightarrow> 't \<Rightarrow> json res \<times> 't) option \<Rightarrow> dict \<Rightarrow> ('t, bool) op" where
  "granted policy permission_check arguments = (if \<not> pol_requires_permission policy then ret True else
     (case permission_check of
        None \<Rightarrow> ret False
      | Some check \<Rightarrow> bind (call_tool (check arguments)) (\<lambda>v. ret (truthy v))))"

definition wrapped_call :: "string \<Rightarrow> string \<Rightarrow> string \<Rightarrow> tool_policy \<Rightarrow> dict \<Rightarrow> tool_call" where
  "wrapped_call run_id plan_item_id tool_name policy arguments =
     \<lparr>call_run_id = run_id, call_plan_item_id = plan_item_id, call_tool_name = tool_name, call_request = arguments,
      call_operation_type = (if pol_is_read_only policy then ''READ'' else ''WRITE''), call_invocation_key = None,
      call_timeout_s = None, call_idempotency_supported = False\<rparr>"

definition wrap_langchain_tool ::
  "runtime \<Rightarrow> string \<Rightarrow> string \<Rightarrow> string \<Rightarrow> (dict \<Rightarrow> 't \<Rightarrow> json res \<times> 't) \<Rightarrow> tool_policy \<Rightarrow>
   (dict \<Rightarrow> 't \<Rightarrow> json res \<times> 't) option \<Rightarrow> json \<Rightarrow> ('t, dict) op" where
  "wrap_langchain_tool R run_id plan_item_id tool_name tool_fn policy permission_check raw =
     (case raw of
        JObj arguments \<Rightarrow>
          bind (granted policy permission_check arguments) (\<lambda>ok.
          if \<not> ok then raise (Exn ToolPermissionError (''permission denied for tool: '' @
            (case pol_permission_label policy of Some l \<Rightarrow> if l = [] then tool_name else l | None \<Rightarrow> tool_name)))
          else
          bind (execute_callable R True tool_fn (wrapped_call run_id plan_item_id tool_name policy arguments)) (\<lambda>result.
          case tx_exception result of
            Some e \<Rightarrow> raise e
          | None \<Rightarrow> (case res_response_payload (tx_record result) of
              None \<Rightarrow> raise (Exn RuntimeError (''missing response payload for execution_id='' @ tx_execution_id result))
            | Some payload \<Rightarrow> ret payload)))
      | _ \<Rightarrow> raise (Exn ValueError ''tool arguments must be a dictionary''))"

section \<open>What the wrappers do\<close>

text \<open>A call that is refused permission leaves the database as it is, and so the tool uncalled.\<close>

lemma refused_call_changes_nothing:
  assumes "wrap_langchain_tool R run_id item tool f policy permission_check raw w = (Inl (Exn ToolPermissionError m), w')"
    and "granted policy permission_check arguments w = (Inr False, v)" and "raw = JObj arguments"
  shows "w' = v \<and> db w' = db w"
  using assms by (auto simp: wrap_langchain_tool_def granted_def call_tool_def bind_def split: if_splits option.splits sum.splits prod.splits)

text \<open>In a run that has a plan the wrapper adds nothing to its function.\<close>

lemma started_run_is_left_alone:
  assumes "repo_load_plan R run_id w = (Inr (Some planner), w)" and "strip run_id \<noteq> []"
  shows "ensure_run_started R txt its (JStr run_id) ms func w = func w"
  using assms by (simp add: ensure_run_started_def bind_def)

end
