(* ===== verification/Target_Cli.thy ===== *)
theory Target_Cli
  imports Mock_Target Py_Json
begin

text \<open>
  \<open>tools/mock_target_cli.py\<close>: the mock target as an external program that takes a JSON request and
  answers with JSON and an exit code. The parser of the arguments is the library's; the
  file system, the input stream and the wording of JSON errors are parameters.
\<close>

section \<open>The request\<close>

record request_source =
  request_json :: "string option"
  request_file :: "string option"
  request_stdin :: bool

record cli_env =
  read_text :: "string \<Rightarrow> string res"
  stdin_text :: string
  decode_error :: "string \<Rightarrow> string"

definition parse_json_object :: "cli_env \<Rightarrow> string \<Rightarrow> string \<Rightarrow> dict res" where
  "parse_json_object I raw field_name = (case json_loads raw of
     None \<Rightarrow> value_error (''invalid '' @ field_name @ '' JSON: '' @ decode_error I raw)
   | Some (JObj d) \<Rightarrow> Inr d
   | Some _ \<Rightarrow> value_error (field_name @ '' must be a JSON object''))"

text \<open>An empty string counts as not given.\<close>

definition given_text :: "string option \<Rightarrow> bool" where
  "given_text x = (case x of Some s \<Rightarrow> s \<noteq> [] | None \<Rightarrow> False)"

definition load_request :: "cli_env \<Rightarrow> request_source \<Rightarrow> dict res" where
  "load_request I src =
     (let sources = [given_text (request_json src), given_text (request_file src), request_stdin src] in
      if length (filter (\<lambda>b. b) sources) \<noteq> 1
        then value_error ''Provide exactly one request source: --request-json, --request-file, or --request-stdin''
      else rbind (if given_text (request_json src) then Inr (the (request_json src))
          else if given_text (request_file src) then read_text I (the (request_file src))
          else Inr (stdin_text I)) (\<lambda>raw. parse_json_object I raw ''request''))"

section \<open>The commands\<close>

text \<open>What is printed: the answer on the output stream or a message on the error stream.\<close>

datatype target_output = Answer dict | Message string

definition exit_ok :: int where "exit_ok = 0"
definition exit_invalid_request :: int where "exit_invalid_request = 2"
definition exit_not_found :: int where "exit_not_found = 3"
definition exit_internal_error :: int where "exit_internal_error = 5"

definition answer_ok :: "dict target_op \<Rightarrow> (int \<times> dict) target_op" where
  "answer_ok m = bind m (\<lambda>response. ret (exit_ok, response))"

text \<open>The commands that take a request; \<open>init-store\<close> and \<open>health\<close> come before it is read.\<close>

definition request_command :: "target_env \<Rightarrow> string \<Rightarrow> dict \<Rightarrow> (int \<times> dict) target_op option" where
  "request_command E command request =
     (let str_arg = (\<lambda>k. lift (require_str_field E request k)); dict_arg = (\<lambda>k. lift (require_dict_field request k)) in
      if command = ''apply-action'' then Some (answer_ok (
        bind (str_arg ''action_name'') (\<lambda>a. bind (dict_arg ''payload'') (\<lambda>p.
        apply_action E a p (case dict_get request ''execution_id'' of
            JStr i \<Rightarrow> Some i | JTime t \<Rightarrow> Some (iso_text (target_forms E) t) | _ \<Rightarrow> None)))))
      else if command = ''apply-idempotent'' then Some (answer_ok (
        bind (str_arg ''action_name'') (\<lambda>a. bind (dict_arg ''payload'') (\<lambda>p. bind (str_arg ''execution_id'') (\<lambda>i.
        apply_idempotent_action E a p i)))))
      else if command = ''apply-rifl'' then Some (answer_ok (
        bind (str_arg ''action_name'') (\<lambda>a. bind (dict_arg ''payload'') (\<lambda>p. bind (str_arg ''execution_id'') (\<lambda>i.
        apply_rifl_action E a p i)))))
      else if command = ''probe-rifl'' then Some (
        bind (str_arg ''execution_id'') (\<lambda>i. bind (probe_rifl_execution E i) (\<lambda>response.
        ret (if truthy (dict_get response ''found'') then exit_ok else exit_not_found, response))))
      else if command = ''apply-queryable-distinguishable'' then Some (answer_ok (
        bind (str_arg ''action_name'') (\<lambda>a. bind (dict_arg ''payload'') (\<lambda>p. apply_queryable_distinguishable E a p))))
      else if command = ''increment-counter'' then Some (answer_ok (
        bind (str_arg ''counter_name'') (\<lambda>c. increment_counter E c (dict_get_or request ''delta'' (JInt 1)))))
      else if command = ''query-state'' then Some (answer_ok (
        bind (str_arg ''query_name'') (\<lambda>q. bind (dict_arg ''payload'') (\<lambda>p. query_state E q p))))
      else if command = ''get-action'' then Some (
        bind (str_arg ''execution_id'') (\<lambda>i. bind (get_action_by_execution_id E i) (\<lambda>rec.
        if rec = JNull then ret (exit_not_found, [(''found'', JBool False), (''record'', JNull)])
        else ret (exit_ok, [(''found'', JBool True), (''record'', rec)]))))
      else None)"

definition target_body :: "target_env \<Rightarrow> cli_env \<Rightarrow> string \<Rightarrow> request_source \<Rightarrow> (int \<times> target_output) target_op" where
  "target_body E I command src =
     (if command = ''init-store'' then
        bind (target_init E) (\<lambda>_. ret (exit_ok, Answer [(''status'', JStr ''ok''), (''store_path'', JStr (target_path E))]))
      else if command = ''health'' then bind (target_health E) (\<lambda>response. ret (exit_ok, Answer response))
      else bind (lift (load_request I src)) (\<lambda>request. case request_command E command request of
          Some m \<Rightarrow> bind m (\<lambda>(code, response). ret (code, Answer response))
        | None \<Rightarrow> ret (exit_invalid_request, Message (''unsupported command: '' @ command))))"

definition target_run :: "target_env \<Rightarrow> cli_env \<Rightarrow> string \<Rightarrow> request_source \<Rightarrow> (int \<times> target_output) target_op" where
  "target_run E I command src s = (case target_body E I command src s of
     (Inr answer, s') \<Rightarrow> (Inr answer, s')
   | (Inl e, s') \<Rightarrow>
       if exn_class e = ValueError then (Inr (exit_invalid_request, Message (exn_text e)), s')
       else if is_exception e then (Inr (exit_internal_error, Message (''internal error: '' @ exn_text e)), s')
       else (Inl e, s'))"

section \<open>The program and the MCP routing answer alike\<close>

definition command_tools :: "(string \<times> string) list" where
  "command_tools = [
     (''apply-action'', ''mock_target_apply_action''), (''apply-idempotent'', ''mock_target_apply_idempotent_action''),
     (''apply-rifl'', ''mock_target_apply_rifl_action''), (''probe-rifl'', ''mock_target_probe_rifl_execution''),
     (''apply-queryable-distinguishable'', ''mock_target_apply_queryable_distinguishable''),
     (''increment-counter'', ''mock_target_increment_counter''), (''query-state'', ''mock_target_query_state''),
     (''get-action'', ''mock_target_get_action'')]"

definition exit_code_of :: "string \<Rightarrow> dict \<Rightarrow> int" where
  "exit_code_of command response = (if command \<in> {''probe-rifl'', ''get-action''} \<and> \<not> truthy (dict_get response ''found'')
     then exit_not_found else exit_ok)"

lemma bind_assoc: "bind (bind m f) g = bind m (\<lambda>x. bind (f x) g)"
  by (rule ext) (auto simp: bind_def split: prod.splits sum.splits)

lemma bind_ret: "bind (ret x) f = f x"
  by (rule ext) (simp add: bind_def)

definition answers_as :: "target_env \<Rightarrow> dict \<Rightarrow> string \<times> string \<Rightarrow> bool" where
  "answers_as E request p \<longleftrightarrow> request_command E (fst p) request =
    Some (bind (handle_mcp_tool_call E (snd p) request) (\<lambda>response. ret (exit_code_of (fst p) response, response)))"

lemma exit_codes:
  "exit_code_of ''apply-action'' r = exit_ok" "exit_code_of ''apply-idempotent'' r = exit_ok"
  "exit_code_of ''apply-rifl'' r = exit_ok" "exit_code_of ''apply-queryable-distinguishable'' r = exit_ok"
  "exit_code_of ''increment-counter'' r = exit_ok" "exit_code_of ''query-state'' r = exit_ok"
  "exit_code_of ''probe-rifl'' r = (if truthy (dict_get r ''found'') then exit_ok else exit_not_found)"
  "exit_code_of ''get-action'' r = (if truthy (dict_get r ''found'') then exit_ok else exit_not_found)"
  by (simp_all add: exit_code_of_def)

lemma plain_commands_answer:
  "answers_as E request (''apply-action'', ''mock_target_apply_action'')"
  "answers_as E request (''apply-idempotent'', ''mock_target_apply_idempotent_action'')"
  "answers_as E request (''apply-rifl'', ''mock_target_apply_rifl_action'')"
  "answers_as E request (''apply-queryable-distinguishable'', ''mock_target_apply_queryable_distinguishable'')"
  "answers_as E request (''increment-counter'', ''mock_target_increment_counter'')"
  "answers_as E request (''query-state'', ''mock_target_query_state'')"
  "answers_as E request (''probe-rifl'', ''mock_target_probe_rifl_execution'')"
  by (simp_all add: answers_as_def request_command_def handle_mcp_tool_call_def Let_def answer_ok_def bind_assoc exit_codes)

lemma get_action_answers: "answers_as E request (''get-action'', ''mock_target_get_action'')"
proof -
  have "bind (get_action_by_execution_id E i) (\<lambda>rec.
        if rec = JNull then ret (exit_not_found, [(''found'', JBool False), (''record'', JNull)])
        else ret (exit_ok, [(''found'', JBool True), (''record'', rec)])) =
      bind (get_action_by_execution_id E i) (\<lambda>rec. bind (ret [(''found'', JBool (rec \<noteq> JNull)), (''record'', rec)])
        (\<lambda>response. ret (if truthy (dict_get response ''found'') then exit_ok else exit_not_found, response)))" for i
    by (rule arg_cong [where f = "bind (get_action_by_execution_id E i)"], rule ext, rule ext) (auto simp: bind_def)
  then show ?thesis
    by (simp add: answers_as_def request_command_def handle_mcp_tool_call_def Let_def bind_assoc exit_codes)
qed

lemma command_answers_as_tool:
  "list_all (answers_as E request) command_tools"
  by (simp add: command_tools_def plain_commands_answer get_action_answers)

end
