(* ===== verification/System_Runs.thy ===== *)
theory System_Runs
  imports Open_Executions
begin

text \<open>
  The runs of the whole system on one database: facade operations, tool calls and recoveries. Each
  step is a run of the facade, so that what every run of the facade keeps holds of them.
\<close>

text \<open>
  One step of the system on one database: an operation of the facade, a tool call of the
  transaction manager with whatever adapter, or a recovery with whatever verifier and callback,
  in any order and any number, each with its own outcome. A crash is the end of the steps of one
  process; what follows it are the steps of the next.
\<close>

inductive system_step :: "runtime \<Rightarrow> 't beside world \<Rightarrow> 't beside world \<Rightarrow> bool" for R where
  operation: "facade_step R w w' \<Longrightarrow> system_step R w w'"
| call: "canonical (call_run_id c) \<Longrightarrow> canonical (call_execution_id R c) \<Longrightarrow>
    system_step R w (snd (execute_tool R dispatch_reads adapter c w))"
| recovery: "canonical run_id \<Longrightarrow> system_step R w (snd (recover_run R C run_id now w))"

definition system_reachable :: "runtime \<Rightarrow> 't beside world \<Rightarrow> bool" where
  "system_reachable R w \<longleftrightarrow> (\<exists>w0. db w0 = empty_db \<and> \<not> conn_open w0 \<and> (system_step R)\<^sup>*\<^sup>* w0 w)"

text \<open>Each step of the system is a run of the facade.\<close>

lemma system_step_run:
  assumes "system_step R w w'" and "contexts_ok (db w)"
  shows "(facade_step R)\<^sup>*\<^sup>* w w'"
  using assms
proof (induction rule: system_step.induct)
  case (operation w w')
  then show ?case by blast
next
  case (call c w dispatch_reads adapter)
  then show ?case
    by (intro confinedD [OF execute_tool_run [OF call(1,2)]]) (rule surjective_pairing)
next
  case (recovery run_id w C now)
  then show ?case by (intro recover_run_run [OF surjective_pairing])
qed

lemma reachable_contexts: "reachable R w \<Longrightarrow> contexts_ok (db w)"
  using reachable_sound by (auto simp: sound_db_def)

lemma system_steps_reachable: "(system_step R)\<^sup>*\<^sup>* w w' \<Longrightarrow> reachable R w \<Longrightarrow> reachable R w'"
  by (induction rule: rtranclp_induct) (auto intro: reachable_run system_step_run reachable_contexts)

lemma reachable_start: "db w = empty_db \<Longrightarrow> \<not> conn_open w \<Longrightarrow> reachable R w"
  unfolding reachable_def by blast

lemma system_reachable_reachable: "system_reachable R w \<Longrightarrow> reachable R w"
  by (auto simp: system_reachable_def intro: system_steps_reachable reachable_start)

lemma confined_snd: "confined Q m \<Longrightarrow> Q w (snd (m w))"
  by (simp add: confined_def)

lemma log_grows_run: "(facade_step R)\<^sup>*\<^sup>* w w' \<Longrightarrow> log_grows w w'"
proof (induction rule: rtranclp_induct)
  case (step y z)
  from step(2) have "log_grows y z"
    by (induction rule: facade_step.induct) (rule confined_snd, rule facade_effect | simp add: log_grows_def)+
  with step(3) show ?case by (rule grows.chains)
qed (rule grows.stays)

lemma system_reachable_steps: "system_reachable R w \<Longrightarrow> (system_step R)\<^sup>*\<^sup>* w w' \<Longrightarrow> system_reachable R w'"
  unfolding system_reachable_def by (meson rtranclp_trans)

lemma reachable_closed: "reachable R w \<Longrightarrow> \<not> conn_open w"
  by (rule conjunct2 [OF conjunct2 [OF reachable_induct [where P = "\<lambda>_. True"]]]) auto

end
