(* ===== verification/Execution_Machine.thy ===== *)
theory Execution_Machine
  imports System_Runs
begin

text \<open>
  What the whole system does to the executions, as an abstract machine: a table from identifiers to the
  run and the status of an execution. Every step of the system is a run of the machine on the
  table read off the database, so that what the machine cannot do, the system cannot do.
\<close>

section \<open>The machine\<close>

type_synonym execution_table = "string \<Rightarrow> (string \<times> execution_status) option"

text \<open>An execution is opened in some run, or moves to a status its own status allows.\<close>

inductive machine_step :: "execution_table \<Rightarrow> execution_table \<Rightarrow> bool" where
  opened: "m i = None \<Longrightarrow> machine_step m (m(i \<mapsto> (r, s)))"
| moved: "m i = Some (r, s) \<Longrightarrow> s' \<in> allowed_transitions s \<Longrightarrow> machine_step m (m(i \<mapsto> (r, s')))"

text \<open>The table in a database.\<close>

definition execution_table :: "db \<Rightarrow> execution_table" where
  "execution_table d i = map_option (\<lambda>row. (strip (row_run_id row), row_execution_status row)) (map_of (external_results d) i)"

lemma table_empty [simp]: "execution_table empty_db = (\<lambda>_. None)"
  by (simp add: execution_table_def empty_db_def fun_eq_iff)

section \<open>The simulation\<close>

lemma exec_step_machine:
  assumes "exec_step r e s d d'" and "canonical r"
  shows "machine_step\<^sup>=\<^sup>= (execution_table d) (execution_table d')"
proof -
  obtain row where row: "external_results d' = AList.update e row (external_results d)" "row_run_id row = r" "row_execution_status row = s"
    using assms(1) unfolding exec_step_def logs_status_def by blast
  then have t: "execution_table d' = (execution_table d)(e \<mapsto> (r, s))"
    using assms(2) by (auto simp: execution_table_def fun_eq_iff update_conv canonical_strip)
  show ?thesis
  proof (cases "map_of (external_results d) e")
    case None
    then have "execution_table d e = None" by (simp add: execution_table_def)
    then show ?thesis unfolding t by (intro sup2I1 machine_step.opened)
  next
    case (Some row0)
    then have old: "execution_table d e = Some (r, row_execution_status row0)" "s \<in> insert (row_execution_status row0) (allowed_transitions (row_execution_status row0))"
      using assms(1) by (auto simp: execution_table_def exec_step_def)
    show ?thesis
    proof (cases "s = row_execution_status row0")
      case True
      then show ?thesis unfolding t using old(1) by (simp add: fun_upd_idem)
    next
      case False
      then show ?thesis unfolding t using old by (intro sup2I1 machine_step.moved) auto
    qed
  qed
qed

lemma idle_table: "confined same_tools m \<Longrightarrow> execution_table (db (snd (m w))) = execution_table (db w)"
  by (simp add: confined_def same_tools_def execution_table_def fun_eq_iff)

lemma facade_step_machine:
  assumes "facade_step R w w'" and "\<not> conn_open w" and "enforce_execution_dedup R"
  shows "machine_step\<^sup>=\<^sup>= (execution_table (db w)) (execution_table (db w'))"
proof -
  have tool: "machine_step\<^sup>=\<^sup>= (execution_table (db w)) (execution_table d')"
    if "d' = db w \<or> (\<exists>s. exec_step r e s (db w) d')" "canonical r" for d' r e
    using that exec_step_machine by blast
  show ?thesis
    using assms(1)
  proof (cases rule: facade_step.cases)
    case (intent r e i tn rq ot)
    with tool [OF tool_steps(1) [OF assms(2) _ _ assms(3)]] show ?thesis by blast
  next
    case (dispatch r e)
    with tool [OF tool_steps(2) [OF assms(2)]] show ?thesis by blast
  next
    case (outcome r e rep)
    with tool [OF tool_steps(3) [OF assms(2)]] show ?thesis by blast
  qed (simp_all add: idle_table idle_facade execution_table_def fun_eq_iff)
qed

lemma facade_run_machine:
  assumes "(facade_step R)\<^sup>*\<^sup>* w w'" and "\<not> conn_open w" and "enforce_execution_dedup R"
  shows "machine_step\<^sup>*\<^sup>* (execution_table (db w)) (execution_table (db w')) \<and> \<not> conn_open w'"
  using assms(1)
proof (induction rule: rtranclp_induct)
  case (step y z)
  then have "machine_step\<^sup>=\<^sup>= (execution_table (db y)) (execution_table (db z))"
    using facade_step_machine [OF step(2) _ assms(3)] by blast
  then have "machine_step\<^sup>*\<^sup>* (execution_table (db y)) (execution_table (db z))" by (elim sup2E) auto
  with step show ?case using facade_step_closed by (meson rtranclp_trans)
qed (simp add: assms(2))

lemma system_run_machine:
  assumes "(system_step R)\<^sup>*\<^sup>* w w'" and "reachable R w" and "enforce_execution_dedup R"
  shows "machine_step\<^sup>*\<^sup>* (execution_table (db w)) (execution_table (db w'))"
  using assms(1)
proof (induction rule: rtranclp_induct)
  case (step y z)
  from step(1) assms(2) have y: "reachable R y" by (rule system_steps_reachable)
  from facade_run_machine [OF system_step_run [OF step(2) reachable_contexts [OF y]] reachable_closed [OF y] assms(3)] step(3)
  show ?case by (meson rtranclp_trans)
qed simp

section \<open>What the machine cannot do\<close>

text \<open>Statuses that are never left for a status outside.\<close>

definition closed_under_moves :: "execution_status set \<Rightarrow> bool" where
  "closed_under_moves S \<longleftrightarrow> (\<forall>s\<in>S. allowed_transitions s \<subseteq> S)"

lemma machine_keeps:
  assumes "machine_step\<^sup>*\<^sup>* m m'" and "closed_under_moves S" and "m i = Some (r, s)" and "s \<in> S"
  shows "\<exists>s'\<in>S. m' i = Some (r, s')"
  using assms(1)
proof (induction rule: rtranclp_induct)
  case (step y z)
  then obtain s' where s': "s' \<in> S" "y i = Some (r, s')" by blast
  from step(2) s' assms(2) show ?case
    by (cases rule: machine_step.cases) (auto simp: closed_under_moves_def)
qed (use assms(3,4) in blast)

lemma committed_closed: "closed_under_moves {ACKED, VERIFIED_COMMITTED}"
  by (simp add: closed_under_moves_def)

lemma anything_closed: "closed_under_moves UNIV"
  by (simp add: closed_under_moves_def)

end
