(* ===== verification/Target_Mcp.thy ===== *)
theory Target_Mcp
  imports Mock_Target
begin

text \<open>
  \<open>tools/mock_target_mcp.py\<close>: the mock target as an MCP server. The MCP library is a parameter: whether it is
  installed, and a call of a registered tool with arguments of the types its signature asks for.
\<close>

section \<open>The registered tools\<close>

text \<open>A call of a tool, one constructor per registered function, with its typed arguments.\<close>

datatype mcp_call =
    Apply_Action string dict "string option"
  | Apply_Idempotent string dict string
  | Apply_Rifl string dict string
  | Probe_Rifl string
  | Apply_Distinguishable string dict
  | Increment_Counter string "(int + pyfloat) option"
  | Query_State string dict
  | Get_Action string
  | Health

fun mcp_tool_name :: "mcp_call \<Rightarrow> string" where
  "mcp_tool_name (Apply_Action _ _ _) = ''mock_target_apply_action''"
| "mcp_tool_name (Apply_Idempotent _ _ _) = ''mock_target_apply_idempotent_action''"
| "mcp_tool_name (Apply_Rifl _ _ _) = ''mock_target_apply_rifl_action''"
| "mcp_tool_name (Probe_Rifl _) = ''mock_target_probe_rifl_execution''"
| "mcp_tool_name (Apply_Distinguishable _ _) = ''mock_target_apply_queryable_distinguishable''"
| "mcp_tool_name (Increment_Counter _ _) = ''mock_target_increment_counter''"
| "mcp_tool_name (Query_State _ _) = ''mock_target_query_state''"
| "mcp_tool_name (Get_Action _) = ''mock_target_get_action''"
| "mcp_tool_name Health = ''mock_target_health''"

text \<open>The arguments as the caller writes them.\<close>

definition number_json :: "int + pyfloat \<Rightarrow> json" where
  "number_json n = (case n of Inl i \<Rightarrow> JInt i | Inr f \<Rightarrow> JFloat f)"

fun mcp_arguments :: "mcp_call \<Rightarrow> dict" where
  "mcp_arguments (Apply_Action a p i) = [(''action_name'', JStr a), (''payload'', JObj p), (''execution_id'', jopt JStr i)]"
| "mcp_arguments (Apply_Idempotent a p i) = [(''action_name'', JStr a), (''payload'', JObj p), (''execution_id'', JStr i)]"
| "mcp_arguments (Apply_Rifl a p i) = [(''action_name'', JStr a), (''payload'', JObj p), (''execution_id'', JStr i)]"
| "mcp_arguments (Probe_Rifl i) = [(''execution_id'', JStr i)]"
| "mcp_arguments (Apply_Distinguishable a p) = [(''action_name'', JStr a), (''payload'', JObj p)]"
| "mcp_arguments (Increment_Counter c d) = (''counter_name'', JStr c) # (case d of None \<Rightarrow> [] | Some n \<Rightarrow> [(''delta'', number_json n)])"
| "mcp_arguments (Query_State q p) = [(''query_name'', JStr q), (''payload'', JObj p)]"
| "mcp_arguments (Get_Action i) = [(''execution_id'', JStr i)]"
| "mcp_arguments Health = []"

text \<open>What the registered function does: it passes its arguments to the service.\<close>

fun serve_mcp_call :: "target_env \<Rightarrow> mcp_call \<Rightarrow> dict target_op" where
  "serve_mcp_call E (Apply_Action a p i) = apply_action E a p i"
| "serve_mcp_call E (Apply_Idempotent a p i) = apply_idempotent_action E a p i"
| "serve_mcp_call E (Apply_Rifl a p i) = apply_rifl_action E a p i"
| "serve_mcp_call E (Probe_Rifl i) = probe_rifl_execution E i"
| "serve_mcp_call E (Apply_Distinguishable a p) = apply_queryable_distinguishable E a p"
| "serve_mcp_call E (Increment_Counter c d) = increment_counter E c (case d of None \<Rightarrow> JInt 1 | Some n \<Rightarrow> number_json n)"
| "serve_mcp_call E (Query_State q p) = query_state E q p"
| "serve_mcp_call E (Get_Action i) = bind (get_action_by_execution_id E i) (\<lambda>rec.
     ret [(''found'', JBool (rec \<noteq> JNull)), (''record'', rec)])"
| "serve_mcp_call E Health = target_health E"

definition create_mcp_server :: "bool \<Rightarrow> target_env \<Rightarrow> (mcp_call \<Rightarrow> dict target_op) res" where
  "create_mcp_server installed E = (if \<not> installed
     then Inl (Exn RuntimeError ''The `mcp` package is not installed. Install it to run MCP stdio server.'')
     else Inr (serve_mcp_call E))"

text \<open>The exit code of the program; \<open>served\<close> is the run of the server until its input ends.\<close>

definition mcp_server_run :: "bool \<Rightarrow> target_env \<Rightarrow> ((mcp_call \<Rightarrow> dict target_op) \<Rightarrow> unit target_op) \<Rightarrow> int target_op" where
  "mcp_server_run installed E served = (if \<not> installed then ret 2 else
     bind (lift (create_mcp_server installed E)) (\<lambda>server. bind (served server) (\<lambda>_. ret 0)))"

section \<open>The server and the router agree\<close>

text \<open>The texts the router of \<open>mock_target.py\<close> asks to be there.\<close>

fun mcp_texts :: "mcp_call \<Rightarrow> string list" where
  "mcp_texts (Apply_Action a _ _) = [a]"
| "mcp_texts (Apply_Idempotent a _ i) = [a, i]"
| "mcp_texts (Apply_Rifl a _ i) = [a, i]"
| "mcp_texts (Probe_Rifl i) = [i]"
| "mcp_texts (Apply_Distinguishable a _) = [a]"
| "mcp_texts (Increment_Counter c _) = [c]"
| "mcp_texts (Query_State q _) = [q]"
| "mcp_texts (Get_Action i) = [i]"
| "mcp_texts Health = []"

text \<open>
  A call whose texts are not empty is answered by the server exactly as by \<open>handle_mcp_tool_call\<close>; the router
  refuses the others, the server passes them on.
\<close>

lemma mcp_server_answers_as_router:
  assumes "[] \<notin> set (mcp_texts c)"
  shows "handle_mcp_tool_call E (mcp_tool_name c) (mcp_arguments c) = serve_mcp_call E c"
  using assms
  by (cases c) (auto simp: handle_mcp_tool_call_def Let_def require_str_field_def require_dict_field_def dict_get_def
      dict_get_or_def fun_eq_iff split: option.splits)

lemma router_refuses_empty_text:
  assumes "[] \<in> set (mcp_texts c)"
  shows "isl (fst (handle_mcp_tool_call E (mcp_tool_name c) (mcp_arguments c) s))"
  using assms
  by (cases c) (auto simp: handle_mcp_tool_call_def Let_def require_str_field_def require_dict_field_def bind_def
      split: sum.splits if_splits)

end
