(* ===== verification/Llm_Client.thy ===== *)
theory Llm_Client
  imports Mock_Agent Py_Json
begin

text \<open>
  \<open>tools/real_llm_api.py\<close>: the client that asks a remote model for one turn, over whatever answers the
  network gives, and the check of its answer. Every way of making a turn gives a well-formed one.
\<close>

section \<open>\<open>json.dumps\<close> with its default separators\<close>

text \<open>With sorted keys or in the order of the dict.\<close>

fun json_spaced :: "text_forms \<Rightarrow> bool \<Rightarrow> json \<Rightarrow> string" where
  "json_spaced T srt (JList xs) = ''['' @ join '', '' (map (json_spaced T srt) xs) @ '']''"
| "json_spaced T srt (JObj d) = ''{'' @ join '', ''
     (map (\<lambda>(k, s). quote_str k @ '': '' @ s)
       ((if srt then sort_key fst else (\<lambda>es. es)) (map (\<lambda>(k, v). (k, json_spaced T srt v)) d))) @ ''}''"
| "json_spaced T srt v = json_dumps T v"

section \<open>The client\<close>

record llm_client =
  llm_endpoint :: string
  llm_model_name :: string
  llm_api_key_env :: "string option"
  llm_timeout_seconds :: int
  llm_extra_headers :: "(string \<times> string) list"
  llm_calls :: int
  llm_last_status :: "string option"

definition real_llm_error :: "string \<Rightarrow> exn" where
  "real_llm_error msg = Exn RealLLMAPIError msg"

definition llm_client_init ::
  "string \<Rightarrow> string \<Rightarrow> string option \<Rightarrow> int \<Rightarrow> (string \<times> string) list \<Rightarrow> llm_client res" where
  "llm_client_init endpoint model_name api_key_env timeout_seconds extra_headers =
     (if strip endpoint = [] then value_error ''endpoint must be a non-empty string''
      else if strip model_name = [] then value_error ''model_name must be a non-empty string''
      else if timeout_seconds \<le> 0 then value_error ''timeout_seconds must be > 0''
      else Inr \<lparr>llm_endpoint = endpoint, llm_model_name = model_name, llm_api_key_env = api_key_env,
        llm_timeout_seconds = timeout_seconds, llm_extra_headers = extra_headers, llm_calls = 0, llm_last_status = None\<rparr>)"

text \<open>
  The process environment and the network are arguments: a request is its address, headers, body
  and timeout; the answer is a text, an HTTP or a URL error, or some other exception. The network
  has a state of its own.
\<close>

datatype http_answer = Http_Text string | Http_Error int string | Url_Error string | Http_Raises exn

type_synonym 'n network = "string \<Rightarrow> (string \<times> string) list \<Rightarrow> string \<Rightarrow> int \<Rightarrow> 'n \<Rightarrow> http_answer \<times> 'n"

record 'n llm_env =
  env_var :: "string \<Rightarrow> string option"
  network :: "'n network"
  llm_forms :: text_forms

definition chat_message_to_dict :: "chat_message \<Rightarrow> dict" where
  "chat_message_to_dict m = [(''role'', JStr (chat_role m)), (''content'', JStr (chat_content m)),
     (''name'', jopt JStr (chat_name m)), (''tool_call_id'', jopt JStr (chat_tool_call_id m))]"

definition tool_to_dict :: "tool_definition \<Rightarrow> dict" where
  "tool_to_dict t = [(''name'', JStr (td_name t)), (''description'', JStr (td_description t)),
     (''input_schema'', JObj (td_input_schema t)), (''side_effecting'', JBool (td_side_effecting t))]"

definition turn_context_to_dict :: "turn_request \<Rightarrow> dict" where
  "turn_context_to_dict r = [(''run_id'', JStr (turn_run_id r)), (''step_index'', JInt (turn_step_index r)),
     (''metadata'', JObj (turn_metadata r))]"

definition request_to_payload :: "turn_request \<Rightarrow> dict" where
  "request_to_payload r = [
     (''messages'', JList (map (\<lambda>m. JObj (chat_message_to_dict m)) (turn_messages r))),
     (''available_tools'', JList (map (\<lambda>t. JObj (tool_to_dict t)) (turn_available_tools r))),
     (''context'', JObj (turn_context_to_dict r)), (''max_output_tokens'', JInt (turn_max_output_tokens r)),
     (''temperature'', JFloat (turn_temperature r))]"

text \<open>The headers: the content type, then what the caller adds or replaces, then the key.\<close>

definition llm_headers :: "'n llm_env \<Rightarrow> llm_client \<Rightarrow> (string \<times> string) list res" where
  "llm_headers E C =
     (let headers = foldl (\<lambda>h (k, v). AList.update k v h) [(''Content-Type'', ''application/json'')] (llm_extra_headers C) in
      case llm_api_key_env C of
        None \<Rightarrow> Inr headers
      | Some name \<Rightarrow> (case env_var E name of
            None \<Rightarrow> Inl (real_llm_error (''missing API key environment variable: '' @ name))
          | Some token \<Rightarrow> if strip token = [] then Inl (real_llm_error (''missing API key environment variable: '' @ name))
              else Inr (AList.update ''Authorization'' (''Bearer '' @ token) headers)))"

definition read_answer :: "http_answer \<Rightarrow> dict res" where
  "read_answer a = (case a of
     Http_Raises e \<Rightarrow> Inl e
   | Http_Error code detail \<Rightarrow> Inl (real_llm_error (''LLM HTTP error '' @ int_str code @ '': '' @ detail))
   | Url_Error reason \<Rightarrow> Inl (real_llm_error (''LLM request failed: '' @ reason))
   | Http_Text raw \<Rightarrow> (case json_loads raw of
       None \<Rightarrow> Inl (real_llm_error ''LLM response is not valid JSON'')
     | Some (JObj parsed) \<Rightarrow> Inr parsed
     | Some _ \<Rightarrow> Inl (real_llm_error ''LLM response must be a JSON object'')))"

definition post_json :: "'n llm_env \<Rightarrow> dict \<Rightarrow> (llm_client \<times> 'n, dict) act" where
  "post_json E payload = (\<lambda>(C, n). case llm_headers E C of
     Inl e \<Rightarrow> (Inl e, (C, n))
   | Inr headers \<Rightarrow> (case network E (llm_endpoint C) headers (json_spaced (llm_forms E) False (JObj payload)) (llm_timeout_seconds C) n of
       (answer, n') \<Rightarrow> (read_answer answer, (C, n'))))"

text \<open>\<open>_parse_operation_type\<close> of this module, its error wrapped by the caller.\<close>

definition parse_remote_operation :: "json \<Rightarrow> operation_type res" where
  "parse_remote_operation raw = (case raw of
     JStr s \<Rightarrow> (let normalized = upper (strip s) in
       if normalized = operation_value READ then Inr READ
       else if normalized = operation_value WRITE then Inr WRITE
       else value_error ''tool_call.operation_type must be READ or WRITE'')
   | _ \<Rightarrow> value_error ''tool_call.operation_type must be READ or WRITE'')"

abbreviation raw_text :: "json \<Rightarrow> string option" where
  "raw_text v \<equiv> (case v of JStr s \<Rightarrow> Some s | _ \<Rightarrow> None)"

definition non_blank :: "json \<Rightarrow> bool" where
  "non_blank v \<longleftrightarrow> (case v of JStr s \<Rightarrow> strip s \<noteq> [] | _ \<Rightarrow> False)"

definition text_of :: "json \<Rightarrow> string" where
  "text_of v = (case v of JStr s \<Rightarrow> s | _ \<Rightarrow> [])"

definition obj_of :: "json \<Rightarrow> dict" where
  "obj_of v = (case v of JObj d \<Rightarrow> d | _ \<Rightarrow> [])"

abbreviation apostrophed :: "string \<Rightarrow> string" where
  "apostrophed s \<equiv> [CHR 0x27] @ s @ [CHR 0x27]"

definition parse_turn_response :: "dict \<Rightarrow> string \<Rightarrow> turn_response res" where
  "parse_turn_response payload default_model =
     (let kind = dict_get payload ''kind''; model_name = dict_get payload ''model_name''; raw_output = dict_get payload ''raw_output'';
          resolved_model = (if is_str model_name \<and> text_of model_name \<noteq> [] then text_of model_name else default_model) in
      if kind = JStr (decision_value TOOL_CALL) then
        (let tool_call = dict_get payload ''tool_call'' in
         if \<not> is_obj tool_call then Inl (real_llm_error (''tool_call response requires object field '' @ apostrophed ''tool_call'')) else
         let call = obj_of tool_call; name = dict_get call ''name''; arguments = dict_get call ''arguments'';
             operation_type = dict_get_or call ''operation_type'' (JStr (operation_value READ)); rationale = dict_get call ''rationale'' in
         if \<not> non_blank name then Inl (real_llm_error ''tool_call.name must be a non-empty string'')
         else if \<not> is_obj arguments then Inl (real_llm_error ''tool_call.arguments must be an object'')
         else if rationale \<noteq> JNull \<and> \<not> is_str rationale then Inl (real_llm_error ''tool_call.rationale must be a string when provided'')
         else case parse_remote_operation operation_type of
             Inl e \<Rightarrow> Inl (real_llm_error (exn_text e))
           | Inr parsed_operation_type \<Rightarrow>
               from_tool_call (text_of name) (obj_of arguments) parsed_operation_type rationale resolved_model (raw_text raw_output))
      else if kind = JStr (decision_value FINAL) then
        (let fin = dict_get payload ''final'' in
         if \<not> is_obj fin then Inl (real_llm_error (''final response requires object field '' @ apostrophed ''final'')) else
         let answer = dict_get (obj_of fin) ''answer''; stop_reason = dict_get_or (obj_of fin) ''stop_reason'' (JStr ''completed'') in
         if \<not> non_blank answer then Inl (real_llm_error ''final.answer must be a non-empty string'')
         else if \<not> non_blank stop_reason then Inl (real_llm_error ''final.stop_reason must be a non-empty string'')
         else from_final_answer (text_of answer) (text_of stop_reason) resolved_model (raw_text raw_output))
      else Inl (real_llm_error (''response.kind must be '' @ apostrophed ''tool_call'' @ '' or '' @ apostrophed ''final'')))"

definition llm_generate_turn :: "'n llm_env \<Rightarrow> turn_request \<Rightarrow> (llm_client \<times> 'n, turn_response) act" where
  "llm_generate_turn E request =
     bind (modify (\<lambda>(C, n). (C\<lparr>llm_calls := llm_calls C + 1\<rparr>, n))) (\<lambda>_.
     bind (gets fst) (\<lambda>C s. case bind (post_json E [(''model'', JStr (llm_model_name C)), (''request'', JObj (request_to_payload request))])
         (\<lambda>response. lift (parse_turn_response response (llm_model_name C))) s of
       (Inr response, (C', n)) \<Rightarrow> (Inr response, (C'\<lparr>llm_last_status := Some ''ok''\<rparr>, n))
     | (Inl e, (C', n)) \<Rightarrow> (Inl e, (if exn_class e = RealLLMAPIError then C'\<lparr>llm_last_status := Some ''error''\<rparr> else C', n))))"

definition llm_reset :: "llm_client \<Rightarrow> llm_client" where
  "llm_reset C = C\<lparr>llm_calls := 0, llm_last_status := None\<rparr>"

definition llm_get_state :: "llm_client \<Rightarrow> dict" where
  "llm_get_state C = [(''adapter'', JStr ''http-json''), (''endpoint'', JStr (llm_endpoint C)),
     (''model_name'', JStr (llm_model_name C)), (''calls'', JInt (llm_calls C)),
     (''last_status'', jopt JStr (llm_last_status C))]"

section \<open>Well-typed turns\<close>

text \<open>
  What the rest of the program relies on: a tool call has a call with a name and no final answer, a final
  turn has an answer and no call; the texts are not blank and the rationale is a string, if there is one.
\<close>

definition well_typed_turn :: "turn_response \<Rightarrow> bool" where
  "well_typed_turn r \<longleftrightarrow> (case tr_kind r of
     TOOL_CALL \<Rightarrow> tr_final r = None \<and> (case tr_tool_call r of None \<Rightarrow> False
       | Some c \<Rightarrow> strip (sc_name c) \<noteq> [] \<and> (sc_rationale c = JNull \<or> is_str (sc_rationale c)))
   | FINAL \<Rightarrow> tr_tool_call r = None \<and> (case tr_final r of None \<Rightarrow> False
       | Some f \<Rightarrow> strip (fa_answer f) \<noteq> [] \<and> strip (fa_stop_reason f) \<noteq> []))"

lemma non_blank_text: "non_blank v \<Longrightarrow> strip (text_of v) \<noteq> []"
  by (auto simp: non_blank_def text_of_def split: json.splits)

lemma from_tool_call_typed:
  "from_tool_call name args k rationale model raw = Inr r \<Longrightarrow> strip name \<noteq> [] \<Longrightarrow> rationale = JNull \<or> is_str rationale \<Longrightarrow> well_typed_turn r"
  by (auto simp: from_tool_call_def turn_response_init_def well_typed_turn_def)

lemma from_final_answer_typed:
  "from_final_answer answer stop model raw = Inr r \<Longrightarrow> strip answer \<noteq> [] \<Longrightarrow> strip stop \<noteq> [] \<Longrightarrow> well_typed_turn r"
  by (auto simp: from_final_answer_def turn_response_init_def well_typed_turn_def)

lemma parse_turn_response_typed:
  assumes "parse_turn_response payload default_model = Inr r"
  shows "well_typed_turn r"
  using assms
  by (auto simp: parse_turn_response_def Let_def non_blank_text split: if_splits sum.splits
      intro: from_tool_call_typed from_final_answer_typed)

text \<open>
  C21: whatever the network answers, a turn that the client of a remote model returns is well typed; and the
  client has counted the call and noted that it went well.
\<close>

theorem remote_turns_are_well_typed:
  assumes "llm_generate_turn E request (C, n) = (Inr r, (C', n'))"
  shows "well_typed_turn r \<and> llm_calls C' = llm_calls C + 1 \<and> llm_last_status C' = Some ''ok''"
proof -
  let ?C = "C\<lparr>llm_calls := llm_calls C + 1\<rparr>"
  let ?payload = "[(''model'', JStr (llm_model_name ?C)), (''request'', JObj (request_to_payload request))]"
  obtain C1 where b: "bind (post_json E ?payload) (\<lambda>response. lift (parse_turn_response response (llm_model_name ?C))) (?C, n) = (Inr r, (C1, n'))"
      and C': "C' = C1\<lparr>llm_last_status := Some ''ok''\<rparr>"
    using assms by (auto simp: llm_generate_turn_def split: prod.splits sum.splits)
  from b obtain response where post: "post_json E ?payload (?C, n) = (Inr response, (C1, n'))"
      and parse: "parse_turn_response response (llm_model_name ?C) = Inr r"
    by (auto simp: bind_eq_Inr)
  have "C1 = ?C" using post by (auto simp: post_json_def split: sum.splits prod.splits)
  with parse_turn_response_typed [OF parse] C' show ?thesis by simp
qed

text \<open>A server that always answers with one final turn.\<close>

definition demo_llm :: "unit llm_env" where
  "demo_llm = \<lparr>env_var = (\<lambda>_. None), llm_env.network = (\<lambda>_ _ _ _ n. (Http_Text
     (json_dumps \<lparr>float_repr = (\<lambda>_. []), iso_text = (\<lambda>_. []), of_iso_text = (\<lambda>_. None)\<rparr>
       (JObj [(''kind'', JStr ''final''), (''final'', JObj [(''answer'', JStr ''yes'')])])), n)),
     llm_forms = \<lparr>float_repr = (\<lambda>_. ''0.0''), iso_text = (\<lambda>_. []), of_iso_text = (\<lambda>_. None)\<rparr>\<rparr>"

definition demo_client :: llm_client where
  "demo_client = \<lparr>llm_endpoint = ''http://x'', llm_model_name = ''m'', llm_api_key_env = None, llm_timeout_seconds = 30,
     llm_extra_headers = [], llm_calls = 0, llm_last_status = None\<rparr>"

definition demo_turn :: turn_request where
  "demo_turn = \<lparr>turn_messages = [], turn_available_tools = [], turn_run_id = ''r1'', turn_step_index = 0, turn_metadata = [],
     turn_max_output_tokens = 512, turn_temperature = Fin 0\<rparr>"

lemma demo_remote_turn: "\<not> isl (fst (llm_generate_turn demo_llm demo_turn (demo_client, ())))"
  by code_simp

lemma remote_turns_are_well_typed_witness:
  "\<exists>r C'. llm_generate_turn demo_llm demo_turn (demo_client, ()) = (Inr r, (C', ())) \<and> well_typed_turn r \<and> llm_calls C' = 1"
proof -
  obtain r v where "llm_generate_turn demo_llm demo_turn (demo_client, ()) = (Inr r, v)"
    using returned [where f = "llm_generate_turn demo_llm demo_turn", OF demo_remote_turn] by blast
  then obtain C' u where g: "llm_generate_turn demo_llm demo_turn (demo_client, ()) = (Inr r, (C', u))" by (cases v) auto
  from remote_turns_are_well_typed [OF g] g show ?thesis by (auto simp: demo_client_def)
qed

section \<open>Two providers, one contract\<close>

text \<open>
  The client of the remote model reads back every well-typed turn from the form in which the mock agent
  writes it, unchanged: the providers can be swapped.
\<close>

theorem mock_turn_is_read_by_client:
  assumes "well_typed_turn r" and "tr_model_name r \<noteq> []"
  shows "parse_turn_response (response_to_dict r) default_model = Inr r"
proof (cases "tr_kind r")
  case TOOL_CALL
  with assms(1) obtain c where c: "tr_tool_call r = Some c" "tr_final r = None" "strip (sc_name c) \<noteq> []"
      "sc_rationale c = JNull \<or> is_str (sc_rationale c)"
    by (auto simp: well_typed_turn_def split: option.splits)
  have "parse_remote_operation (JStr (operation_value k)) = Inr k" for k
  proof -
    have "parse_remote_operation (JStr (operation_value READ)) = Inr READ" "parse_remote_operation (JStr (operation_value WRITE)) = Inr WRITE"
      by code_simp+
    then show ?thesis by (cases k) simp_all
  qed
  with c TOOL_CALL assms(2) show ?thesis
    by (cases r; cases c; cases "tr_raw_output r")
      (auto simp: parse_turn_response_def response_to_dict_def Let_def non_blank_def text_of_def obj_of_def dict_get_def
        dict_get_or_def from_tool_call_def turn_response_init_def)
next
  case FINAL
  with assms(1) obtain f where f: "tr_final r = Some f" "tr_tool_call r = None" "strip (fa_answer f) \<noteq> []" "strip (fa_stop_reason f) \<noteq> []"
    by (auto simp: well_typed_turn_def split: option.splits)
  with FINAL assms(2) show ?thesis
    by (cases r; cases f; cases "tr_raw_output r")
      (auto simp: parse_turn_response_def response_to_dict_def Let_def non_blank_def text_of_def obj_of_def dict_get_def
        dict_get_or_def from_final_answer_def turn_response_init_def)
qed

lemma mock_turn_is_read_by_client_witness:
  "\<exists>r. from_final_answer ''yes'' ''completed'' ''m'' None = Inr r \<and> parse_turn_response (response_to_dict r) ''other'' = Inr r"
proof -
  obtain r where r: "from_final_answer ''yes'' ''completed'' ''m'' None = Inr r" "tr_model_name r = ''m''"
    by (simp add: from_final_answer_def turn_response_init_def)
  have "strip ''yes'' \<noteq> []" "strip ''completed'' \<noteq> []" by code_simp+
  from mock_turn_is_read_by_client [OF from_final_answer_typed [OF r(1) this]] r show ?thesis by auto
qed

end
