(* ===== verification/Soft_Log.thy ===== *)
theory Soft_Log
  imports Llm_Client Recovery
begin

text \<open>
  The pure part of \<open>example/sample_agent_openrouter_mock.py\<close>: a run that was logged before is turned into the
  messages, the plan and the script of a replay, and a finished replay is summed up. The text of
  the interpreter's own errors is not modelled, nor are dicts whose keys are no strings.
\<close>

section \<open>Python's iteration and \<open>dict\<close> over JSON values\<close>

definition py_iter :: "json \<Rightarrow> json list res" where
  "py_iter v = (case v of
     JList xs \<Rightarrow> Inr xs
   | JObj d \<Rightarrow> Inr (map (\<lambda>(k, _). JStr k) d)
   | JStr s \<Rightarrow> Inr (map (\<lambda>c. JStr [c]) s)
   | _ \<Rightarrow> Inl (Exn TypeError ''object is not iterable''))"

definition entry_of :: "json \<Rightarrow> (string \<times> json) res" where
  "entry_of e = rbind (py_iter e) (\<lambda>xs. case xs of
     [JStr k, v] \<Rightarrow> Inr (k, v)
   | [_, _] \<Rightarrow> Inl (Exn TypeError ''the key is no string'')
   | _ \<Rightarrow> value_error ''dictionary update sequence element has the wrong length; 2 is required'')"

definition py_dict :: "json \<Rightarrow> dict res" where
  "py_dict v = (case v of
     JObj d \<Rightarrow> Inr d
   | _ \<Rightarrow> rbind (py_iter v) (\<lambda>es. rbind (rmap entry_of es) (\<lambda>ps. Inr (foldl (\<lambda>d (k, x). AList.update k x d) [] ps))))"

text \<open>A chain of \<open>.get(key, default)\<close>.\<close>

fun get_path :: "json \<Rightarrow> (string \<times> json) list \<Rightarrow> json res" where
  "get_path v [] = Inr v"
| "get_path (JObj d) ((k, dflt) # ks) = get_path (dict_get_or d k dflt) ks"
| "get_path v (_ # _) = no_get"

fun any_res :: "('a \<Rightarrow> bool res) \<Rightarrow> 'a list \<Rightarrow> bool res" where
  "any_res f [] = Inr False"
| "any_res f (x # xs) = rbind (f x) (\<lambda>b. if b then Inr True else any_res f xs)"

section \<open>Reading the soft log\<close>

text \<open>The file: the newest of the directory when no path is given.\<close>

definition resolve_soft_log_path :: "string list \<Rightarrow> string option \<Rightarrow> string res" where
  "resolve_soft_log_path found soft_log_path = (case soft_log_path of
     Some p \<Rightarrow> Inr p
   | None \<Rightarrow> (let candidates = sort found in
       if candidates = [] then Inl (Exn FileNotFoundError ''no OpenRouter soft log runs found under data/openrouter_ticket_runtime/soft_logs/runs'')
       else Inr (last candidates)))"

record soft_log_files =
  log_candidates :: "string list"
  log_text :: "string \<Rightarrow> string res"
  log_decode_error :: "string \<Rightarrow> string"

definition loads_or_error :: "(string \<Rightarrow> string) \<Rightarrow> string \<Rightarrow> json res" where
  "loads_or_error decode_message s = (case json_loads s of None \<Rightarrow> value_error (decode_message s) | Some v \<Rightarrow> Inr v)"

definition load_soft_log_payload :: "soft_log_files \<Rightarrow> string option \<Rightarrow> json res" where
  "load_soft_log_payload F soft_log_path =
     rbind (resolve_soft_log_path (log_candidates F) soft_log_path) (\<lambda>path.
     rbind (log_text F path) (loads_or_error (log_decode_error F)))"

definition soft_messages :: "dict \<Rightarrow> json list res" where
  "soft_messages artifact = (case dict_get artifact ''messages'' of
     JList xs \<Rightarrow> Inr xs
   | _ \<Rightarrow> rbind (get_path (JObj artifact) [(''checkpoint'', JObj []), (''snapshot_payload'', JObj []), (''context'', JObj []), (''messages'', JList [])])
       py_iter)"

text \<open>The user messages before the first other message; what is no object is skipped.\<close>

fun leading_user_messages :: "text_forms \<Rightarrow> json list \<Rightarrow> dict list" where
  "leading_user_messages T [] = []"
| "leading_user_messages T (m # ms) = (case m of
     JObj d \<Rightarrow> if dict_get d ''role'' \<noteq> JStr ''user'' then []
       else [(''role'', JStr ''user''), (''content'', JStr (py_str T (dict_get_or d ''content'' (JStr []))))] # leading_user_messages T ms
   | _ \<Rightarrow> leading_user_messages T ms)"

definition ticket_prompt :: string where
  "ticket_prompt = ''Please buy me a ticket from LA to NY for 2026-05-14 09:00 AM PT.''"

definition extract_initial_messages :: "text_forms \<Rightarrow> dict \<Rightarrow> dict list res" where
  "extract_initial_messages T artifact = rbind (soft_messages artifact) (\<lambda>messages.
     let initial = leading_user_messages T messages in
     Inr (if initial = [] then [[(''role'', JStr ''user''), (''content'', JStr ticket_prompt)]] else initial))"

text \<open>\<open>artifact.get("planner_state") or ...\<close>, and its items.\<close>

definition soft_plan :: "dict \<Rightarrow> json res" where
  "soft_plan artifact = rbind (if truthy (dict_get artifact ''planner_state'') then Inr (dict_get artifact ''planner_state'')
       else get_path (JObj artifact) [(''checkpoint'', JObj []), (''snapshot_payload'', JObj []), (''planner'', JObj [])]) (\<lambda>planner_state.
     Inr (case planner_state of JObj d \<Rightarrow> dict_get_or d ''items'' (JList []) | _ \<Rightarrow> JList []))"

definition plan_entry :: "text_forms \<Rightarrow> dict \<Rightarrow> dict" where
  "plan_entry T item = (''title'', JStr (py_str T (dict_get_or item ''title'' (JStr ''step'')))) #
     (case dict_get item ''depends_on'' of
        JList deps \<Rightarrow> if deps = [] then [] else [(''depends_on'', JList (map (\<lambda>v. JStr (py_str T v)) deps))]
      | _ \<Rightarrow> [])"

definition objects :: "json list \<Rightarrow> dict list" where
  "objects xs = List.map_filter (\<lambda>v. case v of JObj d \<Rightarrow> Some d | _ \<Rightarrow> None) xs"

definition build_plan_items_from_soft_log :: "text_forms \<Rightarrow> dict \<Rightarrow> dict list res" where
  "build_plan_items_from_soft_log T artifact = rbind (soft_plan artifact) (\<lambda>v. rbind (py_iter v) (\<lambda>items.
     let plan_items = map (plan_entry T) (objects items) in
     if plan_items = [] then value_error ''soft log did not contain planner items'' else Inr plan_items))"

definition build_plan_source_text :: "text_forms \<Rightarrow> dict list \<Rightarrow> string" where
  "build_plan_source_text T plan_items = join newline
     (map (\<lambda>(i, item). int_str (int i + 1) @ ''. '' @ py_str T (dict_get_or item ''title'' (JStr ''step''))) (enumerate 0 plan_items))"

abbreviation replay_model :: string where
  "replay_model \<equiv> ''mock-openrouter-replay''"

definition parse_script_response :: "text_forms \<Rightarrow> json \<Rightarrow> string \<Rightarrow> turn_response res" where
  "parse_script_response T payload raw_output = (case payload of
     JObj d \<Rightarrow> (case dict_get d ''tool_call'' of
         JObj call \<Rightarrow>
           let operation_type = upper (py_str T (dict_get_or call ''operation_type'' (JStr ''READ''))) in
           rbind (case map_of call ''name'' of None \<Rightarrow> Inl (Exn KeyError (repr_str ''name'')) | Some v \<Rightarrow> Inr (py_str T v)) (\<lambda>name.
           rbind (py_dict (dict_get_or call ''arguments'' (JObj []))) (\<lambda>arguments.
           rbind (operation_type_of operation_type) (\<lambda>kind.
           from_tool_call name arguments kind (dict_get call ''rationale'') replay_model (Some raw_output))))
       | _ \<Rightarrow> value_error ''expected tool_call payload in soft-log llm_output'')
   | _ \<Rightarrow> no_get)"

record soft_answer =
  sa_answer :: string
  sa_stop_reason :: string
  sa_model_name :: string

text \<open>The last message of the assistant that is no tool call.\<close>

definition answer_of :: "text_forms \<Rightarrow> json \<Rightarrow> soft_answer option" where
  "answer_of T message = (case message of
     JObj d \<Rightarrow>
       let metadata = obj_of (dict_get d ''metadata''); content = dict_get d ''content'' in
       if dict_get d ''role'' \<noteq> JStr ''assistant'' \<or> dict_get metadata ''decision_kind'' = JStr ''tool_call'' \<or> \<not> non_blank content then None
       else Some \<lparr>sa_answer = text_of content, sa_stop_reason = py_str T (dict_get_or metadata ''stop_reason'' (JStr ''completed'')),
         sa_model_name = py_str T (dict_get_or metadata ''model_name'' (JStr replay_model))\<rparr>
   | _ \<Rightarrow> None)"

definition extract_final_answer :: "text_forms \<Rightarrow> dict \<Rightarrow> soft_answer option res" where
  "extract_final_answer T artifact = rbind (soft_messages artifact) (\<lambda>messages.
     Inr (case List.map_filter (answer_of T) (rev messages) of [] \<Rightarrow> None | a # _ \<Rightarrow> Some a))"

definition script_turn :: "text_forms \<Rightarrow> (string \<Rightarrow> string) \<Rightarrow> string \<Rightarrow> turn_response res" where
  "script_turn T decode_message raw = rbind (loads_or_error decode_message raw) (\<lambda>payload. parse_script_response T payload raw)"

definition llm_outputs :: "json list \<Rightarrow> string list" where
  "llm_outputs items = List.map_filter (\<lambda>item. if non_blank (dict_get item ''llm_output'') then Some (text_of (dict_get item ''llm_output'')) else None)
     (objects items)"

definition build_script_from_soft_log :: "text_forms \<Rightarrow> (string \<Rightarrow> string) \<Rightarrow> dict \<Rightarrow> turn_response list res" where
  "build_script_from_soft_log T decode_message artifact = rbind (soft_plan artifact) (\<lambda>v. case v of
     JList items \<Rightarrow>
       if items = [] then value_error ''soft log did not contain replayable planner items'' else
       rbind (rmap (script_turn T decode_message) (llm_outputs items)) (\<lambda>calls.
       rbind (extract_final_answer T artifact) (\<lambda>found. case found of
         None \<Rightarrow> value_error ''soft log did not contain a final assistant answer''
       | Some a \<Rightarrow> rbind (from_final_answer (sa_answer a) (sa_stop_reason a) (sa_model_name a)
             (Some (json_spaced T True (JObj [(''kind'', JStr ''final''),
               (''final'', JObj [(''answer'', JStr (sa_answer a)), (''stop_reason'', JStr (sa_stop_reason a))])]))))
           (\<lambda>final. Inr (calls @ [final]))))
   | _ \<Rightarrow> value_error ''soft log did not contain replayable planner items'')"

definition flight :: "string \<Rightarrow> string \<Rightarrow> int \<Rightarrow> string \<times> json" where
  "flight flight_no departure price = (''flights/'' @ flight_no, JObj [(''available'', JBool True), (''departure_time'', JStr departure),
     (''flight_no'', JStr flight_no), (''from'', JStr ''LAX''), (''price_usd'', JInt price), (''to'', JStr ''JFK'')])"

definition extract_seed_state :: dict where
  "extract_seed_state = [flight ''RA501'' ''2026-05-14T07:30:00-07:00'' 280,
     flight ''RA512'' ''2026-05-14T09:00:00-07:00'' 325, flight ''RA530'' ''2026-05-14T12:00:00-07:00'' 310]"

section \<open>Summing up\<close>

definition decision_dicts :: "recovery_decision list \<Rightarrow> dict list" where
  "decision_dicts ds = map (\<lambda>d. [(''execution_id'', JStr (dec_execution_id d)), (''action'', JStr (action_value (dec_action d))),
     (''reason'', JStr (dec_reason d)), (''execution_status'', jopt (\<lambda>s. JStr (execution_status_value s)) (dec_status d))]) ds"

definition order_readback :: "json \<Rightarrow> bool res" where
  "order_readback item = (case item of
     JObj d \<Rightarrow>
       if dict_get d ''tool_name'' \<noteq> JStr ''query-state'' then Inr False else
       rbind (get_path (JObj d) [(''response_payload'', JObj []), (''result'', JNull)]) (\<lambda>result.
       if \<not> is_obj result then Inr False else
       rbind (get_path (JObj d) [(''request_payload'', JObj []), (''payload'', JObj []), (''key'', JNull)]) (\<lambda>key.
       Inr (key = JStr ''orders/RA512'')))
   | _ \<Rightarrow> Inr False)"

definition summarize_recovery :: "dict \<Rightarrow> dict list \<Rightarrow> dict res" where
  "summarize_recovery bundle recovery_decisions =
     (let had = (\<lambda>a. JBool (list_ex (\<lambda>d. dict_get d ''action'' = JStr a) recovery_decisions)) in
      rbind (case dict_get_or bundle ''external_results'' (JList []) of v \<Rightarrow> py_iter v) (\<lambda>external_results.
      rbind (any_res order_readback external_results) (\<lambda>successful_readback.
      Inr [(''pending_execution_ids'', case dict_get_or bundle ''context'' (JObj []) of
             JObj context \<Rightarrow> dict_get_or context ''pending_execution_ids'' (JList []) | _ \<Rightarrow> JList []),
           (''had_handoff'', had ''handoff_retry_or_abandon''), (''had_resume_waiting'', had ''resume_waiting''),
           (''successful_order_readback'', JBool successful_readback)])))"

definition response_to_json :: "text_forms \<Rightarrow> turn_response \<Rightarrow> string" where
  "response_to_json T r = json_spaced T True (JObj (
     [(''kind'', JStr (decision_value (tr_kind r))), (''model_name'', JStr (tr_model_name r))] @
     (case tr_tool_call r of Some c \<Rightarrow> [(''tool_call'', JObj [(''name'', JStr (sc_name c)), (''arguments'', JObj (sc_arguments c)),
         (''operation_type'', JStr (operation_value (sc_operation_type c))), (''rationale'', sc_rationale c)])] | None \<Rightarrow> []) @
     (case tr_final r of Some f \<Rightarrow> [(''final'', JObj [(''answer'', JStr (fa_answer f)),
         (''stop_reason'', JStr (fa_stop_reason f))])] | None \<Rightarrow> [])))"

end
