(* ===== verification/Sample_Agent.thy ===== *)
theory Sample_Agent
  imports Soft_Log Verifier Cli
begin

text \<open>
  \<open>example/sample_agent_openrouter_mock.py\<close>: the agent that replays a logged run through the transaction
  manager, the mock target and the recovery coordinator, with lost and ambiguous writes and with a
  crash at a chosen phase. Beside the database it has the target, the adapter's flag, the crash
  simulator, the scripted agent and the inference log.
\<close>

section \<open>What is outside the database\<close>

record replay_side =
  rs_target :: target
  rs_emitted :: bool
  rs_crash :: "crash_simulator option"
  rs_agent :: scripted_agent
  rs_log :: "dict list"

text \<open>
  The options of a run. The append of a line to the inference log may fail; its number gives the
  exception.
\<close>

record sample_env =
  se_runtime :: runtime
  se_target :: target_env
  se_ambiguous_write :: bool
  se_lost_write :: bool
  se_force_reset :: bool
  se_reset_target :: bool
  se_crash_phase :: string
  se_on_llm_response :: "(int \<Rightarrow> string \<Rightarrow> replay_side \<Rightarrow> unit res \<times> replay_side) option"
  se_append_error :: "nat \<Rightarrow> exn option"
  se_store_path :: string
  se_log_path :: string

type_synonym 'a sample_op = "(replay_side beside, 'a) op"

definition on_target :: "'a target_op \<Rightarrow> replay_side \<Rightarrow> 'a res \<times> replay_side" where
  "on_target f s = (case f (rs_target s) of (r, t) \<Rightarrow> (r, s\<lparr>rs_target := t\<rparr>))"

definition seed_mock_target_store :: "target_env \<Rightarrow> dict \<Rightarrow> unit target_op" where
  "seed_mock_target_store T seed_state = target_save T
     [(''meta'', JObj [(''version'', JInt 3), (''created_at'', JStr ''2026-04-11T00:00:00+00:00''), (''updated_at'', JStr ''2026-04-11T00:00:00+00:00'')]),
      (''stats'', JObj [(''total_commits'', JInt 0), (''idempotent_commits'', JInt 0), (''rifl_commits'', JInt 0),
        (''distinguishable_commits'', JInt 0), (''counter_commits'', JInt 0)]),
      (''action_log'', JObj []), (''domain_state'', JObj seed_state), (''idempotent_requests'', JObj []), (''rifl_requests'', JObj []),
      (''distinguishable_state'', JObj []), (''distinguishable_history'', JObj []), (''counters'', JObj [])]"

definition append_jsonl :: "sample_env \<Rightarrow> dict \<Rightarrow> unit sample_op" where
  "append_jsonl E payload = call_outside (\<lambda>s. case se_append_error E (length (rs_log s)) of
     Some e \<Rightarrow> (Inl e, s) | None \<Rightarrow> (Inr (), s\<lparr>rs_log := rs_log s @ [payload]\<rparr>))"

definition maybe_crash_at :: "sample_env \<Rightarrow> int \<Rightarrow> string \<Rightarrow> unit sample_op" where
  "maybe_crash_at E step_index current_phase = call_outside (\<lambda>s. case rs_crash s of
     None \<Rightarrow> (Inr (), s)
   | Some C \<Rightarrow> if se_crash_phase E \<noteq> current_phase then (Inr (), s)
       else (case maybe_crash step_index current_phase C of (r, C') \<Rightarrow> (r, s\<lparr>rs_crash := Some C'\<rparr>)))"

section \<open>The adapter\<close>

definition required_text :: "text_forms \<Rightarrow> dict \<Rightarrow> string \<Rightarrow> string res" where
  "required_text T d key = (case map_of d key of None \<Rightarrow> Inl (Exn KeyError (repr_str key)) | Some v \<Rightarrow> Inr (py_str T v))"

definition ambiguous :: "string \<Rightarrow> exn" where
  "ambiguous msg = Exn AmbiguousToolError msg"

definition replay_invoke :: "sample_env \<Rightarrow> string \<Rightarrow> dict \<Rightarrow> string option \<Rightarrow> (replay_side, json) act" where
  "replay_invoke E tool_name request_payload execution_id =
     (let T = target_forms (se_target E); payload = py_dict (dict_get_or request_payload ''payload'' (JObj [])) in
      if tool_name = ''query-state'' then
        bind (lift (required_text T request_payload ''query_name'')) (\<lambda>query_name.
        bind (lift payload) (\<lambda>payload.
        bind (on_target (query_state (se_target E) query_name payload)) (\<lambda>result. ret (JObj result))))
      else if tool_name = ''apply-action'' then
        bind (gets rs_emitted) (\<lambda>emitted.
        if se_lost_write E \<and> \<not> emitted then
          bind (modify (\<lambda>s. s\<lparr>rs_emitted := True\<rparr>)) (\<lambda>_.
          raise (ambiguous ''request lost in flight; target never observed the write''))
        else
          bind (lift (required_text T request_payload ''action_name'')) (\<lambda>action_name.
          bind (lift payload) (\<lambda>payload.
          bind (on_target (apply_action (se_target E) action_name payload execution_id)) (\<lambda>result.
          if se_ambiguous_write E \<and> \<not> emitted then
            bind (modify (\<lambda>s. s\<lparr>rs_emitted := True\<rparr>)) (\<lambda>_.
            raise (ambiguous ''write may have committed before the local process observed the response''))
          else ret (JObj (AList.update ''applied_action'' (JObj [(''action_name'', JStr action_name), (''payload'', JObj payload),
              (''execution_id'', jopt JStr execution_id)]) result))))))
      else raise (Exn ValueError (''unsupported tool: '' @ tool_name)))"

definition replay_adapter :: "sample_env \<Rightarrow> replay_side beside tool_adapter" where
  "replay_adapter E tool_name request_payload execution_id timeout_s =
     (\<lambda>(s, keys). case replay_invoke E tool_name request_payload execution_id s of (r, s') \<Rightarrow> (r, (s', keys)))"

definition replay_verifier :: "sample_env \<Rightarrow> replay_side write_verifier" where
  "replay_verifier E execution_id tool_name request_payload =
     on_target (mock_target_verifier (se_target E) execution_id tool_name request_payload)"

definition replay_coordinator :: "sample_env \<Rightarrow> replay_side coordinator" where
  "replay_coordinator E = \<lparr>default_wait_seconds = Fin (1 / 4), verifier = Some (replay_verifier E), on_handoff = None\<rparr>"

section \<open>One step\<close>

record run_locals =
  rl_messages :: "chat_message list"
  rl_executions :: "dict list"
  rl_decisions :: "dict list"
  rl_trace :: "string list"

abbreviation say :: "string \<Rightarrow> run_locals \<Rightarrow> run_locals" where
  "say line L \<equiv> L\<lparr>rl_trace := rl_trace L @ [line]\<rparr>"

abbreviation add_message :: "chat_message \<Rightarrow> run_locals \<Rightarrow> run_locals" where
  "add_message m L \<equiv> L\<lparr>rl_messages := rl_messages L @ [m]\<rparr>"

fun disposition_value :: "disposition \<Rightarrow> string" where
  "disposition_value SUCCEEDED = ''succeeded''"
| "disposition_value REUSED = ''reused''"
| "disposition_value PENDING_RECOVERY = ''pending_recovery''"
| "disposition_value FAILED_TX = ''failed''"

definition step_tag :: "int \<Rightarrow> string" where
  "step_tag step_index = ''[step '' @ int_str step_index @ '']''"

definition log_request_line :: "string \<Rightarrow> turn_request \<Rightarrow> dict" where
  "log_request_line run_id request = [(''event'', JStr ''request''), (''model'', JStr replay_model), (''run_id'', JStr run_id),
     (''step_index'', JInt (turn_step_index request)),
     (''payload'', JObj [(''messages'', JList (map (\<lambda>m. JObj (chat_message_to_dict m)) (turn_messages request))),
       (''available_tools'', JList []), (''context'', JObj (turn_context_to_dict request))])]"

definition log_response_line :: "string \<Rightarrow> int \<Rightarrow> turn_response \<Rightarrow> string \<Rightarrow> dict" where
  "log_response_line run_id step_index response raw = [(''event'', JStr ''response''), (''model'', JStr (tr_model_name response)),
     (''run_id'', JStr run_id), (''step_index'', JInt step_index), (''raw_text'', JStr raw)]"

text \<open>\<open>response.raw_output or _response_to_json(response)\<close>\<close>

definition raw_response :: "text_forms \<Rightarrow> turn_response \<Rightarrow> string" where
  "raw_response T r = (case tr_raw_output r of Some s \<Rightarrow> if s = [] then response_to_json T r else s | None \<Rightarrow> response_to_json T r)"

definition ask_agent :: "sample_env \<Rightarrow> string \<Rightarrow> int \<Rightarrow> chat_message list \<Rightarrow> turn_response sample_op" where
  "ask_agent E run_id step_index messages =
     (let T = forms (se_runtime E); request = \<lparr>turn_messages = messages, turn_available_tools = [], turn_run_id = run_id,
          turn_step_index = step_index, turn_metadata = [], turn_max_output_tokens = 512, turn_temperature = Fin 0\<rparr> in
      bind (maybe_crash_at E step_index ''before_agent_turn'') (\<lambda>_.
      bind (append_jsonl E (log_request_line run_id request)) (\<lambda>_.
      bind (call_outside (\<lambda>s. case generate_turn request (rs_agent s) of (r, A) \<Rightarrow> (r, s\<lparr>rs_agent := A\<rparr>))) (\<lambda>response.
      let raw = raw_response T response in
      bind (case se_on_llm_response E of None \<Rightarrow> ret () | Some f \<Rightarrow> call_outside (f step_index raw)) (\<lambda>_.
      bind (append_jsonl E (log_response_line run_id step_index response raw)) (\<lambda>_.
      bind (maybe_crash_at E step_index ''after_agent_turn'') (\<lambda>_. ret response)))))))"

text \<open>The call of a turn as the transaction manager gets it.\<close>

definition turn_call :: "string \<Rightarrow> string \<Rightarrow> scripted_call \<Rightarrow> tool_call" where
  "turn_call run_id plan_item_id c = \<lparr>call_run_id = run_id, call_plan_item_id = plan_item_id, call_tool_name = sc_name c,
     call_request = sc_arguments c, call_operation_type = operation_value (sc_operation_type c), call_invocation_key = None,
     call_timeout_s = None, call_idempotency_supported = (sc_operation_type c = WRITE)\<rparr>"

definition execution_summary :: "scripted_call \<Rightarrow> transaction_result \<Rightarrow> dict" where
  "execution_summary c tx = [(''execution_id'', JStr (tx_execution_id tx)), (''tool_name'', JStr (sc_name c)),
     (''disposition'', JStr (disposition_value (tx_disposition tx))),
     (''execution_status'', JStr (execution_status_value (res_execution_status (tx_record tx)))),
     (''result_status'', JStr (result_status_value (res_result_status (tx_record tx))))]"

definition payload_text :: "text_forms \<Rightarrow> transaction_result \<Rightarrow> string" where
  "payload_text T tx = json_spaced T True (jopt JObj (res_response_payload (tx_record tx)))"

text \<open>What an execution of unknown outcome has come to, after the recovery; \<open>None\<close>: it stays handed off.\<close>

definition resolve_recovered_execution ::
  "sample_env \<Rightarrow> recovery_decision list \<Rightarrow> string \<Rightarrow> tool_call \<Rightarrow> (string \<times> string) option sample_op" where
  "resolve_recovered_execution E decisions execution_id call =
     (let R = se_runtime E; T = forms R in
      case find (\<lambda>d. dec_execution_id d = execution_id) decisions of
        None \<Rightarrow> ret None
      | Some d \<Rightarrow>
          if dec_action d = MARK_COMMITTED then
            bind (repo_get_result R execution_id) (\<lambda>record.
            ret (Some (''verified_committed (reused durable result)'',
              json_spaced T True (case record of
                  Some r \<Rightarrow> (case res_response_payload r of Some (p # ps) \<Rightarrow> JObj (p # ps) | _ \<Rightarrow> JObj [(''verified'', JBool True)])
                | None \<Rightarrow> JObj [(''verified'', JBool True)]))))
          else if dec_action d = REPLAY then
            bind (execute_tool R False (replay_adapter E) call) (\<lambda>tx.
            ret (if tx_disposition tx \<in> {SUCCEEDED, REUSED}
              then Some (''verified_not_found (replayed safely)'', payload_text T tx) else None))
          else ret None)"

definition tool_message :: "scripted_call \<Rightarrow> string \<Rightarrow> string \<Rightarrow> chat_message" where
  "tool_message c execution_id content = \<lparr>chat_role = ''tool'', chat_content = content, chat_name = Some (sc_name c),
     chat_tool_call_id = Some execution_id\<rparr>"

text \<open>
  The recovery after a call: at a moment after the record's last update when the outcome is unknown, and
  now otherwise.
\<close>

definition recovery_phase :: "sample_env \<Rightarrow> string \<Rightarrow> int \<Rightarrow> span_handle \<Rightarrow> int option \<Rightarrow> recovery_decision list sample_op" where
  "recovery_phase E run_id step_index step_span now =
     time_phase (se_runtime E) ''recovery'' step_span None (\<lambda>_.
     bind (recover_run (se_runtime E) (replay_coordinator E) run_id now) (\<lambda>decisions.
     bind (maybe_crash_at E step_index ''after_recovery'') (\<lambda>_. ret decisions)))"

definition one_second_later :: "external_result option \<Rightarrow> int option res" where
  "one_second_later record = (case record of None \<Rightarrow> Inr None
   | Some r \<Rightarrow> rbind (add_seconds (res_updated_at r) (Fin 1)) (\<lambda>t. Inr (Some t)))"

definition settle_pending ::
  "sample_env \<Rightarrow> string \<Rightarrow> int \<Rightarrow> span_handle \<Rightarrow> scripted_call \<Rightarrow> tool_call \<Rightarrow> transaction_result \<Rightarrow> run_locals \<Rightarrow> run_locals sample_op" where
  "settle_pending E run_id step_index step_span c call tx L =
     (let R = se_runtime E; execution_id = tx_execution_id tx; named = step_tag step_index @ '' '' @ sc_name c in
      bind (repo_get_result R execution_id) (\<lambda>record.
      bind (lift (one_second_later record)) (\<lambda>now.
      bind (recovery_phase E run_id step_index step_span now) (\<lambda>decisions.
      let L = say (named @ '' pending_recovery -> execution_id='' @ execution_id @ '' recovery='' @
            py_repr (forms R) (str_list (map (\<lambda>d. action_value (dec_action d)) decisions)))
          (L\<lparr>rl_decisions := rl_decisions L @ decision_dicts decisions\<rparr>) in
      bind (resolve_recovered_execution E decisions execution_id call) (\<lambda>resolution.
      ret (case resolution of
          None \<Rightarrow> L
        | Some (outcome, content) \<Rightarrow> say (named @ '' '' @ outcome @ '' -> execution_id='' @ execution_id)
            (add_message (tool_message c execution_id content) L)))))))"

definition settle_finished ::
  "sample_env \<Rightarrow> string \<Rightarrow> int \<Rightarrow> span_handle \<Rightarrow> scripted_call \<Rightarrow> transaction_result \<Rightarrow> run_locals \<Rightarrow> run_locals sample_op" where
  "settle_finished E run_id step_index step_span c tx L =
     (let content = payload_text (forms (se_runtime E)) tx in
      bind (recovery_phase E run_id step_index step_span None) (\<lambda>decisions.
      ret (say (step_tag step_index @ '' '' @ sc_name c @ '' -> '' @ content)
        (add_message (tool_message c (tx_execution_id tx) content) (L\<lparr>rl_decisions := rl_decisions L @ decision_dicts decisions\<rparr>)))))"

definition finish_item :: "sample_env \<Rightarrow> string \<Rightarrow> string \<Rightarrow> int \<Rightarrow> span_handle \<Rightarrow> unit sample_op" where
  "finish_item E run_id plan_item_id step_index step_span =
     time_phase (se_runtime E) ''advance_plan_item'' step_span None (\<lambda>_.
     bind (advance_plan_item (se_runtime E) run_id plan_item_id ''done'' None) (\<lambda>_.
     maybe_crash_at E step_index ''after_advance_plan_item''))"

text \<open>
  The rationale of the call is the assistant's message, if it says anything; one that is no string is refused when
  the message is checked, and the transaction leaves nothing.
\<close>

definition record_turn_phase ::
  "sample_env \<Rightarrow> string \<Rightarrow> string \<Rightarrow> int \<Rightarrow> span_handle \<Rightarrow> turn_response \<Rightarrow> scripted_call \<Rightarrow> string \<Rightarrow> unit sample_op" where
  "record_turn_phase E run_id plan_item_id step_index step_span response c llm_output =
     time_phase (se_runtime E) ''record_llm_turn'' step_span None (\<lambda>_.
     if truthy (sc_rationale c) \<and> \<not> is_str (sc_rationale c) then raise (Exn ValueError ''content must be a non-empty string'') else
     bind (record_llm_turn (se_runtime E) run_id plan_item_id llm_output
       (if truthy (sc_rationale c) then text_of (sc_rationale c) else ''Calling '' @ sc_name c)
       (Some [(''model_name'', JStr (tr_model_name response)), (''decision_kind'', JStr (decision_value (tr_kind response)))])) (\<lambda>_.
     maybe_crash_at E step_index ''after_record_llm_turn''))"

definition transaction_phase :: "sample_env \<Rightarrow> int \<Rightarrow> span_handle \<Rightarrow> scripted_call \<Rightarrow> tool_call \<Rightarrow> transaction_result sample_op" where
  "transaction_phase E step_index step_span c call =
     time_phase (se_runtime E) ''tool_transaction'' step_span (Some [(''tool_name'', JStr (sc_name c))]) (\<lambda>_.
     bind (maybe_crash_at E step_index ''before_tool_transaction'') (\<lambda>_.
     bind (execute_tool (se_runtime E) False (replay_adapter E) call) (\<lambda>tx.
     bind (maybe_crash_at E step_index ''after_tool_transaction'') (\<lambda>_. ret tx))))"

definition tool_turn ::
  "sample_env \<Rightarrow> string \<Rightarrow> string \<Rightarrow> int \<Rightarrow> span_handle \<Rightarrow> turn_response \<Rightarrow> scripted_call \<Rightarrow> run_locals \<Rightarrow> run_locals sample_op" where
  "tool_turn E run_id plan_item_id step_index step_span response c L =
     (let llm_output = raw_response (forms (se_runtime E)) response; call = turn_call run_id plan_item_id c in
      bind (record_turn_phase E run_id plan_item_id step_index step_span response c llm_output) (\<lambda>_.
      bind (transaction_phase E step_index step_span c call) (\<lambda>tx.
      let L = L\<lparr>rl_executions := rl_executions L @ [execution_summary c tx]\<rparr> in
      if tx_disposition tx = FAILED_TX then
        raise (case tx_exception tx of Some e \<Rightarrow> e
          | None \<Rightarrow> Exn RuntimeError (''tool execution failed for execution_id='' @ tx_execution_id tx))
      else
        let L = add_message \<lparr>chat_role = ''assistant'', chat_content = llm_output, chat_name = None, chat_tool_call_id = None\<rparr> L in
        bind (if tx_disposition tx = PENDING_RECOVERY
          then settle_pending E run_id step_index step_span c call tx L
          else settle_finished E run_id step_index step_span c tx L) (\<lambda>L.
        bind (finish_item E run_id plan_item_id step_index step_span) (\<lambda>_. ret L)))))"

definition final_turn ::
  "sample_env \<Rightarrow> string \<Rightarrow> string \<Rightarrow> int \<Rightarrow> span_handle \<Rightarrow> turn_response \<Rightarrow> final_answer \<Rightarrow> run_locals \<Rightarrow> run_locals sample_op" where
  "final_turn E run_id plan_item_id step_index step_span response f L =
     bind (time_phase (se_runtime E) ''record_final_message'' step_span None (\<lambda>_.
       bind (record_context_message (se_runtime E) run_id ''assistant'' (fa_answer f)
         (Some [(''stop_reason'', JStr (fa_stop_reason f)), (''model_name'', JStr (tr_model_name response))]) None None) (\<lambda>_.
       maybe_crash_at E step_index ''after_record_final_message''))) (\<lambda>_.
     bind (finish_item E run_id plan_item_id step_index step_span) (\<lambda>_.
     ret (say (''[final] '' @ fa_answer f) L)))"

section \<open>The run\<close>

abbreviation step_item :: "nat \<Rightarrow> nat \<Rightarrow> string" where
  "step_item item_count k \<equiv> ''step_'' @ int_str (int (min k (item_count - 1)))"

text \<open>
  One iteration of the loop, with the number of the plan's items, the script's length and the items
  done when the run began.
\<close>

definition sample_step :: "sample_env \<Rightarrow> string \<Rightarrow> nat \<Rightarrow> nat \<Rightarrow> string list \<Rightarrow> nat \<Rightarrow> run_locals \<Rightarrow> run_locals sample_op" where
  "sample_step E run_id item_count script_length completed k L =
     (let step_index = int k; plan_item_id = step_item item_count k in
      if \<not> se_force_reset E \<and> plan_item_id \<in> set completed \<and> k < item_count
        then ret (say (step_tag step_index @ '' skipped completed plan_item_id='' @ plan_item_id) L)
      else
        time_step (se_runtime E) run_id step_index (Some plan_item_id) (Some [(''script_length'', JInt (int script_length))]) (\<lambda>step_span.
        bind (maybe_crash_at E step_index ''after_step_started'') (\<lambda>_.
        bind (time_phase (se_runtime E) ''llm_generate'' step_span None (\<lambda>_. ask_agent E run_id step_index (rl_messages L))) (\<lambda>response.
        if tr_kind response = TOOL_CALL then
          (case tr_tool_call response of
             None \<Rightarrow> raise (Exn AssertionError [])
           | Some c \<Rightarrow> tool_turn E run_id plan_item_id step_index step_span response c L)
        else
          (case tr_final response of
             None \<Rightarrow> raise (Exn AssertionError [])
           | Some f \<Rightarrow> final_turn E run_id plan_item_id step_index step_span response f L)))))"

fun over_steps :: "(nat \<Rightarrow> 'l \<Rightarrow> ('s, 'l) act) \<Rightarrow> nat list \<Rightarrow> 'l \<Rightarrow> ('s, 'l) act" where
  "over_steps f [] L = ret L"
| "over_steps f (k # ks) L = bind (f k L) (over_steps f ks)"

definition chat_of_message :: "agent_message \<Rightarrow> chat_message" where
  "chat_of_message m = \<lparr>chat_role = msg_role m, chat_content = msg_content m, chat_name = msg_name m,
     chat_tool_call_id = msg_tool_call_id m\<rparr>"

definition chat_of_dict :: "dict \<Rightarrow> chat_message" where
  "chat_of_dict d = \<lparr>chat_role = text_of (dict_get d ''role''), chat_content = text_of (dict_get d ''content''),
     chat_name = None, chat_tool_call_id = None\<rparr>"

definition sample_result ::
  "sample_env \<Rightarrow> string \<Rightarrow> wal_checkpoint option \<Rightarrow> dict \<Rightarrow> evaluation_report \<Rightarrow> run_locals \<Rightarrow> dict res" where
  "sample_result E run_id ck bundle report L =
     rbind (summarize_recovery bundle (rl_decisions L)) (\<lambda>summary. Inr [
       (''run_id'', JStr run_id), (''source_soft_log'', JStr (se_log_path E)),
       (''checkpoint'', jopt (\<lambda>c. JObj (checkpoint_to_dict c)) ck), (''bundle'', JObj bundle),
       (''evaluation_report'', JObj (report_to_dict report)), (''executions'', JList (map JObj (rl_executions L))),
       (''recovery_decisions'', JList (map JObj (rl_decisions L))), (''trace'', str_list (rl_trace L)),
       (''target_store_path'', JStr (se_store_path E)), (''recovery_summary'', JObj summary)])"

text \<open>The run from where the agent and the adapter are there: the loop over the script, then the result.\<close>

definition replay_loop ::
  "sample_env \<Rightarrow> string \<Rightarrow> nat \<Rightarrow> nat \<Rightarrow> chat_message list \<Rightarrow> dict sample_op" where
  "replay_loop E run_id item_count script_length initial_messages =
     (let R = se_runtime E in
      bind (repo_load_context R run_id) (\<lambda>context.
      let messages = (case context of
            Some c \<Rightarrow> if se_force_reset E then initial_messages else map chat_of_message (ctx_messages c)
          | None \<Rightarrow> initial_messages) in
      bind (repo_load_plan R run_id) (\<lambda>planner_state.
      let completed = (case planner_state of None \<Rightarrow> [] | Some st \<Rightarrow> map pi_id (filter (\<lambda>it. pi_status it = DONE) (ps_items st))) in
      bind (over_steps (sample_step E run_id item_count script_length completed) [0..<script_length]
        \<lparr>rl_messages = messages, rl_executions = [], rl_decisions = [], rl_trace = []\<rparr>) (\<lambda>L.
      bind (checkpoint R run_id ''agent_context'' False) (\<lambda>ck.
      bind (rebuild_state R run_id None 1000) (\<lambda>bundle.
      bind (build_evaluation_report run_id True) (\<lambda>report.
      lift (sample_result E run_id ck bundle report L))))))))"

text \<open>
  The run over a soft log that has been read. The coordinator is new: no handoff has been emitted. So are
  the agent and the adapter.
\<close>

definition new_agent :: "turn_response list \<Rightarrow> unit sample_op" where
  "new_agent script = call_tool (\<lambda>(s, _). (Inr (), (s\<lparr>rs_emitted := False, rs_agent := scripted_agent_init script True ''DONE''\<rparr>, [])))"

definition run_replay :: "sample_env \<Rightarrow> (string \<Rightarrow> string) \<Rightarrow> string \<Rightarrow> json \<Rightarrow> dict sample_op" where
  "run_replay E decode_message run_id artifact =
     (let R = se_runtime E; T = forms R in
      bind (lift (case artifact of JObj d \<Rightarrow> Inr d | _ \<Rightarrow> no_get)) (\<lambda>artifact.
      bind (lift (build_script_from_soft_log T decode_message artifact)) (\<lambda>script.
      bind (lift (extract_initial_messages T artifact)) (\<lambda>initial_messages.
      bind (lift (build_plan_items_from_soft_log T artifact)) (\<lambda>plan_items.
      bind (start_run R run_id (map JObj initial_messages) (build_plan_source_text T plan_items) (map JObj plan_items)
        None (se_force_reset E) None) (\<lambda>_.
      bind (if se_reset_target E then call_outside (on_target (seed_mock_target_store (se_target E) extract_seed_state)) else ret ()) (\<lambda>_.
      bind (new_agent script) (\<lambda>_.
      replay_loop E run_id (length plan_items) (length script) (map chat_of_dict initial_messages)))))))))"

definition run_sample_agent :: "sample_env \<Rightarrow> soft_log_files \<Rightarrow> string option \<Rightarrow> string \<Rightarrow> dict sample_op" where
  "run_sample_agent E F soft_log_path run_id =
     bind (lift (load_soft_log_payload F soft_log_path)) (\<lambda>artifact. run_replay E (log_decode_error F) run_id artifact)"

end
