(* ===== verification/Sample_Facts.thy ===== *)
theory Sample_Facts
  imports Sample_Agent System_Runs
begin

text \<open>
  What every run of the sample agent keeps, however it ends. The loop is proved once against the
  operations it calls, as a locale, and used for two invariants: the run is a run of the system, and the
  target has committed planned writes only.
\<close>

section \<open>What the recorder of timings changes\<close>

definition timing_only :: "'t world \<Rightarrow> 't world \<Rightarrow> bool" where
  "timing_only w w' \<longleftrightarrow> (\<exists>spans k u. w' = w\<lparr>db := (db w)\<lparr>evaluation_spans := spans\<rparr>, ticks := k, uuids := u\<rparr>)"

lemma timing_onlyI: "w' = w\<lparr>db := (db w)\<lparr>evaluation_spans := ss\<rparr>, ticks := k, uuids := u\<rparr> \<Longrightarrow> timing_only w w'"
  unfolding timing_only_def by blast

interpretation timing: effect_order timing_only
proof
  show "timing_only s s" for s :: "'t world"
    by (rule timing_onlyI [where ss = "evaluation_spans (db s)" and k = "ticks s" and u = "uuids s"]) simp
  show "timing_only s s''" if "timing_only s s'" "timing_only s' s''" for s s' s'' :: "'t world"
    using that by (auto simp: timing_only_def) blast
qed

lemma same_db_timing: "same_db w w' \<Longrightarrow> timing_only w w'"
  by (rule timing_onlyI [where ss = "evaluation_spans (db w)" and k = "ticks w'" and u = "uuids w'"]) (cases w; cases w'; simp add: same_db_def)

lemma timing_reads: "confined same_db m \<Longrightarrow> confined timing_only m"
  by (rule confinedI) (blast intro: same_db_timing dest: confinedD)

lemma timing_transaction [effect]: "confined timing_only m \<Longrightarrow> confined timing_only (transaction m)"
proof (rule confinedI)
  fix w r w'
  assume m: "confined timing_only m" and run: "transaction m w = (r, w')"
  show "timing_only w w'"
  proof (cases "conn_open w")
    case True
    then show ?thesis using run confinedD [OF m] by (simp add: transaction_def)
  next
    case False
    obtain r0 v where v: "m (w\<lparr>conn_open := True\<rparr>) = (r0, v)" by (cases "m (w\<lparr>conn_open := True\<rparr>)")
    from confinedD [OF m v] obtain ss k u
      where "v = w\<lparr>conn_open := True, db := (db w)\<lparr>evaluation_spans := ss\<rparr>, ticks := k, uuids := u\<rparr>"
      by (auto simp: timing_only_def)
    then have "w' = w\<lparr>db := (db w)\<lparr>evaluation_spans := (case r0 of Inl e \<Rightarrow> evaluation_spans (db w) | Inr x \<Rightarrow> ss)\<rparr>, ticks := k, uuids := u\<rparr>"
      using run False v by (cases w; cases r0) (auto simp: transaction_def)
    then show ?thesis by (rule timing_onlyI)
  qed
qed

lemma timing_update: "(\<And>d. \<exists>ss. f d = d\<lparr>evaluation_spans := ss\<rparr>) \<Longrightarrow> confined timing_only (update_db f)"
proof (rule confinedI)
  fix w :: "'t world" and r w'
  assume f: "\<And>d. \<exists>ss. f d = d\<lparr>evaluation_spans := ss\<rparr>" and run: "update_db f w = (r, w')"
  from f [of "db w"] obtain ss where "f (db w) = (db w)\<lparr>evaluation_spans := ss\<rparr>" by blast
  then show "timing_only w w'"
    using run by (intro timing_onlyI [where ss = ss and k = "ticks w" and u = "uuids w"]) (cases w; auto)
qed

lemmas timing_basic = reads_basic [THEN timing_reads]

lemma timing_spans [effect]:
  "confined timing_only (start_evaluation_span R r i p a ph par md)" "confined timing_only (finish_evaluation_span R si st e md)"
  unfolding start_evaluation_span_def finish_evaluation_span_def Let_def bind_ints_def
  by (intro effect timing_basic timing_update; blast)+

lemma timing_recorder [effect]:
  "confined timing_only (start_step R run_id i p md)" "confined timing_only (start_phase R phase parent md)"
  "confined timing_only (finish_span R si st e md)"
  unfolding start_step_def start_phase_def finish_span_def
  by (intro effect log_reads [THEN timing_reads])+

lemma maintains_timing:
  "(\<And>w w'. timing_only w w' \<Longrightarrow> I w \<Longrightarrow> I w') \<Longrightarrow> confined timing_only m \<Longrightarrow> maintains I (\<lambda>_. True) m"
  by (rule maintains_confined [where Q = timing_only]) auto

lemma maintains_timed:
  assumes "\<And>w w'. timing_only w w' \<Longrightarrow> I w \<Longrightarrow> I w'" and "confined timing_only start" and "\<And>h. maintains I J (body h)"
  shows "maintains I J (timed R start body)"
proof -
  have "maintains I J (\<lambda>w. case body h w of
     (Inr x, w') \<Rightarrow> bind (finish_span R (hd_span_id h) ''succeeded'' None None) (\<lambda>_. ret x) w'
   | (Inl e, w') \<Rightarrow> if exn_class e = ProcessKilled then (Inl e, w')
       else bind (finish_span R (hd_span_id h) (status_for_exception e) (Some (exn_text e))
         (Some [(''exception_type'', JStr (class_name (exn_class e)))])) (\<lambda>_. raise e) w')" (is "maintains I J ?m") for h
  proof -
    have one: "I w' \<and> (case r of Inl e \<Rightarrow> True | Inr x \<Rightarrow> J x)" if "I w" "?m w = (r, w')" for w r w'
    proof (cases "body h w")
      case (Pair r0 v)
      have v: "I v" using that(1) Pair by (rule maintainsD [OF assms(3)])
      have fin: "maintains I (\<lambda>_. True) (finish_span R (hd_span_id h) st em md)" for st em md
        by (rule maintains_timing [OF assms(1)]) (assumption | rule timing_recorder)+
      show ?thesis
      proof (cases r0)
        case (Inl e)
        have "maintains I J (bind (finish_span R (hd_span_id h) (status_for_exception e) (Some (exn_text e))
          (Some [(''exception_type'', JStr (class_name (exn_class e)))])) (\<lambda>_. raise e))"
          by (intro upholds fin)
        then show ?thesis using that(2) v Pair Inl by (auto simp: maintains_def split: if_splits)
      next
        case (Inr x)
        have "J x" using that(1) Pair Inr maintains_InrD [OF assms(3)] by blast
        then have "maintains I J (bind (finish_span R (hd_span_id h) ''succeeded'' None None) (\<lambda>_. ret x))"
          by (intro upholds fin)
        then show ?thesis using that(2) v Pair Inr by (auto simp: maintains_def)
      qed
    qed
    then show ?thesis unfolding maintains_def by blast
  qed
  moreover have "maintains I (\<lambda>_. True) start" by (rule maintains_timing [OF assms(1)]) (assumption | rule assms(2))+
  ultimately show ?thesis unfolding timed_def by (intro maintains_then)
qed

section \<open>The loop against the operations it calls\<close>

text \<open>What the log, the crash simulator and the adapter's flag do leaves the target and the agent alone.\<close>

definition keeps_aside :: "(replay_side \<Rightarrow> 'a res \<times> replay_side) \<Rightarrow> bool" where
  "keeps_aside f \<longleftrightarrow> (\<forall>s. rs_target (snd (f s)) = rs_target s \<and> rs_agent (snd (f s)) = rs_agent s)"

definition agent_turn :: "turn_request \<Rightarrow> replay_side \<Rightarrow> turn_response res \<times> replay_side" where
  "agent_turn request s = (case generate_turn request (rs_agent s) of (r, A) \<Rightarrow> (r, s\<lparr>rs_agent := A\<rparr>))"

text \<open>
  An invariant that the operations of the loop keep. The answer of the agent in a step may be confined
  to those that are \<open>ok\<close> in it, so that only the calls of such answers need to keep the invariant.
\<close>

locale replayed =
  fixes E :: sample_env and run_id :: string and item_count :: nat and ok :: "nat \<Rightarrow> turn_response \<Rightarrow> bool"
    and I :: "replay_side beside world \<Rightarrow> bool"
  assumes timed_only: "timing_only w w' \<Longrightarrow> I w \<Longrightarrow> I w'"
    and aside: "keeps_aside f \<Longrightarrow> maintains I (\<lambda>_. True) (call_outside f :: unit sample_op)"
    and listens: "se_on_llm_response E = Some g \<Longrightarrow> maintains I (\<lambda>_. True) (call_outside (g i raw))"
    and asks: "turn_step_index request = int k \<Longrightarrow> maintains I (ok k) (call_outside (agent_turn request))"
    and says: "maintains I (\<lambda>_. True) (record_context_message (se_runtime E) run_id role content md name call_id)"
    and turns: "maintains I (\<lambda>_. True) (record_llm_turn (se_runtime E) run_id item out said md)"
    and advances: "maintains I (\<lambda>_. True) (advance_plan_item (se_runtime E) run_id item status note)"
    and checks: "maintains I (\<lambda>_. True) (checkpoint (se_runtime E) run_id subsystem b)"
    and recovers: "maintains I (\<lambda>_. True) (recover_run (se_runtime E) (replay_coordinator E) run_id now)"
    and calls: "ok k r \<Longrightarrow> tr_tool_call r = Some c \<Longrightarrow>
      maintains I (\<lambda>_. True) (execute_tool (se_runtime E) False (replay_adapter E) (turn_call run_id (step_item item_count k) c))"
begin

lemma reads: "confined same_db m \<Longrightarrow> maintains I (\<lambda>_. True) m"
  by (rule maintains_timing [OF timed_only timing_reads])

lemmas timed = maintains_timed [where I = I, OF timed_only]

lemma in_phase: "(\<And>h. maintains I J (body h)) \<Longrightarrow> maintains I J (time_phase (se_runtime E) phase parent md body)"
  unfolding time_phase_def by (rule timed) (assumption | rule timing_recorder)+

lemma logs: "maintains I (\<lambda>_. True) (append_jsonl E payload)"
  unfolding append_jsonl_def by (rule aside) (simp add: keeps_aside_def split: option.splits)

lemma crashes: "maintains I (\<lambda>_. True) (maybe_crash_at E i phase)"
  unfolding maybe_crash_at_def by (rule aside) (simp add: keeps_aside_def split: option.splits prod.splits)

lemma asks_agent: "maintains I (ok k) (ask_agent E run_id (int k) messages)"
  unfolding ask_agent_def Let_def agent_turn_def [symmetric]
  by (intro maintains_then [OF crashes] maintains_then [OF logs] maintains_bind [OF asks] upholds logs crashes listens) simp_all

lemma resolves:
  "ok k r \<Longrightarrow> tr_tool_call r = Some c \<Longrightarrow>
   maintains I (\<lambda>_. True) (resolve_recovered_execution E ds i (turn_call run_id (step_item item_count k) c))"
  unfolding resolve_recovered_execution_def Let_def
  by (intro upholds reads agent_reads calls) simp_all

lemma recovery: "maintains I (\<lambda>_. True) (recovery_phase E run_id i sp now)"
  unfolding recovery_phase_def by (intro in_phase upholds recovers crashes) simp

lemma finishes: "maintains I (\<lambda>_. True) (finish_item E run_id item i sp)"
  unfolding finish_item_def by (intro in_phase upholds advances crashes)

lemma settles:
  "ok k r \<Longrightarrow> tr_tool_call r = Some c \<Longrightarrow>
   maintains I (\<lambda>_. True) (settle_pending E run_id i sp c (turn_call run_id (step_item item_count k) c) tx L)"
  "maintains I (\<lambda>_. True) (settle_finished E run_id i sp c tx L)"
  unfolding settle_pending_def settle_finished_def Let_def
  by (intro upholds reads agent_reads maintains_lift resolves recovery; simp)+

lemma takes_turn:
  assumes "ok k r" and "tr_tool_call r = Some c"
  shows "maintains I (\<lambda>_. True) (tool_turn E run_id (step_item item_count k) i sp r c L)"
  unfolding tool_turn_def record_turn_phase_def transaction_phase_def Let_def
  by (intro upholds in_phase turns crashes calls [OF assms] settles(1) [OF assms] settles(2) finishes; simp)

lemma answers: "maintains I (\<lambda>_. True) (final_turn E run_id item i sp r f L)"
  unfolding final_turn_def by (intro upholds in_phase says crashes finishes; simp)

lemma step_body:
  "maintains I (\<lambda>_. True) (bind (maybe_crash_at E i phase) (\<lambda>_.
     bind (time_phase (se_runtime E) ''llm_generate'' sp md (\<lambda>_. ask_agent E run_id (int k) ms)) (\<lambda>response.
     if tr_kind response = TOOL_CALL then
       (case tr_tool_call response of
          None \<Rightarrow> raise (Exn AssertionError [])
        | Some c \<Rightarrow> tool_turn E run_id (step_item item_count k) i sp response c L)
     else
       (case tr_final response of
          None \<Rightarrow> raise (Exn AssertionError [])
        | Some f \<Rightarrow> final_turn E run_id (step_item item_count k) i sp response f L))))"
  by (rule maintains_then [OF crashes], rule maintains_bind [OF in_phase [OF asks_agent]]) (intro upholds takes_turn answers)

lemma steps: "maintains I (\<lambda>_. True) (sample_step E run_id item_count len finished k L)"
  unfolding sample_step_def time_step_def Let_def
  by (intro maintains_if maintains_ret timed step_body) (assumption | rule timing_recorder | simp)+

lemma loops: "maintains I (\<lambda>_. True) (over_steps (sample_step E run_id item_count len finished) ks L)"
  by (induction ks arbitrary: L) (auto intro!: upholds steps)

lemma replays: "maintains I (\<lambda>_. True) (replay_loop E run_id item_count len ms)"
  unfolding replay_loop_def build_evaluation_report_def Let_def
  by (intro upholds reads [OF agent_reads(3)] reads [OF load_plan_reads] reads [OF log_reads(8)] reads [OF facade_reads(1)] loops checks maintains_lift; simp)

end

section \<open>A replay is a run of the system\<close>

definition replays_system :: "sample_env \<Rightarrow> string \<Rightarrow> replay_side beside world \<Rightarrow> bool" where
  "replays_system E run_id w \<longleftrightarrow> canonical run_id \<and> hex_digest (sha256_hex (se_runtime E)) \<and> system_reachable (se_runtime E) w"

lemma system_reachable_step: "system_reachable R w \<Longrightarrow> system_step R w w' \<Longrightarrow> system_reachable R w'"
  using system_reachable_steps by blast

lemma replays_stepI:
  assumes "\<And>w. canonical run_id \<Longrightarrow> hex_digest (sha256_hex (se_runtime E)) \<Longrightarrow> system_step (se_runtime E) w (snd (m w))"
  shows "maintains (replays_system E run_id) (\<lambda>_. True) m"
proof (rule maintainsI)
  fix w r w' assume "replays_system E run_id w" "m w = (r, w')"
  then show "replays_system E run_id w'"
    using assms [of w] system_reachable_step [of "se_runtime E" w "snd (m w)"] by (simp add: replays_system_def)
qed simp

lemma tool_system_step:
  "system_step R w (snd (call_tool g w))"
proof -
  have "snd (call_tool h w) = w\<lparr>outside := snd (h (outside w)), ticks := ticks w, uuids := uuids w\<rparr>" for h :: "'a beside \<Rightarrow> 'e res \<times> 'a beside"
    by (simp add: call_tool_def split: prod.splits)
  then have "system_step R w (snd (call_tool h w))" for h :: "'a beside \<Rightarrow> 'e res \<times> 'a beside"
    using system_step.operation [OF facade_step.environment] by metis
  then show "system_step R w (snd (call_tool g w))" .
qed

lemma outside_system_step: "system_step R w (snd (call_outside f w))"
  unfolding call_outside_def by (rule tool_system_step)

interpretation system_replay: replayed E run_id item_count "\<lambda>_ _. True" "replays_system E run_id" for E run_id item_count
proof (unfold_locales, goal_cases)
  case (1 w w')
  then show ?case
    by (auto simp: timing_only_def replays_system_def intro: system_reachable_step [OF _ system_step.operation [OF facade_step.timing]])
next
  case (10 k r c)
  show ?case
    by (intro replays_stepI system_step.call) (simp_all add: turn_call_def call_execution_id_def execution_id_canonical)
qed (auto intro!: replays_stepI outside_system_step system_step.operation system_step.recovery intro: facade_step.intros)

lemma replays_system_prefix:
  "maintains (replays_system E run_id) (\<lambda>_. True) (start_run (se_runtime E) run_id ms txt its mem b sc)"
  "maintains (replays_system E run_id) (\<lambda>_. True) (new_agent script)"
  "maintains (replays_system E run_id) (\<lambda>_. True) (call_outside f)"
  unfolding new_agent_def
  by (intro replays_stepI outside_system_step tool_system_step system_step.operation facade_step.start; assumption)+

lemma run_replay_system: "maintains (replays_system E run_id) (\<lambda>_. True) (run_replay E dm run_id artifact)"
  unfolding run_replay_def Let_def
  by (intro upholds maintains_lift replays_system_prefix system_replay.replays TrueI)

lemma run_sample_system: "maintains (replays_system E run_id) (\<lambda>_. True) (run_sample_agent E F path run_id)"
  unfolding run_sample_agent_def by (intro upholds maintains_lift run_replay_system TrueI)

text \<open>C17: A run of the sample agent under an identifier without blanks, from a state the system can reach, leaves
  such a state whether it finishes, fails or is killed at a phase: all that holds of the system's runs
  holds of its database, and the next run may resume from it.\<close>

theorem sample_run_stays_reachable:
  assumes "canonical run_id" and "hex_digest (sha256_hex (se_runtime E))" and "system_reachable (se_runtime E) w"
    and "run_sample_agent E F path run_id w = (r, w')"
  shows "system_reachable (se_runtime E) w'"
proof -
  have "replays_system E run_id w" using assms(1-3) by (simp add: replays_system_def)
  from maintainsD [OF run_sample_system this assms(4)] show ?thesis by (simp add: replays_system_def)
qed

section \<open>The target commits planned writes only\<close>

definition commits_in :: "string set \<Rightarrow> dict \<Rightarrow> bool" where
  "commits_in A data \<longleftrightarrow> list_all (\<lambda>(k, v). is_obj v) (obj_at data ''idempotent_requests'') \<and>
     distinct (map fst (obj_at data ''idempotent_requests'')) \<and> fst ` set (obj_at data ''idempotent_requests'') \<subseteq> A \<and>
     stat_of data ''total_commits'' = int (length (obj_at data ''idempotent_requests''))"

definition only_commits :: "string set \<Rightarrow> target \<Rightarrow> bool" where
  "only_commits A t \<longleftrightarrow> (case target_file t of None \<Rightarrow> True
     | Some f \<Rightarrow> \<exists>data. f = JObj data \<and> shaped data \<and> commits_in A data)"

lemma commits_in_initial: "commits_in A (initial_store c u)"
  by (simp add: commits_in_def initial_store_def obj_at_def stat_of_def store_stats_def)

lemma commits_in_meta: "commits_in A (AList.update ''meta'' (JObj meta) data) = commits_in A data"
  by (simp add: commits_in_def stat_of_def)

lemma commits_in_request:
  assumes "commits_in A data" and "commits_request ''idempotent_requests'' ''idempotent_commits'' i r data data'"
    and "\<not> is_obj (dict_get (obj_at data ''idempotent_requests'') i)" and "i \<in> A"
  shows "commits_in A data'"
proof -
  have d: "list_all (\<lambda>(k, v). is_obj v) (obj_at data ''idempotent_requests'')" using assms(1) by (simp add: commits_in_def)
  from assms(2) obtain n m where c: "obj_at data' ''idempotent_requests'' = AList.update i (JObj r) (obj_at data ''idempotent_requests'')"
      and n: "as_int (dict_get (obj_at data ''stats'') ''total_commits'') = Some n"
        "as_int (dict_get (obj_at data ''stats'') ''idempotent_commits'') = Some m"
      and stats: "obj_at data' ''stats'' =
        AList.update ''idempotent_commits'' (JInt (m + 1)) (AList.update ''total_commits'' (JInt (n + 1)) (obj_at data ''stats''))"
    unfolding commits_request_def by blast
  from stat_of_update [OF stats n, of "''total_commits''"] have t: "stat_of data' ''total_commits'' = stat_of data ''total_commits'' + 1"
    by simp
  show ?thesis
    using assms(1,4) absent_unless_obj [OF d assms(3)] unfolding commits_in_def c t
    by (simp add: list_all_update distinct_update_keys keys_update length_update)
qed

lemma only_commits_stored:
  "target_file t = Some (JObj data) \<Longrightarrow> shaped data \<Longrightarrow> commits_in A data \<Longrightarrow> only_commits A t"
  by (simp add: only_commits_def)

lemma only_commits_init:
  assumes "only_init t t'" and "only_commits A t"
  shows "only_commits A t'"
  using assms(1) unfolding only_init_def
proof (elim disjE conjE exE)
  assume "target_file t' = target_file t"
  from assms(2) show ?thesis unfolding only_commits_def \<open>target_file t' = target_file t\<close> .
next
  fix c u assume "target_file t' = Some (JObj (initial_store c u))"
  then show ?thesis using initial_shaped commits_in_initial by (rule only_commits_stored)
qed

lemma only_commits_request:
  assumes "only_commits A t" and "apply_idempotent_action T a p i t = (r, t')" and "i \<in> A"
  shows "only_commits A t'"
proof (cases r)
  case (Inl e)
  then have "only_init t t'" using spares_apply(1) assms(2) unfolding spares_def by blast
  then show ?thesis using assms(1) by (rule only_commits_init)
next
  case (Inr x)
  from assms(2) [unfolded apply_idempotent_action_def Inr] insertI1 insertI1 show ?thesis
  proof (cases rule: keyed_request_InrE)
    case (hit data existing)
    then show ?thesis using only_commits_init [OF confinedD [OF init_basic(3)] assms(1)] by blast
  next
    case (applied data t1 record0 receipt data' meta)
    have "only_commits A t1" using applied(1) only_commits_init [OF confinedD [OF init_basic(3)] assms(1)] by blast
    with target_load_cases [OF applied(1)] have "commits_in A data" by (auto simp: only_commits_def ensure_shape_id)
    then have "commits_in A data'" using applied(7,2) assms(3) by (rule commits_in_request)
    moreover have "shaped data'" using applied(7) by (simp add: commits_request_def)
    ultimately show ?thesis
      using applied(8) by (intro only_commits_stored [of _ "AList.update ''meta'' (JObj meta) data'"]) (simp_all add: commits_in_meta shaped_update)
  qed
qed

lemma commits_in_total: "commits_in A data \<Longrightarrow> finite A \<Longrightarrow> stat_of data ''total_commits'' \<le> int (card A)"
proof -
  assume c: "commits_in A data" and "finite A"
  then have d: "distinct (map fst (obj_at data ''idempotent_requests''))" "fst ` set (obj_at data ''idempotent_requests'') \<subseteq> A"
    by (auto simp: commits_in_def)
  have "length (obj_at data ''idempotent_requests'') = card (set (map fst (obj_at data ''idempotent_requests'')))"
    using distinct_card [OF d(1)] by simp
  also have "\<dots> \<le> card A" using d(2) \<open>finite A\<close> by (intro card_mono) auto
  finally show ?thesis using c by (simp add: commits_in_def)
qed

section \<open>The calls of a script\<close>

definition applies :: "turn_response \<Rightarrow> bool" where
  "applies r = (case tr_tool_call r of Some c \<Rightarrow> sc_name c = ''apply-action'' | None \<Rightarrow> False)"

definition planned_ids :: "runtime \<Rightarrow> string \<Rightarrow> nat \<Rightarrow> turn_response list \<Rightarrow> string list" where
  "planned_ids R run_id item_count script = map (\<lambda>(k, r). call_execution_id R (turn_call run_id (step_item item_count k) (the (tr_tool_call r))))
     (filter (\<lambda>(k, r). applies r) (enumerate 0 script))"

lemma length_planned_ids: "length (planned_ids R run_id n script) = length (filter applies script)"
proof -
  have "length (filter (\<lambda>(k, r). applies r) (enumerate i script)) = length (filter applies script)" for i
    by (induction script arbitrary: i) auto
  then show ?thesis by (simp add: planned_ids_def)
qed

lemma planned_id:
  "k < length script \<Longrightarrow> tr_tool_call (script ! k) = Some c \<Longrightarrow> sc_name c = ''apply-action'' \<Longrightarrow>
   call_execution_id R (turn_call run_id (step_item n k) c) \<in> set (planned_ids R run_id n script)"
  by (force simp: planned_ids_def applies_def in_set_enumerate_eq intro!: rev_image_eqI [of "(k, script ! k)"])

definition side_ok :: "string set \<Rightarrow> turn_response list \<Rightarrow> replay_side \<Rightarrow> bool" where
  "side_ok A script s \<longleftrightarrow> only_commits A (rs_target s) \<and> ag_script (rs_agent s) = script \<and> ag_strict (rs_agent s)"

lemma side_target:
  assumes "\<And>t r t'. only_commits A t \<Longrightarrow> f t = (r, t') \<Longrightarrow> only_commits A t'"
  shows "maintains (side_ok A script) (\<lambda>_. True) (on_target f)"
  by (rule maintainsI) (auto simp: on_target_def side_ok_def split: prod.splits dest: assms)

lemma side_reads: "confined only_init f \<Longrightarrow> maintains (side_ok A script) (\<lambda>_. True) (on_target f)"
  by (rule side_target) (blast intro: only_commits_init dest: confinedD)

lemma side_flag: "maintains (side_ok A script) (\<lambda>_. True) (modify (\<lambda>s. s\<lparr>rs_emitted := b\<rparr>))" "maintains (side_ok A script) (\<lambda>_. True) (gets f)"
  by (auto simp: maintains_def side_ok_def modify_def gets_def)

lemma only_commits_action:
  assumes "target_mode T = IDEMPOTENT" and "i \<in> A" and "i \<noteq> []" and "only_commits A t" and "apply_action T a p (Some i) t = (r, t')"
  shows "only_commits A t'"
  using assms only_commits_request [OF assms(4) _ assms(2)] by (auto simp: apply_action_def split: if_splits)

lemma side_invoke:
  assumes "target_mode (se_target E) = IDEMPOTENT" and "tool_name = ''apply-action'' \<Longrightarrow> \<exists>i\<in>A. execution_id = Some i \<and> i \<noteq> []"
  shows "maintains (side_ok A script) (\<lambda>_. True) (replay_invoke E tool_name request execution_id)"
proof -
  have action: "maintains (side_ok A script) (\<lambda>_. True) (on_target (apply_action (se_target E) a p execution_id))" if "tool_name = ''apply-action''" for a p
    using assms(2) [OF that] only_commits_action [OF assms(1)] by (auto intro!: side_target)
  show ?thesis
    unfolding replay_invoke_def Let_def
    by (intro upholds maintains_lift side_flag action side_reads [OF init_reads(3)] TrueI)
qed

lemma side_call:
  assumes "maintains (side_ok A script) (\<lambda>_. True) (replay_invoke E tool_name request execution_id)" and "side_ok A script (fst b)"
  shows "side_ok A script (fst (snd (replay_adapter E tool_name request execution_id timeout b)))"
  using assms maintainsD [OF assms(1)] by (cases b) (auto simp: replay_adapter_def split: prod.splits)

section \<open>Replays of one script\<close>

text \<open>
  What a replay keeps of what is outside: the listener is assumed not to touch the target, and every
  \<open>apply-action\<close> of the script is a write.
\<close>

definition replays_writes :: "sample_env \<Rightarrow> string \<Rightarrow> nat \<Rightarrow> turn_response list \<Rightarrow> replay_side beside world \<Rightarrow> bool" where
  "replays_writes E run_id item_count script w \<longleftrightarrow> target_mode (se_target E) = IDEMPOTENT \<and>
     (\<forall>g i raw. se_on_llm_response E = Some g \<longrightarrow> keeps_aside (g i raw)) \<and>
     list_all (\<lambda>r. applies r \<longrightarrow> sc_operation_type (the (tr_tool_call r)) = WRITE) script \<and>
     side_ok (set (planned_ids (se_runtime E) run_id item_count script)) script (fst (outside w))"

lemma replays_writes_same: "outside w' = outside w \<Longrightarrow> replays_writes E run_id n script w \<Longrightarrow> replays_writes E run_id n script w'"
  by (simp add: replays_writes_def)

lemma writes_quiet: "confined same_outside m \<Longrightarrow> maintains (replays_writes E run_id n script) (\<lambda>_. True) m"
  by (rule maintains_confined [where Q = same_outside]) (auto simp: same_outside_def intro: replays_writes_same)

lemma call_outside_InrD: "call_outside f w = (r, w') \<Longrightarrow> fst (outside w') = snd (f (fst (outside w))) \<and> r = fst (f (fst (outside w)))"
  by (auto simp: call_outside_def call_tool_def split: prod.splits)

lemma writes_outside:
  assumes "\<And>A. maintains (side_ok A script) J f"
  shows "maintains (replays_writes E run_id n script) J (call_outside f)"
proof (rule maintainsI)
  fix w r w' assume i: "replays_writes E run_id n script w" and run: "call_outside f w = (r, w')"
  let ?A = "set (planned_ids (se_runtime E) run_id n script)"
  have "side_ok ?A script (fst (outside w))" using i by (simp add: replays_writes_def)
  from maintainsD [OF assms this surjective_pairing] have "side_ok ?A script (fst (outside w'))"
    using call_outside_InrD [OF run] by simp
  then show "replays_writes E run_id n script w'" using i by (simp add: replays_writes_def)
next
  fix w x w' assume i: "replays_writes E run_id n script w" and run: "call_outside f w = (Inr x, w')"
  have "side_ok (set (planned_ids (se_runtime E) run_id n script)) script (fst (outside w))" using i by (simp add: replays_writes_def)
  then show "J x"
    using call_outside_InrD [OF run] by (intro maintains_InrD [OF assms]) (auto simp: prod_eq_iff)
qed

lemma keeps_aside_side: "keeps_aside f \<Longrightarrow> maintains (side_ok A script) (\<lambda>_. True) f"
proof (rule maintainsI)
  fix s r s' assume f: "keeps_aside f" and "side_ok A script s" and run: "f s = (r, s')"
  moreover have "rs_target s' = rs_target s \<and> rs_agent s' = rs_agent s" using f run unfolding keeps_aside_def by (metis snd_conv)
  ultimately show "side_ok A script s'" by (simp add: side_ok_def)
qed simp

lemma keeps_aside_snd: "keeps_aside f \<Longrightarrow> side_ok A script (snd (f s)) = side_ok A script s"
  by (simp add: keeps_aside_def side_ok_def)

lemma agent_turn_side:
  "turn_step_index request = int k \<Longrightarrow> maintains (side_ok A script) (\<lambda>r. k < length script \<and> r = script ! k) (agent_turn request)"
  by (rule maintainsI) (auto simp: agent_turn_def generate_turn_def side_ok_def Let_def bind_def modify_def gets_def raise_def
      split: if_splits)

lemma writes_call:
  assumes "k < length script \<and> r = script ! k" and "tr_tool_call r = Some c"
  shows "maintains (replays_writes E run_id n script) (\<lambda>_. True)
    (execute_tool (se_runtime E) False (replay_adapter E) (turn_call run_id (step_item n k) c))"
proof (rule maintainsI)
  fix w res w' assume i: "replays_writes E run_id n script w"
    and run: "execute_tool (se_runtime E) False (replay_adapter E) (turn_call run_id (step_item n k) c) w = (res, w')"
  let ?A = "set (planned_ids (se_runtime E) run_id n script)"
  from execute_tool_outside [OF run] show "replays_writes E run_id n script w'"
  proof (elim disjE exE conjE)
    fix kind assume kind: "normalize_operation_type (call_operation_type (turn_call run_id (step_item n k) c)) = Inr kind"
      and out: "outside w' = snd (adapter_call (se_runtime E) (replay_adapter E) (turn_call run_id (step_item n k) c) kind (outside w))"
    have w: "sc_operation_type c = WRITE" if "sc_name c = ''apply-action''"
      using i assms that by (auto simp: replays_writes_def list_all_iff applies_def dest!: bspec [where x = r])
    have "normalize_operation_type (operation_value WRITE) = Inr WRITE" by code_simp
    then have "\<exists>i\<in>?A. (if kind = WRITE \<and> call_idempotency_supported (turn_call run_id (step_item n k) c)
        then Some (call_execution_id (se_runtime E) (turn_call run_id (step_item n k) c)) else None) = Some i \<and> i \<noteq> []"
      if "call_tool_name (turn_call run_id (step_item n k) c) = ''apply-action''"
      using kind that w planned_id [of k script c] assms
      by (auto simp: turn_call_def call_execution_id_def build_execution_id_def)
    from side_invoke [OF _ this] i have "side_ok ?A script (fst (outside w'))"
      unfolding out by (intro side_call) (auto simp: replays_writes_def)
    then show ?thesis using i by (simp add: replays_writes_def)
  qed (rule replays_writes_same [OF _ i])
qed simp

text \<open>A recovery only looks at the target.\<close>

definition looks :: "replay_side beside world \<Rightarrow> replay_side beside world \<Rightarrow> bool" where
  "looks w w' \<longleftrightarrow> only_init (rs_target (fst (outside w))) (rs_target (fst (outside w'))) \<and>
     rs_agent (fst (outside w')) = rs_agent (fst (outside w))"

interpretation looking: effect_order looks
  by unfold_locales (auto simp: looks_def init.stays intro: init.chains)

lemma looks_quiet: "confined same_outside m \<Longrightarrow> confined looks m"
  by (rule confinedI) (auto simp: same_outside_def looks_def init.stays dest: confinedD)

lemma looks_verifier: "confined looks (call_outside (replay_verifier E i tool args))"
proof (rule confinedI)
  fix w r w' assume run: "call_outside (replay_verifier E i tool args) w = (r, w')"
  have "only_init t (snd (mock_target_verifier T i tool args t))" for T t
    using confinedD [OF init_verify, of T i tool args t]
    by (cases "verify_write T i tool args t"; cases "fst (verify_write T i tool args t)") (auto simp: mock_target_verifier_def)
  then show "looks w w'"
    using call_outside_InrD [OF run] by (simp add: looks_def replay_verifier_def on_target_def split: prod.splits)
      (metis snd_conv)
qed

lemmas quiet_parts = facade_effect(3) facade_effect(17) agent_reads [THEN confined_no_db(1)] facade_reads [THEN confined_no_db(1)]
  reads_basic [THEN confined_no_db(1)]

lemma coordinator_parts [simp]: "verifier (replay_coordinator E) = Some (replay_verifier E)"
    "emit_handoff_if_needed R (replay_coordinator E) d = ret ()"
  by (simp_all add: replay_coordinator_def emit_handoff_if_needed_def)

lemma looks_reconcile [effect]: "confined looks (reconcile_tool_message R run_id record)"
  unfolding reconcile_tool_message_def by (intro effect quiet_parts [THEN looks_quiet])

lemma confined_case_bool [effect]: "confined Q m \<Longrightarrow> confined Q n \<Longrightarrow> confined Q (case b of True \<Rightarrow> m | False \<Rightarrow> n)"
  by (cases b) simp_all

lemma looks_verify [effect]: "confined looks (verify_ambiguous_write R (replay_verifier E) run_id i record fallback)"
  unfolding verify_ambiguous_write_def by (intro effect looks_verifier quiet_parts [THEN looks_quiet])

lemma looks_recover_one [effect]: "confined looks (recover_one R (replay_coordinator E) run_id now records i)"
  unfolding recover_one_def Let_def coordinator_parts option.case by (intro effect)

lemma looks_recovery: "confined looks (recover_run R (replay_coordinator E) run_id now)"
  unfolding recover_run_def Let_def by (intro effect quiet_parts [THEN looks_quiet] confined_no_db(1) [THEN looks_quiet])

interpretation write_replay: replayed E run_id item_count "\<lambda>k r. k < length script \<and> r = script ! k"
    "replays_writes E run_id item_count script" for E run_id item_count script
proof (unfold_locales, goal_cases)
  case (1 w w')
  then show ?case by (auto simp: timing_only_def intro: replays_writes_same)
next
  case (3 g i raw)
  then show ?case
    by (intro maintainsI) (auto simp: replays_writes_def keeps_aside_snd dest!: call_outside_InrD [where f = "g i raw"])
next
  case (9 now)
  show ?case
    by (rule maintains_confined [OF looks_recovery])
      (auto simp: looks_def replays_writes_def side_ok_def intro: only_commits_init)
next
  case (10 k r c)
  then show ?case by (intro writes_call) simp_all
qed (auto intro!: writes_quiet facade_effect writes_outside keeps_aside_side agent_turn_side)

section \<open>Any number of replays\<close>

lemma maintains_lifted: "(\<And>x. r = Inr x \<Longrightarrow> maintains I J (f x)) \<Longrightarrow> maintains I J (bind (lift r) f)"
  by (cases r) (simp_all add: maintains_def)

abbreviation store_of :: "replay_side beside world \<Rightarrow> target" where
  "store_of w \<equiv> rs_target (fst (outside w))"

lemma seeds_store:
  assumes "call_outside (on_target (seed_mock_target_store T seed_state)) w = (r, w')" and "only_commits A (store_of w)"
  shows "only_commits A (store_of w')"
proof -
  obtain r0 t where run: "seed_mock_target_store T seed_state (store_of w) = (r0, t)"
    by (cases "seed_mock_target_store T seed_state (store_of w)")
  then have t: "store_of w' = t" using call_outside_InrD [OF assms(1)] by (simp add: on_target_def)
  define data where "data = [(''meta'', JObj [(''version'', JInt 3), (''created_at'', JStr ''2026-04-11T00:00:00+00:00''), (''updated_at'', JStr ''2026-04-11T00:00:00+00:00'')]),
      (''stats'', JObj [(''total_commits'', JInt 0), (''idempotent_commits'', JInt 0), (''rifl_commits'', JInt 0),
        (''distinguishable_commits'', JInt 0), (''counter_commits'', JInt 0)]),
      (''action_log'', JObj []), (''domain_state'', JObj seed_state), (''idempotent_requests'', JObj []), (''rifl_requests'', JObj []),
      (''distinguishable_state'', JObj []), (''distinguishable_history'', JObj []), (''counters'', JObj [])]"
  have sh: "shaped data" by (simp add: data_def shaped_def store_maps_def store_stats_def obj_at_def)
  have c: "commits_in A data" by (simp add: data_def commits_in_def obj_at_def stat_of_def)
  have save: "target_save T data (store_of w) = (r0, t)" using run unfolding seed_mock_target_store_def data_def .
  show ?thesis
  proof (cases r0)
    case (Inl e)
    then have "target_file t = target_file (store_of w)" using target_save_InrD [OF save sh] by simp
    with assms(2) show ?thesis unfolding t only_commits_def by simp
  next
    case (Inr u)
    then obtain meta where "target_file t = Some (JObj (AList.update ''meta'' (JObj meta) data))"
      using target_save_InrD [OF save sh] by auto
    then show ?thesis unfolding t
      by (rule only_commits_stored) (simp_all add: shaped_update sh commits_in_meta c)
  qed
qed

definition harmless :: "sample_env \<Rightarrow> bool" where
  "harmless E \<longleftrightarrow> target_mode (se_target E) = IDEMPOTENT \<and> (\<forall>g i raw. se_on_llm_response E = Some g \<longrightarrow> keeps_aside (g i raw))"

definition writes_only :: "turn_response list \<Rightarrow> bool" where
  "writes_only script \<longleftrightarrow> list_all (\<lambda>r. applies r \<longrightarrow> sc_operation_type (the (tr_tool_call r)) = WRITE) script"

lemma run_replay_commits:
  assumes "harmless E" and "writes_only script" and "build_script_from_soft_log (forms (se_runtime E)) dm artifact = Inr script"
    and "build_plan_items_from_soft_log (forms (se_runtime E)) artifact = Inr plan_items"
  shows "maintains (\<lambda>w. only_commits (set (planned_ids (se_runtime E) run_id (length plan_items) script)) (store_of w)) (\<lambda>_. True)
    (run_replay E dm run_id (JObj artifact))" (is "maintains ?I _ _")
proof -
  have start: "maintains ?I (\<lambda>_. True) (start_run (se_runtime E) run_id ms plan_text its mm b sc)" for ms plan_text its mm b sc
    by (rule maintains_confined [OF facade_effect(1)]) (auto simp: same_outside_def)
  have seed: "maintains ?I (\<lambda>_. True) (if b then call_outside (on_target (seed_mock_target_store T extract_seed_state)) else ret ())" for b T
    by (rule maintains_if) (blast intro: maintainsI seeds_store, simp add: maintains_ret)
  have agent: "maintains ?I (\<lambda>_. True) (bind (new_agent script) (\<lambda>_. replay_loop E run_id (length plan_items) len ms))" for len ms
  proof (rule maintainsI)
    fix w r w' assume i: "?I w" and run: "bind (new_agent script) (\<lambda>_. replay_loop E run_id (length plan_items) len ms) w = (r, w')"
    obtain w1 where w1: "new_agent script w = (Inr (), w1)" "store_of w1 = store_of w"
        "ag_script (rs_agent (fst (outside w1))) = script" "ag_strict (rs_agent (fst (outside w1)))"
      by (cases "outside w") (simp add: new_agent_def call_tool_def scripted_agent_init_def)
    have "replays_writes E run_id (length plan_items) script w1"
      using i assms(1,2) w1 by (simp add: replays_writes_def side_ok_def harmless_def writes_only_def)
    moreover have "replay_loop E run_id (length plan_items) len ms w1 = (r, w')"
      using run by (simp add: bind_Inr [where m = "new_agent script", OF w1(1)])
    ultimately have "replays_writes E run_id (length plan_items) script w'" by (blast intro: maintainsD [OF write_replay.replays])
    then show "?I w'" by (simp add: replays_writes_def side_ok_def)
  qed simp
  show ?thesis
    unfolding run_replay_def Let_def json.case
  proof (intro maintains_lifted, goal_cases)
    case (1 art s ms items)
    then have eq: "art = artifact" "s = script" "items = plan_items" using assms(3,4) by auto
    show ?case unfolding eq by (rule maintains_then [OF start], rule maintains_then [OF seed]) (rule agent)
  qed
qed

text \<open>
  Any number of runs of the agent over one soft log under one identifier, each in a process of its own: with its own clock,
  its own failures and its own point of crash.
\<close>

definition sample_process ::
  "soft_log_files \<Rightarrow> string option \<Rightarrow> string \<Rightarrow> sample_env \<times> crash_simulator option \<Rightarrow> replay_side beside world \<Rightarrow> replay_side beside world" where
  "sample_process F path run_id p w = snd (run_sample_agent (fst p) F path run_id
     (w\<lparr>outside := ((fst (outside w))\<lparr>rs_crash := snd p\<rparr>, snd (outside w))\<rparr>))"

definition sample_runs ::
  "soft_log_files \<Rightarrow> string option \<Rightarrow> string \<Rightarrow> (sample_env \<times> crash_simulator option) list \<Rightarrow> replay_side beside world \<Rightarrow> replay_side beside world" where
  "sample_runs F path run_id = fold (sample_process F path run_id)"

lemma sample_runs_keep:
  assumes "\<And>p. p \<in> set ps \<Longrightarrow> maintains (\<lambda>w. P (store_of w)) (\<lambda>_. True) (run_sample_agent (fst p) F path run_id)" and "P (store_of w)"
  shows "P (store_of (sample_runs F path run_id ps w))"
  using assms unfolding sample_runs_def
proof (induction ps arbitrary: w)
  case (Cons p ps)
  have "P (store_of (sample_process F path run_id p w))"
    unfolding sample_process_def by (rule maintainsD [OF Cons.prems(1) _ surjective_pairing]) (simp_all add: Cons.prems(2))
  then show ?case using Cons.IH Cons.prems(1) by simp
qed simp

lemma sample_agent_commits:
  assumes "load_soft_log_payload F path = Inr (JObj artifact)"
    and "build_script_from_soft_log (forms (se_runtime E)) (log_decode_error F) artifact = Inr script"
    and "build_plan_items_from_soft_log (forms (se_runtime E)) artifact = Inr plan_items" and "writes_only script" and "harmless E"
  shows "maintains (\<lambda>w. only_commits (set (planned_ids (se_runtime E) run_id (length plan_items) script)) (store_of w)) (\<lambda>_. True)
    (run_sample_agent E F path run_id)"
  unfolding run_sample_agent_def assms(1)
  by (rule maintains_lifted) (use run_replay_commits [OF assms(5,4,2,3)] in auto)

lemma card_planned_ids: "card (set (planned_ids R run_id n script)) \<le> length (filter applies script)"
  using card_length length_planned_ids by metis

lemma planned_ids_same:
  "forms R = forms R' \<Longrightarrow> sha256_hex R = sha256_hex R' \<Longrightarrow> planned_ids R run_id n script = planned_ids R' run_id n script"
  by (simp add: planned_ids_def call_execution_id_def build_execution_id_def)

text \<open>C4: However often a run of the sample agent is crashed and started again under its identifier, with lost and with
  ambiguous writes, a target that is asked with idempotency keys never commits more than the
  \<open>apply-action\<close> calls of the logged run, provided they were logged as writes.\<close>

theorem crashed_runs_commit_each_write_once:
  assumes "load_soft_log_payload F path = Inr (JObj artifact)" and "build_script_from_soft_log T (log_decode_error F) artifact = Inr script"
    and "build_plan_items_from_soft_log T artifact = Inr plan_items" and "writes_only script"
    and "\<forall>(E, c)\<in>set ps. harmless E \<and> forms (se_runtime E) = T \<and> sha256_hex (se_runtime E) = h"
    and "target_file (store_of w) = None"
  shows "case target_file (store_of (sample_runs F path run_id ps w)) of None \<Rightarrow> True
    | Some f \<Rightarrow> \<exists>data. ensure_shape f = Inr data \<and> stat_of data ''total_commits'' \<le> int (length (filter applies script))"
proof (cases ps)
  case Nil
  then show ?thesis using assms(6) by (simp add: sample_runs_def)
next
  case (Cons p0 rest)
  let ?A = "set (planned_ids (se_runtime (fst p0)) run_id (length plan_items) script)"
  have "maintains (\<lambda>w. only_commits ?A (store_of w)) (\<lambda>_. True) (run_sample_agent (fst p) F path run_id)" if "p \<in> set ps" for p
  proof -
    have p: "harmless (fst p)" "forms (se_runtime (fst p)) = T" "sha256_hex (se_runtime (fst p)) = h" using assms(5) that by auto
    have "planned_ids (se_runtime (fst p0)) run_id (length plan_items) script = planned_ids (se_runtime (fst p)) run_id (length plan_items) script"
      using assms(5) Cons p by (intro planned_ids_same) auto
    then show ?thesis using sample_agent_commits [OF assms(1) _ _ assms(4) p(1), of plan_items] assms(2,3) p(2) by simp
  qed
  moreover have "only_commits ?A (store_of w)" by (simp add: only_commits_def assms(6))
  ultimately have "only_commits ?A (store_of (sample_runs F path run_id ps w))" by (rule sample_runs_keep)
  then show ?thesis
    using card_planned_ids [of "se_runtime (fst p0)" run_id "length plan_items" script]
    by (fastforce simp: only_commits_def ensure_shape_id split: option.splits dest: commits_in_total)
qed

end
