(* ===== verification/Durable_Files.thy ===== *)
theory Durable_Files
  imports Cli Mock_Agent Py_Json
begin

text \<open>
  The writers of files: \<open>durable_write_text\<close> of \<open>utils.py\<close> (the report of \<open>evaluation.py\<close>), \<open>_atomic_write\<close> of
  \<open>tools/mock_target.py\<close> and \<open>logging_observability.py\<close>, over a file system that may refuse any call and
  may lose power at any time. They differ in what they flush, and so in what a power loss leaves.
\<close>

section \<open>A file system that may lose power\<close>

text \<open>
  A name leads to an inode, an inode has a text. \<open>flushed\<close> is the text an inode certainly has after a
  power loss (\<open>None\<close>: any text, torn or empty). \<open>snapshots\<close> are the name tables a power loss may bring
  back: each change of a name is atomic but reaches the disk at some later time, in order, unless the directory is
  flushed. \<open>calls\<close> counts the system calls.
\<close>

type_synonym name_table = "string \<Rightarrow> nat option"

record file_system =
  names :: name_table
  contents :: "nat \<Rightarrow> string"
  flushed :: "nat \<Rightarrow> string option"
  snapshots :: "name_table list"
  next_inode :: nat
  calls :: nat

text \<open>
  The outcome of the system calls is an argument: the number of the call gives the exception it
  raises, if any, and how much of its text a failing \<open>write\<close> has written before.
\<close>

type_synonym faults = "nat \<Rightarrow> (exn \<times> nat) option"

definition system_call :: "faults \<Rightarrow> (nat \<Rightarrow> file_system \<Rightarrow> file_system) \<Rightarrow> (file_system \<Rightarrow> 'a \<times> file_system) \<Rightarrow> (file_system, 'a) act" where
  "system_call F partial effect fs = (case F (calls fs) of
     Some (e, n) \<Rightarrow> (Inl e, (partial n fs)\<lparr>calls := calls fs + 1\<rparr>)
   | None \<Rightarrow> (case effect fs of (x, fs') \<Rightarrow> (Inr x, fs'\<lparr>calls := calls fs + 1\<rparr>)))"

definition put_text :: "nat \<Rightarrow> string \<Rightarrow> file_system \<Rightarrow> file_system" where
  "put_text i s fs = fs\<lparr>contents := (contents fs)(i := s), flushed := (flushed fs)(i := None)\<rparr>"

definition put_names :: "name_table \<Rightarrow> file_system \<Rightarrow> file_system" where
  "put_names n fs = fs\<lparr>names := n, snapshots := n # snapshots fs\<rparr>"

text \<open>\<open>path.open("w")\<close> truncates the file, or creates it.\<close>

definition open_file :: "faults \<Rightarrow> string \<Rightarrow> (file_system, nat) act" where
  "open_file F path = system_call F (\<lambda>_ fs. fs) (\<lambda>fs. case names fs path of
     Some i \<Rightarrow> (i, put_text i [] fs)
   | None \<Rightarrow> (next_inode fs, put_names ((names fs)(path \<mapsto> next_inode fs))
       (put_text (next_inode fs) [] (fs\<lparr>next_inode := next_inode fs + 1\<rparr>))))"

text \<open>What is written reaches the file at the latest when it is flushed or closed.\<close>

definition write_file :: "faults \<Rightarrow> nat \<Rightarrow> string \<Rightarrow> (file_system, unit) act" where
  "write_file F i s = system_call F (\<lambda>n fs. put_text i (contents fs i @ take n s) fs) (\<lambda>fs. ((), put_text i (contents fs i @ s) fs))"

definition fsync_file :: "faults \<Rightarrow> nat \<Rightarrow> (file_system, unit) act" where
  "fsync_file F i = system_call F (\<lambda>_ fs. fs) (\<lambda>fs. ((), fs\<lparr>flushed := (flushed fs)(i \<mapsto> contents fs i)\<rparr>))"

definition quiet_call :: "faults \<Rightarrow> (file_system, unit) act" where
  "quiet_call F = system_call F (\<lambda>_ fs. fs) (\<lambda>fs. ((), fs))"

definition rename_file :: "faults \<Rightarrow> string \<Rightarrow> string \<Rightarrow> (file_system, unit) act" where
  "rename_file F a b = system_call F (\<lambda>_ fs. fs) (\<lambda>fs. ((), put_names ((names fs)(b := names fs a, a := None)) fs))"

definition parent_dir :: "string \<Rightarrow> string" where
  "parent_dir p = rev (dropWhile (\<lambda>c. c \<noteq> CHR ''/'') (rev p))"

definition fsync_names :: "faults \<Rightarrow> string \<Rightarrow> (file_system, unit) act" where
  "fsync_names F d = system_call F (\<lambda>_ fs. fs)
     (\<lambda>fs. ((), fs\<lparr>snapshots := map (\<lambda>n p. if parent_dir p = d then names fs p else n p) (snapshots fs)\<rparr>))"

text \<open>An open file is closed whether the body returns or raises, by \<open>with\<close> or by \<open>finally\<close>.\<close>

definition closing :: "faults \<Rightarrow> (file_system, unit) act \<Rightarrow> (file_system, unit) act" where
  "closing F body fs = (case body fs of
     (Inr _, fs') \<Rightarrow> quiet_call F fs'
   | (Inl e, fs') \<Rightarrow> if exn_class e = ProcessKilled then (Inl e, fs') else bind (quiet_call F) (\<lambda>_. raise e) fs')"

definition with_file :: "faults \<Rightarrow> string \<Rightarrow> (nat \<Rightarrow> (file_system, unit) act) \<Rightarrow> (file_system, unit) act" where
  "with_file F path body = bind (open_file F path) (\<lambda>i. closing F (body i))"

text \<open>After a power loss: one of the snapshots, with the texts that were flushed and anything else.\<close>

definition power_loss :: "file_system \<Rightarrow> file_system \<Rightarrow> bool" where
  "power_loss fs fs' \<longleftrightarrow> names fs' \<in> set (snapshots fs) \<and> snapshots fs' = [names fs'] \<and>
     (\<forall>i s. flushed fs i = Some s \<longrightarrow> contents fs' i = s) \<and> flushed fs' = (\<lambda>i. Some (contents fs' i)) \<and>
     next_inode fs' = next_inode fs"

section \<open>The writers\<close>

text \<open>\<open>with_suffix(suffix + ".tmp")\<close>\<close>

definition tmp_path :: "string \<Rightarrow> string" where
  "tmp_path p = p @ ''.tmp''"

definition fsync_directory :: "faults \<Rightarrow> string \<Rightarrow> (file_system, unit) act" where
  "fsync_directory F d = bind (quiet_call F) (\<lambda>_. closing F (fsync_names F d))"

definition durable_write_text :: "faults \<Rightarrow> string \<Rightarrow> string \<Rightarrow> (file_system, unit) act" where
  "durable_write_text F path s =
     bind (quiet_call F) (\<lambda>_.
     bind (with_file F (tmp_path path) (\<lambda>i. bind (write_file F i s) (\<lambda>_. fsync_file F i))) (\<lambda>_.
     bind (rename_file F (tmp_path path) path) (\<lambda>_.
     fsync_directory F (parent_dir path))))"

text \<open>\<open>json.dumps\<close> with an indent of two and sorted keys.\<close>

definition indent_by :: "nat \<Rightarrow> string" where
  "indent_by n = newline @ replicate (2 * n) (CHR '' '')"

fun json_pretty :: "text_forms \<Rightarrow> nat \<Rightarrow> json \<Rightarrow> string" where
  "json_pretty T n (JList xs) = (if xs = [] then ''[]'' else
     ''['' @ indent_by (Suc n) @ join ('','' @ indent_by (Suc n)) (map (json_pretty T (Suc n)) xs) @ indent_by n @ '']'')"
| "json_pretty T n (JObj d) = (if d = [] then ''{}'' else
     ''{'' @ indent_by (Suc n) @ join ('','' @ indent_by (Suc n))
       (map (\<lambda>(k, s). quote_str k @ '': '' @ s) (sort_key fst (map (\<lambda>(k, v). (k, json_pretty T (Suc n) v)) d)))
     @ indent_by n @ ''}'')"
| "json_pretty T n v = json_dumps T v"

definition stable_json_dumps :: "text_forms \<Rightarrow> json \<Rightarrow> string" where
  "stable_json_dumps T payload = json_pretty T 0 payload @ newline"

definition durable_write_json :: "text_forms \<Rightarrow> faults \<Rightarrow> string \<Rightarrow> dict \<Rightarrow> (file_system, unit) act" where
  "durable_write_json T F path payload = durable_write_text F path (stable_json_dumps T (JObj payload))"

text \<open>The mock target's store and the JSON mirror flush nothing.\<close>

definition atomic_write :: "text_forms \<Rightarrow> faults \<Rightarrow> string \<Rightarrow> dict \<Rightarrow> (file_system, unit) act" where
  "atomic_write T F path data =
     bind (with_file F (tmp_path path) (\<lambda>i. write_file F i (stable_json_dumps T (JObj data)))) (\<lambda>_.
     rename_file F (tmp_path path) path)"

definition mirror_write_json :: "text_forms \<Rightarrow> faults \<Rightarrow> string \<Rightarrow> dict \<Rightarrow> (file_system, unit) act" where
  "mirror_write_json T F path payload =
     bind (quiet_call F) (\<lambda>_.
     bind (with_file F (tmp_path path) (\<lambda>i. write_file F i (stable_json_dumps T (JObj payload)))) (\<lambda>_.
     rename_file F (tmp_path path) path))"

text \<open>The text of a file, if the file is there.\<close>

definition read_file :: "file_system \<Rightarrow> name_table \<Rightarrow> string \<Rightarrow> string option" where
  "read_file fs n path = map_option (contents fs) (n path)"

definition read_json_object :: "(string \<Rightarrow> string) \<Rightarrow> file_system \<Rightarrow> string \<Rightarrow> dict res" where
  "read_json_object decode_message fs path = (case read_file fs (names fs) path of
     None \<Rightarrow> Inl (Exn FileNotFoundError (''[Errno 2] No such file or directory: '' @ repr_str path))
   | Some s \<Rightarrow> (case json_loads s of
       None \<Rightarrow> value_error (decode_message s)
     | Some (JObj d) \<Rightarrow> Inr d
     | Some _ \<Rightarrow> value_error (path @ '' must contain a JSON object'')))"

text \<open>
  The report of a run and the mirror of a run, on files outside the process. The mirror writes
  what \<open>rebuild_state\<close> reads.
\<close>

definition write_report_json :: "text_forms \<Rightarrow> faults \<Rightarrow> string \<Rightarrow> string \<Rightarrow> bool \<Rightarrow> (file_system, evaluation_report) op" where
  "write_report_json T F run_id output_path mark_open_as_interrupted =
     bind (build_evaluation_report run_id mark_open_as_interrupted) (\<lambda>report.
     bind (call_tool (durable_write_json T F output_path (report_to_dict report))) (\<lambda>_. ret report))"

definition record_run :: "runtime \<Rightarrow> faults \<Rightarrow> string \<Rightarrow> string \<Rightarrow> (file_system, unit) op" where
  "record_run R F base run_id = bind (rebuild_state R run_id None 1000) (\<lambda>payload.
     call_tool (mirror_write_json (forms R) F (base @ ''/runs/'' @ run_id @ ''.json'') payload))"

section \<open>Triples\<close>

text \<open>\<open>triple P m Q E\<close>: from a state with \<open>P\<close>, a return leaves \<open>Q\<close> and an exception leaves \<open>E\<close>.\<close>

definition triple :: "('s \<Rightarrow> bool) \<Rightarrow> ('s, 'a) act \<Rightarrow> ('a \<Rightarrow> 's \<Rightarrow> bool) \<Rightarrow> ('s \<Rightarrow> bool) \<Rightarrow> bool" where
  "triple P m Q E \<longleftrightarrow> (\<forall>s r s'. P s \<longrightarrow> m s = (r, s') \<longrightarrow> (case r of Inr x \<Rightarrow> Q x s' | Inl e \<Rightarrow> E s'))"

lemma tripleI: "(\<And>s x s'. P s \<Longrightarrow> m s = (Inr x, s') \<Longrightarrow> Q x s') \<Longrightarrow> (\<And>s e s'. P s \<Longrightarrow> m s = (Inl e, s') \<Longrightarrow> E s') \<Longrightarrow> triple P m Q E"
  by (auto simp: triple_def split: sum.split)

lemma triple_InrD: "triple P m Q E \<Longrightarrow> P s \<Longrightarrow> m s = (Inr x, s') \<Longrightarrow> Q x s'"
  by (fastforce simp: triple_def)

lemma triple_InlD: "triple P m Q E \<Longrightarrow> P s \<Longrightarrow> m s = (Inl e, s') \<Longrightarrow> E s'"
  by (fastforce simp: triple_def)

lemma triple_bind:
  assumes "triple P m Q E" and "\<And>x. triple (Q x) (f x) R' E"
  shows "triple P (bind m f) R' E"
proof (rule tripleI)
  show "R' y s''" if "P s" "bind m f s = (Inr y, s'')" for s y s''
    using that(2) triple_InrD [OF assms(1) that(1)] triple_InrD [OF assms(2)] by (elim bind_InrE) blast
  show "E s''" if "P s" "bind m f s = (Inl e, s'')" for s e s''
    using that(2) triple_InlD [OF assms(1) that(1)] triple_InrD [OF assms(1) that(1)] triple_InlD [OF assms(2)]
    by (elim bind_cases) auto
qed

lemma triple_weaken:
  "triple P m Q E \<Longrightarrow> (\<And>s. P' s \<Longrightarrow> P s) \<Longrightarrow> (\<And>x s. Q x s \<Longrightarrow> Q' x s) \<Longrightarrow> (\<And>s. E s \<Longrightarrow> E' s) \<Longrightarrow> triple P' m Q' E'"
  by (rule tripleI) (blast dest: triple_InrD triple_InlD)+

section \<open>What a file can hold\<close>

text \<open>
  \<open>holds path T fs\<close>: whatever happens to the power, the file has a text of \<open>T\<close> (\<open>None\<close>: there is no
  file). The temporary name never leads to the text of the file.
\<close>

definition holds :: "string \<Rightarrow> string option set \<Rightarrow> file_system \<Rightarrow> bool" where
  "holds path T fs \<longleftrightarrow> names fs \<in> set (snapshots fs) \<and> (\<forall>n\<in>set (snapshots fs).
     read_file fs n path \<in> T \<and> (\<forall>p i. n p = Some i \<longrightarrow> i < next_inode fs) \<and>
     (\<forall>i. n path = Some i \<longrightarrow> flushed fs i = Some (contents fs i) \<and>
        n (tmp_path path) \<noteq> Some i \<and> names fs (tmp_path path) \<noteq> Some i))"

lemma holds_reads: "holds path T fs \<Longrightarrow> read_file fs (names fs) path \<in> T"
  by (simp add: holds_def)

lemma holds_mono: "holds path T fs \<Longrightarrow> T \<subseteq> T' \<Longrightarrow> holds path T' fs"
  unfolding holds_def by blast

lemma holds_calls [simp]: "holds path T (fs\<lparr>calls := k\<rparr>) = holds path T fs"
  by (simp add: holds_def read_file_def)

lemma holds_power_loss: "holds path T fs \<Longrightarrow> power_loss fs fs' \<Longrightarrow> holds path T fs'"
  unfolding holds_def power_loss_def read_file_def by (cases "names fs' path") auto

text \<open>The temporary file is open as \<open>i\<close> and has the text \<open>s\<close>.\<close>

definition staged :: "string \<Rightarrow> string option set \<Rightarrow> nat \<Rightarrow> string \<Rightarrow> file_system \<Rightarrow> bool" where
  "staged path T i s fs \<longleftrightarrow> holds path T fs \<and> names fs (tmp_path path) = Some i \<and> contents fs i = s"

lemma staged_calls [simp]: "staged path T i s (fs\<lparr>calls := k\<rparr>) = staged path T i s fs"
  by (simp add: staged_def)

lemma path_not_tmp [simp]: "path \<noteq> tmp_path path" "tmp_path path \<noteq> path"
  by (simp_all add: tmp_path_def)

lemma staged_put_text: "staged path T i s fs \<Longrightarrow> staged path T i s' (put_text i s' fs)"
  unfolding staged_def holds_def put_text_def read_file_def
  by (auto split: option.splits simp: map_option_case)

lemma parent_tmp [simp]: "parent_dir (tmp_path path) = parent_dir path"
  by (simp add: parent_dir_def tmp_path_def)

section \<open>The calls\<close>

lemma system_call_triple:
  assumes "\<And>fs n. P fs \<Longrightarrow> E (partial n fs)" and "\<And>fs. P fs \<Longrightarrow> Q (fst (effect fs)) (snd (effect fs))"
    and "\<And>fs k. E (fs\<lparr>calls := k\<rparr>) = E fs" and "\<And>x fs k. Q x (fs\<lparr>calls := k\<rparr>) = Q x fs"
  shows "triple P (system_call F partial effect) Q E"
proof (rule tripleI)
  fix fs x fs' assume P: "P fs" and r: "system_call F partial effect fs = (Inr x, fs')"
  from assms(2) [OF P] show "Q x fs'"
    using r assms(4) by (auto simp: system_call_def split: option.splits prod.splits)
next
  fix fs e fs' assume P: "P fs" and r: "system_call F partial effect fs = (Inl e, fs')"
  from r assms(1) [OF P] show "E fs'"
    using assms(3) by (auto simp: system_call_def split: option.splits prod.splits)
qed

lemma quiet_triple:
  assumes "\<And>fs k. P (fs\<lparr>calls := k\<rparr>) = P fs" and "\<And>fs. P fs \<Longrightarrow> E fs" and "\<And>fs k. E (fs\<lparr>calls := k\<rparr>) = E fs"
  shows "triple P (quiet_call F) (\<lambda>_. P) E"
  unfolding quiet_call_def by (rule system_call_triple) (simp_all add: assms)

lemma open_triple: "triple (holds path T) (open_file F (tmp_path path)) (\<lambda>i. staged path T i []) (holds path T)"
  unfolding open_file_def
proof (rule system_call_triple)
  fix fs assume h: "holds path T fs"
  show "staged path T (fst (case names fs (tmp_path path) of Some i \<Rightarrow> (i, put_text i [] fs)
       | None \<Rightarrow> (next_inode fs, put_names ((names fs)(tmp_path path \<mapsto> next_inode fs))
           (put_text (next_inode fs) [] (fs\<lparr>next_inode := next_inode fs + 1\<rparr>))))) []
     (snd (case names fs (tmp_path path) of Some i \<Rightarrow> (i, put_text i [] fs)
       | None \<Rightarrow> (next_inode fs, put_names ((names fs)(tmp_path path \<mapsto> next_inode fs))
           (put_text (next_inode fs) [] (fs\<lparr>next_inode := next_inode fs + 1\<rparr>)))))"
  proof (cases "names fs (tmp_path path)")
    case (Some i)
    with h have "staged path T i (contents fs i) fs" by (simp add: staged_def)
    from staged_put_text [OF this, of "[]"] Some show ?thesis by simp
  next
    case None
    let ?i = "next_inode fs"
    have fresh: "n p \<noteq> Some ?i" if "n \<in> set (snapshots fs)" for n p
      using h that unfolding holds_def by fastforce
    have "holds path T (put_names ((names fs)(tmp_path path \<mapsto> ?i)) (put_text ?i [] (fs\<lparr>next_inode := ?i + 1\<rparr>)))"
      using h fresh unfolding holds_def put_names_def put_text_def read_file_def
      by (auto simp: map_option_case less_Suc_eq split: option.splits)
    then show ?thesis using None by (simp add: staged_def put_names_def put_text_def)
  qed
qed simp_all

lemma write_triple: "triple (staged path T i t) (write_file F i s) (\<lambda>_. staged path T i (t @ s)) (holds path T)"
  unfolding write_file_def
proof (rule system_call_triple)
  fix fs and n :: nat assume h: "staged path T i t fs"
  show "holds path T (put_text i (contents fs i @ take n s) fs)"
    using staged_put_text [OF h, of "contents fs i @ take n s"] by (simp add: staged_def)
  show "staged path T i (t @ s) (snd ((), put_text i (contents fs i @ s) fs))"
    using staged_put_text [OF h, of "contents fs i @ s"] h by (simp add: staged_def)
qed simp_all

lemma fsync_triple:
  "triple (staged path T i s) (fsync_file F i) (\<lambda>_ fs. staged path T i s fs \<and> flushed fs i = Some s) (holds path T)"
  unfolding fsync_file_def
  by (rule system_call_triple) (auto simp: staged_def holds_def read_file_def)

lemma closing_triple:
  assumes "triple P m (\<lambda>_. Q) E" and "\<And>fs. Q fs \<Longrightarrow> E' fs" and "\<And>fs. E fs \<Longrightarrow> E' fs"
    and "\<And>fs k. Q (fs\<lparr>calls := k\<rparr>) = Q fs" and "\<And>fs k. E' (fs\<lparr>calls := k\<rparr>) = E' fs"
  shows "triple P (closing F m) (\<lambda>_. Q) E'"
proof -
  have reraise: "triple E' (bind (quiet_call F) (\<lambda>_. raise e)) (\<lambda>_ :: unit. Q) E'" for e
    by (rule triple_bind [OF quiet_triple], rule assms(5), assumption, rule assms(5), rule tripleI) simp_all
  have close: "triple Q (quiet_call F) (\<lambda>_. Q) E'" by (rule quiet_triple [OF assms(4,2,5)])
  show ?thesis
    unfolding triple_def
  proof (intro allI impI)
    fix fs r fs' assume P: "P fs" and r: "closing F m fs = (r, fs')"
    obtain o' v where m: "m fs = (o', v)" by fastforce
    show "case r of Inr x \<Rightarrow> Q fs' | Inl e \<Rightarrow> E' fs'"
    proof (cases o')
      case (Inr u)
      then have "Q v" "quiet_call F v = (r, fs')" using triple_InrD [OF assms(1) P] m r by (auto simp: closing_def)
      then show ?thesis using close unfolding triple_def by blast
    next
      case (Inl e)
      then have v: "E' v" using triple_InlD [OF assms(1) P] m assms(3) by blast
      show ?thesis
      proof (cases "exn_class e = ProcessKilled")
        case True
        then show ?thesis using r m Inl v by (auto simp: closing_def)
      next
        case False
        then have "bind (quiet_call F) (\<lambda>_. raise e) v = (r, fs')" using r m Inl by (simp add: closing_def)
        then show ?thesis using v reraise [of e] unfolding triple_def by blast
      qed
    qed
  qed
qed

lemma with_file_triple:
  assumes "\<And>i. triple (staged path T i []) (body i) (\<lambda>_. Q) (holds path T)"
    and "\<And>fs k. Q (fs\<lparr>calls := k\<rparr>) = Q fs" and "\<And>fs. Q fs \<Longrightarrow> holds path T fs"
  shows "triple (holds path T) (with_file F (tmp_path path) body) (\<lambda>_. Q) (holds path T)"
  unfolding with_file_def
  by (rule triple_bind [OF open_triple], rule closing_triple [OF assms(1,3)]) (simp_all add: assms(2))

lemma rename_triple:
  "triple (\<lambda>fs. staged path T i s fs \<and> flushed fs i = Some s) (rename_file F (tmp_path path) path)
     (\<lambda>_ fs. holds path (insert (Some s) T) fs \<and> read_file fs (names fs) path = Some s \<and> names fs (tmp_path path) = None)
     (holds path (insert (Some s) T))"
  unfolding rename_file_def
proof (rule system_call_triple)
  fix fs and n :: nat assume h: "staged path T i s fs \<and> flushed fs i = Some s"
  then show "holds path (insert (Some s) T) fs" by (auto simp: staged_def intro: holds_mono)
  let ?n = "(names fs)(path := names fs (tmp_path path), tmp_path path := None)"
  have "names fs \<in> set (snapshots fs)" "names fs (tmp_path path) = Some i" "contents fs i = s"
    using h by (auto simp: staged_def holds_def)
  moreover from this(1,2) have "i < next_inode fs" using h by (auto simp: staged_def holds_def)
  ultimately have "holds path (insert (Some s) T) (put_names ?n fs)" "read_file (put_names ?n fs) ?n path = Some s"
    using h unfolding staged_def holds_def put_names_def read_file_def by auto
  then show "holds path (insert (Some s) T) (snd ((), put_names ?n fs)) \<and>
      read_file (snd ((), put_names ?n fs)) (names (snd ((), put_names ?n fs))) path = Some s \<and>
      names (snd ((), put_names ?n fs)) (tmp_path path) = None"
    by (simp add: put_names_def)
qed (simp_all add: read_file_def)

lemma fsync_names_triple:
  "triple (\<lambda>fs. holds path T fs \<and> read_file fs (names fs) path = Some s \<and> names fs (tmp_path path) = None)
     (fsync_names F (parent_dir path)) (\<lambda>_. holds path {Some s}) (holds path T)"
  unfolding fsync_names_def
proof (rule system_call_triple)
  fix fs assume h: "holds path T fs \<and> read_file fs (names fs) path = Some s \<and> names fs (tmp_path path) = None"
  let ?sync = "\<lambda>n p. if parent_dir p = parent_dir path then names fs p else n p"
  have cur: "names fs \<in> set (snapshots fs)" using h by (simp add: holds_def)
  obtain i where i: "names fs path = Some i" "contents fs i = s" using h by (auto simp: read_file_def)
  have flushed: "flushed fs i = Some s" using h cur i unfolding holds_def by blast
  have bounds: "j < next_inode fs" if "n \<in> set (snapshots fs)" "n p = Some j" for n p j
    using h that unfolding holds_def by blast
  have same: "?sync (names fs) = names fs" by (simp add: fun_eq_iff)
  have current: "names fs \<in> ?sync ` set (snapshots fs)" using imageI [OF cur, of ?sync] by (simp only: same)
  have "read_file fs (?sync n) path = Some s \<and> (\<forall>p j. ?sync n p = Some j \<longrightarrow> j < next_inode fs) \<and>
      ?sync n path = Some i \<and> ?sync n (tmp_path path) = None" if "n \<in> set (snapshots fs)" for n
    using i h bounds [OF that] bounds [OF cur] by (simp add: read_file_def)
  with current i flushed h show "holds path {Some s} (snd ((), fs\<lparr>snapshots := map ?sync (snapshots fs)\<rparr>))"
    by (simp add: holds_def read_file_def)
qed (simp_all add: read_file_def)

lemma fsync_directory_triple:
  assumes "Some s \<in> T"
  shows "triple (\<lambda>fs. holds path T fs \<and> read_file fs (names fs) path = Some s \<and> names fs (tmp_path path) = None)
     (fsync_directory F (parent_dir path)) (\<lambda>_. holds path {Some s}) (holds path T)"
  unfolding fsync_directory_def
  by (rule triple_bind [OF quiet_triple], simp add: read_file_def, simp, simp, rule closing_triple [OF fsync_names_triple])
    (use assms in \<open>auto intro: holds_mono\<close>)

text \<open>A durable write leaves an old text or the new one, and if it returns, certainly the new one.\<close>

lemma durable_write_triple:
  "triple (holds path T) (durable_write_text F path s) (\<lambda>_. holds path {Some s}) (holds path (insert (Some s) T))"
  unfolding durable_write_text_def
proof (intro triple_bind)
  let ?T = "insert (Some s) T"
  have mono: "holds path ?T fs" if "holds path T fs" for fs using that by (rule holds_mono) blast
  show "triple (holds path T) (quiet_call F) (\<lambda>_. holds path T) (holds path ?T)"
    by (rule quiet_triple) (simp_all add: mono)
  have "triple (staged path T i []) (bind (write_file F i s) (\<lambda>_. fsync_file F i))
      (\<lambda>_ fs. \<exists>i. staged path T i s fs \<and> flushed fs i = Some s) (holds path T)" for i
  proof (rule triple_bind [OF write_triple])
    show "triple (staged path T i ([] @ s)) (fsync_file F i) (\<lambda>_ fs. \<exists>i. staged path T i s fs \<and> flushed fs i = Some s) (holds path T)"
      by (rule triple_weaken [OF fsync_triple [of path T i s]]) auto
  qed
  then show "triple (holds path T) (with_file F (tmp_path path) (\<lambda>i. bind (write_file F i s) (\<lambda>_. fsync_file F i)))
      (\<lambda>_ fs. \<exists>i. staged path T i s fs \<and> flushed fs i = Some s) (holds path ?T)"
    by (rule triple_weaken [OF with_file_triple [where T = T and Q = "\<lambda>fs. \<exists>i. staged path T i s fs \<and> flushed fs i = Some s"]])
      (auto simp: staged_def mono)
  show "triple (\<lambda>fs. \<exists>i. staged path T i s fs \<and> flushed fs i = Some s) (rename_file F (tmp_path path) path)
      (\<lambda>_ fs. holds path ?T fs \<and> read_file fs (names fs) path = Some s \<and> names fs (tmp_path path) = None) (holds path ?T)"
    using rename_triple [of path T _ s F] unfolding triple_def by blast
  show "triple (\<lambda>fs. holds path ?T fs \<and> read_file fs (names fs) path = Some s \<and> names fs (tmp_path path) = None)
      (fsync_directory F (parent_dir path)) (\<lambda>_. holds path {Some s}) (holds path ?T)"
    by (rule fsync_directory_triple) simp
qed

section \<open>Histories of a file\<close>

text \<open>Nothing waits to reach the disk, and the temporary name is no link to the file.\<close>

definition settled_file :: "string \<Rightarrow> file_system \<Rightarrow> bool" where
  "settled_file path fs \<longleftrightarrow> snapshots fs = [names fs] \<and> (\<forall>i. flushed fs i = Some (contents fs i)) \<and>
     (\<forall>p i. names fs p = Some i \<longrightarrow> i < next_inode fs) \<and>
     (names fs path \<noteq> None \<longrightarrow> names fs (tmp_path path) \<noteq> names fs path)"

text \<open>
  A history of a file: durable writes that return, durable writes that fail at any system call, and
  power losses, in any order. Beside the state it keeps the texts the writers may expect: what
  the last write that returned wrote, or any of the failed writes after it.
\<close>

inductive file_history :: "string \<Rightarrow> string option set \<Rightarrow> file_system \<Rightarrow> bool" for path where
  settled: "settled_file path fs \<Longrightarrow> file_history path {read_file fs (names fs) path} fs"
| write_returned: "file_history path T fs \<Longrightarrow> durable_write_text F path s fs = (Inr (), fs') \<Longrightarrow> file_history path {Some s} fs'"
| write_failed: "file_history path T fs \<Longrightarrow> durable_write_text F path s fs = (Inl e, fs') \<Longrightarrow> file_history path (insert (Some s) T) fs'"
| blackout: "file_history path T fs \<Longrightarrow> power_loss fs fs' \<Longrightarrow> file_history path T fs'"

lemma settled_holds: "settled_file path fs \<Longrightarrow> holds path {read_file fs (names fs) path} fs"
  unfolding settled_file_def holds_def by (auto simp: set_ConsD)

lemma history_holds: "file_history path T fs \<Longrightarrow> holds path T fs"
proof (induction rule: file_history.induct)
  case (write_returned T fs F s fs')
  then show ?case using triple_InrD [OF durable_write_triple] by blast
next
  case (write_failed T fs F s e fs')
  then show ?case using triple_InlD [OF durable_write_triple] by blast
qed (auto intro: settled_holds holds_power_loss)

text \<open>
  C19: after any history of durable writes, failures at any system call and power losses, the file has the
  text of the last write that returned, or of a failed write after it: it is never torn, lost or
  older.
\<close>

theorem durable_file_is_never_torn:
  assumes "file_history path T fs"
  shows "read_file fs (names fs) path \<in> T"
  by (rule holds_reads [OF history_holds [OF assms]])

definition empty_disk :: file_system where
  "empty_disk = \<lparr>names = (\<lambda>_. None), contents = (\<lambda>_. []), flushed = (\<lambda>_. Some []), snapshots = [\<lambda>_. None],
     next_inode = 0, calls = 0\<rparr>"

text \<open>The thirteenth call fails: the second write when it flushes its text.\<close>

definition full_disk :: faults where
  "full_disk k = (if k = 12 then Some (Exn OSError ''no space left on device'', 0) else None)"

lemmas file_call_defs = durable_write_text_def with_file_def closing_def fsync_directory_def open_file_def write_file_def
  fsync_file_def quiet_call_def rename_file_def fsync_names_def system_call_def put_names_def put_text_def

lemma durable_file_is_never_torn_witness:
  "\<exists>fs e fs' fs''. durable_write_text full_disk ''f'' ''one'' empty_disk = (Inr (), fs) \<and>
     durable_write_text full_disk ''f'' ''two'' fs = (Inl e, fs') \<and> power_loss fs' fs'' \<and>
     read_file fs'' (names fs'') ''f'' \<in> {Some ''two'', Some ''one''}"
proof -
  obtain fs where one: "durable_write_text full_disk ''f'' ''one'' empty_disk = (Inr (), fs)"
    by (simp add: file_call_defs bind_def full_disk_def empty_disk_def tmp_path_def)
  then obtain e fs' where two: "durable_write_text full_disk ''f'' ''two'' fs = (Inl e, fs')"
    by (auto simp: file_call_defs bind_def full_disk_def empty_disk_def tmp_path_def)
  let ?fs = "fs'\<lparr>snapshots := [names fs'], flushed := (\<lambda>i. Some (contents fs' i))\<rparr>"
  have "settled_file ''f'' empty_disk" by (simp add: settled_file_def empty_disk_def)
  then have h: "file_history ''f'' {Some ''two'', Some ''one''} fs'"
    by (rule file_history.write_failed [OF file_history.write_returned [OF file_history.settled one] two])
  have "names fs' \<in> set (snapshots fs')" using history_holds [OF h] by (simp add: holds_def)
  moreover have "contents fs' i = s" if "flushed fs' i = Some s" for i s
    using one two that by (auto simp: file_call_defs bind_def full_disk_def empty_disk_def tmp_path_def split: if_splits)
  ultimately have "power_loss fs' ?fs" by (simp add: power_loss_def)
  with one two durable_file_is_never_torn [OF file_history.blackout [OF h this]] show ?thesis by blast
qed

section \<open>The writers without a flush\<close>

text \<open>
  The store of the mock target and the mirror replace their file by a rename as well, so that no process
  sees a torn file. But they flush nothing: after a power loss the new text may be anything.
\<close>

definition visible :: "string \<Rightarrow> string option set \<Rightarrow> file_system \<Rightarrow> bool" where
  "visible path T fs \<longleftrightarrow> read_file fs (names fs) path \<in> T \<and> (\<forall>p i. names fs p = Some i \<longrightarrow> i < next_inode fs) \<and>
     (\<forall>i. names fs path = Some i \<longrightarrow> names fs (tmp_path path) \<noteq> Some i)"

definition drafted :: "string \<Rightarrow> string option set \<Rightarrow> nat \<Rightarrow> string \<Rightarrow> file_system \<Rightarrow> bool" where
  "drafted path T i s fs \<longleftrightarrow> visible path T fs \<and> names fs (tmp_path path) = Some i \<and> contents fs i = s"

lemma visible_calls [simp]: "visible path T (fs\<lparr>calls := k\<rparr>) = visible path T fs"
    "drafted path T i s (fs\<lparr>calls := k\<rparr>) = drafted path T i s fs"
  by (simp_all add: visible_def drafted_def read_file_def)

lemma drafted_put_text: "drafted path T i s fs \<Longrightarrow> drafted path T i s' (put_text i s' fs)"
  by (cases "names fs path") (auto simp: drafted_def visible_def put_text_def read_file_def)

lemma open_drafted: "triple (visible path T) (open_file F (tmp_path path)) (\<lambda>i. drafted path T i []) (visible path T)"
  unfolding open_file_def
proof (rule system_call_triple)
  fix fs assume v: "visible path T fs"
  let ?r = "case names fs (tmp_path path) of Some i \<Rightarrow> (i, put_text i [] fs)
       | None \<Rightarrow> (next_inode fs, put_names ((names fs)(tmp_path path \<mapsto> next_inode fs))
           (put_text (next_inode fs) [] (fs\<lparr>next_inode := next_inode fs + 1\<rparr>)))"
  show "drafted path T (fst ?r) [] (snd ?r)"
  proof (cases "names fs (tmp_path path)")
    case (Some i)
    then show ?thesis using v drafted_put_text [of path T i "contents fs i" fs "[]"] by (simp add: drafted_def)
  next
    case None
    have fresh: "names fs p \<noteq> Some (next_inode fs)" for p using v unfolding visible_def by blast
    have bound: "i < Suc (next_inode fs)" if "names fs p = Some i" for p i using v that unfolding visible_def by (metis less_SucI)
    have "read_file fs (names fs) path \<in> T" using v by (simp add: visible_def)
    then show ?thesis using None fresh [of path] bound
      by (cases "names fs path") (auto simp: drafted_def visible_def put_names_def put_text_def read_file_def)
  qed
qed simp_all

lemma write_drafted: "triple (drafted path T i t) (write_file F i s) (\<lambda>_. drafted path T i (t @ s)) (visible path T)"
  unfolding write_file_def
proof (rule system_call_triple)
  fix fs and n :: nat assume d: "drafted path T i t fs"
  show "visible path T (put_text i (contents fs i @ take n s) fs)"
    using drafted_put_text [OF d, of "contents fs i @ take n s"] by (simp add: drafted_def)
  show "drafted path T i (t @ s) (snd ((), put_text i (contents fs i @ s) fs))"
    using drafted_put_text [OF d, of "contents fs i @ s"] d by (simp add: drafted_def)
qed simp_all

lemma rename_drafted:
  "triple (drafted path T i s) (rename_file F (tmp_path path) path) (\<lambda>_. visible path {Some s}) (visible path T)"
  unfolding rename_file_def
  by (rule system_call_triple) (auto simp: drafted_def visible_def put_names_def read_file_def)

lemma replace_by_rename:
  "triple (visible path T) (bind (with_file F (tmp_path path) (\<lambda>i. write_file F i s)) (\<lambda>_. rename_file F (tmp_path path) path))
     (\<lambda>_. visible path {Some s}) (visible path T)"
proof (rule triple_bind)
  have mono: "\<exists>i. drafted path T i s fs \<Longrightarrow> visible path T fs" for fs by (auto simp: drafted_def)
  have body: "triple (drafted path T i []) (write_file F i s) (\<lambda>_ fs. \<exists>i. drafted path T i s fs) (visible path T)" for i
    by (rule triple_weaken [OF write_drafted [of path T i "[]"]]) auto
  show "triple (visible path T) (with_file F (tmp_path path) (\<lambda>i. write_file F i s)) (\<lambda>_ fs. \<exists>i. drafted path T i s fs) (visible path T)"
    unfolding with_file_def
    by (rule triple_bind [OF open_drafted], rule closing_triple [OF body mono]) simp_all
  show "triple (\<lambda>fs. \<exists>i. drafted path T i s fs) (rename_file F (tmp_path path) path) (\<lambda>_. visible path {Some s}) (visible path T)"
    using rename_drafted [of path T _ s F] unfolding triple_def by blast
qed

lemma atomic_write_visible:
  "triple (visible path T) (atomic_write J F path data) (\<lambda>_. visible path {Some (stable_json_dumps J (JObj data))}) (visible path T)"
  unfolding atomic_write_def by (rule replace_by_rename)

lemma mirror_write_visible:
  "triple (visible path T) (mirror_write_json J F path data) (\<lambda>_. visible path {Some (stable_json_dumps J (JObj data))}) (visible path T)"
  unfolding mirror_write_json_def by (rule triple_bind [OF quiet_triple]) (simp_all add: replace_by_rename)

text \<open>Here the store is gone after a write that returned.\<close>

lemma atomic_write_may_be_torn:
  "\<exists>fs fs'. atomic_write J (\<lambda>_. None) ''f'' data empty_disk = (Inr (), fs) \<and> power_loss fs fs' \<and> read_file fs' (names fs') ''f'' = Some []"
proof -
  obtain fs where w: "atomic_write J (\<lambda>_. None) ''f'' data empty_disk = (Inr (), fs)"
    by (simp add: atomic_write_def file_call_defs bind_def empty_disk_def tmp_path_def)
  let ?fs = "fs\<lparr>contents := (contents fs)(0 := []), flushed := (\<lambda>i. Some (((contents fs)(0 := [])) i)), snapshots := [names fs]\<rparr>"
  have "power_loss fs ?fs" "read_file ?fs (names ?fs) ''f'' = Some []"
    using w by (auto simp: atomic_write_def file_call_defs bind_def empty_disk_def tmp_path_def power_loss_def read_file_def)
  with w show ?thesis by blast
qed

text \<open>
  The mirror of the facade is \<open>record_run\<close>: when \<open>mirror R\<close> gives the exception that writing the bundle raises
  on a file system, what happens after a commit is what \<open>record_run\<close> does on that file system.
\<close>

lemma emit_after_commit_is_record_run:
  assumes "mirror R = Some (\<lambda>run_id bundle. case fst (mirror_write_json (forms R) F (base @ ''/runs/'' @ run_id @ ''.json'') bundle (outside w)) of
      Inl e \<Rightarrow> Some e | Inr _ \<Rightarrow> None)"
    and "\<And>r v. rebuild_state R run_id None 1000 w = (r, v) \<Longrightarrow> outside v = outside w"
  shows "fst (emit_after_commit R run_id w) = fst (record_run R F base run_id w)"
proof -
  obtain r v where r: "rebuild_state R run_id None 1000 w = (r, v)" by fastforce
  from assms(2) [OF r] show ?thesis
    by (cases r) (auto simp: emit_after_commit_def record_run_def assms(1) bind_def r call_tool_def split: sum.splits prod.splits)
qed

end
