(* ===== verification/Crash_Sweep.thy ===== *)
theory Crash_Sweep
  imports Sample_Facts Durable_Files
begin

text \<open>
  \<open>example/crash_recovery_e2e.py\<close>: the experiment that crashes the sample agent at every phase, restarts it, and
  counts the commits of the mock target. A child process is a run of the sample agent on the world of its
  runtime directory; a new directory is a new world. The parsing of command lines and the streams of the
  children are not modelled: a child is given as the values of its options, and what it prints as lines.
\<close>

section \<open>The scenarios\<close>

definition crash_exit_code :: int where
  "crash_exit_code = 42"

definition expected_commits_per_run :: int where
  "expected_commits_per_run = 1"

definition sweep_phases :: "(string \<times> int) list" where
  "sweep_phases = [(''after_step_started'', 0), (''before_agent_turn'', 0), (''after_agent_turn'', 0),
     (''after_record_llm_turn'', 0), (''before_tool_transaction'', 0), (''after_tool_transaction'', 0),
     (''after_recovery'', 0), (''after_advance_plan_item'', 0), (''after_record_final_message'', 1)]"

text \<open>\<open>str.split(",")\<close>\<close>

definition split_commas :: "string \<Rightarrow> string list" where
  "split_commas s = foldr (\<lambda>c parts. if c = CHR '','' then [] # parts else (c # hd parts) # tl parts) s [[]]"

fun select_phases :: "string list \<Rightarrow> (string \<times> int) list res" where
  "select_phases [] = Inr []"
| "select_phases (raw # raws) = (let name = strip raw in
     if name = [] then select_phases raws else
     case map_of sweep_phases name of
       None \<Rightarrow> Inl (Exn SystemExit (''unknown sweep phase: '' @ name @ '' (known: '' @ join '', '' (sort (map fst sweep_phases)) @ '')''))
     | Some step \<Rightarrow> rbind (select_phases raws) (\<lambda>rest. Inr ((name, step) # rest)))"

definition resolve_sweep_phases :: "string option \<Rightarrow> (string \<times> int) list res" where
  "resolve_sweep_phases raw = (case raw of
     None \<Rightarrow> Inr sweep_phases
   | Some r \<Rightarrow> if strip r = [] then Inr sweep_phases else
       rbind (select_phases (split_commas r)) (\<lambda>selected.
       if selected = [] then Inl (Exn SystemExit ''--sweep-phases selected no phases'') else Inr selected))"

text \<open>The soft log of the sweep: one write, then a final answer.\<close>

definition synthetic_call :: dict where
  "synthetic_call = [(''kind'', JStr ''tool_call''), (''tool_call'', JObj [
     (''name'', JStr ''apply-action''), (''operation_type'', JStr ''WRITE''),
     (''arguments'', JObj [(''action_name'', JStr ''set_value''), (''payload'', JObj [
        (''key'', JStr ''orders/RA512''), (''value'', JObj [(''flight_no'', JStr ''RA512''), (''status'', JStr ''booked'')])])]),
     (''rationale'', JStr ''Book the selected flight.'')])]"

definition synthetic_soft_log :: "text_forms \<Rightarrow> dict" where
  "synthetic_soft_log T = [
     (''messages'', JList [
        JObj [(''role'', JStr ''user''), (''content'', JStr ''Please buy me a ticket from LA to NY for 2026-05-14 09:00 AM PT.'')],
        JObj [(''role'', JStr ''assistant''), (''content'', JStr ''Booked RA512.''),
          (''metadata'', JObj [(''stop_reason'', JStr ''completed''), (''model_name'', JStr ''synthetic-crash-e2e'')])]]),
     (''planner_state'', JObj [(''items'', JList [JObj [
        (''plan_item_id'', JStr ''step_0''), (''title'', JStr ''Book the selected flight''),
        (''llm_output'', JStr (json_spaced T True (JObj synthetic_call)))]])])]"

definition synthetic_files :: "text_forms \<Rightarrow> (string \<Rightarrow> string) \<Rightarrow> soft_log_files" where
  "synthetic_files T decode_message = \<lparr>log_candidates = [],
     log_text = (\<lambda>path. Inr (stable_json_dumps T (JObj (synthetic_soft_log T)))), log_decode_error = decode_message\<rparr>"

section \<open>The summary of a report\<close>

definition summary_attempt :: "step_report \<Rightarrow> span_report \<Rightarrow> dict" where
  "summary_attempt st a = [(''step_index'', jopt JInt (sr_step_index st)), (''plan_item_id'', jopt JStr (sr_plan_item_id st)),
     (''attempt_no'', JInt (rp_attempt_no a)), (''phase'', JStr (rp_phase a)), (''status'', JStr (rp_status a)),
     (''recorded_status'', JStr (rp_recorded_status a)), (''duration_ms'', jopt (\<lambda>d. JFloat (Fin d)) (rp_duration_ms a))]"

definition count_phase :: "(string \<times> int) list \<Rightarrow> span_report \<Rightarrow> (string \<times> int) list" where
  "count_phase seen p = AList.update (rp_phase p) ((case map_of seen (rp_phase p) of Some n \<Rightarrow> n | None \<Rightarrow> 0) + 1) seen"

definition summarize_report :: "evaluation_report \<Rightarrow> dict" where
  "summarize_report r = (let attempts = concat (map (\<lambda>st. map (\<lambda>a. (st, a)) (sr_attempts st)) (er_steps r)) in
     [(''span_count'', JInt (er_span_count r)),
      (''completed_step_duration_ms'', JFloat (Fin (er_completed_step_duration_ms r))),
      (''completed_phase_duration_ms'', JObj (map (\<lambda>(p, d). (p, JFloat (Fin d))) (er_completed_phase_duration_ms r))),
      (''completed_phase_counts'', JObj (map (\<lambda>(p, n). (p, JInt n))
         (foldl count_phase [] (concat (map (\<lambda>(st, a, phases). phases) attempts))))),
      (''attempts'', JList (map (\<lambda>(st, a, phases). JObj (summary_attempt st a)) attempts))])"

fun float_text3 :: "pyfloat \<Rightarrow> string" where
  "float_text3 (Fin x) = fixed3 x"
| "float_text3 PInf = ''inf''"
| "float_text3 NInf = ''-inf''"
| "float_text3 NaN = ''nan''"

definition format_ms :: "json \<Rightarrow> string res" where
  "format_ms v = (case v of
     JInt i \<Rightarrow> rbind (float_of_int i) (\<lambda>f. Inr (float_text3 f))
   | JBool b \<Rightarrow> Inr (float_text3 (Fin (if b then 1 else 0)))
   | JFloat f \<Rightarrow> Inr (float_text3 f)
   | _ \<Rightarrow> Inr ''n/a'')"

definition format_duration_line :: "text_forms \<Rightarrow> string \<Rightarrow> json \<Rightarrow> json \<Rightarrow> string res" where
  "format_duration_line T label v phase_count = rbind (format_ms v) (\<lambda>ms. Inr (pad_right 28 label @ '': '' @ pad_left 12 ms @ '' ms'' @
     (case phase_count of JInt n \<Rightarrow> ''  count='' @ int_str n | JBool b \<Rightarrow> ''  count='' @ py_str T phase_count | _ \<Rightarrow> [])))"

definition preferred_phase_order :: "string list" where
  "preferred_phase_order = [''llm_generate'', ''recovery'', ''tool_transaction'', ''record_llm_turn'', ''advance_plan_item'', ''record_final_message'']"

definition ordered_phases :: "dict \<Rightarrow> string list" where
  "ordered_phases phase_durations = (let preferred = filter (\<lambda>p. map_of phase_durations p \<noteq> None) preferred_phase_order in
     preferred @ filter (\<lambda>p. p \<notin> set preferred) (sort (map fst phase_durations)))"

definition attempt_line :: "text_forms \<Rightarrow> dict \<Rightarrow> string res" where
  "attempt_line T a = rbind (format_ms (dict_get a ''duration_ms'')) (\<lambda>duration. Inr (
     ''step '' @ py_str T (dict_get a ''step_index'') @ '' attempt '' @ py_str T (dict_get a ''attempt_no'') @ '': '' @
     pad_right 12 (py_str T (dict_get a ''status'')) @ '' '' @ pad_left 12 duration @ '' ms''))"

definition attempts_of :: "dict \<Rightarrow> dict list" where
  "attempts_of summary = (case dict_get summary ''attempts'' of JList xs \<Rightarrow> objects xs | _ \<Rightarrow> [])"

definition format_timing_report :: "text_forms \<Rightarrow> dict \<Rightarrow> string res" where
  "format_timing_report T summary =
     (let durations = obj_of (dict_get summary ''completed_phase_duration_ms''); phase_counts = obj_of (dict_get summary ''completed_phase_counts'') in
      rbind (format_duration_line T ''completed_step_duration_ms'' (dict_get summary ''completed_step_duration_ms'') JNull) (\<lambda>total.
      rbind (rmap (\<lambda>p. format_duration_line T p (dict_get durations p) (dict_get phase_counts p)) (ordered_phases durations)) (\<lambda>phases.
      rbind (rmap (attempt_line T) (attempts_of summary)) (\<lambda>attempts.
      Inr (join newline ([total] @ phases @ [[]] @ attempts) @ newline)))))"

section \<open>What is printed\<close>

definition print_mock_llm_output :: "int \<Rightarrow> string \<Rightarrow> string list" where
  "print_mock_llm_output step_index raw_output = [''Mock LLM output for step '' @ int_str step_index @ '':'', raw_output]"

definition print_child_demo_summary :: "text_forms \<Rightarrow> bool \<Rightarrow> string \<Rightarrow> dict \<Rightarrow> string option \<Rightarrow> string list" where
  "print_child_demo_summary T crashed run_id summary crash_message =
     [''Child process '' @ (if crashed then ''crashed'' else ''completed'') @ '' for run id: '' @ run_id] @
     (case crash_message of None \<Rightarrow> [] | Some m \<Rightarrow> if m = [] then [] else [''Crash message: '' @ m]) @
     (case dict_get summary ''attempts'' of
        JList (x # xs) \<Rightarrow> ''Current attempt timeline:'' # map (\<lambda>a. ''  step='' @ py_str T (dict_get a ''step_index'') @
          '' attempt='' @ py_str T (dict_get a ''attempt_no'') @ '' status='' @ py_str T (dict_get a ''status'') @
          '' phase='' @ py_str T (dict_get a ''phase'')) (objects (x # xs))
      | _ \<Rightarrow> [''No attempts available yet''])"

definition first_truthy :: "dict \<Rightarrow> string list \<Rightarrow> json \<Rightarrow> json" where
  "first_truthy d ks otherwise = (case find (\<lambda>k. truthy (dict_get d k)) ks of Some k \<Rightarrow> dict_get d k | None \<Rightarrow> otherwise)"

definition print_child_result :: "text_forms \<Rightarrow> dict \<Rightarrow> string list" where
  "print_child_result T result =
     [''Child result status: '' @ py_str T (first_truthy result [''status'', ''final_status''] (JStr ''complete''))] @
     (let final_message = first_truthy result [''final_message'', ''message''] JNull in
      if truthy final_message then [''Child final message: '' @ py_str T final_message] else [])"

definition timeline_line :: "text_forms \<Rightarrow> dict \<Rightarrow> string res" where
  "timeline_line T a = rbind (format_ms (dict_get a ''duration_ms'')) (\<lambda>duration. Inr (
     ''  step '' @ py_str T (dict_get a ''step_index'') @ '', attempt '' @ py_str T (dict_get a ''attempt_no'') @
     '': status='' @ py_str T (dict_get a ''status'') @ '', phase='' @ py_str T (dict_get a ''phase'') @ '', duration_ms='' @ duration))"

definition print_demo_summary :: "text_forms \<Rightarrow> dict \<Rightarrow> string list res" where
  "print_demo_summary T result = (let summary = obj_of (dict_get result ''evaluation_summary'');
       first = [''Demo completed successfully'', ''Latest recovered event sequence: '' @ py_str T (dict_get result ''latest_seq''),
         ''Inference log: '' @ py_str T (dict_get result ''inference_log_path''),
         ''Evaluation summary: '' @ py_str T (dict_get result ''output_path''),
         ''Timing report: '' @ py_str T (dict_get result ''timing_output_path'')] in
     case dict_get summary ''attempts'' of
       JList (x # xs) \<Rightarrow> rbind (rmap (timeline_line T) (objects (x # xs))) (\<lambda>timeline. Inr (first @ ''Recovered attempt timeline:'' # timeline))
     | _ \<Rightarrow> Inr (first @ [''No attempts were reported'']))"

section \<open>A child process\<close>

text \<open>The options of the experiment, and those of a child.\<close>

record sweep_args =
  arg_crash_step :: int
  arg_crash_phase :: string
  arg_ambiguous_write :: bool
  arg_lost_write :: bool

record child_args =
  child_run_id :: string
  child_crash :: bool
  child_crash_step :: int
  child_crash_phase :: string
  child_ambiguous_write :: bool
  child_lost_write :: bool

text \<open>The faults are injected in the first process only.\<close>

definition child_cmd :: "sweep_args \<Rightarrow> string \<Rightarrow> bool \<Rightarrow> int option \<Rightarrow> string option \<Rightarrow> child_args" where
  "child_cmd args run_id crashes crash_step crash_phase = \<lparr>child_run_id = run_id, child_crash = crashes,
     child_crash_step = (case crash_step of Some k \<Rightarrow> k | None \<Rightarrow> arg_crash_step args),
     child_crash_phase = (case crash_phase of Some p \<Rightarrow> p | None \<Rightarrow> arg_crash_phase args),
     child_ambiguous_write = (crashes \<and> arg_ambiguous_write args), child_lost_write = (crashes \<and> arg_lost_write args)\<rparr>"

text \<open>
  The call of the sample agent: the environment gives the clocks, the paths and the failures of the log.
  The listener only prints.
\<close>

definition child_env :: "sample_env \<Rightarrow> child_args \<Rightarrow> sample_env" where
  "child_env E a = E\<lparr>se_runtime := (se_runtime E)\<lparr>checkpoint_every_n_events := 4\<rparr>, se_force_reset := child_crash a, se_reset_target := child_crash a,
     se_ambiguous_write := child_ambiguous_write a, se_lost_write := child_lost_write a,
     se_crash_phase := child_crash_phase a, se_on_llm_response := Some (\<lambda>step_index raw s. (Inr (), s))\<rparr>"

definition child_simulator :: "child_args \<Rightarrow> crash_simulator option" where
  "child_simulator a = (if child_crash a
     then Some \<lparr>crash_steps = {child_crash_step a}, crash_once = True, triggered_steps = {}\<rparr> else None)"

text \<open>
  The child: its exit code, and what it prints after the run. \<open>died\<close> is the exit code with which the
  interpreter ends on an exception that nobody catches.
\<close>

definition run_child ::
  "(exn \<Rightarrow> int) \<Rightarrow> sample_env \<Rightarrow> soft_log_files \<Rightarrow> string \<Rightarrow> child_args \<Rightarrow> (replay_side beside, int \<times> string list) op" where
  "run_child died E F soft_log_path a w =
     (let T = forms (se_runtime E); start = w\<lparr>outside := ((fst (outside w))\<lparr>rs_crash := child_simulator a\<rparr>, snd (outside w))\<rparr> in
      case run_sample_agent (child_env E a) F (Some soft_log_path) (child_run_id a) start of
        (Inr result, w') \<Rightarrow> (Inr (0, ''Agent completed without crashing'' # print_child_result T result), w')
      | (Inl e, w') \<Rightarrow>
          if exn_class e \<noteq> SimulatedCrash then (Inr (died e, []), w') else
          (case build_evaluation_report (child_run_id a) True w' of
             (Inl e', w'') \<Rightarrow> (Inr (died e', []), w'')
           | (Inr report, w'') \<Rightarrow> (Inr (crash_exit_code,
               [''Simulated crash raised: '' @ exn_text e, ''Building partial evaluation report after crash''] @
               print_child_demo_summary T True (child_run_id a) (summarize_report report) (Some (exn_text e))), w'')))"

section \<open>A scenario\<close>

definition stored_at :: "(string \<times> json) list \<Rightarrow> (replay_side beside, json) op" where
  "stored_at keys = bind (gets (\<lambda>w. target_file (store_of w))) (\<lambda>stored.
     case stored of None \<Rightarrow> ret JNull | Some payload \<Rightarrow> lift (get_path payload keys))"

definition read_target_commits :: "(replay_side beside, int option) op" where
  "read_target_commits = bind (gets (\<lambda>w. target_file (store_of w))) (\<lambda>stored.
     case stored of None \<Rightarrow> ret None
     | Some payload \<Rightarrow> bind (lift (get_path payload [(''stats'', JObj []), (''total_commits'', JInt 0)])) (\<lambda>v.
         bind (lift (py_int v)) (\<lambda>n. ret (Some n))))"

definition read_order_state :: "(replay_side beside, json) op" where
  "read_order_state = stored_at [(''domain_state'', JObj []), (''orders/RA512'', JNull)]"

record run_evidence =
  evd_attempts :: "dict list"
  evd_interrupted :: int
  evd_recovery_ms :: "rat option"
  evd_statuses :: "string list"

definition collect_run_evidence :: "runtime \<Rightarrow> string \<Rightarrow> ('t, run_evidence) op" where
  "collect_run_evidence R run_id =
     bind (build_evaluation_report run_id True) (\<lambda>report.
     let attempts = concat (map (\<lambda>st. map (\<lambda>(a, phases). (sr_step_index st, a)) (sr_attempts st)) (er_steps report)) in
     bind (service_list_results R run_id) (\<lambda>records.
     ret \<lparr>evd_attempts = map (\<lambda>(i, a). [(''step_index'', jopt JInt i), (''attempt_no'', JInt (rp_attempt_no a)), (''status'', JStr (rp_status a))]) attempts,
       evd_interrupted = int (length (filter (\<lambda>(i, a). rp_status a = ''interrupted'') attempts)),
       evd_recovery_ms = map_of (er_completed_phase_duration_ms report) ''recovery'',
       evd_statuses = map (\<lambda>r. res_tool_name r @ '':'' @ execution_status_value (res_execution_status r)) records\<rparr>))"

record sweep_row =
  row_crash_phase :: string
  row_crash_step :: int
  row_crash_exit_code :: int
  row_resume_exit_code :: int
  row_commits_before_restart :: "int option"
  row_target_commits :: "int option"
  row_expected_commits :: int
  row_duplicate_commits :: int
  row_order_booked :: bool
  row_evidence :: run_evidence
  row_resume_wall_ms :: rat
  row_classification :: string
  row_ok :: bool

definition classify_row :: "bool \<Rightarrow> int option \<Rightarrow> int \<Rightarrow> string" where
  "classify_row ok commits_before_restart expected_commits = (if \<not> ok then ''violation''
     else if commits_before_restart = Some expected_commits then ''reused_committed_result'' else ''committed_after_restart'')"

text \<open>\<open>wall\<close> is the measured time of the second process in milliseconds.\<close>

definition run_sweep_scenario ::
  "(exn \<Rightarrow> int) \<Rightarrow> sample_env \<Rightarrow> sweep_args \<Rightarrow> (string \<Rightarrow> string) \<Rightarrow> rat \<Rightarrow> string \<Rightarrow> int \<Rightarrow> int \<Rightarrow> (replay_side beside, sweep_row) op" where
  "run_sweep_scenario died E args decode_message wall crash_phase crash_step expected_commits =
     (let T = forms (se_runtime E); F = synthetic_files T decode_message; run_id = ''crash-matrix-'' @ crash_phase;
          child = (\<lambda>crashes. run_child died E F ''synthetic_soft_log.json'' (child_cmd args run_id crashes (Some crash_step) (Some crash_phase))) in
      bind (child True) (\<lambda>crash_run.
      bind read_target_commits (\<lambda>commits_before_restart.
      bind (child False) (\<lambda>resume_run.
      bind read_target_commits (\<lambda>target_commits.
      bind read_order_state (\<lambda>order_state.
      bind (collect_run_evidence (se_runtime E) run_id) (\<lambda>evidence.
      let order_booked = py_eq order_state (JObj [(''flight_no'', JStr ''RA512''), (''status'', JStr ''booked'')]);
          ok = (fst crash_run = crash_exit_code \<and> fst resume_run = 0 \<and> target_commits = Some expected_commits \<and> order_booked) in
      ret \<lparr>row_crash_phase = crash_phase, row_crash_step = crash_step, row_crash_exit_code = fst crash_run,
        row_resume_exit_code = fst resume_run, row_commits_before_restart = commits_before_restart,
        row_target_commits = target_commits, row_expected_commits = expected_commits,
        row_duplicate_commits = max 0 ((case target_commits of Some n \<Rightarrow> n | None \<Rightarrow> 0) - expected_commits),
        row_order_booked = order_booked, row_evidence = evidence,
        row_resume_wall_ms = of_int (round_half_even (wall * 1000)) / 1000,
        row_classification = classify_row ok commits_before_restart expected_commits, row_ok = ok\<rparr>)))))))"

section \<open>The sweep\<close>

definition sweep_row_to_dict :: "string \<Rightarrow> sweep_row \<Rightarrow> dict" where
  "sweep_row_to_dict runtime_dir r = [
     (''crash_phase'', JStr (row_crash_phase r)), (''crash_step'', JInt (row_crash_step r)), (''runtime_dir'', JStr runtime_dir),
     (''crash_exit_code'', JInt (row_crash_exit_code r)), (''resume_exit_code'', JInt (row_resume_exit_code r)),
     (''commits_before_restart'', jopt JInt (row_commits_before_restart r)), (''target_commits'', jopt JInt (row_target_commits r)),
     (''expected_commits'', JInt (row_expected_commits r)), (''duplicate_commits'', JInt (row_duplicate_commits r)),
     (''order_booked'', JBool (row_order_booked r)), (''attempts'', JList (map JObj (evd_attempts (row_evidence r)))),
     (''interrupted_attempts'', JInt (evd_interrupted (row_evidence r))),
     (''execution_statuses'', str_list (evd_statuses (row_evidence r))),
     (''recovery_phase_ms'', jopt (\<lambda>d. JFloat (Fin d)) (evd_recovery_ms (row_evidence r))),
     (''resume_wall_ms'', JFloat (Fin (row_resume_wall_ms r))), (''classification'', JStr (row_classification r)),
     (''ok'', JBool (row_ok r))]"

definition commits_text :: "int option \<Rightarrow> string" where
  "commits_text c = (case c of None \<Rightarrow> ''None'' | Some n \<Rightarrow> int_str n)"

definition sweep_line :: "nat \<Rightarrow> nat \<Rightarrow> sweep_row \<Rightarrow> string" where
  "sweep_line i n r = ''['' @ int_str (int i + 1) @ ''/'' @ int_str (int n) @ ''] '' @ pad_right 28 (row_crash_phase r) @ '' commits='' @
     commits_text (row_target_commits r) @ '' dup='' @ int_str (row_duplicate_commits r) @ '' '' @
     pad_right 26 (row_classification r) @ '' '' @ (if row_ok r then ''ok'' else ''VIOLATION'')"

text \<open>The format \<open>.1f\<close>.\<close>

definition fixed1 :: "rat \<Rightarrow> string" where
  "fixed1 x = (let n = nat (round_half_even (\<bar>x\<bar> * 10)) in
     (if x < 0 then ''-'' else []) @ nat_str (n div 10) @ ''.'' @ nat_str (n mod 10))"

definition sweep_header :: string where
  "sweep_header = join '' '' [pad_right 28 ''phase'', pad_left 4 ''step'', pad_left 8 ''attempts'', pad_left 4 ''intr'', pad_left 7 ''commits'',
     pad_left 3 ''dup'', pad_right 26 ''classification'', pad_left 11 ''recovery_ms'', pad_left 9 ''resume_ms'', pad_right 9 ''result'']"

definition sweep_table_row :: "sweep_row \<Rightarrow> string" where
  "sweep_table_row r = join '' '' [pad_right 28 (row_crash_phase r), pad_left 4 (int_str (row_crash_step r)),
     pad_left 8 (int_str (int (length (evd_attempts (row_evidence r))))), pad_left 4 (int_str (evd_interrupted (row_evidence r))),
     pad_left 7 (commits_text (row_target_commits r)), pad_left 3 (int_str (row_duplicate_commits r)),
     pad_right 26 (row_classification r),
     pad_left 11 (case evd_recovery_ms (row_evidence r) of Some d \<Rightarrow> fixed3 d | None \<Rightarrow> ''n/a''),
     pad_left 9 (fixed1 (row_resume_wall_ms r)), pad_right 9 (if row_ok r then ''ok'' else ''VIOLATION'')]"

definition format_sweep_table :: "sweep_row list \<Rightarrow> string" where
  "format_sweep_table rows = join newline ([sweep_header, replicate (length sweep_header) CHR ''-''] @ map sweep_table_row rows) @ newline"

text \<open>A runtime directory that has just been made.\<close>

definition fresh_directory :: "replay_side beside world" where
  "fresh_directory = \<lparr>db = empty_db, conn_open = False, ticks = 0, uuids = 0,
     outside = (\<lparr>rs_target = \<lparr>target_file = None, target_ticks = 0, target_ids = 0\<rparr>, rs_emitted = False, rs_crash = None,
       rs_agent = scripted_agent_init [] True ''DONE'', rs_log = []\<rparr>, [])\<rparr>"

text \<open>
  The sweep: each scenario in a directory of its own, with its own clocks (\<open>E i\<close>) and times. \<open>host\<close> is
  what the summary tells of the machine. The result is the exit code, the summary, the table and the verdicts.
\<close>

definition run_sweep ::
  "(exn \<Rightarrow> int) \<Rightarrow> (nat \<Rightarrow> sample_env) \<Rightarrow> sweep_args \<Rightarrow> (string \<Rightarrow> string) \<Rightarrow> (nat \<Rightarrow> rat) \<Rightarrow> (nat \<Rightarrow> string) \<Rightarrow> dict \<Rightarrow>
   string option \<Rightarrow> int \<Rightarrow> (int \<times> dict \<times> string \<times> string list) res" where
  "run_sweep died E args decode_message wall directory host sweep_filter expected_commits =
     rbind (resolve_sweep_phases sweep_filter) (\<lambda>phases.
     rbind (rmap (\<lambda>(i, phase, step). fst (run_sweep_scenario died (E i) args decode_message (wall i) phase step expected_commits fresh_directory))
       (enumerate 0 phases)) (\<lambda>rows.
     let ok = list_all row_ok rows;
         summary = host @ [(''expected_commits_per_run'', JInt expected_commits), (''phase_count'', JInt (int (length rows))),
           (''ok'', JBool ok), (''phases'', JList (map (\<lambda>(i, r). JObj (sweep_row_to_dict (directory i) r)) (enumerate 0 rows)))] in
     Inr (if ok then 0 else 1, summary, format_sweep_table rows,
       map (\<lambda>(i, r). sweep_line i (length rows) r) (enumerate 0 rows) @
       [if ok then ''Sweep passed: exactly '' @ int_str expected_commits @ '' target commit(s) in all '' @ int_str (int (length rows)) @
          '' phase(s), zero duplicates''
        else ''Sweep FAILED for phase(s): '' @ join '', '' (map row_crash_phase (filter (\<lambda>r. \<not> row_ok r) rows))])))"

section \<open>One experiment\<close>

record parent_paths =
  pp_runtime_dir :: string
  pp_soft_log_path :: string
  pp_target_store_path :: string
  pp_output_path :: string
  pp_timing_output_path :: string

definition planner_statuses :: "dict \<Rightarrow> json list res" where
  "planner_statuses bundle =
     rbind (get_path (if truthy (dict_get bundle ''planner_state'') then dict_get bundle ''planner_state'' else JObj []) [(''items'', JList [])]) (\<lambda>v.
     rbind (py_iter v) (\<lambda>items.
     rmap (\<lambda>it. case it of JObj d \<Rightarrow> Inr (JObj [(''plan_item_id'', dict_get d ''plan_item_id''), (''status'', dict_get d ''status'')])
       | _ \<Rightarrow> no_get) items))"

text \<open>
  The experiment with one crash: a first process that does not crash as asked, or a second that fails, ends
  it. Otherwise the summary and the timing report are written, and what is printed is returned.
\<close>

definition run_parent ::
  "(exn \<Rightarrow> int) \<Rightarrow> sample_env \<Rightarrow> sweep_args \<Rightarrow> soft_log_files \<Rightarrow> parent_paths \<Rightarrow> string \<Rightarrow>
   (replay_side beside, int \<times> (dict \<times> string \<times> string list) option) op" where
  "run_parent died E args F P run_id =
     (let R = se_runtime E; T = forms R; child = (\<lambda>crashes. run_child died E F (pp_soft_log_path P) (child_cmd args run_id crashes None None)) in
      bind (child True) (\<lambda>(crash_code, _).
      if crash_code \<noteq> crash_exit_code then ret (1, None) else
      bind (child False) (\<lambda>(resume_code, _).
      if resume_code \<noteq> 0 then ret (resume_code, None) else
      bind (build_evaluation_report run_id True) (\<lambda>report.
      bind (rebuild_state R run_id None 1000) (\<lambda>bundle.
      bind (lift (planner_statuses bundle)) (\<lambda>statuses.
      let summary = summarize_report report;
          result = [(''ok'', JBool True), (''run_id'', JStr run_id), (''runtime_dir'', JStr (pp_runtime_dir P)),
            (''soft_log_path'', JStr (pp_soft_log_path P)), (''target_store_path'', JStr (pp_target_store_path P)),
            (''inference_log_path'', JStr (pp_runtime_dir P @ ''/openrouter_mock_inference.jsonl'')),
            (''crash'', JObj [(''step'', JInt (arg_crash_step args)), (''phase'', JStr (arg_crash_phase args)), (''exit_code'', JInt crash_code)]),
            (''resume_exit_code'', JInt resume_code), (''evaluation_summary'', JObj summary),
            (''latest_seq'', dict_get bundle ''latest_seq''), (''planner_statuses'', JList statuses), (''report'', JObj (report_to_dict report))] in
      bind (lift (format_timing_report T summary)) (\<lambda>timing.
      bind (lift (print_demo_summary T (result @ [(''output_path'', JStr (pp_output_path P)), (''timing_output_path'', JStr (pp_timing_output_path P))])))
        (\<lambda>printed. ret (0, Some (result, timing, printed))))))))))"

end
