(* ===== verification/Json_Texts.thy ===== *)
theory Json_Texts
  imports Durable_Files Llm_Client Plan_Text
begin

text \<open>
  The texts that the program writes are read back: \<open>json.loads\<close> of what \<open>json.dumps\<close> made, with compact or
  spaced separators, sorted keys, or an indent, is the value with its keys sorted. So a file of the mock target, of the
  mirror or of a report holds what was written, and a stored payload is the payload.
\<close>

section \<open>Strings\<close>

lemma hex_value_digit: "n < 16 \<Longrightarrow> hex_value (hex_digit n) = Some n"
  by (auto simp: hex_value_def hex_digit_def)

lemma four_hex_byte: "n < 256 \<Longrightarrow>
    four_hex (CHR ''0'' # CHR ''0'' # hex_digit (n div 16) # hex_digit (n mod 16) # u) = Some (char_of n, u)"
  by (simp add: hex_value_digit) (simp add: hex_value_def)

lemma special_codes: "char_of (34 :: nat) = CHR 0x22" "char_of (92 :: nat) = CHR 0x5C" "char_of (10 :: nat) = CHR 0x0A"
    "char_of (13 :: nat) = CHR 0x0D" "char_of (9 :: nat) = CHR 0x09" "char_of (12 :: nat) = CHR 0x0C" "char_of (8 :: nat) = CHR 0x08"
  by code_simp+

lemma scan_escaped: "scan_string (escape_char c @ u) = map_option (\<lambda>(t, z). (c # t, z)) (scan_string u)"
proof -
  define n :: nat where "n = of_char c"
  have c: "c = char_of n" and n: "n < 256" by (simp_all add: n_def)
  have plain: "c \<noteq> CHR 0x22" "c \<noteq> CHR 0x5C" if "n \<noteq> 34" "n \<noteq> 92" using that by (auto simp: n_def)
  show ?thesis
    using four_hex_byte [OF n, of u] plain
    by (simp add: escape_char_def n_def [symmetric] Let_def scan_string_cases simple_escape_def c [symmetric] del: four_hex.simps)
      (auto simp: c special_codes)
qed

lemma scan_quoted: "scan_string (concat (map escape_char t) @ CHR 0x22 # r) = Some (t, r)"
  by (induction t) (simp_all add: scan_escaped scan_string_cases)

section \<open>Numbers\<close>

text \<open>What may follow a value in a text.\<close>

definition ends_value :: "string \<Rightarrow> bool" where
  "ends_value r \<longleftrightarrow> r = [] \<or> hd r \<in> {CHR '','', CHR '']'', CHR ''}''} \<or> json_space (hd r)"

lemma ends_value_chars: "ends_value (c # r) \<Longrightarrow> \<not> is_digit c \<and> c \<notin> {CHR ''.'', CHR ''e'', CHR ''E''}"
  by (auto simp: ends_value_def is_digit_def digit_value_def Let_def json_space_def)

lemma digits_rest_all:
  "list_all is_digit ds \<Longrightarrow> digits_rest a k ds = (foldl (\<lambda>a c. 10 * a + the (digit_value c)) a ds, k + length ds, [])"
  by (induction ds arbitrary: a k) (auto simp: is_digit_def)

lemma digit_char_value: "n < 10 \<Longrightarrow> digit_value (digit_char n) = Some n"
  by (simp add: digit_value_def digit_char_def)

lemma nat_str_value: "foldl (\<lambda>a c. 10 * a + the (digit_value c)) 0 (nat_str n) = n"
proof (induction n rule: nat_str.induct)
  case (1 n)
  then show ?case by (subst nat_str.simps) (simp add: digit_char_value)
qed

lemma digit_no_sign: "is_digit c \<Longrightarrow> c \<notin> {CHR ''-'', CHR ''+''}"
  by (auto simp: is_digit_def digit_value_def Let_def)

lemma nat_str_Cons: obtains c ds where "nat_str n = c # ds" "is_digit c"
  using nat_str_digits [of n] by (cases "nat_str n") auto

lemma strip_int_str: "strip (int_str i) = int_str i"
proof (rule strip_no_space, rule ballI)
  fix c assume "c \<in> set (int_str i)"
  then have "c = CHR ''-'' \<or> is_digit c" by (auto simp: int_str_def split: if_splits dest: nat_str_plain)
  then show "\<not> is_space c" using digit_plain by (auto simp: is_space_def)
qed

lemma parse_int_str: "parse_int (int_str i) = Some i"
proof -
  obtain c ds where c: "nat_str (nat i) = c # ds" "is_digit c" by (rule nat_str_Cons)
  have "list_all is_digit (nat_str n)" for n using nat_str_digits by blast
  from digits_rest_all [OF this] have d: "digits_rest 0 0 (nat_str n) = (n, length (nat_str n), [])" for n by (simp add: nat_str_value)
  have "0 < length (nat_str n)" for n using nat_str_digits [of n] by simp
  moreover have "split_sign (int_str i) = (if i < 0 then (- 1, nat_str (nat (- i))) else (1, nat_str (nat i)))"
    using c digit_no_sign [of c] by (auto simp: split_sign_def int_str_def)
  ultimately show ?thesis by (simp add: parse_int_def strip_int_str d)
qed

lemma nat_str_zero: "nat_str n = c # ds \<Longrightarrow> c = CHR ''0'' \<longleftrightarrow> n = 0"
proof (induction n arbitrary: c ds rule: nat_str.induct)
  case (1 n)
  show ?case
  proof (cases "n < 10")
    case True
    then have "c = digit_char n" using 1(2) by (subst (asm) nat_str.simps) simp
    moreover have "CHR ''0'' = digit_char 0" by code_simp
    ultimately show ?thesis using digit_char_value [OF True] digit_char_value [of 0] by (metis option.inject zero_less_numeral)
  next
    case False
    obtain c' ds' where c': "nat_str (n div 10) = c' # ds'" by (rule nat_str_Cons)
    then have "c = c'" using 1(2) False by (subst (asm) nat_str.simps) simp
    moreover have "n div 10 \<noteq> 0" using False by simp
    ultimately show ?thesis using 1(1) [OF False c'] False by auto
  qed
qed

lemma digits_end:
  assumes "ends_value r"
  shows "digits_of (nat_str n @ r) = nat_str n" "after_digits (nat_str n @ r) = r"
proof -
  have "digits_of r = []" "after_digits r = r" using ends_value_chars assms by (cases r; force)+
  then show "digits_of (nat_str n @ r) = nat_str n" "after_digits (nat_str n @ r) = r"
    using nat_str_plain [of _ n] by simp_all
qed

lemma scan_int_str:
  assumes "ends_value r"
  shows "scan_int (int_str i @ r) = Some (int_str i, r)"
proof -
  have pos: "(case nat_str n @ r of [] \<Rightarrow> None | c # r' \<Rightarrow> if c = CHR ''0'' then Some (sign @ [c], r')
      else if is_digit c then Some (sign @ digits_of (nat_str n @ r), after_digits (nat_str n @ r)) else None) = Some (sign @ nat_str n, r)" for n sign
  proof -
    obtain c ds where c: "nat_str n = c # ds" "is_digit c" by (rule nat_str_Cons)
    show ?thesis
    proof (cases "n = 0")
      case True
      have "nat_str 0 = ''0''" by code_simp
      then show ?thesis using True by simp
    next
      case False
      then show ?thesis using c nat_str_zero [OF c(1)] digits_end [OF assms, of n] by simp
    qed
  qed
  obtain c ds where c: "nat_str (nat i) = c # ds" "is_digit c" by (rule nat_str_Cons)
  show ?thesis
  proof (cases "i < 0")
    case True
    then show ?thesis using pos [where n = "nat (- i)" and sign = "''-''"] by (simp add: scan_int_def int_str_def)
  next
    case False
    then have i: "int_str i = nat_str (nat i)" by (simp add: int_str_def)
    have "(case nat_str (nat i) @ r of [] \<Rightarrow> ([], nat_str (nat i) @ r) | c # t \<Rightarrow> if c = CHR ''-'' then ([c], t) else ([], nat_str (nat i) @ r)) =
        ([], nat_str (nat i) @ r)"
      using c digit_no_sign [of c] by simp
    with pos [where n = "nat i" and sign = "[]"] show ?thesis unfolding scan_int_def i by simp
  qed
qed

lemma scan_number_int:
  assumes "ends_value r"
  shows "scan_number (int_str i @ r) = Some (JInt i, r)"
proof -
  have "scan_fraction r = ([], r)" "scan_exponent r = ([], r)"
    using ends_value_chars assms by (cases r; force simp: scan_fraction_def scan_exponent_def)+
  then show ?thesis by (simp add: scan_number_def scan_int_str [OF assms] parse_int_str)
qed

section \<open>Texts of values\<close>

text \<open>\<open>spells v s\<close>: wherever \<open>s\<close> stands before the end of a value, it is parsed as \<open>v\<close>.\<close>

definition spells :: "json \<Rightarrow> string \<Rightarrow> bool" where
  "spells v s \<longleftrightarrow> s \<noteq> [] \<and> hd s \<noteq> CHR '']'' \<and> \<not> json_space (hd s) \<and>
     (\<forall>r. ends_value r \<longrightarrow> (\<exists>m. parse_value m (s @ r) = Some (v, r)))"

lemma more_fuel: "parse_value m s = Some (v, r) \<Longrightarrow> length s \<le> n \<Longrightarrow> parse_value n s = Some (v, r)"
    "parse_elements m s = Some (vs, r) \<Longrightarrow> length s \<le> n \<Longrightarrow> parse_elements n s = Some (vs, r)"
    "parse_members m s = Some (ms, r) \<Longrightarrow> length s \<le> n \<Longrightarrow> parse_members n s = Some (ms, r)"
  using settledD [OF conjunct1 [OF settled_all]] settledD [OF conjunct1 [OF conjunct2 [OF settled_all]]]
    settledD [OF conjunct2 [OF conjunct2 [OF settled_all]]] by (meson trans_le_add2)+

lemma spellsD: "spells v s \<Longrightarrow> ends_value r \<Longrightarrow> length (s @ r) \<le> n \<Longrightarrow> parse_value n (s @ r) = Some (v, r)"
  unfolding spells_def using more_fuel(1) by blast

lemma spells_start: "spells v s \<Longrightarrow> skip_space (s @ r) = s @ r" "spells v s \<Longrightarrow> s \<noteq> []" "spells v s \<Longrightarrow> hd (s @ r) \<noteq> CHR '']''"
  by (cases s; simp add: spells_def)+

lemma no_space [simp]: "\<not> json_space CHR '']''" "\<not> json_space CHR '',''" "\<not> json_space CHR '':''" "\<not> json_space CHR ''}''"
    "\<not> json_space CHR 0x22" "\<not> json_space CHR ''{''" "\<not> json_space CHR ''[''"
  by (simp_all add: json_space_def)

lemma skip_gap: "list_all json_space g \<Longrightarrow> skip_space (g @ s) = skip_space s"
  by (induction g) simp_all

lemma ends_after: "list_all json_space g \<Longrightarrow> c \<in> {CHR '','', CHR '']'', CHR ''}''} \<Longrightarrow> ends_value (g @ c # r)"
  by (cases g) (auto simp: ends_value_def)

lemma spells_string: "spells (JStr t) (quote_str t)"
  unfolding spells_def
proof (intro conjI allI impI exI)
  fix r
  show "parse_value (Suc 0) (quote_str t @ r) = Some (JStr t, r)"
    by (simp add: parse_value.simps(2) quote_str_def scan_quoted)
qed (simp_all add: quote_str_def)

lemma spells_literal:
  "spells JNull ''null''" "spells (JBool True) ''true''" "spells (JBool False) ''false''"
  "spells (JFloat PInf) ''Infinity''" "spells (JFloat NInf) ''-Infinity''" "spells (JFloat NaN) ''NaN''"
  by (auto simp: spells_def json_space_def parse_value.simps(2) json_literals_def strip_prefix_def intro!: exI [of _ "Suc 0"])

lemma digit_no_literal: "is_digit c \<Longrightarrow> c \<notin> {CHR ''n'', CHR ''t'', CHR ''f'', CHR ''N'', CHR ''I'', CHR 0x22, CHR ''{'', CHR ''['', CHR '']''}"
  by (auto simp: is_digit_def digit_value_def Let_def)

lemma strip_prefix_Cons: "strip_prefix (p # ps) (c # s) = (if c = p then strip_prefix ps s else None)"
  by (simp add: strip_prefix_def)

lemma spells_int: "spells (JInt i) (int_str i)"
proof -
  obtain c ds where c: "nat_str (nat \<bar>i\<bar>) = c # ds" "is_digit c" by (rule nat_str_Cons)
  have s: "int_str i = (if i < 0 then CHR ''-'' # c # ds else c # ds)" using c(1) by (cases "i < 0") (simp_all add: int_str_def)
  have lit: "first_literal json_literals (int_str i @ r) = None" for r
    using digit_no_literal [OF c(2)] digit_no_sign [OF c(2)] by (cases "i < 0") (simp_all add: s json_literals_def strip_prefix_Cons)
  show ?thesis
    unfolding spells_def
  proof (intro conjI allI impI exI)
    fix r assume "ends_value r"
    from scan_number_int [OF this, of i] lit [of r] show "parse_value (Suc 0) (int_str i @ r) = Some (JInt i, r)"
      using digit_no_literal [OF c(2)] by (cases "i < 0") (simp_all add: parse_value.simps(2) s)
  qed (use digit_plain [OF c(2)] digit_no_literal [OF c(2)] in \<open>auto simp: s json_space_def\<close>)
qed

section \<open>Arrays and objects\<close>

text \<open>A text of elements separated by commas and gaps, with its end \<open>e\<close>.\<close>

lemma join_step: "join sep (s # ss) @ e = (if ss = [] then s @ e else s @ sep @ join sep ss @ e)"
  by (cases ss) simp_all

lemma elements_spelled:
  assumes "list_all2 spells vs ss" and "vs \<noteq> []" and "list_all json_space g" and "list_all json_space z"
  shows "\<exists>m. parse_elements m (join (CHR '','' # g) ss @ z @ CHR '']'' # r) = Some (vs, r)"
  using assms(1,2)
proof (induction rule: list_all2_induct)
  case (Cons v vs s ss)
  let ?rest = "if ss = [] then z @ CHR '']'' # r else CHR '','' # g @ join (CHR '','' # g) ss @ z @ CHR '']'' # r"
  have whole: "join (CHR '','' # g) (s # ss) @ z @ CHR '']'' # r = s @ ?rest" by (simp add: join_step)
  have "ends_value ?rest" using ends_after [OF assms(4)] by (simp add: ends_value_def)
  then have v: "parse_value n (s @ ?rest) = Some (v, ?rest)" if "length (s @ ?rest) \<le> n" for n using Cons(1) that by (intro spellsD)
  show ?case
  proof (cases "ss = []")
    case True
    then have "vs = []" using Cons(2) by simp
    with v [of "length (s @ ?rest)"] True show ?thesis unfolding whole
      by (intro exI [of _ "Suc (length (s @ ?rest))"]) (simp add: parse_elements.simps(2) skip_gap [OF assms(4)])
  next
    case False
    then obtain s' ss' where s': "ss = s' # ss'" by (cases ss) auto
    then obtain v' vs' where v': "vs = v' # vs'" "spells v' s'" using Cons(2) by (auto simp: list_all2_Cons2)
    then obtain m where m: "parse_elements m (join (CHR '','' # g) ss @ z @ CHR '']'' # r) = Some (vs, r)" using Cons.IH by auto
    have skip: "skip_space (g @ join (CHR '','' # g) ss @ z @ CHR '']'' # r) = join (CHR '','' # g) ss @ z @ CHR '']'' # r"
      using spells_start(1) [OF v'(2)] unfolding skip_gap [OF assms(3)] by (simp add: s' join_step)
    let ?n = "length (s @ ?rest)"
    have "parse_elements ?n (join (CHR '','' # g) ss @ z @ CHR '']'' # r) = Some (vs, r)"
      using more_fuel(2) [OF m, of ?n] False by simp
    with v [of ?n] False show ?thesis unfolding whole
      by (intro exI [of _ "Suc ?n"]) (simp add: parse_elements.simps(2) skip)
  qed
qed simp

lemma spells_list:
  assumes "list_all2 spells vs ss" and "list_all json_space g" and "list_all json_space z" and "list_all json_space opening"
    and "ss = [] \<Longrightarrow> opening = [] \<and> z = []"
  shows "spells (JList vs) (CHR ''['' # opening @ join (CHR '','' # g) ss @ z @ [CHR '']''])"
proof (cases ss)
  case Nil
  then show ?thesis using assms(1,5) by (auto simp: spells_def parse_value.simps(2) intro!: exI [of _ "Suc 0"])
next
  case (Cons s ss')
  then obtain v vs' where v: "vs = v # vs'" "spells v s" using assms(1) by (auto simp: list_all2_Cons2)
  show ?thesis
    unfolding spells_def
  proof (intro conjI allI impI)
    fix r
    let ?t = "join (CHR '','' # g) ss @ z @ CHR '']'' # r"
    obtain m where m: "parse_elements m ?t = Some (vs, r)" using elements_spelled [OF assms(1) _ assms(2,3)] v(1) by blast
    have t: "skip_space (opening @ ?t) = ?t" "?t \<noteq> []" "hd ?t \<noteq> CHR '']''"
      using spells_start [OF v(2)] unfolding skip_gap [OF assms(4)] Cons by (simp_all add: join_step)
    then obtain d r' where d: "?t = d # r'" "d \<noteq> CHR '']''" by (cases ?t) auto
    show "\<exists>m. parse_value m ((CHR ''['' # opening @ join (CHR '','' # g) ss @ z @ [CHR '']'']) @ r) = Some (JList vs, r)"
      using t(1) m d by (intro exI [of _ "Suc m"]) (simp add: parse_value.simps(2))
  qed simp_all
qed

text \<open>A member: the key, a colon and a gap, the value.\<close>

definition member_text :: "string \<Rightarrow> string \<times> string \<Rightarrow> string" where
  "member_text g p = quote_str (fst p) @ CHR '':'' # g @ snd p"

lemma member_text_start: "member_text g p = CHR 0x22 # concat (map escape_char (fst p)) @ CHR 0x22 # CHR '':'' # g @ snd p"
  by (simp add: member_text_def quote_str_def)

lemma members_spelled:
  assumes "list_all2 (\<lambda>(k, v) (k', t). k' = k \<and> spells v t) ms ps" and "ms \<noteq> []" and "list_all json_space g"
    and "list_all json_space z" and "list_all json_space gap"
  shows "\<exists>m. parse_members m (join (CHR '','' # g) (map (member_text gap) ps) @ z @ CHR ''}'' # r) = Some (ms, r)"
  using assms(1,2)
proof (induction rule: list_all2_induct)
  case (Cons kv ms p ps)
  obtain k v t where p: "kv = (k, v)" "p = (k, t)" "spells v t" using Cons(1) by (cases kv; cases p) auto
  let ?rest = "if ps = [] then z @ CHR ''}'' # r else CHR '','' # g @ join (CHR '','' # g) (map (member_text gap) ps) @ z @ CHR ''}'' # r"
  have whole: "join (CHR '','' # g) (map (member_text gap) (p # ps)) @ z @ CHR ''}'' # r =
      CHR 0x22 # concat (map escape_char k) @ CHR 0x22 # CHR '':'' # gap @ t @ ?rest"
    unfolding list.map join_step by (simp add: member_text_start p)
  have "ends_value ?rest" using ends_after [OF assms(4)] by (simp add: ends_value_def)
  then have v: "parse_value n (t @ ?rest) = Some (v, ?rest)" if "length (t @ ?rest) \<le> n" for n using p(3) that by (intro spellsD)
  have gap: "skip_space (gap @ t @ ?rest) = t @ ?rest" unfolding skip_gap [OF assms(5)] by (rule spells_start(1) [OF p(3)])
  show ?case
  proof (cases "ps = []")
    case True
    then have "ms = []" using Cons(2) by simp
    with v [of "length (t @ ?rest)"] True gap show ?thesis unfolding whole
      by (intro exI [of _ "Suc (length (t @ ?rest))"]) (simp add: parse_members.simps(2) scan_quoted skip_gap [OF assms(4)] p(1))
  next
    case False
    then obtain p' ps' where p': "ps = p' # ps'" by (cases ps) auto
    then have "ms \<noteq> []" using Cons(2) by auto
    then obtain m where m: "parse_members m (join (CHR '','' # g) (map (member_text gap) ps) @ z @ CHR ''}'' # r) = Some (ms, r)"
      using Cons.IH by blast
    have skip: "skip_space (g @ join (CHR '','' # g) (map (member_text gap) ps) @ z @ CHR ''}'' # r) =
        join (CHR '','' # g) (map (member_text gap) ps) @ z @ CHR ''}'' # r"
      unfolding skip_gap [OF assms(3)] by (simp add: p' join_step member_text_start)
    let ?n = "length (t @ ?rest)"
    have "parse_members ?n (join (CHR '','' # g) (map (member_text gap) ps) @ z @ CHR ''}'' # r) = Some (ms, r)"
      using more_fuel(3) [OF m, of ?n] False by simp
    with v [of ?n] False gap show ?thesis unfolding whole
      by (intro exI [of _ "Suc ?n"]) (simp add: parse_members.simps(2) scan_quoted skip p(1))
  qed
qed simp

lemma foldl_update_id: "distinct (map fst (d @ ms)) \<Longrightarrow> foldl (\<lambda>d (k, v). AList.update k v d) d ms = d @ ms"
proof (induction ms arbitrary: d)
  case (Cons m ms)
  obtain k v where m: "m = (k, v)" by (cases m)
  then have "k \<notin> fst ` set d" using Cons.prems by auto
  then have "AList.update k v d = d @ [(k, v)]" by (induction d) auto
  then show ?case using Cons.IH [of "d @ [(k, v)]"] Cons.prems by (simp add: m)
qed simp

lemma spells_object:
  assumes "list_all2 (\<lambda>(k, v) (k', t). k' = k \<and> spells v t) ms ps" and "distinct (map fst ms)" and "list_all json_space g"
    and "list_all json_space z" and "list_all json_space gap" and "list_all json_space opening" and "ps = [] \<Longrightarrow> opening = [] \<and> z = []"
  shows "spells (JObj ms) (CHR ''{'' # opening @ join (CHR '','' # g) (map (member_text gap) ps) @ z @ [CHR ''}''])"
proof (cases ps)
  case Nil
  then show ?thesis using assms(1,7) by (auto simp: spells_def parse_value.simps(2) intro!: exI [of _ "Suc 0"])
next
  case (Cons p ps')
  then have "ms \<noteq> []" using assms(1) by auto
  show ?thesis
    unfolding spells_def
  proof (intro conjI allI impI)
    fix r
    let ?t = "join (CHR '','' # g) (map (member_text gap) ps) @ z @ CHR ''}'' # r"
    obtain m where m: "parse_members m ?t = Some (ms, r)" using members_spelled [OF assms(1) \<open>ms \<noteq> []\<close> assms(3-5)] by blast
    have "\<exists>t'. ?t = CHR 0x22 # t'" unfolding Cons list.map join_step by (cases "ps' = []") (simp_all add: member_text_start)
    then obtain t' where t': "?t = CHR 0x22 # t'" by blast
    then have "skip_space (opening @ ?t) = CHR 0x22 # t'" unfolding skip_gap [OF assms(6)] by simp
    then show "\<exists>m. parse_value m ((CHR ''{'' # opening @ join (CHR '','' # g) (map (member_text gap) ps) @ z @ [CHR ''}'']) @ r) = Some (JObj ms, r)"
      using m foldl_update_id [of "[]" ms] assms(2) by (intro exI [of _ "Suc m"]) (simp add: parse_value.simps(2) t')
  qed simp_all
qed

lemma spells_loads:
  assumes "spells v s" and "list_all json_space z"
  shows "json_loads (s @ z) = Some v"
proof -
  have "ends_value z" using assms(2) by (cases z) (simp_all add: ends_value_def)
  then have "parse_value (Suc (length (s @ z))) (s @ z) = Some (v, z)" using assms(1) by (intro spellsD) simp_all
  moreover have "skip_space z = []" using assms(2) skip_gap [of z "[]"] by simp
  ultimately show ?thesis by (simp add: json_loads_def spells_start(1) [OF assms(1)])
qed

section \<open>What is written is read\<close>

text \<open>A value as it comes back: the keys sorted, a timestamp as its text.\<close>

fun read_back :: "text_forms \<Rightarrow> json \<Rightarrow> json" where
  "read_back T (JTime t) = JStr (iso_text T t)"
| "read_back T (JList xs) = JList (map (read_back T) xs)"
| "read_back T (JObj d) = JObj (sort_key fst (map (\<lambda>(k, v). (k, read_back T v)) d))"
| "read_back T v = v"

text \<open>The dicts of Python have distinct keys, and \<open>float.__repr__\<close> gives a text that is read as the same float.\<close>

fun storable :: "text_forms \<Rightarrow> json \<Rightarrow> bool" where
  "storable T (JFloat (Fin x)) = spells (JFloat (Fin x)) (float_repr T x)"
| "storable T (JList xs) = list_all (storable T) xs"
| "storable T (JObj d) = (distinct (map fst d) \<and> list_all (\<lambda>(k, v). storable T v) d)"
| "storable T v = True"

text \<open>The texts of the members are sorted by their keys, as are the members that are read.\<close>

lemma sort_map_snd: "sort_key fst (map (\<lambda>(k, v). (k, f v)) d) = map (\<lambda>(k, v). (k, f v)) (sort_key fst d)"
proof (induction d)
  case (Cons p d)
  have "insort_key fst (case p of (k, v) \<Rightarrow> (k, f v)) (map (\<lambda>(k, v). (k, f v)) xs) = map (\<lambda>(k, v). (k, f v)) (insort_key fst p xs)" for xs
    by (induction xs) (auto split: prod.splits)
  then show ?case using Cons by simp
qed simp

lemma members_sorted:
  assumes "\<And>k v. (k, v) \<in> set d \<Longrightarrow> spells (read_back T v) (f v)"
  shows "list_all2 (\<lambda>(k, v) (k', t). k' = k \<and> spells v t) (sort_key fst (map (\<lambda>(k, v). (k, read_back T v)) d))
    (sort_key fst (map (\<lambda>(k, v). (k, f v)) d))"
  using assms by (auto simp: sort_map_snd list_all2_map1 list_all2_map2 list.rel_refl_strong split: prod.splits intro!: list.rel_refl_strong)

lemma distinct_sorted_keys: "distinct (map fst d) \<Longrightarrow> distinct (map fst (sort_key fst (map (\<lambda>(k, v). (k, f v)) d)))"
  by (simp add: sort_map_snd comp_def case_prod_beta distinct_map inj_on_def)

lemma member_texts: "(\<lambda>(k, s). quote_str k @ CHR '':'' # s) = member_text []"
    "(\<lambda>(k, s). quote_str k @ CHR '':'' # CHR '' '' # s) = member_text '' ''"
  by (auto simp: member_text_def)

lemma blanks: "list_all json_space []" "list_all json_space '' ''" "list_all json_space (indent_by n)"
  by (auto simp: indent_by_def json_space_def list_all_iff)

lemma sort_key_Nil: "sort_key f xs = [] \<longleftrightarrow> xs = []"
  by (metis length_0_conv length_sort)

lemma spells_float: "storable T (JFloat f) \<Longrightarrow> spells (JFloat f) (json_float T f)"
  by (cases f) (simp_all add: spells_literal)

lemmas spells_scalar = spells_literal(1-3) spells_float spells_string spells_int

lemma spells_dumps: "storable T v \<Longrightarrow> spells (read_back T v) (json_dumps T v)"
proof (induction T v rule: read_back.induct)
  case (2 T xs)
  then have "list_all2 spells (map (read_back T) xs) (map (json_dumps T) xs)"
    by (auto simp: list_all2_map1 list_all2_map2 list_all_iff intro!: list.rel_refl_strong)
  from spells_list [OF this blanks(1) blanks(1) blanks(1)] show ?case by simp
next
  case (3 T d)
  then have "list_all2 (\<lambda>(k, v) (k', t). k' = k \<and> spells v t) (sort_key fst (map (\<lambda>(k, v). (k, read_back T v)) d))
      (sort_key fst (map (\<lambda>(k, v). (k, json_dumps T v)) d))"
    by (intro members_sorted) (auto simp: list_all_iff)
  from spells_object [OF this distinct_sorted_keys blanks(1) blanks(1) blanks(1) blanks(1)] 3(2) show ?case
    by (simp add: member_texts)
qed (simp_all add: spells_scalar)

lemma spells_spaced: "storable T v \<Longrightarrow> spells (read_back T v) (json_spaced T True v)"
proof (induction T v rule: read_back.induct)
  case (2 T xs)
  then have "list_all2 spells (map (read_back T) xs) (map (json_spaced T True) xs)"
    by (auto simp: list_all2_map1 list_all2_map2 list_all_iff intro!: list.rel_refl_strong)
  from spells_list [OF this blanks(2) blanks(1) blanks(1)] show ?case by simp
next
  case (3 T d)
  then have "list_all2 (\<lambda>(k, v) (k', t). k' = k \<and> spells v t) (sort_key fst (map (\<lambda>(k, v). (k, read_back T v)) d))
      (sort_key fst (map (\<lambda>(k, v). (k, json_spaced T True v)) d))"
    by (intro members_sorted) (auto simp: list_all_iff)
  from spells_object [OF this distinct_sorted_keys blanks(2) blanks(1) blanks(2) blanks(1)] 3(2) show ?case
    by (simp add: member_texts)
qed (simp_all add: spells_scalar)

lemma spells_pretty: "storable T v \<Longrightarrow> spells (read_back T v) (json_pretty T n v)"
proof (induction T v arbitrary: n rule: read_back.induct)
  case (2 T xs)
  then have "list_all2 spells (map (read_back T) xs) (map (json_pretty T (Suc n)) xs)"
    by (auto simp: list_all2_map1 list_all2_map2 list_all_iff intro!: list.rel_refl_strong)
  from spells_list [OF this blanks(3) blanks(3) blanks(3), of "Suc n" n "Suc n"] spells_list [OF this blanks(1) blanks(1) blanks(1)] show ?case
    by (cases "xs = []") simp_all
next
  case (3 T d)
  then have "list_all2 (\<lambda>(k, v) (k', t). k' = k \<and> spells v t) (sort_key fst (map (\<lambda>(k, v). (k, read_back T v)) d))
      (sort_key fst (map (\<lambda>(k, v). (k, json_pretty T (Suc n) v)) d))"
    by (intro members_sorted) (auto simp: list_all_iff)
  from spells_object [OF this distinct_sorted_keys blanks(3) blanks(3) blanks(2) blanks(3), of "Suc n" n "Suc n"]
    spells_object [OF this distinct_sorted_keys blanks(1) blanks(1) blanks(1) blanks(1)] 3(2) show ?case
    by (cases "d = []") (simp_all add: member_texts sort_key_Nil)
qed (simp_all add: spells_scalar)

lemma loads_dumps: "storable T v \<Longrightarrow> json_loads (json_dumps T v) = Some (read_back T v)"
  using spells_loads [OF spells_dumps blanks(1)] by simp

lemma loads_spaced: "storable T v \<Longrightarrow> json_loads (json_spaced T True v) = Some (read_back T v)"
  using spells_loads [OF spells_spaced blanks(1)] by simp

lemma loads_stable: "storable T v \<Longrightarrow> json_loads (stable_json_dumps T v) = Some (read_back T v)"
  unfolding stable_json_dumps_def by (rule spells_loads [OF spells_pretty]) (simp_all add: json_space_def)

section \<open>Files\<close>

definition some_forms :: text_forms where
  "some_forms = \<lparr>float_repr = (\<lambda>x. ''0.0''), iso_text = int_str, of_iso_text = parse_int\<rparr>"


lemma reads_written:
  assumes "storable T (JObj payload)" and "read_file fs (names fs) path = Some (stable_json_dumps T (JObj payload))"
  shows "read_json_object decode_message fs path = Inr (sort_key fst (map (\<lambda>(k, v). (k, read_back T v)) payload))"
  using loads_stable [OF assms(1)] assms(2) by (simp add: read_json_object_def)

text \<open>C20: A JSON object that was written durably is read back with its keys sorted and its values as they were, timestamps as
  their texts, whatever writes, failures and power losses came before the write, and also if the power fails
  after it.\<close>

theorem written_json_is_read_back:
  assumes "file_history path V fs" and "storable T (JObj payload)"
    and "durable_write_json T F path payload fs = (Inr (), fs')" and "fs'' = fs' \<or> power_loss fs' fs''"
  shows "read_json_object decode_message fs'' path = Inr (sort_key fst (map (\<lambda>(k, v). (k, read_back T v)) payload))"
proof -
  have "file_history path {Some (stable_json_dumps T (JObj payload))} fs'"
    using assms(1,3) unfolding durable_write_json_def by (rule file_history.write_returned)
  then have "file_history path {Some (stable_json_dumps T (JObj payload))} fs''"
    using assms(4) by (auto intro: file_history.blackout)
  from holds_reads [OF history_holds [OF this]] show ?thesis by (intro reads_written [OF assms(2)]) simp
qed

theorem written_json_is_read_back_witness:
  "\<exists>fs. durable_write_json some_forms full_disk ''f'' [(''b'', JList [JInt (- 7), JStr ''x''])  , (''a'', JNull)] empty_disk = (Inr (), fs) \<and>
     read_json_object (\<lambda>s. []) fs ''f'' = Inr [(''a'', JNull), (''b'', JList [JInt (- 7), JStr ''x''])]"
proof -
  let ?d = "[(''b'', JList [JInt (- 7), JStr ''x'']), (''a'', JNull)]"
  obtain fs where w: "durable_write_json some_forms full_disk ''f'' ?d empty_disk = (Inr (), fs)"
    by (simp add: durable_write_json_def file_call_defs bind_def full_disk_def empty_disk_def tmp_path_def)
  have "settled_file ''f'' empty_disk" by (simp add: settled_file_def empty_disk_def)
  from written_json_is_read_back [OF file_history.settled [OF this] _ w, of fs "\<lambda>s. []"]
  have "read_json_object (\<lambda>s. []) fs ''f'' = Inr (sort_key fst ?d)" by simp
  moreover have "sort_key fst ?d = [(''a'', JNull), (''b'', JList [JInt (- 7), JStr ''x''])]" by code_simp
  ultimately show ?thesis using w by auto
qed

text \<open>The store of the mock target and the mirror, as long as the power stays.\<close>

lemma stored_json_is_read_back:
  assumes "visible path V fs" and "storable T (JObj payload)" and "atomic_write T F path payload fs = (Inr (), fs')"
  shows "read_json_object decode_message fs' path = Inr (sort_key fst (map (\<lambda>(k, v). (k, read_back T v)) payload))"
proof -
  have "visible path {Some (stable_json_dumps T (JObj payload))} fs'"
    using triple_InrD [OF replace_by_rename assms(1)] assms(3) unfolding atomic_write_def by blast
  then show ?thesis by (intro reads_written [OF assms(2)]) (simp add: visible_def)
qed

end
