(* ===== verification/Sample_Demo.thy ===== *)
theory Sample_Demo
  imports Sample_Facts Target_Demo
begin

text \<open>
  A logged run with one write, replayed by two processes: the first crashes after the write's
  transaction, whose response was lost, and the second resumes it. The properties of the sample agent are
  instantiated on it.
\<close>

definition sample_demo_call :: dict where
  "sample_demo_call = [(''kind'', JStr ''tool_call''), (''tool_call'', JObj [
     (''arguments'', JObj [(''action_name'', JStr ''set_value''), (''payload'', JObj [(''key'', JStr ''k''), (''value'', JInt 5)])]),
     (''name'', JStr ''apply-action''), (''operation_type'', JStr ''WRITE'')])]"

definition sample_demo_log :: dict where
  "sample_demo_log = [
     (''messages'', JList [JObj [(''content'', JStr ''buy''), (''role'', JStr ''user'')],
       JObj [(''content'', JStr ''bought''), (''role'', JStr ''assistant'')]]),
     (''planner_state'', JObj [(''items'', JList [JObj [
       (''llm_output'', JStr (json_dumps demo_forms (JObj sample_demo_call))), (''title'', JStr ''buy'')]])])]"

definition sample_demo_files :: soft_log_files where
  "sample_demo_files = \<lparr>log_candidates = [], log_text = (\<lambda>p. Inr (json_dumps demo_forms (JObj sample_demo_log))),
     log_decode_error = (\<lambda>s. ''not JSON'')\<rparr>"

definition sample_demo_env :: sample_env where
  "sample_demo_env = \<lparr>se_runtime = demo_runtime, se_target = demo_target_restarted, se_ambiguous_write = True, se_lost_write = False,
     se_force_reset = False, se_reset_target = False, se_crash_phase = ''after_tool_transaction'', se_on_llm_response = None,
     se_append_error = (\<lambda>n. None), se_store_path = ''store.json'', se_log_path = ''log.json''\<rparr>"

definition sample_demo_world :: "replay_side beside world" where
  "sample_demo_world = \<lparr>db = empty_db, conn_open = False, ticks = 0, uuids = 0,
     outside = (\<lparr>rs_target = demo_store, rs_emitted = False, rs_crash = None, rs_agent = scripted_agent_init [] True ''DONE'', rs_log = []\<rparr>, [])\<rparr>"

definition sample_demo_crash :: crash_simulator where
  "sample_demo_crash = \<lparr>crash_steps = {0}, crash_once = True, triggered_steps = {}\<rparr>"

definition sample_demo_script :: "turn_response list" where
  "sample_demo_script = (case build_script_from_soft_log demo_forms (\<lambda>s. ''not JSON'') sample_demo_log of Inr s \<Rightarrow> s | Inl e \<Rightarrow> [])"

lemma sample_demo_load: "load_soft_log_payload sample_demo_files (Some ''log.json'') = Inr (JObj sample_demo_log)"
  by code_simp

lemma sample_demo_script_ok:
  "build_script_from_soft_log demo_forms (\<lambda>s. ''not JSON'') sample_demo_log = Inr sample_demo_script"
  by code_simp

lemma sample_demo_applies: "length (filter applies sample_demo_script) = 1" "writes_only sample_demo_script"
  by code_simp+

lemma sample_demo_plan: "build_plan_items_from_soft_log demo_forms sample_demo_log = Inr [[(''title'', JStr ''buy'')]]"
  by code_simp

lemma sample_demo_world_reachable: "system_reachable demo_runtime sample_demo_world"
  unfolding system_reachable_def by (rule exI [of _ sample_demo_world]) (simp add: sample_demo_world_def)

theorem sample_run_stays_reachable_witness:
  "system_reachable demo_runtime (snd (run_sample_agent sample_demo_env sample_demo_files (Some ''log.json'') ''r1'' sample_demo_world))"
proof -
  have "canonical ''r1''" by code_simp
  moreover have "se_runtime sample_demo_env = demo_runtime" by (simp add: sample_demo_env_def)
  moreover have "hex_digest (sha256_hex demo_runtime)" by (simp add: demo_runtime_def demo_hex_digest)
  ultimately show ?thesis
    using sample_run_stays_reachable [of "''r1''" sample_demo_env sample_demo_world sample_demo_files "Some ''log.json''",
        OF _ _ _ surjective_pairing] sample_demo_world_reachable by simp
qed

abbreviation sample_demo_processes :: "(sample_env \<times> crash_simulator option) list" where
  "sample_demo_processes \<equiv> [(sample_demo_env, Some sample_demo_crash), (sample_demo_env, None)]"

theorem crashed_runs_commit_each_write_once_witness:
  "case target_file (store_of (sample_runs sample_demo_files (Some ''log.json'') ''r1'' sample_demo_processes sample_demo_world)) of
     None \<Rightarrow> True | Some f \<Rightarrow> \<exists>data. ensure_shape f = Inr data \<and> stat_of data ''total_commits'' \<le> 1"
proof -
  have script: "build_script_from_soft_log demo_forms (log_decode_error sample_demo_files) sample_demo_log = Inr sample_demo_script"
    using sample_demo_script_ok by (simp add: sample_demo_files_def)
  have env: "\<forall>(E, c)\<in>set sample_demo_processes. harmless E \<and> forms (se_runtime E) = demo_forms \<and> sha256_hex (se_runtime E) = demo_hex"
    by (simp add: sample_demo_env_def harmless_def demo_target_restarted_def demo_runtime_def)
  have fresh: "target_file (store_of sample_demo_world) = None" by (simp add: sample_demo_world_def demo_store_def)
  show ?thesis
    using crashed_runs_commit_each_write_once [OF sample_demo_load script sample_demo_plan sample_demo_applies(2) env fresh, of "''r1''"]
    unfolding sample_demo_applies(1) of_nat_1 .
qed

end
