(* ===== verification/Sweep_Facts.thy ===== *)
theory Sweep_Facts
  imports Crash_Sweep Json_Texts Sample_Demo
begin

text \<open>
  What the crash sweep can count: its soft log is one write, so that no scenario finds a second commit,
  whatever phase the first process crashes in and whatever is injected.
\<close>

section \<open>The synthetic log\<close>

lemma synthetic_storable: "storable T (JObj synthetic_call)" "storable T (JObj (synthetic_soft_log T))"
  by (simp_all add: synthetic_call_def synthetic_soft_log_def)

definition synthetic_call_read :: dict where
  "synthetic_call_read = (case read_back some_forms (JObj synthetic_call) of JObj d \<Rightarrow> d | _ \<Rightarrow> [])"

lemma synthetic_call_loads: "json_loads (json_spaced T True (JObj synthetic_call)) = Some (JObj synthetic_call_read)"
  using loads_spaced [OF synthetic_storable(1)] by (simp add: synthetic_call_read_def synthetic_call_def)

definition synthetic_script_call :: scripted_call where
  "synthetic_script_call = \<lparr>sc_name = ''apply-action'', sc_arguments = [(''action_name'', JStr ''set_value''), (''payload'', JObj [
      (''key'', JStr ''orders/RA512''), (''value'', JObj [(''flight_no'', JStr ''RA512''), (''status'', JStr ''booked'')])])],
     sc_operation_type = WRITE, sc_rationale = JStr ''Book the selected flight.''\<rparr>"

lemma synthetic_turn:
  assumes "json_loads raw = Some (JObj synthetic_call_read)"
  shows "\<exists>turn. script_turn T dm raw = Inr turn \<and> tr_tool_call turn = Some synthetic_script_call"
proof -
  have read: "synthetic_call_read = [(''kind'', JStr ''tool_call''), (''tool_call'', JObj [
     (''arguments'', JObj (sc_arguments synthetic_script_call)), (''name'', JStr ''apply-action''), (''operation_type'', JStr ''WRITE''),
     (''rationale'', JStr ''Book the selected flight.'')])]"
    by code_simp
  have op: "operation_type_of (upper ''WRITE'') = Inr WRITE" by code_simp
  show ?thesis
    unfolding script_turn_def loads_or_error_def assms read
    by (simp add: op [simplified] parse_script_response_def dict_get_or_def dict_get_def py_dict_def
      from_tool_call_def turn_response_init_def synthetic_script_call_def)
qed

text \<open>The log as it is read, around the text of the call.\<close>

definition synthetic_log_read :: "string \<Rightarrow> dict" where
  "synthetic_log_read raw = [
     (''messages'', JList [
        JObj [(''content'', JStr ''Please buy me a ticket from LA to NY for 2026-05-14 09:00 AM PT.''), (''role'', JStr ''user'')],
        JObj [(''content'', JStr ''Booked RA512.''),
          (''metadata'', JObj [(''model_name'', JStr ''synthetic-crash-e2e''), (''stop_reason'', JStr ''completed'')]), (''role'', JStr ''assistant'')]]),
     (''planner_state'', JObj [(''items'', JList [JObj [
        (''llm_output'', JStr raw), (''plan_item_id'', JStr ''step_0''), (''title'', JStr ''Book the selected flight'')]])])]"

lemma sort_keys:
  "sort_key fst [(''role'', a), (''content'', b :: json)] = [(''content'', b), (''role'', a)]"
  "sort_key fst [(''stop_reason'', a), (''model_name'', b :: json)] = [(''model_name'', b), (''stop_reason'', a)]"
  "sort_key fst [(''role'', a), (''content'', b :: json), (''metadata'', c)] = [(''content'', b), (''metadata'', c), (''role'', a)]"
  "sort_key fst [(''plan_item_id'', a), (''title'', b :: json), (''llm_output'', c)] = [(''llm_output'', c), (''plan_item_id'', a), (''title'', b)]"
  "sort_key fst [(''messages'', a), (''planner_state'', b :: json)] = [(''messages'', a), (''planner_state'', b)]"
  "sort_key fst [(k :: string, d :: json)] = [(k, d)]"
  by (simp_all add: insort_key.simps)

lemma synthetic_log_loads:
  "load_soft_log_payload (synthetic_files T dm) (Some path) = Inr (JObj (synthetic_log_read (json_spaced T True (JObj synthetic_call))))"
proof -
  have "read_back T (JObj (synthetic_soft_log T)) = JObj (synthetic_log_read (json_spaced T True (JObj synthetic_call)))"
    by (simp add: synthetic_soft_log_def synthetic_log_read_def sort_keys del: json_spaced.simps sort_key_simps)
  then show ?thesis
    using loads_stable [OF synthetic_storable(2), of T]
    by (simp add: load_soft_log_payload_def resolve_soft_log_path_def synthetic_files_def loads_or_error_def)
qed

lemma strip_nonblank_head: "\<not> is_space c \<Longrightarrow> strip (c # s) \<noteq> []"
  by (simp add: strip_def lstrip_def rstrip_def)

lemma synthetic_call_text: "strip (json_spaced T True (JObj synthetic_call)) \<noteq> []"
proof -
  have "\<exists>rest. json_spaced T True (JObj synthetic_call) = CHR ''{'' # rest" by (simp add: synthetic_call_def)
  moreover have "\<not> is_space CHR ''{''" by code_simp
  ultimately show ?thesis using strip_nonblank_head by metis
qed

lemma synthetic_plan:
  "soft_plan (synthetic_log_read raw) = Inr (JList [JObj [
     (''llm_output'', JStr raw), (''plan_item_id'', JStr ''step_0''), (''title'', JStr ''Book the selected flight'')]])"
  by (simp add: soft_plan_def synthetic_log_read_def dict_get_def dict_get_or_def)

lemma synthetic_answer: "\<exists>a. extract_final_answer T (synthetic_log_read raw) = Inr (Some a)"
proof -
  have "non_blank (JStr ''Booked RA512.'')" by code_simp
  then show ?thesis
    by (simp add: extract_final_answer_def soft_messages_def synthetic_log_read_def dict_get_def answer_of_def List.map_filter_def Let_def obj_of_def)
qed

lemma final_turn_reads: "\<exists>final. from_final_answer a s m out = Inr final \<and> tr_tool_call final = None"
  by (simp add: from_final_answer_def turn_response_init_def)

lemma synthetic_script:
  assumes "strip raw \<noteq> []" and "json_loads raw = Some (JObj synthetic_call_read)"
  shows "\<exists>script. build_script_from_soft_log T dm (synthetic_log_read raw) = Inr script \<and> length (filter applies script) = 1 \<and> writes_only script"
proof -
  obtain turn where turn: "script_turn T dm raw = Inr turn" "tr_tool_call turn = Some synthetic_script_call"
    using synthetic_turn [OF assms(2)] by blast
  obtain a where a: "extract_final_answer T (synthetic_log_read raw) = Inr (Some a)" using synthetic_answer by blast
  have outputs: "llm_outputs [JObj [(''llm_output'', JStr raw), k, l]] = [raw]" for k l
    using assms(1) by (simp add: llm_outputs_def objects_def List.map_filter_def dict_get_def non_blank_def text_of_def)
  obtain final where "from_final_answer (sa_answer a) (sa_stop_reason a) (sa_model_name a)
      (Some (json_spaced T True (JObj [(''kind'', JStr ''final''),
        (''final'', JObj [(''answer'', JStr (sa_answer a)), (''stop_reason'', JStr (sa_stop_reason a))])]))) = Inr final"
      "tr_tool_call final = None"
    using final_turn_reads by blast
  then have "build_script_from_soft_log T dm (synthetic_log_read raw) = Inr [turn, final]"
    unfolding build_script_from_soft_log_def synthetic_plan
    by (simp add: outputs turn(1) a del: json_spaced.simps)
  then show ?thesis
    using turn(2) \<open>tr_tool_call final = None\<close> by (simp add: applies_def writes_only_def synthetic_script_call_def)
qed

lemma synthetic_items: "\<exists>item. build_plan_items_from_soft_log T (synthetic_log_read raw) = Inr [item]"
  by (simp add: build_plan_items_from_soft_log_def synthetic_plan py_iter_def objects_def List.map_filter_def)

section \<open>What a scenario finds\<close>

text \<open>The store while a sweep runs: at most the one write of the log is committed.\<close>

definition sweep_ids :: "runtime \<Rightarrow> (string \<Rightarrow> string) \<Rightarrow> string \<Rightarrow> string set" where
  "sweep_ids R dm run_id = set (planned_ids R run_id 1 (case build_script_from_soft_log (forms R) dm
     (synthetic_log_read (json_spaced (forms R) True (JObj synthetic_call))) of Inr script \<Rightarrow> script | Inl e \<Rightarrow> []))"

abbreviation sweep_store :: "runtime \<Rightarrow> (string \<Rightarrow> string) \<Rightarrow> string \<Rightarrow> replay_side beside world \<Rightarrow> bool" where
  "sweep_store R dm run_id w \<equiv> only_commits (sweep_ids R dm run_id) (store_of w)"

lemma sweep_agent:
  assumes "harmless E"
  shows "card (sweep_ids (se_runtime E) dm run_id) \<le> 1 \<and> maintains (sweep_store (se_runtime E) dm run_id) (\<lambda>_. True)
    (run_sample_agent E (synthetic_files (forms (se_runtime E)) dm) (Some path) run_id)"
proof -
  let ?T = "forms (se_runtime E)" let ?F = "synthetic_files ?T dm"
  define raw where "raw = json_spaced ?T True (JObj synthetic_call)"
  obtain script where script: "build_script_from_soft_log ?T dm (synthetic_log_read raw) = Inr script"
      "length (filter applies script) = 1" "writes_only script"
    using synthetic_script [OF synthetic_call_text synthetic_call_loads] unfolding raw_def by blast
  obtain item where item: "build_plan_items_from_soft_log ?T (synthetic_log_read raw) = Inr [item]" using synthetic_items by blast
  have dm: "log_decode_error ?F = dm" by (simp add: synthetic_files_def)
  have ids: "sweep_ids (se_runtime E) dm run_id = set (planned_ids (se_runtime E) run_id 1 script)"
    unfolding sweep_ids_def raw_def [symmetric] script(1) by simp
  have "maintains (sweep_store (se_runtime E) dm run_id) (\<lambda>_. True) (run_sample_agent E ?F (Some path) run_id)"
    using sample_agent_commits [OF synthetic_log_loads [of ?T dm path, folded raw_def] _ item script(3) assms, of run_id] script(1)
    unfolding ids dm by simp
  then show ?thesis using card_planned_ids [of "se_runtime E" run_id 1 script] script(2) ids by simp
qed

lemma child_harmless: "target_mode (se_target E) = IDEMPOTENT \<Longrightarrow> harmless (child_env E a)"
  by (auto simp: harmless_def child_env_def keeps_aside_def)

lemma child_forms: "forms (se_runtime (child_env E a)) = forms (se_runtime E)"
  by (simp add: child_env_def)

lemma child_ids: "sweep_ids (se_runtime (child_env E a)) dm run_id = sweep_ids (se_runtime E) dm run_id"
  unfolding sweep_ids_def child_forms by (rule arg_cong [where f = set], rule planned_ids_same) (simp_all add: child_env_def)

lemma reports_read: "confined same_outside (build_evaluation_report run_id b)"
  unfolding build_evaluation_report_def by (intro effect log_reads(8) [THEN confined_no_db(1)])

lemma evidence_read: "confined same_outside (collect_run_evidence R run_id)"
  unfolding collect_run_evidence_def Let_def by (intro effect reports_read agent_reads [THEN confined_no_db(1)])

lemma store_unmoved: "confined same_outside m \<Longrightarrow> maintains (\<lambda>w. P (store_of w)) (\<lambda>_. True) m"
  by (rule maintains_confined [where Q = same_outside]) (auto simp: same_outside_def)

lemma child_commits:
  assumes "target_mode (se_target E) = IDEMPOTENT"
  shows "maintains (sweep_store (se_runtime E) dm (child_run_id a)) (\<lambda>_. True)
    (run_child died E (synthetic_files (forms (se_runtime E)) dm) path a)" (is "maintains ?I _ (run_child died E ?F path a)")
proof (rule maintainsI)
  fix w r w' assume i: "?I w" and run: "run_child died E ?F path a w = (r, w')"
  define start where "start = w\<lparr>outside := ((fst (outside w))\<lparr>rs_crash := child_simulator a\<rparr>, snd (outside w))\<rparr>"
  obtain r1 w1 where w1: "run_sample_agent (child_env E a) ?F (Some path) (child_run_id a) start = (r1, w1)" by fastforce
  have "?I start" using i by (simp add: start_def)
  have "maintains ?I (\<lambda>_. True) (run_sample_agent (child_env E a) ?F (Some path) (child_run_id a))"
    using sweep_agent [of "child_env E a" dm "child_run_id a" path] child_harmless [OF assms] by (simp add: child_forms child_ids)
  then have "?I w1" using \<open>?I start\<close> w1 by (rule maintainsD)
  moreover have "w' = w1 \<or> w' = snd (build_evaluation_report (child_run_id a) True w1)"
    using run w1 unfolding run_child_def start_def Let_def by (auto split: sum.splits prod.splits if_splits)
  ultimately show "?I w'"
    using maintainsD [OF store_unmoved [OF reports_read] _ surjective_pairing] by blast
qed simp

lemma commits_read:
  assumes "card (sweep_ids R dm run_id) \<le> 1"
  shows "maintains (sweep_store R dm run_id) (\<lambda>c. (case c of Some n \<Rightarrow> n | None \<Rightarrow> 0) \<le> 1) read_target_commits"
proof (rule maintainsI)
  fix w c w' assume i: "sweep_store R dm run_id w" and run: "read_target_commits w = (Inr c, w')"
  show "(case c of Some n \<Rightarrow> n | None \<Rightarrow> 0) \<le> 1"
  proof (cases "target_file (store_of w)")
    case None
    then show ?thesis using run by (simp add: read_target_commits_def bind_def gets_def ret_def)
  next
    case (Some f)
    then obtain data where f: "f = JObj data" "shaped data" "commits_in (sweep_ids R dm run_id) data" using i by (auto simp: only_commits_def)
    then have total: "stat_of data ''total_commits'' \<le> 1"
      using commits_in_total [OF f(3)] assms by (force simp: sweep_ids_def)
    obtain n where n: "as_int (dict_get (obj_at data ''stats'') ''total_commits'') = Some n"
      using f(2) by (auto simp: shaped_def store_stats_def)
    obtain stats where stats: "dict_get data ''stats'' = JObj stats" using f(2) by (auto simp: shaped_def store_maps_def is_obj_iff)
    then have "obj_at data ''stats'' = stats" by (simp add: obj_at_def)
    then show ?thesis using run Some f(1) total n stats
      by (auto simp: read_target_commits_def bind_def gets_def ret_def lift_def stat_of_def py_int_def dict_get_or_def dict_get_def
        split: option.splits json.splits)
  qed
qed (auto simp: read_target_commits_def bind_def gets_def ret_def lift_def split: option.splits sum.splits)

lemma order_read: "maintains (\<lambda>w. P (store_of w)) (\<lambda>_. True) read_order_state"
  unfolding read_order_state_def stored_at_def
  by (rule maintains_then, simp add: maintains_def gets_def) (auto intro: upholds maintains_lift split: option.splits)

text \<open>What holds of the row of a scenario whose target obeys its contract.\<close>

definition no_duplicate :: "sweep_row \<Rightarrow> bool" where
  "no_duplicate row \<longleftrightarrow> row_duplicate_commits row = 0 \<and>
     (case row_commits_before_restart row of Some n \<Rightarrow> n | None \<Rightarrow> 0) \<le> expected_commits_per_run \<and>
     (case row_target_commits row of Some n \<Rightarrow> n | None \<Rightarrow> 0) \<le> expected_commits_per_run"

lemma scenario_rows:
  assumes "target_mode (se_target E) = IDEMPOTENT"
  shows "maintains (sweep_store (se_runtime E) dm (''crash-matrix-'' @ phase)) no_duplicate
    (run_sweep_scenario died E args dm wall phase step expected_commits_per_run)"
proof -
  let ?id = "''crash-matrix-'' @ phase"
  have child: "maintains (sweep_store (se_runtime E) dm ?id) (\<lambda>_. True)
      (run_child died E (synthetic_files (forms (se_runtime E)) dm) path (child_cmd args ?id b k p))" for path b k p
    using child_commits [OF assms, of dm "child_cmd args ?id b k p" died path] by (simp add: child_cmd_def)
  have few: "card (sweep_ids (se_runtime E) dm ?id) \<le> 1"
    using sweep_agent [of "child_env E a" dm ?id for a] child_harmless [OF assms] by (simp add: child_ids)
  show ?thesis
    unfolding run_sweep_scenario_def Let_def
    by (rule maintains_then [OF child] maintains_bind [OF commits_read [OF few]] maintains_then [OF order_read]
      maintains_then [OF store_unmoved [OF evidence_read]] maintains_ret)+
      (auto simp: no_duplicate_def expected_commits_per_run_def)
qed

text \<open>C18: A scenario of the crash sweep on a new directory never finds a duplicate: whatever the phase, the step and the
  injected failures, a target that is asked with idempotency keys has committed the write at most once before the
  restart and at most once after it, so that a row fails only for an exit code, a missing commit or a missing order.\<close>

theorem sweep_never_counts_a_duplicate:
  assumes "target_mode (se_target E) = IDEMPOTENT"
  shows "case fst (run_sweep_scenario died E args dm wall phase step expected_commits_per_run fresh_directory) of Inl e \<Rightarrow> True
    | Inr row \<Rightarrow> no_duplicate row"
proof -
  have "sweep_store (se_runtime E) dm (''crash-matrix-'' @ phase) fresh_directory" by (simp add: fresh_directory_def only_commits_def)
  then have "no_duplicate row"
    if "run_sweep_scenario died E args dm wall phase step expected_commits_per_run fresh_directory = (Inr row, w')" for row w'
    using that by (rule maintains_InrD [OF scenario_rows [OF assms]])
  then show ?thesis
    by (cases "run_sweep_scenario died E args dm wall phase step expected_commits_per_run fresh_directory") (simp split: sum.splits)
qed

theorem sweep_never_counts_a_duplicate_witness:
  "\<forall>phase. case fst (run_sweep_scenario (\<lambda>e. 1) sample_demo_env
      \<lparr>arg_crash_step = 0, arg_crash_phase = phase, arg_ambiguous_write = True, arg_lost_write = True\<rparr> (\<lambda>s. ''not JSON'') 0 phase 0
      expected_commits_per_run fresh_directory) of
     Inl e \<Rightarrow> True | Inr row \<Rightarrow> row_duplicate_commits row = 0"
proof
  fix phase
  have "target_mode (se_target sample_demo_env) = IDEMPOTENT" by (simp add: sample_demo_env_def demo_target_restarted_def)
  from sweep_never_counts_a_duplicate [OF this, of "\<lambda>e. 1"
      "\<lparr>arg_crash_step = 0, arg_crash_phase = phase, arg_ambiguous_write = True, arg_lost_write = True\<rparr>" "\<lambda>s. ''not JSON''" 0 phase 0]
  show "case fst (run_sweep_scenario (\<lambda>e. 1) sample_demo_env
      \<lparr>arg_crash_step = 0, arg_crash_phase = phase, arg_ambiguous_write = True, arg_lost_write = True\<rparr> (\<lambda>s. ''not JSON'') 0 phase 0
      expected_commits_per_run fresh_directory) of
     Inl e \<Rightarrow> True | Inr row \<Rightarrow> row_duplicate_commits row = 0"
    by (auto simp: no_duplicate_def split: sum.splits)
qed

end
