(* ===== verification/Live_Agent.thy ===== *)
theory Live_Agent
  imports Crash_Sweep Plan_Text
begin

text \<open>
  The first half of \<open>example/sample_agent_openrouter.py\<close>: the agent that asks models of a remote service, one after
  the other, the normalisation of what a model asks a tool for, and the adapter of the mock target. The network
  and the environment are parameters, as in the client of \<open>real_llm_api.py\<close>.
\<close>

section \<open>Texts\<close>

fun occurs_in :: "string \<Rightarrow> string \<Rightarrow> bool" where
  "occurs_in p [] = (p = [])"
| "occurs_in p (c # s) = (starts_with p (c # s) \<or> occurs_in p s)"

definition should_try_next_model :: "string \<Rightarrow> bool" where
  "should_try_next_model message = (let lowered = map lower_char message in
     list_ex (\<lambda>p. occurs_in p lowered) [''http error 404'', ''http error 408'', ''http error 429'', ''http error 500'', ''http error 502'',
       ''http error 503'', ''http error 504'', ''no endpoints found'', ''temporarily rate-limited''])"

definition is_json_mode_unsupported :: "string \<Rightarrow> bool" where
  "is_json_mode_unsupported message = (let lowered = map lower_char message in
     occurs_in ''json mode is not supported'' lowered \<or> occurs_in ''response_format'' lowered \<and> occurs_in ''not supported'' lowered)"

definition short_json :: "text_forms \<Rightarrow> json \<Rightarrow> string" where
  "short_json T v = (let rendered = json_spaced T True v in if length rendered \<le> 260 then rendered else take 257 rendered @ ''...'')"

definition openrouter_models :: "string list" where
  "openrouter_models = [''nvidia/nemotron-3-super-120b-a12b:free'', ''minimax/minimax-m2.5:free'', ''google/gemma-4-26b-a4b-it:free'',
     ''google/gemma-4-31b-it:free'']"

definition openrouter_models_from_env :: "(string \<Rightarrow> string option) \<Rightarrow> string list" where
  "openrouter_models_from_env env =
     (let raw = (case env ''OPENROUTER_MODELS'' of
          Some (c # s) \<Rightarrow> c # s
        | _ \<Rightarrow> (case env ''OPENROUTER_MODEL'' of Some s \<Rightarrow> s | None \<Rightarrow> [])) in
      if raw = [] then openrouter_models else filter (\<lambda>m. m \<noteq> []) (map strip (split_commas raw)))"

section \<open>The scenario\<close>

definition scenario_steps :: "dict \<Rightarrow> dict list res" where
  "scenario_steps scenario = (case dict_get_or scenario ''steps'' (JList []) of
     JList steps \<Rightarrow>
       if steps = [] then value_error (''scenario must contain a non-empty '' @ apostrophed ''steps'' @ '' list'')
       else if objects steps = [] then value_error ''scenario steps must be JSON objects''
       else Inr (objects steps)
   | _ \<Rightarrow> value_error (''scenario must contain a non-empty '' @ apostrophed ''steps'' @ '' list''))"

definition step_title :: "text_forms \<Rightarrow> dict \<Rightarrow> string" where
  "step_title T step = py_str T (if dict_get step ''kind'' = JStr ''tool_call''
     then first_truthy step [''rationale'', ''name''] (JStr ''tool call'') else first_truthy step [''answer''] (JStr ''final answer''))"

definition scenario_plan_source_text :: "text_forms \<Rightarrow> dict \<Rightarrow> string res" where
  "scenario_plan_source_text T scenario = rbind (scenario_steps scenario) (\<lambda>steps.
     Inr (join newline (map (\<lambda>(i, step). int_str (int i + 1) @ ''. '' @ step_title T step) (enumerate 0 steps))))"

definition scenario_plan_items :: "text_forms \<Rightarrow> dict \<Rightarrow> dict list res" where
  "scenario_plan_items T scenario = rbind (scenario_steps scenario) (\<lambda>steps.
     Inr (map (\<lambda>(i, step). (''title'', JStr (step_title T step)) #
       (if i = 0 then [] else [(''depends_on'', str_list [''step_'' @ int_str (int i - 1)])])) (enumerate 0 steps)))"

definition expected_write_step :: "text_forms \<Rightarrow> dict \<Rightarrow> dict option res" where
  "expected_write_step T scenario = rbind (scenario_steps scenario) (\<lambda>steps.
     Inr (find (\<lambda>step. dict_get step ''kind'' = JStr ''tool_call'' \<and>
       map upper_char (py_str T (dict_get_or step ''operation_type'' (JStr []))) = ''WRITE'') steps))"

definition expected_write_payload :: "text_forms \<Rightarrow> dict \<Rightarrow> (string option \<times> dict option) res" where
  "expected_write_payload T scenario = rbind (expected_write_step T scenario) (\<lambda>found. Inr (case found of
     None \<Rightarrow> (None, None)
   | Some step \<Rightarrow> (case dict_get step ''arguments'' of
       JObj arguments \<Rightarrow> (case dict_get arguments ''payload'' of
         JObj payload \<Rightarrow> (case dict_get payload ''key'' of JStr s \<Rightarrow> Some s | _ \<Rightarrow> None,
           case dict_get payload ''value'' of JObj d \<Rightarrow> Some d | _ \<Rightarrow> None)
       | _ \<Rightarrow> (None, None))
     | _ \<Rightarrow> (None, None))))"

definition resolve_execution_id :: "scripted_call \<Rightarrow> int \<Rightarrow> string \<Rightarrow> string" where
  "resolve_execution_id tool_call step_index run_id = (case dict_get (sc_arguments tool_call) ''execution_id'' of
     JStr s \<Rightarrow> if strip s = [] then run_id @ ''-openrouter-exec-'' @ int_str step_index
       else run_id @ ''-'' @ map (\<lambda>c. if c = CHR ''/'' then CHR ''-'' else c) (strip s)
   | _ \<Rightarrow> run_id @ ''-openrouter-exec-'' @ int_str step_index)"

section \<open>What a model asks of a tool\<close>

definition copy_str :: "dict \<Rightarrow> string \<Rightarrow> dict \<Rightarrow> dict" where
  "copy_str arguments key payload = (case dict_get arguments key of JStr s \<Rightarrow> AList.update key (JStr s) payload | _ \<Rightarrow> payload)"

definition keyed_as :: "dict \<Rightarrow> string \<Rightarrow> string \<Rightarrow> dict \<Rightarrow> dict" where
  "keyed_as arguments key folder payload =
     (case dict_get arguments key of JStr s \<Rightarrow> AList.update ''key'' (JStr (folder @ s)) payload | _ \<Rightarrow> payload)"

abbreviation holds_key :: "dict \<Rightarrow> string \<Rightarrow> bool" where
  "holds_key d k \<equiv> map_of d k \<noteq> None"

definition query_by_payload :: "dict \<Rightarrow> string" where
  "query_by_payload payload = (if holds_key payload ''key'' then ''get_value'' else if holds_key payload ''prefix'' then ''list_keys'' else ''dump_state'')"

definition normalize_query_state_arguments :: "text_forms \<Rightarrow> dict \<Rightarrow> string \<times> dict" where
  "normalize_query_state_arguments T arguments =
     (let raw_text = strip (py_str T (dict_get_or arguments ''query_name'' (JStr [])));
          payload = obj_of (dict_get arguments ''payload'');
          payload = (if payload = [] then keyed_as arguments ''flight_no'' ''flights/'' (keyed_as arguments ''order_id'' ''orders/''
            (copy_str arguments ''prefix'' (copy_str arguments ''key'' payload))) else payload);
          by_path = (CHR ''/'' \<in> set raw_text \<and> \<not> holds_key payload ''key'' \<and> \<not> holds_key payload ''prefix'');
          payload = (if by_path then AList.update ''key'' (JStr raw_text) payload else payload);
          raw_query_name = (if by_path then ''get_value'' else map lower_char raw_text) in
      if raw_query_name \<in> {''read'', ''get'', ''lookup'', ''fetch''} then (query_by_payload payload, payload)
      else if raw_query_name \<in> {''list'', ''list_values'', ''list_state'', ''list_flights'', ''search_flights'', ''available_flights''}
        then (''list_keys'', dict_setdefault ''prefix'' (JStr ''flights/'') payload)
      else if raw_query_name \<notin> {''get_value'', ''list_keys'', ''dump_state''} then (query_by_payload payload, payload)
      else (raw_query_name, payload))"

definition normalize_apply_action_arguments :: "text_forms \<Rightarrow> dict \<Rightarrow> string \<Rightarrow> string \<times> dict \<times> string" where
  "normalize_apply_action_arguments T arguments fallback_execution_id =
     (let raw_action_name = map lower_char (strip (py_str T (dict_get_or arguments ''action_name'' (JStr []))));
          payload = obj_of (dict_get arguments ''payload'');
          payload = (if payload = [] then copy_str arguments ''flight_no'' (copy_str arguments ''order_id''
            ((if holds_key arguments ''value'' then AList.update ''value'' (dict_get arguments ''value'') else (\<lambda>p. p))
            (copy_str arguments ''key'' payload))) else payload);
          execution_id = (if non_blank (dict_get arguments ''execution_id'') then text_of (dict_get arguments ''execution_id'') else fallback_execution_id);
          action_name = (if raw_action_name \<in> {''set_value'', ''delete_value'', ''increment_value''} then raw_action_name
            else if raw_action_name \<in> {''book_ticket'', ''purchase_ticket'', ''create_order'', ''place_order'', ''book_flight'', ''reserve_flight'',
              ''ticket_order''} then ''set_value''
            else if raw_action_name \<in> {''write'', ''set'', ''update'', ''store''} then ''set_value''
            else if raw_action_name \<in> {''delete'', ''remove''} then ''delete_value''
            else if raw_action_name \<in> {''increment'', ''add''} then ''increment_value''
            else if holds_key payload ''value'' then ''set_value''
            else if holds_key payload ''delta'' then ''increment_value'' else ''set_value'') in
      (action_name, payload, execution_id))"

definition is_number :: "json \<Rightarrow> bool" where
  "is_number v \<longleftrightarrow> (case v of JInt i \<Rightarrow> True | JBool b \<Rightarrow> True | JFloat f \<Rightarrow> True | _ \<Rightarrow> False)"

definition validate_apply_action_payload :: "string \<Rightarrow> dict \<Rightarrow> dict res" where
  "validate_apply_action_payload action_name payload =
     (if \<not> non_blank (dict_get payload ''key'')
        then value_error (''apply-action '' @ action_name @ '' requires payload.key to be a non-empty string'')
      else if action_name = ''set_value'' then
        (if holds_key payload ''value'' then Inr payload
         else value_error ''apply-action set_value requires payload.value; the adapter no longer invents one'')
      else if action_name = ''increment_value'' then
        (if is_number (dict_get_or payload ''delta'' (JInt 1)) then Inr payload
         else value_error ''apply-action increment_value requires payload.delta to be numeric when provided'')
      else if action_name = ''delete_value'' then Inr payload
      else value_error (''unsupported apply-action name: '' @ action_name))"

section \<open>The answer of a model\<close>

text \<open>The kind, if it is not said, is told from what is there.\<close>

definition model_response_kind :: "dict \<Rightarrow> json" where
  "model_response_kind payload = (let kind = dict_get payload ''kind'' in
     if non_blank kind then kind
     else if is_obj (dict_get payload ''tool_call'') then JStr (decision_value TOOL_CALL)
     else if is_obj (dict_get payload ''final'') \<or> is_str (dict_get payload ''answer'') then JStr (decision_value FINAL)
     else kind)"

definition parse_model_tool_call :: "text_forms \<Rightarrow> dict \<Rightarrow> string \<Rightarrow> string \<Rightarrow> turn_response res" where
  "parse_model_tool_call T payload model_name raw_output = (case dict_get payload ''tool_call'' of
     JObj tool_call \<Rightarrow>
       let name = dict_get tool_call ''name''; arguments = dict_get tool_call ''arguments'';
           operation_type = map upper_char (py_str T (dict_get_or tool_call ''operation_type'' (JStr ''READ'')));
           rationale = dict_get tool_call ''rationale'' in
       if \<not> non_blank name then value_error ''tool_call.name must be a non-empty string''
       else if \<not> is_obj arguments then value_error ''tool_call.arguments must be a JSON object''
       else if operation_type \<notin> {''READ'', ''WRITE''} then value_error ''tool_call.operation_type must be READ or WRITE''
       else if rationale \<noteq> JNull \<and> \<not> is_str rationale then value_error ''tool_call.rationale must be a string when provided''
       else rbind (operation_type_of operation_type) (\<lambda>kind.
         from_tool_call (text_of name) (obj_of arguments) kind rationale model_name (Some raw_output))
   | _ \<Rightarrow> value_error (''tool_call response must include an object field named '' @ apostrophed ''tool_call''))"

definition parse_model_final :: "dict \<Rightarrow> string \<Rightarrow> string \<Rightarrow> turn_response res" where
  "parse_model_final payload model_name raw_output =
     (let final = (if dict_get payload ''final'' = JNull \<and> is_str (dict_get payload ''answer'')
          then JObj [(''answer'', dict_get payload ''answer''), (''stop_reason'', dict_get_or payload ''stop_reason'' (JStr ''completed''))]
          else dict_get payload ''final'') in
      case final of
        JObj d \<Rightarrow>
          let answer = dict_get d ''answer''; stop_reason = dict_get_or d ''stop_reason'' (JStr ''completed'') in
          if \<not> non_blank answer then value_error ''final.answer must be a non-empty string''
          else if \<not> non_blank stop_reason then value_error ''final.stop_reason must be a non-empty string''
          else from_final_answer (text_of answer) (text_of stop_reason) model_name (Some raw_output)
      | _ \<Rightarrow> value_error (''final response must include an object field named '' @ apostrophed ''final''))"

definition parse_model_response :: "text_forms \<Rightarrow> json \<Rightarrow> string \<Rightarrow> string \<Rightarrow> turn_response res" where
  "parse_model_response T payload model_name raw_output = (case payload of
     JObj d \<Rightarrow>
       if model_response_kind d = JStr (decision_value TOOL_CALL) then parse_model_tool_call T d model_name raw_output
       else if model_response_kind d = JStr (decision_value FINAL) then parse_model_final d model_name raw_output
       else value_error (''model response must set kind to '' @ apostrophed ''tool_call'' @ '' or '' @ apostrophed ''final'')
   | _ \<Rightarrow> no_get)"

section \<open>The messages to a model\<close>

definition build_available_tools :: "tool_definition list" where
  "build_available_tools = [
     \<lparr>td_name = ''query-state'',
      td_description = ''Read data from the mock target state store. Use query_name=list_keys with payload prefix to list records, '' @
        ''or query_name=get_value with payload key to fetch a single record.'',
      td_input_schema = [(''type'', JStr ''object''),
        (''properties'', JObj [(''query_name'', JObj [(''type'', JStr ''string'')]), (''payload'', JObj [(''type'', JStr ''object'')])]),
        (''required'', str_list [''query_name'', ''payload''])],
      td_side_effecting = False\<rparr>,
     \<lparr>td_name = ''apply-action'',
      td_description = ''Write data to the mock target state store. Use action_name=set_value with payload key and value to persist an order.'',
      td_input_schema = [(''type'', JStr ''object''),
        (''properties'', JObj [(''action_name'', JObj [(''type'', JStr ''string'')]), (''payload'', JObj [(''type'', JStr ''object'')]),
          (''execution_id'', JObj [(''type'', JStr ''string'')])]),
        (''required'', str_list [''action_name'', ''payload''])],
      td_side_effecting = True\<rparr>]"

abbreviation quoted_word :: "string \<Rightarrow> string" where
  "quoted_word s \<equiv> CHR 0x22 # s @ [CHR 0x22]"

definition build_system_prompt :: "text_forms \<Rightarrow> dict \<Rightarrow> string" where
  "build_system_prompt T scenario =
     ''You are a deterministic agent that must respond with exactly one JSON object.'' @ newline @
     ''Return either a tool call or a final answer using this schema:'' @ newline @
     ''{'' @ quoted_word ''kind'' @ '':'' @ quoted_word ''tool_call'' @ ''|'' @ quoted_word ''final'' @ '','' @
     quoted_word ''tool_call'' @ '':{'' @ quoted_word ''name'' @ '':str,'' @ quoted_word ''arguments'' @ '':object,'' @
     quoted_word ''operation_type'' @ '':'' @ quoted_word ''READ'' @ ''|'' @ quoted_word ''WRITE'' @ '','' @ quoted_word ''rationale'' @ '':str},'' @
     quoted_word ''final'' @ '':{'' @ quoted_word ''answer'' @ '':str,'' @ quoted_word ''stop_reason'' @ '':str}}'' @ newline @
     ''Rules:'' @ newline @
     ''- Do not include markdown fences.'' @ newline @
     ''- Use only the provided tools.'' @ newline @
     ''- For tool_call, include name, arguments, operation_type, and rationale.'' @ newline @
     ''- For final, include answer and stop_reason.'' @ newline @
     ''- Base decisions on tool results already present in the conversation.'' @ newline @
     ''- For this ticket-booking scenario, first inspect available flights, then persist one order, then confirm the saved order.'' @ newline @
     ''- When referring to the booking after persistence, use the canonical order id from tool results instead of inventing an order/... key.'' @ newline @
     ''Scenario id: '' @ py_str T (dict_get_or scenario ''scenario_id'' (JStr ''unknown'')) @ ''.'' @ newline @
     ''Scenario description: '' @ py_str T (dict_get_or scenario ''description'' (JStr []))"

definition chat_entry :: "string \<Rightarrow> string \<Rightarrow> json" where
  "chat_entry role content = JObj [(''role'', JStr role), (''content'', JStr content)]"

definition openrouter_message :: "string \<Rightarrow> string \<Rightarrow> chat_message \<Rightarrow> json" where
  "openrouter_message request_block tools_block m =
     (if chat_role m = ''tool'' then
        chat_entry ''user'' (''Tool result from '' @ (case chat_name m of Some (c # s) \<Rightarrow> c # s | _ \<Rightarrow> ''tool'') @ '': '' @ chat_content m)
      else chat_entry (chat_role m) (if chat_role m = ''system''
        then chat_content m @ newline @ newline @ ''Current agent request envelope:'' @ newline @ request_block @ newline @ newline @
          ''Available tools:'' @ newline @ tools_block
        else chat_content m))"

definition build_openrouter_messages :: "text_forms \<Rightarrow> turn_request \<Rightarrow> dict \<Rightarrow> json list res" where
  "build_openrouter_messages T request scenario = rbind (scenario_steps scenario) (\<lambda>steps.
     let tools = JList (map (\<lambda>t. JObj (tool_to_dict t)) (turn_available_tools request));
         envelope = JObj [(''context'', JObj (turn_context_to_dict request)), (''available_tools'', tools),
           (''seed_state_preview'', dict_get_or scenario ''target_seed_state'' (JObj [])),
           (''expected_plan_shape'', JList (map (\<lambda>step. JObj [(''kind'', dict_get step ''kind''), (''name'', dict_get step ''name''),
             (''rationale'', dict_get step ''rationale'')]) steps))] in
     Inr (map (openrouter_message (json_spaced T True envelope) (json_spaced T True tools)) (turn_messages request)))"

end
