(* ===== verification/Live_Run.thy ===== *)
theory Live_Run
  imports Live_Agent
begin

text \<open>
  The second half of \<open>example/sample_agent_openrouter.py\<close>: the client that falls back from model to model, the
  adapter of the mock target, and the run of the agent through the facade, the transaction manager and the
  recovery coordinator. The lines for the console and the debug log are not modelled.
\<close>

section \<open>What is outside the database\<close>

record live_agent =
  la_api_key :: string
  la_model_names :: "string list"
  la_calls :: int
  la_last_model_name :: "string option"

record 'n live_side =
  lv_target :: target
  lv_emitted :: bool
  lv_crash :: "crash_simulator option"
  lv_agent :: live_agent
  lv_network :: 'n
  lv_log :: "dict list"

text \<open>
  The options of a run. The append of a line to the inference log may fail; its number gives the
  exception. A decoding error of \<open>json.loads\<close> has a message that depends on the text.
\<close>

record 'n live_env =
  le_runtime :: runtime
  le_target :: target_env
  le_network :: "'n network"
  le_decode_error :: "string \<Rightarrow> string"
  le_scenario :: dict
  le_api_key :: string
  le_models :: "string list"
  le_ambiguous_write :: bool
  le_force_reset :: bool
  le_reset_target :: bool
  le_crash_phase :: string
  le_append_error :: "nat \<Rightarrow> exn option"
  le_store_path :: string

type_synonym ('n, 'a) live_op = "('n live_side beside, 'a) op"

definition live_on_target :: "'a target_op \<Rightarrow> 'n live_side \<Rightarrow> 'a res \<times> 'n live_side" where
  "live_on_target f s = (case f (lv_target s) of (r, t) \<Rightarrow> (r, s\<lparr>lv_target := t\<rparr>))"

definition live_append :: "'n live_env \<Rightarrow> dict \<Rightarrow> ('n live_side, unit) act" where
  "live_append E payload s = (case le_append_error E (length (lv_log s)) of
     Some e \<Rightarrow> (Inl e, s) | None \<Rightarrow> (Inr (), s\<lparr>lv_log := lv_log s @ [payload]\<rparr>))"

definition live_crash_at :: "'n live_env \<Rightarrow> int \<Rightarrow> string \<Rightarrow> ('n, unit) live_op" where
  "live_crash_at E step_index current_phase = call_outside (\<lambda>s. case lv_crash s of
     None \<Rightarrow> (Inr (), s)
   | Some C \<Rightarrow> if le_crash_phase E \<noteq> current_phase then (Inr (), s)
       else (case maybe_crash step_index current_phase C of (r, C') \<Rightarrow> (r, s\<lparr>lv_crash := Some C'\<rparr>)))"

definition live_seed_store :: "target_env \<Rightarrow> json \<Rightarrow> unit target_op" where
  "live_seed_store T seed_state = target_save T
     [(''meta'', JObj [(''version'', JInt 3), (''created_at'', JStr ''2026-04-09T00:00:00+00:00''), (''updated_at'', JStr ''2026-04-09T00:00:00+00:00'')]),
      (''stats'', JObj [(''total_commits'', JInt 0), (''idempotent_commits'', JInt 0), (''rifl_commits'', JInt 0),
        (''distinguishable_commits'', JInt 0), (''counter_commits'', JInt 0)]),
      (''action_log'', JObj []), (''domain_state'', seed_state), (''idempotent_requests'', JObj []), (''rifl_requests'', JObj []),
      (''distinguishable_state'', JObj []), (''distinguishable_history'', JObj []), (''counters'', JObj [])]"

section \<open>The client\<close>

definition live_agent_init :: "string \<Rightarrow> string list \<Rightarrow> live_agent res" where
  "live_agent_init api_key model_names =
     (if api_key = [] \<or> api_key = ''PASTE_OPENROUTER_API_KEY_HERE'' then value_error ''Set OPENROUTER_API_KEY before running this example.''
      else let cleaned = filter (\<lambda>n. n \<noteq> []) (map strip model_names) in
        if cleaned = [] then value_error ''model_names must include at least one non-empty model''
        else Inr \<lparr>la_api_key = api_key, la_model_names = cleaned, la_calls = 0, la_last_model_name = None\<rparr>)"

definition live_reset :: "live_agent \<Rightarrow> live_agent" where
  "live_reset A = A\<lparr>la_calls := 0, la_last_model_name := None\<rparr>"

definition live_get_state :: "live_agent \<Rightarrow> dict" where
  "live_get_state A = [(''adapter'', JStr ''openrouter-chat-completions''), (''model_names'', str_list (la_model_names A)),
     (''last_model_name'', jopt JStr (la_last_model_name A)), (''calls'', JInt (la_calls A))]"

definition runtime_error :: "string \<Rightarrow> exn" where
  "runtime_error msg = Exn RuntimeError msg"

text \<open>\<open>RuntimeError\<close> and the classes derived from it.\<close>

definition is_runtime_error :: "exn \<Rightarrow> bool" where
  "is_runtime_error e \<longleftrightarrow> exn_class e \<in> {RuntimeError, AmbiguousToolError, ToolPermissionError, RealLLMAPIError, SimulatedCrash}"

text \<open>\<open>response["choices"][0]["message"]["content"]\<close>; \<open>None\<close>: a key or an index is missing or of the wrong type.\<close>

definition answer_content :: "json \<Rightarrow> json option" where
  "answer_content response = (case response of
     JObj r \<Rightarrow> (case map_of r ''choices'' of
       Some (JList (JObj choice # _)) \<Rightarrow> (case map_of choice ''message'' of
         Some (JObj message) \<Rightarrow> map_of message ''content''
       | _ \<Rightarrow> None)
     | _ \<Rightarrow> None)
   | _ \<Rightarrow> None)"

definition merged_text :: "text_forms \<Rightarrow> json list \<Rightarrow> string" where
  "merged_text T content = strip (concat (map (\<lambda>item. py_str T (dict_get_or item ''text'' (JStr [])))
     (filter (\<lambda>item. dict_get item ''type'' = JStr ''text'') (objects content))))"

definition read_chat :: "text_forms \<Rightarrow> http_answer \<Rightarrow> string res" where
  "read_chat T a = (case a of
     Http_Raises e \<Rightarrow> Inl e
   | Http_Error code detail \<Rightarrow> Inl (runtime_error (''OpenRouter HTTP error '' @ int_str code @ '': '' @ detail))
   | Url_Error reason \<Rightarrow> Inl (runtime_error (''OpenRouter request failed: '' @ reason))
   | Http_Text raw \<Rightarrow> (case json_loads raw of
       None \<Rightarrow> Inl (runtime_error ''OpenRouter response was not in the expected chat format'')
     | Some response \<Rightarrow> (case answer_content response of
         None \<Rightarrow> Inl (runtime_error ''OpenRouter response was not in the expected chat format'')
       | Some (JStr s) \<Rightarrow> Inr s
       | Some (JList content) \<Rightarrow> if merged_text T content \<noteq> [] then Inr (merged_text T content)
           else Inl (runtime_error ''OpenRouter response content did not contain JSON text'')
       | Some _ \<Rightarrow> Inl (runtime_error ''OpenRouter response content did not contain JSON text''))))"

definition openrouter_endpoint :: string where
  "openrouter_endpoint = ''https://openrouter.ai/api/v1/chat/completions''"

definition openrouter_headers :: "live_agent \<Rightarrow> (string \<times> string) list" where
  "openrouter_headers A = [(''Authorization'', ''Bearer '' @ la_api_key A), (''Content-Type'', ''application/json''),
     (''HTTP-Referer'', ''https://github.com/openai/codex''), (''X-Title'', ''RAEF OpenRouter Sample Agent'')]"

definition live_post :: "'n live_env \<Rightarrow> dict \<Rightarrow> ('n live_side, string) act" where
  "live_post E payload s = (let T = forms (le_runtime E) in
     case le_network E openrouter_endpoint (openrouter_headers (lv_agent s)) (json_spaced T False (JObj payload)) 60 (lv_network s) of
       (answer, n) \<Rightarrow> (read_chat T answer, s\<lparr>lv_network := n\<rparr>))"

text \<open>A line of the inference log.\<close>

definition inference_line :: "string \<Rightarrow> string \<Rightarrow> turn_request \<Rightarrow> dict \<Rightarrow> 'n live_side \<Rightarrow> dict" where
  "inference_line event model_name request rest s = [(''event'', JStr event), (''call_index'', JInt (la_calls (lv_agent s))),
     (''model'', JStr model_name), (''run_id'', JStr (turn_run_id request)), (''step_index'', JInt (turn_step_index request))] @ rest"

definition log_inference :: "'n live_env \<Rightarrow> string \<Rightarrow> string \<Rightarrow> turn_request \<Rightarrow> dict \<Rightarrow> ('n live_side, unit) act" where
  "log_inference E event model_name request rest = bind (gets (inference_line event model_name request rest)) (live_append E)"

definition catch_runtime_error :: "('s, 'a) act \<Rightarrow> (exn \<Rightarrow> ('s, 'a) act) \<Rightarrow> ('s, 'a) act" where
  "catch_runtime_error m h s = (case m s of (Inl e, s') \<Rightarrow> if is_runtime_error e then h e s' else (Inl e, s') | (Inr x, s') \<Rightarrow> (Inr x, s'))"

text \<open>One post, and one more without the JSON mode when the model does not support it.\<close>

definition post_with_fallback :: "'n live_env \<Rightarrow> turn_request \<Rightarrow> string \<Rightarrow> dict \<Rightarrow> ('n live_side, string) act" where
  "post_with_fallback E request model_name payload =
     catch_runtime_error (live_post E payload) (\<lambda>e.
       if \<not> is_json_mode_unsupported (exn_text e) then raise e
       else let fallback_payload = filter (\<lambda>(k, _). k \<noteq> ''response_format'') payload in
         bind (log_inference E ''request'' model_name request
           [(''payload'', JObj fallback_payload), (''retry_reason'', JStr ''json_mode_unsupported'')]) (\<lambda>_.
         live_post E fallback_payload))"

definition ask_model :: "'n live_env \<Rightarrow> turn_request \<Rightarrow> string \<Rightarrow> dict \<Rightarrow> ('n live_side, turn_response) act" where
  "ask_model E request model_name payload =
     bind (post_with_fallback E request model_name payload) (\<lambda>raw.
     bind (log_inference E ''response'' model_name request [(''raw_text'', JStr raw)]) (\<lambda>_.
     bind (lift (loads_or_error (le_decode_error E) raw)) (\<lambda>parsed.
     bind (modify (\<lambda>s. s\<lparr>lv_agent := (lv_agent s)\<lparr>la_last_model_name := Some model_name\<rparr>\<rparr>)) (\<lambda>_.
     lift (parse_model_response (forms (le_runtime E)) parsed model_name raw)))))"

definition model_payload :: "turn_request \<Rightarrow> string \<Rightarrow> json list \<Rightarrow> dict" where
  "model_payload request model_name messages = [(''model'', JStr model_name), (''temperature'', JFloat (turn_temperature request)),
     (''response_format'', JObj [(''type'', JStr ''json_object'')]), (''messages'', JList messages)]"

text \<open>The models in order: a failure that another model may not have leads to the next.\<close>

fun try_models :: "'n live_env \<Rightarrow> turn_request \<Rightarrow> string list \<Rightarrow> string list \<Rightarrow> ('n live_side, turn_response) act" where
  "try_models E request failures [] = raise (runtime_error (''OpenRouter failed across free models:'' @ newline @ join newline failures))"
| "try_models E request failures (model_name # rest) =
     bind (lift (build_openrouter_messages (forms (le_runtime E)) request (le_scenario E))) (\<lambda>messages.
     let payload = model_payload request model_name messages in
     bind (log_inference E ''request'' model_name request [(''payload'', JObj payload)]) (\<lambda>_ s.
     case ask_model E request model_name payload s of
       (Inr response, s') \<Rightarrow> (Inr response, s')
     | (Inl e, s') \<Rightarrow>
         let said = (if is_runtime_error e then exn_text e else ''invalid JSON contract: '' @ exn_text e) in
         if is_runtime_error e \<or> exn_class e = ValueError then
           bind (log_inference E ''error'' model_name request [(''error'', JStr said)]) (\<lambda>_.
           if should_try_next_model (exn_text e) then try_models E request (failures @ [model_name @ '': '' @ said]) rest else raise e) s'
         else (Inl e, s')))"

definition live_generate_turn :: "'n live_env \<Rightarrow> turn_request \<Rightarrow> ('n live_side, turn_response) act" where
  "live_generate_turn E request =
     bind (modify (\<lambda>s. s\<lparr>lv_agent := (lv_agent s)\<lparr>la_calls := la_calls (lv_agent s) + 1\<rparr>\<rparr>)) (\<lambda>_.
     bind (gets (\<lambda>s. la_model_names (lv_agent s))) (\<lambda>models. try_models E request [] models))"

section \<open>The adapter\<close>

definition live_invoke :: "'n live_env \<Rightarrow> string \<Rightarrow> dict \<Rightarrow> string option \<Rightarrow> ('n live_side, json) act" where
  "live_invoke E tool_name request_payload execution_id =
     (let T = forms (le_runtime E) in
      if tool_name = ''query-state'' then
        (case normalize_query_state_arguments T request_payload of (query_name, payload) \<Rightarrow>
          bind (live_on_target (query_state (le_target E) query_name payload)) (\<lambda>result. ret (JObj result)))
      else if tool_name = ''apply-action'' then
        (case normalize_apply_action_arguments T request_payload (case execution_id of Some i \<Rightarrow> i | None \<Rightarrow> []) of (action_name, payload, resolved) \<Rightarrow>
          bind (lift (validate_apply_action_payload action_name payload)) (\<lambda>payload.
          bind (live_on_target (apply_action (le_target E) action_name payload (Some resolved))) (\<lambda>result.
          bind (gets lv_emitted) (\<lambda>emitted.
          if le_ambiguous_write E \<and> \<not> emitted then
            bind (modify (\<lambda>s. s\<lparr>lv_emitted := True\<rparr>)) (\<lambda>_.
            raise (ambiguous ''write may have committed before the local process observed the response''))
          else ret (JObj (AList.update ''applied_action'' (JObj [(''action_name'', JStr action_name), (''payload'', JObj payload),
              (''execution_id'', JStr resolved)]) result))))))
      else raise (Exn ValueError (''unsupported tool name: '' @ tool_name)))"

definition live_adapter :: "'n live_env \<Rightarrow> 'n live_side beside tool_adapter" where
  "live_adapter E tool_name request_payload execution_id timeout_s =
     (\<lambda>(s, keys). case live_invoke E tool_name request_payload execution_id s of (r, s') \<Rightarrow> (r, (s', keys)))"

definition live_coordinator :: "'n live_env \<Rightarrow> 'n live_side coordinator" where
  "live_coordinator E = \<lparr>default_wait_seconds = Fin (1 / 4), verifier = None, on_handoff = None\<rparr>"

section \<open>What a resumed run says to the model\<close>

text \<open>The texts of earlier tool calls are put back into the messages, in their order.\<close>

fun restore_outputs :: "string list \<Rightarrow> chat_message list \<Rightarrow> chat_message list" where
  "restore_outputs outputs [] = []"
| "restore_outputs outputs (m # ms) =
     (if chat_role m = ''assistant'' \<and> outputs \<noteq> [] \<and> \<not> starts_with ''{'' (lstrip (chat_content m))
        then m\<lparr>chat_content := hd outputs\<rparr> # restore_outputs (tl outputs) ms
      else m # restore_outputs (if chat_role m = ''assistant'' \<and> starts_with ''{'' (lstrip (chat_content m)) then tl outputs else outputs) ms)"

definition restore_raw_llm_outputs :: "chat_message list \<Rightarrow> planner_state option \<Rightarrow> chat_message list" where
  "restore_raw_llm_outputs messages planner_state = (case planner_state of
     None \<Rightarrow> messages
   | Some st \<Rightarrow> (let raw_outputs = filter (\<lambda>out. strip out \<noteq> []) (List.map_filter pi_llm_output (ps_items st)) in
       if raw_outputs = [] then messages else restore_outputs raw_outputs messages))"

section \<open>One step\<close>

definition scenario_id :: "dict \<Rightarrow> dict" where
  "scenario_id scenario = [(''scenario_id'', dict_get_or scenario ''scenario_id'' (JStr ''unknown''))]"

definition live_ask :: "'n live_env \<Rightarrow> string \<Rightarrow> int \<Rightarrow> chat_message list \<Rightarrow> ('n, turn_response) live_op" where
  "live_ask E run_id step_index messages =
     bind (live_crash_at E step_index ''before_agent_turn'') (\<lambda>_.
     bind (call_outside (live_generate_turn E \<lparr>turn_messages = messages, turn_available_tools = build_available_tools, turn_run_id = run_id,
       turn_step_index = step_index, turn_metadata = scenario_id (le_scenario E), turn_max_output_tokens = 500, turn_temperature = Fin 0\<rparr>)) (\<lambda>response.
     bind (live_crash_at E step_index ''after_agent_turn'') (\<lambda>_. ret response)))"

definition live_record_turn :: "'n live_env \<Rightarrow> string \<Rightarrow> string \<Rightarrow> int \<Rightarrow> span_handle \<Rightarrow> turn_response \<Rightarrow> scripted_call \<Rightarrow> string \<Rightarrow> ('n, unit) live_op" where
  "live_record_turn E run_id plan_item_id step_index step_span response c llm_output =
     time_phase (le_runtime E) ''record_llm_turn'' step_span None (\<lambda>_.
     bind (record_llm_turn (le_runtime E) run_id plan_item_id llm_output
       (if truthy (sc_rationale c) then text_of (sc_rationale c) else ''Calling '' @ sc_name c)
       (Some [(''model_name'', JStr (tr_model_name response)), (''decision_kind'', JStr (decision_value (tr_kind response)))])) (\<lambda>_.
     live_crash_at E step_index ''after_record_llm_turn''))"

definition live_transaction :: "'n live_env \<Rightarrow> int \<Rightarrow> span_handle \<Rightarrow> scripted_call \<Rightarrow> tool_call \<Rightarrow> ('n, transaction_result) live_op" where
  "live_transaction E step_index step_span c call =
     time_phase (le_runtime E) ''tool_transaction'' step_span (Some [(''tool_name'', JStr (sc_name c))]) (\<lambda>_.
     bind (live_crash_at E step_index ''before_tool_transaction'') (\<lambda>_.
     bind (execute_tool (le_runtime E) False (live_adapter E) call) (\<lambda>tx.
     bind (live_crash_at E step_index ''after_tool_transaction'') (\<lambda>_. ret tx))))"

definition live_recovery :: "'n live_env \<Rightarrow> string \<Rightarrow> int \<Rightarrow> span_handle \<Rightarrow> int option \<Rightarrow> ('n, recovery_decision list) live_op" where
  "live_recovery E run_id step_index step_span now =
     time_phase (le_runtime E) ''recovery'' step_span None (\<lambda>_.
     bind (recover_run (le_runtime E) (live_coordinator E) run_id now) (\<lambda>decisions.
     bind (live_crash_at E step_index ''after_recovery'') (\<lambda>_. ret decisions)))"

text \<open>After a call of unknown outcome nothing is said to the model; otherwise it gets the tool's answer.\<close>

definition live_settle ::
  "'n live_env \<Rightarrow> string \<Rightarrow> int \<Rightarrow> span_handle \<Rightarrow> scripted_call \<Rightarrow> transaction_result \<Rightarrow> run_locals \<Rightarrow> ('n, run_locals) live_op" where
  "live_settle E run_id step_index step_span c tx L =
     (if tx_disposition tx = PENDING_RECOVERY then
        bind (repo_get_result (le_runtime E) (tx_execution_id tx)) (\<lambda>record.
        bind (lift (one_second_later record)) (\<lambda>now.
        bind (live_recovery E run_id step_index step_span now) (\<lambda>decisions.
        ret (L\<lparr>rl_decisions := rl_decisions L @ decision_dicts decisions\<rparr>))))
      else
        bind (live_recovery E run_id step_index step_span None) (\<lambda>decisions.
        ret (add_message (tool_message c (tx_execution_id tx) (payload_text (forms (le_runtime E)) tx))
          (L\<lparr>rl_decisions := rl_decisions L @ decision_dicts decisions\<rparr>))))"

definition live_finish_item :: "'n live_env \<Rightarrow> string \<Rightarrow> string \<Rightarrow> int \<Rightarrow> span_handle \<Rightarrow> ('n, unit) live_op" where
  "live_finish_item E run_id plan_item_id step_index step_span =
     time_phase (le_runtime E) ''advance_plan_item'' step_span None (\<lambda>_.
     bind (advance_plan_item (le_runtime E) run_id plan_item_id ''done'' None) (\<lambda>_.
     live_crash_at E step_index ''after_advance_plan_item''))"

definition live_tool_turn ::
  "'n live_env \<Rightarrow> string \<Rightarrow> string \<Rightarrow> int \<Rightarrow> span_handle \<Rightarrow> turn_response \<Rightarrow> scripted_call \<Rightarrow> run_locals \<Rightarrow> ('n, run_locals) live_op" where
  "live_tool_turn E run_id plan_item_id step_index step_span response c L =
     (let llm_output = raw_response (forms (le_runtime E)) response in
      bind (live_record_turn E run_id plan_item_id step_index step_span response c llm_output) (\<lambda>_.
      bind (live_transaction E step_index step_span c (turn_call run_id plan_item_id c)) (\<lambda>tx.
      let L = L\<lparr>rl_executions := rl_executions L @ [execution_summary c tx]\<rparr>;
          L = add_message \<lparr>chat_role = ''assistant'', chat_content = llm_output, chat_name = None, chat_tool_call_id = None\<rparr> L in
      if tx_disposition tx = FAILED_TX then
        raise (case tx_exception tx of Some e \<Rightarrow> e
          | None \<Rightarrow> runtime_error (''tool execution failed for execution_id='' @ tx_execution_id tx))
      else
        bind (live_settle E run_id step_index step_span c tx L) (\<lambda>L.
        bind (live_finish_item E run_id plan_item_id step_index step_span) (\<lambda>_. ret L)))))"

definition live_final_turn ::
  "'n live_env \<Rightarrow> string \<Rightarrow> nat \<Rightarrow> int \<Rightarrow> span_handle \<Rightarrow> turn_response \<Rightarrow> final_answer \<Rightarrow> run_locals \<Rightarrow> ('n, dict) live_op" where
  "live_final_turn E run_id item_count step_index step_span response f L =
     (let R = le_runtime E in
      bind (time_phase R ''record_final_message'' step_span None (\<lambda>_.
        bind (record_context_message R run_id ''assistant'' (fa_answer f)
          (Some [(''stop_reason'', JStr (fa_stop_reason f)), (''model_name'', JStr (tr_model_name response))]) None None) (\<lambda>_.
        live_crash_at E step_index ''after_record_final_message''))) (\<lambda>_.
      bind (live_finish_item E run_id (''step_'' @ int_str (int item_count - 1)) step_index step_span) (\<lambda>_.
      bind (checkpoint R run_id ''agent_context'' False) (\<lambda>ck.
      bind (rebuild_state R run_id None 1000) (\<lambda>bundle.
      ret [(''run_id'', JStr run_id), (''scenario_id'', dict_get (le_scenario E) ''scenario_id''),
        (''model_name'', JStr (tr_model_name response)), (''final_answer'', JStr (fa_answer f)),
        (''checkpoint'', jopt (\<lambda>c. JObj (checkpoint_to_dict c)) ck), (''bundle'', JObj bundle),
        (''executions'', JList (map JObj (rl_executions L))), (''recovery_decisions'', JList (map JObj (rl_decisions L))),
        (''target_store_path'', JStr (le_store_path E))])))))"

section \<open>The run\<close>

text \<open>One iteration: the locals and, after a final answer, the result.\<close>

definition live_step :: "'n live_env \<Rightarrow> string \<Rightarrow> nat \<Rightarrow> string list \<Rightarrow> nat \<Rightarrow> run_locals \<Rightarrow> ('n, run_locals \<times> dict option) live_op" where
  "live_step E run_id item_count completed k L =
     (let step_index = int k; plan_item_id = ''step_'' @ int_str (min step_index (int item_count - 1)) in
      if \<not> le_force_reset E \<and> plan_item_id \<in> set completed \<and> k < item_count then ret (L, None)
      else
        time_step (le_runtime E) run_id step_index (Some plan_item_id) (Some (scenario_id (le_scenario E))) (\<lambda>step_span.
        bind (live_crash_at E step_index ''after_step_started'') (\<lambda>_.
        bind (time_phase (le_runtime E) ''llm_generate'' step_span None (\<lambda>_. live_ask E run_id step_index (rl_messages L))) (\<lambda>response.
        if tr_kind response = TOOL_CALL then
          (case tr_tool_call response of
             None \<Rightarrow> raise (Exn AssertionError [])
           | Some c \<Rightarrow> bind (live_tool_turn E run_id plan_item_id step_index step_span response c L) (\<lambda>L. ret (L, None)))
        else
          (case tr_final response of
             None \<Rightarrow> raise (Exn AssertionError [])
           | Some f \<Rightarrow> bind (live_final_turn E run_id item_count step_index step_span response f L) (\<lambda>result. ret (L, Some result)))))))"

definition max_steps :: nat where
  "max_steps = 8"

fun live_steps :: "'n live_env \<Rightarrow> string \<Rightarrow> nat \<Rightarrow> string list \<Rightarrow> nat list \<Rightarrow> run_locals \<Rightarrow> ('n, dict) live_op" where
  "live_steps E run_id item_count completed [] L =
     raise (runtime_error (''agent did not return a final answer within '' @ int_str (int max_steps) @ '' steps''))"
| "live_steps E run_id item_count completed (k # ks) L =
     bind (live_step E run_id item_count completed k L) (\<lambda>(L, final_result).
     case final_result of
       None \<Rightarrow> live_steps E run_id item_count completed ks L
     | Some result \<Rightarrow> bind (build_evaluation_report run_id True) (\<lambda>report. ret (result @ [(''evaluation_report'', JObj (report_to_dict report))])))"

definition stable_user_prompt :: string where
  "stable_user_prompt = ''Please buy me a ticket from LA to NY for 2026-05-14 09:00 AM PT.''"

definition prompt_message :: "string \<Rightarrow> string \<Rightarrow> chat_message" where
  "prompt_message role content = \<lparr>chat_role = role, chat_content = content, chat_name = None, chat_tool_call_id = None\<rparr>"

definition live_loop :: "'n live_env \<Rightarrow> string \<Rightarrow> nat \<Rightarrow> ('n, dict) live_op" where
  "live_loop E run_id item_count =
     (let R = le_runtime E; system = prompt_message ''system'' (build_system_prompt (forms R) (le_scenario E)) in
      bind (repo_load_context R run_id) (\<lambda>context.
      bind (repo_load_plan R run_id) (\<lambda>planner_state.
      let messages = (case context of
            Some c \<Rightarrow> if le_force_reset E then [system, prompt_message ''user'' stable_user_prompt]
              else system # restore_raw_llm_outputs (map chat_of_message (ctx_messages c)) planner_state
          | None \<Rightarrow> [system, prompt_message ''user'' stable_user_prompt]);
          completed = (case planner_state of None \<Rightarrow> [] | Some st \<Rightarrow> map pi_id (filter (\<lambda>it. pi_status it = DONE) (ps_items st))) in
      live_steps E run_id item_count completed [0..<max_steps]
        \<lparr>rl_messages = messages, rl_executions = [], rl_decisions = [], rl_trace = []\<rparr>)))"

text \<open>The adapter, the coordinator and the agent of a run are new.\<close>

definition new_live_agent :: "live_agent \<Rightarrow> ('n, unit) live_op" where
  "new_live_agent A = call_tool (\<lambda>(s, _). (Inr (), (s\<lparr>lv_emitted := False, lv_agent := A\<rparr>, [])))"

definition run_live_agent :: "'n live_env \<Rightarrow> string \<Rightarrow> ('n, dict) live_op" where
  "run_live_agent E run_id =
     (let R = le_runtime E; T = forms R in
      bind (lift (scenario_plan_items T (le_scenario E))) (\<lambda>plan_items.
      bind (if le_reset_target E
        then call_outside (live_on_target (live_seed_store (le_target E) (dict_get_or (le_scenario E) ''target_seed_state'' (JObj [])))) else ret ()) (\<lambda>_.
      bind (lift (scenario_plan_source_text T (le_scenario E))) (\<lambda>source.
      bind (start_run R run_id [JObj [(''role'', JStr ''user''), (''content'', JStr stable_user_prompt)]] source (map JObj plan_items)
        None (le_force_reset E) None) (\<lambda>_.
      bind (lift (live_agent_init (le_api_key E) (le_models E))) (\<lambda>A.
      bind (new_live_agent A) (\<lambda>_.
      live_loop E run_id (length plan_items))))))))"

end
