(* ===== verification/Live_Facts.thy ===== *)
theory Live_Facts
  imports Live_Run Sample_Demo
begin

text \<open>
  What holds of the agent on live models, whatever they answer: its turns are well typed and cost at most two posts
  for each model, its requests are in the form of the mock target, and its run is a run of the system.
\<close>

section \<open>The answer of a model\<close>

lemma parse_model_tool_call_typed:
  "parse_model_tool_call T d model raw = Inr r \<Longrightarrow> well_typed_turn r \<and> tr_model_name r = model"
  by (auto simp: parse_model_tool_call_def Let_def rbind_eq_Inr from_tool_call_def turn_response_init_def well_typed_turn_def non_blank_text
      split: json.splits if_splits)

lemma parse_model_final_typed:
  "parse_model_final d model raw = Inr r \<Longrightarrow> well_typed_turn r \<and> tr_model_name r = model"
  by (auto simp: parse_model_final_def Let_def from_final_answer_def turn_response_init_def well_typed_turn_def non_blank_text
      split: json.splits if_splits)

lemma parse_model_response_typed:
  "parse_model_response T v model raw = Inr r \<Longrightarrow> well_typed_turn r \<and> tr_model_name r = model"
  by (auto simp: parse_model_response_def parse_model_tool_call_typed parse_model_final_typed no_get_def split: json.splits if_splits)

section \<open>The fallback\<close>

lemma live_append_agent: "live_append E line s = (r, s') \<Longrightarrow> lv_agent s' = lv_agent s \<and> lv_network s' = lv_network s"
  by (auto simp: live_append_def split: option.splits)

lemma log_inference_agent: "log_inference E event model request rest s = (r, s') \<Longrightarrow> lv_agent s' = lv_agent s \<and> lv_network s' = lv_network s"
  by (auto simp: log_inference_def bind_def gets_def dest: live_append_agent)

lemma live_post_agent: "live_post E payload s = (r, s') \<Longrightarrow> lv_agent s' = lv_agent s"
  by (auto simp: live_post_def Let_def split: prod.splits)

definition counts_posts :: "nat live_env \<Rightarrow> bool" where
  "counts_posts E \<longleftrightarrow> (\<forall>u h b t n. snd (le_network E u h b t n) = Suc n)"

lemma live_post_counts: "counts_posts E \<Longrightarrow> live_post E payload s = (r, s') \<Longrightarrow> lv_network s' = Suc (lv_network s)"
  unfolding counts_posts_def live_post_def Let_def by (auto split: prod.splits) (metis snd_conv)

lemma post_agent: "post_with_fallback E request model payload s = (r, s') \<Longrightarrow> lv_agent s' = lv_agent s"
  unfolding post_with_fallback_def catch_runtime_error_def Let_def
  by (auto split: prod.splits sum.splits if_splits elim!: bind_cases dest!: live_post_agent log_inference_agent simp: raise_def)

lemma post_counts:
  assumes "counts_posts E" and "post_with_fallback E request model payload s = (r, s')"
  shows "lv_network s' \<le> lv_network s + 2"
  using assms(2) unfolding post_with_fallback_def catch_runtime_error_def Let_def
  by (auto split: prod.splits sum.splits if_splits elim!: bind_cases dest!: live_post_counts [OF assms(1)] log_inference_agent simp: raise_def)

lemma ask_model_agent:
  "ask_model E request model payload s = (r, s') \<Longrightarrow> la_calls (lv_agent s') = la_calls (lv_agent s) \<and>
   (\<forall>response. r = Inr response \<longrightarrow> well_typed_turn response \<and> la_last_model_name (lv_agent s') = Some model \<and> tr_model_name response = model)"
  unfolding ask_model_def
  by (auto elim!: bind_cases dest!: post_agent log_inference_agent parse_model_response_typed simp: lift_def modify_def)

lemma ask_model_counts:
  assumes "counts_posts E" and "ask_model E request model payload s = (r, s')"
  shows "lv_network s' \<le> lv_network s + 2"
  using assms(2) unfolding ask_model_def
  by (auto elim!: bind_cases dest!: post_counts [OF assms(1)] log_inference_agent simp: lift_def modify_def)

lemma try_models_agent:
  "try_models E request failures models s = (r, s') \<Longrightarrow> la_calls (lv_agent s') = la_calls (lv_agent s) \<and>
   (\<forall>response. r = Inr response \<longrightarrow> well_typed_turn response \<and> tr_model_name response \<in> set models \<and>
     la_last_model_name (lv_agent s') = Some (tr_model_name response))"
proof (induction models arbitrary: failures s r s')
  case Nil
  then show ?case by (auto simp: raise_def)
next
  case (Cons model models)
  show ?case
    using Cons.prems
    by (auto simp: Let_def lift_def raise_def elim!: bind_cases split: prod.splits sum.splits if_splits
      dest!: Cons.IH ask_model_agent log_inference_agent)
qed

lemma try_models_counts:
  assumes "counts_posts E"
  shows "try_models E request failures models s = (r, s') \<Longrightarrow> lv_network s' \<le> lv_network s + 2 * length models"
proof (induction models arbitrary: failures s r s')
  case Nil
  then show ?case by (auto simp: raise_def)
next
  case (Cons model models)
  show ?case
    using Cons.prems
    by (auto simp: Let_def lift_def raise_def elim!: bind_cases split: prod.splits sum.splits if_splits
      dest!: Cons.IH ask_model_counts [OF assms] log_inference_agent)
qed

text \<open>C22: Whatever the network answers, a turn of the agent costs at most two posts for each of its models; a turn that it
  returns is well typed, and comes from one of the models, which the agent remembers.\<close>

theorem turns_cost_two_posts_per_model:
  assumes "counts_posts E" and "live_generate_turn E request s = (r, s')"
  shows "lv_network s' \<le> lv_network s + 2 * length (la_model_names (lv_agent s)) \<and> la_calls (lv_agent s') = la_calls (lv_agent s) + 1 \<and>
    (case r of Inl e \<Rightarrow> True | Inr response \<Rightarrow> well_typed_turn response \<and> tr_model_name response \<in> set (la_model_names (lv_agent s)) \<and>
      la_last_model_name (lv_agent s') = Some (tr_model_name response))"
proof -
  let ?s = "s\<lparr>lv_agent := (lv_agent s)\<lparr>la_calls := la_calls (lv_agent s) + 1\<rparr>\<rparr>"
  have run: "try_models E request [] (la_model_names (lv_agent s)) ?s = (r, s')"
    using assms(2) by (simp add: live_generate_turn_def bind_def modify_def gets_def)
  show ?thesis
    using try_models_counts [OF assms(1) run] try_models_agent [OF run] by (auto split: sum.splits)
qed

text \<open>The first model is busy, the second answers.\<close>

definition demo_live_network :: "nat network" where
  "demo_live_network u h b t n = (if n = 0 then Http_Error 429 []
     else Http_Text (json_dumps demo_forms (JObj [(''choices'', JList [JObj [(''message'', JObj [(''content'',
       JStr (json_dumps demo_forms (JObj [(''answer'', JStr ''ok'')])))])]])])), Suc n)"

definition demo_live_env :: "nat live_env" where
  "demo_live_env = \<lparr>le_runtime = demo_runtime, le_target = demo_target_restarted, le_network = demo_live_network,
     le_decode_error = (\<lambda>s. ''not JSON''), le_scenario = [(''steps'', JList [JObj [(''kind'', JStr ''final''), (''answer'', JStr ''ok'')]])],
     le_api_key = ''k'', le_models = [''a'', ''b''], le_ambiguous_write = False, le_force_reset = False, le_reset_target = False,
     le_crash_phase = ''after_tool_transaction'', le_append_error = (\<lambda>n. None), le_store_path = ''store.json''\<rparr>"

definition demo_live_side :: "nat live_side" where
  "demo_live_side = \<lparr>lv_target = demo_store, lv_emitted = False, lv_crash = None,
     lv_agent = \<lparr>la_api_key = ''k'', la_model_names = [''a'', ''b''], la_calls = 0, la_last_model_name = None\<rparr>, lv_network = 0, lv_log = []\<rparr>"

definition demo_live_request :: turn_request where
  "demo_live_request = \<lparr>turn_messages = [], turn_available_tools = [], turn_run_id = ''r1'', turn_step_index = 0, turn_metadata = [],
     turn_max_output_tokens = 500, turn_temperature = Fin 0\<rparr>"

definition demo_live_turn :: "turn_response res \<times> nat live_side" where
  "demo_live_turn = live_generate_turn demo_live_env demo_live_request demo_live_side"

theorem turns_cost_two_posts_per_model_witness:
  "lv_network (snd demo_live_turn) \<le> 4 \<and> la_calls (lv_agent (snd demo_live_turn)) = 1"
proof -
  have "counts_posts demo_live_env" by (simp add: counts_posts_def demo_live_env_def demo_live_network_def)
  moreover have "live_generate_turn demo_live_env demo_live_request demo_live_side = (fst demo_live_turn, snd demo_live_turn)"
    by (simp add: demo_live_turn_def)
  ultimately show ?thesis
    using turns_cost_two_posts_per_model [of demo_live_env demo_live_request demo_live_side "fst demo_live_turn" "snd demo_live_turn"]
    by (simp add: demo_live_side_def)
qed

section \<open>The requests in the form of the target\<close>

text \<open>The arguments that say what they are normalised to.\<close>

definition query_arguments :: "string \<times> dict \<Rightarrow> dict" where
  "query_arguments q = [(''query_name'', JStr (fst q)), (''payload'', JObj (snd q))]"

definition action_arguments :: "string \<times> dict \<times> string \<Rightarrow> dict" where
  "action_arguments a = [(''action_name'', JStr (fst a)), (''payload'', JObj (fst (snd a))), (''execution_id'', JStr (snd (snd a)))]"

lemma query_by_payload_names: "query_by_payload payload \<in> {''get_value'', ''list_keys'', ''dump_state''}"
  by (simp add: query_by_payload_def)

lemma fst_if: "(b \<Longrightarrow> fst x \<in> S) \<Longrightarrow> (\<not> b \<Longrightarrow> fst y \<in> S) \<Longrightarrow> fst (if b then x else y) \<in> S"
  by simp

lemma normalized_query_names: "fst (normalize_query_state_arguments T arguments) \<in> {''get_value'', ''list_keys'', ''dump_state''}"
  unfolding normalize_query_state_arguments_def Let_def
  by (intro fst_if; simp only: fst_conv not_not query_by_payload_names) (simp only: insert_iff simp_thms)

lemma normalized_action_names:
  "fst (normalize_apply_action_arguments T arguments i) \<in> {''set_value'', ''delete_value'', ''increment_value''}"
  by (simp add: normalize_apply_action_arguments_def Let_def)

definition plain_char :: "char \<Rightarrow> bool" where
  "plain_char c \<longleftrightarrow> \<not> is_space c \<and> lower_char c = c \<and> c \<noteq> CHR ''/''"

lemma plain_text: "list_all plain_char name \<Longrightarrow> map lower_char (strip name) = name \<and> strip name = name \<and> CHR ''/'' \<notin> set name"
proof -
  assume plain: "list_all plain_char name"
  have "dropWhile is_space xs = xs" if "list_all plain_char xs" for xs
    using that by (cases xs) (simp_all add: plain_char_def)
  from this [OF plain] this [of "rev name"] plain have "strip name = name" by (simp add: strip_def lstrip_def rstrip_def)
  then show ?thesis using plain by (auto simp: list_all_iff plain_char_def intro: map_idI)
qed

lemma plain_names:
  assumes "name \<in> set ns" and "list_all (list_all plain_char) ns"
  shows "map lower_char (strip name) = name" and "strip name = name" and "CHR ''/'' \<notin> set name"
  using plain_text [of name] assms by (auto simp: list_all_iff [of "list_all plain_char"])

lemma plain_query_names: "list_all (list_all plain_char) [''get_value'', ''list_keys'', ''dump_state'']"
    and plain_action_names: "list_all (list_all plain_char) [''set_value'', ''delete_value'', ''increment_value'']"
  by (simp_all add: plain_char_def lower_char_def is_space_def)

lemma query_stable:
  assumes "name \<in> {''get_value'', ''list_keys'', ''dump_state''}"
  shows "normalize_query_state_arguments T (query_arguments (name, payload)) = (name, payload)"
proof -
  have plain: "map lower_char (strip name) = name" "strip name = name" "CHR ''/'' \<notin> set name"
    using assms by (intro plain_names [OF _ plain_query_names]; simp only: list.set)+
  have other: "name \<notin> {''read'', ''get'', ''lookup'', ''fetch''}"
      "name \<notin> {''list'', ''list_values'', ''list_state'', ''list_flights'', ''search_flights'', ''available_flights''}"
    using assms by auto
  have fields: "dict_get_or (query_arguments (name, payload)) ''query_name'' (JStr []) = JStr name"
      "dict_get (query_arguments (name, payload)) ''payload'' = JObj payload"
      "dict_get (query_arguments (name, payload)) ''key'' = JNull" "dict_get (query_arguments (name, payload)) ''prefix'' = JNull"
      "dict_get (query_arguments (name, payload)) ''order_id'' = JNull" "dict_get (query_arguments (name, payload)) ''flight_no'' = JNull"
    by (simp_all add: query_arguments_def dict_get_def dict_get_or_def)
  show ?thesis
    unfolding normalize_query_state_arguments_def Let_def fields keyed_as_def copy_str_def obj_of_def json.case py_str_JStr plain(2)
      plain(1) [unfolded plain(2)]
    using plain(3) assms other by (simp del: insert_iff)
qed

lemma action_stable:
  assumes "name \<in> {''set_value'', ''delete_value'', ''increment_value''}" and "strip i \<noteq> [] \<or> i = fallback"
  shows "normalize_apply_action_arguments T (action_arguments (name, payload, i)) fallback = (name, payload, i)"
proof -
  let ?a = "action_arguments (name, payload, i)"
  have plain: "map lower_char (strip name) = name" using plain_names(1) [OF _ plain_action_names, of name] assms(1) unfolding list.set .
  have fields: "dict_get_or ?a ''action_name'' (JStr []) = JStr name" "dict_get ?a ''payload'' = JObj payload"
      "dict_get ?a ''execution_id'' = JStr i" "dict_get ?a ''key'' = JNull" "map_of ?a ''value'' = None" "dict_get ?a ''order_id'' = JNull"
      "dict_get ?a ''flight_no'' = JNull"
    by (simp_all add: action_arguments_def dict_get_def dict_get_or_def)
  show ?thesis
    unfolding normalize_apply_action_arguments_def Let_def fields copy_str_def obj_of_def json.case py_str_JStr plain
    using assms by (simp add: non_blank_def text_of_def del: insert_iff)
qed

lemma normalized_action_id:
  "strip (snd (snd (normalize_apply_action_arguments T arguments fallback))) \<noteq> [] \<or> snd (snd (normalize_apply_action_arguments T arguments fallback)) = fallback"
  by (simp add: normalize_apply_action_arguments_def Let_def non_blank_text)

text \<open>What a query asks for: the words of the target are kept, those for a listing list, and all others go by what
  the payload holds.\<close>

definition target_queries :: "string list" where
  "target_queries = [''get_value'', ''list_keys'', ''dump_state'']"

definition listing_words :: "string list" where
  "listing_words = [''list'', ''list_values'', ''list_state'', ''list_flights'', ''search_flights'', ''available_flights'']"

definition meant_query :: "string \<Rightarrow> dict \<Rightarrow> string" where
  "meant_query word payload = (if word \<in> set target_queries then word
     else if word \<in> set listing_words then ''list_keys'' else query_by_payload payload)"

text \<open>What a request holds under a key: what its payload holds, or, without a payload, what the request itself says, where a
  flight comes before an order, and an order before a key.\<close>

definition asked :: "dict \<Rightarrow> string \<Rightarrow> json option" where
  "asked arguments k =
     (if obj_of (dict_get arguments ''payload'') \<noteq> [] then map_of (obj_of (dict_get arguments ''payload'')) k
      else if k = ''key'' then
        (case dict_get arguments ''flight_no'' of JStr s \<Rightarrow> Some (JStr (''flights/'' @ s)) | _ \<Rightarrow>
        (case dict_get arguments ''order_id'' of JStr s \<Rightarrow> Some (JStr (''orders/'' @ s)) | _ \<Rightarrow>
        (case dict_get arguments ''key'' of JStr s \<Rightarrow> Some (JStr s) | _ \<Rightarrow> None)))
      else if k = ''prefix'' then (case dict_get arguments ''prefix'' of JStr s \<Rightarrow> Some (JStr s) | _ \<Rightarrow> None)
      else None)"

text \<open>What is added to it: a path in place of a name is a key, if nothing else is asked for, and a listing has a prefix.\<close>

definition query_extras :: "dict \<Rightarrow> string \<Rightarrow> string \<Rightarrow> json option" where
  "query_extras arguments said k =
     (if k = ''key'' \<and> CHR ''/'' \<in> set said \<and> asked arguments ''prefix'' = None then Some (JStr said)
      else if k = ''prefix'' \<and> map lower_char said \<in> set listing_words then Some (JStr ''flights/'')
      else None)"

lemma path_words: "CHR ''/'' \<in> set said \<Longrightarrow> map lower_char said \<notin> set target_queries \<and> map lower_char said \<notin> set listing_words"
proof -
  assume "CHR ''/'' \<in> set said"
  then have "lower_char (CHR ''/'') \<in> set (map lower_char said)" by simp
  then have "CHR ''/'' \<in> set (map lower_char said)" by (simp add: lower_char_def)
  then show ?thesis by (auto simp: target_queries_def listing_words_def)
qed

lemma keyed_lookup:
  "map_of (keyed_as arguments k folder p) j = (if j = ''key'' then (case dict_get arguments k of JStr s \<Rightarrow> Some (JStr (folder @ s)) | _ \<Rightarrow> map_of p j)
     else map_of p j)"
  "map_of (copy_str arguments k p) j = (if j = k then (case dict_get arguments k of JStr s \<Rightarrow> Some (JStr s) | _ \<Rightarrow> map_of p j) else map_of p j)"
  by (auto simp: keyed_as_def copy_str_def update_conv' split: json.split)

text \<open>C23: However a model words a query, it is brought into one of the three queries of the target, the one that its words and
  its payload ask for. All that the payload holds is kept with its value, and nothing is added to it but a path that
  stands in place of the name, as the key, and the prefix of a listing; without a payload, the key is that of the flight, else of
  the order, else the key that is named. A query that has one of the target's forms is left as it is, whatever its
  payload.\<close>

theorem queries_take_the_form_of_the_target:
  assumes "normalize_query_state_arguments T arguments = (query, payload)"
    and "said = strip (py_str T (dict_get_or arguments ''query_name'' (JStr [])))"
  shows "query = meant_query (map lower_char said) payload \<and> query \<in> set target_queries \<and>
    map_of payload = (\<lambda>k. case asked arguments k of Some v \<Rightarrow> Some v | None \<Rightarrow> query_extras arguments said k) \<and>
    (\<forall>name p. name \<in> set target_queries \<longrightarrow> normalize_query_state_arguments T (query_arguments (name, p)) = (name, p))"
proof -
  let ?word = "map lower_char said" and ?given = "obj_of (dict_get arguments ''payload'')"
  define p0 where "p0 = (if ?given = [] then keyed_as arguments ''flight_no'' ''flights/'' (keyed_as arguments ''order_id'' ''orders/''
            (copy_str arguments ''prefix'' (copy_str arguments ''key'' ?given))) else ?given)"
  define by_path where "by_path = (CHR ''/'' \<in> set said \<and> \<not> holds_key p0 ''key'' \<and> \<not> holds_key p0 ''prefix'')"
  define p1 where "p1 = (if by_path then AList.update ''key'' (JStr said) p0 else p0)"
  define raw where "raw = (if by_path then ''get_value'' else ?word)"
  have norm: "(query, payload) = (if raw \<in> {''read'', ''get'', ''lookup'', ''fetch''} then (query_by_payload p1, p1)
      else if raw \<in> {''list'', ''list_values'', ''list_state'', ''list_flights'', ''search_flights'', ''available_flights''}
        then (''list_keys'', dict_setdefault ''prefix'' (JStr ''flights/'') p1)
      else if raw \<notin> {''get_value'', ''list_keys'', ''dump_state''} then (query_by_payload p1, p1)
      else (raw, p1))"
    unfolding assms(1) [symmetric] normalize_query_state_arguments_def Let_def assms(2) p0_def p1_def by_path_def raw_def by (rule refl)
  have p0: "map_of p0 = asked arguments"
    by (rule ext) (auto simp: p0_def asked_def keyed_lookup split: json.split)
  have listing: "\<not> by_path" if "?word \<in> set listing_words" using that path_words [of said] by (auto simp: by_path_def)
  have payload: "payload = (if ?word \<in> set listing_words then dict_setdefault ''prefix'' (JStr ''flights/'') p1 else p1)"
    using norm listing by (cases by_path) (auto simp: raw_def listing_words_def split: if_splits)
  have "map_of payload k = (case asked arguments k of Some v \<Rightarrow> Some v | None \<Rightarrow> query_extras arguments said k)" for k
    using listing path_words [of said]
    by (auto simp: payload p1_def dict_setdefault_def by_path_def p0 query_extras_def update_conv' split: option.split)
  moreover have "query = meant_query ?word payload"
  proof (cases by_path)
    case True
    have "map_of p1 ''key'' = Some (JStr said)" by (simp add: p1_def True update_conv')
    then show ?thesis using norm True path_words [of said] by (auto simp: raw_def meant_query_def by_path_def query_by_payload_def)
  next
    case False
    then show ?thesis using norm
      by (auto simp: raw_def meant_query_def target_queries_def listing_words_def split: if_splits)
  qed
  moreover have "query \<in> set target_queries"
    using normalized_query_names [of T arguments] assms(1) by (simp add: target_queries_def)
  moreover have "normalize_query_state_arguments T (query_arguments (name, p)) = (name, p)" if "name \<in> set target_queries" for name p
    using that by (intro query_stable) (simp add: target_queries_def)
  ultimately show ?thesis by blast
qed

text \<open>The words for an action, and what each means; another word goes by what the payload holds.\<close>

definition action_words :: "(string \<times> string) list" where
  "action_words = [(''set_value'', ''set_value''), (''write'', ''set_value''), (''set'', ''set_value''), (''update'', ''set_value''),
     (''store'', ''set_value''), (''book_ticket'', ''set_value''), (''purchase_ticket'', ''set_value''), (''create_order'', ''set_value''),
     (''place_order'', ''set_value''), (''book_flight'', ''set_value''), (''reserve_flight'', ''set_value''), (''ticket_order'', ''set_value''),
     (''delete_value'', ''delete_value''), (''delete'', ''delete_value''), (''remove'', ''delete_value''),
     (''increment_value'', ''increment_value''), (''increment'', ''increment_value''), (''add'', ''increment_value'')]"

definition meant_action :: "string \<Rightarrow> dict \<Rightarrow> string" where
  "meant_action word payload = (case map_of action_words word of Some action \<Rightarrow> action
     | None \<Rightarrow> if holds_key payload ''delta'' \<and> \<not> holds_key payload ''value'' then ''increment_value'' else ''set_value'')"

lemma meant_action_table:
  "meant_action word payload = (if word \<in> {''set_value'', ''delete_value'', ''increment_value''} then word
     else if word \<in> {''book_ticket'', ''purchase_ticket'', ''create_order'', ''place_order'', ''book_flight'', ''reserve_flight'',
       ''ticket_order''} then ''set_value''
     else if word \<in> {''write'', ''set'', ''update'', ''store''} then ''set_value''
     else if word \<in> {''delete'', ''remove''} then ''delete_value''
     else if word \<in> {''increment'', ''add''} then ''increment_value''
     else if holds_key payload ''value'' then ''set_value''
     else if holds_key payload ''delta'' then ''increment_value'' else ''set_value'')"
proof (cases "word \<in> set (map fst action_words)")
  case True
  then have "word \<in> {''set_value'', ''write'', ''set'', ''update'', ''store'', ''book_ticket'', ''purchase_ticket'', ''create_order'', ''place_order'',
      ''book_flight'', ''reserve_flight'', ''ticket_order'', ''delete_value'', ''delete'', ''remove'', ''increment_value'', ''increment'', ''add''}"
    by (simp only: action_words_def list.map fst_conv list.set)
  then show ?thesis
    unfolding insert_iff empty_iff by (elim disjE) (simp_all add: meant_action_def action_words_def)
next
  case False
  then have "map_of action_words word = None" by (simp add: map_of_eq_None_iff)
  moreover have "word \<notin> {''set_value'', ''delete_value'', ''increment_value''}"
      "word \<notin> {''book_ticket'', ''purchase_ticket'', ''create_order'', ''place_order'', ''book_flight'', ''reserve_flight'', ''ticket_order''}"
      "word \<notin> {''write'', ''set'', ''update'', ''store''}" "word \<notin> {''delete'', ''remove''}" "word \<notin> {''increment'', ''add''}"
    using False by (simp_all only: action_words_def list.map fst_conv list.set insert_iff empty_iff de_Morgan_disj simp_thms)
  ultimately show ?thesis by (simp only: meant_action_def option.case if_False) simp
qed

text \<open>What an action without a payload says itself: a value of any kind, and texts for the rest.\<close>

definition text_entry :: "dict \<Rightarrow> string \<Rightarrow> json option" where
  "text_entry d k = (case dict_get d k of JStr s \<Rightarrow> Some (JStr s) | _ \<Rightarrow> None)"

definition given_to_action :: "dict \<Rightarrow> string \<Rightarrow> json option" where
  "given_to_action arguments k =
     (if obj_of (dict_get arguments ''payload'') \<noteq> [] then map_of (obj_of (dict_get arguments ''payload'')) k
      else if k = ''value'' then map_of arguments ''value''
      else if k \<in> {''key'', ''order_id'', ''flight_no''} then text_entry arguments k
      else None)"

lemma copied_lookup: "map_of (copy_str arguments k p) j = (if j = k \<and> text_entry arguments k \<noteq> None then text_entry arguments k else map_of p j)"
  by (auto simp: keyed_lookup text_entry_def split: json.split)

definition target_actions :: "string list" where
  "target_actions = [''set_value'', ''delete_value'', ''increment_value'']"

text \<open>C24: However a model words an action, it is brought into the action of the target that its word means, or, for a word that is
  not known, its payload: a delta without a value increments, all else sets. The payload is handed on with all its entries and no
  other; without one, the entries are those of the request itself. An identifier that is not blank is kept, and the fallback
  stands for any other. An action in one of the target's forms is left as it is, whatever its payload.\<close>

theorem actions_take_the_form_of_the_target:
  assumes "normalize_apply_action_arguments T arguments fallback = (action, payload, i)"
    and "word = map lower_char (strip (py_str T (dict_get_or arguments ''action_name'' (JStr []))))"
  shows "action = meant_action word payload \<and> action \<in> set target_actions \<and> map_of payload = given_to_action arguments \<and>
    i = (case dict_get arguments ''execution_id'' of JStr s \<Rightarrow> if strip s = [] then fallback else s | _ \<Rightarrow> fallback) \<and>
    (\<forall>name p j. name \<in> set target_actions \<and> strip j \<noteq> [] \<longrightarrow>
      normalize_apply_action_arguments T (action_arguments (name, p, j)) fallback = (name, p, j))"
proof -
  have payload: "payload = (if obj_of (dict_get arguments ''payload'') = [] then copy_str arguments ''flight_no'' (copy_str arguments ''order_id''
            ((if holds_key arguments ''value'' then AList.update ''value'' (dict_get arguments ''value'') else (\<lambda>p. p))
            (copy_str arguments ''key'' (obj_of (dict_get arguments ''payload''))))) else obj_of (dict_get arguments ''payload''))"
    using assms(1) by (simp only: normalize_apply_action_arguments_def Let_def prod.inject)
  have "map_of payload k = given_to_action arguments k" for k
  proof (cases "obj_of (dict_get arguments ''payload'') = []")
    case True
    define put where "put = (if holds_key arguments ''value'' then AList.update ''value'' (dict_get arguments ''value'') else (\<lambda>p. p))"
    have put: "map_of (put p) j = (if j = ''value'' \<and> holds_key arguments ''value'' then map_of arguments ''value'' else map_of p j)" for p j
      by (auto simp: put_def update_conv' dict_get_def)
    have "payload = copy_str arguments ''flight_no'' (copy_str arguments ''order_id'' (put (copy_str arguments ''key'' [])))"
      unfolding payload put_def using True by (simp only: if_True refl)
    then show ?thesis using True by (simp add: put given_to_action_def copied_lookup)
  qed (simp add: payload given_to_action_def)
  moreover have "fst (normalize_apply_action_arguments T arguments fallback) =
      meant_action word (fst (snd (normalize_apply_action_arguments T arguments fallback)))"
    unfolding meant_action_table assms(2) normalize_apply_action_arguments_def Let_def fst_conv snd_conv by (rule refl)
  then have "action = meant_action word payload" by (simp only: assms(1) fst_conv snd_conv)
  moreover have "i = (case dict_get arguments ''execution_id'' of JStr s \<Rightarrow> if strip s = [] then fallback else s | _ \<Rightarrow> fallback)"
    using assms(1) by (auto simp: normalize_apply_action_arguments_def Let_def non_blank_def text_of_def split: json.splits)
  moreover have "action \<in> set target_actions"
    using normalized_action_names [of T arguments fallback] assms(1) by (simp add: target_actions_def)
  moreover have "normalize_apply_action_arguments T (action_arguments (name, p, j)) fallback = (name, p, j)"
    if "name \<in> set target_actions" "strip j \<noteq> []" for name p j
    using that by (intro action_stable) (simp_all add: target_actions_def)
  ultimately show ?thesis by blast
qed

text \<open>A booking that is worded freely, and a query by a path.\<close>

definition free_booking :: dict where
  "free_booking = [(''action_name'', JStr '' Book_Flight ''), (''key'', JStr ''orders/RA512''), (''value'', JInt 1), (''execution_id'', JStr '' '')]"

definition path_query :: dict where
  "path_query = [(''query_name'', JStr ''flights/RA512''), (''payload'', JObj [(''limit'', JInt 2)])]"

theorem queries_take_the_form_of_the_target_witness:
  "\<exists>payload. normalize_query_state_arguments demo_forms path_query = (''get_value'', payload) \<and>
     map_of payload ''key'' = Some (JStr ''flights/RA512'') \<and> map_of payload ''limit'' = Some (JInt 2)"
proof -
  obtain query payload where n: "normalize_query_state_arguments demo_forms path_query = (query, payload)" by fastforce
  have said: "''flights/RA512'' = strip (py_str demo_forms (dict_get_or path_query ''query_name'' (JStr [])))" by code_simp
  note q = queries_take_the_form_of_the_target [OF n said]
  have asked: "asked path_query ''key'' = None" "asked path_query ''limit'' = Some (JInt 2)"
      "query_extras path_query ''flights/RA512'' ''key'' = Some (JStr ''flights/RA512'')"
      "map lower_char ''flights/RA512'' \<notin> set target_queries" "map lower_char ''flights/RA512'' \<notin> set listing_words"
    by code_simp+
  have lookup: "map_of payload k = (case asked path_query k of Some v \<Rightarrow> Some v | None \<Rightarrow> query_extras path_query ''flights/RA512'' k)" for k
    using q by simp
  have "query = query_by_payload payload" using q asked(4,5) by (simp add: meant_query_def)
  with n show ?thesis by (auto simp: lookup asked query_by_payload_def)
qed

theorem actions_take_the_form_of_the_target_witness:
  "\<exists>payload. normalize_apply_action_arguments demo_forms free_booking ''e1'' = (''set_value'', payload, ''e1'') \<and>
     map_of payload ''key'' = Some (JStr ''orders/RA512'') \<and> map_of payload ''value'' = Some (JInt 1)"
proof -
  obtain action payload i where n: "normalize_apply_action_arguments demo_forms free_booking ''e1'' = (action, payload, i)"
    by (metis prod_cases3)
  have word: "''book_flight'' = map lower_char (strip (py_str demo_forms (dict_get_or free_booking ''action_name'' (JStr []))))" by code_simp
  note q = actions_take_the_form_of_the_target [OF n word]
  have given: "given_to_action free_booking ''key'' = Some (JStr ''orders/RA512'')" "given_to_action free_booking ''value'' = Some (JInt 1)"
      "map_of action_words ''book_flight'' = Some ''set_value''" "dict_get free_booking ''execution_id'' = JStr '' ''" "strip '' '' = []"
    by code_simp+
  have "action = ''set_value''" "i = ''e1''" using q given(3-5) by (simp_all add: meant_action_def)
  with n q given(1,2) show ?thesis by auto
qed

section \<open>A run on live models is a run of the system\<close>

definition runs_system :: "runtime \<Rightarrow> string \<Rightarrow> 't beside world \<Rightarrow> bool" where
  "runs_system R run_id w \<longleftrightarrow> canonical run_id \<and> hex_digest (sha256_hex R) \<and> system_reachable R w"

abbreviation in_system :: "runtime \<Rightarrow> string \<Rightarrow> ('t beside, 'a) op \<Rightarrow> bool" where
  "in_system R run_id m \<equiv> maintains (runs_system R run_id) (\<lambda>_. True) m"

lemma in_systemI:
  assumes "\<And>w. canonical run_id \<Longrightarrow> hex_digest (sha256_hex R) \<Longrightarrow> system_step R w (snd (m w))"
  shows "in_system R run_id m"
proof (rule maintainsI)
  fix w r w' assume "runs_system R run_id w" "m w = (r, w')"
  then show "runs_system R run_id w'"
    using assms [of w] system_reachable_step [of R w "snd (m w)"] by (simp add: runs_system_def)
qed simp

lemma timing_in_system: "timing_only w w' \<Longrightarrow> runs_system R run_id w \<Longrightarrow> runs_system R run_id w'"
  by (auto simp: timing_only_def runs_system_def intro: system_reachable_step [OF _ system_step.operation [OF facade_step.timing]])

lemma reads_in_system: "confined same_db m \<Longrightarrow> in_system R run_id m"
  by (rule maintains_timing [OF timing_in_system timing_reads])

lemmas timed_in_system = maintains_timed [where I = "runs_system R run_id" for R run_id, OF timing_in_system]

lemma phase_in_system: "(\<And>h. maintains (runs_system R run_id) J (body h)) \<Longrightarrow> maintains (runs_system R run_id) J (time_phase R phase parent md body)"
  unfolding time_phase_def by (rule timed_in_system) (assumption | rule timing_recorder)+

lemma step_in_system: "(\<And>h. maintains (runs_system R run_id) J (body h)) \<Longrightarrow> maintains (runs_system R run_id) J (time_step R run_id k i md body)"
  unfolding time_step_def by (rule timed_in_system) (assumption | rule timing_recorder)+

text \<open>The operations that the run calls.\<close>

lemma operations_in_system [upholds]:
  "in_system R run_id (call_tool g)" "in_system R run_id (call_outside f)"
  "in_system R run_id (start_run R run_id ms txt its mem b sc)"
  "in_system R run_id (record_context_message R run_id role content md name call_id)"
  "in_system R run_id (record_llm_turn R run_id item out said md)" "in_system R run_id (advance_plan_item R run_id item status note)"
  "in_system R run_id (checkpoint R run_id subsystem b)" "in_system R run_id (recover_run R C run_id now)"
  "in_system R run_id (execute_tool R b adapter (turn_call run_id item c))"
  by (intro in_systemI outside_system_step tool_system_step system_step.operation system_step.recovery system_step.call;
    (rule facade_step.intros)?; simp add: turn_call_def call_execution_id_def execution_id_canonical)+

lemma live_crash_in_system [upholds]: "in_system R run_id (live_crash_at E k phase)"
  unfolding live_crash_at_def by (rule upholds)

lemma live_parts_in_system [upholds]:
  "in_system (le_runtime E) run_id (live_ask E run_id k messages)"
  "in_system (le_runtime E) run_id (live_record_turn E run_id item k sp response c out)"
  "in_system (le_runtime E) run_id (live_transaction E k sp c (turn_call run_id item c))"
  "in_system (le_runtime E) run_id (live_recovery E run_id k sp now)"
  "in_system (le_runtime E) run_id (live_finish_item E run_id item k sp)"
  unfolding live_ask_def live_record_turn_def live_transaction_def live_recovery_def live_finish_item_def
  by (intro upholds phase_in_system TrueI)+

lemma live_settle_in_system [upholds]: "in_system (le_runtime E) run_id (live_settle E run_id k sp c tx L)"
  unfolding live_settle_def by (intro upholds reads_in_system agent_reads maintains_lift TrueI)

lemma live_turns_in_system [upholds]:
  "in_system (le_runtime E) run_id (live_tool_turn E run_id item k sp response c L)"
  "in_system (le_runtime E) run_id (live_final_turn E run_id n k sp response f L)"
  unfolding live_tool_turn_def live_final_turn_def Let_def
  by (intro upholds phase_in_system reads_in_system facade_reads TrueI)+

lemma live_step_in_system [upholds]: "in_system (le_runtime E) run_id (live_step E run_id n finished k L)"
  unfolding live_step_def Let_def
  by (intro maintains_if maintains_ret step_in_system maintains_then [OF live_crash_in_system]
    maintains_then [OF phase_in_system [OF live_parts_in_system(1)]] upholds TrueI)

lemma live_steps_in_system [upholds]: "in_system (le_runtime E) run_id (live_steps E run_id n finished ks L)"
proof (induction ks arbitrary: L)
  case (Cons k ks)
  have report: "in_system (le_runtime E) run_id (build_evaluation_report run_id True)"
    unfolding build_evaluation_report_def by (intro upholds reads_in_system log_reads TrueI)
  show ?case
    unfolding live_steps.simps
    by (rule maintains_then [OF live_step_in_system])
      (auto intro!: maintains_then [OF report] maintains_ret Cons.IH split: prod.split option.split)
qed (simp add: maintains_raise)

lemma live_loop_in_system [upholds]: "in_system (le_runtime E) run_id (live_loop E run_id n)"
  unfolding live_loop_def Let_def by (intro upholds reads_in_system agent_reads load_plan_reads)

text \<open>A run of the agent on live models under an identifier without blanks, from a state the system can reach,
  leaves such a state, whatever the models answer and wherever the run is killed.\<close>

theorem live_run_stays_reachable:
  assumes "canonical run_id" and "hex_digest (sha256_hex (le_runtime E))" and "system_reachable (le_runtime E) w"
    and "run_live_agent E run_id w = (r, w')"
  shows "system_reachable (le_runtime E) w'"
proof -
  have "in_system (le_runtime E) run_id (run_live_agent E run_id)"
    unfolding run_live_agent_def new_live_agent_def Let_def by (intro upholds maintains_lift TrueI)
  moreover have "runs_system (le_runtime E) run_id w" using assms(1-3) by (simp add: runs_system_def)
  ultimately show ?thesis using assms(4) by (auto simp: runs_system_def dest: maintainsD)
qed

definition demo_live_world :: "nat live_side beside world" where
  "demo_live_world = \<lparr>db = empty_db, conn_open = False, ticks = 0, uuids = 0, outside = (demo_live_side, [])\<rparr>"

theorem live_run_stays_reachable_witness:
  "system_reachable demo_runtime (snd (run_live_agent demo_live_env ''r1'' demo_live_world))"
proof -
  let ?w = demo_live_world
  have "canonical ''r1''" by code_simp
  moreover have R: "le_runtime demo_live_env = demo_runtime" by (simp add: demo_live_env_def)
  moreover have "hex_digest (sha256_hex demo_runtime)" by (simp add: demo_runtime_def demo_hex_digest)
  moreover have "system_reachable demo_runtime ?w" unfolding system_reachable_def by (rule exI [of _ ?w]) (simp add: demo_live_world_def)
  ultimately show ?thesis
    using live_run_stays_reachable [of "''r1''" demo_live_env ?w, OF _ _ _ surjective_pairing] by simp
qed

section \<open>What a resumed run says\<close>

text \<open>The messages keep their number, their roles and all that is not said by the assistant.\<close>

lemma restore_keeps:
  "list_all2 (\<lambda>m m'. chat_role m' = chat_role m \<and> (chat_role m \<noteq> ''assistant'' \<longrightarrow> m' = m)) ms (restore_outputs outputs ms)"
  by (induction outputs ms rule: restore_outputs.induct) auto

text \<open>With one text for each turn that was logged, each turn gets its text.\<close>

lemma restore_in_order:
  assumes "\<forall>m\<in>set ms. \<not> starts_with ''{'' (lstrip (chat_content m))" and "length outputs = length (filter (\<lambda>m. chat_role m = ''assistant'') ms)"
  shows "map chat_content (filter (\<lambda>m. chat_role m = ''assistant'') (restore_outputs outputs ms)) = outputs"
  using assms by (induction outputs ms rule: restore_outputs.induct) (auto simp: length_Suc_conv)

text \<open>
  A step whose process died after its turn was recorded is asked again: the context then has two messages for the item but
  the plan one text, the last. From there on every turn is given the text of the turn after it.
\<close>

lemma restored_texts_shift:
  assumes "chat_role m0 = ''assistant''" and "chat_role m1 = ''assistant''" and "chat_role m2 = ''assistant''"
    and "\<not> starts_with ''{'' (lstrip (chat_content m0))" and "\<not> starts_with ''{'' (lstrip (chat_content m1))"
    and "\<not> starts_with ''{'' (lstrip (chat_content m2))"
  shows "map chat_content (restore_outputs [text_of_step_0, text_of_step_1] [m0, m1, m2]) = [text_of_step_0, text_of_step_1, chat_content m2]"
  using assms by simp

end
