(* ===== verification/Live_Sweep.thy ===== *)
theory Live_Sweep
  imports Live_Run
begin

text \<open>
  \<open>example/openrouter_crash_recovery_e2e.py\<close>: the experiment that crashes the agent on live models and restarts it.
  As in the experiment on the logged run, a child is a run on the world of its directory and is given as the
  values of its options; what it prints is a JSON value. The environment of the process is a map.
\<close>

section \<open>The environment\<close>

type_synonym process_env = "(string \<times> string) list"

definition strip_char :: "char \<Rightarrow> string \<Rightarrow> string" where
  "strip_char c s = rev (dropWhile (\<lambda>x. x = c) (rev (dropWhile (\<lambda>x. x = c) s)))"

definition set_if_missing :: "string \<Rightarrow> string \<Rightarrow> process_env \<Rightarrow> process_env" where
  "set_if_missing key v env = (if map_of env key = None then AList.update key v env else env)"

definition load_env_line :: "string \<Rightarrow> process_env \<Rightarrow> process_env" where
  "load_env_line raw_line env = (let line = strip raw_line in
     if line = [] \<or> starts_with ''#'' line then env
     else if CHR ''='' \<notin> set line then (if starts_with ''sk-or-'' line then set_if_missing ''OPENROUTER_API_KEY'' line env else env)
     else let key = strip (takeWhile (\<lambda>c. c \<noteq> CHR ''='') line);
              v = strip_char (CHR 0x27) (strip_char (CHR 0x22) (strip (drop 1 (dropWhile (\<lambda>c. c \<noteq> CHR ''='') line)))) in
       if key \<noteq> [] then set_if_missing key v env else env)"

text \<open>The file, if there is one.\<close>

definition load_local_env_file :: "string option \<Rightarrow> process_env \<Rightarrow> process_env" where
  "load_local_env_file file env = (case file of None \<Rightarrow> env | Some s \<Rightarrow> fold load_env_line (splitlines s) env)"

definition resolve_model_names :: "process_env \<Rightarrow> string list option \<Rightarrow> string list" where
  "resolve_model_names env model = (case model of
     Some (m # ms) \<Rightarrow> filter (\<lambda>n. n \<noteq> []) (map strip (m # ms))
   | _ \<Rightarrow> openrouter_models_from_env (map_of env))"

section \<open>The scenario and the reports\<close>

definition default_steps :: "dict list" where
  "default_steps = [
     [(''kind'', JStr ''tool_call''), (''name'', JStr ''query-state''), (''operation_type'', JStr ''READ''),
      (''arguments'', JObj [(''query_name'', JStr ''list_keys''), (''payload'', JObj [(''prefix'', JStr ''flights/'')])]),
      (''rationale'', JStr ''Inspect available flights.'')],
     [(''kind'', JStr ''tool_call''), (''name'', JStr ''apply-action''), (''operation_type'', JStr ''WRITE''),
      (''arguments'', JObj [(''action_name'', JStr ''set_value''), (''payload'', JObj [(''key'', JStr ''orders/RA512''),
        (''value'', JObj [(''flight_no'', JStr ''RA512''), (''status'', JStr ''booked'')])])]),
      (''rationale'', JStr ''Persist the booking for RA512.'')],
     [(''kind'', JStr ''tool_call''), (''name'', JStr ''query-state''), (''operation_type'', JStr ''READ''),
      (''arguments'', JObj [(''query_name'', JStr ''get_value''), (''payload'', JObj [(''key'', JStr ''orders/RA512'')])]),
      (''rationale'', JStr ''Read back the saved booking.'')],
     [(''kind'', JStr ''final''), (''answer'', JStr ''Booked RA512 from LAX to JFK and confirmed the order.'')]]"

definition default_scenario :: dict where
  "default_scenario = [(''scenario_id'', JStr ''ticket-la-to-ny-openrouter-e2e''),
     (''description'', JStr ''Book one LAX to JFK flight for the requested date and confirm it was saved.''),
     (''target_seed_state'', JObj [flight ''RA501'' ''2026-05-14T07:30:00-07:00'' 280, flight ''RA512'' ''2026-05-14T09:00:00-07:00'' 325]),
     (''steps'', JList (map JObj default_steps))]"

definition default_scenario_text :: "text_forms \<Rightarrow> string" where
  "default_scenario_text T = stable_json_dumps T (JObj default_scenario)"

text \<open>The script has copies of the summary and of the timing report of the other experiment.\<close>

definition live_summarize_report :: "evaluation_report \<Rightarrow> dict" where
  "live_summarize_report = summarize_report"

definition live_format_ms :: "json \<Rightarrow> string res" where
  "live_format_ms = format_ms"

definition live_format_duration_line :: "text_forms \<Rightarrow> string \<Rightarrow> json \<Rightarrow> json \<Rightarrow> string res" where
  "live_format_duration_line = format_duration_line"

definition live_format_timing_report :: "text_forms \<Rightarrow> dict \<Rightarrow> string res" where
  "live_format_timing_report = format_timing_report"

definition print_child_output :: "string \<Rightarrow> string \<Rightarrow> string \<Rightarrow> string list" where
  "print_child_output label out err = [''--- '' @ label @ '' stdout ---'', out, ''--- '' @ label @ '' stderr ---'', err]"

section \<open>A child process\<close>

record live_args =
  lg_model :: "string list option"
  lg_crash_step :: int
  lg_crash_phase :: string
  lg_ambiguous_write :: bool

record live_child =
  lc_run_id :: string
  lc_crash :: bool
  lc_crash_step :: int
  lc_crash_phase :: string
  lc_ambiguous_write :: bool
  lc_model :: "string list option"

definition live_child_cmd :: "process_env \<Rightarrow> live_args \<Rightarrow> string \<Rightarrow> bool \<Rightarrow> live_child" where
  "live_child_cmd env args run_id crashes = \<lparr>lc_run_id = run_id, lc_crash = crashes, lc_crash_step = lg_crash_step args,
     lc_crash_phase = lg_crash_phase args, lc_ambiguous_write = lg_ambiguous_write args,
     lc_model = (let models = resolve_model_names env (lg_model args) in if models = [] then None else Some models)\<rparr>"

text \<open>The call of the agent: the rest of \<open>E\<close> is the clocks, the network, the scenario and the paths.\<close>

definition live_child_env :: "process_env \<Rightarrow> 'n live_env \<Rightarrow> live_child \<Rightarrow> 'n live_env" where
  "live_child_env env E a = E\<lparr>le_runtime := (le_runtime E)\<lparr>checkpoint_every_n_events := 4\<rparr>,
     le_api_key := (case map_of env ''OPENROUTER_API_KEY'' of Some k \<Rightarrow> k | None \<Rightarrow> []),
     le_models := (let models = resolve_model_names env (lc_model a) in if models = [] then openrouter_models_from_env (map_of env) else models),
     le_ambiguous_write := lc_ambiguous_write a, le_force_reset := lc_crash a, le_reset_target := lc_crash a, le_crash_phase := lc_crash_phase a\<rparr>"

definition live_child_simulator :: "live_child \<Rightarrow> crash_simulator option" where
  "live_child_simulator a = (if lc_crash a
     then Some \<lparr>crash_steps = {lc_crash_step a}, crash_once = True, triggered_steps = {}\<rparr> else None)"

definition run_live_child ::
  "(exn \<Rightarrow> int) \<Rightarrow> process_env \<Rightarrow> 'n live_env \<Rightarrow> live_child \<Rightarrow> ('n, int \<times> dict option) live_op" where
  "run_live_child died env E a w =
     (let start = w\<lparr>outside := ((fst (outside w))\<lparr>lv_crash := live_child_simulator a\<rparr>, snd (outside w))\<rparr> in
      case run_live_agent (live_child_env env E a) (lc_run_id a) start of
        (Inr result, w') \<Rightarrow> (Inr (0, Some [(''crashed'', JBool False), (''result'', JObj result)]), w')
      | (Inl e, w') \<Rightarrow>
          if exn_class e \<noteq> SimulatedCrash then (Inr (died e, None), w') else
          (case build_evaluation_report (lc_run_id a) True w' of
             (Inl e', w'') \<Rightarrow> (Inr (died e', None), w'')
           | (Inr report, w'') \<Rightarrow> (Inr (crash_exit_code, Some [(''crashed'', JBool True), (''run_id'', JStr (lc_run_id a)),
               (''crash_message'', JStr (exn_text e)), (''evaluation_summary'', JObj (live_summarize_report report))]), w'')))"

section \<open>The experiment\<close>

record live_paths =
  lp_runtime_dir :: string
  lp_scenario_file :: string
  lp_target_store_path :: string
  lp_output_path :: string
  lp_timing_output_path :: string

definition key_is_required :: dict where
  "key_is_required = [(''ok'', JBool False), (''error'', JStr ''OPENROUTER_API_KEY is required for the real OpenRouter e2e test.'')]"

definition run_live_parent ::
  "(exn \<Rightarrow> int) \<Rightarrow> process_env \<Rightarrow> 'n live_env \<Rightarrow> live_args \<Rightarrow> live_paths \<Rightarrow> string \<Rightarrow> ('n, int \<times> (dict \<times> string) option) live_op" where
  "run_live_parent died env E args P run_id =
     (let R = le_runtime E; child = (\<lambda>crashes. run_live_child died env E (live_child_cmd env args run_id crashes)) in
      if map_of env ''OPENROUTER_API_KEY'' \<in> {None, Some []} then ret (2, Some (key_is_required, [])) else
      bind (child True) (\<lambda>(crash_code, _).
      if crash_code \<noteq> crash_exit_code then ret (if crash_code \<noteq> 0 then crash_code else 1, None) else
      bind (child False) (\<lambda>(resume_code, _).
      if resume_code \<noteq> 0 then ret (resume_code, None) else
      bind (build_evaluation_report run_id True) (\<lambda>report.
      bind (rebuild_state R run_id None 1000) (\<lambda>bundle.
      bind (lift (planner_statuses bundle)) (\<lambda>statuses.
      let summary = live_summarize_report report;
          result = [(''ok'', JBool True), (''run_id'', JStr run_id), (''runtime_dir'', JStr (lp_runtime_dir P)),
            (''scenario_file'', JStr (lp_scenario_file P)), (''target_store_path'', JStr (lp_target_store_path P)),
            (''models'', str_list (resolve_model_names env (lg_model args))),
            (''inference_log_path'', JStr (lp_runtime_dir P @ ''/openrouter_inference.jsonl'')),
            (''crash'', JObj [(''step'', JInt (lg_crash_step args)), (''phase'', JStr (lg_crash_phase args)), (''exit_code'', JInt crash_code)]),
            (''resume_exit_code'', JInt resume_code), (''evaluation_summary'', JObj summary),
            (''latest_seq'', dict_get bundle ''latest_seq''), (''planner_statuses'', JList statuses), (''report'', JObj (report_to_dict report)),
            (''output_path'', JStr (lp_output_path P)), (''timing_output_path'', JStr (lp_timing_output_path P))] in
      bind (lift (live_format_timing_report (forms R) summary)) (\<lambda>timing.
      ret (0, Some (result, timing)))))))))"

section \<open>What the file of the environment may do\<close>

lemma set_if_missing_keeps: "map_of env k = Some v \<Longrightarrow> map_of (set_if_missing key x env) k = Some v"
  by (auto simp: set_if_missing_def update_conv)

lemma env_line_keeps: "map_of env k = Some v \<Longrightarrow> map_of (load_env_line line env) k = Some v"
  by (simp add: load_env_line_def Let_def set_if_missing_keeps)

text \<open>A variable that is set is never replaced by the file.\<close>

lemma env_file_keeps: "map_of env k = Some v \<Longrightarrow> map_of (load_local_env_file file env) k = Some v"
proof -
  have "map_of (fold load_env_line ls env) k = Some v" if "map_of env k = Some v" for ls env
    using that by (induction ls arbitrary: env) (simp_all add: env_line_keeps)
  then show "map_of env k = Some v \<Longrightarrow> ?thesis" by (simp add: load_local_env_file_def split: option.split)
qed

end
