(* ===== verification/Mock_Cli.thy ===== *)
theory Mock_Cli
  imports Soft_Log
begin

text \<open>
  The command lines of the mock agent and of the crash simulator, from the parsed options on: they read a history file, run
  it, and print JSON. The file system is a parameter: what a path reads as, how a path prints, and the message
  of a JSON decoding error.
\<close>

section \<open>History files\<close>

record history_files =
  history_text :: "string \<Rightarrow> string res"
  history_path_text :: "string \<Rightarrow> string"
  history_decode_error :: "string \<Rightarrow> string"

definition load_history_payload :: "history_files \<Rightarrow> string \<Rightarrow> dict res" where
  "load_history_payload F file_path =
     rbind (history_text F file_path) (\<lambda>raw.
     case json_loads raw of
       None \<Rightarrow> value_error (''invalid history JSON at '' @ history_path_text F file_path @ '': '' @ history_decode_error F raw)
     | Some (JObj payload) \<Rightarrow> Inr payload
     | Some _ \<Rightarrow> value_error ''history file payload must be a JSON object'')"

definition load_script_from_history_file :: "text_forms \<Rightarrow> history_files \<Rightarrow> string \<Rightarrow> turn_response list res" where
  "load_script_from_history_file T F file_path = rbind (load_history_payload F file_path) (load_script_from_history_payload T)"

definition simulate_history_file :: "text_forms \<Rightarrow> history_files \<Rightarrow> string \<Rightarrow> int list \<Rightarrow> bool \<Rightarrow> dict res" where
  "simulate_history_file T F history_file steps once =
     rbind (load_history_payload F history_file) (\<lambda>payload. simulate_history_execution T history_file payload steps once)"

section \<open>Printing\<close>

text \<open>What a command has printed, and its end: the exit code and, for an error, the line on the error stream.\<close>

type_synonym 'a printing = "(string list, 'a) act"

definition print_json :: "text_forms \<Rightarrow> dict \<Rightarrow> unit printing" where
  "print_json T payload = modify (\<lambda>lines. lines @ [json_dumps T (JObj payload)])"

definition exit_code_or_error :: "unit printing \<Rightarrow> (int \<times> string option) printing" where
  "exit_code_or_error body = try_catch (bind body (\<lambda>_. ret (0, None))) (\<lambda>e. ret (2, Some (exn_text e)))"

section \<open>The mock agent\<close>

record mock_agent_args =
  ma_history_file :: string
  ma_step_index :: int
  ma_run_id :: string
  ma_allow_step_overflow :: bool
  ma_show_script_info :: bool

definition script_info :: "dict \<Rightarrow> turn_response list \<Rightarrow> chat_message list \<Rightarrow> dict" where
  "script_info history_payload script messages = [
     (''scenario_id'', dict_get history_payload ''scenario_id''), (''description'', dict_get history_payload ''description''),
     (''script_steps'', JInt (int (length script))), (''conversation_messages'', JInt (int (length messages)))]"

definition mock_agent_cli :: "text_forms \<Rightarrow> history_files \<Rightarrow> mock_agent_args \<Rightarrow> (int \<times> string option) printing" where
  "mock_agent_cli T F args = exit_code_or_error (
     bind (lift (load_history_payload F (ma_history_file args))) (\<lambda>history_payload.
     bind (lift (load_script_from_history_payload T history_payload)) (\<lambda>script.
     bind (lift (load_messages_from_history_payload history_payload)) (\<lambda>messages.
     bind (if ma_show_script_info args then print_json T (script_info history_payload script messages) else ret ()) (\<lambda>_.
     let agent = scripted_agent_init script (\<not> ma_allow_step_overflow args) ''DONE'';
         request = \<lparr>turn_messages = messages, turn_available_tools = [], turn_run_id = ma_run_id args,
           turn_step_index = ma_step_index args, turn_metadata = [], turn_max_output_tokens = 512, turn_temperature = Fin 0\<rparr> in
     bind (lift (fst (generate_turn request agent))) (\<lambda>response. print_json T (response_to_dict response)))))))"

section \<open>The crash simulator\<close>

record crash_cli_args =
  cc_history_file :: string
  cc_crash_step :: "int list"
  cc_repeat_crash :: bool

definition crash_simulator_cli :: "text_forms \<Rightarrow> history_files \<Rightarrow> crash_cli_args \<Rightarrow> (int \<times> string option) printing" where
  "crash_simulator_cli T F args = exit_code_or_error (
     bind (lift (simulate_history_file T F (cc_history_file args) (cc_crash_step args) (\<not> cc_repeat_crash args))) (print_json T))"

section \<open>How a command ends\<close>

lemma exit_code_is_told:
  assumes "exit_code_or_error body lines = (r, lines')" and "\<And>e lines'. body lines = (Inl e, lines') \<Longrightarrow> is_exception e"
  shows "\<exists>code err. r = Inr (code, err) \<and> code = (if err = None then 0 else 2)"
  using assms by (auto simp: exit_code_or_error_def try_catch_def bind_def split: prod.splits sum.splits if_splits)

text \<open>
  A step inside the script is served whatever the options: the command prints it, and nothing else unless the
  script's figures are asked for, and exits with 0.
\<close>

lemma served_step_is_printed:
  assumes "load_history_payload F (ma_history_file args) = Inr d" and "load_script_from_history_payload T d = Inr script"
    and "load_messages_from_history_payload d = Inr messages" and "0 \<le> ma_step_index args" and "ma_step_index args < int (length script)"
  shows "mock_agent_cli T F args lines = (Inr (0, None), lines @
    (if ma_show_script_info args then [json_dumps T (JObj (script_info d script messages))] else []) @
    [json_dumps T (JObj (response_to_dict (script ! nat (ma_step_index args))))])"
proof -
  have "fst (generate_turn request (scripted_agent_init script strict ''DONE'')) = Inr (script ! nat (ma_step_index args))"
    if "turn_step_index request = ma_step_index args" for request strict
    using assms(4,5) that by (simp add: generate_turn_def scripted_agent_init_def bind_def Let_def)
  then show ?thesis
    by (simp add: mock_agent_cli_def exit_code_or_error_def try_catch_def bind_def assms(1-3) print_json_def Let_def)
qed

text \<open>Past the script's end the command fails, unless overflow is allowed: then it prints the final answer \<open>DONE\<close>.\<close>

lemma overflow_is_an_error:
  assumes "load_history_payload F (ma_history_file args) = Inr d" and "load_script_from_history_payload T d = Inr script"
    and "load_messages_from_history_payload d = Inr messages" and "int (length script) \<le> ma_step_index args"
    and "\<not> ma_allow_step_overflow args"
  shows "\<exists>err lines'. mock_agent_cli T F args lines = (Inr (2, Some err), lines')"
proof -
  have "fst (generate_turn request (scripted_agent_init script True ''DONE'')) = Inl (Exn IndexError (''script has '' @ int_str (int (length script)) @
      '' steps, cannot serve step_index='' @ int_str (ma_step_index args)))" if "turn_step_index request = ma_step_index args" for request
    using assms(4) that by (simp add: generate_turn_def scripted_agent_init_def bind_def Let_def)
  then show ?thesis
    using assms(5) by (simp add: mock_agent_cli_def exit_code_or_error_def try_catch_def bind_def assms(1-3) print_json_def Let_def is_exception_def)
qed

end
