(* ===== verification/Workers.thy ===== *)
theory Workers
  imports Execution_Machine
begin

text \<open>
  Several workers on one database. \<open>TransactionManager.execute_tool\<close> holds no lock from its first look to its
  last record: the per-run lock and the transaction cover one operation of the facade each
  (\<open>LoggingService._run_write\<close>). A worker is the code of \<open>execute_tool\<close> cut at these operations; the steps of
  the workers interleave in any order, with each other and with whatever else uses the database.
\<close>

section \<open>One worker\<close>

text \<open>Where a worker is: what it does in its next step, with the locals it needs then.\<close>

datatype worker =
    Looking
  | Intending operation_type
  | Checking operation_type
  | Marking operation_type
  | Sending operation_type bool
  | Recording operation_type bool "exn + dict"
  | Finished "exn + transaction_result"

text \<open>An operation, and where its return leads; what it raises ends the call.\<close>

definition then_at :: "('t, 'a) op \<Rightarrow> ('a \<Rightarrow> worker) \<Rightarrow> 't world \<Rightarrow> worker \<times> 't world" where
  "then_at m next_at w = (case m w of (Inl e, w') \<Rightarrow> (Finished (Inl e), w') | (Inr x, w') \<Rightarrow> (next_at x, w'))"

definition after_look :: "operation_type \<Rightarrow> external_result option \<Rightarrow> worker" where
  "after_look kind existing = (case existing of
     None \<Rightarrow> Intending kind
   | Some record \<Rightarrow> if res_execution_status record \<noteq> VERIFIED_NOT_FOUND then Finished (Inr (handle_existing record))
       else Sending kind True)"

definition after_check :: "runtime \<Rightarrow> bool \<Rightarrow> tool_call \<Rightarrow> operation_type \<Rightarrow> external_result option \<Rightarrow> worker" where
  "after_check R dispatch_reads c kind found = (case found of
     None \<Rightarrow> Finished (Inl (Exn RuntimeError (''tool intent missing after logging for execution_id='' @ call_execution_id R c)))
   | Some current \<Rightarrow> if res_execution_status current \<noteq> INTENT_LOGGED then Finished (Inr (handle_existing current))
       else if kind = WRITE \<or> dispatch_reads then Marking kind else Sending kind False)"

definition after_send :: "operation_type \<Rightarrow> bool \<Rightarrow> exn + dict \<Rightarrow> worker" where
  "after_send kind is_verified_replay outcome = (case outcome of
     Inl e \<Rightarrow> if is_exception e then Recording kind is_verified_replay outcome else Finished (Inl e)
   | Inr _ \<Rightarrow> Recording kind is_verified_replay outcome)"

fun worker_step :: "runtime \<Rightarrow> bool \<Rightarrow> 't tool_adapter \<Rightarrow> tool_call \<Rightarrow> worker \<Rightarrow> 't world \<Rightarrow> worker \<times> 't world" where
  "worker_step R dispatch_reads adapter c Looking w =
     (case normalize_operation_type (call_operation_type c) of
        Inl e \<Rightarrow> (Finished (Inl e), w)
      | Inr kind \<Rightarrow> then_at (repo_get_result R (call_execution_id R c)) (after_look kind) w)"
| "worker_step R dispatch_reads adapter c (Intending kind) w =
     then_at (record_tool_intent R (call_run_id c) (call_plan_item_id c) (call_execution_id R c) (call_tool_name c)
       (call_request c) (operation_value kind)) (\<lambda>_. Checking kind) w"
| "worker_step R dispatch_reads adapter c (Checking kind) w =
     then_at (repo_get_result R (call_execution_id R c)) (after_check R dispatch_reads c kind) w"
| "worker_step R dispatch_reads adapter c (Marking kind) w =
     then_at (record_tool_dispatch R (call_run_id c) (call_execution_id R c)) (\<lambda>_. Sending kind False) w"
| "worker_step R dispatch_reads adapter c (Sending kind is_verified_replay) w =
     (case invoke_checked (adapter_call R adapter c kind) w of
        (outcome, w') \<Rightarrow> (after_send kind is_verified_replay outcome, w'))"
| "worker_step R dispatch_reads adapter c (Recording kind is_verified_replay outcome) w =
     (case (case outcome of Inl e \<Rightarrow> record_failure R c kind is_verified_replay e | Inr response \<Rightarrow> record_success R c kind response) w of
        (result, w') \<Rightarrow> (Finished result, w'))"
| "worker_step R dispatch_reads adapter c (Finished result) w = (Finished result, w)"

text \<open>A worker alone, for some number of steps.\<close>

definition worker_run :: "runtime \<Rightarrow> bool \<Rightarrow> 't tool_adapter \<Rightarrow> tool_call \<Rightarrow> nat \<Rightarrow> worker \<times> 't world \<Rightarrow> worker \<times> 't world" where
  "worker_run R dispatch_reads adapter c n = (\<lambda>(p, w). worker_step R dispatch_reads adapter c p w) ^^ n"

lemma worker_run_simps [simp]:
  "worker_run R dr adapter c 0 s = s"
  "worker_run R dr adapter c (Suc n) (p, w) = worker_run R dr adapter c n (worker_step R dr adapter c p w)"
  by (simp_all add: worker_run_def funpow_swap1)

lemma worker_run_finished [simp]: "worker_run R dr adapter c n (Finished r, w) = (Finished r, w)"
  by (induction n) simp_all

text \<open>From the \<open>try\<close> on, two steps are left; from each operation before it, one more.\<close>

lemma run_sending:
  "worker_run R dr adapter c (Suc (Suc n)) (Sending kind b, w) = (case dispatch_call R adapter c kind b w of (r, w') \<Rightarrow> (Finished r, w'))"
  by (auto simp: dispatch_call_def after_send_def split: prod.splits sum.splits)

lemma run_then_at:
  "worker_run R dr adapter c n (then_at m next_at w) = (case m w of (Inl e, w') \<Rightarrow> (Finished (Inl e), w')
     | (Inr x, w') \<Rightarrow> worker_run R dr adapter c n (next_at x, w'))"
  by (simp add: then_at_def split: prod.splits sum.splits)

lemma finished_bind:
  "(case bind m f w of (r, w') \<Rightarrow> (Finished r, w')) = (case m w of (Inl e, w') \<Rightarrow> (Finished (Inl e), w')
     | (Inr x, w') \<Rightarrow> (case f x w' of (r, w'') \<Rightarrow> (Finished r, w'')))"
  by (simp add: bind_def split: prod.splits sum.splits)

lemma run_marking:
  "worker_run R dr adapter c (Suc (Suc (Suc n))) (if kind = WRITE \<or> dr then Marking kind else Sending kind False, w) =
    (case bind (if kind = WRITE \<or> dr then bind (record_tool_dispatch R (call_run_id c) (call_execution_id R c)) (\<lambda>_. ret ()) else ret ())
       (\<lambda>_. dispatch_call R adapter c kind False) w of (r, w') \<Rightarrow> (Finished r, w'))"
proof (cases "kind = WRITE \<or> dr")
  case True
  have "worker_run R dr adapter c (Suc (Suc (Suc n))) (Marking kind, w) =
    (case record_tool_dispatch R (call_run_id c) (call_execution_id R c) w of (Inl e, w') \<Rightarrow> (Finished (Inl e), w')
     | (Inr x, w') \<Rightarrow> (case dispatch_call R adapter c kind False w' of (r, w'') \<Rightarrow> (Finished r, w'')))"
    unfolding worker_run_simps(2) [of R dr adapter c "Suc (Suc n)"] worker_step.simps run_then_at run_sending ..
  with True show ?thesis by (simp add: finished_bind del: worker_run_simps(2)) (simp add: bind_def split: prod.splits sum.splits)
next
  case False
  then show ?thesis using run_sending [of R dr adapter c "Suc n"] by (simp del: worker_run_simps(2))
qed

text \<open>The cut is the right one: a worker that nobody disturbs is \<open>execute_tool\<close>, its result and its world.\<close>

lemma undisturbed_worker_is_the_call:
  "worker_run R dr adapter c 6 (Looking, w) = (case execute_tool R dr adapter c w of (r, w') \<Rightarrow> (Finished r, w'))"
proof (cases "normalize_operation_type (call_operation_type c)")
  case (Inr kind)
  have check_run: "worker_run R dr adapter c (Suc (Suc (Suc (Suc n)))) (Checking kind, v) =
    (case repo_get_result R (call_execution_id R c) v of (Inl e, w') \<Rightarrow> (Finished (Inl e), w')
     | (Inr found, w') \<Rightarrow> worker_run R dr adapter c (Suc (Suc (Suc n))) (after_check R dr c kind found, w'))" for v n
    unfolding worker_run_simps(2) [of R dr adapter c "Suc (Suc (Suc n))"] worker_step.simps run_then_at ..
  have intend_run: "worker_run R dr adapter c (Suc (Suc (Suc (Suc (Suc n))))) (Intending kind, v) =
    (case record_tool_intent R (call_run_id c) (call_plan_item_id c) (call_execution_id R c) (call_tool_name c)
       (call_request c) (operation_value kind) v of (Inl e, w') \<Rightarrow> (Finished (Inl e), w')
     | (Inr _, w') \<Rightarrow> worker_run R dr adapter c (Suc (Suc (Suc (Suc n)))) (Checking kind, w'))" for v n
    unfolding worker_run_simps(2) [of R dr adapter c "Suc (Suc (Suc (Suc n)))"] worker_step.simps run_then_at ..
  have look_run: "worker_run R dr adapter c (Suc (Suc (Suc (Suc (Suc (Suc 0)))))) (Looking, w) =
    (case repo_get_result R (call_execution_id R c) w of (Inl e, w') \<Rightarrow> (Finished (Inl e), w')
     | (Inr found, w') \<Rightarrow> worker_run R dr adapter c (Suc (Suc (Suc (Suc (Suc 0))))) (after_look kind found, w'))"
    unfolding worker_run_simps(2) [of R dr adapter c "Suc (Suc (Suc (Suc (Suc 0))))"] worker_step.simps Inr sum.case run_then_at ..
  let ?checked = "\<lambda>found. case found of
      None \<Rightarrow> raise (Exn RuntimeError (''tool intent missing after logging for execution_id='' @ call_execution_id R c))
    | Some current \<Rightarrow> if res_execution_status current \<noteq> INTENT_LOGGED then ret (handle_existing current) else
        bind (if kind = WRITE \<or> dr then bind (record_tool_dispatch R (call_run_id c) (call_execution_id R c)) (\<lambda>_. ret ()) else ret ())
          (\<lambda>_. dispatch_call R adapter c kind False)"
  have checked: "worker_run R dr adapter c (Suc (Suc (Suc n))) (after_check R dr c kind found, v) =
    (case ?checked found v of (r, w') \<Rightarrow> (Finished r, w'))" for found v n
    by (cases found) (simp_all add: after_check_def run_marking del: worker_run_simps(2))
  have check_full: "worker_run R dr adapter c (Suc (Suc (Suc (Suc n)))) (Checking kind, v) =
    (case bind (repo_get_result R (call_execution_id R c)) ?checked v of (r, w') \<Rightarrow> (Finished r, w'))" for v n
    unfolding check_run checked finished_bind ..
  have looked: "worker_run R dr adapter c (Suc (Suc (Suc (Suc (Suc 0))))) (after_look kind existing, v) =
    (case (case existing of
         None \<Rightarrow> bind (record_tool_intent R (call_run_id c) (call_plan_item_id c) (call_execution_id R c) (call_tool_name c)
           (call_request c) (operation_value kind)) (\<lambda>_. bind (repo_get_result R (call_execution_id R c)) (?checked))
       | Some record \<Rightarrow> if res_execution_status record \<noteq> VERIFIED_NOT_FOUND then ret (handle_existing record) else dispatch_call R adapter c kind True)
     v of (r, w') \<Rightarrow> (Finished r, w'))" for existing v
  proof (cases existing)
    case None
    then show ?thesis unfolding after_look_def None option.case intend_run check_full finished_bind by simp
  next
    case (Some r)
    then show ?thesis by (simp add: after_look_def run_sending del: worker_run_simps(2))
  qed
  have six: "(6::nat) = Suc (Suc (Suc (Suc (Suc (Suc 0)))))" by simp
  show ?thesis
    unfolding six look_run looked execute_tool_def Let_def finished_bind Inr by simp
qed (simp add: execute_tool_def eval_nat_numeral)

end
