(* ===== verification/Worker_Teams.thy ===== *)
theory Worker_Teams
  imports Workers
begin

text \<open>
  Teams of workers: the step relation of any number of workers that share a database with each other and with
  whatever else uses it, an executable schedule, and what holds of a worker however the steps interleave.
\<close>

section \<open>Teams\<close>

type_synonym 't team = "(tool_call \<times> worker) list \<times> 't world"

text \<open>
  One worker makes its next step, or something else uses the database: an operation of the facade, by a recovery or
  by another part of the program, or a change outside the process of a kind the \<open>others\<close> may make. A
  worker whose process dies makes no further step.
\<close>

inductive team_step :: "runtime \<Rightarrow> bool \<Rightarrow> 't tool_adapter \<Rightarrow> ('t \<Rightarrow> 't \<Rightarrow> bool) \<Rightarrow> 't team \<Rightarrow> 't team \<Rightarrow> bool"
  for R dispatch_reads adapter others where
  work: "i < length ts \<Longrightarrow> ts ! i = (c, p) \<Longrightarrow> worker_step R dispatch_reads adapter c p w = (p', w') \<Longrightarrow>
    team_step R dispatch_reads adapter others (ts, w) (ts[i := (c, p')], w')"
| beside: "facade_step R w w' \<Longrightarrow> others (outside w) (outside w') \<Longrightarrow> team_step R dispatch_reads adapter others (ts, w) (ts, w')"

definition team_start :: "tool_call list \<Rightarrow> (tool_call \<times> worker) list" where
  "team_start cs = map (\<lambda>c. (c, Looking)) cs"

text \<open>A schedule: which worker makes the next step.\<close>

definition step_at :: "runtime \<Rightarrow> bool \<Rightarrow> 't tool_adapter \<Rightarrow> nat \<Rightarrow> 't team \<Rightarrow> 't team" where
  "step_at R dispatch_reads adapter i = (\<lambda>(ts, w). case ts ! i of (c, p) \<Rightarrow>
     case worker_step R dispatch_reads adapter c p w of (p', w') \<Rightarrow> (ts[i := (c, p')], w'))"

definition run_schedule :: "runtime \<Rightarrow> bool \<Rightarrow> 't tool_adapter \<Rightarrow> nat list \<Rightarrow> 't team \<Rightarrow> 't team" where
  "run_schedule R dispatch_reads adapter = fold (step_at R dispatch_reads adapter)"

lemma step_at_step: "i < length (fst s) \<Longrightarrow> team_step R dr adapter others s (step_at R dr adapter i s)"
  by (auto simp: step_at_def split: prod.splits intro: team_step.work)

lemma length_step_at [simp]: "length (fst (step_at R dr adapter i s)) = length (fst s)"
  by (simp add: step_at_def split: prod.split)

lemma step_at_calls: "i < length (fst s) \<Longrightarrow> map fst (fst (step_at R dr adapter i s)) = map fst (fst s)"
  by (cases "fst s ! i") (simp add: step_at_def map_update nth_map split: prod.split, metis fst_conv list_update_id nth_map)

lemma schedule_calls:
  "list_all (\<lambda>i. i < length (fst s)) sched \<Longrightarrow> map fst (fst (run_schedule R dr adapter sched s)) = map fst (fst s)"
  unfolding run_schedule_def by (induction sched arbitrary: s) (simp_all add: step_at_calls)

lemma schedule_is_run:
  "list_all (\<lambda>i. i < length (fst s)) sched \<Longrightarrow> (team_step R dr adapter others)\<^sup>*\<^sup>* s (run_schedule R dr adapter sched s)"
  unfolding run_schedule_def
proof (induction sched arbitrary: s)
  case (Cons i sched)
  then have "(team_step R dr adapter others)\<^sup>*\<^sup>* (step_at R dr adapter i s) (fold (step_at R dr adapter) sched (step_at R dr adapter i s))"
    by simp
  then show ?case
    using Cons.prems by (auto intro: converse_rtranclp_into_rtranclp [where r = "team_step R dr adapter others", OF step_at_step])
qed simp

section \<open>What a worker does to the world\<close>

lemma then_at_effect: "then_at m f w = (p', w') \<Longrightarrow> confined Q m \<Longrightarrow> Q w w'"
  by (auto simp: then_at_def confined_def split: prod.splits sum.splits) (metis snd_conv)+

lemma worker_step_run:
  assumes "worker_step R dr adapter c p w = (p', w')" and "canonical (call_run_id c)" and "canonical (call_execution_id R c)"
  shows "(facade_step R)\<^sup>*\<^sup>* w w'"
proof (cases p)
  case (Recording kind b r)
  then show ?thesis
    using assms(1) record_outcome_run [OF assms(2,3), THEN confinedD]
    by (cases r) (auto split: prod.splits)
next
  case (Sending kind b)
  then show ?thesis using assms(1) by (auto split: prod.splits dest: confinedD [OF invoke_checked_run])
qed (use assms(1) in \<open>auto split: sum.splits elim!: then_at_effect intro: agent_reads(4) [THEN reads_run]
      tool_operations_run [OF assms(2,3)]\<close>)

text \<open>Only the step that sends changes anything outside, by one call of the adapter.\<close>

lemma worker_step_outside:
  assumes "worker_step R dr adapter c p w = (p', w')"
  shows "outside w' = (case p of Sending kind b \<Rightarrow> snd (adapter_call R adapter c kind (outside w)) | _ \<Rightarrow> outside w)"
proof -
  have "outside w' = outside w" if "then_at m f w = (p', w')" "confined same_outside m" for m f
    using then_at_effect [OF that] by (simp add: same_outside_def)
  note quiet = this
  show ?thesis
  proof (cases p)
    case (Recording kind b r)
    then show ?thesis
      using assms
      by (cases r) (auto split: prod.splits dest!: same_outsideD [OF record_outcome_outside(1)] same_outsideD [OF record_outcome_outside(2)])
  next
    case (Sending kind b)
    then show ?thesis using assms by (auto split: prod.splits dest!: invoke_checked_outside)
  qed (use assms in \<open>auto split: sum.splits elim!: quiet intro: facade_effect agent_reads [THEN confined_no_db(1)]\<close>)
qed

section \<open>Invariants of a worker under interference\<close>

text \<open>
  What a worker's own steps keep, and what survives any run of the facade by the others, holds of
  every worker of a team however the steps interleave.
\<close>

definition all_hold :: "(tool_call \<Rightarrow> worker \<Rightarrow> 't world \<Rightarrow> bool) \<Rightarrow> 't team \<Rightarrow> bool" where
  "all_hold I s \<longleftrightarrow> list_all (\<lambda>(c, p). I c p (snd s)) (fst s)"

lemma list_all_map_fst: "map fst xs = map fst ys \<Longrightarrow> list_all (\<lambda>(c, _). P c) ys \<Longrightarrow> list_all (\<lambda>(c, _). P c) xs"
  by (induction xs arbitrary: ys) (auto simp: Cons_eq_map_conv split: prod.splits)

locale worker_invariant =
  fixes R :: runtime and dr :: bool and adapter :: "'t tool_adapter"
    and I :: "tool_call \<Rightarrow> worker \<Rightarrow> 't world \<Rightarrow> bool"
  assumes own: "I c p w \<Longrightarrow> worker_step R dr adapter c p w = (p', w') \<Longrightarrow> I c p' w'"
    and names: "I c p w \<Longrightarrow> canonical (call_run_id c) \<and> canonical (call_execution_id R c)"
    and interference: "I c p w \<Longrightarrow> (facade_step R)\<^sup>*\<^sup>* w w' \<Longrightarrow> I c p w'"
begin

lemma step_keeps: "team_step R dr adapter others s s' \<Longrightarrow> all_hold I s \<Longrightarrow> all_hold I s'"
proof (induction rule: team_step.induct)
  case (work i ts c p w p' w')
  then have i: "I c p w" by (auto simp: all_hold_def list_all_length)
  have "(facade_step R)\<^sup>*\<^sup>* w w'" using worker_step_run [OF work(3)] names [OF i] by blast
  then have "list_all (\<lambda>(c, p). I c p w') ts"
    using work(4) interference by (auto simp: all_hold_def list_all_iff)
  then show ?case
    using own [OF i work(3)] by (auto simp: all_hold_def list_all_iff dest!: subsetD [OF set_update_subset_insert])
next
  case (beside w w' ts)
  have "(facade_step R)\<^sup>*\<^sup>* w w'" using beside(1) by blast
  with beside(3) interference show ?case by (auto simp: all_hold_def list_all_iff)
qed

lemma run_keeps: "(team_step R dr adapter others)\<^sup>*\<^sup>* s s' \<Longrightarrow> all_hold I s \<Longrightarrow> all_hold I s'"
  by (induction rule: rtranclp_induct) (auto intro: step_keeps)

text \<open>The same for one worker of a team whose others need not have the invariant: it is enough that their names are canonical.\<close>

lemma step_keeps_at:
  assumes "team_step R dr adapter others s s'" and "list_all (\<lambda>(c, _). canonical (call_run_id c) \<and> canonical (call_execution_id R c)) (fst s)"
    and "k < length (fst s)" and "I (fst (fst s ! k)) (snd (fst s ! k)) (snd s)"
  shows "map fst (fst s') = map fst (fst s) \<and> I (fst (fst s' ! k)) (snd (fst s' ! k)) (snd s')"
  using assms(1)
proof (cases rule: team_step.cases)
  case (work i ts c p w p' w')
  have "(facade_step R)\<^sup>*\<^sup>* w w'" using worker_step_run [OF work(5)] assms(2) work(1,3,4) by (auto simp: list_all_length)
  then have "I (fst (ts ! k)) (snd (ts ! k)) w'" using interference assms(4) work(1) by auto
  moreover have "I c p' w'" if "k = i" using own [OF _ work(5)] assms(4) work(1,4) that by simp
  moreover have "map fst (ts[i := (c, p')]) = map fst ts" using work(3,4) by (metis fst_conv list_update_id map_update)
  ultimately show ?thesis using work(1,2,3) by (cases "k = i") auto
next
  case (beside w w' ts)
  have "(facade_step R)\<^sup>*\<^sup>* w w'" using beside(3) by blast
  then show ?thesis using assms(4) beside(1,2) interference by auto
qed

lemma holds_at:
  assumes "(team_step R dr adapter others)\<^sup>*\<^sup>* s s'" and "list_all (\<lambda>(c, _). canonical (call_run_id c) \<and> canonical (call_execution_id R c)) (fst s)"
    and "k < length (fst s)" and "I (fst (fst s ! k)) (snd (fst s ! k)) (snd s)"
  shows "map fst (fst s') = map fst (fst s) \<and> I (fst (fst s' ! k)) (snd (fst s' ! k)) (snd s')"
  using assms(1)
proof (induction rule: rtranclp_induct)
  case (step y z)
  have "list_all (\<lambda>(c, _). canonical (call_run_id c) \<and> canonical (call_execution_id R c)) (fst y)"
    using step.IH assms(2) by (simp add: list_all_map_fst)
  moreover have "k < length (fst y)" using step.IH assms(3) by (metis length_map)
  ultimately show ?case using step_keeps_at [OF step.hyps(2)] step.IH by simp
qed (use assms(4) in simp)

lemma holds:
  assumes "(team_step R dr adapter others)\<^sup>*\<^sup>* (ts, w) (ts', w')" and "\<And>c p. (c, p) \<in> set ts \<Longrightarrow> I c p w" and "(c, p) \<in> set ts'"
  shows "I c p w'"
  using run_keeps [OF assms(1)] assms(2,3) by (auto simp: all_hold_def list_all_iff)

end

end
