(* ===== verification/Service_Setup.thy ===== *)
theory Service_Setup
  imports Worker_Teams
begin

text \<open>
  How a service comes to be: \<open>LoggingServiceConfig\<close>, the constructor of \<open>LoggingService\<close>, \<open>with_data_root\<close>, the
  decorator of \<open>adapters/decorators.py\<close> that injects a service, the per-run locks, and the operations
  that only pass a call on. A path is its list of components; the disk holds the databases by path.
\<close>

section \<open>Configuration\<close>

record service_config =
  cfg_checkpoint_every_n_events :: int
  cfg_enforce_execution_dedup :: bool
  cfg_payload_inline_limit_bytes :: int
  cfg_sqlite_busy_timeout_ms :: int
  cfg_soft_write_enabled :: bool

definition default_config :: service_config where
  "default_config = \<lparr>cfg_checkpoint_every_n_events = 0, cfg_enforce_execution_dedup = True,
     cfg_payload_inline_limit_bytes = 16384, cfg_sqlite_busy_timeout_ms = 5000, cfg_soft_write_enabled = True\<rparr>"

section \<open>Stores on disk\<close>

type_synonym path = "string list"

record disk =
  databases :: "(path \<times> db) list"

text \<open>\<open>SQLiteRuntimeStore.__init__\<close>: the file is created with empty tables unless it has them.\<close>

record store_handle =
  st_path :: path
  st_busy_timeout_ms :: int
  st_payload_inline_limit_bytes :: int

definition init_store_schema :: "path \<Rightarrow> (disk, unit) act" where
  "init_store_schema p = modify (\<lambda>D. if map_of (databases D) p = None
     then D\<lparr>databases := AList.update p empty_db (databases D)\<rparr> else D)"

definition open_store :: "path \<Rightarrow> int \<Rightarrow> int \<Rightarrow> (disk, store_handle) act" where
  "open_store p busy_timeout_ms inline_limit =
     bind (init_store_schema p) (\<lambda>_. ret \<lparr>st_path = p, st_busy_timeout_ms = busy_timeout_ms,
       st_payload_inline_limit_bytes = inline_limit\<rparr>)"

section \<open>The service\<close>

text \<open>The observer of a service: one that the caller gives, or the JSON mirror of a directory.\<close>

type_synonym observer = "string \<Rightarrow> dict \<Rightarrow> exn option"

datatype observability = Given observer | Soft_JSON path

record service =
  sv_config :: service_config
  sv_store :: store_handle
  sv_observability :: "observability option"

definition parent_path :: "path \<Rightarrow> path" where
  "parent_path p = butlast p"

definition default_store_path :: "path \<Rightarrow> path" where
  "default_store_path package_root = package_root @ [''data'', ''raef_runtime'', ''runtime.sqlite'']"

definition logging_service ::
  "path \<Rightarrow> store_handle option \<Rightarrow> observability option \<Rightarrow> service_config option \<Rightarrow> path option \<Rightarrow> (disk, service) act" where
  "logging_service package_root store observer config soft_write_root =
     (let cfg = (case config of Some c \<Rightarrow> c | None \<Rightarrow> default_config) in
      bind (case store of Some s \<Rightarrow> ret s
            | None \<Rightarrow> open_store (default_store_path package_root) (cfg_sqlite_busy_timeout_ms cfg) (cfg_payload_inline_limit_bytes cfg)) (\<lambda>s.
      let observability = (if observer = None \<and> cfg_soft_write_enabled cfg
        then Some (Soft_JSON (case soft_write_root of Some dir \<Rightarrow> dir | None \<Rightarrow> parent_path (st_path s) @ [''soft_logs'']))
        else observer) in
      bind (init_store_schema (st_path s)) (\<lambda>_.
      ret \<lparr>sv_config = cfg, sv_store = s, sv_observability = observability\<rparr>)))"

definition with_data_root ::
  "path \<Rightarrow> path \<Rightarrow> int \<Rightarrow> string \<Rightarrow> bool \<Rightarrow> int \<Rightarrow> int \<Rightarrow> bool \<Rightarrow> (disk, service) act" where
  "with_data_root package_root data_root checkpoint_every wal_backend dedup
     inline_limit sqlite_busy_timeout_ms soft_write_enabled =
     (if wal_backend \<noteq> ''sqlite'' then raise (Exn ValueError (''wal_backend must be '' @ [CHR 0x27] @ ''sqlite'' @ [CHR 0x27])) else
      bind (open_store (data_root @ [''runtime.sqlite'']) sqlite_busy_timeout_ms inline_limit) (\<lambda>store.
      logging_service package_root (Some store) None
        (Some \<lparr>cfg_checkpoint_every_n_events = checkpoint_every, cfg_enforce_execution_dedup = dedup,
          cfg_payload_inline_limit_bytes = inline_limit, cfg_sqlite_busy_timeout_ms = sqlite_busy_timeout_ms,
          cfg_soft_write_enabled = soft_write_enabled\<rparr>)
        (Some (data_root @ [''soft_logs'']))))"

text \<open>
  The runtime of the model that a service is: the process gives the clock, the identifiers and the texts, the service
  its configuration. The inline limit is the one of the store. What the JSON mirror of a directory raises is a
  parameter.
\<close>

definition service_runtime :: "runtime \<Rightarrow> (path \<Rightarrow> observer) \<Rightarrow> service \<Rightarrow> runtime" where
  "service_runtime process soft_json s = process\<lparr>
     payload_inline_limit_bytes := st_payload_inline_limit_bytes (sv_store s),
     checkpoint_every_n_events := cfg_checkpoint_every_n_events (sv_config s),
     enforce_execution_dedup := cfg_enforce_execution_dedup (sv_config s),
     mirror := (case sv_observability s of None \<Rightarrow> None | Some (Given write) \<Rightarrow> Some write | Some (Soft_JSON dir) \<Rightarrow> Some (soft_json dir))\<rparr>"

section \<open>The decorator\<close>

text \<open>A wrapped function gets the service it is called with, or one of its own on the data root.\<close>

definition with_logging_service ::
  "path \<Rightarrow> path \<Rightarrow> int \<Rightarrow> string \<Rightarrow> (service \<Rightarrow> (disk, 'a) act) \<Rightarrow> service option \<Rightarrow> (disk, 'a) act" where
  "with_logging_service package_root data_root checkpoint_every wal_backend func given =
     bind (case given of Some s \<Rightarrow> ret s
           | None \<Rightarrow> with_data_root package_root data_root checkpoint_every wal_backend True 16384 5000 True) func"

text \<open>An operation of the model on the database of a service.\<close>

definition on_service :: "runtime \<Rightarrow> (path \<Rightarrow> observer) \<Rightarrow> (runtime \<Rightarrow> (unit, 'a) op) \<Rightarrow> service \<Rightarrow> (disk, 'a) act" where
  "on_service process soft_json m s D = (case map_of (databases D) (st_path (sv_store s)) of
     None \<Rightarrow> (Inl (Exn RuntimeError ''no such table''), D)
   | Some d \<Rightarrow> (case m (service_runtime process soft_json s) \<lparr>db = d, conn_open = False, ticks = 0, uuids = 0, outside = ()\<rparr> of
       (r, w) \<Rightarrow> (r, D\<lparr>databases := AList.update (st_path (sv_store s)) (db w) (databases D)\<rparr>)))"

section \<open>Operations that pass a call on\<close>

definition get_recovery_bundle :: "runtime \<Rightarrow> string \<Rightarrow> ('t, dict) op" where
  "get_recovery_bundle R run_id = rebuild_state R run_id None 1000"

definition read_run_events :: "string \<Rightarrow> int option \<Rightarrow> int \<Rightarrow> ('t, wal_event list) op" where
  "read_run_events run_id after_seq limit = read_events run_id after_seq limit"

definition latest_seq :: "string \<Rightarrow> ('t, int option) op" where
  "latest_seq run_id = latest_wal_seq run_id"

definition facade_list_external_results :: "runtime \<Rightarrow> string \<Rightarrow> ('t, external_result list) op" where
  "facade_list_external_results R run_id = service_list_results R run_id"

definition facade_get_external_result :: "runtime \<Rightarrow> string \<Rightarrow> ('t, external_result option) op" where
  "facade_get_external_result R execution_id = repo_get_result R execution_id"

section \<open>The locks of the runs\<close>

text \<open>A lock is its number in the order of creation.\<close>

definition get_run_lock :: "string \<Rightarrow> (string \<times> nat) list \<Rightarrow> nat \<times> (string \<times> nat) list" where
  "get_run_lock run_id locks = (case map_of locks run_id of
     Some lock \<Rightarrow> (lock, locks)
   | None \<Rightarrow> (length locks, locks @ [(run_id, length locks)]))"

definition locks_numbered :: "(string \<times> nat) list \<Rightarrow> bool" where
  "locks_numbered locks \<longleftrightarrow> map snd locks = [0..<length locks] \<and> distinct (map fst locks)"

lemma get_run_lock_keeps:
  "locks_numbered locks \<Longrightarrow> locks_numbered (snd (get_run_lock r locks))"
  by (auto simp: locks_numbered_def get_run_lock_def map_of_eq_None_iff split: option.split)

lemma get_run_lock_held: "map_of (snd (get_run_lock r locks)) r = Some (fst (get_run_lock r locks))"
  by (auto simp: get_run_lock_def map_add_def split: option.split)

lemma get_run_lock_others: "map_of locks q = Some l \<Longrightarrow> map_of (snd (get_run_lock r locks)) q = Some l"
  by (auto simp: get_run_lock_def split: option.split)

lemma run_locks_later:
  "locks_numbered locks \<Longrightarrow> map_of locks r = Some l \<Longrightarrow>
    locks_numbered (fold (\<lambda>q ls. snd (get_run_lock q ls)) qs locks) \<and>
    map_of (fold (\<lambda>q ls. snd (get_run_lock q ls)) qs locks) r = Some l"
  by (induction qs arbitrary: locks) (simp_all add: get_run_lock_keeps get_run_lock_others)

lemma locks_differ:
  assumes "locks_numbered locks" and "map_of locks r = Some l" and "map_of locks q = Some l"
  shows "q = r"
proof -
  have "distinct (map snd locks)" using assms(1) by (simp add: locks_numbered_def)
  moreover have "(r, l) \<in> set locks" "(q, l) \<in> set locks" using assms(2,3) by (simp_all add: map_of_SomeD)
  ultimately show ?thesis by (metis (no_types) distinct_map inj_onD prod.inject snd_conv)
qed

text \<open>Threads that ask for the lock of one run get one lock, and those of two runs get two, whatever is asked between.\<close>

lemma run_locks_exclude:
  assumes "locks_numbered locks" and "get_run_lock r locks = (l, locks1)"
    and "get_run_lock q (fold (\<lambda>q ls. snd (get_run_lock q ls)) between locks1) = (l', locks2)"
  shows "l = l' \<longleftrightarrow> r = q"
proof -
  let ?s = "fold (\<lambda>q ls. snd (get_run_lock q ls)) between locks1"
  have "locks_numbered locks1" "map_of locks1 r = Some l"
    using get_run_lock_keeps [OF assms(1), of r] get_run_lock_held [of r locks] assms(2) by simp_all
  from run_locks_later [OF this, of between] have s: "locks_numbered ?s" "map_of ?s r = Some l" by simp_all
  have q: "map_of locks2 q = Some l'" "map_of locks2 r = Some l" "locks_numbered locks2"
    using get_run_lock_held [of q ?s] get_run_lock_others [OF s(2), of q] get_run_lock_keeps [OF s(1), of q] assms(3) by simp_all
  then show ?thesis using locks_differ [OF q(3), of r l q] by auto
qed

section \<open>What a service starts from\<close>

lemma init_schema_again: "init_store_schema p D = (Inr (), D') \<Longrightarrow> init_store_schema p D' = (Inr (), D')"
  by (auto simp: init_store_schema_def split: if_splits)

lemma with_data_root_run:
  assumes "with_data_root pkg dir n backend dedup limit busy soft D = (r, D')"
  shows "if backend = ''sqlite''
    then r = Inr \<lparr>sv_config = \<lparr>cfg_checkpoint_every_n_events = n, cfg_enforce_execution_dedup = dedup, cfg_payload_inline_limit_bytes = limit,
        cfg_sqlite_busy_timeout_ms = busy, cfg_soft_write_enabled = soft\<rparr>,
      sv_store = \<lparr>st_path = dir @ [''runtime.sqlite''], st_busy_timeout_ms = busy, st_payload_inline_limit_bytes = limit\<rparr>,
      sv_observability = (if soft then Some (Soft_JSON (dir @ [''soft_logs''])) else None)\<rparr> \<and>
      init_store_schema (dir @ [''runtime.sqlite'']) D = (Inr (), D')
    else r = value_error (''wal_backend must be '' @ [CHR 0x27] @ ''sqlite'' @ [CHR 0x27]) \<and> D' = D"
  using assms
  by (auto simp: with_data_root_def logging_service_def open_store_def bind_def init_store_schema_def split: if_splits)

text \<open>Opening a data root that has a database leaves it as it is: a restarted service resumes from what is there.\<close>

lemma reopened_database_is_kept:
  assumes "with_data_root pkg dir n backend dedup limit busy soft D = (r, D')" and "map_of (databases D) (dir @ [''runtime.sqlite'']) = Some d"
  shows "D' = D"
  using with_data_root_run [OF assms(1)] assms(2) by (auto simp: init_store_schema_def split: if_splits)

text \<open>A function that is called without a service sees what the last one left under its data root.\<close>

lemma injected_services_share_the_database:
  assumes "with_logging_service pkg dir n ''sqlite'' (on_service process soft_json m) None D = (r, D1)"
    and "with_logging_service pkg dir n' ''sqlite'' (\<lambda>s D. (Inr (map_of (databases D) (st_path (sv_store s))), D)) None D1 = (Inr found, D2)"
  shows "D2 = D1 \<and> (\<exists>d. found = Some d \<and> map_of (databases D1) (dir @ [''runtime.sqlite'']) = Some d)"
proof -
  let ?path = "dir @ [''runtime.sqlite'']"
  obtain x E where x: "with_data_root pkg dir n ''sqlite'' True 16384 5000 True D = (x, E)" by fastforce
  note made = with_data_root_run [OF x, simplified]
  then obtain s where s: "x = Inr s" "st_path (sv_store s) = ?path" by auto
  have "on_service process soft_json m s E = (r, D1)"
    using assms(1) unfolding with_logging_service_def option.case bind_def x s(1) by simp
  moreover have "map_of (databases E) ?path \<noteq> None"
    using made by (auto simp: init_store_schema_def split: if_splits)
  ultimately obtain d where d: "map_of (databases D1) ?path = Some d"
    by (auto simp: on_service_def s(2) split: option.splits prod.splits)
  obtain x' E' where x': "with_data_root pkg dir n' ''sqlite'' True 16384 5000 True D1 = (x', E')" by fastforce
  note made' = with_data_root_run [OF x', simplified]
  then obtain s' where s': "x' = Inr s'" "st_path (sv_store s') = ?path" by auto
  have "found = map_of (databases E') ?path \<and> D2 = E'"
    using assms(2) unfolding with_logging_service_def option.case bind_def x' s'(1) by (auto simp: s'(2))
  then show ?thesis using reopened_database_is_kept [OF x' d] d by simp
qed

text \<open>A service of the default configuration takes no checkpoints of its own.\<close>

lemma default_service_takes_no_checkpoints:
  assumes "with_data_root pkg dir 0 ''sqlite'' dedup limit busy soft D = (Inr s, D')"
  shows "maybe_auto_checkpoint (service_runtime process soft_json s) run_id = ret None"
  using with_data_root_run [OF assms] by (simp add: maybe_auto_checkpoint_def service_runtime_def fun_eq_iff)

end
