(* ===== verification/Worker_Facts.thy ===== *)
theory Worker_Facts
  imports Worker_Teams Sample_Facts Instances
begin

text \<open>
  What concurrent calls keep and what they do not: log before send, the reuse of a commit, one invocation per
  call and one commit per keyed write hold however the workers interleave; one invocation per execution does not.
\<close>

section \<open>The status on record under interference\<close>

lemma status_of_table: "status_on_record d i = map_option snd (execution_table d i)"
  by (simp add: status_on_record_def execution_table_def option.map_comp comp_def)

lemma facade_run_closed: "(facade_step R)\<^sup>*\<^sup>* w w' \<Longrightarrow> conn_open w' = conn_open w"
  by (induction rule: rtranclp_induct) (auto dest: facade_step_closed)

lemma status_stays:
  assumes "(facade_step R)\<^sup>*\<^sup>* w w'" and "\<not> conn_open w" and "enforce_execution_dedup R" and "closed_under_moves S"
    and "status_on_record (db w) i = Some s" and "s \<in> S"
  shows "\<exists>s'\<in>S. status_on_record (db w') i = Some s'"
proof -
  obtain r where "execution_table (db w) i = Some (r, s)" using assms(5) by (auto simp: status_of_table)
  from machine_keeps [OF conjunct1 [OF facade_run_machine [OF assms(1-3)]] assms(4) this assms(6)] show ?thesis
    by (force simp: status_of_table)
qed

lemma past_intent_closed: "closed_under_moves (- {INTENT_LOGGED})"
proof -
  have "INTENT_LOGGED \<notin> allowed_transitions s" for s by (cases s) simp_all
  then show ?thesis by (auto simp: closed_under_moves_def)
qed

text \<open>What every worker keeps: its names are canonical, and no transaction is open between its steps.\<close>

definition orderly :: "runtime \<Rightarrow> tool_call \<Rightarrow> 't world \<Rightarrow> bool" where
  "orderly R c w \<longleftrightarrow> \<not> conn_open w \<and> enforce_execution_dedup R \<and> canonical (call_run_id c) \<and> canonical (call_execution_id R c)"

lemma orderly_run: "orderly R c w \<Longrightarrow> (facade_step R)\<^sup>*\<^sup>* w w' \<Longrightarrow> orderly R c w'"
  by (simp add: orderly_def facade_run_closed)

lemma orderly_step: "orderly R c w \<Longrightarrow> worker_step R dr adapter c p w = (p', w') \<Longrightarrow> orderly R c w'"
  by (rule orderly_run) (auto simp: orderly_def dest: worker_step_run)

section \<open>Log before send\<close>

definition past_intent :: "db \<Rightarrow> string \<Rightarrow> bool" where
  "past_intent d i \<longleftrightarrow> (\<exists>s\<in>- {INTENT_LOGGED}. status_on_record d i = Some s)"

definition send_is_logged :: "runtime \<Rightarrow> tool_call \<Rightarrow> worker \<Rightarrow> 't world \<Rightarrow> bool" where
  "send_is_logged R c p w \<longleftrightarrow> orderly R c w \<and> (case p of
     Sending kind _ \<Rightarrow> kind = WRITE \<longrightarrow> past_intent (db w) (call_execution_id R c)
   | Recording kind _ _ \<Rightarrow> kind = WRITE \<longrightarrow> past_intent (db w) (call_execution_id R c)
   | _ \<Rightarrow> True)"

lemma past_intent_run: "past_intent (db w) i \<Longrightarrow> (facade_step R)\<^sup>*\<^sup>* w w' \<Longrightarrow> orderly R c w \<Longrightarrow> past_intent (db w') i"
  unfolding past_intent_def orderly_def by (elim bexE conjE) (rule status_stays [OF _ _ _ past_intent_closed])

lemma past_intentI: "status_on_record d i = Some s \<Longrightarrow> s \<noteq> INTENT_LOGGED \<Longrightarrow> past_intent d i"
  by (auto simp: past_intent_def)

lemma send_is_logged_step:
  assumes "send_is_logged R c p w" and "worker_step R dr adapter c p w = (p', w')"
  shows "send_is_logged R c p' w'"
proof -
  have o: "orderly R c w" using assms(1) by (simp add: send_is_logged_def)
  then have names: "canonical (call_run_id c)" "canonical (call_execution_id R c)" "\<not> conn_open w" by (simp_all add: orderly_def)
  note o' = orderly_step [OF o assms(2)]
  have marked: "past_intent (db w') (call_execution_id R c)"
    if "record_tool_dispatch R (call_run_id c) (call_execution_id R c) w = (Inr x, w')" for x
    using status_after_step [OF conjunct1 [OF record_dispatch_InrD [OF that names(3,1,2)]]] by (rule past_intentI) simp
  show ?thesis
  proof (cases p)
    case Looking
    then show ?thesis
      using assms(2) o' names(2)
      by (auto simp: send_is_logged_def then_at_def after_look_def intro: past_intentI dest!: status_of_get
          split: sum.splits prod.splits option.splits if_splits)
  next
    case (Marking kind)
    then show ?thesis
      using assms(2) o' marked
      by (auto simp: send_is_logged_def then_at_def split: sum.splits prod.splits)
  next
    case (Sending kind b)
    then show ?thesis
      using assms o' by (auto simp: send_is_logged_def after_send_def split: prod.splits sum.splits if_splits dest!: invoke_checked_outside)
  qed (use assms(2) o' in \<open>auto simp: send_is_logged_def then_at_def after_check_def split: sum.splits prod.splits option.splits\<close>)
qed

interpretation logged: worker_invariant R dr adapter "send_is_logged R" for R dr adapter
proof (unfold_locales, goal_cases)
  case (1 c p w p' w')
  then show ?case by (rule send_is_logged_step)
next
  case (2 c p w)
  then show ?case by (simp add: send_is_logged_def orderly_def)
next
  case (3 c p w w')
  then show ?case
    by (auto simp: send_is_logged_def intro: orderly_run past_intent_run split: worker.splits)
qed

text \<open>
  C6: log before send under concurrency. In every interleaving of any number of calls with each other and with other
  users of the database, a worker that is about to send a write, or has sent it and not yet recorded
  the outcome, has its execution on record past the bare intent.
\<close>

theorem concurrent_sends_are_logged:
  assumes "(team_step R dr adapter others)\<^sup>*\<^sup>* (team_start cs, w) (ts, w')" and "\<not> conn_open w" and "enforce_execution_dedup R"
    and "\<And>c. c \<in> set cs \<Longrightarrow> canonical (call_run_id c) \<and> canonical (call_execution_id R c)"
    and "(c, p) \<in> set ts" and "p = Sending WRITE b \<or> p = Recording WRITE b outcome"
  shows "\<exists>s. status_on_record (db w') (call_execution_id R c) = Some s \<and> s \<noteq> INTENT_LOGGED"
proof -
  have "send_is_logged R c p w'"
    by (rule logged.holds [OF assms(1) _ assms(5)]) (use assms(2-4) in \<open>auto simp: team_start_def send_is_logged_def orderly_def\<close>)
  then show ?thesis using assms(6) by (auto simp: send_is_logged_def past_intent_def)
qed

section \<open>A commit is reused\<close>

definition committed_on_record :: "db \<Rightarrow> string \<Rightarrow> bool" where
  "committed_on_record d i \<longleftrightarrow> (\<exists>s\<in>{ACKED, VERIFIED_COMMITTED}. status_on_record d i = Some s)"

text \<open>A worker that has not passed the point at which the call is sent, and one that has ended without sending.\<close>

fun before_send :: "worker \<Rightarrow> bool" where
  "before_send Looking = True"
| "before_send (Intending _) = True"
| "before_send (Checking _) = True"
| "before_send (Marking _) = True"
| "before_send _ = False"

definition leaves_alone :: "worker \<Rightarrow> bool" where
  "leaves_alone p \<longleftrightarrow> before_send p \<or> (case p of Finished (Inr tx) \<Rightarrow> tx_disposition tx = REUSED | Finished (Inl e) \<Rightarrow> True | _ \<Rightarrow> False)"

definition commit_is_reused :: "runtime \<Rightarrow> string \<Rightarrow> tool_call \<Rightarrow> worker \<Rightarrow> 't world \<Rightarrow> bool" where
  "commit_is_reused R i c p w \<longleftrightarrow> orderly R c w \<and>
     (call_execution_id R c = i \<longrightarrow> committed_on_record (db w) i \<and> leaves_alone p)"

lemma committed_run: "committed_on_record (db w) i \<Longrightarrow> (facade_step R)\<^sup>*\<^sup>* w w' \<Longrightarrow> orderly R c w \<Longrightarrow> committed_on_record (db w') i"
  unfolding committed_on_record_def orderly_def by (elim bexE conjE) (rule status_stays [OF _ _ _ committed_closed])

lemma look_reuses:
  assumes "then_at (repo_get_result R i) (after_look kind) w = (p', w')" and "committed_on_record (db w) i" and "canonical i"
  shows "leaves_alone p'"
  using assms
  by (auto simp: then_at_def after_look_def leaves_alone_def committed_on_record_def handle_existing_def dest!: status_of_get
      split: sum.splits prod.splits option.splits)

lemma check_reuses:
  assumes "then_at (repo_get_result R (call_execution_id R c)) (after_check R dr c kind) w = (p', w')"
    and "committed_on_record (db w) (call_execution_id R c)" and "canonical (call_execution_id R c)"
  shows "leaves_alone p'"
  using assms
  by (auto simp: then_at_def after_check_def leaves_alone_def committed_on_record_def handle_existing_def dest!: status_of_get
      split: sum.splits prod.splits option.splits)

text \<open>A committed execution cannot be marked as dispatched.\<close>

lemma mark_refused:
  assumes "record_tool_dispatch R (call_run_id c) (call_execution_id R c) w = (Inr x, w')" and "orderly R c w"
  shows "\<not> committed_on_record (db w) (call_execution_id R c)"
proof
  assume committed: "committed_on_record (db w) (call_execution_id R c)"
  have names: "canonical (call_run_id c)" "canonical (call_execution_id R c)" "\<not> conn_open w" using assms(2) by (simp_all add: orderly_def)
  have "(facade_step R)\<^sup>*\<^sup>* w w'" using confinedD [OF tool_operations_run(2) [OF names(1,2)] assms(1)] .
  from committed_run [OF committed this assms(2)] show False
    using status_after_step [OF conjunct1 [OF record_dispatch_InrD [OF assms(1) names(3,1,2)]]] by (auto simp: committed_on_record_def)
qed

lemma commit_is_reused_step:
  assumes "commit_is_reused R i c p w" and "worker_step R dr adapter c p w = (p', w')"
  shows "commit_is_reused R i c p' w'"
proof -
  have o: "orderly R c w" using assms(1) by (simp add: commit_is_reused_def)
  then have names: "canonical (call_execution_id R c)" by (simp add: orderly_def)
  have run: "(facade_step R)\<^sup>*\<^sup>* w w'" using o worker_step_run [OF assms(2)] by (simp add: orderly_def)
  have "leaves_alone p'" if p: "leaves_alone p" "committed_on_record (db w) (call_execution_id R c)"
  proof (cases p)
    case Looking
    show ?thesis
    proof (cases "normalize_operation_type (call_operation_type c)")
      case (Inl e)
      then show ?thesis using Looking assms(2) by (auto simp: leaves_alone_def)
    next
      case (Inr kind)
      then show ?thesis using Looking assms(2) by (intro look_reuses [OF _ p(2) names]) simp
    qed
  next
    case (Intending kind)
    then show ?thesis using assms(2) by (auto simp: leaves_alone_def then_at_def split: sum.splits prod.splits)
  next
    case (Checking kind)
    then show ?thesis using assms(2) check_reuses [OF _ p(2) names] by simp
  next
    case (Marking kind)
    then show ?thesis using assms(2) mark_refused [OF _ o] p(2) by (auto simp: leaves_alone_def then_at_def split: sum.splits prod.splits)
  qed (use p assms(2) in \<open>auto simp: leaves_alone_def\<close>)
  then show ?thesis
    using assms(1) orderly_step [OF o assms(2)] committed_run [OF _ run o] by (auto simp: commit_is_reused_def)
qed

interpretation reused: worker_invariant R dr adapter "commit_is_reused R i" for R dr adapter i
proof (unfold_locales, goal_cases)
  case (1 c p w p' w')
  then show ?case by (rule commit_is_reused_step)
next
  case (2 c p w)
  then show ?case by (simp add: commit_is_reused_def orderly_def)
next
  case (3 c p w w')
  then show ?case by (auto simp: commit_is_reused_def intro: orderly_run committed_run)
qed

text \<open>
  C5: from the moment on at which an execution is on record as committed, a worker on it that has not yet
  reached the send never reaches it, however far the workers of the team are and however they and the other users of the
  database interleave: it stays before the send, returns the recorded result as reused, or ends with an
  exception. A worker that had passed its dispatch marker before the commit is not covered: it does reach
  the tool.
\<close>

theorem concurrent_calls_reuse_a_commit:
  assumes "(team_step R dr adapter others)\<^sup>*\<^sup>* (ts, w) (ts', w')" and "\<not> conn_open w" and "enforce_execution_dedup R"
    and "\<And>c p. (c, p) \<in> set ts \<Longrightarrow> canonical (call_run_id c) \<and> canonical (call_execution_id R c)"
    and "status_on_record (db w) (call_execution_id R c) = Some s" and "s \<in> {ACKED, VERIFIED_COMMITTED}"
    and "k < length ts" and "ts ! k = (c, p)" and "before_send p"
  shows "\<exists>p'. ts' ! k = (c, p') \<and> (before_send p' \<or> (\<exists>e. p' = Finished (Inl e)) \<or> (\<exists>tx. p' = Finished (Inr tx) \<and> tx_disposition tx = REUSED))"
proof -
  have "(c, p) \<in> set ts" using assms(7,8) by (metis nth_mem)
  then have "commit_is_reused R (call_execution_id R c) c p w"
    using assms(2-6,9) by (auto simp: commit_is_reused_def orderly_def committed_on_record_def leaves_alone_def)
  moreover have "list_all (\<lambda>(c, _). canonical (call_run_id c) \<and> canonical (call_execution_id R c)) ts"
    using assms(4) by (auto simp: list_all_iff)
  ultimately have kept: "map fst ts' = map fst ts \<and> commit_is_reused R (call_execution_id R c) (fst (ts' ! k)) (snd (ts' ! k)) w'"
    using reused.holds_at [OF assms(1), of k "call_execution_id R c"] assms(7,8) by simp
  then have "fst (ts' ! k) = c" using assms(7,8) by (metis fst_conv length_map nth_map)
  with kept show ?thesis
    by (cases "ts' ! k") (auto simp: commit_is_reused_def leaves_alone_def split: worker.splits sum.splits)
qed

section \<open>A call ends\<close>





section \<open>One invocation per call\<close>

definition has_sent :: "worker \<Rightarrow> bool" where
  "has_sent p = (case p of Recording _ _ _ \<Rightarrow> True | Finished _ \<Rightarrow> True | _ \<Rightarrow> False)"

lemma has_sent_step: "worker_step R dr adapter c p w = (p', w') \<Longrightarrow> has_sent p \<Longrightarrow> has_sent p'"
  by (cases p) (auto simp: has_sent_def split: prod.splits)

lemma sending_has_sent: "worker_step R dr adapter c (Sending kind b) w = (p', w') \<Longrightarrow> has_sent p'"
  by (auto simp: has_sent_def after_send_def split: prod.splits sum.splits if_splits)

text \<open>The invocations, in the order they were made: which worker made it, and as what kind of call.\<close>

definition invoked :: "runtime \<Rightarrow> 't tool_adapter \<Rightarrow> tool_call list \<Rightarrow> (nat \<times> operation_type) list \<Rightarrow> 't \<Rightarrow> 't" where
  "invoked R adapter cs calls = fold (\<lambda>(i, kind) t. snd (adapter_call R adapter (cs ! i) kind t)) calls"

definition accounted :: "runtime \<Rightarrow> 't tool_adapter \<Rightarrow> tool_call list \<Rightarrow> 't \<Rightarrow> (nat \<times> operation_type) list \<Rightarrow> 't team \<Rightarrow> bool" where
  "accounted R adapter cs t calls s \<longleftrightarrow> map fst (fst s) = cs \<and> distinct (map fst calls) \<and>
     list_all (\<lambda>(i, _). i < length cs \<and> has_sent (snd (fst s ! i))) calls \<and> outside (snd s) = invoked R adapter cs calls t"

lemma accounted_work:
  assumes "accounted R adapter cs t calls (ts, w)" and "i < length ts" and "ts ! i = (c, p)"
    and "worker_step R dr adapter c p w = (p', w')"
  shows "\<exists>calls'. accounted R adapter cs t calls' (ts[i := (c, p')], w')"
proof -
  have a: "map fst ts = cs" "distinct (map fst calls)" "list_all (\<lambda>(i, _). i < length cs \<and> has_sent (snd (ts ! i))) calls"
      "outside w = invoked R adapter cs calls t"
    using assms(1) by (simp_all add: accounted_def)
  have c: "cs ! i = c" using a(1) assms(2,3) by (metis fst_conv nth_map)
  have cs': "map fst (ts[i := (c, p')]) = cs"
    using a(1) assms(2,3) by (metis fst_conv list_update_id map_update nth_map)
  have len: "length ts = length cs" using a(1) by auto
  have sent: "list_all (\<lambda>(j, _). j < length cs \<and> has_sent (snd (ts[i := (c, p')] ! j))) calls"
    using a(3) has_sent_step [OF assms(4)] assms(2,3) len by (fastforce simp: list_all_iff nth_list_update)
  show ?thesis
  proof (cases "\<exists>kind b. p = Sending kind b")
    case True
    then obtain kind b where p: "p = Sending kind b" by blast
    have "i \<notin> fst ` set calls"
      using a(3) assms(3) by (fastforce simp: list_all_iff p has_sent_def)
    moreover have "has_sent p'" using sending_has_sent assms(4) p by blast
    moreover have "outside w' = snd (adapter_call R adapter c kind (outside w))" using worker_step_outside [OF assms(4)] p by simp
    ultimately show ?thesis
      using cs' a sent assms(2) len c
      by (intro exI [of _ "calls @ [(i, kind)]"]) (simp add: accounted_def invoked_def)
  next
    case False
    then have "outside w' = outside w" using worker_step_outside [OF assms(4)] by (cases p) auto
    then show ?thesis using cs' a sent by (intro exI [of _ calls]) (simp add: accounted_def)
  qed
qed

text \<open>
  C8: one invocation per call. In every interleaving, with other users of the database that do not touch the target, what is
  outside is what the adapter calls of some of the workers left, one call of each at most, with that worker's own
  arguments, in the order they were made.
\<close>

theorem concurrent_calls_invoke_once_each:
  assumes "(team_step R dr adapter (=))\<^sup>*\<^sup>* (team_start cs, w) (ts, w')"
  shows "\<exists>calls. distinct (map fst calls) \<and> list_all (\<lambda>(i, _). i < length cs) calls \<and>
    outside w' = invoked R adapter cs calls (outside w)"
proof -
  have "\<exists>calls. accounted R adapter cs (outside w) calls (ts, w')"
    using assms
  proof (induction "(ts, w')" arbitrary: ts w' rule: rtranclp_induct)
    case base
    show ?case by (rule exI [of _ "[]"]) (simp add: accounted_def team_start_def invoked_def comp_def)
  next
    case (step y)
    obtain ts0 w0 where y: "y = (ts0, w0)" by (cases y)
    with step obtain calls where calls: "accounted R adapter cs (outside w) calls (ts0, w0)" by blast
    from step(2) [unfolded y] show ?case
    proof (cases rule: team_step.cases)
      case (work i c p p')
      then show ?thesis using accounted_work [OF calls work(2-4)] by simp
    next
      case beside
      then show ?thesis using calls by (auto simp: accounted_def)
    qed
  qed
  then show ?thesis by (fastforce simp: accounted_def list_all_iff)
qed

section \<open>One commit per keyed write\<close>

text \<open>The kind of call a worker acts on is the kind its call names.\<close>

fun phase_kind :: "worker \<Rightarrow> operation_type option" where
  "phase_kind (Intending kind) = Some kind"
| "phase_kind (Checking kind) = Some kind"
| "phase_kind (Marking kind) = Some kind"
| "phase_kind (Sending kind _) = Some kind"
| "phase_kind (Recording kind _ _) = Some kind"
| "phase_kind _ = None"

definition of_its_kind :: "tool_call \<Rightarrow> worker \<Rightarrow> bool" where
  "of_its_kind c p \<longleftrightarrow> (case phase_kind p of None \<Rightarrow> True | Some kind \<Rightarrow> normalize_operation_type (call_operation_type c) = Inr kind)"

lemma of_its_kind_step: "worker_step R dr adapter c p w = (p', w') \<Longrightarrow> of_its_kind c p \<Longrightarrow> of_its_kind c p'"
  by (cases p) (auto simp: of_its_kind_def then_at_def after_look_def after_check_def after_send_def
      split: sum.splits prod.splits option.splits if_splits)

text \<open>A target shared by a team: what each call of the team and the others keep of it, every interleaving keeps.\<close>

locale shared_target =
  fixes R :: runtime and adapter :: "'t tool_adapter" and cs :: "tool_call list" and others :: "'t \<Rightarrow> 't \<Rightarrow> bool"
    and K :: "'t \<Rightarrow> bool"
  assumes served: "c \<in> set cs \<Longrightarrow> normalize_operation_type (call_operation_type c) = Inr kind \<Longrightarrow> K t \<Longrightarrow>
      K (snd (adapter_call R adapter c kind t))"
    and besides: "others t t' \<Longrightarrow> K t \<Longrightarrow> K t'"
begin

lemma step_keeps:
  assumes "team_step R dr adapter others s s'" and "list_all (\<lambda>(c, p). c \<in> set cs \<and> of_its_kind c p) (fst s)" and "K (outside (snd s))"
  shows "list_all (\<lambda>(c, p). c \<in> set cs \<and> of_its_kind c p) (fst s') \<and> K (outside (snd s'))"
  using assms(1)
proof (cases rule: team_step.cases)
  case (work i ts c p w p' w')
  then have cp: "c \<in> set cs" "of_its_kind c p" using assms(2) by (auto simp: list_all_length)
  have "K (outside w')"
    using worker_step_outside [OF work(5)] assms(3) cp work(1) served [OF cp(1)] by (cases p) (auto simp: of_its_kind_def)
  then show ?thesis
    using assms(2) cp of_its_kind_step [OF work(5)] work(1,2)
    by (auto simp: list_all_iff dest!: subsetD [OF set_update_subset_insert])
next
  case (beside w w' ts)
  then show ?thesis using assms(2,3) besides by auto
qed

lemma run_keeps:
  assumes "(team_step R dr adapter others)\<^sup>*\<^sup>* (team_start cs, w) s" and "K (outside w)"
  shows "K (outside (snd s))"
proof -
  from assms(1) have "list_all (\<lambda>(c, p). c \<in> set cs \<and> of_its_kind c p) (fst s) \<and> K (outside (snd s))"
  proof (induction rule: rtranclp_induct)
    case base
    then show ?case using assms(2) by (simp add: team_start_def list_all_iff of_its_kind_def)
  next
    case (step y z)
    then show ?case using step_keeps by blast
  qed
  then show ?thesis ..
qed

end

text \<open>
  The mock target in its idempotent mode, and a team whose calls to \<open>apply-action\<close> are writes that ask for an
  idempotency key: the target commits under identifiers of these calls only, each once.
\<close>

definition keyed_write :: "tool_call \<Rightarrow> bool" where
  "keyed_write c \<longleftrightarrow> (call_tool_name c = ''apply-action'' \<longrightarrow> call_idempotency_supported c \<and>
     normalize_operation_type (call_operation_type c) = Inr WRITE)"

definition write_ids :: "runtime \<Rightarrow> tool_call list \<Rightarrow> string set" where
  "write_ids R cs = call_execution_id R ` set (filter (\<lambda>c. call_tool_name c = ''apply-action'') cs)"

definition commits_team_writes :: "sample_env \<Rightarrow> runtime \<Rightarrow> tool_call list \<Rightarrow> replay_side beside \<Rightarrow> bool" where
  "commits_team_writes E R cs b \<longleftrightarrow> target_mode (se_target E) = IDEMPOTENT \<and> list_all keyed_write cs \<and>
     only_commits (write_ids R cs) (rs_target (fst b))"

definition probes :: "replay_side beside \<Rightarrow> replay_side beside \<Rightarrow> bool" where
  "probes b b' \<longleftrightarrow> only_init (rs_target (fst b)) (rs_target (fst b'))"

abbreviation store_commits :: "string set \<Rightarrow> replay_side \<Rightarrow> bool" where
  "store_commits A s \<equiv> only_commits A (rs_target s)"

lemma store_invoke:
  assumes "target_mode (se_target E) = IDEMPOTENT" and "tool_name = ''apply-action'' \<Longrightarrow> \<exists>i\<in>A. key = Some i \<and> i \<noteq> []"
  shows "maintains (store_commits A) (\<lambda>_. True) (replay_invoke E tool_name request key)"
proof -
  have target: "maintains (store_commits A) (\<lambda>_. True) (on_target f)"
    if "\<And>t r t'. only_commits A t \<Longrightarrow> f t = (r, t') \<Longrightarrow> only_commits A t'" for f :: "dict target_op"
    by (rule maintainsI) (auto simp: on_target_def split: prod.splits dest: that)
  have reads: "maintains (store_commits A) (\<lambda>_. True) (on_target f)" if "confined only_init f" for f :: "dict target_op"
    by (rule target) (blast intro: only_commits_init dest: confinedD [OF that])
  have action: "maintains (store_commits A) (\<lambda>_. True) (on_target (apply_action (se_target E) a p key))" if "tool_name = ''apply-action''" for a p
    using assms(2) [OF that] only_commits_action [OF assms(1)] by (auto intro!: target)
  have flag: "maintains (store_commits A) (\<lambda>_. True) (modify (\<lambda>s. s\<lparr>rs_emitted := b\<rparr>))" "maintains (store_commits A) (\<lambda>_. True) (gets rs_emitted)" for b
    by (auto simp: maintains_def)
  show ?thesis
    unfolding replay_invoke_def Let_def
    by (intro upholds maintains_lift flag action reads [OF init_reads(3)] TrueI)
qed

lemma store_call:
  assumes "maintains (store_commits A) (\<lambda>_. True) (replay_invoke E tool_name request key)" and "store_commits A (fst b)"
  shows "store_commits A (fst (snd (replay_adapter E tool_name request key timeout b)))"
  using assms maintainsD [OF assms(1)] by (cases b) (auto simp: replay_adapter_def split: prod.splits)

interpretation keyed: shared_target R "replay_adapter E" cs probes "commits_team_writes E R cs" for R E cs
proof (unfold_locales, goal_cases)
  case (1 c kind b)
  have id: "call_execution_id R c \<noteq> []" by (simp add: call_execution_id_def build_execution_id_def)
  have k: "\<exists>i\<in>write_ids R cs. (if kind = WRITE \<and> call_idempotency_supported c then Some (call_execution_id R c) else None) = Some i \<and> i \<noteq> []"
    if "call_tool_name c = ''apply-action''"
    using 1 that id by (auto simp: commits_team_writes_def keyed_write_def list_all_iff write_ids_def)
  show ?case
    using 1(3) store_call [OF store_invoke [OF _ k]] by (simp add: commits_team_writes_def)
next
  case (2 b b')
  then show ?case by (auto simp: commits_team_writes_def probes_def intro: only_commits_init)
qed

text \<open>
  C7: one commit per keyed write. Let the \<open>apply-action\<close> calls of a team be writes that ask for an idempotency key, and
  the idempotent target start empty. Then, in any interleaving of the workers with each other and with a recovery that only
  looks at the target, every commit the target has made is recorded under the identifier of one of these calls, each identifier at most
  once, and the counter of the commits counts these records. Without a key, two calls with one identifier can
  commit twice.
\<close>

theorem concurrent_keyed_writes_commit_once:
  assumes "(team_step R dr (replay_adapter E) probes)\<^sup>*\<^sup>* (team_start cs, w) (ts, w')"
    and "target_mode (se_target E) = IDEMPOTENT" and "list_all keyed_write cs" and "target_file (store_of w) = None"
  shows "case target_file (store_of w') of None \<Rightarrow> True
    | Some f \<Rightarrow> \<exists>data. ensure_shape f = Inr data \<and> (let ids = map fst (obj_at data ''idempotent_requests'') in
        distinct ids \<and> set ids \<subseteq> write_ids R cs \<and> stat_of data ''total_commits'' = int (length ids)) \<and>
        stat_of data ''total_commits'' \<le> int (card (write_ids R cs))"
proof -
  have "commits_team_writes E R cs (outside w)" using assms(2-4) by (simp add: commits_team_writes_def only_commits_def)
  then have "commits_team_writes E R cs (outside w')" using keyed.run_keeps [OF assms(1)] by simp
  moreover have "finite (write_ids R cs)" by (simp add: write_ids_def)
  ultimately show ?thesis
    using commits_in_total [of "write_ids R cs"]
    by (auto simp: commits_team_writes_def only_commits_def ensure_shape_id Let_def commits_in_def split: option.splits)
qed

end
