(* ===== verification/Worker_Demo.thy ===== *)
theory Worker_Demo
  imports Worker_Facts Sample_Demo
begin

text \<open>
  The properties of concurrent calls on the concrete run, and the interleaving in which two
  workers send the same write.
\<close>

section \<open>Two workers with one call\<close>

definition demo_pair :: "worker \<Rightarrow> (tool_call \<times> worker) list" where
  "demo_pair p = [(demo_call, p), (demo_call, p)]"

text \<open>The world after both have looked and recorded their intent: the second changed nothing.\<close>

definition demo_intended :: "nat beside world" where
  "demo_intended = demo_unsent\<lparr>db := (db demo_unsent)\<lparr>
     external_results := [(''exec_d1a2e2bc910c0f0543c12'', \<lparr>row_run_id = ''r1'', row_plan_item_id = Some
     ''step_0'', row_tool_name = ''pay'', row_operation_type = ''WRITE'', row_request_payload = Some [(''n'',
     JInt 1)], row_response_payload = None, row_request_ref_id = None, row_response_ref_id = None,
     row_result_status = UNKNOWN, row_execution_status = INTENT_LOGGED, row_error_message = None,
     row_created_at = 20000, row_updated_at = 19000\<rparr>)],
     wal_events := take 7 (wal_events (db demo_unsent)),
     wal_seq := 7\<rparr>,
     ticks := 24\<rparr>"

lemma demo_intended_run:
  "run_schedule demo_runtime False pay [0, 1, 0, 1] (demo_pair Looking, demo_started) = (demo_pair (Checking WRITE), demo_intended)"
  by code_simp

lemma demo_both_sent:
  "outside (snd (run_schedule demo_runtime False pay [0, 1, 0, 1, 0, 1] (demo_pair (Checking WRITE), demo_intended))) = (2, [])"
  by code_simp

lemma run_schedule_append: "run_schedule R dr adapter (xs @ ys) s = run_schedule R dr adapter ys (run_schedule R dr adapter xs s)"
  by (simp add: run_schedule_def)

text \<open>
  C9: without an idempotent target, nothing keeps two workers from sending the same write. Both look before either has
  recorded its intent, the second intent is accepted because the first is there, and the second
  dispatch because a status may follow itself; each then sends.
\<close>

theorem concurrent_calls_may_send_twice:
  "\<exists>ts w. (team_step demo_runtime False pay (=))\<^sup>*\<^sup>* (team_start [demo_call, demo_call], demo_started) (ts, w) \<and>
     outside demo_started = (0, []) \<and> outside w = (2, []) \<and>
     normalize_operation_type (call_operation_type demo_call) = Inr WRITE"
proof -
  let ?s = "run_schedule demo_runtime False pay ([0, 1, 0, 1] @ [0, 1, 0, 1, 0, 1]) (demo_pair Looking, demo_started)"
  have "(team_step demo_runtime False pay (=))\<^sup>*\<^sup>* (demo_pair Looking, demo_started) ?s"
    by (rule schedule_is_run) (simp add: demo_pair_def)
  moreover have "outside (snd ?s) = (2, [])"
    by (simp only: run_schedule_append demo_intended_run demo_both_sent)
  ultimately show ?thesis
    by (intro exI [of _ "fst ?s"] exI [of _ "snd ?s"]) (simp add: demo_outside demo_call_kind team_start_def demo_pair_def)
qed

section \<open>The witnesses\<close>

lemma demo_call_names: "c \<in> set [demo_call, demo_call] \<Longrightarrow> canonical (call_run_id c) \<and> canonical (call_execution_id demo_runtime c)"
  by (auto simp: demo_call_canonical demo_run_canonical)

lemma demo_dedup: "enforce_execution_dedup demo_runtime"
  by (simp add: demo_runtime_def)

text \<open>The first worker is about to send, the second has looked and recorded its intent.\<close>

abbreviation demo_sending :: "nat beside team" where
  "demo_sending \<equiv> run_schedule demo_runtime False pay [0, 0] (demo_pair (Checking WRITE), demo_intended)"

lemma demo_sending_first: "hd (fst demo_sending) = (demo_call, Sending WRITE False)"
  by code_simp

lemma demo_sending_reached: "(team_step demo_runtime False pay (=))\<^sup>*\<^sup>* (team_start [demo_call, demo_call], demo_started) demo_sending"
proof -
  have "(team_step demo_runtime False pay (=))\<^sup>*\<^sup>* (demo_pair Looking, demo_started)
    (run_schedule demo_runtime False pay ([0, 1, 0, 1] @ [0, 0]) (demo_pair Looking, demo_started))"
    by (rule schedule_is_run) (simp add: demo_pair_def)
  then show ?thesis by (simp only: run_schedule_append demo_intended_run) (simp add: demo_pair_def team_start_def)
qed

theorem concurrent_sends_are_logged_witness:
  "\<exists>s. status_on_record (db (snd demo_sending)) (call_execution_id demo_runtime demo_call) = Some s \<and> s \<noteq> INTENT_LOGGED"
proof -
  have "fst demo_sending \<noteq> []" by (simp add: run_schedule_def demo_pair_def step_at_def split: prod.split)
  then have "(demo_call, Sending WRITE False) \<in> set (fst demo_sending)" by (metis demo_sending_first hd_in_set)
  then show ?thesis
    using concurrent_sends_are_logged [of demo_runtime False pay "(=)" "[demo_call, demo_call]" demo_started "fst demo_sending" "snd demo_sending"]
      demo_sending_reached demo_closed(1) demo_dedup demo_call_names by auto
qed

text \<open>Both have looked and recorded their intent; the first is acknowledged before the second has marked its dispatch.\<close>

definition demo_overtaken :: "nat beside team" where
  "demo_overtaken = run_schedule demo_runtime False pay [0, 1, 0, 0, 0] (demo_pair (Checking WRITE), demo_intended)"

lemma demo_overtaken_state:
  "case demo_overtaken of (ts, w) \<Rightarrow> \<not> conn_open w \<and>
     status_on_record (db w) ''exec_d1a2e2bc910c0f0543c12'' = Some ACKED \<and> (case snd (ts ! 1) of Marking kind \<Rightarrow> kind = WRITE | _ \<Rightarrow> False)"
  by code_simp

lemma demo_overtaken_calls: "map fst (fst demo_overtaken) = [demo_call, demo_call]"
  unfolding demo_overtaken_def by (subst schedule_calls) (simp_all add: demo_pair_def)

theorem concurrent_calls_reuse_a_commit_witness:
  "\<exists>p'. fst (run_schedule demo_runtime False pay [1, 1] demo_overtaken) ! 1 = (demo_call, p') \<and>
     (before_send p' \<or> (\<exists>e. p' = Finished (Inl e)) \<or> (\<exists>tx. p' = Finished (Inr tx) \<and> tx_disposition tx = REUSED))"
proof -
  let ?s = "run_schedule demo_runtime False pay [1, 1] demo_overtaken"
  obtain ts w where o: "demo_overtaken = (ts, w)" by fastforce
  have calls: "map fst ts = [demo_call, demo_call]" using demo_overtaken_calls unfolding o by simp
  then have len: "length ts = 2" by (metis length_Cons length_map list.size(3) numeral_2_eq_2)
  have names: "(c, p) \<in> set ts \<Longrightarrow> canonical (call_run_id c) \<and> canonical (call_execution_id demo_runtime c)" for c p
  proof -
    assume "(c, p) \<in> set ts"
    then have "c \<in> set (map fst ts)" by force
    then show ?thesis using calls demo_call_names by simp
  qed
  have at: "\<not> conn_open w" "status_on_record (db w) ''exec_d1a2e2bc910c0f0543c12'' = Some ACKED" "snd (ts ! 1) = Marking WRITE"
    using demo_overtaken_state unfolding o by (auto split: worker.splits)
  have "fst (ts ! 1) = demo_call" using calls len by (metis nth_Cons_0 nth_Cons_Suc nth_map One_nat_def one_less_numeral_iff semiring_norm(76))
  then have second: "ts ! 1 = (demo_call, Marking WRITE)" using at(3) by (metis prod.collapse)
  have id: "call_execution_id demo_runtime demo_call = ''exec_d1a2e2bc910c0f0543c12''" by code_simp
  have run: "(team_step demo_runtime False pay (=))\<^sup>*\<^sup>* (ts, w) (fst ?s, snd ?s)"
    using schedule_is_run [of demo_overtaken "[1, 1]"] len unfolding o by simp
  show ?thesis
    using concurrent_calls_reuse_a_commit [OF run _ demo_dedup names _ _ _ second] at(1,2) len by (simp add: id)
qed


theorem concurrent_calls_invoke_once_each_witness:
  "\<exists>calls. distinct (map fst calls) \<and> list_all (\<lambda>(i, _). i < 2) calls \<and>
     invoked demo_runtime pay [demo_call, demo_call] calls (0, []) = (2, [])"
proof -
  let ?s = "run_schedule demo_runtime False pay ([0, 1, 0, 1] @ [0, 1, 0, 1, 0, 1]) (demo_pair Looking, demo_started)"
  have "(team_step demo_runtime False pay (=))\<^sup>*\<^sup>* (demo_pair Looking, demo_started) ?s"
    by (rule schedule_is_run) (simp add: demo_pair_def)
  then have "(team_step demo_runtime False pay (=))\<^sup>*\<^sup>* (team_start [demo_call, demo_call], demo_started) (fst ?s, snd ?s)"
    by (simp add: team_start_def demo_pair_def)
  from concurrent_calls_invoke_once_each [OF this] obtain calls where calls: "distinct (map fst calls)"
      "list_all (\<lambda>(i, _). i < length [demo_call, demo_call]) calls"
      "outside (snd ?s) = invoked demo_runtime pay [demo_call, demo_call] calls (outside demo_started)" by blast
  moreover have "outside (snd ?s) = (2, [])"
    by (simp only: run_schedule_append demo_intended_run demo_both_sent)
  ultimately show ?thesis by (intro exI [of _ calls]) (simp add: demo_outside eval_nat_numeral)
qed

text \<open>Two workers with one keyed write on the mock target, whose first response is lost.\<close>

definition demo_keyed_call :: tool_call where
  "demo_keyed_call = \<lparr>call_run_id = ''r1'', call_plan_item_id = ''step_0'', call_tool_name = ''apply-action'',
     call_request = [(''action_name'', JStr ''set_value''), (''payload'', JObj [(''key'', JStr ''k''), (''value'', JInt 5)])],
     call_operation_type = ''WRITE'', call_invocation_key = None, call_timeout_s = None, call_idempotency_supported = True\<rparr>"

definition demo_keyed_start :: "replay_side beside world" where
  "demo_keyed_start = snd (start_run demo_runtime ''r1'' [] ''plan'' [JObj [(''title'', JStr ''buy'')]] None False None sample_demo_world)"

definition demo_keyed_end :: "replay_side beside team" where
  "demo_keyed_end = run_schedule demo_runtime False (replay_adapter sample_demo_env) [0, 1, 0, 1, 0, 1, 0, 1, 0, 1, 1, 0]
     (team_start [demo_keyed_call, demo_keyed_call], demo_keyed_start)"

theorem concurrent_keyed_writes_commit_once_witness:
  "case target_file (store_of (snd demo_keyed_end)) of None \<Rightarrow> True
    | Some f \<Rightarrow> \<exists>data. ensure_shape f = Inr data \<and> length (obj_at data ''idempotent_requests'') \<le> 1 \<and> stat_of data ''total_commits'' \<le> 1"
proof -
  have run: "(team_step demo_runtime False (replay_adapter sample_demo_env) probes)\<^sup>*\<^sup>*
      (team_start [demo_keyed_call, demo_keyed_call], demo_keyed_start) (fst demo_keyed_end, snd demo_keyed_end)"
    unfolding demo_keyed_end_def prod.collapse by (rule schedule_is_run) (simp add: team_start_def)
  have mode: "target_mode (se_target sample_demo_env) = IDEMPOTENT" by (simp add: sample_demo_env_def demo_target_restarted_def)
  have "normalize_operation_type ''WRITE'' = Inr WRITE" by code_simp
  then have keyed: "list_all keyed_write [demo_keyed_call, demo_keyed_call]" by (simp add: keyed_write_def demo_keyed_call_def)
  have "outside demo_keyed_start = outside sample_demo_world"
    unfolding demo_keyed_start_def by (rule conjunct1 [OF same_outsideD [OF facade_effect(1) surjective_pairing]])
  then have fresh: "target_file (store_of demo_keyed_start) = None" by (simp add: sample_demo_world_def demo_store_def)
  have "card (write_ids demo_runtime [demo_keyed_call, demo_keyed_call]) = 1" by (simp add: write_ids_def demo_keyed_call_def)
  with concurrent_keyed_writes_commit_once [OF run mode keyed fresh] show ?thesis by (auto simp: Let_def split: option.splits)
qed

end
