(* ===== verification/Replay.thy ===== *)
theory Replay
  imports Instances Target_Demo
begin

text \<open>
  The recovery and the call that follows it, composed: a write that the target does not have is
  replayed, once, and the outcome of the replay is what the adapter answers.
\<close>

section \<open>The recovery of an absent write\<close>

lemma absent_write_is_cleared:
  assumes "recover_one R C run_id now records i w = (Inr d, w')" and "\<not> conn_open w" and "canonical run_id" and "canonical i"
    and "map_of records i = Some rec" and "res_operation_type rec = ''WRITE''" and "res_execution_status rec = DISPATCHED"
    and "decide (default_wait_seconds C) run_id i rec now = Inr late" and "dec_action late = HANDOFF_RETRY_OR_ABANDON"
    and "verifier C = Some verify" and "outside w = (t, keys)"
    and "verify i (res_tool_name rec) (res_request_payload rec) t = (Inr v, t')" and "ver_committed v = Some False"
  shows "dec_action d = REPLAY \<and> status_on_record (db w') i = Some VERIFIED_NOT_FOUND \<and> outside w' = (t', keys) \<and> \<not> conn_open w'"
proof -
  let ?w = "w\<lparr>outside := (t', keys)\<rparr>" and ?report = "status_report UNKNOWN VERIFIED_NOT_FOUND None False"
  have asked: "try_catch (bind (call_outside (verify i (res_tool_name rec) (res_request_payload rec))) (\<lambda>v. ret (Some v)))
      (\<lambda>e. ret None) w = (Inr (Some v), ?w)"
    by (simp add: try_catch_def bind_def call_outside_def call_tool_def assms(11,12))
  have ver: "verify_ambiguous_write R verify run_id i rec late w =
      bind (record_tool_result R run_id i ?report) (\<lambda>updated. ret (decision run_id i REPLAY
        (''target verification found no commit: '' @ ver_reason v) (Some VERIFIED_NOT_FOUND), updated)) ?w"
    unfolding verify_ambiguous_write_def by (subst bind_Inr, rule asked) (simp add: assms(13))
  obtain updated where upd: "record_tool_result R run_id i ?report ?w = (Inr updated, w')" and d: "dec_action d = REPLAY"
    using assms(1) by (auto simp: recover_one_def assms(5-10) decision_def bind_eq_Inr ver)
  have "status_on_record (db w') i = Some VERIFIED_NOT_FOUND"
    using record_result_outcome [OF upd _ assms(3,4) status_report_status] assms(2) by (auto simp: status_after_step)
  moreover have "outside w' = (t', keys) \<and> \<not> conn_open w'" using same_outsideD [OF facade_effect(17) upd] assms(2) by simp
  ultimately show ?thesis using d by simp
qed

section \<open>The call that replays it\<close>

lemma replayed_call:
  assumes "execute_tool R dr adapter c w = (Inr tx, w')" and "normalize_operation_type (call_operation_type c) = Inr kind"
    and "canonical (call_execution_id R c)" and "status_on_record (db w) (call_execution_id R c) = Some VERIFIED_NOT_FOUND"
  shows "dispatch_call R adapter c kind True w = (Inr tx, w')"
proof -
  obtain found where get: "repo_get_result R (call_execution_id R c) w = (Inr found, w)"
    using assms(1) repo_get_result_InrD
    by (auto simp: execute_tool_def assms(2) Let_def bind_eq_Inr) blast
  with status_of_get [OF get assms(3)] assms(4) obtain r where "found = Some r" "res_execution_status r = VERIFIED_NOT_FOUND"
    by (cases found) auto
  with assms(1) get show ?thesis by (simp add: execute_tool_def assms(2) Let_def bind_Inr)
qed

text \<open>What the adapter's answer makes of a replayed write: the disposition and the status.\<close>

definition replay_verdict :: "json res \<Rightarrow> disposition \<times> execution_status" where
  "replay_verdict answer = (case answer of
     Inr (JObj response) \<Rightarrow> (SUCCEEDED, ACKED)
   | Inr _ \<Rightarrow> (FAILED_TX, FAILED)
   | Inl e \<Rightarrow> if exn_class e = AmbiguousToolError then (PENDING_RECOVERY, VERIFIED_NOT_FOUND) else (FAILED_TX, FAILED))"

lemma reported_status:
  assumes "record_tool_result R run_id i (call_report c kind rs s p m b) w = (Inr x, w')" and "\<not> conn_open w"
    and "canonical run_id" and "canonical i"
  shows "status_on_record (db w') i = Some s"
  using record_result_outcome [OF assms(1-4), of s] by (auto simp: call_report_def status_after_step)

lemma invoke_checked_answer:
  "fst (invoke_checked f w) = (case fst (f (outside w)) of Inl e \<Rightarrow> Inl e
     | Inr x \<Rightarrow> (case x of JObj d \<Rightarrow> Inr d | _ \<Rightarrow> Inl (Exn ValueError ''tool output must be a dictionary'')))"
  by (cases "f (outside w)"; cases "fst (f (outside w))") (simp_all add: invoke_checked_def call_tool_def bind_def split: json.split)

lemma replay_verdict_checked:
  "replay_verdict (fst (f (outside w))) = (case fst (invoke_checked f w) of Inr d \<Rightarrow> (SUCCEEDED, ACKED)
     | Inl e \<Rightarrow> if exn_class e = AmbiguousToolError then (PENDING_RECOVERY, VERIFIED_NOT_FOUND) else (FAILED_TX, FAILED))"
  unfolding invoke_checked_answer
  by (cases "fst (f (outside w))") (simp_all add: replay_verdict_def split: json.split)

lemma replay_outcome:
  assumes "dispatch_call R adapter c WRITE True w = (Inr tx, w')" and "\<not> conn_open w"
    and "canonical (call_run_id c)" and "canonical (call_execution_id R c)"
  shows "replay_verdict (fst (adapter_call R adapter c WRITE (outside w))) =
    (tx_disposition tx, the (status_on_record (db w') (call_execution_id R c))) \<and> status_on_record (db w') (call_execution_id R c) \<noteq> None"
  using assms(1)
proof (cases rule: dispatch_call_cases)
  case (1 e v)
  have v: "\<not> conn_open v" using invoke_checked_outside [OF 1(1)] assms(2) by simp
  have verdict: "replay_verdict (fst (adapter_call R adapter c WRITE (outside w))) =
      (if exn_class e = AmbiguousToolError then (PENDING_RECOVERY, VERIFIED_NOT_FOUND) else (FAILED_TX, FAILED))"
    unfolding replay_verdict_checked 1(1) by simp
  show ?thesis
    using 1(3) reported_status [OF _ v assms(3,4)] unfolding record_failure_def Let_def verdict
    by (cases "exn_class e = AmbiguousToolError") (auto simp: bind_eq_Inr)
next
  case (2 e)
  then show ?thesis by simp
next
  case (3 d v)
  have v: "\<not> conn_open v" using invoke_checked_outside [OF 3(1)] assms(2) by simp
  have "replay_verdict (fst (adapter_call R adapter c WRITE (outside w))) = (SUCCEEDED, ACKED)"
    unfolding replay_verdict_checked 3(1) by simp
  then show ?thesis
    using 3(2) unfolding record_success_def Let_def using reported_status [OF _ v assms(3,4)] by (auto simp: bind_eq_Inr)
qed

text \<open>
  C11: proven absence is replayed once. A dispatched write whose window is over and which the verifier finds absent is decided as
  \<open>replay\<close> and recorded as \<open>verified_not_found\<close>; the next call of it invokes the adapter exactly once,
  and its disposition and the status on record are what the adapter's answer makes of it.
\<close>

theorem absent_write_is_replayed_once:
  assumes "recover_one R C run_id now records (call_execution_id R c) w = (Inr d, w1)" and "\<not> conn_open w"
    and "run_id = call_run_id c" and "canonical run_id" and "canonical (call_execution_id R c)"
    and "map_of records (call_execution_id R c) = Some rec" and "res_operation_type rec = ''WRITE''" and "res_execution_status rec = DISPATCHED"
    and "decide (default_wait_seconds C) run_id (call_execution_id R c) rec now = Inr late" and "dec_action late = HANDOFF_RETRY_OR_ABANDON"
    and "verifier C = Some verify" and "outside w = (t, keys)"
    and "verify (call_execution_id R c) (res_tool_name rec) (res_request_payload rec) t = (Inr v, t')" and "ver_committed v = Some False"
    and "normalize_operation_type (call_operation_type c) = Inr WRITE" and "execute_tool R dr adapter c w1 = (Inr tx, w2)"
  shows "dec_action d = REPLAY \<and> status_on_record (db w1) (call_execution_id R c) = Some VERIFIED_NOT_FOUND \<and>
    outside w2 = snd (adapter_call R adapter c WRITE (t', keys)) \<and>
    replay_verdict (fst (adapter_call R adapter c WRITE (t', keys))) =
      (tx_disposition tx, the (status_on_record (db w2) (call_execution_id R c)))"
proof -
  note cleared = absent_write_is_cleared [OF assms(1,2,4-14)]
  then have "dispatch_call R adapter c WRITE True w1 = (Inr tx, w2)"
    by (intro replayed_call [OF assms(16,15,5)]) simp
  with cleared replay_outcome [OF this] dispatch_call_outside [OF this] assms(3-5) show ?thesis by simp
qed

text \<open>On the concrete run: the payment that was never sent, cleared by the recovery and then sent, with its response lost.\<close>

lemma demo_cleared: "recover_one demo_runtime demo_coordinator ''r1'' 100000000 [(''exec_d1a2e2bc910c0f0543c12'', demo_dispatched)]
    ''exec_d1a2e2bc910c0f0543c12'' demo_unsent =
  (Inr \<lparr>dec_run_id = ''r1'', dec_execution_id = ''exec_d1a2e2bc910c0f0543c12'', dec_action = REPLAY,
    dec_reason = ''target verification found no commit: probe'', dec_status = Some VERIFIED_NOT_FOUND,
    dec_wait_timeout_seconds = None, dec_wait_until = None\<rparr>, demo_not_found)"
  by code_simp

theorem absent_write_is_replayed_once_witness:
  "status_on_record (db demo_not_found) (call_execution_id demo_runtime demo_call) = Some VERIFIED_NOT_FOUND \<and>
   outside demo_lost_again = snd (pay_lost ''pay'' [(''n'', JInt 1)] None None (0, [])) \<and>
   replay_verdict (fst (pay_lost ''pay'' [(''n'', JInt 1)] None None (0, []))) =
     (PENDING_RECOVERY, the (status_on_record (db demo_lost_again) (call_execution_id demo_runtime demo_call)))"
proof -
  have id: "call_execution_id demo_runtime demo_call = ''exec_d1a2e2bc910c0f0543c12''" by code_simp
  have kind: "normalize_operation_type (call_operation_type demo_call) = Inr WRITE" by (rule demo_call_kind)
  have "(case decide (Fin 5) ''r1'' ''exec_d1a2e2bc910c0f0543c12'' demo_dispatched 100000000 of Inl e \<Rightarrow> False
      | Inr d \<Rightarrow> dec_action d = HANDOFF_RETRY_OR_ABANDON)" by code_simp
  then obtain late where late: "decide (Fin 5) ''r1'' ''exec_d1a2e2bc910c0f0543c12'' demo_dispatched 100000000 = Inr late"
      "dec_action late = HANDOFF_RETRY_OR_ABANDON" by (auto split: sum.splits)
  have verify: "count_paid i tool request (0::nat) = (Inr \<lparr>ver_committed = Some False, ver_reason = ''probe'',
      ver_record = JNull, ver_receipt = JNull\<rparr>, 0)" for i tool request
    by (simp add: count_paid_def)
  have parts: "default_wait_seconds demo_coordinator = Fin 5" "verifier demo_coordinator = Some count_paid"
      "res_operation_type demo_dispatched = ''WRITE''" "res_execution_status demo_dispatched = DISPATCHED"
      "call_run_id demo_call = ''r1''" "call_tool_name demo_call = ''pay''" "call_request demo_call = [(''n'', JInt 1)]"
      "call_timeout_s demo_call = None" "\<not> call_idempotency_supported demo_call"
    by (simp_all add: demo_coordinator_def demo_dispatched_def demo_call_def)
  from absent_write_is_replayed_once [OF demo_cleared [folded id] demo_closed(3) parts(5) [symmetric] demo_run_canonical(2) demo_call_canonical
      _ parts(3,4) _ _ parts(2) demo_outside(3) verify _ kind demo_lost_again_run]
    late parts
  show ?thesis by (simp add: id)
qed

end
