(* ===== verification/Recovery_Facts.thy ===== *)
theory Recovery_Facts
  imports Dry_Run Instances System_Runs
begin

text \<open>
  What the recovery of a whole run decides: one decision for each execution of the run, in agreement with the
  record it leaves; and the timeouts in a request that keep it from deciding at all.
\<close>

section \<open>The executions a recovery goes through\<close>

text \<open>Only executions of the run are listed.\<close>

lemma listed_are_recorded:
  assumes "list_external_results run_id w = (Inr rs, w')" and "rows_canonical (db w)"
  shows "res_execution_id ` set rs \<subseteq> recorded (db w) (strip run_id)"
proof
  fix i assume "i \<in> res_execution_id ` set rs"
  then obtain r where r: "r \<in> set rs" "res_execution_id r = i" by blast
  from assms(1) obtain u w1 ids w2 os w3 where u: "lift (require_non_empty_str (JStr run_id) ''run_id'') w = (Inr u, w1)"
    and ids: "read_db (\<lambda>d. map fst (sort_key (\<lambda>(i, row). (row_created_at row, i))
       (filter (\<lambda>(i, row). row_run_id row = u) (external_results d)))) w1 = (Inr ids, w2)"
    and os: "for_each get_external_result ids w2 = (Inr os, w3)"
    and rs: "ret (List.map_filter (\<lambda>r. r) os) w3 = (Inr rs, w')"
    unfolding list_external_results_def by (elim bind_InrE) blast
  have w: "w1 = w" "w2 = w" "u = strip run_id" using u ids by (auto simp: require_JStr lift_def split: if_splits)
  have "list_all2 (\<lambda>i found. get_external_result i w = (Inr found, w)) ids os"
    using for_each_pure [OF _ os] get_external_result_InrD w(2) by blast
  moreover have "Some r \<in> set os" using r(1) rs by (auto simp: List.map_filter_def)
  ultimately obtain j where j: "j \<in> set ids" "get_external_result j w = (Inr (Some r), w)"
    by (blast dest: list_all2_setD)
  then obtain row where row: "(j, row) \<in> set (external_results (db w))" "row_run_id row = strip run_id"
    using ids w by auto
  have "canonical j" "distinct (map fst (external_results (db w)))" using row(1) assms(2) by (force simp: rows_canonical_def)+
  then have "j = i" "map_of (external_results (db w)) j = Some row"
    using get_external_result_InrD [OF j(2)] r(2) row(1) by (auto simp: canonical_strip)
  with row(2) show "i \<in> recorded (db w) (strip run_id)" by (auto simp: recorded_def)
qed

lemma reloaded_ids:
  "list_all2 (\<lambda>r r'. reload_result R r w = (Inr r', w)) rs0 rs \<Longrightarrow> \<forall>r\<in>set rs0. canonical (res_execution_id r) \<Longrightarrow>
    map res_execution_id rs = map res_execution_id rs0"
  by (induction rule: list_all2_induct) (auto simp: canonical_strip dest!: reload_result_InrD)

lemma finite_recorded: "finite (recorded d run_id)"
  by (rule finite_subset [of _ "fst ` set (external_results d)"]) (auto simp: recorded_def dest: map_of_SomeD intro: rev_image_eqI)

text \<open>The service lists the executions of the run, all of them and no other.\<close>

lemma service_lists_recorded:
  assumes "service_list_results R run_id w = (Inr rs, w')" and "rows_canonical (db w)" and "canonical run_id"
  shows "res_execution_id ` set rs = recorded (db w) run_id"
proof
  from assms(1) obtain c w1 rs0 w2 where c: "load_required_context R run_id w = (Inr c, w1)"
    and l: "list_external_results run_id w1 = (Inr rs0, w2)"
    and rs: "for_each (reload_result R) rs0 w2 = (Inr rs, w')"
    unfolding service_list_results_def repo_list_results_def by (elim bind_InrE) blast
  have w1: "w1 = w" using load_required_context_InrD [OF c] by blast
  have "list_all2 (\<lambda>r r'. reload_result R r w2 = (Inr r', w2)) rs0 rs"
    using for_each_pure [OF _ rs] reload_result_InrD by blast
  moreover have "\<forall>r\<in>set rs0. canonical (res_execution_id r)" using list_external_results_InrD [OF l] by blast
  ultimately have "map res_execution_id rs = map res_execution_id rs0" by (rule reloaded_ids)
  then have "res_execution_id ` set rs = res_execution_id ` set rs0" by (metis set_map)
  then show "res_execution_id ` set rs \<subseteq> recorded (db w) run_id"
    using listed_are_recorded [OF l] w1 assms(2,3) by (simp add: canonical_strip)
  have "canonical i" if "i \<in> recorded (db w) run_id" for i
    using that assms(2) by (force simp: recorded_def rows_canonical_def dest: map_of_SomeD)
  then show "recorded (db w) run_id \<subseteq> res_execution_id ` set rs"
    using results_complete [OF assms(1)] assms(3) by (auto simp: canonical_strip)
qed

text \<open>A decision that agrees with the record: with its status, and with what its action is for.\<close>

definition decision_stands :: "execution_status option \<Rightarrow> recovery_decision \<Rightarrow> bool" where
  "decision_stands on_record d = (case on_record of
      None \<Rightarrow> False
    | Some s \<Rightarrow> dec_status d = Some s \<and>
        (case dec_action d of
           REPLAY \<Rightarrow> s \<in> {INTENT_LOGGED, VERIFIED_NOT_FOUND}
         | MARK_COMMITTED \<Rightarrow> s \<in> {ACKED, VERIFIED_COMMITTED}
         | RESUME_WAITING \<Rightarrow> s = DISPATCHED
         | HANDOFF_RETRY_OR_ABANDON \<Rightarrow> s \<in> {DISPATCHED, FAILED}))"

lemma fitting_action:
  assumes "action_fits d" and "dec_status d = on_record" and "dec_status d \<noteq> None"
  shows "decision_stands on_record d"
proof -
  from assms(2,3) obtain s where s: "dec_status d = Some s" "on_record = Some s" by (cases on_record) auto
  show ?thesis using assms(1) unfolding action_fits_def decision_stands_def s
    by (cases s; cases "dec_action d") simp_all
qed

text \<open>
  C13: in every reachable database, a recovery that returns has decided each execution on record in the run
  exactly once, in the order of the identifiers, and nothing else; a run without a context has no decisions.
  Each decision names the status that is on record when the recovery returns, and is fit for it: a replay only
  for an execution that was never dispatched or that the target does not have, a commit only for one that is
  committed, and what is open waits or is handed off.
\<close>

theorem recovery_decisions_fit_the_record:
  assumes "recover_run R C run_id now w = (Inr ds, w')" and "reachable R w" and "enforce_execution_dedup R"
    and "canonical run_id"
  shows "map dec_execution_id ds = (if context_view (db w) run_id = None then [] else sorted_list_of_set (recorded (db w) run_id)) \<and>
    list_all (\<lambda>d. decision_stands (status_on_record (db w') (dec_execution_id d)) d) ds"
proof -
  note sound = reachable_sound [OF assms(2)] and closed = reachable_closed [OF assms(2)]
    and rows = conjunct2 [OF reachable_pending [OF assms(2,3)]] and pend_ok = conjunct1 [OF reachable_pending [OF assms(2,3)]]
  obtain t w0 ctx w1 where t: "(case now of Some t \<Rightarrow> ret t | None \<Rightarrow> utc_now R) w = (Inr t, w0)"
    and c: "repo_load_context R run_id w0 = (Inr ctx, w1)"
    and more: "(if ctx = None then ret [] else
     bind (service_list_results R run_id) (\<lambda>results.
     bind (list_pending_executions R run_id) (\<lambda>pending.
     let records = rev (map (\<lambda>r. (res_execution_id r, r)) results) in
     for_each (recover_one R C run_id t records) (sort (remdups (map fst records @ pending)))))) w1 = (Inr ds, w')"
    using assms(1) unfolding recover_run_def by (elim bind_InrE) blast
  have w0: "db w0 = db w" using t by (auto split: option.splits)
  note ctx = repo_load_context_InrD [OF c]
  show ?thesis
  proof (cases "ctx = None")
    case True
    then show ?thesis using more ctx w0 assms(4) by (simp add: canonical_strip)
  next
    case False
    then obtain rs w2 pend w3 records where rs: "service_list_results R run_id w1 = (Inr rs, w2)"
      and pend: "list_pending_executions R run_id w2 = (Inr pend, w3)"
      and records: "records = rev (map (\<lambda>r. (res_execution_id r, r)) rs)"
      and all: "for_each (recover_one R C run_id t records) (sort (remdups (map fst records @ pend))) w3 = (Inr ds, w')"
      using more by (auto simp: Let_def simp del: map_append rev_map elim!: bind_InrE)
    let ?ids = "sort (remdups (map fst records @ pend))"
    note reads = recovery_reads [OF t c rs pend _ records]
    have ok: "contexts_ok (db w)" using sound by (simp add: sound_db_def)
    have d: "db w1 = db w" "db w2 = db w" using ctx w0 service_list_results_InrD [OF rs] by auto
    have "set pend \<subseteq> recorded (db w) run_id"
      using pending_recorded [OF pend] sound pend_ok d assms(4) by (simp add: canonical_strip)
    moreover have listed: "fst ` set records = recorded (db w) run_id"
      using service_lists_recorded [OF rs _ assms(4)] rows d by (simp add: records image_image)
    ultimately have "set (remdups (map fst records @ pend)) = recorded (db w) run_id" by auto
    then have ids: "?ids = sorted_list_of_set (recorded (db w) run_id)"
      by (metis sorted_list_of_set_sort_remdups remdups_remdups)
    have r: "map dec_execution_id ds = ?ids \<and> conn_open w' = conn_open w3 \<and>
      (\<forall>j. j \<notin> set ?ids \<longrightarrow> status_on_record (db w') j = status_on_record (db w3) j) \<and>
      list_all (\<lambda>d. action_fits d \<and> (dec_status d = None \<longleftrightarrow> map_of records (dec_execution_id d) = None) \<and>
        (if dec_status d = None then True else dec_status d = status_on_record (db w') (dec_execution_id d))) ds"
      by (rule recover_all_InrD [OF all _ assms(4)]) (use reads ok closed in auto)
    have "decision_stands (status_on_record (db w') (dec_execution_id x)) x" if x: "x \<in> set ds" for x
    proof -
      have "dec_execution_id x \<in> set (map dec_execution_id ds)" using x by simp
      then have "dec_execution_id x \<in> recorded (db w) run_id" using r ids finite_recorded by (metis set_sorted_list_of_set)
      then have "map_of records (dec_execution_id x) \<noteq> None" using listed by (simp add: map_of_eq_None_iff)
      then show ?thesis using r x by (intro fitting_action) (auto simp: list_all_iff)
    qed
    moreover have "context_view (db w) run_id \<noteq> None" using False ctx w0 assms(4) by (auto simp: canonical_strip)
    ultimately show ?thesis using r ids by (auto simp: list_all_iff)
  qed
qed

theorem recovery_decisions_fit_the_record_witness:
  "map dec_execution_id (projr (fst (recover_run demo_runtime demo_coordinator ''r1'' (Some 100000000) demo_unsent))) =
     [call_execution_id demo_runtime demo_call]"
proof -
  have dedup: "enforce_execution_dedup demo_runtime" by (simp add: demo_runtime_def)
  have "recorded (db demo_unsent) ''r1'' = {''exec_d1a2e2bc910c0f0543c12''}"
    by (auto simp: recorded_def demo_unsent_def split: if_splits)
  moreover have "context_view (db demo_unsent) ''r1'' \<noteq> None" by code_simp
  moreover have "call_execution_id demo_runtime demo_call = ''exec_d1a2e2bc910c0f0543c12''" by code_simp
  ultimately show ?thesis
    using recovery_decisions_fit_the_record [OF demo_not_found_run demo_reachable(3) dedup demo_run_canonical(2)]
    by (simp add: demo_not_found_run)
qed

section \<open>Timeouts that the calendar cannot hold\<close>

text \<open>What the parser of the timeouts returns is positive, and it raises only for an integer that no float holds.\<close>

definition sane_timeout :: "pyfloat option res \<Rightarrow> bool" where
  "sane_timeout r \<longleftrightarrow> (case r of Inl e \<Rightarrow> exn_class e = OverflowError | Inr None \<Rightarrow> True | Inr (Some f) \<Rightarrow> float_positive f)"

lemma sane_none [simp]: "sane_timeout (Inr None)"
  by (simp add: sane_timeout_def)

lemma sane_positive: "sane_timeout (parse_positive_float raw)"
  by (auto simp: sane_timeout_def parse_positive_float_def float_of_int_def positive_def rbind_def
      split: json.splits option.splits sum.splits if_splits)

lemma sane_or: "sane_timeout a \<Longrightarrow> sane_timeout b \<Longrightarrow> sane_timeout (or_next a b)"
  by (auto simp: sane_timeout_def or_next_def rbind_def split: sum.splits option.splits)

lemma first_some_or: "first_some f (k # ks) = or_next (f k) (first_some f ks)"
  by (simp add: or_next_def)

lemma sane_first: "(\<And>k. k \<in> set ks \<Longrightarrow> sane_timeout (f k)) \<Longrightarrow> sane_timeout (first_some f ks)"
proof (induction ks)
  case (Cons k ks)
  then show ?case unfolding first_some_or by (intro sane_or) simp_all
qed simp

lemma sane_milli: "sane_timeout a \<Longrightarrow> sane_timeout (rbind a (\<lambda>v. Inr (map_option float_milli v)))"
proof -
  have "float_positive f \<Longrightarrow> float_positive (float_milli f)" for f by (cases f) simp_all
  then show "sane_timeout a \<Longrightarrow> ?thesis" by (auto simp: sane_timeout_def rbind_def split: sum.splits option.splits)
qed

lemma sane_call_timeout: "sane_timeout (parse_call_timeout_seconds j)"
proof (induction j rule: parse_call_timeout_seconds.induct)
  case (1 d)
  then have "sane_timeout (case map_of (map (\<lambda>(k, v). (k, parse_call_timeout_seconds v)) d) k of None \<Rightarrow> Inr None | Some r \<Rightarrow> r)" for k
    by (force split: option.splits dest: map_of_SomeD)
  then show ?case by (simp only: parse_call_timeout_seconds.simps) (intro sane_or sane_first sane_milli sane_positive)
qed simp_all

text \<open>The request asks for a wait that ends after the calendar does, or for a number that is too large for a float.\<close>

definition past_calendar :: "int \<Rightarrow> pyfloat \<Rightarrow> bool" where
  "past_calendar started_at s \<longleftrightarrow> (case s of PInf \<Rightarrow> True
     | Fin x \<Rightarrow> max_datetime < started_at + Recovery.round_half_even (x * 1000000) | _ \<Rightarrow> False)"

definition waits_too_long :: "int \<Rightarrow> dict \<Rightarrow> bool" where
  "waits_too_long started_at request \<longleftrightarrow> (case parse_call_timeout_seconds (JObj request) of
     Inl e \<Rightarrow> True | Inr None \<Rightarrow> False | Inr (Some s) \<Rightarrow> past_calendar started_at s)"

lemma no_deadline:
  assumes "waits_too_long started_at request"
  shows "\<exists>msg. resolve_wait_deadline started_at (Some request) fallback = Inl (Exn OverflowError msg)"
proof (cases "parse_call_timeout_seconds (JObj request)")
  case (Inl e)
  then show ?thesis using sane_call_timeout [of "JObj request"]
    by (cases e) (simp add: sane_timeout_def resolve_wait_deadline_def rbind_def del: parse_call_timeout_seconds.simps)
next
  case (Inr t)
  then obtain s where s: "t = Some s" "past_calendar started_at s"
    using assms by (auto simp: waits_too_long_def split: option.splits)
  then have "float_positive s" using sane_call_timeout [of "JObj request"] Inr
    by (simp add: sane_timeout_def del: parse_call_timeout_seconds.simps)
  then show ?thesis using Inr s
    by (cases s) (auto simp: resolve_wait_deadline_def rbind_def past_calendar_def add_seconds_def Let_def
      simp del: parse_call_timeout_seconds.simps)
qed

lemma for_each_InrD: "for_each f xs w = (Inr ys, w') \<Longrightarrow> x \<in> set xs \<Longrightarrow> \<exists>v y v'. f x v = (Inr y, v')"
  by (induction xs arbitrary: w ys) (auto elim!: bind_InrE)

text \<open>
  C30: one dispatched execution whose request asks for an infinite timeout, one beyond the calendar or an integer
  that no float holds, under any key the recovery reads, is never decided: in every world its decision is an
  \<open>OverflowError\<close> without effect. The recovery of its run therefore always ends with an exception and hands
  out no decision, not even for the executions that have nothing to do with it, whatever its position, the
  verifier and the callback.
\<close>

theorem infinite_timeout_ends_the_recovery:
  assumes "(case now of Some t \<Rightarrow> ret t | None \<Rightarrow> utc_now R) w = (Inr t, w1)"
    and "service_list_results R run_id w1 = (Inr rs, w2)"
    and "map_of (rev (map (\<lambda>r. (res_execution_id r, r)) rs)) i = Some r"
    and "res_execution_status r = DISPATCHED" and "res_request_payload r = Some request"
    and "waits_too_long (res_updated_at r) request"
  shows "(\<exists>msg. \<forall>v. recover_one R C run_id t (rev (map (\<lambda>r. (res_execution_id r, r)) rs)) i v = (Inl (Exn OverflowError msg), v)) \<and>
    (\<exists>e w'. recover_run R C run_id now w = (Inl e, w'))"
proof -
  let ?records = "rev (map (\<lambda>r. (res_execution_id r, r)) rs)"
  obtain msg where "resolve_wait_deadline (res_updated_at r) (Some request) (default_wait_seconds C) = Inl (Exn OverflowError msg)"
    using no_deadline [OF assms(6)] by blast
  then have one: "recover_one R C run_id t ?records i v = (Inl (Exn OverflowError msg), v)" for v
    using assms(3-5) by (simp add: recover_one_def decide_def bind_def)
  have "fst (recover_run R C run_id now w) \<noteq> Inr ds" for ds
  proof
    assume "fst (recover_run R C run_id now w) = Inr ds"
    then obtain w' where run: "recover_run R C run_id now w = (Inr ds, w')" by (metis prod.collapse)
    then obtain ctx v where ctx: "repo_load_context R run_id w1 = (Inr ctx, v)"
      and more: "(if ctx = None then ret [] else
       bind (service_list_results R run_id) (\<lambda>results.
       bind (list_pending_executions R run_id) (\<lambda>pending.
       let records = rev (map (\<lambda>r. (res_execution_id r, r)) results) in
       for_each (recover_one R C run_id t records) (sort (remdups (map fst records @ pending)))))) v = (Inr ds, w')"
      unfolding recover_run_def using assms(1) by (elim bind_InrE) force
    have v: "v = w1" using repo_load_context_InrD [OF ctx] by blast
    have "ctx \<noteq> None"
    proof
      assume "ctx = None"
      with repo_load_context_InrD [OF ctx] have "context_view (db w1) (strip run_id) = None" by simp
      then show False using assms(2) unfolding service_list_results_def
        by (elim bind_InrE) (auto dest: load_required_context_InrD)
    qed
    with more v obtain pend w3 where
      all: "for_each (recover_one R C run_id t ?records) (sort (remdups (map fst ?records @ pend))) w3 = (Inr ds, w')"
      using assms(2) by (auto simp: Let_def simp del: map_append rev_map elim!: bind_InrE)
    have "i \<in> fst ` set ?records" using map_of_SomeD [OF assms(3)] by force
    then have "i \<in> set (sort (remdups (map fst ?records @ pend)))" by auto
    from for_each_InrD [OF all this] one show False by fastforce
  qed
  then have "\<exists>e w'. recover_run R C run_id now w = (Inl e, w')"
    by (metis obj_sumE prod.collapse)
  with one show ?thesis by blast
qed

text \<open>A run with an open payment that is to wait for ever.\<close>

definition demo_endless :: "nat beside world" where
  "demo_endless =
     (let request = [(''meta'', JObj [(''timeout'', JStr ''inf'')])] in
      snd (record_tool_dispatch demo_runtime ''r1'' ''exec_e''
        (snd (record_tool_intent demo_runtime ''r1'' ''step_0'' ''exec_e'' ''pay'' request ''WRITE'' demo_started))))"

lemma demo_endless_listed:
  "case service_list_results demo_runtime ''r1'' demo_endless of
     (Inl e, w) \<Rightarrow> False
   | (Inr rs, w) \<Rightarrow> (case map_of (rev (map (\<lambda>r. (res_execution_id r, r)) rs)) ''exec_e'' of
       None \<Rightarrow> False
     | Some r \<Rightarrow> res_execution_status r = DISPATCHED \<and> (case res_request_payload r of
         None \<Rightarrow> False | Some request \<Rightarrow> waits_too_long (res_updated_at r) request))"
  by code_simp

theorem infinite_timeout_ends_the_recovery_witness:
  "\<exists>e w'. recover_run demo_runtime demo_coordinator ''r1'' (Some 100000000) demo_endless = (Inl e, w')"
proof -
  obtain rs w2 r request where listed: "service_list_results demo_runtime ''r1'' demo_endless = (Inr rs, w2)"
    and r: "map_of (rev (map (\<lambda>r. (res_execution_id r, r)) rs)) ''exec_e'' = Some r"
      "res_execution_status r = DISPATCHED" "res_request_payload r = Some request" "waits_too_long (res_updated_at r) request"
    using demo_endless_listed by (auto split: prod.splits sum.splits option.splits)
  have now: "(case Some (100000000 :: int) of Some t \<Rightarrow> ret t | None \<Rightarrow> utc_now demo_runtime) demo_endless = (Inr 100000000, demo_endless)"
    by (simp add: ret_def)
  from infinite_timeout_ends_the_recovery [OF now listed r, of demo_coordinator] show ?thesis by blast
qed

end
