(* ===== verification/Spec2Isabelle.thy ===== *)
theory Spec2Isabelle
  imports Instances Aids_Demo Dry_Run Adapters Target_Cli Execution_Machine Target_Mcp Sweep_Facts Live_Facts Live_Sweep
    Mock_Cli Service_Setup Worker_Demo Replay Recovery_Facts
begin

text \<open>
  A model of RAEF, a runtime that makes the tool calls of an agent survive crashes, and the
  theorems that make it correct. The sources are under \<open>src/src/raef/\<close> and
  \<open>src/example/\<close>.

  The program. An agent run has a plan and a context (its messages and open executions), kept in
  one SQLite database beside a log of events. The facade \<open>LoggingService\<close> changes them together: each
  of its operations is one transaction that appends events and writes the projections. The
  transaction manager executes one tool call on top of it: it logs the intent, marks a write as
  dispatched, invokes the adapter, and records the outcome. After a crash the recovery coordinator
  reads the records and decides, for each execution, whether to wait, to replay, to hand off or to
  take it as committed; a write of unknown outcome it looks up at the target.

  The theories, in the order of their imports:
  \<^item> \<open>Prelude\<close>: exceptions and results, state-passing actions with exceptions, the rules for what an
    action keeps (\<open>keeps\<close>) and what it changes at most (\<open>confined\<close>, locale \<open>effect_order\<close>).
  \<^item> \<open>Py_Value\<close>, \<open>Models\<close>: JSON values, Python's string, number and text functions, \<open>models.py\<close> and
    the validation helpers of \<open>utils.py\<close>.
  \<^item> \<open>Planner_Data\<close>, \<open>Agent_Data\<close>: the records of \<open>planner_state.py\<close> and \<open>agent_state.py\<close> with their
    dict forms, validation and round trips.
  \<^item> \<open>Runtime_Store\<close>, \<open>Runtime_Log\<close>: \<open>runtime_store.py\<close> and \<open>wal.py\<close>. The database is the record
    \<open>db\<close> with one list per table; a row is a record, a table with a key an association list. Locale
    \<open>keyed_table\<close> is the contract of the plan and context tables, \<open>append_only_log\<close> that of the log.
  \<^item> \<open>Planner_Service\<close>, \<open>Agent_Service\<close>: the repositories and services over the store.
  \<^item> \<open>Logging_Service\<close>: the facade of \<open>logging_service.py\<close>, one definition per method.
  \<^item> \<open>Tool_Log\<close>, \<open>Facade_Invariants\<close>: what the facade changes. Each tool operation is one legal step
    of one execution (\<open>exec_step\<close>); locale \<open>store_invariant\<close> lists what a property of the database must
    survive to hold after every operation; \<open>reachable\<close> worlds are those of any history of the facade.
  \<^item> \<open>Txn_Manager\<close>: \<open>txn_manager.py\<close>, the identity of a call and its execution.
  \<^item> \<open>Recovery\<close>: \<open>recovery/common.py\<close>, \<open>strategy.py\<close> and \<open>handler.py\<close>.
  \<^item> \<open>Demo_Run\<close>, \<open>Instances\<close>: a concrete run, evaluated, and the properties applied to it.
  \<^item> \<open>Contracts\<close>: what single components promise their callers.
  \<^item> \<open>Mock_Target\<close>, \<open>Target_Facts\<close>, \<open>Target_Contract\<close>: \<open>tools/mock_target.py\<close>, the remote service of the
    tests: its JSON file, the five interfaces, and what they promise a caller that retries.
  \<^item> \<open>Verifier\<close>: \<open>verifier.py\<close> over the mock target, and the recovery that asks it; \<open>Target_Demo\<close>
    applies the properties of both to a concrete store.
  \<^item> \<open>Evaluation\<close>: \<open>evaluation.py\<close>, the recorder of timing spans and the report of a run.
  \<^item> \<open>Recovery_Aids\<close>, \<open>Handoff\<close>: \<open>recovery/recovery/check_helper.py\<close>, the health checkers, the monitor
    loop of \<open>pulse_monitor.py\<close>, and the check helper asking the mock target.
  \<^item> \<open>Mock_Agent\<close>: \<open>tools/mock_agent.py\<close>, \<open>mock_store_mod.py\<close> and \<open>crash_simulator.py\<close>: histories, the agent that
    replays them, its request store and the crashes; \<open>Mock_Cli\<close>: their command lines.
  \<^item> \<open>Py_Json\<close>, \<open>Plan_Text\<close>: Python's \<open>json.loads\<close> and the parser of plan texts of \<open>planner_state.py\<close>.
  \<^item> \<open>Aids_Demo\<close>: concrete inputs for the properties of the last four items.
  \<^item> \<open>Cli\<close>, \<open>Open_Executions\<close>: the commands of \<open>cli.py\<close>, and why the audit finds no more than it should: the open
    executions of a run are on record in it. This interprets \<open>store_invariant\<close> a second time.
  \<^item> \<open>Dry_Run\<close>: \<open>recover --dry-run\<close> decides as \<open>recover\<close> does. \<open>Recovery_Facts\<close>: a recovery decides every execution
    of its run, and the timeouts that keep it from deciding any.
  \<^item> \<open>Adapters\<close>, \<open>Service_Setup\<close>: \<open>adapters/decorators.py\<close> and \<open>adapters/langchain_adaptor.py\<close>, the wrappers for agent
    libraries; how a service is configured, built on a data root and injected, and the locks of its runs.
  \<^item> \<open>Target_Cli\<close>: \<open>tools/mock_target_cli.py\<close>, the mock target as a program; each command answers as the
    tool of the same name (\<open>command_answers_as_tool\<close>).
  \<^item> \<open>Durable_Files\<close>, \<open>Json_Texts\<close>: the file writers of \<open>utils.py\<close>, \<open>mock_target.py\<close>, \<open>logging_observability.py\<close> and
    \<open>evaluation.py\<close> over a file system with failing calls and power losses, and the round trip of the three
    forms in which JSON is written.
  \<^item> \<open>System_Runs\<close>, \<open>Execution_Machine\<close>: the steps of the whole system, and the machine of open executions that
    it refines.
  \<^item> \<open>Llm_Client\<close>, \<open>Target_Mcp\<close>: \<open>tools/real_llm_api.py\<close> and \<open>tools/mock_target_mcp.py\<close>.
  \<^item> \<open>Soft_Log\<close>, \<open>Sample_Agent\<close>: \<open>example/sample_agent_openrouter_mock.py\<close>, the agent that replays a logged run
    through the facade, the transaction manager and the recovery, with injected crashes and lost writes.
  \<^item> \<open>Sample_Facts\<close>, \<open>Sample_Demo\<close>: locale \<open>replayed\<close> lists what the parts of a replay must keep; one interpretation
    makes it a run of the system, the other bounds what its target commits.
  \<^item> \<open>Crash_Sweep\<close>, \<open>Sweep_Facts\<close>: \<open>example/crash_recovery_e2e.py\<close>, the experiment that crashes the sample agent in
    every phase, and why it never counts a duplicate.
  \<^item> \<open>Live_Agent\<close>, \<open>Live_Run\<close>, \<open>Live_Facts\<close>: \<open>example/sample_agent_openrouter.py\<close>, the same agent on the models of a remote
    service: what it asks them, what it makes of their answers, and its run as a run of the system.
  \<^item> \<open>Live_Sweep\<close>: \<open>example/openrouter_crash_recovery_e2e.py\<close>, the experiment that crashes that agent.
  \<^item> \<open>Workers\<close>, \<open>Worker_Teams\<close>: \<open>execute_tool\<close> cut at its atomic operations, which run alone is \<open>execute_tool\<close> again, and
    teams of such workers that interleave with each other and with other users of the database. Locale
    \<open>worker_invariant\<close> is the contract of what a worker may rely on under interference.
  \<^item> \<open>Worker_Facts\<close>, \<open>Worker_Demo\<close>: what concurrent calls keep (two interpretations of that locale, one of
    \<open>shared_target\<close>), that each of them ends, and the interleaving in which two of them send one write.
  \<^item> \<open>Replay\<close>: the recovery of an absent write and the call that replays it, composed.
  This theory adds the runs of the whole system and the properties of all of them.

  The state. An operation is a function from a \<open>world\<close> to a result (\<open>Inl\<close> an exception, \<open>Inr\<close> a value)
  and a world: the database, whether the thread has an open transaction, how many clock readings
  and random identifiers were drawn, and whatever is outside the process. An exception keeps the
  changes made so far; only \<open>transaction\<close> takes those of the database back. The outermost operations
  are called without an open transaction. Times are microseconds; the clock is an arbitrary
  function of the number of readings, with no assumption on its order.

  What is assumed of code that is not modelled: a tool adapter, a verifier and a handoff callback
  are functions of their arguments and of the state outside; the hash returns hexadecimal digits
  (where an identifier must not be blank). SQLite is taken at its documented behaviour:
  transactions are atomic, \<open>AUTOINCREMENT\<close> numbers grow, integers have 64 bits. Floats are
  rationals with the infinities and NaN: their rounding is not modelled.

  Loops are structural recursions over lists, so that the operations are total. There are two
  exceptions: the loop of the monitor is a \<open>partial_function\<close>, whose value \<open>None\<close> is that it never ends (with a
  bound it ends, \<open>bounded_run_ends\<close>), and the JSON parser takes fuel, for which the length of the text plus one is enough
  (\<open>fuel_is_enough\<close>).

  Files are taken as a journaling file system keeps them: a power loss leaves the names of some
  moment since their directory was last flushed, and of a file that was not flushed any content; a directory that the
  program makes for a file is taken to be there after it. Of
  the errors that the interpreter itself raises the class is modelled and not always the text.

  Concurrency. The facade takes a lock per run and SQLite serialises writers, so that each of its operations is one step
  for everybody else; \<open>execute_tool\<close> is several of them. \<open>Workers\<close> cuts it there, and the theorems on teams of workers
  hold for every interleaving of these steps. Everything else is proved of sequences of operations.

  Not modelled: what happens inside one operation of the facade when threads contend for it (waiting, the busy
  timeout), the connection settings and file layout of SQLite, the parsing of command lines by \<open>argparse\<close>, the console
  and debug logs of the scripts, the directories and the streams of their child processes, protocol classes
  without code. The recursion limit and the limit on digits of Python's JSON parser are not modelled.
\<close>

section \<open>Two runs\<close>

lemma demo_system_reachable:
  "system_reachable demo_runtime demo_acked" "system_reachable demo_runtime demo_not_found"
proof -
  have start: "system_step demo_runtime demo_empty demo_started"
    unfolding demo_started_run [symmetric] demo_start_def
    by (intro system_step.operation facade_step.start demo_run_canonical)
  have empty: "db demo_empty = empty_db" "\<not> conn_open demo_empty" by (simp_all add: demo_empty_def)
  have "system_step demo_runtime demo_started demo_acked"
    using system_step.call [OF demo_run_canonical(1) demo_call_canonical, of demo_started False pay] by (simp add: demo_acked_run)
  with start empty show "system_reachable demo_runtime demo_acked"
    unfolding system_reachable_def by (meson converse_rtranclp_into_rtranclp rtranclp.rtrancl_refl)
  have "system_step demo_runtime demo_started demo_unsent"
    using system_step.call [OF demo_run_canonical(1) demo_call_canonical, of demo_started False pay_unsent] by (simp add: demo_unsent_run)
  moreover have "system_step demo_runtime demo_unsent demo_not_found"
    using system_step.recovery [OF demo_run_canonical(2), of demo_runtime demo_unsent demo_coordinator "Some 100000000"]
    by (simp add: demo_not_found_run)
  ultimately show "system_reachable demo_runtime demo_not_found"
    unfolding system_reachable_def using start empty
    by (meson converse_rtranclp_into_rtranclp rtranclp.rtrancl_refl)
qed

section \<open>Properties of all runs\<close>

text \<open>
  C1: after any history of calls, crashes and recoveries, the record of each execution is the
  replay of its events in the log: there is a record exactly when there are events, they are
  events of the record's run, their statuses go along the allowed transitions, and the last of
  them is the status on record.
\<close>

theorem execution_record_is_log_replay:
  assumes "system_reachable R w" and "enforce_execution_dedup R"
  shows "replays (events_of (db w) execution_id) (map_of (external_results (db w)) execution_id)"
  using reachable_replay [OF system_reachable_reachable [OF assms(1)] assms(2)] by (simp add: replay_ok_def)

lemma execution_record_is_log_replay_witness:
  "replays (events_of (db demo_not_found) (call_execution_id demo_runtime demo_call))
     (map_of (external_results (db demo_not_found)) (call_execution_id demo_runtime demo_call))"
  by (rule execution_record_is_log_replay [OF demo_system_reachable(2)]) (simp add: demo_runtime_def)

text \<open>
  C15: after any history the database is sound: the numbers of the log increase strictly, each
  checkpoint refers to an event of its run, each plan passes its integrity check, and each context
  has as many turns as messages and pending identifiers that are distinct and agree.
\<close>

theorem database_stays_sound:
  assumes "system_reachable R w"
  shows "log_ok (db w) \<and> checkpoints_ok (db w) \<and> plans_ok (db w) \<and> contexts_ok (db w)"
  using reachable_sound [OF system_reachable_reachable [OF assms]] by (simp add: sound_db_def)

lemma database_stays_sound_witness: "log_ok (db demo_acked) \<and> checkpoints_ok (db demo_acked)"
  using database_stays_sound [OF demo_system_reachable(1)] by blast

text \<open>
  C16: the log and the checkpoints are append-only: no step, whatever its outcome, removes or
  changes an entry.
\<close>

theorem log_is_append_only:
  assumes "system_reachable R w" and "system_step R w w'"
  shows "\<exists>events checkpoints. wal_events (db w') = wal_events (db w) @ events \<and>
    wal_checkpoints (db w') = wal_checkpoints (db w) @ checkpoints"
  using log_grows_run [OF system_step_run [OF assms(2) reachable_contexts [OF system_reachable_reachable [OF assms(1)]]]]
  by (auto simp: log_grows_def)

lemma log_is_append_only_witness:
  "\<exists>events. wal_events (db (snd (execute_tool demo_runtime False pay demo_call demo_acked))) = wal_events (db demo_acked) @ events"
  using log_is_append_only [OF demo_system_reachable(1) system_step.call [OF demo_run_canonical(1) demo_call_canonical, of _ False pay]]
  by blast

text \<open>
  C39: in every database the system can reach, the audit of a run changes nothing and reports exactly the
  pending executions that are settled on record: no execution without a record, no intent without
  a record and no checkpoint ahead of the log. Its exit code is 0 when there are none, and 1 otherwise.
\<close>

theorem audit_finds_only_settled_pendings:
  assumes "system_reachable R w" and "enforce_execution_dedup R" and "canonical run_id"
    and "cmd_audit R True run_id w = (Inr (code, Json (JObj out)), w')"
  shows "\<exists>pending. list_pending_executions R run_id w = (Inr pending, w) \<and> w' = w \<and>
    dict_get out ''violations'' = str_list (map violation_text (List.map_filter (settled_pending (db w)) pending)) \<and>
    code = (if List.map_filter (settled_pending (db w)) pending = [] then 0 else 1)"
proof -
  obtain a v where a: "run_audit R run_id w = (Inr a, v)" and v: "w' = v"
    and out: "code = (if aud_violations a = [] then 0 else 1)"
      "dict_get out ''violations'' = str_list (map violation_text (aud_violations a))"
    using assms(4) by (auto simp: cmd_audit_def print_as_def audit_to_dict_def elim!: bind_InrE)
  from audit_finds [OF system_reachable_reachable [OF assms(1)] assms(2,3) a] show ?thesis
    using v out by auto
qed

lemma demo_audited: "\<not> isl (fst (service_list_results demo_runtime ''r1'' demo_acked))"
    "list_pending_executions demo_runtime ''r1'' demo_acked = (Inr [], demo_acked)"
proof -
  show "\<not> isl (fst (service_list_results demo_runtime ''r1'' demo_acked))" by code_simp
  have "fst (list_pending_executions demo_runtime ''r1'' demo_acked) = Inr []" by code_simp
  then obtain v where v: "list_pending_executions demo_runtime ''r1'' demo_acked = (Inr [], v)" by (metis prod.collapse)
  have "contexts_ok (db demo_acked)" using system_reachable_reachable [OF demo_system_reachable(1)] by (rule reachable_contexts)
  with v list_pending_InrD [OF v] show "list_pending_executions demo_runtime ''r1'' demo_acked = (Inr [], demo_acked)" by simp
qed

lemma audit_finds_only_settled_pendings_witness:
  "\<exists>out. cmd_audit demo_runtime True ''r1'' demo_acked = (Inr (0, Json (JObj out)), demo_acked)"
proof -
  obtain rs v where rs: "service_list_results demo_runtime ''r1'' demo_acked = (Inr rs, v)"
    using demo_audited(1) returned by metis
  moreover have "v = demo_acked" using service_list_results_InrD [OF rs] by blast
  ultimately obtain code out0 where "cmd_audit demo_runtime True ''r1'' demo_acked = (Inr (code, out0), demo_acked)"
    using audit_returns [OF _ demo_audited(2) demo_run_canonical(2)] by blast
  then obtain out where c: "cmd_audit demo_runtime True ''r1'' demo_acked = (Inr (code, Json (JObj out)), demo_acked)"
    by (auto simp: cmd_audit_def print_as_def elim!: bind_InrE)
  have "enforce_execution_dedup demo_runtime" by (simp add: demo_runtime_def)
  from audit_finds_only_settled_pendings [OF demo_system_reachable(1) this demo_run_canonical(2) c] c
  show ?thesis by (auto simp: demo_audited(2) map_filter_def)
qed

text \<open>
  C40: in every database the system can reach, for a run that has a context, whatever decisions a
  recovery from the command line would return, the dry run returns the same decisions, up to
  their order, and changes nothing.
\<close>

theorem dry_run_predicts_recovery:
  assumes "system_reachable R w" and "enforce_execution_dedup R" and "canonical run_id"
    and "fresh_recovery R run_id wait w = (Inr decisions, w')" and "snd (outside w) = []" and "context_view (db w) run_id \<noteq> None"
  shows "\<exists>predicted v. dry_run_decisions R run_id wait w = (Inr predicted, v) \<and> mset predicted = mset decisions \<and> db v = db w"
  by (rule dry_run_decides_alike [OF system_reachable_reachable [OF assms(1)] assms(2-6)])

lemma demo_fresh_recovery: "\<not> isl (fst (fresh_recovery demo_runtime ''r1'' (Fin 5) demo_acked))"
    "context_view (db demo_acked) ''r1'' \<noteq> None"
  by code_simp+

lemma dry_run_predicts_recovery_witness:
  "\<exists>decisions w' predicted v. fresh_recovery demo_runtime ''r1'' (Fin 5) demo_acked = (Inr decisions, w') \<and>
     dry_run_decisions demo_runtime ''r1'' (Fin 5) demo_acked = (Inr predicted, v) \<and> mset predicted = mset decisions"
proof -
  obtain decisions w' where r: "fresh_recovery demo_runtime ''r1'' (Fin 5) demo_acked = (Inr decisions, w')"
    using demo_fresh_recovery(1) returned by metis
  have "enforce_execution_dedup demo_runtime" "snd (outside demo_acked) = []"
    by (simp_all add: demo_runtime_def demo_acked_def)
  from dry_run_predicts_recovery [OF demo_system_reachable(1) this(1) demo_run_canonical(2) r this(2) demo_fresh_recovery(2)] r
  show ?thesis by blast
qed

text \<open>
  C2: seen through the runs and statuses of its executions, the system is the abstract machine: whatever
  steps it takes are steps of the machine, which opens an execution once, in one run, and moves it
  only along the allowed transitions.
\<close>

theorem system_refines_execution_machine:
  assumes "system_reachable R w" and "enforce_execution_dedup R" and "(system_step R)\<^sup>*\<^sup>* w w'"
  shows "machine_step\<^sup>*\<^sup>* (execution_table (db w)) (execution_table (db w'))"
  by (rule system_run_machine [OF assms(3) system_reachable_reachable [OF assms(1)] assms(2)])

lemma system_refines_execution_machine_witness:
  "machine_step\<^sup>*\<^sup>* (execution_table (db demo_acked))
     (execution_table (db (snd (execute_tool demo_runtime False pay demo_call demo_acked))))"
proof -
  have "enforce_execution_dedup demo_runtime" by (simp add: demo_runtime_def)
  moreover have "(system_step demo_runtime)\<^sup>*\<^sup>* demo_acked (snd (execute_tool demo_runtime False pay demo_call demo_acked))"
    by (rule r_into_rtranclp [where r = "system_step demo_runtime"], rule system_step.call [OF demo_run_canonical(1) demo_call_canonical])
  ultimately show ?thesis by (rule system_refines_execution_machine [OF demo_system_reachable(1)])
qed

text \<open>
  C3: a commitment is final: whatever the system does after an execution is on record as committed,
  by its response or by the verifier, it stays so, in the same run.
\<close>

theorem commitment_is_final:
  assumes "system_reachable R w" and "enforce_execution_dedup R" and "(system_step R)\<^sup>*\<^sup>* w w'"
    and "execution_table (db w) execution_id = Some (run_id, s)" and "is_committed_status s"
  shows "\<exists>s'. execution_table (db w') execution_id = Some (run_id, s') \<and> is_committed_status s'"
  using machine_keeps [OF system_run_machine [OF assms(3) system_reachable_reachable [OF assms(1)] assms(2)] committed_closed assms(4)]
    assms(5) by (auto simp: is_committed_status_def)

lemma demo_committed: "execution_table (db demo_acked) (call_execution_id demo_runtime demo_call) = Some (''r1'', ACKED)"
  by code_simp

lemma commitment_is_final_witness:
  "\<exists>s'. execution_table (db (snd (recover_run demo_runtime demo_coordinator ''r1'' None demo_acked)))
     (call_execution_id demo_runtime demo_call) = Some (''r1'', s') \<and> is_committed_status s'"
proof -
  have "enforce_execution_dedup demo_runtime" "is_committed_status ACKED"
    by (simp_all add: demo_runtime_def is_committed_status_def)
  moreover have "(system_step demo_runtime)\<^sup>*\<^sup>* demo_acked (snd (recover_run demo_runtime demo_coordinator ''r1'' None demo_acked))"
    by (rule r_into_rtranclp [where r = "system_step demo_runtime"], rule system_step.recovery [OF demo_run_canonical(2)])
  ultimately show ?thesis using commitment_is_final [OF demo_system_reachable(1) _ _ demo_committed] by blast
qed

section \<open>A write that is committed twice\<close>

text \<open>
  C14: a payment that timed out before it was sent is found missing by the recovery and replayed;
  the replay pays, but its response is lost. No later recovery asks the target again: the next
  one decides to replay, and the payment is made a second time.
\<close>

theorem replay_can_commit_twice:
  "let w1 = snd (execute_tool demo_runtime False pay_unsent demo_call demo_started);
       w2 = snd (recover_run demo_runtime demo_coordinator ''r1'' (Some 100000000) w1);
       w3 = snd (execute_tool demo_runtime False pay_lost demo_call w2);
       (decisions, w4) = recover_run demo_runtime demo_coordinator ''r1'' (Some 200000000) w3;
       w5 = snd (execute_tool demo_runtime False pay demo_call w4)
   in outside w1 = (0, []) \<and> outside w3 = (1, []) \<and>
      (case decisions of Inr ds \<Rightarrow> map dec_action ds = [REPLAY] | Inl e \<Rightarrow> False) \<and> outside w5 = (2, [])"
proof -
  have "(case recover_run demo_runtime demo_coordinator ''r1'' (Some 200000000) demo_lost_again of
      (decisions, w4) \<Rightarrow> (case decisions of Inr ds \<Rightarrow> map dec_action ds = [REPLAY] | Inl e \<Rightarrow> False) \<and>
        outside (snd (execute_tool demo_runtime False pay demo_call w4)) = (2, []))" by code_simp
  then show ?thesis
    by (simp add: Let_def demo_unsent_run demo_not_found_run demo_lost_again_run demo_outside split: prod.splits)
qed

end
